(* ===== verification/Egg_Prelude.thy ===== *)
theory Egg_Prelude
  imports Main "HOL-Library.Char_ord" "HOL-Library.List_Lexorder" "HOL-Library.Sublist"
    "HOL-Library.AList"
begin

text \<open>
  Shared vocabulary of the development: the error values of \<^verbatim>\<open>app/errors.py\<close>, the
  Python string and integer primitives the sources use (\<open>strip\<close>, \<open>lower\<close>, \<open>split\<close>,
  \<open>partition\<close>, \<open>join\<close>, \<open>int()\<close>, \<open>repr\<close>), insertion-ordered dictionaries as association
  lists, and the generic facts on them.

  A Python \<open>str\<close> is modelled by \<open>string\<close>, one \<open>char\<close> per code point, for the code points
  0 to 255 (Latin-1); a Python \<open>bytes\<close> is a \<open>string\<close> too, one \<open>char\<close> per byte.
\<close>

named_theorems egg_simps \<open>characteristic equations used to evaluate the model\<close>
named_theorems egg_intros \<open>introduction rules for the well-formedness predicates\<close>

section \<open>Results\<close>

text \<open>A computation that may raise returns \<open>Inl\<close> the exception or \<open>Inr\<close> the value.\<close>

definition bind_r :: "'e + 'a \<Rightarrow> ('a \<Rightarrow> 'e + 'b) \<Rightarrow> 'e + 'b" where
  "bind_r r f = (case r of Inl e \<Rightarrow> Inl e | Inr x \<Rightarrow> f x)"

lemma bind_r_simps [simp]:
  "bind_r (Inl e) f = Inl e"
  "bind_r (Inr x) f = f x"
  by (simp_all add: bind_r_def)

lemma bind_r_Inr_iff [egg_simps]:
  "bind_r r f = Inr y \<longleftrightarrow> (\<exists>x. r = Inr x \<and> f x = Inr y)"
  by (cases r) auto

lemma bind_r_Inl_iff [egg_simps]:
  "bind_r r f = Inl e \<longleftrightarrow> r = Inl e \<or> (\<exists>x. r = Inr x \<and> f x = Inl e)"
  by (cases r) auto

definition map_r :: "('a \<Rightarrow> 'b) \<Rightarrow> 'e + 'a \<Rightarrow> 'e + 'b" where
  "map_r f r = bind_r r (\<lambda>x. Inr (f x))"

lemma map_r_simps [simp]:
  "map_r f (Inl e) = Inl e"
  "map_r f (Inr x) = Inr (f x)"
  by (simp_all add: map_r_def)

lemma map_r_Inr_iff [egg_simps]: "map_r f r = Inr y \<longleftrightarrow> (\<exists>x. r = Inr x \<and> y = f x)"
  by (cases r) auto

lemma map_r_Inl_iff [egg_simps]: "map_r f r = Inl e \<longleftrightarrow> r = Inl e"
  by (cases r) auto

text \<open>Running a list of fallible steps stops at the first exception, as a loop does.\<close>

fun traverse_r :: "('a \<Rightarrow> 'e + 'b) \<Rightarrow> 'a list \<Rightarrow> 'e + 'b list" where
  "traverse_r f [] = Inr []"
| "traverse_r f (x # xs) = bind_r (f x) (\<lambda>y. map_r (\<lambda>ys. y # ys) (traverse_r f xs))"

lemma traverse_r_Inr_iff:
  "traverse_r f xs = Inr ys \<longleftrightarrow> list_all2 (\<lambda>x y. f x = Inr y) xs ys"
  by (induction xs arbitrary: ys) (auto simp: egg_simps list_all2_Cons1)

lemma traverse_r_length: "traverse_r f xs = Inr ys \<Longrightarrow> length ys = length xs"
  by (auto simp: traverse_r_Inr_iff dest: list_all2_lengthD)

lemma traverse_r_Inl: "traverse_r f xs = Inl e \<Longrightarrow> \<exists>x \<in> set xs. f x = Inl e"
  by (induction xs) (auto simp: egg_simps)

section \<open>Strings\<close>

abbreviation starts_with :: "string \<Rightarrow> string \<Rightarrow> bool" where
  "starts_with p s \<equiv> prefix p s"

abbreviation ends_with :: "string \<Rightarrow> string \<Rightarrow> bool" where
  "ends_with p s \<equiv> suffix p s"

text \<open>\<open>str.isspace\<close> on a code point below 256.\<close>

definition is_space :: "char \<Rightarrow> bool" where
  "is_space c = (let n = (of_char c :: nat) in
     (9 \<le> n \<and> n \<le> 13) \<or> (28 \<le> n \<and> n \<le> 32) \<or> n = 133 \<or> n = 160)"

definition rstrip_by :: "('a \<Rightarrow> bool) \<Rightarrow> 'a list \<Rightarrow> 'a list" where
  "rstrip_by p s = rev (dropWhile p (rev s))"

definition strip_by :: "('a \<Rightarrow> bool) \<Rightarrow> 'a list \<Rightarrow> 'a list" where
  "strip_by p s = rstrip_by p (dropWhile p s)"

definition py_strip :: "string \<Rightarrow> string" where
  "py_strip s = strip_by is_space s"

definition strip_chars :: "string \<Rightarrow> string \<Rightarrow> string" where
  "strip_chars cs s = strip_by (\<lambda>c. c \<in> set cs) s"

definition rstrip_chars :: "string \<Rightarrow> string \<Rightarrow> string" where
  "rstrip_chars cs s = rstrip_by (\<lambda>c. c \<in> set cs) s"

lemma rstrip_by_Nil [simp]: "rstrip_by p [] = []"
  by (simp add: rstrip_by_def)

lemma strip_by_Nil [simp]: "strip_by p [] = []"
  by (simp add: strip_by_def)

lemma py_strip_Nil [simp]: "py_strip [] = []"
  by (simp add: py_strip_def)

lemma set_rstrip_by: "set (rstrip_by p s) \<subseteq> set s"
  by (auto simp: rstrip_by_def dest: set_dropWhileD)

lemma set_strip_by: "set (strip_by p s) \<subseteq> set s"
  using set_rstrip_by [of p "dropWhile p s"] by (auto simp: strip_by_def dest: set_dropWhileD)

lemma length_rstrip_by: "length (rstrip_by p s) \<le> length s"
  using length_dropWhile_le [of p "rev s"] by (simp add: rstrip_by_def)

lemma length_strip_by: "length (strip_by p s) \<le> length s"
  using length_rstrip_by [of p "dropWhile p s"] length_dropWhile_le [of p s]
  by (simp add: strip_by_def)

lemma rstrip_by_idem [simp]: "rstrip_by p (rstrip_by p s) = rstrip_by p s"
  by (simp add: rstrip_by_def dropWhile_idem)

lemma rstrip_by_id: "s = [] \<or> \<not> p (last s) \<Longrightarrow> rstrip_by p s = s"
  by (cases s rule: rev_cases) (auto simp: rstrip_by_def)

lemma last_rstrip_by: "rstrip_by p s \<noteq> [] \<Longrightarrow> \<not> p (last (rstrip_by p s))"
  using hd_dropWhile [of p "rev s"] by (simp add: rstrip_by_def last_rev)

lemma dropWhile_rstrip_by:
  "\<not> p x \<Longrightarrow> rstrip_by p (x # s) = x # rstrip_by p s"
  by (simp add: rstrip_by_def dropWhile_append)

lemma hd_strip_by: "strip_by p s \<noteq> [] \<Longrightarrow> \<not> p (hd (strip_by p s))"
proof -
  assume ne: "strip_by p s \<noteq> []"
  then have dn: "dropWhile p s \<noteq> []" by (metis rstrip_by_Nil strip_by_def)
  then obtain x t where xt: "dropWhile p s = x # t" by (cases "dropWhile p s") auto
  with hd_dropWhile [OF dn] have "\<not> p x" by simp
  then show ?thesis by (simp add: strip_by_def xt dropWhile_rstrip_by)
qed

lemma strip_by_idem [simp]: "strip_by p (strip_by p s) = strip_by p s"
proof (cases "strip_by p s = []")
  case False
  then have "dropWhile p (strip_by p s) = strip_by p s"
    using hd_strip_by [OF False] by (cases "strip_by p s") auto
  then show ?thesis by (simp add: strip_by_def)
qed simp

lemma py_strip_idem [simp]: "py_strip (py_strip s) = py_strip s"
  by (simp add: py_strip_def)

text \<open>\<open>str.lower\<close> on Latin-1 code points.\<close>

definition lower_char :: "char \<Rightarrow> char" where
  "lower_char c = (let n = (of_char c :: nat) in
     if (65 \<le> n \<and> n \<le> 90) \<or> (192 \<le> n \<and> n \<le> 222 \<and> n \<noteq> 215) then char_of (n + 32) else c)"

definition py_lower :: "string \<Rightarrow> string" where
  "py_lower s = map lower_char s"

lemma py_lower_simps [simp]:
  "py_lower [] = []" "py_lower (c # s) = lower_char c # py_lower s"
  "length (py_lower s) = length s"
  by (simp_all add: py_lower_def)

text \<open>\<open>s.split(c)\<close> for a one-character separator.\<close>

fun split_char :: "char \<Rightarrow> string \<Rightarrow> string list" where
  "split_char c [] = [[]]"
| "split_char c (x # s) =
     (if x = c then [] # split_char c s
      else (case split_char c s of [] \<Rightarrow> [[x]] | w # ws \<Rightarrow> (x # w) # ws))"

text \<open>\<open>s.split(sep)\<close> for a non-empty separator (Python raises ValueError on an empty one).\<close>

function split_acc :: "string \<Rightarrow> string \<Rightarrow> string \<Rightarrow> string list" where
  "split_acc sep acc [] = [rev acc]"
| "split_acc sep acc (c # cs) =
     (if sep \<noteq> [] \<and> prefix sep (c # cs)
      then rev acc # split_acc sep [] (drop (length sep) (c # cs))
      else split_acc sep (c # acc) cs)"
  by pat_completeness auto
termination
  by (relation "measure (\<lambda>(sep, acc, s). length s)") auto

definition split_str :: "string \<Rightarrow> string \<Rightarrow> string list" where
  "split_str sep s = split_acc sep [] s"

text \<open>\<open>sep.join(xs)\<close>.\<close>

fun join :: "string \<Rightarrow> string list \<Rightarrow> string" where
  "join sep [] = []"
| "join sep [x] = x"
| "join sep (x # y # ys) = x @ sep @ join sep (y # ys)"

text \<open>\<open>s.partition(c)\<close>: what is before the first \<open>c\<close>, whether there is one, what follows.\<close>

definition partition_char :: "char \<Rightarrow> string \<Rightarrow> string \<times> bool \<times> string" where
  "partition_char c s =
     (takeWhile (\<lambda>x. x \<noteq> c) s, c \<in> set s, tl (dropWhile (\<lambda>x. x \<noteq> c) s))"

text \<open>\<open>sub in s\<close>, and \<open>s.replace(old, new)\<close> for a non-empty \<open>old\<close>.\<close>

fun contains_str :: "string \<Rightarrow> string \<Rightarrow> bool" where
  "contains_str sub [] = (sub = [])"
| "contains_str sub (c # cs) = (prefix sub (c # cs) \<or> contains_str sub cs)"

definition replace_str :: "string \<Rightarrow> string \<Rightarrow> string \<Rightarrow> string" where
  "replace_str old new s = join new (split_str old s)"

lemma contains_str_iff: "contains_str sub s \<longleftrightarrow> sublist sub s"
  by (induction s) (auto simp: sublist_Cons_right)

lemma split_char_ne [simp]: "split_char c s \<noteq> []"
  by (induction s) (auto split: list.splits)

lemma join_split_char [simp]: "join [c] (split_char c s) = s"
proof (induction s)
  case (Cons x s)
  show ?case
  proof (cases "split_char c s")
    case Nil
    then show ?thesis by simp
  next
    case (Cons w ws)
    with Cons.IH show ?thesis by (cases ws) auto
  qed
qed simp

lemma split_char_no_sep: "w \<in> set (split_char c s) \<Longrightarrow> c \<notin> set w"
  by (induction s arbitrary: w) (auto split: list.splits if_splits)

lemma split_char_not_in: "c \<notin> set s \<Longrightarrow> split_char c s = [s]"
  by (induction s) auto

lemma split_char_append:
  "c \<notin> set w \<Longrightarrow> split_char c (w @ c # s) = w # split_char c s"
  by (induction w) auto

lemma split_char_join:
  "xs \<noteq> [] \<Longrightarrow> \<forall>x \<in> set xs. c \<notin> set x \<Longrightarrow> split_char c (join [c] xs) = xs"
  by (induction "[c]" xs rule: join.induct) (auto simp: split_char_not_in split_char_append)

lemma join_snoc_Nil: "xs \<noteq> [] \<Longrightarrow> join sep (xs @ [[]]) = join sep xs @ sep"
proof (induction sep xs rule: join.induct)
  case (3 sep x y ys)
  then show ?case by simp
qed simp_all

lemma partition_char_join:
  "partition_char c s = (a, True, b) \<Longrightarrow> s = a @ c # b \<and> c \<notin> set a"
  by (induction s arbitrary: a b) (auto simp: partition_char_def split: if_splits)

section \<open>Dictionaries\<close>

text \<open>
  A Python dict is an association list in insertion order: \<open>d.get(k)\<close> is \<open>map_of d k\<close> and
  \<open>d[k] = v\<close> is \<open>AList.update k v d\<close>, which keeps the position of a key that is present and
  appends a new one.
\<close>

abbreviation dict_get :: "('k \<times> 'v) list \<Rightarrow> 'k \<Rightarrow> 'v option" where
  "dict_get d k \<equiv> map_of d k"

abbreviation dict_set :: "'k \<Rightarrow> 'v \<Rightarrow> ('k \<times> 'v) list \<Rightarrow> ('k \<times> 'v) list" where
  "dict_set k v d \<equiv> AList.update k v d"

abbreviation dict_pop :: "'k \<Rightarrow> ('k \<times> 'v) list \<Rightarrow> ('k \<times> 'v) list" where
  "dict_pop k d \<equiv> AList.delete k d"

abbreviation dict_keys :: "('k \<times> 'v) list \<Rightarrow> 'k list" where
  "dict_keys d \<equiv> map fst d"

text \<open>\<open>dict(pairs)\<close>: later pairs win, the first occurrence fixes the position.\<close>

definition dict_of :: "('k \<times> 'v) list \<Rightarrow> ('k \<times> 'v) list" where
  "dict_of ps = fold (\<lambda>(k, v) d. dict_set k v d) ps []"

lemma dict_get_set [simp]: "dict_get (dict_set k v d) k' = (if k' = k then Some v else dict_get d k')"
  by (simp add: update_conv')

lemma dict_keys_set [simp]: "set (dict_keys (dict_set k v d)) = insert k (set (dict_keys d))"
  using dom_update [of k v d] by (simp add: dom_map_of_conv_image_fst)

lemma distinct_dict_set: "distinct (dict_keys d) \<Longrightarrow> distinct (dict_keys (dict_set k v d))"
  by (rule distinct_update)

lemma set_dict_set: "x \<in> set (dict_set k v d) \<Longrightarrow> x = (k, v) \<or> x \<in> set d"
  by (induction d) (auto split: if_splits)

lemma dict_set_fresh: "k \<notin> set (dict_keys d) \<Longrightarrow> dict_set k v d = d @ [(k, v)]"
  by (induction d) auto

lemma fold_dict_set_distinct:
  "distinct (dict_keys (d @ ps)) \<Longrightarrow> fold (\<lambda>(k, v) d. dict_set k v d) ps d = d @ ps"
  by (induction ps arbitrary: d) (auto simp: dict_set_fresh)

lemma dict_of_distinct: "distinct (dict_keys ps) \<Longrightarrow> dict_of ps = ps"
  using fold_dict_set_distinct [of "[]" ps] by (simp add: dict_of_def)

section \<open>Numbers as text\<close>

definition digit_char :: "nat \<Rightarrow> char" where
  "digit_char n = char_of (48 + n)"

definition is_digit :: "char \<Rightarrow> bool" where
  "is_digit c = (let n = (of_char c :: nat) in 48 \<le> n \<and> n \<le> 57)"

definition digit_val :: "char \<Rightarrow> nat" where
  "digit_val c = of_char c - 48"

fun str_of_nat :: "nat \<Rightarrow> string" where
  "str_of_nat n = (if n < 10 then [digit_char n] else str_of_nat (n div 10) @ [digit_char (n mod 10)])"

declare str_of_nat.simps [simp del]

definition str_of_int :: "int \<Rightarrow> string" where
  "str_of_int i = (if i < 0 then CHR ''-'' # str_of_nat (nat (- i)) else str_of_nat (nat i))"

definition nat_of_digits :: "string \<Rightarrow> nat" where
  "nat_of_digits s = foldl (\<lambda>n c. 10 * n + digit_val c) 0 s"

lemma of_char_digit_char [simp]: "n < 10 \<Longrightarrow> (of_char (digit_char n) :: nat) = 48 + n"
  by (simp add: digit_char_def of_char_of)

lemma is_digit_digit_char [simp]: "n < 10 \<Longrightarrow> is_digit (digit_char n)"
  by (simp add: is_digit_def)

lemma digit_val_digit_char [simp]: "n < 10 \<Longrightarrow> digit_val (digit_char n) = n"
  by (simp add: digit_val_def)

lemma str_of_nat_ne [simp]: "str_of_nat n \<noteq> []"
  by (subst str_of_nat.simps) simp

lemma str_of_nat_digits: "c \<in> set (str_of_nat n) \<Longrightarrow> is_digit c"
proof (induction n arbitrary: c rule: str_of_nat.induct)
  case (1 n)
  then show ?case
    by (cases "n < 10") (auto simp: str_of_nat.simps [of n])
qed

lemma nat_of_digits_append [simp]:
  "nat_of_digits (s @ [c]) = 10 * nat_of_digits s + digit_val c"
  by (simp add: nat_of_digits_def)

lemma nat_of_digits_str_of_nat [simp]: "nat_of_digits (str_of_nat n) = n"
proof (induction n rule: str_of_nat.induct)
  case (1 n)
  show ?case
  proof (cases "n < 10")
    case True
    then show ?thesis by (simp add: str_of_nat.simps [of n] nat_of_digits_def)
  next
    case False
    with 1 show ?thesis by (simp add: str_of_nat.simps [of n])
  qed
qed

lemma str_of_nat_inject [simp]: "str_of_nat m = str_of_nat n \<longleftrightarrow> m = n"
  by (metis nat_of_digits_str_of_nat)

lemma char_of_zero_digit: "char_of (48 :: nat) = CHR ''0''"
proof -
  have "(48 :: nat) = of_char (CHR ''0'')" by simp
  then show ?thesis by (simp only: char_of_char)
qed

lemma digit_char_eq_zero: "n < 10 \<Longrightarrow> digit_char n = CHR ''0'' \<longleftrightarrow> n = 0"
proof
  assume "n < 10" and "digit_char n = CHR ''0''"
  then have "n = digit_val (CHR ''0'')" by (metis digit_val_digit_char)
  then show "n = 0" by (simp add: digit_val_def)
qed (simp add: digit_char_def char_of_zero_digit)

lemma hd_str_of_nat_zero: "hd (str_of_nat n) = CHR ''0'' \<longleftrightarrow> n = 0"
proof (induction n rule: str_of_nat.induct)
  case (1 n)
  then show ?case
    by (cases "n < 10") (auto simp: str_of_nat.simps [of n] digit_char_eq_zero)
qed

end
