(* ===== verification/Py_Json.thy ===== *)
theory Py_Json
  imports Egg_Prelude
begin

text \<open>
  The JSON values the program passes around and the two standard-library codecs it applies to
  them: \<open>json.dumps\<close> / \<open>json.loads\<close> here, and URL-safe Base64 in the theory \<open>Py_Base64\<close>. A
  Python value that came from or goes to JSON is a \<open>json\<close>; a float is carried by its text, so
  \<open>JReal ''1.5''\<close> is the float whose \<open>repr\<close> is \<open>1.5\<close>.
\<close>

section \<open>Values\<close>

datatype json =
    JNull
  | JBool bool
  | JInt int
  | JReal string
  | JStr string
  | JList "json list"
  | JDict "(string \<times> json) list"

text \<open>\<open>bool(v)\<close>.\<close>

fun truthy :: "json \<Rightarrow> bool" where
  "truthy JNull = False"
| "truthy (JBool b) = b"
| "truthy (JInt i) = (i \<noteq> 0)"
| "truthy (JReal t) = (t \<noteq> ''0.0'' \<and> t \<noteq> ''-0.0'')"
| "truthy (JStr s) = (s \<noteq> [])"
| "truthy (JList xs) = (xs \<noteq> [])"
| "truthy (JDict d) = (d \<noteq> [])"

text \<open>\<open>d.get(k)\<close> on a JSON object, with \<open>None\<close> (JSON null) for an absent key.\<close>

definition jget :: "(string \<times> json) list \<Rightarrow> string \<Rightarrow> json" where
  "jget d k = (case dict_get d k of None \<Rightarrow> JNull | Some v \<Rightarrow> v)"

lemma jget_simps [simp]:
  "jget [] k = JNull"
  "jget ((k', v) # d) k = (if k = k' then v else jget d k)"
  by (simp_all add: jget_def)

lemma jget_set [simp]: "jget (dict_set k v d) k' = (if k' = k then v else jget d k')"
  by (simp add: jget_def)

text \<open>\<open>repr(s)\<close> of a string and \<open>str(v)\<close> of a value.\<close>

definition hex_digit :: "nat \<Rightarrow> char" where
  "hex_digit n = (if n < 10 then char_of (48 + n) else char_of (87 + n))"

definition hex2 :: "nat \<Rightarrow> string" where
  "hex2 n = [hex_digit (n div 16), hex_digit (n mod 16)]"

definition repr_char :: "char \<Rightarrow> char \<Rightarrow> string" where
  "repr_char q c = (let n = (of_char c :: nat) in
     if c = q \<or> n = 92 then [CHR 0x5C, c]
     else if n = 10 then [CHR 0x5C, CHR ''n'']
     else if n = 13 then [CHR 0x5C, CHR ''r'']
     else if n = 9 then [CHR 0x5C, CHR ''t'']
     else if n < 32 \<or> (127 \<le> n \<and> n \<le> 160) \<or> n = 173 then [CHR 0x5C, CHR ''x''] @ hex2 n
     else [c])"

definition py_repr :: "string \<Rightarrow> string" where
  "py_repr s = (let q = (if CHR 0x27 \<in> set s \<and> CHR 0x22 \<notin> set s then CHR 0x22 else CHR 0x27) in
     [q] @ concat (map (repr_char q) s) @ [q])"

fun json_repr :: "json \<Rightarrow> string" where
  "json_repr JNull = ''None''"
| "json_repr (JBool b) = (if b then ''True'' else ''False'')"
| "json_repr (JInt i) = str_of_int i"
| "json_repr (JReal t) = t"
| "json_repr (JStr s) = py_repr s"
| "json_repr (JList xs) = ''['' @ join '', '' (map json_repr xs) @ '']''"
| "json_repr (JDict d) = ''{'' @ join '', '' (map (\<lambda>(k, v). py_repr k @ '': '' @ json_repr v) d) @ ''}''"

definition json_str :: "json \<Rightarrow> string" where
  "json_str v = (case v of JStr s \<Rightarrow> s | _ \<Rightarrow> json_repr v)"

section \<open>\<open>json.dumps\<close>\<close>

text \<open>The string escapes of \<open>ensure_ascii=True\<close>: every result character is printable ASCII.\<close>

definition esc_char :: "char \<Rightarrow> string" where
  "esc_char c = (let n = (of_char c :: nat) in
     if c = CHR 0x22 \<or> c = CHR 0x5C then [CHR 0x5C, c]
     else if c = CHR 0x0A then [CHR 0x5C, CHR ''n'']
     else if c = CHR 0x0D then [CHR 0x5C, CHR ''r'']
     else if c = CHR 0x09 then [CHR 0x5C, CHR ''t'']
     else if c = CHR 0x0C then [CHR 0x5C, CHR ''f'']
     else if c = CHR 0x08 then [CHR 0x5C, CHR ''b'']
     else if 32 \<le> n \<and> n \<le> 126 then [c]
     else [CHR 0x5C, CHR ''u'', CHR ''0'', CHR ''0''] @ hex2 n)"

definition dump_str :: "string \<Rightarrow> string" where
  "dump_str s = [CHR 0x22] @ concat (map esc_char s) @ [CHR 0x22]"

fun dumps :: "string \<Rightarrow> string \<Rightarrow> json \<Rightarrow> string" where
  "dumps isep ksep JNull = ''null''"
| "dumps isep ksep (JBool b) = (if b then ''true'' else ''false'')"
| "dumps isep ksep (JInt i) = str_of_int i"
| "dumps isep ksep (JReal t) = t"
| "dumps isep ksep (JStr s) = dump_str s"
| "dumps isep ksep (JList xs) = ''['' @ join isep (map (dumps isep ksep) xs) @ '']''"
| "dumps isep ksep (JDict d) =
     ''{'' @ join isep (map (\<lambda>(k, v). dump_str k @ ksep @ dumps isep ksep v) d) @ ''}''"

text \<open>\<open>json.dumps(v)\<close> and \<open>json.dumps(v, separators=(",", ":"))\<close>.\<close>

abbreviation json_dumps :: "json \<Rightarrow> string" where
  "json_dumps \<equiv> dumps '', '' '': ''"

abbreviation json_dumps_compact :: "json \<Rightarrow> string" where
  "json_dumps_compact \<equiv> dumps '','' '':''"

text \<open>\<open>sort_keys=True\<close>: the entries of every object by ascending key.\<close>

fun sort_keys :: "json \<Rightarrow> json" where
  "sort_keys (JList xs) = JList (map sort_keys xs)"
| "sort_keys (JDict d) = JDict (sort_key fst (map (\<lambda>(k, v). (k, sort_keys v)) d))"
| "sort_keys v = v"

section \<open>\<open>json.loads\<close>\<close>

definition json_ws :: "char \<Rightarrow> bool" where
  "json_ws c \<longleftrightarrow> c \<in> {CHR '' '', CHR 0x09, CHR 0x0A, CHR 0x0D}"

abbreviation skip_ws :: "string \<Rightarrow> string" where
  "skip_ws s \<equiv> dropWhile json_ws s"

definition hex_val :: "char \<Rightarrow> nat option" where
  "hex_val c = (let n = (of_char c :: nat) in
     if 48 \<le> n \<and> n \<le> 57 then Some (n - 48)
     else if 97 \<le> n \<and> n \<le> 102 then Some (n - 87)
     else if 65 \<le> n \<and> n \<le> 70 then Some (n - 55)
     else None)"

text \<open>
  A four-digit escape. Code points above 255 are outside the modelled strings and are
  refused here.
\<close>

definition unicode_escape :: "char \<Rightarrow> char \<Rightarrow> char \<Rightarrow> char \<Rightarrow> char option" where
  "unicode_escape a b c d =
     (case (hex_val a, hex_val b, hex_val c, hex_val d) of
        (Some a', Some b', Some c', Some d') \<Rightarrow>
          (if a' = 0 \<and> b' = 0 then Some (char_of (16 * c' + d')) else None)
      | _ \<Rightarrow> None)"

definition simple_escape :: "char \<Rightarrow> char option" where
  "simple_escape c =
     (if c = CHR 0x22 \<or> c = CHR 0x5C \<or> c = CHR ''/'' then Some c
      else if c = CHR ''b'' then Some (CHR 0x08)
      else if c = CHR ''f'' then Some (CHR 0x0C)
      else if c = CHR ''n'' then Some (CHR 0x0A)
      else if c = CHR ''r'' then Some (CHR 0x0D)
      else if c = CHR ''t'' then Some (CHR 0x09)
      else None)"

definition push_char :: "char \<Rightarrow> (string \<times> string) option \<Rightarrow> (string \<times> string) option" where
  "push_char c r = map_option (\<lambda>(t, rest). (c # t, rest)) r"

lemma push_char_simps [simp]:
  "push_char c None = None"
  "push_char c (Some (t, r)) = Some (c # t, r)"
  by (simp_all add: push_char_def)

text \<open>The characters after an opening quote, up to the closing one.\<close>

function scan_string :: "string \<Rightarrow> (string \<times> string) option" where
  "scan_string s = (case s of
      [] \<Rightarrow> None
    | c # cs \<Rightarrow>
        if c = CHR 0x22 then Some ([], cs)
        else if c = CHR 0x5C then
          (case cs of
             [] \<Rightarrow> None
           | e # r \<Rightarrow>
               if e = CHR ''u'' then
                 (case r of
                    h1 # h2 # h3 # h4 # r' \<Rightarrow>
                      (case unicode_escape h1 h2 h3 h4 of
                         None \<Rightarrow> None
                       | Some x \<Rightarrow> push_char x (scan_string r'))
                  | _ \<Rightarrow> None)
               else (case simple_escape e of
                       None \<Rightarrow> None
                     | Some x \<Rightarrow> push_char x (scan_string r)))
        else if (of_char c :: nat) < 32 then None
        else push_char c (scan_string cs))"
  by pat_completeness auto
termination
  by (relation "measure length") auto

declare scan_string.simps [simp del]

text \<open>Numbers: the longest match of the decoder's number pattern.\<close>

definition int_max_str_digits :: nat where
  "int_max_str_digits = 4300"

definition scan_int_part :: "string \<Rightarrow> (string \<times> string) option" where
  "scan_int_part s = (case s of
      [] \<Rightarrow> None
    | c # cs \<Rightarrow>
        if c = CHR ''0'' then Some ([c], cs)
        else if is_digit c then Some (takeWhile is_digit s, dropWhile is_digit s)
        else None)"

definition scan_frac :: "string \<Rightarrow> string \<times> string" where
  "scan_frac s = (case s of
      c # cs \<Rightarrow>
        if c = CHR ''.'' \<and> takeWhile is_digit cs \<noteq> []
        then (c # takeWhile is_digit cs, dropWhile is_digit cs) else ([], s)
    | [] \<Rightarrow> ([], s))"

definition scan_exp :: "string \<Rightarrow> string \<times> string" where
  "scan_exp s = (case s of
      c # cs \<Rightarrow>
        if c = CHR ''e'' \<or> c = CHR ''E'' then
          (case cs of
             g # gs \<Rightarrow>
               if (g = CHR ''+'' \<or> g = CHR ''-'') then
                 (if takeWhile is_digit gs \<noteq> []
                  then (c # g # takeWhile is_digit gs, dropWhile is_digit gs) else ([], s))
               else if is_digit g then (c # takeWhile is_digit cs, dropWhile is_digit cs)
               else ([], s)
           | [] \<Rightarrow> ([], s))
        else ([], s)
    | [] \<Rightarrow> ([], s))"

definition int_of_text :: "string \<Rightarrow> int" where
  "int_of_text t = (case t of
      c # cs \<Rightarrow> if c = CHR ''-'' then - int (nat_of_digits cs) else int (nat_of_digits t)
    | [] \<Rightarrow> 0)"

definition scan_number :: "string \<Rightarrow> (json \<times> string) option" where
  "scan_number s =
     (let (sign, s1) = (if s \<noteq> [] \<and> hd s = CHR ''-'' then ([CHR ''-''], tl s) else ([], s)) in
      case scan_int_part s1 of
        None \<Rightarrow> None
      | Some (ip, s2) \<Rightarrow>
          (let (fp, s3) = scan_frac s2; (ep, s4) = scan_exp s3 in
           if fp = [] \<and> ep = [] then
             (if length ip \<le> int_max_str_digits then Some (JInt (int_of_text (sign @ ip)), s4)
              else None)
           else Some (JReal (sign @ ip @ fp @ ep), s4)))"

text \<open>
  The scanner. \<open>fuel\<close> bounds the nesting of the calls; \<open>2 * length s\<close> is always enough
  (\<open>parse_value_fuel\<close> below), so \<open>json_loads\<close> never fails for lack of it.
\<close>

fun parse_value :: "nat \<Rightarrow> string \<Rightarrow> (json \<times> string) option"
  and parse_elems :: "nat \<Rightarrow> string \<Rightarrow> (json list \<times> string) option"
  and parse_members :: "nat \<Rightarrow> string \<Rightarrow> ((string \<times> json) list \<times> string) option"
where
  "parse_value 0 s = None"
| "parse_value (Suc f) s =
     (if s = [] then None
      else if hd s = CHR 0x22 then map_option (\<lambda>(t, r). (JStr t, r)) (scan_string (tl s))
      else if hd s = CHR 0x7B then
        (let r = skip_ws (tl s) in
         if r \<noteq> [] \<and> hd r = CHR 0x7D then Some (JDict [], tl r)
         else map_option (\<lambda>(ms, r'). (JDict (dict_of ms), r')) (parse_members f r))
      else if hd s = CHR ''['' then
        (let r = skip_ws (tl s) in
         if r \<noteq> [] \<and> hd r = CHR '']'' then Some (JList [], tl r)
         else map_option (\<lambda>(vs, r'). (JList vs, r')) (parse_elems f r))
      else if prefix ''null'' s then Some (JNull, drop 4 s)
      else if prefix ''true'' s then Some (JBool True, drop 4 s)
      else if prefix ''false'' s then Some (JBool False, drop 5 s)
      else if prefix ''NaN'' s then Some (JReal ''NaN'', drop 3 s)
      else if prefix ''Infinity'' s then Some (JReal ''Infinity'', drop 8 s)
      else if prefix ''-Infinity'' s then Some (JReal ''-Infinity'', drop 9 s)
      else scan_number s)"
| "parse_elems 0 s = None"
| "parse_elems (Suc f) s =
     (case parse_value f s of
        None \<Rightarrow> None
      | Some (v, r) \<Rightarrow>
          (case skip_ws r of
             [] \<Rightarrow> None
           | c # r' \<Rightarrow>
               if c = CHR '']'' then Some ([v], r')
               else if c = CHR '','' then
                 map_option (\<lambda>(vs, r''). (v # vs, r'')) (parse_elems f (skip_ws r'))
               else None))"
| "parse_members 0 s = None"
| "parse_members (Suc f) s =
     (if s = [] \<or> hd s \<noteq> CHR 0x22 then None
      else case scan_string (tl s) of
        None \<Rightarrow> None
      | Some (k, r) \<Rightarrow>
          (case skip_ws r of
             [] \<Rightarrow> None
           | c # r1 \<Rightarrow>
               if c \<noteq> CHR '':'' then None
               else case parse_value f (skip_ws r1) of
                 None \<Rightarrow> None
               | Some (v, r2) \<Rightarrow>
                   (case skip_ws r2 of
                      [] \<Rightarrow> None
                    | c2 # r3 \<Rightarrow>
                        if c2 = CHR 0x7D then Some ([(k, v)], r3)
                        else if c2 = CHR '','' then
                          map_option (\<lambda>(ms, r4). ((k, v) # ms, r4)) (parse_members f (skip_ws r3))
                        else None)))"

definition json_loads :: "string \<Rightarrow> json option" where
  "json_loads s =
     (case parse_value (2 * length s + 1) (skip_ws s) of
        None \<Rightarrow> None
      | Some (v, r) \<Rightarrow> if skip_ws r = [] then Some v else None)"

text \<open>The values \<open>dumps\<close> prints as JSON that reads back as the value itself.\<close>

fun wf_json :: "json \<Rightarrow> bool" where
  "wf_json (JInt i) = (length (str_of_nat (nat \<bar>i\<bar>)) \<le> int_max_str_digits)"
| "wf_json (JReal t) =
     (t = ''NaN'' \<or> t = ''Infinity'' \<or> t = ''-Infinity'' \<or> scan_number t = Some (JReal t, []))"
| "wf_json (JList xs) = (\<forall>x \<in> set xs. wf_json x)"
| "wf_json (JDict d) = (distinct (map fst d) \<and> (\<forall>kv \<in> set d. wf_json (snd kv)))"
| "wf_json v = True"

section \<open>Facts about the codec\<close>

lemma hex_val_hex_digit: "k < 16 \<Longrightarrow> hex_val (hex_digit k) = Some k"
  by (simp add: hex_val_def hex_digit_def of_char_of Let_def)

lemma unicode_escape_hex2:
  "unicode_escape (CHR ''0'') (CHR ''0'') (hex_digit (of_char c div 16)) (hex_digit (of_char c mod 16)) = Some c"
proof -
  have "(of_char c :: nat) div 16 < 16"
    by (rule less_mult_imp_div_less) simp
  moreover have "hex_val (CHR ''0'') = Some 0" by (simp add: hex_val_def)
  moreover have "16 * ((of_char c :: nat) div 16) + of_char c mod 16 = of_char c" by simp
  ultimately show ?thesis by (simp add: unicode_escape_def hex_val_hex_digit)
qed

lemma scan_string_esc: "scan_string (esc_char c @ t) = push_char c (scan_string t)"
proof -
  consider "c \<in> {CHR 0x22, CHR 0x5C, CHR 0x0A, CHR 0x0D, CHR 0x09, CHR 0x0C, CHR 0x08}"
    | "c \<notin> {CHR 0x22, CHR 0x5C, CHR 0x0A, CHR 0x0D, CHR 0x09, CHR 0x0C, CHR 0x08}" by blast
  then show ?thesis
  proof cases
    case 1
    then show ?thesis
      by (auto simp: esc_char_def scan_string.simps [of "_ # _"] simple_escape_def)
  next
    case 2
    then show ?thesis
      by (auto simp: esc_char_def Let_def hex2_def scan_string.simps [of "_ # _"] unicode_escape_hex2)
  qed
qed

lemma scan_string_dump: "scan_string (concat (map esc_char s) @ CHR 0x22 # r) = Some (s, r)"
  by (induction s) (simp_all add: scan_string_esc scan_string.simps [of "_ # _"])

lemma is_digit_not_special:
  "is_digit c \<Longrightarrow> c \<noteq> CHR ''-'' \<and> c \<noteq> CHR ''.'' \<and> c \<noteq> CHR ''e'' \<and> c \<noteq> CHR ''E'' \<and> c \<noteq> CHR ''+''"
  by (auto simp: is_digit_def)

text \<open>What may follow a number without being taken for part of it.\<close>

definition num_stop :: "string \<Rightarrow> bool" where
  "num_stop r \<longleftrightarrow> r = [] \<or>
     (\<not> is_digit (hd r) \<and> hd r \<noteq> CHR ''.'' \<and> hd r \<noteq> CHR ''e'' \<and> hd r \<noteq> CHR ''E'')"

lemma num_stop_tw:
  "num_stop r \<Longrightarrow> takeWhile is_digit r = [] \<and> dropWhile is_digit r = r"
  by (cases r) (auto simp: num_stop_def)

lemma digits_append:
  "num_stop r \<Longrightarrow> takeWhile is_digit (s @ r) = takeWhile is_digit s"
  "num_stop r \<Longrightarrow> dropWhile is_digit (s @ r) = dropWhile is_digit s @ r"
  by (induction s) (auto dest: num_stop_tw)

lemma scan_int_part_append:
  "num_stop r \<Longrightarrow> scan_int_part s = Some (i, t) \<Longrightarrow> scan_int_part (s @ r) = Some (i, t @ r)"
  by (cases s) (auto simp: scan_int_part_def digits_append split: if_splits)

lemma scan_frac_append:
  "num_stop r \<Longrightarrow> scan_frac s = (f, t) \<Longrightarrow> scan_frac (s @ r) = (f, t @ r)"
  by (cases s; cases r) (auto simp: scan_frac_def digits_append num_stop_def split: if_splits)

lemma scan_exp_append:
  assumes "num_stop r" "scan_exp s = (f, [])"
  shows "scan_exp (s @ r) = (f, r)"
proof (cases s)
  case Nil
  with assms show ?thesis by (cases r) (auto simp: scan_exp_def num_stop_def)
next
  case (Cons c cs)
  then show ?thesis
  proof (cases cs)
    case Nil
    with Cons assms show ?thesis by (auto simp: scan_exp_def split: if_splits)
  next
    case (Cons g gs)
    with \<open>s = c # cs\<close> assms show ?thesis
      using digits_append [OF assms(1), of gs] digits_append [OF assms(1), of cs]
      by (auto simp: scan_exp_def split: if_splits)
  qed
qed

lemma scan_number_append:
  assumes "num_stop r" "scan_number s = Some (v, [])"
  shows "scan_number (s @ r) = Some (v, r)"
proof -
  define sg where "sg = (if s \<noteq> [] \<and> hd s = CHR ''-'' then [CHR ''-''] else [])"
  define s1 where "s1 = (if s \<noteq> [] \<and> hd s = CHR ''-'' then tl s else s)"
  have ne: "s \<noteq> []" using assms(2) by (auto simp: scan_number_def scan_int_part_def)
  obtain ip s2 where ip: "scan_int_part s1 = Some (ip, s2)"
    using assms(2) by (auto simp: scan_number_def s1_def Let_def split: option.splits if_splits)
  obtain fp s3 where fp: "scan_frac s2 = (fp, s3)" by fastforce
  obtain ep s4 where ep: "scan_exp s3 = (ep, s4)" by fastforce
  have s4: "s4 = []" and v: "(if fp = [] \<and> ep = [] then
             (if length ip \<le> int_max_str_digits then Some (JInt (int_of_text (sg @ ip)), s4)
              else None)
           else Some (JReal (sg @ ip @ fp @ ep), s4)) = Some (v, [])"
    using assms(2) ip fp ep
    by (auto simp: scan_number_def s1_def sg_def Let_def split: if_splits)
  have a: "scan_int_part (s1 @ r) = Some (ip, s2 @ r)"
    by (rule scan_int_part_append [OF assms(1) ip])
  have b: "scan_frac (s2 @ r) = (fp, s3 @ r)" by (rule scan_frac_append [OF assms(1) fp])
  have c: "scan_exp (s3 @ r) = (ep, r)"
    using scan_exp_append [OF assms(1)] ep s4 by simp
  have d: "(if s @ r \<noteq> [] \<and> hd (s @ r) = CHR ''-'' then ([CHR ''-''], tl (s @ r)) else ([], s @ r)) = (sg, s1 @ r)"
    using ne by (auto simp: sg_def s1_def)
  show ?thesis using v s4 unfolding scan_number_def d Let_def
    by (auto simp: a b c split: if_splits)
qed

lemma nat_text_scan:
  assumes "length (str_of_nat n) \<le> int_max_str_digits"
  shows "scan_number (str_of_nat n) = Some (JInt (int n), [])"
    and "scan_number (CHR ''-'' # str_of_nat n) = Some (JInt (- int n), [])"
proof -
  obtain d ds where ds: "str_of_nat n = d # ds" by (cases "str_of_nat n") auto
  have dig: "\<forall>c \<in> set (str_of_nat n). is_digit c" by (simp add: str_of_nat_digits)
  have tw: "takeWhile is_digit (str_of_nat n) = str_of_nat n" "dropWhile is_digit (str_of_nat n) = []"
    using dig by auto
  have z: "d = CHR ''0'' \<Longrightarrow> ds = []"
  proof -
    assume "d = CHR ''0''"
    then have "n = 0" using hd_str_of_nat_zero [of n] ds by simp
    then show "ds = []" using ds by (simp add: str_of_nat.simps [of 0])
  qed
  have ip: "scan_int_part (str_of_nat n) = Some (str_of_nat n, [])"
    using dig tw ds z by (auto simp: scan_int_part_def)
  have hd: "d \<noteq> CHR ''-''" using dig ds is_digit_not_special by auto
  have iv: "int_of_text (str_of_nat n) = int n" "int_of_text (CHR ''-'' # str_of_nat n) = - int n"
    using ds hd nat_of_digits_str_of_nat [of n] by (simp_all add: int_of_text_def)
  show "scan_number (str_of_nat n) = Some (JInt (int n), [])"
    using assms hd ip iv ds by (simp add: scan_number_def scan_frac_def scan_exp_def)
  show "scan_number (CHR ''-'' # str_of_nat n) = Some (JInt (- int n), [])"
    using assms ip iv by (simp add: scan_number_def scan_frac_def scan_exp_def)
qed

lemma scan_number_str_of_int:
  assumes "wf_json (JInt i)" "num_stop r"
  shows "scan_number (str_of_int i @ r) = Some (JInt i, r)"
proof (rule scan_number_append [OF assms(2)])
  show "scan_number (str_of_int i) = Some (JInt i, [])"
    using assms(1) nat_text_scan [of "nat \<bar>i\<bar>"] by (cases "i < 0") (auto simp: str_of_int_def)
qed

lemma scan_number_first:
  assumes "scan_number s = Some x"
  shows "s \<noteq> [] \<and> (is_digit (hd s) \<or> hd s = CHR ''-'' \<and> tl s \<noteq> [] \<and> is_digit (hd (tl s)))"
proof -
  have ip: "scan_int_part t = Some y \<Longrightarrow> t \<noteq> [] \<and> is_digit (hd t)" for t y
    by (cases t) (auto simp: scan_int_part_def is_digit_def split: if_splits)
  show ?thesis
  proof (cases "s \<noteq> [] \<and> hd s = CHR ''-''")
    case True
    with assms obtain y where "scan_int_part (tl s) = Some y"
      by (auto simp: scan_number_def Let_def split: option.splits)
    with ip True show ?thesis by auto
  next
    case False
    with assms obtain y where "scan_int_part s = Some y"
      by (auto simp: scan_number_def Let_def split: option.splits)
    with ip show ?thesis by auto
  qed
qed

lemma parse_value_number:
  assumes "scan_number s = Some x"
  shows "parse_value (Suc f) s = Some x"
proof -
  from scan_number_first [OF assms] obtain c cs where s: "s = c # cs"
    and c: "is_digit c \<or> c = CHR ''-'' \<and> cs \<noteq> [] \<and> is_digit (hd cs)" by (cases s) auto
  have "\<not> prefix ''-Infinity'' s"
    using s c by (cases cs) (auto simp: is_digit_def)
  moreover have "c \<notin> {CHR 0x22, CHR 0x7B, CHR ''['', CHR ''n'', CHR ''t'', CHR ''f'', CHR ''N'', CHR ''I''}"
    using c by (auto simp: is_digit_def)
  ultimately show ?thesis using s assms by auto
qed

text \<open>The first character of a printed value: never white space, a comma or a closing bracket.\<close>

lemma dumps_first:
  assumes "wf_json v"
  shows "\<exists>c cs. dumps isep ksep v = c # cs \<and> \<not> json_ws c \<and> c \<noteq> CHR '']'' \<and> c \<noteq> CHR 0x7D"
proof -
  have dig: "is_digit c \<Longrightarrow> \<not> json_ws c \<and> c \<noteq> CHR '']'' \<and> c \<noteq> CHR 0x7D" for c
    by (auto simp: is_digit_def json_ws_def)
  have num: "\<exists>c cs. t = c # cs \<and> \<not> json_ws c \<and> c \<noteq> CHR '']'' \<and> c \<noteq> CHR 0x7D"
    if "scan_number t = Some x" for t x
    using scan_number_first [OF that] dig by (cases t) (auto simp: json_ws_def)
  show ?thesis
  proof (cases v)
    case (JInt i)
    then have "scan_number (str_of_int i @ []) = Some (JInt i, [])"
      using assms by (intro scan_number_str_of_int) (simp_all add: num_stop_def)
    with num JInt show ?thesis by simp
  next
    case (JReal t)
    with assms num show ?thesis by (auto simp: json_ws_def)
  qed (auto simp: json_ws_def dump_str_def)
qed

lemma dumps_skip_ws: "wf_json v \<Longrightarrow> skip_ws (dumps isep ksep v @ r) = dumps isep ksep v @ r"
  using dumps_first [of v isep ksep] by auto

lemma dumps_length: "wf_json v \<Longrightarrow> 0 < length (dumps isep ksep v)"
  using dumps_first [of v isep ksep] by auto

lemma skip_ws_append: "\<forall>c \<in> set w. json_ws c \<Longrightarrow> skip_ws (w @ s) = skip_ws s"
  by (induction w) auto

lemma num_stop_seps [simp]:
  "num_stop []" "num_stop (CHR '','' # r)" "num_stop (CHR '']'' # r)" "num_stop (CHR 0x7D # r)"
  by (auto simp: num_stop_def is_digit_def)

lemma parse_elems_dumps:
  assumes "xs \<noteq> []" "\<forall>x \<in> set xs. wf_json x" "\<forall>c \<in> set w. json_ws c"
    and "\<And>x f r. \<lbrakk>x \<in> set xs; num_stop r; 2 * length (dumps (CHR '','' # w) ksep x) \<le> f\<rbrakk>
           \<Longrightarrow> parse_value f (dumps (CHR '','' # w) ksep x @ r) = Some (x, r)"
    and "2 * length (join (CHR '','' # w) (map (dumps (CHR '','' # w) ksep) xs)) + 1 \<le> f"
  shows "parse_elems f (join (CHR '','' # w) (map (dumps (CHR '','' # w) ksep) xs) @ CHR '']'' # r)
         = Some (xs, r)"
  using assms
proof (induction xs arbitrary: f)
  case (Cons x xs)
  from Cons.prems(5) obtain g where f: "f = Suc g" by (cases f) auto
  show ?case
  proof (cases xs)
    case Nil
    with Cons.prems f show ?thesis by (simp add: json_ws_def)
  next
    case (Cons y ys)
    let ?D = "dumps (CHR '','' # w) ksep"
    let ?J = "join (CHR '','' # w) (map ?D xs)"
    have J: "?J \<noteq> []" "skip_ws (?J @ t) = ?J @ t" for t
      using dumps_first [of y "CHR '','' # w" ksep] Cons Cons.prems(2)
      by (cases ys; auto)+
    have v: "parse_value g (?D x @ CHR '','' # w @ ?J @ CHR '']'' # r) = Some (x, CHR '','' # w @ ?J @ CHR '']'' # r)"
      using Cons.prems(4) [of x] Cons.prems(5) f Cons by simp
    have e: "parse_elems g (?J @ CHR '']'' # r) = Some (xs, r)"
      using Cons.IH [of g] Cons.prems f Cons by simp
    have "join (CHR '','' # w) (map ?D (x # xs)) = ?D x @ CHR '','' # w @ ?J" using Cons by simp
    then show ?thesis
      using v e f J Cons.prems(3) by (simp add: skip_ws_append json_ws_def)
  qed
qed simp

definition dump_member :: "string \<Rightarrow> string \<Rightarrow> string \<times> json \<Rightarrow> string" where
  "dump_member isep ksep kv = dump_str (fst kv) @ ksep @ dumps isep ksep (snd kv)"

lemma dumps_JDict:
  "dumps isep ksep (JDict d) = ''{'' @ join isep (map (dump_member isep ksep) d) @ ''}''"
  by (simp add: dump_member_def [abs_def] case_prod_beta')

lemma parse_members_dumps:
  assumes "ms \<noteq> []" "\<forall>kv \<in> set ms. wf_json (snd kv)"
    "\<forall>c \<in> set w. json_ws c" "\<forall>c \<in> set w'. json_ws c"
    and "\<And>kv f r. \<lbrakk>kv \<in> set ms; num_stop r; 2 * length (dumps (CHR '','' # w) (CHR '':'' # w') (snd kv)) \<le> f\<rbrakk>
           \<Longrightarrow> parse_value f (dumps (CHR '','' # w) (CHR '':'' # w') (snd kv) @ r) = Some (snd kv, r)"
    and "2 * length (join (CHR '','' # w) (map (dump_member (CHR '','' # w) (CHR '':'' # w')) ms)) + 1 \<le> f"
  shows "parse_members f
           (join (CHR '','' # w) (map (dump_member (CHR '','' # w) (CHR '':'' # w')) ms) @ CHR 0x7D # r)
         = Some (ms, r)"
  using assms
proof (induction ms arbitrary: f)
  case (Cons kv ms)
  obtain k x where kv: "kv = (k, x)" by (cases kv)
  let ?D = "dumps (CHR '','' # w) (CHR '':'' # w')"
  let ?M = "dump_member (CHR '','' # w) (CHR '':'' # w')"
  from Cons.prems(6) obtain g where f: "f = Suc g" by (cases f) auto
  have m: "?M kv = CHR 0x22 # concat (map esc_char k) @ CHR 0x22 # CHR '':'' # w' @ ?D x"
    by (simp add: kv dump_member_def dump_str_def)
  have wx: "wf_json x" using Cons.prems(2) kv by simp
  have vk: "skip_ws (w' @ ?D x @ t) = ?D x @ t" for t
    using Cons.prems(4) by (simp add: skip_ws_append dumps_skip_ws [OF wx])
  show ?case
  proof (cases ms)
    case Nil
    have "parse_value g (?D x @ CHR 0x7D # r) = Some (x, CHR 0x7D # r)"
      using Cons.prems(5) [of kv] Cons.prems(6) Nil f kv m by simp
    then show ?thesis
      using Nil f m vk kv by (simp add: scan_string_dump json_ws_def)
  next
    case (Cons y ys)
    let ?J = "join (CHR '','' # w) (map ?M ms)"
    have J: "skip_ws (?J @ t) = ?J @ t" for t
      using Cons by (cases ys; simp add: dump_member_def dump_str_def json_ws_def)
    have v: "parse_value g (?D x @ CHR '','' # w @ ?J @ CHR 0x7D # r) = Some (x, CHR '','' # w @ ?J @ CHR 0x7D # r)"
      using Cons.prems(5) [of kv] Cons.prems(6) f Cons kv m by simp
    have e: "parse_members g (?J @ CHR 0x7D # r) = Some (ms, r)"
      using Cons.IH [of g] Cons.prems f Cons by simp
    have "join (CHR '','' # w) (map ?M (kv # ms)) = ?M kv @ CHR '','' # w @ ?J" using Cons by simp
    then show ?thesis
      using v e f J m vk kv Cons.prems(3) by (simp add: skip_ws_append json_ws_def scan_string_dump)
  qed
qed simp

lemma parse_value_dumps:
  assumes "\<forall>c \<in> set w. json_ws c" "\<forall>c \<in> set w'. json_ws c"
  shows "\<lbrakk>wf_json v; num_stop r; 2 * length (dumps (CHR '','' # w) (CHR '':'' # w') v) \<le> f\<rbrakk>
    \<Longrightarrow> parse_value f (dumps (CHR '','' # w) (CHR '':'' # w') v @ r) = Some (v, r)"
proof (induction v arbitrary: f r)
  case JNull
  then obtain g where "f = Suc g" by (cases f) auto
  then show ?case by simp
next
  case (JBool b)
  then obtain g where "f = Suc g" by (cases f) (auto split: if_splits)
  then show ?case by (cases b) simp_all
next
  case (JInt i)
  have "f \<noteq> 0" using JInt.prems dumps_length [of "JInt i" "CHR '','' # w" "CHR '':'' # w'"] by (intro notI) simp
  then obtain g where "f = Suc g" by (cases f) auto
  then show ?case
    using parse_value_number [OF scan_number_str_of_int [OF JInt.prems(1,2)]] by simp
next
  case (JReal t)
  have "t \<noteq> []" using JReal.prems(1) scan_number_first [of t] by auto
  then have "f \<noteq> 0" using JReal.prems(3) by (cases t) auto
  then obtain g where f: "f = Suc g" by (cases f) auto
  show ?case
  proof (cases "t = ''NaN'' \<or> t = ''Infinity'' \<or> t = ''-Infinity''")
    case True
    then show ?thesis by (elim disjE) (simp_all add: f)
  next
    case False
    with JReal.prems have "scan_number t = Some (JReal t, [])" by simp
    from parse_value_number [OF scan_number_append [OF JReal.prems(2) this]] f
    show ?thesis by simp
  qed
next
  case (JStr s)
  then obtain g where "f = Suc g" by (cases f) (auto simp: dump_str_def)
  then show ?case by (simp add: dump_str_def scan_string_dump)
next
  case (JList xs)
  then obtain g where f: "f = Suc g" by (cases f) auto
  show ?case
  proof (cases xs)
    case Nil
    with f show ?thesis by (simp add: json_ws_def)
  next
    case (Cons y ys)
    let ?D = "dumps (CHR '','' # w) (CHR '':'' # w')"
    let ?J = "join (CHR '','' # w) (map ?D xs)"
    obtain c cs where J: "?J = c # cs" "\<not> json_ws c" "c \<noteq> CHR '']''"
      using dumps_first [of y "CHR '','' # w" "CHR '':'' # w'"] Cons JList.prems(1)
      by (cases ys; auto)
    have "parse_elems g (?J @ CHR '']'' # r) = Some (xs, r)"
      using JList f Cons assms(1) by (intro parse_elems_dumps) auto
    then show ?thesis using f J by simp
  qed
next
  case (JDict d)
  then obtain g where f: "f = Suc g" by (cases f) auto
  let ?M = "dump_member (CHR '','' # w) (CHR '':'' # w')"
  let ?J = "join (CHR '','' # w) (map ?M d)"
  show ?case
  proof (cases d)
    case Nil
    with f show ?thesis by (simp add: json_ws_def)
  next
    case (Cons y ys)
    have J: "\<exists>cs. ?J = CHR 0x22 # cs"
      using Cons by (cases ys; simp add: dump_member_def dump_str_def)
    have "parse_members g (?J @ CHR 0x7D # r) = Some (d, r)"
    proof (rule parse_members_dumps)
      fix kv :: "string \<times> json" and h :: nat and t :: string
      obtain k x where kv: "kv = (k, x)" by (cases kv)
      assume "kv \<in> set d" "num_stop t" "2 * length (dumps (CHR '','' # w) (CHR '':'' # w') (snd kv)) \<le> h"
      then show "parse_value h (dumps (CHR '','' # w) (CHR '':'' # w') (snd kv) @ t) = Some (snd kv, t)"
        using JDict.IH [of kv x t h] JDict.prems(1) by (auto simp: kv prod_set_simps)
    qed (use JDict.prems f Cons assms in \<open>auto simp: dumps_JDict simp del: dumps.simps\<close>)
    then show ?thesis
      using f J JDict.prems(1) by (auto simp: dumps_JDict dict_of_distinct json_ws_def simp del: dumps.simps)
  qed
qed

text \<open>\<open>json.loads(json.dumps(v)) == v\<close> for every separator made of the JSON ones and white space.\<close>

lemma json_loads_dumps:
  assumes "\<forall>c \<in> set w. json_ws c" "\<forall>c \<in> set w'. json_ws c" "wf_json v"
  shows "json_loads (dumps (CHR '','' # w) (CHR '':'' # w') v) = Some v"
  using parse_value_dumps [OF assms(1,2), of v "[]" "2 * length (dumps (CHR '','' # w) (CHR '':'' # w') v) + 1"]
    dumps_skip_ws [OF assms(3), of "CHR '','' # w" "CHR '':'' # w'" "[]"] assms(3)
  by (simp add: json_loads_def)

section \<open>The fuel of the scanner is enough\<close>

lemma scan_string_shorter: "scan_string s = Some (t, r) \<Longrightarrow> length r < length s"
proof (induction s arbitrary: t r rule: scan_string.induct)
  case (1 s)
  show ?case
  proof (cases s)
    case Nil
    with "1.prems" show ?thesis by (simp add: scan_string.simps)
  next
    case (Cons c cs)
    then show ?thesis
      using "1.prems" "1.IH"
      by (auto simp: scan_string.simps [of "_ # _"] push_char_def split: if_splits list.splits option.splits)
         fastforce+
  qed
qed

lemma skip_ws_le: "length (skip_ws s) \<le> length s"
  by (rule length_dropWhile_le)

lemma length_dropWhile_Cons: "dropWhile p s = c # r \<Longrightarrow> length r < length s"
  by (metis Suc_le_eq length_Cons length_dropWhile_le)

lemma scan_number_shorter: "scan_number s = Some (v, r) \<Longrightarrow> length r < length s"
proof -
  have a: "scan_int_part t = Some (i, u) \<Longrightarrow> length u < length t" for t i u
    by (cases t) (auto simp: scan_int_part_def le_imp_less_Suc length_dropWhile_le split: if_splits)
  have b: "scan_frac t = (i, u) \<Longrightarrow> length u \<le> length t" for t i u
    by (cases t) (auto simp: scan_frac_def le_SucI length_dropWhile_le split: if_splits)
  have c: "scan_exp t = (i, u) \<Longrightarrow> length u \<le> length t" for t i u
    by (cases t; cases "tl t") (auto simp: scan_exp_def le_SucI length_dropWhile_le split: if_splits)
  assume s: "scan_number s = Some (v, r)"
  define s1 where "s1 = (if s \<noteq> [] \<and> hd s = CHR ''-'' then tl s else s)"
  have "length s1 \<le> length s" by (simp add: s1_def)
  moreover obtain ip s2 where ip: "scan_int_part s1 = Some (ip, s2)"
    using s by (auto simp: scan_number_def s1_def Let_def split: option.splits if_splits)
  moreover obtain fp s3 where fp: "scan_frac s2 = (fp, s3)" by fastforce
  moreover have "scan_exp s3 = (fst (scan_exp s3), r)"
    using s ip fp by (auto simp: scan_number_def s1_def Let_def split: if_splits prod.splits)
  ultimately show ?thesis using a [OF ip] b [OF fp] c [of s3] by force
qed

lemma parse_elems_step:
  assumes "parse_elems (Suc f) s = Some (vs, r)"
  obtains v r1 where "parse_value f s = Some (v, r1)" and
    "skip_ws r1 = CHR '']'' # r \<or>
     (\<exists>r2 ws. skip_ws r1 = CHR '','' # r2 \<and> parse_elems f (skip_ws r2) = Some (ws, r))"
  using assms by (auto split: option.splits list.splits if_splits)

lemma parse_members_step:
  assumes "parse_members (Suc f) s = Some (ms, r)"
  obtains k r1 r2 v r3 where "s \<noteq> []" and "scan_string (tl s) = Some (k, r1)"
    and "skip_ws r1 = CHR '':'' # r2" and "parse_value f (skip_ws r2) = Some (v, r3)" and
    "skip_ws r3 = CHR 0x7D # r \<or>
     (\<exists>r4 ws. skip_ws r3 = CHR '','' # r4 \<and> parse_members f (skip_ws r4) = Some (ws, r))"
  using assms by (auto split: option.splits list.splits if_splits)

lemma parse_value_step:
  assumes "parse_value (Suc f) s = Some (v, r)"
  shows "s \<noteq> [] \<and> ((\<exists>t. scan_string (tl s) = Some (t, r)) \<or> (\<exists>c. skip_ws (tl s) = c # r) \<or>
    (\<exists>ms. parse_members f (skip_ws (tl s)) = Some (ms, r)) \<or>
    (\<exists>vs. parse_elems f (skip_ws (tl s)) = Some (vs, r)) \<or>
    (\<exists>n. 0 < n \<and> r = drop n s) \<or> scan_number s = Some (v, r))"
proof -
  have ne: "s \<noteq> []" using assms by auto
  have d: "\<exists>n. 0 < n \<and> drop m s = drop n s" if "0 < m" for m using that by blast
  have t: "\<exists>c. skip_ws (tl s) = c # tl (skip_ws (tl s))" if "skip_ws (tl s) \<noteq> []"
    using that by (metis list.collapse)
  show ?thesis
  proof (cases "hd s = CHR 0x22 \<or> hd s = CHR 0x7B \<or> hd s = CHR ''[''")
    case True
    with assms ne t show ?thesis
      by (simp add: Let_def split: if_splits) blast+
  next
    case False
    with assms ne show ?thesis
      by (simp split: if_splits) (metis d zero_less_numeral)+
  qed
qed

lemma parse_shorter:
  "(parse_value f s = Some (v, r) \<longrightarrow> length r < length s) \<and>
   (parse_elems f s = Some (vs, r) \<longrightarrow> length r < length s) \<and>
   (parse_members f s = Some (ms, r) \<longrightarrow> length r < length s)"
proof (induction f arbitrary: s v r vs ms)
  case (Suc f)
  have V: "length r < length s" if p: "parse_value (Suc f) s = Some (v, r)" for s v r
  proof -
    have ne: "length (tl s) < length s" using parse_value_step [OF p] by simp
    have sk: "length (skip_ws (tl s)) \<le> length (tl s)" by (rule skip_ws_le)
    show ?thesis
      using parse_value_step [OF p] ne sk Suc.IH [of "skip_ws (tl s)"]
      by (elim conjE disjE exE)
         (fastforce dest: scan_string_shorter scan_number_shorter length_dropWhile_Cons)+
  qed
  have E: "length r < length s" if p: "parse_elems (Suc f) s = Some (vs, r)" for s vs r
  proof -
    obtain v r1 where v: "parse_value f s = Some (v, r1)" and
      *: "skip_ws r1 = CHR '']'' # r \<or>
       (\<exists>r2 ws. skip_ws r1 = CHR '','' # r2 \<and> parse_elems f (skip_ws r2) = Some (ws, r))"
      using parse_elems_step [OF p] by blast
    have l: "length r1 < length s" using Suc.IH v by blast
    from * show ?thesis
    proof (elim disjE exE conjE)
      assume "skip_ws r1 = CHR '']'' # r"
      with l show ?thesis using length_dropWhile_Cons by fastforce
    next
      fix r2 ws assume p: "skip_ws r1 = CHR '','' # r2" "parse_elems f (skip_ws r2) = Some (ws, r)"
      have "length r2 < length r1" by (rule length_dropWhile_Cons [OF p(1)])
      moreover have "length r < length (skip_ws r2)" using Suc.IH p(2) by blast
      moreover note l skip_ws_le [of r2]
      ultimately show ?thesis by linarith
    qed
  qed
  have M: "length r < length s" if p: "parse_members (Suc f) s = Some (ms, r)" for s ms r
  proof -
    obtain k r1 r2 v r3 where ne: "s \<noteq> []" and a: "scan_string (tl s) = Some (k, r1)"
      "skip_ws r1 = CHR '':'' # r2" "parse_value f (skip_ws r2) = Some (v, r3)" and
      *: "skip_ws r3 = CHR 0x7D # r \<or>
       (\<exists>r4 ws. skip_ws r3 = CHR '','' # r4 \<and> parse_members f (skip_ws r4) = Some (ws, r))"
      using parse_members_step [OF p] by blast
    have "length r1 < length (tl s)" by (rule scan_string_shorter [OF a(1)])
    moreover have "length r2 < length r1" by (rule length_dropWhile_Cons [OF a(2)])
    moreover have "length r3 < length (skip_ws r2)" using Suc.IH a(3) by blast
    ultimately have l: "length r3 < length s" using skip_ws_le [of r2] ne by simp
    from * show ?thesis
    proof (elim disjE exE conjE)
      assume "skip_ws r3 = CHR 0x7D # r"
      with l show ?thesis using length_dropWhile_Cons by fastforce
    next
      fix r4 ws assume p: "skip_ws r3 = CHR '','' # r4" "parse_members f (skip_ws r4) = Some (ws, r)"
      have "length r4 < length r3" by (rule length_dropWhile_Cons [OF p(1)])
      moreover have "length r < length (skip_ws r4)" using Suc.IH p(2) by blast
      moreover note l skip_ws_le [of r4]
      ultimately show ?thesis by linarith
    qed
  qed
  show ?case using V E M by blast
qed simp

text \<open>Any two amounts of fuel of at least twice the length give the same result.\<close>

lemma parse_fuel:
  "(2 * length s \<le> f \<longrightarrow> 2 * length s \<le> f' \<longrightarrow> parse_value f s = parse_value f' s) \<and>
   (2 * length s + 1 \<le> f \<longrightarrow> 2 * length s + 1 \<le> f' \<longrightarrow> parse_elems f s = parse_elems f' s) \<and>
   (2 * length s + 1 \<le> f \<longrightarrow> 2 * length s + 1 \<le> f' \<longrightarrow> parse_members f s = parse_members f' s)"
proof (induction "length s" arbitrary: s f f' rule: less_induct)
  case less
  have sub: "parse_value g t = parse_value g' t \<and> parse_elems g t = parse_elems g' t \<and>
      parse_members g t = parse_members g' t"
    if "length t < length s" "2 * length t + 1 \<le> g" "2 * length t + 1 \<le> g'" for t g g'
    using less.hyps [OF that(1), of g g'] that by simp
  have V: "parse_value g s = parse_value g' s" if "2 * length s \<le> g" "2 * length s \<le> g'" for g g'
  proof (cases s)
    case Nil
    then show ?thesis by (cases g; cases g'; simp add: scan_number_def scan_int_part_def)
  next
    case (Cons c cs)
    with that obtain h h' where h: "g = Suc h" "g' = Suc h'" by (cases g; cases g'; auto)
    have "length (skip_ws (tl s)) < length s" using skip_ws_le [of "tl s"] Cons by simp
    then have "parse_elems h (skip_ws (tl s)) = parse_elems h' (skip_ws (tl s))"
      and "parse_members h (skip_ws (tl s)) = parse_members h' (skip_ws (tl s))"
      using sub [of "skip_ws (tl s)" h h'] that h by auto
    then show ?thesis unfolding h parse_value.simps Let_def by simp
  qed
  have E: "parse_elems g s = parse_elems g' s" if b: "2 * length s + 1 \<le> g" "2 * length s + 1 \<le> g'" for g g'
  proof -
    obtain h h' where h: "g = Suc h" "g' = Suc h'" using b by (cases g; cases g'; auto)
    have v: "parse_value h s = parse_value h' s" by (rule V) (use b h in auto)
    have e: "parse_elems h (skip_ws r') = parse_elems h' (skip_ws r')"
      if "parse_value h s = Some (x, r)" "skip_ws r = c # r'" for x r c r'
    proof -
      have "length r < length s" using parse_shorter that(1) by blast
      moreover have "length r' < length r" using length_dropWhile_Cons [OF that(2)] .
      moreover have "length (skip_ws r') \<le> length r'" by (rule skip_ws_le)
      ultimately show ?thesis using sub [of "skip_ws r'" h h'] b h by simp
    qed
    show ?thesis
    proof (cases "parse_value h s")
      case (Some xr)
      then obtain x r where xr: "parse_value h s = Some (x, r)" by (cases xr) auto
      show ?thesis
      proof (cases "skip_ws r")
        case (Cons c r')
        from e [OF xr this] show ?thesis unfolding h parse_elems.simps v [symmetric]
          by (simp only: xr Cons option.case prod.case list.case)
      qed (simp add: h v [symmetric] xr del: dropWhile_eq_Nil_conv)
    qed (simp add: h v [symmetric])
  qed
  have M: "parse_members g s = parse_members g' s" if b: "2 * length s + 1 \<le> g" "2 * length s + 1 \<le> g'" for g g'
  proof -
    obtain h h' where h: "g = Suc h" "g' = Suc h'" using b by (cases g; cases g'; auto)
    have 1: "parse_value h (skip_ws r1) = parse_value h' (skip_ws r1) \<and> length (skip_ws r1) < length s"
      if "s \<noteq> []" "scan_string (tl s) = Some (k, r)" "skip_ws r = c # r1" for k r c r1
    proof -
      have "length r < length (tl s)" using scan_string_shorter that(2) by blast
      moreover have "length r1 < length r" using length_dropWhile_Cons [OF that(3)] .
      moreover have "length (skip_ws r1) \<le> length r1" by (rule skip_ws_le)
      moreover have "length (tl s) < length s" using that(1) by simp
      ultimately have l: "length (skip_ws r1) < length s" by linarith
      then show ?thesis using sub [OF l, of h h'] b h by simp
    qed
    have 2: "parse_members h (skip_ws r3) = parse_members h' (skip_ws r3)"
      if "s \<noteq> []" "scan_string (tl s) = Some (k, r)" "skip_ws r = c # r1"
        "parse_value h (skip_ws r1) = Some (x, r2)" "skip_ws r2 = c' # r3" for k r c r1 x r2 c' r3
    proof -
      have "length (skip_ws r1) < length s" using 1 [OF that(1-3)] by simp
      moreover have "length r2 < length (skip_ws r1)" using parse_shorter that(4) by blast
      moreover have "length r3 < length r2" using length_dropWhile_Cons [OF that(5)] .
      moreover have "length (skip_ws r3) \<le> length r3" by (rule skip_ws_le)
      ultimately have l: "length (skip_ws r3) < length s" by linarith
      then show ?thesis using sub [OF l, of h h'] b h by simp
    qed
    show ?thesis
    proof (cases "s = [] \<or> hd s \<noteq> CHR 0x22 \<or> scan_string (tl s) = None")
      case False
      then obtain k r where ne: "s \<noteq> []" and kr: "scan_string (tl s) = Some (k, r)" by auto
      show ?thesis
      proof (cases "skip_ws r")
        case (Cons c r1)
        note s1 = this
        note v = 1 [OF ne kr s1, THEN conjunct1]
        show ?thesis
        proof (cases "parse_value h (skip_ws r1)")
          case None
          with ne kr s1 v show ?thesis by (simp add: h)
        next
          case (Some xr)
          then obtain x r2 where xr: "parse_value h (skip_ws r1) = Some (x, r2)" by (cases xr) auto
          show ?thesis
          proof (cases "skip_ws r2")
            case Nil
            then show ?thesis
              by (simp add: h ne kr s1 v [symmetric] xr del: dropWhile_eq_Nil_conv)
          next
            case (Cons c' r3)
            from 2 [OF ne kr s1 xr this] Cons show ?thesis
              by (simp add: h ne kr s1 v [symmetric] xr)
          qed
        qed
      qed (use ne kr in \<open>simp add: h del: dropWhile_eq_Nil_conv\<close>)
    qed (auto simp: h)
  qed
  show ?case using V E M by blast
qed

lemma parse_value_fuel:
  "2 * length s \<le> f \<Longrightarrow> parse_value f s = parse_value (2 * length s) s"
  using parse_fuel by blast

end
