(* ===== verification/Py_Int.thy ===== *)
theory Py_Int
  imports Py_Json
begin

text \<open>
  \<open>int(s)\<close> on a string: surrounding white space, one sign, decimal digits with single
  underscores between them, and the limit of 4300 digits. The exception is carried by its
  text, which the program copies into error details. The position of every check follows the
  reference implementation of Python 3.11, where the digit limit is tested before what
  follows the digits.
\<close>

section \<open>The conversion\<close>

definition int_space :: "char \<Rightarrow> bool" where
  "int_space c = (let n = (of_char c :: nat) in (9 \<le> n \<and> n \<le> 13) \<or> n = 32 \<or> n = 133 \<or> n = 160)"

definition digit_or_us :: "char \<Rightarrow> bool" where
  "digit_or_us c \<longleftrightarrow> is_digit c \<or> c = CHR ''_''"

fun double_us :: "string \<Rightarrow> bool" where
  "double_us (a # b # s) = (a = CHR ''_'' \<and> b = CHR ''_'' \<or> double_us (b # s))"
| "double_us _ = False"

definition int_error :: "string \<Rightarrow> string" where
  "int_error s = ''invalid literal for int() with base 10: '' @ take 200 (py_repr s)"

definition int_limit_error :: "nat \<Rightarrow> string" where
  "int_limit_error n = ''Exceeds the limit (4300 digits) for integer string conversion: value has ''
     @ str_of_nat n @ '' digits; use sys.set_int_max_str_digits() to increase the limit''"

definition py_int :: "string \<Rightarrow> string + int" where
  "py_int s =
     (let t = dropWhile int_space s;
          neg = (t \<noteq> [] \<and> hd t = CHR ''-'');
          u = (if t \<noteq> [] \<and> (hd t = CHR ''-'' \<or> hd t = CHR ''+'') then tl t else t);
          run = takeWhile digit_or_us u;
          rest = dropWhile digit_or_us u;
          digits = filter is_digit run in
      if run = [] \<or> hd run = CHR ''_'' \<or> last run = CHR ''_'' \<or> double_us run then Inl (int_error s)
      else if int_max_str_digits < length digits then Inl (int_limit_error (length digits))
      else if dropWhile int_space rest \<noteq> [] then Inl (int_error s)
      else Inr (if neg then - int (nat_of_digits digits) else int (nat_of_digits digits)))"

section \<open>Printing and reading back\<close>

lemma digit_not_us: "is_digit c \<Longrightarrow> c \<noteq> CHR ''_'' \<and> c \<noteq> CHR ''-'' \<and> c \<noteq> CHR ''+''"
  by (auto simp: is_digit_def)

lemma digit_not_space: "is_digit c \<Longrightarrow> \<not> int_space c"
  by (auto simp: is_digit_def int_space_def Let_def)

lemma double_us_digits: "\<forall>c \<in> set s. is_digit c \<Longrightarrow> \<not> double_us s"
  by (induction s rule: double_us.induct) (auto dest: digit_not_us)

lemma py_int_digits:
  assumes "s \<noteq> []" "\<forall>c \<in> set s. is_digit c" "length s \<le> int_max_str_digits"
  shows "py_int s = Inr (int (nat_of_digits s))"
    and "py_int (CHR ''-'' # s) = Inr (- int (nat_of_digits s))"
proof -
  obtain c t where s: "s = c # t" using assms(1) by (cases s) auto
  have c: "is_digit c" using assms(2) s by simp
  have r: "takeWhile digit_or_us s = s" "dropWhile digit_or_us s = []" "filter is_digit s = s"
    using assms(2) by (auto simp: digit_or_us_def takeWhile_eq_all_conv dropWhile_eq_Nil_conv filter_id_conv)
  have sp: "dropWhile int_space s = s" "\<not> int_space (CHR ''-'')"
    using digit_not_space [OF c] s by (simp_all add: int_space_def)
  have u: "hd s \<noteq> CHR ''_''" "last s \<noteq> CHR ''_''" "hd s \<noteq> CHR ''-''" "hd s \<noteq> CHR ''+''"
    using assms digit_not_us last_in_set [OF assms(1)] hd_in_set [OF assms(1)] by metis+
  note d = double_us_digits [OF assms(2)]
  show "py_int s = Inr (int (nat_of_digits s))"
    using assms(3) by (simp add: py_int_def Let_def r sp u d assms(1))
  show "py_int (CHR ''-'' # s) = Inr (- int (nat_of_digits s))"
    using assms(3) by (simp add: py_int_def Let_def r sp u d assms(1))
qed

lemma py_int_str_of_int:
  assumes "length (str_of_nat (nat \<bar>i\<bar>)) \<le> int_max_str_digits"
  shows "py_int (str_of_int i) = Inr i"
proof -
  have "\<forall>c \<in> set (str_of_nat n). is_digit c" for n using str_of_nat_digits by blast
  then show ?thesis
    using assms py_int_digits [of "str_of_nat (nat \<bar>i\<bar>)"] by (auto simp: str_of_int_def)
qed

lemma py_int_Nil [simp]: "py_int [] = Inl (int_error [])"
  by (simp add: py_int_def Let_def)

section \<open>\<open>int(v)\<close> on a JSON value\<close>

text \<open>
  A float is carried by its decimal text; \<open>int()\<close> truncates the number that text denotes. The
  infinities and \<open>nan\<close> have no integer.
\<close>

definition exp_value :: "string \<Rightarrow> int" where
  "exp_value ep =
     (case ep of [] \<Rightarrow> 0
      | _ # ds \<Rightarrow> (case ds of [] \<Rightarrow> 0
          | g # gs \<Rightarrow> if g = CHR ''-'' then - int (nat_of_digits gs)
              else if g = CHR ''+'' then int (nat_of_digits gs) else int (nat_of_digits ds)))"

definition real_trunc :: "string \<Rightarrow> int option" where
  "real_trunc t =
     (let neg = (t \<noteq> [] \<and> hd t = CHR ''-''); s = (if neg then tl t else t) in
      case scan_int_part s of
        None \<Rightarrow> None
      | Some (ip, r) \<Rightarrow>
          (let (fp, r') = scan_frac r; (ep, r'') = scan_exp r';
               e = exp_value ep - int (length (tl fp)); m = int (nat_of_digits (ip @ tl fp));
               v = (if 0 \<le> e then m * 10 ^ nat e else m div 10 ^ nat (- e)) in
           if r'' = [] then Some (if neg then - v else v) else None))"

fun json_int :: "json \<Rightarrow> int option" where
  "json_int (JInt i) = Some i"
| "json_int (JBool b) = Some (if b then 1 else 0)"
| "json_int (JReal t) = real_trunc t"
| "json_int (JStr s) = (case py_int s of Inl _ \<Rightarrow> None | Inr i \<Rightarrow> Some i)"
| "json_int _ = None"

lemma real_trunc_example: "real_trunc ''-12.75'' = Some (- 12)"
  by (simp add: real_trunc_def scan_int_part_def scan_frac_def scan_exp_def exp_value_def nat_of_digits_def
      is_digit_def digit_val_def)

end
