(* ===== verification/Config_Models.thy ===== *)
theory Config_Models
  imports Py_Int Complex_Main
begin

text \<open>
  \<^verbatim>\<open>app/config/models.py\<close>: the configuration tree as records, the \<open>Literal\<close> aliases as
  datatypes, and the two cross-field validators. Field-level type checking is pydantic's; what
  reaches the validators is already typed. The error type of \<^verbatim>\<open>app/errors.py\<close> is here
  too, because every component below raises it.
\<close>

section \<open>Errors\<close>

text \<open>\<open>AppError(code, message, details, status_code)\<close> and its JSON rendering.\<close>

datatype app_error =
  AppError (ae_code: string) (ae_message: string) (ae_details: "(string \<times> json) list") (ae_status: int)

type_synonym 'a result = "app_error + 'a"

text \<open>An exception in general: an \<open>AppError\<close>, or another Python exception by its class or text.\<close>

datatype py_exc =
    ExApp app_error
  | ExRaw string

abbreviation raise_400 :: "string \<Rightarrow> string \<Rightarrow> (string \<times> json) list \<Rightarrow> app_error + 'a" where
  "raise_400 code msg details \<equiv> Inl (AppError code msg details 400)"

definition to_error_response :: "string \<Rightarrow> app_error \<Rightarrow> int \<times> json" where
  "to_error_response request_id exc =
     (ae_status exc,
      JDict [(''error'', JDict [(''code'', JStr (ae_code exc)), (''message'', JStr (ae_message exc)),
        (''details'', JDict (ae_details exc)), (''request_id'', JStr request_id)])])"

section \<open>Access to JSON values\<close>

text \<open>\<open>v.get(k, default)\<close>, which raises AttributeError when \<open>v\<close> is not a dict.\<close>

definition py_get :: "json \<Rightarrow> string \<Rightarrow> json \<Rightarrow> py_exc + json" where
  "py_get v k dflt =
     (case v of
        JDict d \<Rightarrow> Inr (case dict_get d k of None \<Rightarrow> dflt | Some x \<Rightarrow> x)
      | _ \<Rightarrow> Inl (ExRaw ''AttributeError''))"

definition or_default :: "json \<Rightarrow> json \<Rightarrow> json" where
  "or_default v d = (if truthy v then v else d)"

text \<open>\<open>for x in v\<close>: a dict iterates over its keys, a string over its characters.\<close>

definition py_iter :: "json \<Rightarrow> py_exc + json list" where
  "py_iter v =
     (case v of
        JList xs \<Rightarrow> Inr xs
      | JDict d \<Rightarrow> Inr (map (JStr \<circ> fst) d)
      | JStr s \<Rightarrow> Inr (map (\<lambda>c. JStr [c]) s)
      | _ \<Rightarrow> Inl (ExRaw ''TypeError''))"

definition py_index :: "json \<Rightarrow> string \<Rightarrow> py_exc + json" where
  "py_index v k =
     (case v of
        JDict d \<Rightarrow> (case dict_get d k of None \<Rightarrow> Inl (ExRaw ''KeyError'') | Some x \<Rightarrow> Inr x)
      | _ \<Rightarrow> Inl (ExRaw ''TypeError''))"

definition jstrs :: "string list \<Rightarrow> json" where
  "jstrs xs = JList (map JStr xs)"

fun jopt :: "('a \<Rightarrow> json) \<Rightarrow> 'a option \<Rightarrow> json" where
  "jopt f None = JNull"
| "jopt f (Some x) = f x"

definition lift_app :: "'a result \<Rightarrow> py_exc + 'a" where
  "lift_app r = (case r of Inl e \<Rightarrow> Inl (ExApp e) | Inr x \<Rightarrow> Inr x)"

section \<open>Enumerations\<close>

datatype criticality = CritRequired | CritRecommended | CritOptional
datatype public_auth_mode = AnonymousAllowed | ApiKeyOptional | ApiKeyRequired
datatype cors_mode = CorsOff | CorsAllowlist | CorsWideOpen
datatype same_site = SSStrict | SSLax | SSNone
datatype mapping_mode =
  MDirect | MConstant | MSplitList | MFirstNonEmpty | MTemplate | MNestedObject | MDateParser
  | MBooleanCast | MUrlPassthrough
datatype backend_type = BtElasticsearch | BtOpensearch
datatype backend_auth_mode = BamNone | BamBasic | BamBearer | BamApiKey
datatype schema_profile = ProfLibrary | ProfMuseum | ProfArchive | ProfCustom

fun criticality_str :: "criticality \<Rightarrow> string" where
  "criticality_str CritRequired = ''required''"
| "criticality_str CritRecommended = ''recommended''"
| "criticality_str CritOptional = ''optional''"

fun auth_mode_str :: "backend_auth_mode \<Rightarrow> string" where
  "auth_mode_str BamNone = ''none''"
| "auth_mode_str BamBasic = ''basic''"
| "auth_mode_str BamBearer = ''bearer''"
| "auth_mode_str BamApiKey = ''api_key''"

fun public_mode_str :: "public_auth_mode \<Rightarrow> string" where
  "public_mode_str AnonymousAllowed = ''anonymous_allowed''"
| "public_mode_str ApiKeyOptional = ''api_key_optional''"
| "public_mode_str ApiKeyRequired = ''api_key_required''"

fun mapping_mode_str :: "mapping_mode \<Rightarrow> string" where
  "mapping_mode_str MDirect = ''direct''"
| "mapping_mode_str MConstant = ''constant''"
| "mapping_mode_str MSplitList = ''split_list''"
| "mapping_mode_str MFirstNonEmpty = ''first_non_empty''"
| "mapping_mode_str MTemplate = ''template''"
| "mapping_mode_str MNestedObject = ''nested_object''"
| "mapping_mode_str MDateParser = ''date_parser''"
| "mapping_mode_str MBooleanCast = ''boolean_cast''"
| "mapping_mode_str MUrlPassthrough = ''url_passthrough''"

section \<open>Records\<close>

record security_profile =
  sp_allow_empty_query :: bool
  sp_page_size_default :: int
  sp_page_size_max :: int
  sp_max_facets :: int
  sp_max_buckets_per_facet :: int
  sp_allow_raw_fields :: bool
  sp_allow_debug_translation :: bool
  sp_max_depth :: int

record backend_auth_config =
  ba_mode :: backend_auth_mode
  ba_username :: "string option"
  ba_password :: "string option"
  ba_token :: "string option"
  ba_password_env :: "string option"
  ba_token_env :: "string option"

record backend_config =
  be_type :: backend_type
  be_url :: string
  be_index :: string
  be_timeout_seconds :: rat
  be_max_retries :: int
  be_retry_backoff_seconds :: rat
  be_retry_backoff_cap_seconds :: rat
  be_retry_deadline_seconds :: rat
  be_auth :: backend_auth_config

record cache_config =
  cc_public_max_age_seconds :: int
  cc_enabled :: bool

record rate_limit_config =
  rl_public_max_requests :: int
  rl_public_window_seconds :: int
  rl_admin_login_max_requests :: int
  rl_admin_login_window_seconds :: int

record auth_config =
  au_public_mode :: public_auth_mode
  au_bootstrap_admin_key :: string
  au_admin_cookie_secure :: bool
  au_admin_cookie_samesite :: same_site
  au_admin_session_ttl_hours :: int
  au_admin_session_idle_timeout_minutes :: int
  au_public_401_lockout_threshold :: int
  au_public_401_lockout_window_seconds :: int

record proxy_config =
  px_trusted_proxies :: "string list"
  px_allowed_hosts :: "string list"

record cors_config =
  co_mode :: cors_mode
  co_allow_origins :: "string list"
  co_allow_methods :: "string list"
  co_allow_headers :: "string list"

record storage_config =
  st_sqlite_path :: string
  st_usage_events_retention_days :: int
  st_purge_interval_seconds :: int

record field_mapping =
  fm_source :: "string option"
  fm_mode :: mapping_mode
  fm_constant :: "string option"
  fm_sources :: "string list"
  fm_separator :: string
  fm_template :: "string option"
  fm_allowed_fields :: "string list"
  fm_criticality :: criticality

record app_config =
  ac_backend :: backend_config
  ac_storage :: storage_config
  ac_schema_profile :: schema_profile
  ac_default_language :: "string option"
  ac_security_profile :: string
  ac_profiles :: "(string \<times> security_profile) list"
  ac_auth :: auth_config
  ac_proxy :: proxy_config
  ac_cors :: cors_config
  ac_cache :: cache_config
  ac_rate_limit :: rate_limit_config
  ac_allowed_sorts :: "string list"
  ac_allowed_facets :: "string list"
  ac_allowed_include_fields :: "string list"
  ac_mapping :: "(string \<times> field_mapping) list"

section \<open>Defaults\<close>

definition default_security_profile :: security_profile where
  "default_security_profile =
     \<lparr>sp_allow_empty_query = False, sp_page_size_default = 20, sp_page_size_max = 50,
      sp_max_facets = 3, sp_max_buckets_per_facet = 20, sp_allow_raw_fields = False,
      sp_allow_debug_translation = False, sp_max_depth = 2000\<rparr>"

definition default_backend_auth :: backend_auth_config where
  "default_backend_auth =
     \<lparr>ba_mode = BamNone, ba_username = None, ba_password = None, ba_token = None,
      ba_password_env = None, ba_token_env = None\<rparr>"

definition default_backend_config :: backend_config where
  "default_backend_config =
     \<lparr>be_type = BtElasticsearch, be_url = ''http://localhost:9200'', be_index = ''records'',
      be_timeout_seconds = 15, be_max_retries = 2, be_retry_backoff_seconds = 1 / 5,
      be_retry_backoff_cap_seconds = 5, be_retry_deadline_seconds = 30,
      be_auth = default_backend_auth\<rparr>"

definition default_cache_config :: cache_config where
  "default_cache_config = \<lparr>cc_public_max_age_seconds = 60, cc_enabled = True\<rparr>"

definition default_rate_limit_config :: rate_limit_config where
  "default_rate_limit_config =
     \<lparr>rl_public_max_requests = 60, rl_public_window_seconds = 60,
      rl_admin_login_max_requests = 10, rl_admin_login_window_seconds = 300\<rparr>"

definition default_auth_config :: auth_config where
  "default_auth_config =
     \<lparr>au_public_mode = AnonymousAllowed, au_bootstrap_admin_key = [],
      au_admin_cookie_secure = True, au_admin_cookie_samesite = SSStrict,
      au_admin_session_ttl_hours = 12, au_admin_session_idle_timeout_minutes = 15,
      au_public_401_lockout_threshold = 20, au_public_401_lockout_window_seconds = 300\<rparr>"

definition default_cors_config :: cors_config where
  "default_cors_config =
     \<lparr>co_mode = CorsOff, co_allow_origins = [], co_allow_methods = [''GET''],
      co_allow_headers = [''x-api-key'', ''content-type'']\<rparr>"

definition default_storage_config :: storage_config where
  "default_storage_config =
     \<lparr>st_sqlite_path = ''data/egg_state.sqlite3'', st_usage_events_retention_days = 30,
      st_purge_interval_seconds = 3600\<rparr>"

definition default_field_mapping :: field_mapping where
  "default_field_mapping =
     \<lparr>fm_source = None, fm_mode = MDirect, fm_constant = None, fm_sources = [],
      fm_separator = '';'', fm_template = None, fm_allowed_fields = [],
      fm_criticality = CritOptional\<rparr>"

definition default_mapping :: "(string \<times> field_mapping) list" where
  "default_mapping =
     [(''id'', default_field_mapping\<lparr>fm_source := Some ''id'', fm_criticality := CritRequired\<rparr>),
      (''type'', default_field_mapping\<lparr>fm_source := Some ''type'', fm_criticality := CritRequired\<rparr>),
      (''title'', default_field_mapping\<lparr>fm_source := Some ''title''\<rparr>),
      (''description'', default_field_mapping\<lparr>fm_source := Some ''description''\<rparr>),
      (''creators'', default_field_mapping\<lparr>fm_source := Some ''creator_csv'', fm_mode := MSplitList\<rparr>)]"

definition default_app_config :: app_config where
  "default_app_config =
     \<lparr>ac_backend = default_backend_config, ac_storage = default_storage_config,
      ac_schema_profile = ProfLibrary, ac_default_language = None,
      ac_security_profile = ''prudent'',
      ac_profiles = [(''prudent'', default_security_profile),
        (''standard'', default_security_profile\<lparr>sp_page_size_max := 100, sp_max_facets := 5,
           sp_max_buckets_per_facet := 50\<rparr>)],
      ac_auth = default_auth_config,
      ac_proxy = \<lparr>px_trusted_proxies = [], px_allowed_hosts = []\<rparr>,
      ac_cors = default_cors_config, ac_cache = default_cache_config,
      ac_rate_limit = default_rate_limit_config,
      ac_allowed_sorts = [''relevance'', ''date_desc'', ''date_asc'', ''title_asc''],
      ac_allowed_facets = [''type'', ''language'', ''collection'', ''institution'', ''subject''],
      ac_allowed_include_fields = [''id'', ''type'', ''title'', ''description'', ''creators''],
      ac_mapping = default_mapping\<rparr>"

section \<open>Secrets and validators\<close>

text \<open>A string option counts as set when it is present and not empty.\<close>

abbreviation is_set :: "string option \<Rightarrow> bool" where
  "is_set x \<equiv> x \<noteq> None \<and> x \<noteq> Some []"

text \<open>\<open>env\<close> is \<open>os.getenv\<close>.\<close>

definition resolve_password :: "(string \<Rightarrow> string option) \<Rightarrow> backend_auth_config \<Rightarrow> string option" where
  "resolve_password env a =
     (if is_set (ba_password_env a) then env (the (ba_password_env a)) else ba_password a)"

definition resolve_token :: "(string \<Rightarrow> string option) \<Rightarrow> backend_auth_config \<Rightarrow> string option" where
  "resolve_token env a =
     (if is_set (ba_token_env a) then env (the (ba_token_env a)) else ba_token a)"

definition validate_backend_auth :: "backend_auth_config \<Rightarrow> string + backend_auth_config" where
  "validate_backend_auth a =
     (if ba_mode a = BamBasic then
        (if \<not> is_set (ba_username a) then Inl ''backend.auth.mode='basic' requires a username''
         else if \<not> (is_set (ba_password a) \<or> is_set (ba_password_env a))
         then Inl ''backend.auth.mode='basic' requires either password or password_env''
         else Inr a)
      else if ba_mode a = BamBearer \<or> ba_mode a = BamApiKey then
        (if \<not> (is_set (ba_token a) \<or> is_set (ba_token_env a))
         then Inl (''backend.auth.mode='' @ py_repr (auth_mode_str (ba_mode a)) @ '' requires either token or token_env'')
         else Inr a)
      else Inr a)"

definition structural_fields :: "string list" where
  "structural_fields = [''id'', ''type'']"

definition key_head :: "string \<Rightarrow> string" where
  "key_head k = takeWhile (\<lambda>c. c \<noteq> CHR ''.'') k"

definition mapped_fields :: "(string \<times> field_mapping) list \<Rightarrow> string list" where
  "mapped_fields m =
     structural_fields @ dict_keys m @ map key_head (filter (\<lambda>k. CHR ''.'' \<in> set k) (dict_keys m))"

definition declares_source :: "field_mapping \<Rightarrow> bool" where
  "declares_source r \<longleftrightarrow>
     is_set (fm_source r) \<or> fm_sources r \<noteq> [] \<or> fm_constant r \<noteq> None \<or> fm_template r \<noteq> None"

fun check_rules :: "(string \<times> field_mapping) list \<Rightarrow> string option" where
  "check_rules [] = None"
| "check_rules ((name, r) # m) =
     (if fm_criticality r \<in> {CritRequired, CritRecommended} \<and> \<not> declares_source r
      then Some (''mapping['' @ py_repr name @ ''] is '' @ criticality_str (fm_criticality r)
        @ '' but declares no source/sources/constant/template'')
      else check_rules m)"

definition repr_strs :: "string list \<Rightarrow> string" where
  "repr_strs xs = json_repr (JList (map JStr xs))"

definition validate_app_config :: "app_config \<Rightarrow> string + app_config" where
  "validate_app_config c =
     (if ac_security_profile c \<notin> set (dict_keys (ac_profiles c))
      then Inl (''security_profile '' @ py_repr (ac_security_profile c)
        @ '' is not defined in profiles (known: '' @ repr_strs (sort (dict_keys (ac_profiles c))) @ '')'')
      else if au_admin_cookie_samesite (ac_auth c) = SSNone \<and> \<not> au_admin_cookie_secure (ac_auth c)
      then Inl (''auth.admin_cookie_samesite='none' requires admin_cookie_secure=true; set both or pick 'lax'/'' @ py_repr ''strict'')
      else (let unmapped = filter (\<lambda>f. f \<notin> set (mapped_fields (ac_mapping c))) (ac_allowed_include_fields c) in
        if unmapped \<noteq> []
        then Inl (''allowed_include_fields references fields absent from mapping: '' @ repr_strs unmapped)
        else (case check_rules (ac_mapping c) of Some e \<Rightarrow> Inl e | None \<Rightarrow> Inr c)))"

section \<open>What validation guarantees\<close>

definition config_ok :: "app_config \<Rightarrow> bool" where
  "config_ok c \<longleftrightarrow>
     ac_security_profile c \<in> set (dict_keys (ac_profiles c)) \<and>
     (au_admin_cookie_samesite (ac_auth c) = SSNone \<longrightarrow> au_admin_cookie_secure (ac_auth c)) \<and>
     set (ac_allowed_include_fields c) \<subseteq> set (mapped_fields (ac_mapping c)) \<and>
     (\<forall>(n, r) \<in> set (ac_mapping c). fm_criticality r \<noteq> CritOptional \<longrightarrow> declares_source r)"

lemma check_rules_None:
  "check_rules m = None \<longleftrightarrow> (\<forall>(n, r) \<in> set m. fm_criticality r \<noteq> CritOptional \<longrightarrow> declares_source r)"
proof (induction m rule: check_rules.induct)
  case (2 name r m)
  then show ?case by (cases "fm_criticality r") auto
qed simp

lemma validate_app_config_iff: "validate_app_config c = Inr c' \<longleftrightarrow> c' = c \<and> config_ok c"
  by (auto simp: validate_app_config_def config_ok_def check_rules_None [symmetric] Let_def
      filter_empty_conv split: option.splits)

lemma default_config_ok: "config_ok default_app_config"
  by (simp add: config_ok_def default_app_config_def default_auth_config_def mapped_fields_def
      default_mapping_def default_field_mapping_def declares_source_def structural_fields_def)

text \<open>The lookup \<open>config.profiles[config.security_profile]\<close> of a validated configuration.\<close>

definition active_profile :: "app_config \<Rightarrow> security_profile" where
  "active_profile c = the (dict_get (ac_profiles c) (ac_security_profile c))"

lemma active_profile_defined:
  assumes "config_ok c"
  shows "dict_get (ac_profiles c) (ac_security_profile c) = Some (active_profile c)"
proof -
  have "dict_get (ac_profiles c) (ac_security_profile c) \<noteq> None"
    using assms by (simp add: config_ok_def map_of_eq_None_iff)
  then show ?thesis by (simp add: active_profile_def)
qed

end
