(* ===== verification/Query_Policy.thy ===== *)
theory Query_Policy
  imports Config_Models "HOL-Library.Multiset"
begin

text \<open>
  \<^verbatim>\<open>app/schemas/query.py\<close> and \<^verbatim>\<open>app/query_policy/engine.py\<close>: the normalised query and the
  policy engine that builds it from the HTTP query parameters.

  The parameter multi-dict belongs to Starlette, so it is an argument: \<open>query_params\<close> holds
  its three accessors, and \<open>qp_lawful\<close> states what its documentation says of them. A Python set
  has no defined iteration order, so the order in which \<open>filter_params\<close> is walked is an argument
  too. SHA-256 is the argument of \<open>compute_cache_key\<close>.
\<close>

section \<open>Data\<close>

record normalized_query =
  nq_q :: "string option"
  nq_page :: int
  nq_page_size :: int
  nq_sort :: "string option"
  nq_facets :: "string list"
  nq_include_fields :: "string list"
  nq_filters :: "(string \<times> string list) list"
  nq_date_from :: "string option"
  nq_date_to :: "string option"
  nq_has_digital :: "bool option"
  nq_has_iiif :: "bool option"
  nq_cursor :: "string option"

definition empty_query :: normalized_query where
  "empty_query =
     \<lparr>nq_q = None, nq_page = 1, nq_page_size = 20, nq_sort = None, nq_facets = [],
      nq_include_fields = [], nq_filters = [], nq_date_from = None, nq_date_to = None,
      nq_has_digital = None, nq_has_iiif = None, nq_cursor = None\<rparr>"

definition nq_depth :: "normalized_query \<Rightarrow> int" where
  "nq_depth nq = nq_page nq * nq_page_size nq"

record query_params =
  qp_keys :: "string list"
  qp_get :: "string \<Rightarrow> string option"
  qp_getlist :: "string \<Rightarrow> string list"

text \<open>The accessors agree: \<open>get\<close> is the last of \<open>getlist\<close>, and a key is present when it has a value.\<close>

definition qp_lawful :: "query_params \<Rightarrow> bool" where
  "qp_lawful qp \<longleftrightarrow>
     (\<forall>k. qp_get qp k = (if qp_getlist qp k = [] then None else Some (last (qp_getlist qp k)))) \<and>
     (\<forall>k. k \<in> set (qp_keys qp) \<longleftrightarrow> qp_getlist qp k \<noteq> [])"

text \<open>A concrete multi-dict, built from the pairs of a query string.\<close>

definition qp_of :: "(string \<times> string) list \<Rightarrow> query_params" where
  "qp_of ps =
     \<lparr>qp_keys = remdups (map fst ps), qp_get = map_of (rev ps),
      qp_getlist = (\<lambda>k. map snd (filter (\<lambda>p. fst p = k) ps))\<rparr>"

lemma qp_of_lawful: "qp_lawful (qp_of ps)"
proof -
  have "map_of (rev ps) k =
      (let vs = map snd (filter (\<lambda>p. fst p = k) ps) in if vs = [] then None else Some (last vs))" for k
    by (induction ps rule: rev_induct) (auto simp: Let_def)
  moreover have "k \<in> fst ` set ps \<longleftrightarrow> filter (\<lambda>p. fst p = k) ps \<noteq> []" for k
    by (auto simp: filter_empty_conv)
  ultimately show ?thesis by (simp add: qp_lawful_def qp_of_def Let_def)
qed

section \<open>The engine\<close>

definition allowed_params :: "string list" where
  "allowed_params =
     [''q'', ''page'', ''page_size'', ''sort'', ''facet'', ''include_fields'', ''format'', ''cursor'',
      ''type'', ''collection'', ''language'', ''institution'', ''date_from'', ''date_to'', ''subject'',
      ''has_digital'', ''has_iiif'']"

definition filter_params :: "string list" where
  "filter_params = [''type'', ''collection'', ''language'', ''institution'', ''subject'']"

definition MAX_Q_LENGTH :: nat where "MAX_Q_LENGTH = 512"
definition MAX_FILTER_VALUES :: nat where "MAX_FILTER_VALUES = 50"
definition MAX_FILTER_VALUE_LENGTH :: nat where "MAX_FILTER_VALUE_LENGTH = 256"
definition MAX_INCLUDE_FIELDS :: nat where "MAX_INCLUDE_FIELDS = 20"

definition parse_bool :: "string option \<Rightarrow> bool option result" where
  "parse_bool value =
     (case value of
        None \<Rightarrow> Inr None
      | Some v \<Rightarrow>
          (let normalized = py_lower (py_strip v) in
           if normalized \<in> {''true'', ''1'', ''yes'', ''on''} then Inr (Some True)
           else if normalized \<in> {''false'', ''0'', ''no'', ''off''} then Inr (Some False)
           else raise_400 ''invalid_parameter'' ''Invalid boolean value'' [(''value'', JStr v)]))"

text \<open>The guards of \<open>parse\<close>, in source order; each returns the values it computes.\<close>

definition check_known :: "query_params \<Rightarrow> unit result" where
  "check_known qp =
     (let unknown = sort (remdups (filter (\<lambda>k. k \<notin> set allowed_params) (qp_keys qp))) in
      if unknown \<noteq> []
      then raise_400 ''invalid_parameter'' ''Unknown query parameter(s)'' [(''unknown'', jstrs unknown)]
      else Inr ())"

definition parse_q :: "security_profile \<Rightarrow> query_params \<Rightarrow> string option result" where
  "parse_q p qp =
     (let q = qp_get qp ''q'' in
      if \<not> is_set q \<and> \<not> sp_allow_empty_query p
      then raise_400 ''missing_parameter'' ''q is required for this profile'' [(''parameter'', JStr ''q'')]
      else if q \<noteq> None \<and> MAX_Q_LENGTH < length (the q)
      then raise_400 ''invalid_parameter'' ''q is too long''
        [(''max_length'', JInt (int MAX_Q_LENGTH)), (''actual_length'', JInt (int (length (the q))))]
      else Inr q)"

definition int_param :: "string \<Rightarrow> int result" where
  "int_param s =
     (case py_int s of
        Inl reason \<Rightarrow> raise_400 ''invalid_parameter'' ''page and page_size must be integers''
          [(''reason'', JStr reason)]
      | Inr n \<Rightarrow> Inr n)"

definition get_or :: "query_params \<Rightarrow> string \<Rightarrow> string \<Rightarrow> string" where
  "get_or qp k d = (case qp_get qp k of None \<Rightarrow> d | Some v \<Rightarrow> v)"

definition parse_page :: "security_profile \<Rightarrow> query_params \<Rightarrow> (int \<times> int \<times> string option) result" where
  "parse_page p qp =
     bind_r (int_param (get_or qp ''page'' ''1'')) (\<lambda>page.
     bind_r (int_param (get_or qp ''page_size'' (str_of_int (sp_page_size_default p)))) (\<lambda>page_size.
       if page < 1 \<or> page_size < 1
       then raise_400 ''invalid_parameter'' ''page and page_size must be positive'' []
       else if sp_page_size_max p < page_size
       then raise_400 ''invalid_parameter'' ''page_size exceeds policy''
         [(''max'', JInt (sp_page_size_max p)), (''requested'', JInt page_size)]
       else
         (let cursor = (if is_set (qp_get qp ''cursor'') then qp_get qp ''cursor'' else None);
              requested_depth = page * page_size in
          if cursor = None \<and> sp_max_depth p < requested_depth
          then raise_400 ''unsupported_operation'' ''Deep pagination is not supported''
            [(''max_depth'', JInt (sp_max_depth p)), (''requested'', JInt requested_depth)]
          else Inr (page, page_size, cursor))))"

definition parse_sort_param :: "app_config \<Rightarrow> query_params \<Rightarrow> string option result" where
  "parse_sort_param c qp =
     (let sort = qp_get qp ''sort'' in
      if is_set sort \<and> the sort \<notin> set (ac_allowed_sorts c)
      then raise_400 ''forbidden'' ''Sort is not allowed'' [(''sort'', JStr (the sort))]
      else Inr sort)"

definition parse_facets :: "app_config \<Rightarrow> security_profile \<Rightarrow> query_params \<Rightarrow> string list result" where
  "parse_facets c p qp =
     (let facets = qp_getlist qp ''facet'';
          forbidden = filter (\<lambda>f. f \<notin> set (ac_allowed_facets c)) facets in
      if sp_max_facets p < int (length facets)
      then raise_400 ''invalid_parameter'' ''Too many facets requested''
        [(''max_facets'', JInt (sp_max_facets p))]
      else if forbidden \<noteq> []
      then raise_400 ''forbidden'' ''Facet is not allowed'' [(''facets'', jstrs forbidden)]
      else Inr facets)"

definition parse_include_fields :: "app_config \<Rightarrow> query_params \<Rightarrow> string list result" where
  "parse_include_fields c qp =
     (let fields = filter (\<lambda>x. x \<noteq> []) (split_char (CHR '','') (get_or qp ''include_fields'' []));
          forbidden = filter (\<lambda>f. f \<notin> set (ac_allowed_include_fields c)) fields in
      if MAX_INCLUDE_FIELDS < length fields
      then raise_400 ''invalid_parameter'' ''Too many include_fields''
        [(''max'', JInt (int MAX_INCLUDE_FIELDS)), (''requested'', JInt (int (length fields)))]
      else if forbidden \<noteq> []
      then raise_400 ''forbidden'' ''include_fields contains forbidden fields''
        [(''fields'', jstrs forbidden)]
      else Inr fields)"

text \<open>The loop over the filter names; \<open>names\<close> is the set's iteration order.\<close>

fun parse_filters ::
  "query_params \<Rightarrow> string list \<Rightarrow> (string \<times> string list) list \<Rightarrow> (string \<times> string list) list result"
where
  "parse_filters qp [] filters = Inr filters"
| "parse_filters qp (name # names) filters =
     (let values = qp_getlist qp name in
      if values = [] then parse_filters qp names filters
      else if MAX_FILTER_VALUES < length values
      then raise_400 ''invalid_parameter'' ''Too many values for filter''
        [(''filter'', JStr name), (''max'', JInt (int MAX_FILTER_VALUES)),
         (''requested'', JInt (int (length values)))]
      else if filter (\<lambda>v. MAX_FILTER_VALUE_LENGTH < length v) values \<noteq> []
      then raise_400 ''invalid_parameter'' ''Filter value too long''
        [(''filter'', JStr name), (''max_length'', JInt (int MAX_FILTER_VALUE_LENGTH))]
      else parse_filters qp names (dict_set name values filters))"

definition parse_query :: "app_config \<Rightarrow> string list \<Rightarrow> query_params \<Rightarrow> normalized_query result" where
  "parse_query c order qp =
     (let p = active_profile c in
      bind_r (check_known qp) (\<lambda>_.
      bind_r (parse_q p qp) (\<lambda>q.
      bind_r (parse_page p qp) (\<lambda>(page, page_size, cursor).
      bind_r (parse_sort_param c qp) (\<lambda>sort.
      bind_r (parse_facets c p qp) (\<lambda>facets.
      bind_r (parse_include_fields c qp) (\<lambda>include_fields.
      bind_r (parse_filters qp order []) (\<lambda>filters.
      bind_r (parse_bool (qp_get qp ''has_digital'')) (\<lambda>has_digital.
      bind_r (parse_bool (qp_get qp ''has_iiif'')) (\<lambda>has_iiif.
        Inr \<lparr>nq_q = q, nq_page = page, nq_page_size = page_size, nq_sort = sort, nq_facets = facets,
             nq_include_fields = include_fields, nq_filters = filters,
             nq_date_from = qp_get qp ''date_from'', nq_date_to = qp_get qp ''date_to'',
             nq_has_digital = has_digital, nq_has_iiif = has_iiif, nq_cursor = cursor\<rparr>))))))))))"

text \<open>\<open>model_dump(mode="python")\<close>, the redacted form for the logs, and the cache key.\<close>

definition nq_dump :: "normalized_query \<Rightarrow> (string \<times> json) list" where
  "nq_dump nq =
     [(''q'', jopt JStr (nq_q nq)), (''page'', JInt (nq_page nq)),
      (''page_size'', JInt (nq_page_size nq)), (''sort'', jopt JStr (nq_sort nq)),
      (''facets'', jstrs (nq_facets nq)), (''include_fields'', jstrs (nq_include_fields nq)),
      (''filters'', JDict (map (\<lambda>(k, vs). (k, jstrs vs)) (nq_filters nq))),
      (''date_from'', jopt JStr (nq_date_from nq)), (''date_to'', jopt JStr (nq_date_to nq)),
      (''has_digital'', jopt JBool (nq_has_digital nq)), (''has_iiif'', jopt JBool (nq_has_iiif nq)),
      (''cursor'', jopt JStr (nq_cursor nq))]"

definition redact_for_logs :: "normalized_query \<Rightarrow> (string \<times> json) list" where
  "redact_for_logs nq =
     (let data = nq_dump nq in
      if truthy (jget data ''q'') then dict_set ''q'' (JStr ''[redacted]'') data else data)"

definition cache_payload :: "normalized_query \<Rightarrow> string" where
  "cache_payload nq = json_dumps (sort_keys (JDict (nq_dump nq)))"

definition compute_cache_key :: "(string \<Rightarrow> string) \<Rightarrow> normalized_query \<Rightarrow> string" where
  "compute_cache_key sha256_hex nq = sha256_hex (cache_payload nq)"

section \<open>What the policy admits\<close>

definition filter_ok :: "string \<times> string list \<Rightarrow> bool" where
  "filter_ok f = (case f of (k, vs) \<Rightarrow>
     k \<in> set filter_params \<and> vs \<noteq> [] \<and> length vs \<le> MAX_FILTER_VALUES \<and>
     (\<forall>v \<in> set vs. length v \<le> MAX_FILTER_VALUE_LENGTH))"

definition filters_ok :: "(string \<times> string list) list \<Rightarrow> bool" where
  "filters_ok fs \<longleftrightarrow> distinct (dict_keys fs) \<and> (\<forall>f \<in> set fs. filter_ok f)"

lemma filters_ok_Nil [simp]: "filters_ok []"
  by (simp add: filters_ok_def)

lemma filters_ok_set: "filters_ok fs \<Longrightarrow> filter_ok (k, vs) \<Longrightarrow> filters_ok (dict_set k vs fs)"
  unfolding filters_ok_def using set_dict_set [of _ k vs fs] by (metis distinct_dict_set)

definition within_policy :: "app_config \<Rightarrow> normalized_query \<Rightarrow> bool" where
  "within_policy c nq \<longleftrightarrow>
     (let p = active_profile c in
      (is_set (nq_q nq) \<or> sp_allow_empty_query p) \<and>
      (\<forall>q. nq_q nq = Some q \<longrightarrow> length q \<le> MAX_Q_LENGTH) \<and>
      1 \<le> nq_page nq \<and> 1 \<le> nq_page_size nq \<and> nq_page_size nq \<le> sp_page_size_max p \<and>
      nq_cursor nq \<noteq> Some [] \<and> (nq_cursor nq = None \<longrightarrow> nq_depth nq \<le> sp_max_depth p) \<and>
      (is_set (nq_sort nq) \<longrightarrow> the (nq_sort nq) \<in> set (ac_allowed_sorts c)) \<and>
      int (length (nq_facets nq)) \<le> sp_max_facets p \<and> set (nq_facets nq) \<subseteq> set (ac_allowed_facets c) \<and>
      length (nq_include_fields nq) \<le> MAX_INCLUDE_FIELDS \<and>
      set (nq_include_fields nq) \<subseteq> set (ac_allowed_include_fields c) \<and>
      (\<forall>f \<in> set (nq_include_fields nq). f \<noteq> [] \<and> CHR '','' \<notin> set f) \<and>
      filters_ok (nq_filters nq))"

lemma int_param_Inr [egg_simps]: "int_param s = Inr n \<longleftrightarrow> py_int s = Inr n"
  by (cases "py_int s") (simp_all add: int_param_def)

lemma parse_filters_sound:
  "parse_filters qp names fs = Inr fs' \<Longrightarrow> filters_ok fs \<Longrightarrow> set names \<subseteq> set filter_params \<Longrightarrow> filters_ok fs'"
proof (induction qp names fs rule: parse_filters.induct)
  case (2 qp name names fs)
  have "filters_ok (dict_set name (qp_getlist qp name) fs)"
    if "qp_getlist qp name \<noteq> []" "\<not> MAX_FILTER_VALUES < length (qp_getlist qp name)"
      "\<not> filter (\<lambda>v. MAX_FILTER_VALUE_LENGTH < length v) (qp_getlist qp name) \<noteq> []"
    using that 2(4,5) by (intro filters_ok_set) (auto simp: filter_ok_def filter_empty_conv not_less)
  with 2 show ?case by (simp add: Let_def split: if_splits)
qed simp

lemma parse_page_sound:
  "parse_page p qp = Inr (page, page_size, cursor) \<Longrightarrow>
     1 \<le> page \<and> 1 \<le> page_size \<and> page_size \<le> sp_page_size_max p \<and> cursor \<noteq> Some [] \<and>
     (cursor = None \<longrightarrow> page * page_size \<le> sp_max_depth p)"
  by (auto simp: parse_page_def egg_simps Let_def split: if_splits)

lemma parse_include_fields_sound:
  "parse_include_fields c qp = Inr fs \<Longrightarrow>
     length fs \<le> MAX_INCLUDE_FIELDS \<and> set fs \<subseteq> set (ac_allowed_include_fields c) \<and>
     (\<forall>f \<in> set fs. f \<noteq> [] \<and> CHR '','' \<notin> set f)"
  by (auto simp: parse_include_fields_def Let_def filter_empty_conv dest: split_char_no_sep split: if_splits)

lemma parse_simple_sound:
  "parse_q p qp = Inr q \<Longrightarrow>
     (is_set q \<or> sp_allow_empty_query p) \<and> (\<forall>x. q = Some x \<longrightarrow> length x \<le> MAX_Q_LENGTH)"
  "parse_sort_param c qp = Inr so \<Longrightarrow> is_set so \<longrightarrow> the so \<in> set (ac_allowed_sorts c)"
  "parse_facets c p qp = Inr fs \<Longrightarrow>
     int (length fs) \<le> sp_max_facets p \<and> set fs \<subseteq> set (ac_allowed_facets c)"
  by (auto simp: parse_q_def parse_sort_param_def parse_facets_def Let_def not_less filter_empty_conv
      split: if_splits)

lemma parse_query_admits:
  assumes "parse_query c order qp = Inr nq" and "set order = set filter_params"
  shows "within_policy c nq"
proof -
  from assms(1) obtain q page page_size cursor so facets incl filters hd' hi where
    r: "parse_q (active_profile c) qp = Inr q" "parse_page (active_profile c) qp = Inr (page, page_size, cursor)"
      "parse_sort_param c qp = Inr so" "parse_facets c (active_profile c) qp = Inr facets"
      "parse_include_fields c qp = Inr incl" "parse_filters qp order [] = Inr filters"
    and nq: "nq = \<lparr>nq_q = q, nq_page = page, nq_page_size = page_size, nq_sort = so, nq_facets = facets,
             nq_include_fields = incl, nq_filters = filters,
             nq_date_from = qp_get qp ''date_from'', nq_date_to = qp_get qp ''date_to'',
             nq_has_digital = hd', nq_has_iiif = hi, nq_cursor = cursor\<rparr>"
    by (auto simp: parse_query_def egg_simps Let_def split: prod.splits)
  have "filters_ok filters"
    using parse_filters_sound [OF r(6)] assms(2) by simp
  with parse_simple_sound(1) [OF r(1)] parse_page_sound [OF r(2)] parse_simple_sound(2) [OF r(3)]
    parse_simple_sound(3) [OF r(4)] parse_include_fields_sound [OF r(5)]
  show ?thesis unfolding within_policy_def nq Let_def nq_depth_def by simp
qed

text \<open>
  C1. A query the engine accepts lies within the active security profile: every bound and every
  allow list holds of it, whatever the parameters were and in whatever order the filter set is
  walked.
\<close>

theorem parse_query_within_policy:
  assumes "parse_query c order qp = Inr nq" and "set order = set filter_params"
  shows "within_policy c nq"
  using assms by (rule parse_query_admits)

section \<open>The filters the loop collects\<close>

definition collect_filters :: "query_params \<Rightarrow> string list \<Rightarrow> (string \<times> string list) list" where
  "collect_filters qp names =
     map (\<lambda>k. (k, qp_getlist qp k)) (filter (\<lambda>k. qp_getlist qp k \<noteq> []) names)"

lemma parse_filters_collect:
  "parse_filters qp names fs = Inr fs' \<Longrightarrow> distinct (dict_keys fs @ names) \<Longrightarrow>
     fs' = fs @ collect_filters qp names"
proof (induction qp names fs rule: parse_filters.induct)
  case (2 qp name names fs)
  then show ?case
    by (cases "qp_getlist qp name = []")
       (simp_all add: Let_def collect_filters_def dict_set_fresh split: if_splits)
qed (simp add: collect_filters_def)

lemma parse_filters_complete:
  "distinct (dict_keys fs @ names) \<Longrightarrow> \<forall>f \<in> set (collect_filters qp names). filter_ok f \<Longrightarrow>
     parse_filters qp names fs = Inr (fs @ collect_filters qp names)"
proof (induction qp names fs rule: parse_filters.induct)
  case (2 qp name names fs)
  show ?case
  proof (cases "qp_getlist qp name = []")
    case True
    with 2 show ?thesis by (simp add: collect_filters_def Let_def)
  next
    case False
    with 2(4) have ok: "filter_ok (name, qp_getlist qp name)" by (simp add: collect_filters_def)
    then have "\<not> MAX_FILTER_VALUES < length (qp_getlist qp name)"
      "\<not> filter (\<lambda>v. MAX_FILTER_VALUE_LENGTH < length v) (qp_getlist qp name) \<noteq> []"
      by (auto simp: filter_ok_def filter_empty_conv not_less)
    with False 2 show ?thesis by (simp add: collect_filters_def Let_def dict_set_fresh)
  qed
qed (simp add: collect_filters_def)

lemma mset_collect_filters:
  "mset names = mset names' \<Longrightarrow> mset (collect_filters qp names) = mset (collect_filters qp names')"
  by (simp add: collect_filters_def)

section \<open>The cache key\<close>

lemma sort_key_perm:
  assumes "mset xs = mset ys" "distinct (map f xs)"
  shows "sort_key f xs = sort_key f ys"
proof -
  have st: "set xs = set ys" using assms(1) by (rule mset_eq_setD)
  have m: "mset (map f (sort_key f zs)) = mset (map f zs)" for zs by (simp add: mset_map)
  have d: "distinct (map f (sort_key f xs))" "distinct (map f (sort_key f ys))"
    using assms m by (metis mset_eq_imp_distinct_iff mset_map)+
  show ?thesis
    by (rule map_sorted_distinct_set_unique [of f])
       (use d st assms(2) in \<open>simp_all add: distinct_map\<close>)
qed

text \<open>\<open>filters\<close> is the only entry of the payload whose order depends on the set.\<close>

lemma sort_keys_strs [simp]: "sort_keys (jstrs xs) = jstrs xs"
  by (simp add: jstrs_def)

lemma sort_keys_jopt [simp]:
  "sort_keys (jopt JStr x) = jopt JStr x" "sort_keys (jopt JBool b) = jopt JBool b"
  by (cases x; simp) (cases b; simp)

definition sorted_filters :: "(string \<times> string list) list \<Rightarrow> (string \<times> json) list" where
  "sorted_filters fs = sort_key fst (map (\<lambda>(k, vs). (k, jstrs vs)) fs)"

lemma sort_keys_filters:
  "sort_keys (JDict (map (\<lambda>(k, vs). (k, jstrs vs)) fs)) = JDict (sorted_filters fs)"
  by (simp add: sorted_filters_def case_prod_unfold comp_def)

lemma sorted_filters_perm:
  assumes "mset fs = mset gs" "distinct (dict_keys fs)"
  shows "sorted_filters fs = sorted_filters gs"
  unfolding sorted_filters_def
  by (rule sort_key_perm) (use assms in \<open>simp_all add: mset_map case_prod_unfold comp_def\<close>)

text \<open>The payload of a query, with the entries in key order.\<close>

definition cache_entries :: "normalized_query \<Rightarrow> (string \<times> json) list" where
  "cache_entries nq =
     [(''cursor'', jopt JStr (nq_cursor nq)), (''date_from'', jopt JStr (nq_date_from nq)),
      (''date_to'', jopt JStr (nq_date_to nq)), (''facets'', jstrs (nq_facets nq)),
      (''filters'', JDict (sorted_filters (nq_filters nq))),
      (''has_digital'', jopt JBool (nq_has_digital nq)), (''has_iiif'', jopt JBool (nq_has_iiif nq)),
      (''include_fields'', jstrs (nq_include_fields nq)), (''page'', JInt (nq_page nq)),
      (''page_size'', JInt (nq_page_size nq)), (''q'', jopt JStr (nq_q nq)),
      (''sort'', jopt JStr (nq_sort nq))]"

lemma sort_keys_dump: "sort_keys (JDict (nq_dump nq)) = JDict (cache_entries nq)"
proof -
  have "sort_key fst (map (\<lambda>(k, v). (k, sort_keys v)) (nq_dump nq)) = cache_entries nq"
    unfolding nq_dump_def list.map prod.case sort_keys_filters sort_keys_strs sort_keys_jopt
    by (simp add: cache_entries_def less_char_def)
  then show ?thesis by simp
qed

lemma cache_payload_perm:
  assumes "mset fs = mset gs" "distinct (dict_keys fs)"
  shows "cache_payload (nq\<lparr>nq_filters := fs\<rparr>) = cache_payload (nq\<lparr>nq_filters := gs\<rparr>)"
  unfolding cache_payload_def sort_keys_dump
  using sorted_filters_perm [OF assms] by (simp add: cache_entries_def)

lemma parse_query_filters:
  assumes "parse_query c order qp = Inr nq" "distinct order"
  shows "nq_filters nq = collect_filters qp order"
    and "parse_query c order' qp = Inr nq' \<Longrightarrow> distinct order' \<Longrightarrow>
      nq' = nq\<lparr>nq_filters := collect_filters qp order'\<rparr>"
  using assms parse_filters_collect [of qp _ "[]"]
  by (auto simp: parse_query_def egg_simps Let_def split: prod.splits)

text \<open>
  The cache key does not depend on the order in which the filter set happens to be walked:
  the same request gets the same key in every process.
\<close>

lemma cache_key_order_independent:
  assumes "parse_query c order qp = Inr nq" "parse_query c order' qp = Inr nq'"
    and "mset order = mset filter_params" "mset order' = mset filter_params"
  shows "compute_cache_key sha nq = compute_cache_key sha nq'"
proof -
  have "distinct filter_params" by (simp add: filter_params_def)
  then have d: "distinct order" "distinct order'"
    using assms(3,4) by (metis mset_eq_imp_distinct_iff)+
  have m: "mset (collect_filters qp order) = mset (collect_filters qp order')"
    using assms(3,4) by (intro mset_collect_filters) simp
  have k: "distinct (dict_keys (collect_filters qp order))"
    using d(1) by (simp add: collect_filters_def comp_def)
  have "nq = nq\<lparr>nq_filters := collect_filters qp order\<rparr>"
    using parse_query_filters(2) [OF assms(1) d(1) assms(1) d(1)] .
  moreover have "nq' = nq\<lparr>nq_filters := collect_filters qp order'\<rparr>"
    using parse_query_filters(2) [OF assms(1) d(1) assms(2) d(2)] .
  ultimately show ?thesis using cache_payload_perm [OF m k, of nq] by (simp add: compute_cache_key_def)
qed

lemma wf_jstrs [simp]: "wf_json (jstrs xs)"
  by (simp add: jstrs_def)

lemma wf_jopt [simp]: "wf_json (jopt JStr x)" "wf_json (jopt JBool b)"
  by (cases x; simp) (cases b; simp)

lemma jopt_inject [simp]:
  "jopt JStr x = jopt JStr y \<longleftrightarrow> x = y" "jopt JBool a = jopt JBool b \<longleftrightarrow> a = b"
  by (cases x; cases y; simp) (cases a; cases b; simp)

lemma jstrs_inject [simp]: "jstrs xs = jstrs ys \<longleftrightarrow> xs = ys"
  by (simp add: jstrs_def inj_map_eq_map inj_def)

lemma wf_sorted_filters: "distinct (dict_keys fs) \<Longrightarrow> wf_json (JDict (sorted_filters fs))"
proof -
  assume d: "distinct (dict_keys fs)"
  have "mset (map fst (sorted_filters fs)) = mset (dict_keys fs)"
    by (simp add: sorted_filters_def mset_map case_prod_unfold image_mset.compositionality comp_def)
  then have "distinct (map fst (sorted_filters fs))" using d by (metis mset_eq_imp_distinct_iff)
  then show ?thesis by (auto simp: sorted_filters_def)
qed

lemma wf_cache_entries:
  assumes "distinct (dict_keys (nq_filters nq))"
    "length (str_of_nat (nat \<bar>nq_page nq\<bar>)) \<le> int_max_str_digits"
    "length (str_of_nat (nat \<bar>nq_page_size nq\<bar>)) \<le> int_max_str_digits"
  shows "wf_json (JDict (cache_entries nq))"
  using assms wf_sorted_filters [OF assms(1)] by (simp add: cache_entries_def)

lemma sorted_filters_mset:
  assumes "sorted_filters fs = sorted_filters gs"
  shows "mset fs = mset gs"
proof -
  let ?f = "\<lambda>(k :: string, vs). (k, jstrs vs)"
  have "mset (sorted_filters hs) = image_mset ?f (mset hs)" for hs
    by (simp add: sorted_filters_def mset_map)
  then have "image_mset (inv ?f) (image_mset ?f (mset fs)) = image_mset (inv ?f) (image_mset ?f (mset gs))"
    using assms by metis
  moreover have "inj ?f" by (auto simp: inj_def)
  ultimately show ?thesis by (simp add: multiset.map_comp inv_o_cancel)
qed

text \<open>
  Two queries share the cached payload only when they are the same query up to the order of
  the filter entries, so distinct requests never collide before hashing.
\<close>

lemma cache_payload_injective:
  assumes "cache_payload nq = cache_payload nq'"
    and "distinct (dict_keys (nq_filters nq))" "distinct (dict_keys (nq_filters nq'))"
    and "\<forall>i \<in> {nq_page nq, nq_page_size nq, nq_page nq', nq_page_size nq'}.
          length (str_of_nat (nat \<bar>i\<bar>)) \<le> int_max_str_digits"
  shows "nq' = nq\<lparr>nq_filters := nq_filters nq'\<rparr> \<and> mset (nq_filters nq) = mset (nq_filters nq')"
proof -
  have "json_loads (cache_payload n) = Some (JDict (cache_entries n))" if "wf_json (JDict (cache_entries n))" for n
    unfolding cache_payload_def sort_keys_dump
    using json_loads_dumps [OF _ _ that, of "'' ''" "'' ''"] by (simp add: json_ws_def)
  moreover have "wf_json (JDict (cache_entries nq))" "wf_json (JDict (cache_entries nq'))"
    using assms(2-4) by (intro wf_cache_entries; simp)+
  ultimately have "cache_entries nq = cache_entries nq'" using assms(1) by (metis option.inject json.inject(6))
  then have e: "nq_q nq = nq_q nq'" "nq_page nq = nq_page nq'" "nq_page_size nq = nq_page_size nq'"
      "nq_sort nq = nq_sort nq'" "nq_facets nq = nq_facets nq'" "nq_include_fields nq = nq_include_fields nq'"
      "nq_date_from nq = nq_date_from nq'" "nq_date_to nq = nq_date_to nq'"
      "nq_has_digital nq = nq_has_digital nq'" "nq_has_iiif nq = nq_has_iiif nq'" "nq_cursor nq = nq_cursor nq'"
    and f: "sorted_filters (nq_filters nq) = sorted_filters (nq_filters nq')"
    by (simp_all add: cache_entries_def)
  from e have "nq' = nq\<lparr>nq_filters := nq_filters nq'\<rparr>" by (intro normalized_query.equality) simp_all
  with sorted_filters_mset [OF f] show ?thesis by blast
qed

section \<open>Completeness\<close>

text \<open>The query string that asks for a given query.\<close>

fun opt_param :: "string \<Rightarrow> string option \<Rightarrow> (string \<times> string) list" where
  "opt_param k None = []"
| "opt_param k (Some v) = [(k, v)]"

definition bool_text :: "bool option \<Rightarrow> string option" where
  "bool_text b = map_option (\<lambda>x. if x then ''true'' else ''false'') b"

definition fields_text :: "string list \<Rightarrow> string option" where
  "fields_text fs = (if fs = [] then None else Some (join '','' fs))"

definition query_string :: "normalized_query \<Rightarrow> (string \<times> string) list" where
  "query_string nq =
     opt_param ''q'' (nq_q nq) @ opt_param ''page'' (Some (str_of_int (nq_page nq))) @
     opt_param ''page_size'' (Some (str_of_int (nq_page_size nq))) @ opt_param ''sort'' (nq_sort nq) @
     map (Pair ''facet'') (nq_facets nq) @ opt_param ''include_fields'' (fields_text (nq_include_fields nq)) @
     concat (map (\<lambda>(k, vs). map (Pair k) vs) (nq_filters nq)) @
     opt_param ''date_from'' (nq_date_from nq) @ opt_param ''date_to'' (nq_date_to nq) @
     opt_param ''has_digital'' (bool_text (nq_has_digital nq)) @
     opt_param ''has_iiif'' (bool_text (nq_has_iiif nq)) @ opt_param ''cursor'' (nq_cursor nq)"

definition values_of :: "string \<Rightarrow> (string \<times> string) list \<Rightarrow> string list" where
  "values_of k ps = map snd (filter (\<lambda>p. fst p = k) ps)"

lemma values_of_simps [simp]:
  "values_of k [] = []" "values_of k (p # ps) = (if fst p = k then snd p # values_of k ps else values_of k ps)"
  "values_of k (xs @ ys) = values_of k xs @ values_of k ys"
  "values_of k (opt_param k' x) = (if k = k' then (case x of None \<Rightarrow> [] | Some v \<Rightarrow> [v]) else [])"
  "values_of k (map (Pair k') vs) = (if k = k' then vs else [])"
proof -
  show "values_of k (map (Pair k') vs) = (if k = k' then vs else [])" by (simp add: values_of_def comp_def)
qed (simp_all add: values_of_def split: option.splits)

lemma values_of_filters:
  "distinct (dict_keys fs) \<Longrightarrow>
     values_of k (concat (map (\<lambda>(k, vs). map (Pair k) vs) fs)) = (case map_of fs k of None \<Rightarrow> [] | Some vs \<Rightarrow> vs)"
proof (induction fs)
  case (Cons f fs)
  obtain k' vs where f: "f = (k', vs)" by (cases f)
  with Cons have "map_of fs k' = None" by (simp add: map_of_eq_None_iff)
  with f Cons show ?case by (auto split: option.splits)
qed simp

lemma qp_of_simps [simp]:
  "qp_getlist (qp_of ps) k = values_of k ps"
  "qp_get (qp_of ps) k = (if values_of k ps = [] then None else Some (last (values_of k ps)))"
  "k \<in> set (qp_keys (qp_of ps)) \<longleftrightarrow> values_of k ps \<noteq> []"
proof -
  show g: "qp_getlist (qp_of ps) k = values_of k ps" for k by (simp add: qp_of_def values_of_def)
  show "qp_get (qp_of ps) k = (if values_of k ps = [] then None else Some (last (values_of k ps)))"
    "k \<in> set (qp_keys (qp_of ps)) \<longleftrightarrow> values_of k ps \<noteq> []"
    using qp_of_lawful [of ps] by (simp_all add: qp_lawful_def g)
qed

text \<open>The parameters of \<open>query_string nq\<close>, read back one by one.\<close>

lemma query_string_values:
  assumes "filters_ok (nq_filters nq)"
  shows "k \<notin> set filter_params \<Longrightarrow> values_of k (query_string nq) =
      (if k = ''q'' then (case nq_q nq of None \<Rightarrow> [] | Some v \<Rightarrow> [v])
       else if k = ''page'' then [str_of_int (nq_page nq)]
       else if k = ''page_size'' then [str_of_int (nq_page_size nq)]
       else if k = ''sort'' then (case nq_sort nq of None \<Rightarrow> [] | Some v \<Rightarrow> [v])
       else if k = ''facet'' then nq_facets nq
       else if k = ''include_fields'' then (case fields_text (nq_include_fields nq) of None \<Rightarrow> [] | Some v \<Rightarrow> [v])
       else if k = ''date_from'' then (case nq_date_from nq of None \<Rightarrow> [] | Some v \<Rightarrow> [v])
       else if k = ''date_to'' then (case nq_date_to nq of None \<Rightarrow> [] | Some v \<Rightarrow> [v])
       else if k = ''has_digital'' then (case bool_text (nq_has_digital nq) of None \<Rightarrow> [] | Some v \<Rightarrow> [v])
       else if k = ''has_iiif'' then (case bool_text (nq_has_iiif nq) of None \<Rightarrow> [] | Some v \<Rightarrow> [v])
       else if k = ''cursor'' then (case nq_cursor nq of None \<Rightarrow> [] | Some v \<Rightarrow> [v])
       else [])" (is "?A \<Longrightarrow> ?L = ?R")
    and "k \<in> set filter_params \<Longrightarrow> values_of k (query_string nq) =
      (case map_of (nq_filters nq) k of None \<Rightarrow> [] | Some vs \<Rightarrow> vs)"
proof -
  have d: "distinct (dict_keys (nq_filters nq))"
    and in_f: "map_of (nq_filters nq) k = Some vs \<Longrightarrow> k \<in> set filter_params" for vs
    using assms by (auto simp: filters_ok_def filter_ok_def dest!: map_of_SomeD)
  show "?L = ?R" if ?A
  proof -
    have "map_of (nq_filters nq) k = None" using in_f that by (cases "map_of (nq_filters nq) k") auto
    then have v: "values_of k (concat (map (\<lambda>(k, vs). map (Pair k) vs) (nq_filters nq))) = []"
      by (simp add: values_of_filters [OF d])
    show ?thesis unfolding query_string_def values_of_simps v by simp
  qed
  show "values_of k (query_string nq) = (case map_of (nq_filters nq) k of None \<Rightarrow> [] | Some vs \<Rightarrow> vs)"
    if "k \<in> set filter_params"
  proof -
    have n: "k \<notin> {''q'', ''page'', ''page_size'', ''sort'', ''facet'', ''include_fields'', ''date_from'',
        ''date_to'', ''has_digital'', ''has_iiif'', ''cursor''}"
      using that by (auto simp: filter_params_def)
    show ?thesis unfolding query_string_def values_of_simps values_of_filters [OF d] using n by simp
  qed
qed


definition in_order :: "string list \<Rightarrow> (string \<times> string list) list \<Rightarrow> (string \<times> string list) list" where
  "in_order names fs = concat (map (\<lambda>k. case map_of fs k of None \<Rightarrow> [] | Some vs \<Rightarrow> [(k, vs)]) names)"

lemma collect_query_string:
  assumes "filters_ok (nq_filters nq)" "set names \<subseteq> set filter_params"
  shows "collect_filters (qp_of (query_string nq)) names = in_order names (nq_filters nq)"
  using assms(2)
proof (induction names)
  case (Cons k names)
  then have "values_of k (query_string nq) = (case map_of (nq_filters nq) k of None \<Rightarrow> [] | Some vs \<Rightarrow> vs)"
    by (intro query_string_values(2) assms(1)) simp
  moreover have "map_of (nq_filters nq) k = Some vs \<Longrightarrow> vs \<noteq> []" for vs
    using assms(1) by (auto simp: filters_ok_def filter_ok_def dest!: map_of_SomeD)
  ultimately show ?case using Cons
    by (cases "map_of (nq_filters nq) k") (auto simp: collect_filters_def in_order_def)
qed (simp add: collect_filters_def in_order_def)

lemma parse_bool_text [simp]: "parse_bool (bool_text b) = Inr b"
proof -
  have "parse_bool (Some ''true'') = Inr (Some True)" "parse_bool (Some ''false'') = Inr (Some False)"
    by (simp_all add: parse_bool_def py_strip_def strip_by_def rstrip_by_def is_space_def lower_char_def Let_def)
  then show ?thesis by (cases b) (auto simp: bool_text_def parse_bool_def)
qed


lemma query_string_get:
  assumes "filters_ok (nq_filters nq)"
  shows "qp_get (qp_of (query_string nq)) ''q'' = nq_q nq"
    "qp_get (qp_of (query_string nq)) ''page'' = Some (str_of_int (nq_page nq))"
    "qp_get (qp_of (query_string nq)) ''page_size'' = Some (str_of_int (nq_page_size nq))"
    "qp_get (qp_of (query_string nq)) ''sort'' = nq_sort nq"
    "qp_get (qp_of (query_string nq)) ''include_fields'' = fields_text (nq_include_fields nq)"
    "qp_get (qp_of (query_string nq)) ''date_from'' = nq_date_from nq"
    "qp_get (qp_of (query_string nq)) ''date_to'' = nq_date_to nq"
    "qp_get (qp_of (query_string nq)) ''has_digital'' = bool_text (nq_has_digital nq)"
    "qp_get (qp_of (query_string nq)) ''has_iiif'' = bool_text (nq_has_iiif nq)"
    "qp_get (qp_of (query_string nq)) ''cursor'' = nq_cursor nq"
    "qp_getlist (qp_of (query_string nq)) ''facet'' = nq_facets nq"
  by (simp_all add: query_string_values(1) [OF assms] filter_params_def split: option.splits)

lemma check_known_query_string:
  assumes "filters_ok (nq_filters nq)"
  shows "check_known (qp_of (query_string nq)) = Inr ()"
proof -
  have "k \<in> set allowed_params" if "k \<in> set (qp_keys (qp_of (query_string nq)))" for k
  proof (rule ccontr)
    assume "k \<notin> set allowed_params"
    then have "k \<notin> set filter_params" "k \<notin> {''q'', ''page'', ''page_size'', ''sort'', ''facet'', ''include_fields'',
        ''date_from'', ''date_to'', ''has_digital'', ''has_iiif'', ''cursor''}"
      by (simp_all add: allowed_params_def filter_params_def)
    then have "values_of k (query_string nq) = []"
      by (simp add: query_string_values(1) [OF assms])
    with that show False by simp
  qed
  then have "filter (\<lambda>k. k \<notin> set allowed_params) (qp_keys (qp_of (query_string nq))) = []"
    by (auto simp: filter_empty_conv)
  then show ?thesis by (simp only: check_known_def Let_def) simp
qed

lemma parse_include_fields_query_string:
  assumes "filters_ok (nq_filters nq)" "length (nq_include_fields nq) \<le> MAX_INCLUDE_FIELDS"
    "set (nq_include_fields nq) \<subseteq> set (ac_allowed_include_fields c)"
    "\<forall>f \<in> set (nq_include_fields nq). f \<noteq> [] \<and> CHR '','' \<notin> set f"
  shows "parse_include_fields c (qp_of (query_string nq)) = Inr (nq_include_fields nq)"
proof -
  have "filter (\<lambda>x. x \<noteq> []) (split_char (CHR '','') (get_or (qp_of (query_string nq)) ''include_fields'' []))
      = nq_include_fields nq"
  proof (cases "nq_include_fields nq = []")
    case False
    then have "split_char (CHR '','') (join '','' (nq_include_fields nq)) = nq_include_fields nq"
      using assms(4) by (intro split_char_join) auto
    then show ?thesis using assms(4) False
      by (simp add: get_or_def query_string_get [OF assms(1)] fields_text_def filter_id_conv del: qp_of_simps)
  qed (simp add: get_or_def query_string_get [OF assms(1)] fields_text_def del: qp_of_simps)
  with assms(2,3) show ?thesis
    by (auto simp: parse_include_fields_def filter_empty_conv Let_def simp del: qp_of_simps)
qed

lemma parse_query_string:
  assumes "within_policy c nq" "distinct order" "set order = set filter_params"
    and "\<forall>i \<in> {nq_page nq, nq_page_size nq}. length (str_of_nat (nat \<bar>i\<bar>)) \<le> int_max_str_digits"
  shows "parse_query c order (qp_of (query_string nq)) = Inr (nq\<lparr>nq_filters := in_order order (nq_filters nq)\<rparr>)"
proof -
  let ?p = "active_profile c" and ?qp = "qp_of (query_string nq)"
  note W = assms(1) [unfolded within_policy_def Let_def]
  then have fo: "filters_ok (nq_filters nq)" by blast
  note get = query_string_get [OF fo]
  have 1: "parse_q ?p ?qp = Inr (nq_q nq)"
    using W by (auto simp: parse_q_def get Let_def simp del: qp_of_simps)
  have "int_param (str_of_int (nq_page nq)) = Inr (nq_page nq)"
    "int_param (str_of_int (nq_page_size nq)) = Inr (nq_page_size nq)"
    using assms(4) by (simp_all add: egg_simps py_int_str_of_int)
  then have 2: "parse_page ?p ?qp = Inr (nq_page nq, nq_page_size nq, nq_cursor nq)"
    using W by (auto simp: parse_page_def get get_or_def nq_depth_def Let_def simp del: qp_of_simps)
  have 3: "parse_sort_param c ?qp = Inr (nq_sort nq)"
    using W by (auto simp: parse_sort_param_def get Let_def simp del: qp_of_simps)
  have 4: "parse_facets c ?p ?qp = Inr (nq_facets nq)"
    using W by (auto simp: parse_facets_def get Let_def filter_empty_conv simp del: qp_of_simps)
  have 5: "parse_include_fields c ?qp = Inr (nq_include_fields nq)"
    using W by (intro parse_include_fields_query_string fo) auto
  have in_ok: "\<forall>f \<in> set (in_order order (nq_filters nq)). filter_ok f"
    using fo by (auto simp: in_order_def filters_ok_def split: option.splits dest!: map_of_SomeD)
  have c: "collect_filters ?qp order = in_order order (nq_filters nq)"
    using collect_query_string [OF fo, of order] assms(3) by simp
  have 6: "parse_filters ?qp order [] = Inr (in_order order (nq_filters nq))"
    using parse_filters_complete [of "[]" order ?qp] in_ok assms(2) unfolding c by simp
  show ?thesis unfolding parse_query_def Let_def
    by (simp add: check_known_query_string [OF fo] 1 2 3 4 5 6 get del: qp_of_simps)
qed

text \<open>
  C27. The policy refuses nothing it should admit: for every query within the policy there is a
  query string, and parsing that string gives exactly that query, the filters in the order in
  which the set is walked.
\<close>

theorem parse_query_complete:
  assumes "within_policy c nq" "distinct order" "set order = set filter_params"
    and "\<forall>i \<in> {nq_page nq, nq_page_size nq}. length (str_of_nat (nat \<bar>i\<bar>)) \<le> int_max_str_digits"
  shows "parse_query c order (qp_of (query_string nq)) = Inr (nq\<lparr>nq_filters := in_order order (nq_filters nq)\<rparr>)"
  using assms by (rule parse_query_string)

section \<open>Errors\<close>

lemma policy_errors [egg_intros]:
  "check_known qp = Inl e \<Longrightarrow> ae_status e = 400 \<and> ae_code e = ''invalid_parameter''"
  "int_param s = Inl e \<Longrightarrow> ae_status e = 400 \<and> ae_code e = ''invalid_parameter''"
  "parse_bool b = Inl e \<Longrightarrow> ae_status e = 400 \<and> ae_code e = ''invalid_parameter''"
  by (auto simp: check_known_def int_param_def parse_bool_def Let_def split: if_splits option.splits sum.splits)

lemma parse_filters_errors:
  "parse_filters qp names fs = Inl e \<Longrightarrow> ae_status e = 400 \<and> ae_code e = ''invalid_parameter''"
  by (induction qp names fs rule: parse_filters.induct) (auto simp: Let_def split: if_splits)

definition policy_codes :: "string set" where
  "policy_codes = {''invalid_parameter'', ''missing_parameter'', ''unsupported_operation'', ''forbidden''}"

lemma policy_errors_more:
  "parse_q p qp = Inl e \<Longrightarrow> ae_status e = 400 \<and> ae_code e \<in> policy_codes"
  "parse_page p qp = Inl e \<Longrightarrow> ae_status e = 400 \<and> ae_code e \<in> policy_codes"
  "parse_sort_param c qp = Inl e \<Longrightarrow> ae_status e = 400 \<and> ae_code e \<in> policy_codes"
  "parse_facets c p qp = Inl e \<Longrightarrow> ae_status e = 400 \<and> ae_code e \<in> policy_codes"
  "parse_include_fields c qp = Inl e \<Longrightarrow> ae_status e = 400 \<and> ae_code e \<in> policy_codes"
  by (auto simp: parse_q_def parse_page_def parse_sort_param_def parse_facets_def parse_include_fields_def
      policy_codes_def Let_def egg_simps split: if_splits dest: policy_errors)


section \<open>A concrete request\<close>

text \<open>\<open>?q=moon&page=2&type=book&type=map&subject=sea&has_iiif=true&...\<close> under the default configuration.\<close>

definition demo_query :: normalized_query where
  "demo_query = empty_query\<lparr>nq_q := Some ''moon'', nq_page := 2, nq_facets := [''type''],
     nq_include_fields := [''id'', ''title''], nq_filters := [(''type'', [''book'', ''map'']), (''subject'', [''sea''])],
     nq_has_iiif := Some True\<rparr>"

lemma active_profile_default: "active_profile default_app_config = default_security_profile"
  by (simp add: active_profile_def default_app_config_def)

lemma demo_within_policy: "within_policy default_app_config demo_query"
  unfolding within_policy_def active_profile_default Let_def
  by (simp add: demo_query_def empty_query_def default_security_profile_def default_app_config_def
      MAX_Q_LENGTH_def MAX_INCLUDE_FIELDS_def nq_depth_def filters_ok_def filter_ok_def filter_params_def
      MAX_FILTER_VALUES_def MAX_FILTER_VALUE_LENGTH_def)

lemma demo_digits:
  "\<forall>i \<in> {nq_page demo_query, nq_page_size demo_query}. length (str_of_nat (nat \<bar>i\<bar>)) \<le> int_max_str_digits"
  by (simp add: demo_query_def empty_query_def int_max_str_digits_def str_of_nat.simps)

lemma filter_params_distinct: "distinct filter_params" "distinct (rev filter_params)"
  by (simp_all add: filter_params_def)

lemma demo_parse:
  "parse_query default_app_config filter_params (qp_of (query_string demo_query)) = Inr demo_query"
  "parse_query default_app_config (rev filter_params) (qp_of (query_string demo_query)) =
     Inr (demo_query\<lparr>nq_filters := rev (nq_filters demo_query)\<rparr>)"
proof -
  have "in_order filter_params (nq_filters demo_query) = nq_filters demo_query"
    "in_order (rev filter_params) (nq_filters demo_query) = rev (nq_filters demo_query)"
    by (simp_all add: in_order_def filter_params_def demo_query_def)
  moreover have "demo_query\<lparr>nq_filters := nq_filters demo_query\<rparr> = demo_query"
    by (simp add: demo_query_def)
  ultimately show
    "parse_query default_app_config filter_params (qp_of (query_string demo_query)) = Inr demo_query"
    "parse_query default_app_config (rev filter_params) (qp_of (query_string demo_query)) =
       Inr (demo_query\<lparr>nq_filters := rev (nq_filters demo_query)\<rparr>)"
    using parse_query_string [OF demo_within_policy filter_params_distinct(1) refl demo_digits]
      parse_query_string [OF demo_within_policy filter_params_distinct(2) _ demo_digits] by simp_all
qed

theorem parse_query_within_policy_witness: "within_policy default_app_config demo_query"
  by (rule parse_query_within_policy [OF demo_parse(1) refl])

theorem cache_key_order_independent_witness:
  "compute_cache_key rev demo_query =
     compute_cache_key rev (demo_query\<lparr>nq_filters := rev (nq_filters demo_query)\<rparr>)"
  by (rule cache_key_order_independent [OF demo_parse]) simp_all

theorem cache_payload_injective_witness:
  "mset (nq_filters demo_query) = mset (nq_filters demo_query)"
  using cache_payload_injective [of demo_query demo_query, OF refl] demo_digits
  by (simp add: demo_query_def)

theorem parse_query_complete_witness:
  "parse_query default_app_config filter_params (qp_of (query_string demo_query))
     = Inr (demo_query\<lparr>nq_filters := in_order filter_params (nq_filters demo_query)\<rparr>)"
  by (rule parse_query_complete [OF demo_within_policy filter_params_distinct(1) refl demo_digits])


end
