(* ===== verification/Py_Base64.thy ===== *)
theory Py_Base64
  imports Py_Json
begin

text \<open>
  URL-safe Base64 as the standard library has it: \<open>base64.urlsafe_b64encode\<close> and the lenient
  \<open>base64.urlsafe_b64decode\<close> (characters outside the alphabet are skipped, a pad that completes
  a quantum ends the input, an incomplete quantum is an error), the UTF-8 codec on the modelled
  code points, and the opaque tokens the program builds from them: JSON, then Base64, then the
  padding stripped.
\<close>

section \<open>Encoding\<close>

definition b64_char :: "nat \<Rightarrow> char" where
  "b64_char n =
     (if n < 26 then char_of (65 + n) else if n < 52 then char_of (71 + n)
      else if n < 62 then char_of (n - 4) else if n = 62 then CHR ''-'' else CHR ''_'')"

fun b64_encode :: "string \<Rightarrow> string" where
  "b64_encode [] = []"
| "b64_encode [x] =
     (let a = of_char x in
      [b64_char (a div 4), b64_char (a mod 4 * 16), CHR ''='', CHR ''=''])"
| "b64_encode [x, y] =
     (let a = of_char x; b = of_char y in
      [b64_char (a div 4), b64_char (a mod 4 * 16 + b div 16), b64_char (b mod 16 * 4), CHR ''=''])"
| "b64_encode (x # y # z # r) =
     (let a = of_char x; b = of_char y; c = of_char z in
      [b64_char (a div 4), b64_char (a mod 4 * 16 + b div 16),
       b64_char (b mod 16 * 4 + c div 64), b64_char (c mod 64)] @ b64_encode r)"

section \<open>Decoding\<close>

text \<open>The value of an alphabet character; the URL-safe translation maps \<open>-_\<close> to \<open>+/\<close> first.\<close>

definition b64_val :: "char \<Rightarrow> nat option" where
  "b64_val c = (let n = (of_char c :: nat) in
     if 65 \<le> n \<and> n \<le> 90 then Some (n - 65)
     else if 97 \<le> n \<and> n \<le> 122 then Some (n - 71)
     else if 48 \<le> n \<and> n \<le> 57 then Some (n + 4)
     else if n = 43 \<or> n = 45 then Some 62
     else if n = 47 \<or> n = 95 then Some 63
     else None)"

text \<open>
  The loop of \<open>binascii.a2b_base64\<close>: \<open>quad\<close> is the position in the quantum, \<open>left\<close> the bits not
  yet written, \<open>pads\<close> the pad characters seen in a row.
\<close>

fun a2b :: "nat \<Rightarrow> nat \<Rightarrow> nat \<Rightarrow> string \<Rightarrow> string option" where
  "a2b quad left pads [] = (if quad = 0 then Some [] else None)"
| "a2b quad left pads (c # cs) =
     (if c = CHR ''='' then
        (if 2 \<le> quad then (if 4 \<le> quad + (pads + 1) then Some [] else a2b quad left (pads + 1) cs)
         else a2b quad left pads cs)
      else case b64_val c of
        None \<Rightarrow> a2b quad left pads cs
      | Some v \<Rightarrow>
          (if quad = 0 then a2b 1 v 0 cs
           else if quad = 1 then
             map_option ((#) (char_of (left * 4 + v div 16))) (a2b 2 (v mod 16) 0 cs)
           else if quad = 2 then
             map_option ((#) (char_of (left * 16 + v div 4))) (a2b 3 (v mod 4) 0 cs)
           else map_option ((#) (char_of (left * 64 + v))) (a2b 0 0 0 cs)))"

definition b64_decode :: "string \<Rightarrow> string option" where
  "b64_decode s = a2b 0 0 0 s"

section \<open>UTF-8\<close>

definition utf8_encode_char :: "char \<Rightarrow> string" where
  "utf8_encode_char c = (let n = (of_char c :: nat) in
     if n < 128 then [c] else if n < 192 then [CHR 0xC2, c] else [CHR 0xC3, char_of (n - 64)])"

definition utf8_encode :: "string \<Rightarrow> string" where
  "utf8_encode s = concat (map utf8_encode_char s)"

text \<open>
  \<open>None\<close> for bytes that are not UTF-8, and for the sequences of code points above 255, which the
  modelled strings do not hold.
\<close>

fun utf8_decode :: "string \<Rightarrow> string option" where
  "utf8_decode [] = Some []"
| "utf8_decode (c # cs) =
     (if (of_char c :: nat) < 128 then map_option ((#) c) (utf8_decode cs)
      else case cs of
        [] \<Rightarrow> None
      | d # ds \<Rightarrow>
          if 128 \<le> (of_char d :: nat) \<and> (of_char d :: nat) < 192 then
            (if c = CHR 0xC2 then map_option ((#) d) (utf8_decode ds)
             else if c = CHR 0xC3 then map_option ((#) (char_of (of_char d + 64 :: nat))) (utf8_decode ds)
             else None)
          else None)"

definition is_ascii :: "string \<Rightarrow> bool" where
  "is_ascii s \<longleftrightarrow> (\<forall>c \<in> set s. (of_char c :: nat) < 128)"

lemma is_ascii_simps [simp]:
  "is_ascii []"
  "is_ascii (c # s) \<longleftrightarrow> (of_char c :: nat) < 128 \<and> is_ascii s"
  "is_ascii (s @ t) \<longleftrightarrow> is_ascii s \<and> is_ascii t"
  by (auto simp: is_ascii_def)

lemma utf8_ascii [simp]:
  "is_ascii s \<Longrightarrow> utf8_encode s = s"
  "is_ascii s \<Longrightarrow> utf8_decode s = Some s"
  by (induction s) (simp_all add: utf8_encode_def utf8_encode_char_def)

text \<open>\<open>s.encode("utf-8").decode("utf-8") == s\<close>.\<close>

lemma utf8_decode_encode: "utf8_decode (utf8_encode s) = Some s"
proof (induction s)
  case (Cons c s)
  have lt: "(of_char c :: nat) < 256" by simp
  have C: "(of_char (CHR 0xC2) :: nat) = 194" "(of_char (CHR 0xC3) :: nat) = 195" by simp_all
  consider "(of_char c :: nat) < 128" | "128 \<le> (of_char c :: nat)" "(of_char c :: nat) < 192"
    | "192 \<le> (of_char c :: nat)" by linarith
  then show ?case
  proof cases
    case 3
    then have "(of_char c - 64 :: nat) mod 256 = of_char c - 64"
      using lt by (intro mod_less) linarith
    moreover have "128 \<le> (of_char c - 64 :: nat)" "(of_char c - 64 :: nat) < 192" using 3 lt by linarith+
    ultimately have "(of_char (char_of (of_char c - 64 :: nat)) :: nat) = of_char c - 64"
      and "128 \<le> (of_char c - 64 :: nat)" "(of_char c - 64 :: nat) < 192"
      by (simp_all add: of_char_of)
    with 3 Cons show ?thesis by (simp add: utf8_encode_def utf8_encode_char_def Let_def)
  qed (use Cons in \<open>simp_all add: utf8_encode_def utf8_encode_char_def Let_def\<close>)
qed (simp add: utf8_encode_def)

section \<open>The Base64 round trip\<close>

lemma b64_val_char: "n < 64 \<Longrightarrow> b64_val (b64_char n) = Some n"
  by (auto simp: b64_val_def b64_char_def of_char_of Let_def)

lemma b64_char_not_pad: "n < 64 \<Longrightarrow> b64_char n \<noteq> CHR ''=''"
  using b64_val_char [of n] by (auto simp: b64_val_def)

lemma b64_char_not_pad': "n < 64 \<Longrightarrow> CHR ''='' \<noteq> b64_char n"
  using b64_char_not_pad [of n] by metis

lemma b64_char_ascii: "n < 64 \<Longrightarrow> (of_char (b64_char n) :: nat) < 128"
  by (auto simp: b64_char_def of_char_of)

lemma a2b_char:
  "n < 64 \<Longrightarrow> a2b quad left pads (b64_char n # cs) =
     (if quad = 0 then a2b 1 n 0 cs
      else if quad = 1 then map_option ((#) (char_of (left * 4 + n div 16))) (a2b 2 (n mod 16) 0 cs)
      else if quad = 2 then map_option ((#) (char_of (left * 16 + n div 4))) (a2b 3 (n mod 4) 0 cs)
      else map_option ((#) (char_of (left * 64 + n))) (a2b 0 0 0 cs))"
  by (simp add: b64_char_not_pad b64_val_char)

lemma div_less_64: "(x :: nat) < n * k \<Longrightarrow> x div k < n"
  by (rule less_mult_imp_div_less)

lemma sextets:
  fixes a b c :: nat
  assumes "a < 256" "b < 256" "c < 256"
  shows "a div 4 < 64" "a mod 4 * 16 + b div 16 < 64" "b mod 16 * 4 + c div 64 < 64" "c mod 64 < 64"
    "a mod 4 * 16 < 64" "b mod 16 * 4 < 64"
    "a div 4 * 4 + (a mod 4 * 16 + b div 16) div 16 = a"
    "(a mod 4 * 16 + b div 16) mod 16 * 16 + (b mod 16 * 4 + c div 64) div 4 = b"
    "(b mod 16 * 4 + c div 64) mod 4 * 64 + c mod 64 = c"
proof -
  have d: "b div 16 < 16" "c div 64 < 4" "a div 4 < 64"
    using assms by (simp_all add: div_less_64)
  have m: "a mod 4 < 4" "b mod 16 < 16" "c mod 64 < 64" by simp_all
  show "a div 4 < 64" "a mod 4 * 16 + b div 16 < 64" "b mod 16 * 4 + c div 64 < 64" "c mod 64 < 64"
    "a mod 4 * 16 < 64" "b mod 16 * 4 < 64"
    using d m by linarith+
  have e: "(a mod 4 * 16 + b div 16) div 16 = a mod 4" "(a mod 4 * 16 + b div 16) mod 16 = b div 16"
    "(b mod 16 * 4 + c div 64) div 4 = b mod 16" "(b mod 16 * 4 + c div 64) mod 4 = c div 64"
    using d by simp_all
  show "a div 4 * 4 + (a mod 4 * 16 + b div 16) div 16 = a"
    "(a mod 4 * 16 + b div 16) mod 16 * 16 + (b mod 16 * 4 + c div 64) div 4 = b"
    "(b mod 16 * 4 + c div 64) mod 4 * 64 + c mod 64 = c"
    unfolding e by (rule div_mult_mod_eq)+
qed

lemma a2b_encode: "a2b 0 0 0 (b64_encode bs) = Some bs"
proof (induction bs rule: b64_encode.induct)
  case (2 x)
  define a :: nat where "a = of_char x"
  have a: "a < 256" "x = char_of a" by (simp_all add: a_def)
  note S = sextets [of a 0 0, OF a(1)]
  have E: "(a div 4) * 4 + (a mod 4 * 16) div 16 = a" using S(7) by simp
  show ?case unfolding b64_encode.simps Let_def a_def [symmetric]
    using S by (simp add: a2b_char E a(2) del: a2b.simps(2)) (simp add: a2b.simps(2))
next
  case (3 x y)
  define a b :: nat where "a = of_char x" and "b = of_char y"
  have a: "a < 256" "x = char_of a" and b: "b < 256" "y = char_of b" by (simp_all add: a_def b_def)
  note S = sextets [of a b 0, OF a(1) b(1)]
  have Q: "a2b 0 0 0 [b64_char s0, b64_char s1, b64_char s2, CHR ''=''] =
      Some [char_of (s0 * 4 + s1 div 16), char_of (s1 mod 16 * 16 + s2 div 4)]"
    if "s0 < 64" "s1 < 64" "s2 < 64" for s0 s1 s2
    using that by (simp add: a2b_char del: a2b.simps(2)) (simp add: a2b.simps(2))
  have E: "(a mod 4 * 16 + b div 16) mod 16 * 16 + (b mod 16 * 4) div 4 = b" using S(8) by simp
  show ?case unfolding b64_encode.simps Let_def a_def [symmetric] b_def [symmetric]
    by (simp only: Q [OF S(1,2,6)] S(7) E a(2) [symmetric] b(2) [symmetric])
next
  case (4 x y z r)
  define a b c :: nat where "a = of_char x" and "b = of_char y" and "c = of_char z"
  have a: "a < 256" "x = char_of a" and b: "b < 256" "y = char_of b" and c: "c < 256" "z = char_of c"
    by (simp_all add: a_def b_def c_def)
  note S = sextets [OF a(1) b(1) c(1)]
  have Q: "a2b 0 0 0 (b64_char s0 # b64_char s1 # b64_char s2 # b64_char s3 # t) =
      map_option (\<lambda>u. char_of (s0 * 4 + s1 div 16) # char_of (s1 mod 16 * 16 + s2 div 4) #
        char_of (s2 mod 4 * 64 + s3) # u) (a2b 0 0 0 t)"
    if "s0 < 64" "s1 < 64" "s2 < 64" "s3 < 64" for s0 s1 s2 s3 t
    using that by (cases "a2b 0 0 0 t") (simp_all add: a2b_char del: a2b.simps(2))
  show ?case unfolding b64_encode.simps Let_def a_def [symmetric] b_def [symmetric] c_def [symmetric]
    by (simp only: append.simps Q [OF S(1-4)] S(7-9) "4.IH" option.map a(2) [symmetric] b(2) [symmetric] c(2) [symmetric])
qed simp

section \<open>Tokens with the padding stripped\<close>

definition b64_unpadded :: "string \<Rightarrow> string" where
  "b64_unpadded bs = rstrip_chars ''='' (b64_encode bs)"

text \<open>\<open>s + "=" * (-len(s) % 4)\<close>.\<close>

definition b64_repad :: "string \<Rightarrow> string" where
  "b64_repad s = s @ replicate (nat ((- int (length s)) mod 4)) (CHR ''='')"

lemma b64_encode_shape:
  "\<exists>body k. b64_encode bs = body @ replicate k (CHR ''='') \<and> CHR ''='' \<notin> set body \<and> is_ascii body \<and>
     (length body + k) mod 4 = 0 \<and> k < 3"
proof (induction bs rule: b64_encode.induct)
  case (2 x)
  define a :: nat where "a = of_char x"
  have a: "a < 256" by (simp add: a_def)
  note S = sextets [of a 0 0, OF a]
  show ?case unfolding b64_encode.simps Let_def a_def [symmetric]
    by (rule exI [of _ "[b64_char (a div 4), b64_char (a mod 4 * 16)]"], rule exI [of _ 2])
       (use S in \<open>simp add: numeral_2_eq_2 b64_char_not_pad' b64_char_ascii\<close>)
next
  case (3 x y)
  define a b :: nat where "a = of_char x" and "b = of_char y"
  have a: "a < 256" and b: "b < 256" by (simp_all add: a_def b_def)
  note S = sextets [of a b 0, OF a b]
  show ?case unfolding b64_encode.simps Let_def a_def [symmetric] b_def [symmetric]
    by (rule exI [of _ "[b64_char (a div 4), b64_char (a mod 4 * 16 + b div 16), b64_char (b mod 16 * 4)]"],
        rule exI [of _ 1])
       (use S in \<open>simp add: b64_char_not_pad' b64_char_ascii\<close>)
next
  case (4 x y z r)
  define a b c :: nat where "a = of_char x" and "b = of_char y" and "c = of_char z"
  have a: "a < 256" and b: "b < 256" and c: "c < 256" by (simp_all add: a_def b_def c_def)
  note S = sextets [OF a b c]
  from "4.IH" [OF refl refl refl] obtain body k where B: "b64_encode r = body @ replicate k (CHR ''='')" "CHR ''='' \<notin> set body"
    "is_ascii body" "(length body + k) mod 4 = 0" "k < 3" by (elim exE conjE) (rule that)
  have m: "(4 + n + k) mod 4 = (n + k) mod 4" for n k :: nat by presburger
  show ?case unfolding b64_encode.simps Let_def a_def [symmetric] b_def [symmetric] c_def [symmetric]
    by (rule exI [of _ "[b64_char (a div 4), b64_char (a mod 4 * 16 + b div 16),
           b64_char (b mod 16 * 4 + c div 64), b64_char (c mod 64)] @ body"], rule exI [of _ k])
       (use S B m [of "length body" k] in \<open>simp add: b64_char_not_pad' b64_char_ascii\<close>)
qed simp

lemma rstrip_by_append_replicate:
  "p x \<Longrightarrow> s = [] \<or> \<not> p (last s) \<Longrightarrow> rstrip_by p (s @ replicate k x) = s"
  by (cases s rule: rev_cases) (auto simp: rstrip_by_def dropWhile_append)

lemma b64_repad_unpadded: "b64_repad (b64_unpadded bs) = b64_encode bs \<and> is_ascii (b64_unpadded bs)"
proof -
  obtain body k where b: "b64_encode bs = body @ replicate k (CHR ''='')" "CHR ''='' \<notin> set body"
    "is_ascii body" "(length body + k) mod 4 = 0" "k < 3"
    using b64_encode_shape [of bs] by (elim exE conjE) (rule that)
  have "b64_unpadded bs = body"
    unfolding b64_unpadded_def rstrip_chars_def b(1)
    by (rule rstrip_by_append_replicate) (use b(2) in \<open>auto dest: last_in_set\<close>)
  moreover have "nat ((- int n) mod 4) = k" if "(n + k) mod 4 = 0" for n :: nat
  proof -
    have "(- int n) mod 4 = int k" using that b(5) by presburger
    then show ?thesis by simp
  qed
  note this [OF b(4)]
  ultimately show ?thesis using b by (simp add: b64_repad_def)
qed

lemma b64_decode_unpadded: "b64_decode (b64_repad (b64_unpadded bs)) = Some bs"
  by (simp add: b64_repad_unpadded b64_decode_def a2b_encode)

lemma is_ascii_repad [simp]: "is_ascii (b64_repad s) = is_ascii s"
  by (auto simp: b64_repad_def is_ascii_def)

section \<open>What \<open>dumps\<close> prints is printable ASCII\<close>

definition is_plain :: "string \<Rightarrow> bool" where
  "is_plain s \<longleftrightarrow> (\<forall>c \<in> set s. 32 \<le> (of_char c :: nat) \<and> (of_char c :: nat) < 127)"

lemma is_plain_simps [simp]:
  "is_plain []"
  "is_plain (c # s) \<longleftrightarrow> 32 \<le> (of_char c :: nat) \<and> (of_char c :: nat) < 127 \<and> is_plain s"
  "is_plain (s @ t) \<longleftrightarrow> is_plain s \<and> is_plain t"
  by (auto simp: is_plain_def)

lemma is_plain_ascii: "is_plain s \<Longrightarrow> is_ascii s"
  by (auto simp: is_plain_def is_ascii_def)

lemma is_plain_no_newline: "is_plain s \<Longrightarrow> CHR 0x0A \<notin> set s"
  by (auto simp: is_plain_def)

lemma is_plain_concat [simp]: "is_plain (concat xs) = (\<forall>x \<in> set xs. is_plain x)"
  by (auto simp: is_plain_def)

lemma is_plain_join: "is_plain sep \<Longrightarrow> (\<forall>x \<in> set xs. is_plain x) \<Longrightarrow> is_plain (join sep xs)"
  by (induction sep xs rule: join.induct) auto

lemma hex_digit_plain: "n < 16 \<Longrightarrow> 32 \<le> (of_char (hex_digit n) :: nat) \<and> (of_char (hex_digit n) :: nat) < 127"
  by (simp add: hex_digit_def of_char_of)

lemma esc_char_plain [simp]: "is_plain (esc_char c)"
proof -
  have "(of_char c :: nat) div 16 < 16" by (rule less_mult_imp_div_less) simp
  then show ?thesis by (auto simp: esc_char_def Let_def hex2_def hex_digit_plain)
qed

lemma dump_str_plain [simp]: "is_plain (dump_str s)"
  by (simp add: dump_str_def)

lemma str_of_int_plain [simp]: "is_plain (str_of_int i)"
proof -
  have "is_plain (str_of_nat n)" for n
    using str_of_nat_digits by (fastforce simp: is_plain_def is_digit_def Let_def)
  then show ?thesis by (simp add: str_of_int_def)
qed

text \<open>Float texts are ASCII: the decoder's number pattern only has ASCII characters.\<close>

lemma scan_number_text_plain:
  assumes "scan_number t = Some (JReal t, [])" shows "is_plain t"
proof -
  have dig: "is_plain (takeWhile is_digit u)" for u
    by (auto simp: is_plain_def is_digit_def Let_def dest!: set_takeWhileD)
  have i: "scan_int_part u = Some (x, y) \<Longrightarrow> is_plain x" for u x y
    using dig by (cases u) (auto simp: scan_int_part_def simp del: takeWhile.simps split: if_splits)
  have f: "is_plain (fst (scan_frac u))" for u
    using dig by (cases u) (auto simp: scan_frac_def)
  have e: "is_plain (fst (scan_exp u))" for u
    using dig by (cases u; cases "tl u")
       (auto simp: scan_exp_def simp del: takeWhile.simps)
  have s: "is_plain (if c then [CHR ''-''] else [])" for c by simp
  show ?thesis using assms i f e s
    by (auto simp: scan_number_def Let_def split: option.splits if_splits prod.splits)
       (metis fst_conv is_plain_simps)+
qed

lemma dumps_plain:
  assumes "is_plain isep" "is_plain ksep"
  shows "wf_json v \<Longrightarrow> is_plain (dumps isep ksep v)"
proof (induction v)
  case (JReal t)
  then show ?case using scan_number_text_plain by auto
next
  case (JList xs)
  then show ?case using assms by (auto intro!: is_plain_join)
next
  case (JDict d)
  then show ?case using assms by (fastforce intro!: is_plain_join simp: prod_set_simps)
qed auto

lemma dumps_ascii:
  "is_plain isep \<Longrightarrow> is_plain ksep \<Longrightarrow> wf_json v \<Longrightarrow> is_ascii (dumps isep ksep v)"
  by (rule is_plain_ascii) (rule dumps_plain)

end
