(* ===== verification/Es_Adapter.thy ===== *)
theory Es_Adapter
  imports Query_Policy Py_Base64
begin

text \<open>
  \<^verbatim>\<open>app/adapters/elasticsearch/adapter.py\<close>, \<^verbatim>\<open>app/adapters/opensearch/adapter.py\<close> and
  \<^verbatim>\<open>app/adapters/factory.py\<close>: cursor tokens, authentication material, the retry loop, the query
  translation and the endpoint calls.

  The HTTP client is a parameter: \<open>http_env\<close> says what every attempt of a request yields, what
  the monotonic clock reads when the loop looks at it and what \<open>random.uniform\<close> draws. An
  endpoint returns the events it caused (calls, sleeps, metric increments) with its result.
\<close>

section \<open>Cursor tokens\<close>

definition encode_cursor :: "json list \<Rightarrow> string" where
  "encode_cursor sort_values = b64_unpadded (utf8_encode (json_dumps_compact (JList sort_values)))"

definition decode_cursor :: "string \<Rightarrow> json list result" where
  "decode_cursor cursor =
     (let padded = b64_repad cursor;
          failed = raise_400 ''invalid_parameter'' ''cursor token is malformed'' [(''reason'', JStr ''decode_failed'')] in
      if \<not> is_ascii padded then failed
      else case b64_decode padded of
        None \<Rightarrow> failed
      | Some raw \<Rightarrow>
          (case utf8_decode raw of
             None \<Rightarrow> failed
           | Some text \<Rightarrow>
               (case json_loads text of
                  None \<Rightarrow> failed
                | Some value \<Rightarrow>
                    (case value of
                       JList vs \<Rightarrow> Inr vs
                     | _ \<Rightarrow> raise_400 ''invalid_parameter'' ''cursor token is malformed''
                         [(''reason'', JStr ''shape'')]))))"

section \<open>Requests, responses, exceptions\<close>

record http_request =
  rq_method :: string
  rq_url :: string
  rq_headers :: "(string \<times> string) list"
  rq_json :: "json option"
  rq_content :: "string option"

record http_response =
  rs_status :: int
  rs_status_text :: string  \<comment> \<open>the text of the \<open>HTTPStatusError\<close> that \<open>raise_for_status\<close> raises\<close>
  rs_content :: string
  rs_json :: "json option"  \<comment> \<open>what \<open>response.json()\<close> returns, \<open>None\<close> when it raises\<close>

datatype outcome =
    OTransient string  \<comment> \<open>one of \<open>_TRANSIENT_HTTP_EXCEPTIONS\<close>, with its text\<close>
  | ORaises string
  | OResponse http_response

record http_env =
  he_outcome :: "http_request \<Rightarrow> nat \<Rightarrow> outcome"
  he_start :: rat
  he_now :: "nat \<Rightarrow> rat"
  he_uniform :: "nat \<Rightarrow> rat \<Rightarrow> rat \<Rightarrow> rat"

text \<open>\<open>random.uniform(a, b)\<close> lies between its bounds.\<close>

definition uniform_lawful :: "http_env \<Rightarrow> bool" where
  "uniform_lawful env \<longleftrightarrow> (\<forall>n a b. a \<le> b \<longrightarrow> a \<le> he_uniform env n a b \<and> he_uniform env n a b \<le> b)"

datatype event = EvCall http_request nat | EvSleep rat | EvBackendError string

type_synonym 'a run = "event list \<times> (py_exc + 'a)"

definition bind_run :: "'a run \<Rightarrow> ('a \<Rightarrow> py_exc + 'b) \<Rightarrow> 'b run" where
  "bind_run r f = (fst r, bind_r (snd r) f)"

definition backend_unavailable :: "string \<Rightarrow> (string \<times> json) list \<Rightarrow> py_exc" where
  "backend_unavailable message details = ExApp (AppError ''backend_unavailable'' message details 503)"

section \<open>Headers and authentication\<close>

text \<open>\<open>ctx\<close> is the structlog context of the current request.\<close>

definition current_request_id :: "(string \<times> json) list \<Rightarrow> string option" where
  "current_request_id ctx =
     (case jget ctx ''request_id'' of JStr rid \<Rightarrow> (if rid \<noteq> [] then Some rid else None) | _ \<Rightarrow> None)"

definition tracing_headers :: "(string \<times> json) list \<Rightarrow> (string \<times> string) list" where
  "tracing_headers ctx =
     (case current_request_id ctx of Some rid \<Rightarrow> [(''X-Opaque-Id'', rid)] | None \<Rightarrow> [])"

definition or_empty :: "string option \<Rightarrow> string" where
  "or_empty x = (case x of None \<Rightarrow> [] | Some s \<Rightarrow> s)"

definition build_auth_headers_and_basic ::
  "(string \<Rightarrow> string option) \<Rightarrow> backend_auth_config option \<Rightarrow> (string \<times> string) list \<times> (string \<times> string) option"
where
  "build_auth_headers_and_basic env auth =
     (case auth of
        None \<Rightarrow> ([], None)
      | Some a \<Rightarrow>
          (case ba_mode a of
             BamNone \<Rightarrow> ([], None)
           | BamBasic \<Rightarrow> ([], Some (or_empty (ba_username a), or_empty (resolve_password env a)))
           | BamBearer \<Rightarrow>
               (let token = or_empty (resolve_token env a) in
                if token = [] then ([], None) else ([(''Authorization'', ''Bearer '' @ token)], None))
           | BamApiKey \<Rightarrow>
               (let token = or_empty (resolve_token env a) in
                if token = [] then ([], None) else ([(''Authorization'', ''ApiKey '' @ token)], None))))"

section \<open>The adapter\<close>

datatype distribution = Elasticsearch | OpenSearch

record es_adapter =
  es_kind :: distribution
  es_base_url :: string
  es_index :: string
  es_timeout_seconds :: rat
  es_max_retries :: nat
  es_retry_backoff_seconds :: rat
  es_retry_backoff_cap_seconds :: rat
  es_retry_deadline_seconds :: rat
  es_max_buckets_per_facet :: int
  es_auth_headers :: "(string \<times> string) list"
  es_basic_auth :: "(string \<times> string) option"

definition make_adapter ::
  "(string \<Rightarrow> string option) \<Rightarrow> distribution \<Rightarrow> string \<Rightarrow> string \<Rightarrow> rat \<Rightarrow> int \<Rightarrow> rat \<Rightarrow> rat \<Rightarrow> rat \<Rightarrow> int \<Rightarrow>
     backend_auth_config option \<Rightarrow> es_adapter"
where
  "make_adapter env kind base_url index timeout max_retries backoff cap deadline buckets auth =
     (let (headers, basic) = build_auth_headers_and_basic env auth in
      \<lparr>es_kind = kind, es_base_url = rstrip_chars ''/'' base_url, es_index = index,
       es_timeout_seconds = timeout, es_max_retries = nat (max 0 max_retries),
       es_retry_backoff_seconds = max 0 backoff, es_retry_backoff_cap_seconds = max 0 cap,
       es_retry_deadline_seconds = max 0 deadline, es_max_buckets_per_facet = max 1 buckets,
       es_auth_headers = headers, es_basic_auth = basic\<rparr>)"

definition build_adapter :: "(string \<Rightarrow> string option) \<Rightarrow> app_config \<Rightarrow> es_adapter" where
  "build_adapter env c =
     (let be = ac_backend c; profile = active_profile c in
      make_adapter env (case be_type be of BtElasticsearch \<Rightarrow> Elasticsearch | BtOpensearch \<Rightarrow> OpenSearch)
        (be_url be) (be_index be) (be_timeout_seconds be) (be_max_retries be)
        (be_retry_backoff_seconds be) (be_retry_backoff_cap_seconds be) (be_retry_deadline_seconds be)
        (sp_max_buckets_per_facet profile) (Some (be_auth be)))"

definition outgoing_headers :: "es_adapter \<Rightarrow> (string \<times> json) list \<Rightarrow> (string \<times> string) list" where
  "outgoing_headers a ctx = fold (\<lambda>(k, v) h. dict_set k v h) (es_auth_headers a) (tracing_headers ctx)"

section \<open>The retry loop\<close>

definition jitter_ratio :: rat where
  "jitter_ratio = 1 / 4"

definition compute_sleep :: "es_adapter \<Rightarrow> http_env \<Rightarrow> nat \<Rightarrow> rat" where
  "compute_sleep a env attempt =
     (if es_retry_backoff_seconds a \<le> 0 then 0
      else (let nominal = es_retry_backoff_seconds a * 2 ^ attempt;
                capped = min nominal (es_retry_backoff_cap_seconds a);
                jitter = capped * jitter_ratio in
            max 0 (capped + he_uniform env attempt (- jitter) jitter)))"

definition exhausted :: "string option \<Rightarrow> py_exc" where
  "exhausted last_exc =
     backend_unavailable ''Backend is unavailable''
       [(''reason'', JStr (case last_exc of Some e \<Rightarrow> e | None \<Rightarrow> ''exhausted''))]"

definition past_deadline :: "http_env \<Rightarrow> rat option \<Rightarrow> nat \<Rightarrow> bool" where
  "past_deadline env deadline attempt =
     (case deadline of None \<Rightarrow> False | Some d \<Rightarrow> d \<le> he_now env attempt)"

text \<open>
  \<open>for attempt in range(attempts)\<close>: \<open>left\<close> counts the attempts that remain, the current one
  included, so \<open>attempt + 1 >= attempts\<close> is \<open>left = 1\<close>.
\<close>

fun request_loop ::
  "es_adapter \<Rightarrow> http_env \<Rightarrow> http_request \<Rightarrow> rat option \<Rightarrow> string option \<Rightarrow> nat \<Rightarrow> nat \<Rightarrow> http_response run"
where
  "request_loop a env rq deadline last_exc 0 attempt =
     ([EvBackendError ''backend_unavailable''], Inl (exhausted last_exc))"
| "request_loop a env rq deadline last_exc (Suc left) attempt =
     (case he_outcome env rq attempt of
        ORaises e \<Rightarrow> ([EvCall rq attempt], Inl (ExRaw e))
      | OTransient e \<Rightarrow>
          (if left = 0 \<or> past_deadline env deadline attempt
           then ([EvCall rq attempt, EvBackendError ''backend_unavailable''],
                 Inl (backend_unavailable ''Backend is unavailable'' [(''reason'', JStr e)]))
           else (let (evs, r) = request_loop a env rq deadline (Some e) left (Suc attempt) in
                 (EvCall rq attempt # EvSleep (compute_sleep a env attempt) # evs, r)))
      | OResponse resp \<Rightarrow>
          (if 500 \<le> rs_status resp \<and> left \<noteq> 0 then
             (if past_deadline env deadline attempt
              then ([EvCall rq attempt, EvBackendError ''backend_unavailable''], Inl (exhausted last_exc))
              else (let (evs, r) = request_loop a env rq deadline last_exc left (Suc attempt) in
                    (EvCall rq attempt # EvSleep (compute_sleep a env attempt) # evs, r)))
           else ([EvCall rq attempt], Inr resp)))"

definition request :: "es_adapter \<Rightarrow> http_env \<Rightarrow> http_request \<Rightarrow> http_response run" where
  "request a env rq =
     (let deadline = (if 0 < es_retry_deadline_seconds a
                      then Some (he_start env + es_retry_deadline_seconds a) else None) in
      request_loop a env rq deadline None (es_max_retries a + 1) 0)"

section \<open>Query translation\<close>

definition obj :: "string \<Rightarrow> json \<Rightarrow> json" where
  "obj k v = JDict [(k, v)]"

definition parse_sort :: "string option \<Rightarrow> json list" where
  "parse_sort sort_name =
     (let primary =
        (if \<not> is_set sort_name \<or> sort_name = Some ''relevance'' then obj ''_score'' (JStr ''desc'')
         else (let s = the sort_name in
           if ends_with ''_desc'' s then obj (take (length s - 5) s) (JStr ''desc'')
           else if ends_with ''_asc'' s then obj (take (length s - 4) s) (JStr ''asc'')
           else obj s (JStr ''asc''))) in
      [primary, obj ''_id'' (JStr ''asc'')])"

definition filter_clauses :: "normalized_query \<Rightarrow> json list" where
  "filter_clauses nq =
     map (\<lambda>(field, values). obj ''terms'' (obj field (jstrs values))) (nq_filters nq) @
     (case nq_has_digital nq of None \<Rightarrow> [] | Some b \<Rightarrow> [obj ''term'' (obj ''has_digital'' (JBool b))]) @
     (case nq_has_iiif nq of None \<Rightarrow> [] | Some b \<Rightarrow> [obj ''term'' (obj ''has_iiif'' (JBool b))]) @
     (if is_set (nq_date_to nq)
      then [obj ''range'' (obj ''date.start'' (obj ''lte'' (JStr (the (nq_date_to nq)))))] else []) @
     (if is_set (nq_date_from nq)
      then [obj ''range'' (obj ''date.end'' (obj ''gte'' (JStr (the (nq_date_from nq)))))] else [])"

definition translate_query ::
  "es_adapter \<Rightarrow> normalized_query \<Rightarrow> bool \<Rightarrow> int option \<Rightarrow> int option \<Rightarrow> json result"
where
  "translate_query a nq include_aggs size_override max_buckets =
     (let bucket_size_default = (case max_buckets of None \<Rightarrow> es_max_buckets_per_facet a | Some n \<Rightarrow> n);
          must = (if is_set (nq_q nq)
                  then [obj ''simple_query_string'' (obj ''query'' (JStr (the (nq_q nq))))] else []);
          size = (case size_override of Some n \<Rightarrow> n | None \<Rightarrow> nq_page_size nq);
          bucket_size = max 1 bucket_size_default;
          body = [(''size'', JInt size),
                  (''query'', obj ''bool'' (JDict [(''must'', JList (if must \<noteq> [] then must else [obj ''match_all'' (JDict [])])),
                     (''filter'', JList (filter_clauses nq))])),
                  (''sort'', JList (parse_sort (nq_sort nq)))];
          aggs = (if include_aggs \<and> nq_facets nq \<noteq> []
                  then [(''aggs'', JDict (dict_of (map (\<lambda>facet.
                     (facet, obj ''terms'' (JDict [(''field'', JStr facet), (''size'', JInt bucket_size)])))
                     (nq_facets nq))))] else []) in
      bind_r (if is_set (nq_cursor nq)
              then map_r (\<lambda>vs. [(''search_after'', JList vs)]) (decode_cursor (the (nq_cursor nq)))
              else Inr [(''from'', JInt ((nq_page nq - 1) * nq_page_size nq))])
        (\<lambda>paging. Inr (JDict (body @ paging @ aggs))))"

section \<open>Endpoints\<close>

definition raise_for_status :: "http_response \<Rightarrow> bool" where
  "raise_for_status resp \<longleftrightarrow> \<not> (200 \<le> rs_status resp \<and> rs_status resp < 300)"

definition check_status :: "string \<Rightarrow> http_response \<Rightarrow> py_exc + http_response" where
  "check_status message resp =
     (if raise_for_status resp
      then Inl (backend_unavailable message
        [(''reason'', JStr (rs_status_text resp)), (''status_code'', JInt (rs_status resp))])
      else Inr resp)"

definition response_json :: "http_response \<Rightarrow> py_exc + json" where
  "response_json resp = (case rs_json resp of None \<Rightarrow> Inl (ExRaw ''JSONDecodeError'') | Some v \<Rightarrow> Inr v)"

definition get_request :: "es_adapter \<Rightarrow> (string \<times> json) list \<Rightarrow> string \<Rightarrow> http_request" where
  "get_request a ctx path =
     \<lparr>rq_method = ''GET'', rq_url = es_base_url a @ path, rq_headers = outgoing_headers a ctx,
      rq_json = None, rq_content = None\<rparr>"

definition post_request :: "es_adapter \<Rightarrow> (string \<times> json) list \<Rightarrow> string \<Rightarrow> json \<Rightarrow> http_request" where
  "post_request a ctx path body =
     \<lparr>rq_method = ''POST'', rq_url = es_base_url a @ path, rq_headers = outgoing_headers a ctx,
      rq_json = Some body, rq_content = None\<rparr>"

definition search_path :: "es_adapter \<Rightarrow> string" where
  "search_path a = ''/'' @ es_index a @ ''/_search''"

definition parse_major_version :: "string \<Rightarrow> int option" where
  "parse_major_version version =
     (if version = [] then None
      else case py_int (takeWhile (\<lambda>c. c \<noteq> CHR ''.'') version) of Inl _ \<Rightarrow> None | Inr n \<Rightarrow> Some n)"

fun min_supported_major :: "distribution \<Rightarrow> int" where
  "min_supported_major Elasticsearch = 7"
| "min_supported_major OpenSearch = 1"

fun distribution_name :: "distribution \<Rightarrow> string" where
  "distribution_name Elasticsearch = ''Elasticsearch''"
| "distribution_name OpenSearch = ''OpenSearch''"

definition unsupported_version :: "distribution \<Rightarrow> string \<Rightarrow> py_exc" where
  "unsupported_version kind version =
     ExApp (AppError ''unsupported_backend_version''
       (distribution_name kind @ '' '' @ version @ '' is not supported; requires ''
          @ str_of_int (min_supported_major kind) @ ''+'')
       [(''version'', JStr version), (''minimum_major'', JInt (min_supported_major kind))] 503)"

text \<open>The version gate of \<open>detect\<close>; OpenSearch reports its distribution as well.\<close>

definition detect_version :: "distribution \<Rightarrow> json \<Rightarrow> py_exc + json" where
  "detect_version kind body =
     bind_r (py_get body ''version'' (JDict [])) (\<lambda>v.
       (let version_info = or_default v (JDict []) in
        bind_r (py_get version_info ''number'' (JStr [])) (\<lambda>num.
          (let version_number = json_str num; major = parse_major_version version_number in
           if major \<noteq> None \<and> the major < min_supported_major kind
           then Inl (unsupported_version kind version_number)
           else case kind of
             Elasticsearch \<Rightarrow> Inr (JDict [(''detected'', JBool True), (''version'', version_info)])
           | OpenSearch \<Rightarrow>
               map_r (\<lambda>dist. JDict [(''detected'', JBool True), (''distribution'', dist), (''version'', version_info)])
                 (py_get version_info ''distribution'' (JStr ''opensearch''))))))"

definition metric_of :: "py_exc + 'a \<Rightarrow> event list" where
  "metric_of r =
     (case r of Inl (ExApp e) \<Rightarrow> [EvBackendError (ae_code e)] | _ \<Rightarrow> [])"

definition detect :: "es_adapter \<Rightarrow> http_env \<Rightarrow> (string \<times> json) list \<Rightarrow> json run" where
  "detect a env ctx =
     (case request a env (get_request a ctx []) of
        (evs, Inl e) \<Rightarrow> (evs, Inl e)
      | (evs, Inr resp) \<Rightarrow>
          (let r = bind_r (check_status ''Could not detect backend'' resp) (\<lambda>_.
                   bind_r (response_json resp) (detect_version (es_kind a))) in
           (evs @ metric_of r, r)))"

definition health :: "es_adapter \<Rightarrow> http_env \<Rightarrow> (string \<times> json) list \<Rightarrow> json run" where
  "health a env ctx =
     bind_run (request a env (get_request a ctx ''/_cluster/health'')) (\<lambda>resp.
       bind_r (check_status ''Backend is unavailable'' resp) response_json)"

definition list_sources :: "es_adapter \<Rightarrow> string list" where
  "list_sources a = [es_index a]"

text \<open>\<open>scan_fields\<close> lets the \<open>HTTPStatusError\<close> of a failed call through.\<close>

definition scan_fields :: "es_adapter \<Rightarrow> http_env \<Rightarrow> (string \<times> json) list \<Rightarrow> json run" where
  "scan_fields a env ctx =
     bind_run (request a env (get_request a ctx (''/'' @ es_index a @ ''/_mapping''))) (\<lambda>resp.
       if raise_for_status resp then Inl (ExRaw ''HTTPStatusError'') else response_json resp)"

definition search :: "es_adapter \<Rightarrow> http_env \<Rightarrow> (string \<times> json) list \<Rightarrow> normalized_query \<Rightarrow> json run" where
  "search a env ctx nq =
     (case translate_query a nq True None None of
        Inl e \<Rightarrow> ([], Inl (ExApp e))
      | Inr payload \<Rightarrow>
          bind_run (request a env (post_request a ctx (search_path a) payload)) (\<lambda>resp.
            bind_r (check_status ''Backend search failed'' resp) response_json))"

definition get_record :: "es_adapter \<Rightarrow> http_env \<Rightarrow> (string \<times> json) list \<Rightarrow> string \<Rightarrow> json run" where
  "get_record a env ctx record_id =
     bind_run (request a env (get_request a ctx (''/'' @ es_index a @ ''/_doc/'' @ record_id))) (\<lambda>resp.
       if rs_status resp = 404 then Inr JNull
       else bind_r (check_status ''Backend record lookup failed'' resp) (\<lambda>_.
         bind_r (response_json resp) (\<lambda>body. py_get body ''_source'' JNull)))"

text \<open>
  Facet counts. A bucket key is kept as the JSON value the backend sent; the keys of one facet are
  compared as JSON values.
\<close>

definition hashable :: "json \<Rightarrow> bool" where
  "hashable v = (case v of JList _ \<Rightarrow> False | JDict _ \<Rightarrow> False | _ \<Rightarrow> True)"

fun facet_counts :: "json list \<Rightarrow> (json \<times> json) list \<Rightarrow> py_exc + (json \<times> json) list" where
  "facet_counts [] acc = Inr acc"
| "facet_counts (b # bs) acc =
     bind_r (py_index b ''key'') (\<lambda>k.
     bind_r (py_index b ''doc_count'') (\<lambda>n.
       if hashable k then facet_counts bs (dict_set k n acc) else Inl (ExRaw ''TypeError'')))"

definition facet_buckets :: "json \<Rightarrow> py_exc + (json \<times> json) list" where
  "facet_buckets values =
     bind_r (case values of JDict _ \<Rightarrow> py_get values ''buckets'' (JList []) | _ \<Rightarrow> Inr (JList [])) (\<lambda>b.
     bind_r (py_iter b) (\<lambda>bs. facet_counts bs []))"

definition extract_facets :: "json \<Rightarrow> py_exc + (string \<times> (json \<times> json) list) list" where
  "extract_facets payload =
     bind_r (py_get payload ''aggregations'' (JDict [])) (\<lambda>v.
       (case or_default v (JDict []) of
          JDict aggs \<Rightarrow> traverse_r (\<lambda>(facet, values). map_r (Pair facet) (facet_buckets values)) aggs
        | _ \<Rightarrow> Inl (ExRaw ''AttributeError'')))"

fun collect_titles :: "json list \<Rightarrow> string list \<Rightarrow> py_exc + string list" where
  "collect_titles [] out = Inr out"
| "collect_titles (hit # hits) out =
     bind_r (py_get hit ''_source'' (JDict [])) (\<lambda>src.
     bind_r (py_get src ''title'' JNull) (\<lambda>title.
       collect_titles hits
         (case title of JStr t \<Rightarrow> (if t \<notin> set out then out @ [t] else out) | _ \<Rightarrow> out)))"

definition suggest_body :: "string \<Rightarrow> int \<Rightarrow> json" where
  "suggest_body pfx limit =
     JDict [(''size'', JInt (max 1 (min limit 50))), (''_source'', jstrs [''title'']),
       (''query'', obj ''match_phrase_prefix'' (obj ''title'' (JStr pfx)))]"

definition suggest :: "es_adapter \<Rightarrow> http_env \<Rightarrow> (string \<times> json) list \<Rightarrow> string \<Rightarrow> int \<Rightarrow> string list run" where
  "suggest a env ctx pfx limit =
     (if pfx = [] then ([], Inr [])
      else bind_run (request a env (post_request a ctx (search_path a) (suggest_body pfx limit))) (\<lambda>resp.
        bind_r (check_status ''Backend suggest failed'' resp) (\<lambda>_.
        bind_r (response_json resp) (\<lambda>body.
        bind_r (py_get body ''hits'' (JDict [])) (\<lambda>h.
        bind_r (py_get h ''hits'' (JList [])) (\<lambda>hs.
        bind_r (py_iter hs) (\<lambda>hits. collect_titles hits [])))))))"

definition get_facets ::
  "es_adapter \<Rightarrow> http_env \<Rightarrow> (string \<times> json) list \<Rightarrow> normalized_query \<Rightarrow> (string \<times> (json \<times> json) list) list run"
where
  "get_facets a env ctx nq =
     (case translate_query a nq True (Some 0) None of
        Inl e \<Rightarrow> ([], Inl (ExApp e))
      | Inr payload \<Rightarrow>
          bind_run (request a env (post_request a ctx (search_path a) payload)) (\<lambda>resp.
            bind_r (check_status ''Backend facet lookup failed'' resp) (\<lambda>_.
            bind_r (response_json resp) extract_facets)))"

section \<open>Bulk indexing\<close>

type_synonym doc = "(string \<times> json) list"

definition bulk_action :: "es_adapter \<Rightarrow> doc \<Rightarrow> json" where
  "bulk_action a doc =
     (let doc_id = jget doc ''id'' in
      obj ''index'' (JDict ([(''_index'', JStr (es_index a))] @
        (if truthy doc_id then [(''_id'', JStr (json_str doc_id))] else []))))"

definition bulk_lines :: "es_adapter \<Rightarrow> doc list \<Rightarrow> string list" where
  "bulk_lines a docs =
     concat (map (\<lambda>doc. [json_dumps_compact (bulk_action a doc), json_dumps_compact (JDict doc)]) docs)"

definition bulk_body :: "es_adapter \<Rightarrow> doc list \<Rightarrow> string" where
  "bulk_body a docs = join [CHR 0x0A] (bulk_lines a docs) @ [CHR 0x0A]"

text \<open>\<open>item.get("index") or item.get("create") or {}\<close>, then \<open>int(op.get("status", 0))\<close>.\<close>

definition item_status :: "(string \<times> json) list \<Rightarrow> py_exc + int" where
  "item_status item =
     (let op = or_default (or_default (jget item ''index'') (jget item ''create'')) (JDict []) in
      bind_r (py_get op ''status'' (JInt 0)) (\<lambda>s.
        case json_int s of None \<Rightarrow> Inl (ExRaw ''TypeError'') | Some n \<Rightarrow> Inr n))"

fun count_items :: "json list \<Rightarrow> int \<Rightarrow> int \<Rightarrow> py_exc + (int \<times> int)" where
  "count_items [] ingested failed = Inr (ingested, failed)"
| "count_items (item # items) ingested failed =
     (case item of
        JDict d \<Rightarrow>
          bind_r (item_status d) (\<lambda>status.
            if 200 \<le> status \<and> status < 300 then count_items items (ingested + 1) failed
            else count_items items ingested (failed + 1))
      | _ \<Rightarrow> count_items items ingested (failed + 1))"

definition bulk_result :: "doc list \<Rightarrow> http_response \<Rightarrow> py_exc + (int \<times> int)" where
  "bulk_result docs resp =
     bind_r (if rs_content resp \<noteq> [] then response_json resp else Inr (JDict [])) (\<lambda>payload.
     bind_r (case payload of JDict _ \<Rightarrow> py_get payload ''items'' (JList []) | _ \<Rightarrow> Inr (JList [])) (\<lambda>items.
     bind_r (py_iter items) (\<lambda>xs.
     map_r (\<lambda>(ingested, failed). (if \<not> truthy items then int (length docs) else ingested, failed))
       (count_items xs 0 0))))"

definition bulk_index :: "es_adapter \<Rightarrow> http_env \<Rightarrow> (string \<times> json) list \<Rightarrow> doc list \<Rightarrow> (int \<times> int) run" where
  "bulk_index a env ctx docs =
     (if docs = [] then ([], Inr (0, 0))
      else bind_run (request a env
          \<lparr>rq_method = ''POST'', rq_url = es_base_url a @ ''/_bulk'',
           rq_headers = dict_set ''Content-Type'' ''application/x-ndjson'' (outgoing_headers a ctx),
           rq_json = None, rq_content = Some (bulk_body a docs)\<rparr>)
        (\<lambda>resp. bind_r (check_status ''Bulk index failed'' resp) (\<lambda>_. bulk_result docs resp)))"

section \<open>Cursors read back\<close>

lemma decode_encode_cursor:
  assumes "wf_json (JList vs)"
  shows "decode_cursor (encode_cursor vs) = Inr vs"
proof -
  have a: "is_ascii (json_dumps_compact (JList vs))"
    by (rule dumps_ascii) (use assms in simp_all)
  have l: "json_loads (json_dumps_compact (JList vs)) = Some (JList vs)"
    using json_loads_dumps [OF _ _ assms, of "[]" "[]"] by simp
  show ?thesis
    unfolding decode_cursor_def encode_cursor_def
    using a l b64_repad_unpadded [THEN conjunct2] by (simp add: Let_def b64_decode_unpadded del: dumps.simps)
qed

text \<open>
  C30. Reading a cursor token back gives the sort tail it was made from. The token carries no
  signature: every list of JSON values, not only one the backend returned, has a token that the
  server accepts as \<open>search_after\<close>.
\<close>

theorem cursor_roundtrip:
  assumes "wf_json (JList vs)"
  shows "decode_cursor (encode_cursor vs) = Inr vs"
  using assms by (rule decode_encode_cursor)

text \<open>
  Whatever the token, decoding it gives a list or the application error
  \<open>invalid_parameter\<close> with status 400, whose reason names the step that failed.
\<close>

lemma decode_cursor_errors:
  assumes "decode_cursor cursor = Inl e"
  shows "\<exists>reason \<in> {''decode_failed'', ''shape''}.
    e = AppError ''invalid_parameter'' ''cursor token is malformed'' [(''reason'', JStr reason)] 400"
  using assms unfolding decode_cursor_def Let_def
  by (auto split: if_splits option.splits json.splits)

section \<open>The retry loop is bounded\<close>

fun calls :: "event list \<Rightarrow> nat list" where
  "calls [] = []"
| "calls (EvCall _ n # es) = n # calls es"
| "calls (_ # es) = calls es"

fun sleeps :: "event list \<Rightarrow> rat list" where
  "sleeps [] = []"
| "sleeps (EvSleep s # es) = s # sleeps es"
| "sleeps (_ # es) = sleeps es"

lemma compute_sleep_bound:
  assumes "uniform_lawful env" "0 \<le> es_retry_backoff_cap_seconds a"
  shows "0 \<le> compute_sleep a env n" "compute_sleep a env n \<le> es_retry_backoff_cap_seconds a * (1 + jitter_ratio)"
proof -
  let ?b = "es_retry_backoff_seconds a" and ?cap = "es_retry_backoff_cap_seconds a"
  show "0 \<le> compute_sleep a env n" by (simp add: compute_sleep_def Let_def)
  show "compute_sleep a env n \<le> ?cap * (1 + jitter_ratio)"
  proof (cases "?b \<le> 0")
    case True
    then show ?thesis using assms(2) by (simp add: compute_sleep_def jitter_ratio_def)
  next
    case False
    define capped where "capped = min (?b * 2 ^ n) ?cap"
    have c: "0 \<le> capped" "capped \<le> ?cap" using False assms(2) by (simp_all add: capped_def)
    then have "- (capped * jitter_ratio) \<le> capped * jitter_ratio" by (simp add: jitter_ratio_def)
    then have "he_uniform env n (- (capped * jitter_ratio)) (capped * jitter_ratio) \<le> capped * jitter_ratio"
      using assms(1) unfolding uniform_lawful_def by blast
    moreover have "capped + u \<le> ?cap * (1 + jitter_ratio)" if "u \<le> capped * jitter_ratio" for u
      using that c by (simp add: jitter_ratio_def field_simps)
    moreover have "0 \<le> ?cap * (1 + jitter_ratio)" using c by (simp add: jitter_ratio_def)
    ultimately have "capped + he_uniform env n (- (capped * jitter_ratio)) (capped * jitter_ratio) \<le> ?cap * (1 + jitter_ratio)"
      and "0 \<le> ?cap * (1 + jitter_ratio)" by blast+
    then show ?thesis using False by (simp add: compute_sleep_def Let_def capped_def [symmetric])
  qed
qed

lemma request_loop_events:
  "\<exists>k \<le> left. calls (fst (request_loop a env rq d l left n)) = [n..<n + k] \<and>
     length (sleeps (fst (request_loop a env rq d l left n))) \<le> k - 1 \<and>
     (\<forall>s \<in> set (sleeps (fst (request_loop a env rq d l left n))). \<exists>i. s = compute_sleep a env i)"
proof (induction left arbitrary: l n)
  case (Suc left)
  have step: "\<exists>k \<le> Suc left. n # calls (fst (request_loop a env rq d l' left (Suc n))) = [n..<n + k] \<and>
      length (sleeps (fst (request_loop a env rq d l' left (Suc n)))) < k - 1 \<and>
      (\<forall>s \<in> set (sleeps (fst (request_loop a env rq d l' left (Suc n)))). \<exists>i. s = compute_sleep a env i)"
    if nz: "left \<noteq> 0" for l'
  proof -
    obtain k where k: "k \<le> left" "calls (fst (request_loop a env rq d l' left (Suc n))) = [Suc n..<Suc n + k]"
      "length (sleeps (fst (request_loop a env rq d l' left (Suc n)))) \<le> k - 1"
      "\<forall>s \<in> set (sleeps (fst (request_loop a env rq d l' left (Suc n)))). \<exists>i. s = compute_sleep a env i"
      using Suc.IH [where l = l' and n = "Suc n"] by blast
    show ?thesis
    proof (cases k)
      case 0
      obtain m where m: "left = Suc m" using nz by (cases left) auto
      have "calls (fst (request_loop a env rq d l' left (Suc n))) \<noteq> []"
        by (simp add: m Let_def split: outcome.splits prod.splits)
      then show ?thesis using k(2) 0 by simp
    next
      case (Suc j)
      with k show ?thesis by (intro exI [of _ "Suc k"]) (auto simp: upt_conv_Cons)
    qed
  qed
  have one: "\<exists>k \<le> Suc left. [n] = [n..<n + k] \<and> 0 \<le> k - 1" by (intro exI [of _ 1]) simp
  show ?case
  proof (cases "he_outcome env rq n")
    case (OTransient e)
    then show ?thesis using one step [of "Some e"]
      by (cases "left = 0 \<or> past_deadline env d n") (auto simp: Let_def split: prod.splits)
  next
    case (OResponse resp)
    then show ?thesis using one step [of l]
      by (cases "500 \<le> rs_status resp \<and> left \<noteq> 0 \<and> \<not> past_deadline env d n")
         (auto simp: Let_def split: prod.splits)
  qed (use one in auto)
qed simp

text \<open>
  C29. One backend call of the program is at most \<open>max_retries + 1\<close> HTTP attempts, in order and
  without a gap, with one sleep fewer at most; no sleep is negative or exceeds the configured
  cap by more than the jitter.
\<close>

theorem request_bounded:
  assumes "uniform_lawful env" "0 \<le> es_retry_backoff_cap_seconds a"
  shows "\<exists>k \<le> es_max_retries a + 1. calls (fst (request a env rq)) = [0..<k] \<and>
    length (sleeps (fst (request a env rq))) \<le> k - 1 \<and>
    (\<forall>s \<in> set (sleeps (fst (request a env rq))).
       0 \<le> s \<and> s \<le> es_retry_backoff_cap_seconds a * (1 + jitter_ratio))"
proof -
  let ?d = "if 0 < es_retry_deadline_seconds a then Some (he_start env + es_retry_deadline_seconds a) else None"
  obtain k where "k \<le> es_max_retries a + 1" "calls (fst (request a env rq)) = [0..<k]"
    "length (sleeps (fst (request a env rq))) \<le> k - 1"
    "\<forall>s \<in> set (sleeps (fst (request a env rq))). \<exists>i. s = compute_sleep a env i"
    using request_loop_events [of "es_max_retries a + 1" a env rq ?d None 0]
    unfolding request_def Let_def by auto
  then show ?thesis using compute_sleep_bound [OF assms] by (intro exI [of _ k]) fastforce
qed

text \<open>What makes the loop go on after an attempt.\<close>

definition retryable :: "outcome \<Rightarrow> bool" where
  "retryable oc = (case oc of OTransient _ \<Rightarrow> True | ORaises _ \<Rightarrow> False | OResponse r \<Rightarrow> 500 \<le> rs_status r)"

lemma request_loop_reaches:
  assumes "\<forall>j < i. retryable (he_outcome env rq (n + j)) \<and> \<not> past_deadline env d (n + j)"
    and "i < left" "he_outcome env rq (n + i) = OResponse resp" "rs_status resp < 500 \<or> Suc i = left"
  shows "snd (request_loop a env rq d l left n) = Inr resp"
  using assms
proof (induction i arbitrary: left n l)
  case 0
  then show ?case by (cases left) auto
next
  case (Suc i)
  obtain m where m: "left = Suc m" "m \<noteq> 0" using Suc.prems(2) by (cases left) auto
  have r: "retryable (he_outcome env rq n)" "\<not> past_deadline env d n"
    using Suc.prems(1) [rule_format, of 0] by simp_all
  have IH: "snd (request_loop a env rq d l' m (Suc n)) = Inr resp" for l'
    using Suc.IH [of "Suc n" m l'] Suc.prems m by fastforce
  show ?case using r m IH
    by (auto simp: retryable_def Let_def split: outcome.splits prod.splits) (metis snd_conv)+
qed

text \<open>
  The retry loop is worth its sleeps: when the attempts before the \<open>i\<close>-th fail in a
  retryable way before the deadline and the \<open>i\<close>-th, within the budget, answers below 500, that
  answer is the result; on the last attempt any answer is.
\<close>

lemma request_returns_first_success:
  assumes "i \<le> es_max_retries a"
    and "\<forall>j < i. retryable (he_outcome env rq j) \<and>
      (0 < es_retry_deadline_seconds a \<longrightarrow> he_now env j < he_start env + es_retry_deadline_seconds a)"
    and "he_outcome env rq i = OResponse resp" "rs_status resp < 500 \<or> i = es_max_retries a"
  shows "snd (request a env rq) = Inr resp"
  unfolding request_def Let_def
  by (rule request_loop_reaches [where i = i]) (use assms in \<open>auto simp: past_deadline_def\<close>)

lemma request_loop_errors:
  "snd (request_loop a env rq d l left n) = Inl e \<Longrightarrow>
     (\<exists>m. e = ExRaw m \<and> (\<exists>j. he_outcome env rq j = ORaises m)) \<or>
     (\<exists>reason. e = backend_unavailable ''Backend is unavailable'' [(''reason'', JStr reason)])"
proof (induction a env rq d l left n rule: request_loop.induct)
  case (2 a env rq d l left n)
  then show ?case
    by (auto simp: exhausted_def Let_def split: outcome.splits prod.splits if_splits)
qed (auto simp: exhausted_def)

text \<open>
  Failure of a backend call is an application error with status 503, except for the
  non-transient exceptions of the HTTP client, which the loop lets through.
\<close>

lemma request_errors:
  assumes "snd (request a env rq) = Inl e" "\<forall>j m. he_outcome env rq j \<noteq> ORaises m"
  shows "\<exists>reason. e = ExApp (AppError ''backend_unavailable'' ''Backend is unavailable'' [(''reason'', JStr reason)] 503)"
  using request_loop_errors assms unfolding request_def Let_def backend_unavailable_def by blast

section \<open>Translated queries\<close>

lemma translate_query_shape:
  assumes "translate_query a nq ag so mb = Inr body"
  shows "\<exists>d. body = JDict d \<and> jget d ''size'' = JInt (case so of Some n \<Rightarrow> n | None \<Rightarrow> nq_page_size nq) \<and>
    jget d ''sort'' = JList (parse_sort (nq_sort nq)) \<and>
    (if is_set (nq_cursor nq)
     then dict_get d ''from'' = None \<and>
       (\<exists>vs. decode_cursor (the (nq_cursor nq)) = Inr vs \<and> dict_get d ''search_after'' = Some (JList vs))
     else dict_get d ''search_after'' = None \<and>
       dict_get d ''from'' = Some (JInt ((nq_page nq - 1) * nq_page_size nq)))"
proof -
  define aggs where "aggs = (if ag \<and> nq_facets nq \<noteq> []
                  then [(''aggs'', JDict (dict_of (map (\<lambda>facet.
                     (facet, obj ''terms'' (JDict [(''field'', JStr facet),
                       (''size'', JInt (max 1 (case mb of None \<Rightarrow> es_max_buckets_per_facet a | Some n \<Rightarrow> n)))])))
                     (nq_facets nq))))] else [])"
  define query where "query = obj ''bool'' (JDict [(''must'', JList (if is_set (nq_q nq)
      then [obj ''simple_query_string'' (obj ''query'' (JStr (the (nq_q nq))))]
      else [obj ''match_all'' (JDict [])])), (''filter'', JList (filter_clauses nq))])"
  define body0 where "body0 = [(''size'', JInt (case so of Some n \<Rightarrow> n | None \<Rightarrow> nq_page_size nq)),
    (''query'', query), (''sort'', JList (parse_sort (nq_sort nq)))]"
  from assms obtain paging where p: "(if is_set (nq_cursor nq)
              then map_r (\<lambda>vs. [(''search_after'', JList vs)]) (decode_cursor (the (nq_cursor nq)))
              else Inr [(''from'', JInt ((nq_page nq - 1) * nq_page_size nq))]) = Inr paging"
    and b: "body = JDict (body0 @ paging @ aggs)"
    unfolding translate_query_def Let_def bind_r_Inr_iff body0_def query_def aggs_def
    by (cases "is_set (nq_q nq)") auto
  have a: "dict_get aggs ''from'' = None" "dict_get aggs ''search_after'' = None"
    by (simp_all add: aggs_def)
  have g: "jget (body0 @ paging @ aggs) ''size'' = JInt (case so of Some n \<Rightarrow> n | None \<Rightarrow> nq_page_size nq)"
    "jget (body0 @ paging @ aggs) ''sort'' = JList (parse_sort (nq_sort nq))"
    by (simp_all add: body0_def)
  have h: "dict_get (body0 @ paging @ aggs) k = dict_get (paging @ aggs) k" if "k \<in> {''from'', ''search_after''}" for k
    using that by (auto simp: body0_def)
  show ?thesis unfolding b
    using p g a h [of "''from''"] h [of "''search_after''"] by (auto simp: egg_simps split: if_splits)
qed

text \<open>
  C2. What reaches the backend respects the pagination policy: a page request never asks for
  a window that ends beyond \<open>max_depth\<close>, a cursor request never carries \<open>from\<close>, the page size is
  within the profile, and the sort always ends with the \<open>_id\<close> tie-breaker that cursors need.
\<close>

theorem translated_query_within_policy:
  assumes "parse_query c order qp = Inr nq" "set order = set filter_params"
    and "translate_query a nq ag None mb = Inr body"
  shows "\<exists>d size. body = JDict d \<and> jget d ''size'' = JInt size \<and>
    1 \<le> size \<and> size \<le> sp_page_size_max (active_profile c) \<and>
    (\<exists>sort. jget d ''sort'' = JList (sort @ [obj ''_id'' (JStr ''asc'')])) \<and>
    (case nq_cursor nq of
       None \<Rightarrow> dict_get d ''search_after'' = None \<and>
         (\<exists>from. jget d ''from'' = JInt from \<and> 0 \<le> from \<and> from + size \<le> sp_max_depth (active_profile c))
     | Some cursor \<Rightarrow> dict_get d ''from'' = None \<and>
         (\<exists>vs. decode_cursor cursor = Inr vs \<and> jget d ''search_after'' = JList vs))"
proof -
  have W: "1 \<le> nq_page nq" "1 \<le> nq_page_size nq" "nq_page_size nq \<le> sp_page_size_max (active_profile c)"
    "nq_cursor nq \<noteq> Some []" "nq_cursor nq = None \<Longrightarrow> nq_page nq * nq_page_size nq \<le> sp_max_depth (active_profile c)"
    using parse_query_admits [OF assms(1,2)] by (simp_all add: within_policy_def Let_def nq_depth_def)
  obtain d where d: "body = JDict d" "jget d ''size'' = JInt (nq_page_size nq)"
    "jget d ''sort'' = JList (parse_sort (nq_sort nq))"
    "if is_set (nq_cursor nq)
     then dict_get d ''from'' = None \<and>
       (\<exists>vs. decode_cursor (the (nq_cursor nq)) = Inr vs \<and> dict_get d ''search_after'' = Some (JList vs))
     else dict_get d ''search_after'' = None \<and>
       dict_get d ''from'' = Some (JInt ((nq_page nq - 1) * nq_page_size nq))"
    using translate_query_shape [OF assms(3)] by auto
  have s: "\<exists>sort. jget d ''sort'' = JList (sort @ [obj ''_id'' (JStr ''asc'')])"
    unfolding d(3) parse_sort_def Let_def by (metis append_Cons append_Nil)
  show ?thesis
  proof (cases "nq_cursor nq")
    case None
    have "(nq_page nq - 1) * nq_page_size nq + nq_page_size nq = nq_page nq * nq_page_size nq"
      by (simp add: algebra_simps)
    with None W d s show ?thesis by (auto simp: jget_def)
  next
    case (Some cur)
    with W d s show ?thesis by (auto simp: jget_def)
  qed
qed

section \<open>Bulk requests\<close>

lemma bulk_line_facts:
  assumes "wf_json v"
  shows "CHR 0x0A \<notin> set (json_dumps_compact v)" "json_loads (json_dumps_compact v) = Some v"
  using is_plain_no_newline [OF dumps_plain [of "'',''" "'':''" v]] json_loads_dumps [OF _ _ assms, of "[]" "[]"] assms
  by simp_all

lemma wf_bulk_action: "wf_json (bulk_action a doc)"
  by (simp add: bulk_action_def obj_def Let_def)

text \<open>
  A bulk request frames its documents correctly: cut at the line breaks, the body is the
  action and the source of every document in order, each of them readable JSON, and one
  empty last line. No content of a document can add or remove a line.
\<close>

lemma bulk_body_frames_documents:
  assumes "docs \<noteq> []" "\<forall>doc \<in> set docs. wf_json (JDict doc)"
  shows "map json_loads (split_char (CHR 0x0A) (bulk_body a docs)) =
    concat (map (\<lambda>doc. [Some (bulk_action a doc), Some (JDict doc)]) docs) @ [json_loads []]"
proof -
  have ne: "bulk_lines a docs \<noteq> []" using assms(1) by (cases docs) (simp_all add: bulk_lines_def)
  have nl: "\<forall>x \<in> set (bulk_lines a docs). CHR 0x0A \<notin> set x"
    using bulk_line_facts(1) wf_bulk_action assms(2) by (fastforce simp: bulk_lines_def simp del: dumps.simps)
  have "split_char (CHR 0x0A) (bulk_body a docs) = bulk_lines a docs @ [[]]"
    unfolding bulk_body_def join_snoc_Nil [OF ne, symmetric] by (rule split_char_join) (use nl in auto)
  moreover have "map json_loads (bulk_lines a docs) =
      concat (map (\<lambda>doc. [Some (bulk_action a doc), Some (JDict doc)]) docs)"
    using assms(2) bulk_line_facts(2) wf_bulk_action
    by (induction docs) (simp_all add: bulk_lines_def del: dumps.simps wf_json.simps)
  ultimately show ?thesis by simp
qed

lemma count_items_total:
  "count_items items i f = Inr (i', f') \<Longrightarrow> i' + f' = i + f + int (length items) \<and> i \<le> i' \<and> f \<le> f'"
  by (induction items i f rule: count_items.induct) (fastforce simp: egg_simps split: json.splits if_splits)+

text \<open>
  The counters of a bulk call account for every item of the response exactly once; a
  response without items counts every document as ingested.
\<close>

lemma bulk_result_counts:
  assumes "bulk_result docs resp = Inr (ingested, failed)"
    and "rs_content resp \<noteq> []" "rs_json resp = Some (JDict d)" "dict_get d ''items'' = Some (JList items)"
  shows "0 \<le> ingested \<and> 0 \<le> failed \<and>
    (if items = [] then ingested = int (length docs) \<and> failed = 0
     else ingested + failed = int (length items))"
proof -
  obtain i f where c: "count_items items 0 0 = Inr (i, f)"
    and r: "ingested = (if items = [] then int (length docs) else i)" "failed = f"
    using assms by (auto simp: bulk_result_def response_json_def py_get_def py_iter_def egg_simps)
  show ?thesis using count_items_total [OF c] c r by auto
qed

section \<open>Concrete runs\<close>

definition demo_adapter :: es_adapter where
  "demo_adapter = build_adapter (\<lambda>_. None) default_app_config"

definition demo_response :: "int \<Rightarrow> json option \<Rightarrow> http_response" where
  "demo_response status body =
     \<lparr>rs_status = status, rs_status_text = ''status'', rs_content = ''body'', rs_json = body\<rparr>"

text \<open>The backend drops the first connection, answers 503 to the second attempt and 200 to the third.\<close>

definition demo_env :: http_env where
  "demo_env =
     \<lparr>he_outcome = (\<lambda>_ n. if n = 0 then OTransient ''refused''
        else OResponse (demo_response (if n = 1 then 503 else 200) (Some (JDict [])))),
      he_start = 0, he_now = (\<lambda>n. of_nat n), he_uniform = (\<lambda>_ a b. a)\<rparr>"

definition demo_rq :: http_request where
  "demo_rq = get_request demo_adapter [] []"

lemma demo_adapter_fields:
  "es_max_retries demo_adapter = 2" "es_retry_deadline_seconds demo_adapter = 30"
  "es_retry_backoff_cap_seconds demo_adapter = 5"
  by (simp_all add: demo_adapter_def build_adapter_def make_adapter_def default_app_config_def
      default_backend_config_def Let_def split: prod.splits)

theorem cursor_roundtrip_witness:
  "decode_cursor (encode_cursor [JInt (- 12), JStr ''id''   , JNull]) = Inr [JInt (- 12), JStr ''id'', JNull]"
  by (rule cursor_roundtrip) (simp add: int_max_str_digits_def str_of_nat.simps)

theorem decode_cursor_errors_witness:
  "decode_cursor ''!'' = Inl (AppError ''invalid_parameter'' ''cursor token is malformed''
     [(''reason'', JStr ''decode_failed'')] 400)"
proof -
  have d: "b64_decode (b64_repad ''!'') = Some []"
    by (simp add: b64_decode_def b64_repad_def b64_val_def numeral_3_eq_3)
  have "decode_cursor ''!'' = Inl (AppError ''invalid_parameter'' ''cursor token is malformed''
     [(''reason'', JStr ''decode_failed'')] 400)"
    unfolding decode_cursor_def d Let_def by (simp add: json_loads_def scan_number_def scan_int_part_def)
  from this decode_cursor_errors [OF this] show ?thesis by simp
qed

theorem request_bounded_witness:
  "\<exists>k \<le> 3. calls (fst (request demo_adapter demo_env demo_rq)) = [0..<k]"
proof -
  have "uniform_lawful demo_env" by (simp add: uniform_lawful_def demo_env_def)
  from request_bounded [OF this, of demo_adapter demo_rq] show ?thesis
    by (auto simp: demo_adapter_fields)
qed

theorem request_returns_first_success_witness:
  "snd (request demo_adapter demo_env demo_rq) = Inr (demo_response 200 (Some (JDict [])))"
  by (rule request_returns_first_success [where i = 2])
     (auto simp: demo_adapter_fields demo_env_def demo_response_def retryable_def less_Suc_eq numeral_2_eq_2)

theorem request_errors_witness:
  "\<exists>reason. snd (request demo_adapter (demo_env\<lparr>he_outcome := \<lambda>_ _. OTransient ''down''\<rparr>) demo_rq) =
     Inl (ExApp (AppError ''backend_unavailable'' ''Backend is unavailable'' [(''reason'', JStr reason)] 503))"
proof -
  let ?env = "demo_env\<lparr>he_outcome := \<lambda>_ _. OTransient ''down''\<rparr>"
  obtain e where e: "snd (request demo_adapter ?env demo_rq) = Inl e"
    unfolding request_def Let_def demo_adapter_fields
    by (simp add: numeral_2_eq_2 Let_def split: prod.splits)
  from request_errors [OF this] show ?thesis unfolding e by simp
qed

lemma demo_translate:
  "\<exists>body. translate_query demo_adapter demo_query True None None = Inr body"
  by (simp add: translate_query_def demo_query_def empty_query_def Let_def)

theorem translated_query_within_policy_witness:
  "\<exists>body d from. translate_query demo_adapter demo_query True None None = Inr body \<and> body = JDict d \<and>
     jget d ''from'' = JInt from \<and> 0 \<le> from \<and> from + 20 \<le> 2000"
proof -
  obtain body where b: "translate_query demo_adapter demo_query True None None = Inr body"
    using demo_translate by blast
  have s: "jget d ''size'' = JInt 20" if "body = JDict d" for d
    using translate_query_shape [OF b] that by (simp add: demo_query_def empty_query_def)
  from translated_query_within_policy [OF demo_parse(1) refl b] b s show ?thesis
    unfolding active_profile_default
    by (auto simp: default_security_profile_def demo_query_def empty_query_def)
qed

theorem bulk_body_frames_documents_witness:
  "map json_loads (split_char (CHR 0x0A) (bulk_body demo_adapter [[(''id'', JStr ''a'')], [(''title'', JStr [CHR 0x0A])]])) =
    [Some (bulk_action demo_adapter [(''id'', JStr ''a'')]), Some (JDict [(''id'', JStr ''a'')]),
     Some (bulk_action demo_adapter [(''title'', JStr [CHR 0x0A])]), Some (JDict [(''title'', JStr [CHR 0x0A])]),
     json_loads []]"
  using bulk_body_frames_documents [of "[[(''id'', JStr ''a'')], [(''title'', JStr [CHR 0x0A])]]" demo_adapter]
  by simp

theorem bulk_result_counts_witness:
  "bulk_result [[], []] (demo_response 200 (Some (JDict [(''items'', JList [JDict [(''index'', JDict [(''status'', JInt 201)])], JNull])])))
     = Inr (1, 1) \<and> (1 :: int) + 1 = int (length [JNull, JNull])"
proof -
  let ?items = "[JDict [(''index'', JDict [(''status'', JInt 201)])], JNull]"
  let ?resp = "demo_response 200 (Some (JDict [(''items'', JList ?items)]))"
  have r: "bulk_result [[], []] ?resp = Inr (1, 1)"
    by (simp add: bulk_result_def response_json_def demo_response_def py_get_def py_iter_def item_status_def
        or_default_def Let_def)
  from bulk_result_counts [OF r, of "[(''items'', JList ?items)]" ?items] r show ?thesis
    by (simp add: demo_response_def)
qed

end
