(* ===== verification/Ingest.thy ===== *)
theory Ingest
  imports Es_Adapter
begin

text \<open>
  What the importers of \<^verbatim>\<open>app/importers/\<close> share: the loop that collects the documents of a parser
  into chunks and hands them to \<open>bulk_index\<close>, and the wrapper of the flat-file importers around
  it. The sources repeat the loop in every importer; it is defined once here.

  A parser is a generator: the documents it yields before it ends, with the exception that ends
  it, if one does. \<open>bulk_index\<close> is an argument with a state of its own.
\<close>

section \<open>The loop\<close>

type_synonym 'b sink = "'b \<Rightarrow> doc list \<Rightarrow> 'b \<times> (py_exc + int \<times> int)"

type_synonym doc_stream = "doc list \<times> py_exc option"

fun ingest_loop ::
  "'b sink \<Rightarrow> nat \<Rightarrow> 'b \<Rightarrow> int \<Rightarrow> int \<Rightarrow> doc list \<Rightarrow> doc list \<Rightarrow> py_exc option \<Rightarrow> 'b \<times> int \<times> int \<times> py_exc option"
where
  "ingest_loop bulk n b ing fl chunk [] stop =
     (case stop of
        Some e \<Rightarrow> (b, ing, fl, Some e)
      | None \<Rightarrow>
          if chunk = [] then (b, ing, fl, None)
          else (case bulk b chunk of
                  (b', Inl e) \<Rightarrow> (b', ing, fl, Some e)
                | (b', Inr (added, failed_here)) \<Rightarrow> (b', ing + added, fl + failed_here, None)))"
| "ingest_loop bulk n b ing fl chunk (d # ds) stop =
     (if n \<le> length (chunk @ [d])
      then (case bulk b (chunk @ [d]) of
              (b', Inl e) \<Rightarrow> (b', ing, fl, Some e)
            | (b', Inr (added, failed_here)) \<Rightarrow> ingest_loop bulk n b' (ing + added) (fl + failed_here) [] ds stop)
      else ingest_loop bulk n b ing fl (chunk @ [d]) ds stop)"

definition ingest_stream :: "'b sink \<Rightarrow> nat \<Rightarrow> 'b \<Rightarrow> doc_stream \<Rightarrow> 'b \<times> int \<times> int \<times> py_exc option" where
  "ingest_stream bulk n b s = ingest_loop bulk n b 0 0 [] (fst s) (snd s)"

section \<open>Flat files\<close>

record import_result =
  im_ingested :: int
  im_failed :: int
  im_error :: "string option"

definition no_import :: "string \<Rightarrow> import_result" where
  "no_import e = \<lparr>im_ingested = 0, im_failed = 0, im_error = Some e\<rparr>"

text \<open>
  The file system: the text of a \<open>Path\<close>, \<open>is_file\<close>, and \<open>read_bytes\<close> with the text of the OSError it
  raises. Here and below a raised exception that is not an AppError is \<open>ExRaw\<close> with its class, a
  colon, a space and its text.
\<close>

record file_system =
  fs_str :: "string \<Rightarrow> string"
  fs_is_file :: "string \<Rightarrow> bool"
  fs_read :: "string \<Rightarrow> string + string"

definition exc_class :: "py_exc \<Rightarrow> string" where
  "exc_class e = (case e of ExApp a \<Rightarrow> ''AppError'' | ExRaw s \<Rightarrow> takeWhile (\<lambda>c. c \<noteq> CHR '':'') s)"

text \<open>\<open>str(exc)\<close>.\<close>

definition exc_text :: "py_exc \<Rightarrow> string" where
  "exc_text e = (case e of ExApp a \<Rightarrow> ae_message a | ExRaw s \<Rightarrow> drop 2 (dropWhile (\<lambda>c. c \<noteq> CHR '':'') s))"

definition os_error_text :: "py_exc \<Rightarrow> string option" where
  "os_error_text e = (if exc_class e = ''OSError'' then Some (exc_text e) else None)"

definition file_ingest ::
  "string \<Rightarrow> (string \<Rightarrow> doc_stream) \<Rightarrow> file_system \<Rightarrow> 'b sink \<Rightarrow> nat \<Rightarrow> 'b \<Rightarrow> string \<Rightarrow> 'b \<times> (py_exc + import_result)"
where
  "file_ingest label parse fs bulk chunk_size b path =
     (let target = fs_str fs path in
      if \<not> fs_is_file fs target then (b, Inr (no_import (label @ '' file not found: '' @ target)))
      else (case fs_read fs target of
              Inl msg \<Rightarrow> (b, Inr (no_import (''Could not read '' @ label @ '' file: '' @ msg)))
            | Inr data \<Rightarrow>
                (case ingest_stream bulk chunk_size b (parse data) of (b', ing, fl, stop) \<Rightarrow>
                   (case stop of
                      None \<Rightarrow> (b', Inr \<lparr>im_ingested = ing, im_failed = fl, im_error = None\<rparr>)
                    | Some (ExApp e) \<Rightarrow> (b', Inr \<lparr>im_ingested = ing, im_failed = fl, im_error = Some (ae_message e)\<rparr>)
                    | Some e \<Rightarrow> (case os_error_text e of
                        Some msg \<Rightarrow> (b', Inr \<lparr>im_ingested = ing, im_failed = fl,
                          im_error = Some (''Could not read '' @ label @ '' file: '' @ msg)\<rparr>)
                      | None \<Rightarrow> (b', Inl e))))))"

section \<open>Documents\<close>

text \<open>
  \<open>doc[key] = v\<close> when the value is there. The dict is built in the order of the statements, every
  key once; a failing statement ends the mapping with its exception.
\<close>

definition entry_if :: "bool \<Rightarrow> string \<Rightarrow> json \<Rightarrow> (string \<times> json) list" where
  "entry_if c k v = (if c then [(k, v)] else [])"

definition strs_entry :: "string \<Rightarrow> string list \<Rightarrow> (string \<times> json) list" where
  "strs_entry k vs = entry_if (vs \<noteq> []) k (JList (map JStr vs))"

definition blank_line :: string where
  "blank_line = [CHR 0x0A, CHR 0x0A]"

definition str_entry :: "string \<Rightarrow> string \<Rightarrow> (string \<times> json) list" where
  "str_entry k v = entry_if (v \<noteq> []) k (JStr v)"

lemma map_of_entries [simp]:
  "map_of (str_entry k v) k' = (if k' = k \<and> v \<noteq> [] then Some (JStr v) else None)"
  "map_of (entry_if c k w) k' = (if k' = k \<and> c then Some w else None)"
  by (simp_all add: str_entry_def entry_if_def)

text \<open>What the backend and the mapper need of a document: an identifier, and a type.\<close>

definition identified :: "doc \<Rightarrow> bool" where
  "identified d \<longleftrightarrow> (\<exists>i. dict_get d ''id'' = Some (JStr i) \<and> i \<noteq> []) \<and> (\<exists>t. dict_get d ''type'' = Some (JStr t))"

section \<open>What reaches the backend\<close>

text \<open>The sink with a log of the chunks it was given.\<close>

definition logging :: "'b sink \<Rightarrow> ('b \<times> doc list list) sink" where
  "logging bulk = (\<lambda>(b, lg) chunk. case bulk b chunk of (b', r) \<Rightarrow> ((b', lg @ [chunk]), r))"

definition never_raises :: "'b sink \<Rightarrow> bool" where
  "never_raises bulk \<longleftrightarrow> (\<forall>b chunk. \<exists>r. snd (bulk b chunk) = Inr r)"

definition accounts :: "'b sink \<Rightarrow> bool" where
  "accounts bulk \<longleftrightarrow> (\<forall>b chunk a f. snd (bulk b chunk) = Inr (a, f) \<longrightarrow> a + f = int (length chunk))"

lemma ingest_loop_chunks:
  assumes "ingest_loop (logging bulk) n (b, lg) ing fl chunk ds stop = ((b', lg'), ing', fl', err)"
    and "1 \<le> n" "length chunk < n"
  shows "\<exists>new. lg' = lg @ new \<and> prefix (concat new) (chunk @ ds) \<and> (\<forall>c \<in> set new. c \<noteq> [] \<and> length c \<le> n)"
  using assms
proof (induction ds arbitrary: b lg ing fl chunk)
  case Nil
  then show ?case
    by (auto simp: logging_def split: option.split_asm if_split_asm prod.split_asm sum.split_asm)
next
  case (Cons d ds)
  let ?c = "chunk @ [d]"
  show ?case
  proof (cases "n \<le> length ?c")
    case True
    then have len: "length ?c \<le> n" using Cons.prems(3) by simp
    obtain b1 r where r: "bulk b ?c = (b1, r)" by (cases "bulk b ?c")
    then have l: "logging bulk (b, lg) ?c = ((b1, lg @ [?c]), r)" by (simp add: logging_def)
    show ?thesis
    proof (cases r)
      case (Inl e)
      then show ?thesis using Cons.prems(1) True l len by (auto simp: prefix_def)
    next
      case (Inr p)
      obtain a f where p: "p = (a, f)" by (cases p)
      have "ingest_loop (logging bulk) n (b1, lg @ [?c]) (ing + a) (fl + f) [] ds stop = ((b', lg'), ing', fl', err)"
        using Cons.prems(1) True l Inr p by simp
      from Cons.IH [OF this Cons.prems(2)] Cons.prems(2)
      obtain new where n: "lg' = lg @ ?c # new" "prefix (concat new) ds" "\<forall>c \<in> set new. c \<noteq> [] \<and> length c \<le> n"
        by auto
      then show ?thesis using len by (intro exI [of _ "?c # new"]) simp
    qed
  next
    case False
    then have "ingest_loop (logging bulk) n (b, lg) ing fl ?c ds stop = ((b', lg'), ing', fl', err)"
      using Cons.prems(1) by simp
    from Cons.IH [OF this Cons.prems(2)] False show ?thesis by simp
  qed
qed

text \<open>A sink that does not raise gets every document, unless the parser fails, and then misses less than a chunk.\<close>

lemma ingest_loop_complete:
  assumes "ingest_loop (logging bulk) n (b, lg) ing fl chunk ds stop = ((b', lg'), ing', fl', err)"
    and "1 \<le> n" "length chunk < n" "never_raises bulk"
  shows "err = stop \<and> (\<exists>new. lg' = lg @ new \<and>
    (if stop = None then concat new = chunk @ ds
     else length (chunk @ ds) < length (concat new) + n))"
  using assms(1-3)
proof (induction ds arbitrary: b lg ing fl chunk)
  case Nil
  then show ?case using assms(4)
    by (auto simp: logging_def never_raises_def split: option.split_asm if_split_asm prod.split_asm sum.split_asm)
       (metis snd_conv sum.distinct(1))+
next
  case (Cons d ds)
  let ?c = "chunk @ [d]"
  show ?case
  proof (cases "n \<le> length ?c")
    case True
    obtain b1 a f where r: "bulk b ?c = (b1, Inr (a, f))"
      using assms(4) by (metis never_raises_def prod.collapse)
    then have "ingest_loop (logging bulk) n (b1, lg @ [?c]) (ing + a) (fl + f) [] ds stop = ((b', lg'), ing', fl', err)"
      using Cons.prems(1) True by (simp add: logging_def)
    from Cons.IH [OF this Cons.prems(2)] Cons.prems(2)
    obtain new where "err = stop" "lg' = lg @ ?c # new"
      "if stop = None then concat new = [] @ ds else length ([] @ ds) < length (concat new) + n" by force
    then show ?thesis by (intro conjI exI [of _ "?c # new"]) auto
  next
    case False
    then have "ingest_loop (logging bulk) n (b, lg) ing fl ?c ds stop = ((b', lg'), ing', fl', err)"
      using Cons.prems(1) by simp
    from Cons.IH [OF this Cons.prems(2)] False show ?thesis by auto
  qed
qed

lemma ingest_loop_accounts:
  assumes "ingest_loop (logging bulk) n (b, lg) ing fl chunk ds stop = ((b', lg'), ing', fl', err)"
    and "1 \<le> n" "accounts bulk" "never_raises bulk"
  shows "ing' + fl' + int (length (concat lg)) = ing + fl + int (length (concat lg'))"
  using assms(1)
proof (induction ds arbitrary: b lg ing fl chunk)
  case Nil
  obtain b1 a f where r: "bulk b chunk = (b1, Inr (a, f))"
    using assms(4) by (metis never_raises_def prod.collapse)
  then have af: "a + f = int (length chunk)" using assms(3) by (metis accounts_def snd_conv)
  show ?case using Nil af
    by (simp add: logging_def r split: option.split_asm if_split_asm) auto
next
  case (Cons d ds)
  let ?c = "chunk @ [d]"
  show ?case
  proof (cases "n \<le> length ?c")
    case True
    obtain b1 a f where r: "bulk b ?c = (b1, Inr (a, f))"
      using assms(4) by (metis never_raises_def prod.collapse)
    then have af: "a + f = int (length ?c)" using assms(3) by (metis accounts_def snd_conv)
    have "ingest_loop (logging bulk) n (b1, lg @ [?c]) (ing + a) (fl + f) [] ds stop = ((b', lg'), ing', fl', err)"
      using Cons.prems(1) True r by (simp add: logging_def)
    from Cons.IH [OF this] af show ?thesis by simp
  next
    case False
    then have "ingest_loop (logging bulk) n (b, lg) ing fl ?c ds stop = ((b', lg'), ing', fl', err)"
      using Cons.prems(1) by simp
    from Cons.IH [OF this] show ?thesis .
  qed
qed



text \<open>
  A failing batch ends the run: when the backend call raises on the first full chunk, nothing
  after that chunk is ever sent.
\<close>

lemma failing_batch_ends_run:
  assumes "\<forall>b chunk. snd (bulk b chunk) = Inl e" "1 \<le> n" "n \<le> length ds"
  shows "snd (fst (ingest_stream (logging bulk) n (b, []) (ds, stop))) = [take n ds] \<and>
    snd (ingest_stream (logging bulk) n (b, []) (ds, stop)) = (0, 0, Some e)"
proof -
  have "snd (fst (ingest_loop (logging bulk) n (b, []) 0 0 chunk ds stop)) = [take n (chunk @ ds)] \<and>
      snd (ingest_loop (logging bulk) n (b, []) 0 0 chunk ds stop) = (0, 0, Some e)"
    if "length chunk < n" "n \<le> length (chunk @ ds)" for chunk
    using that
  proof (induction ds arbitrary: chunk)
    case (Cons d ds)
    obtain b1 where r: "bulk b (chunk @ [d]) = (b1, Inl e)" using assms(1) by (metis prod.collapse)
    show ?case
    proof (cases "n \<le> length (chunk @ [d])")
      case True
      then have "n = length (chunk @ [d])" using Cons.prems(1) by simp
      then show ?thesis by (simp add: logging_def r)
    next
      case False
      then show ?thesis using Cons.IH [of "chunk @ [d]"] Cons.prems by simp
    qed
  qed simp
  from this [of "[]"] assms(2,3) show ?thesis by (simp add: ingest_stream_def)
qed

section \<open>Concrete runs\<close>

definition demo_doc :: "string \<Rightarrow> doc" where
  "demo_doc i = [(''id'', JStr i), (''type'', JStr ''record'')]"

definition demo_sink :: "unit sink" where
  "demo_sink b chunk = (b, Inr (int (length chunk), 0))"


theorem failing_batch_ends_run_witness:
  "snd (fst (ingest_stream (logging (\<lambda>b chunk. (b, Inl (ExRaw ''down'')))) 2 ((), [])
     (map demo_doc [''a'', ''b'', ''c''], None))) = [map demo_doc [''a'', ''b'']]"
  using failing_batch_ends_run [of "\<lambda>b chunk. (b, Inl (ExRaw ''down''))" "ExRaw ''down''" 2
      "map demo_doc [''a'', ''b'', ''c'']" "()" None]
  by simp

end
