(* ===== verification/Py_Xml.thy ===== *)
theory Py_Xml
  imports Egg_Prelude
begin

text \<open>
  The part of \<^verbatim>\<open>xml.etree.ElementTree\<close> that the importers use: elements, \<open>get\<close>, \<open>find\<close>,
  \<open>findall\<close>/\<open>iterfind\<close> along a path of child tags or of descendants, \<open>iter\<close> and \<open>itertext\<close>. Tags
  carry their namespace in braces, as ElementTree stores them, and a prefix of the sources is
  written out here. Parsing bytes into an element is \<open>defusedxml\<close>'s and an argument of the
  importers.
\<close>

section \<open>Elements\<close>

datatype xml = Elem
  (x_tag: string)
  (x_attrs: "(string \<times> string) list")
  (x_text: "string option")
  (x_children: "xml list")
  (x_tail: "string option")

definition ns_tag :: "string \<Rightarrow> string \<Rightarrow> string" where
  "ns_tag ns t = ''{'' @ ns @ ''}'' @ t"

text \<open>\<open>el.get(name)\<close>, and the same with \<open>or ""\<close>.\<close>

definition x_get :: "xml \<Rightarrow> string \<Rightarrow> string option" where
  "x_get el name = dict_get (x_attrs el) name"

definition x_attr :: "xml \<Rightarrow> string \<Rightarrow> string" where
  "x_attr el name = (case x_get el name of None \<Rightarrow> [] | Some v \<Rightarrow> v)"

text \<open>\<open>(el.text or "").strip()\<close>.\<close>

definition own_text :: "xml \<Rightarrow> string" where
  "own_text el = py_strip (case x_text el of None \<Rightarrow> [] | Some t \<Rightarrow> t)"

section \<open>Finding elements\<close>

definition child_list :: "string \<Rightarrow> xml \<Rightarrow> xml list" where
  "child_list t el = filter (\<lambda>c. x_tag c = t) (x_children el)"

text \<open>\<open>el.findall("a/b/c")\<close>: every step takes the children with the tag, in document order.\<close>

fun find_all :: "string list \<Rightarrow> xml \<Rightarrow> xml list" where
  "find_all [] el = [el]"
| "find_all (t # ts) el = concat (map (find_all ts) (child_list t el))"

definition find_first :: "string list \<Rightarrow> xml \<Rightarrow> xml option" where
  "find_first ts el = (case find_all ts el of [] \<Rightarrow> None | e # es \<Rightarrow> Some e)"

text \<open>\<open>el.iter()\<close>: the element and its descendants in document order.\<close>

fun x_iter :: "xml \<Rightarrow> xml list" where
  "x_iter (Elem t a tx cs tt) = Elem t a tx cs tt # concat (map x_iter cs)"

definition x_descendants :: "xml \<Rightarrow> xml list" where
  "x_descendants el = concat (map x_iter (x_children el))"

text \<open>\<open>el.iterfind(".//t")\<close>.\<close>

definition descendant_list :: "string \<Rightarrow> xml \<Rightarrow> xml list" where
  "descendant_list t el = filter (\<lambda>c. x_tag c = t) (x_descendants el)"

text \<open>\<open>"".join(el.itertext())\<close>.\<close>

definition opt_text :: "string option \<Rightarrow> string" where
  "opt_text t = (case t of None \<Rightarrow> [] | Some s \<Rightarrow> s)"

fun x_itertext :: "xml \<Rightarrow> string" where
  "x_itertext (Elem t a tx cs tt) = opt_text tx @ concat (map (\<lambda>c. x_itertext c @ opt_text (x_tail c)) cs)"

text \<open>The texts along a path that are not blank, stripped, and the first of them.\<close>

definition all_texts :: "string list \<Rightarrow> xml \<Rightarrow> string list" where
  "all_texts ts el = filter (\<lambda>t. t \<noteq> []) (map own_text (find_all ts el))"

definition first_text :: "string list \<Rightarrow> xml \<Rightarrow> string" where
  "first_text ts el = (case all_texts ts el of [] \<Rightarrow> [] | t # _ \<Rightarrow> t)"

section \<open>Facts\<close>

lemma x_iter_self: "x_iter el = el # x_descendants el"
  by (cases el) (simp add: x_descendants_def)

lemma size_child: "c \<in> set (x_children el) \<Longrightarrow> size c < size el"
proof -
  have "x \<in> set xs \<Longrightarrow> size x \<le> size_list size xs" for x :: xml and xs by (induction xs) auto
  then show "c \<in> set (x_children el) \<Longrightarrow> size c < size el" by (cases el) (simp add: le_imp_less_Suc)
qed

lemma x_iter_size: "e \<in> set (x_iter el) \<Longrightarrow> size e \<le> size el"
proof (induction el rule: x_iter.induct)
  case (1 t a tx cs tt)
  then show ?case using size_child [of _ "Elem t a tx cs tt"] by fastforce
qed

lemma find_all_Cons_iff:
  "e \<in> set (find_all (t # ts) el) \<longleftrightarrow> (\<exists>c \<in> set (x_children el). x_tag c = t \<and> e \<in> set (find_all ts c))"
  by (auto simp: child_list_def)

end
