(* ===== verification/Py_Text.thy ===== *)
theory Py_Text
  imports Egg_Prelude
begin

text \<open>
  More of Python's text and sequence primitives: \<open>s.split()\<close>, \<open>s.splitlines()\<close>, slices with int
  bounds and the search for a byte. Strings and byte strings are both \<open>string\<close> here.
\<close>

section \<open>Slices\<close>

text \<open>\<open>xs[i:j]\<close>: a negative bound counts from the end, and every bound is clamped.\<close>

definition clamp_index :: "nat \<Rightarrow> int \<Rightarrow> nat" where
  "clamp_index n i = (if i < 0 then nat (int n + i) else min n (nat i))"

definition py_slice :: "int \<Rightarrow> int \<Rightarrow> 'a list \<Rightarrow> 'a list" where
  "py_slice i j xs =
     (let a = clamp_index (length xs) i; b = clamp_index (length xs) j in take (b - a) (drop a xs))"

lemma py_slice_nat:
  assumes "j \<le> length xs"
  shows "py_slice (int i) (int j) xs = take (j - i) (drop i xs)"
  using assms by (cases "i \<le> length xs") (auto simp: py_slice_def clamp_index_def)

text \<open>\<open>data.find(c, start)\<close>, with \<open>None\<close> for -1.\<close>

definition find_from :: "char \<Rightarrow> nat \<Rightarrow> string \<Rightarrow> nat option" where
  "find_from c start s =
     (let i = start + length (takeWhile (\<lambda>x. x \<noteq> c) (drop start s)) in
      if i < length s then Some i else None)"

lemma find_from_append:
  assumes "c \<notin> set v" shows "find_from c (length u) (u @ v @ c # w) = Some (length u + length v)"
proof -
  have "takeWhile (\<lambda>x. x \<noteq> c) (v @ c # w) = v"
    using assms by (induction v) auto
  then show ?thesis by (simp add: find_from_def)
qed

section \<open>Words and lines\<close>

function split_ws :: "string \<Rightarrow> string list" where
  "split_ws s = (let t = dropWhile is_space s in
     if t = [] then [] else takeWhile (\<lambda>c. \<not> is_space c) t # split_ws (dropWhile (\<lambda>c. \<not> is_space c) t))"
  by pat_completeness auto
termination
proof (relation "measure length", goal_cases)
  case (2 s t)
  from 2 obtain c r where t: "t = c # r" by (cases t) blast+
  with 2(1) have "dropWhile is_space s = c # r" by simp
  note t = t this
  from t(2) have "\<not> is_space c" by (metis dropWhile_eq_Cons_conv)
  then have "length (dropWhile (\<lambda>c. \<not> is_space c) t) \<le> length r" using t by (simp add: length_dropWhile_le)
  also have "length r < length (dropWhile is_space s)" using t by simp
  also have "length (dropWhile is_space s) \<le> length s" by (rule length_dropWhile_le)
  finally show ?case by simp
qed simp

declare split_ws.simps [simp del]

lemma split_ws_Nil_iff: "split_ws s = [] \<longleftrightarrow> py_strip s = []"
proof -
  have "py_strip s = [] \<longleftrightarrow> (\<forall>c \<in> set (dropWhile is_space s). is_space c)"
    by (simp only: py_strip_def strip_by_def rstrip_by_def rev_is_Nil_conv dropWhile_eq_Nil_conv set_rev)
  also have "\<dots> \<longleftrightarrow> dropWhile is_space s = []"
    using hd_dropWhile [of is_space s] by (cases "dropWhile is_space s") (auto dest: set_dropWhileD)
  finally have "py_strip s = [] \<longleftrightarrow> dropWhile is_space s = []" .
  then show ?thesis by (subst split_ws.simps) (simp add: Let_def del: dropWhile_eq_Nil_conv)
qed

definition line_break :: "char \<Rightarrow> bool" where
  "line_break c = (let n = (of_char c :: nat) in (10 \<le> n \<and> n \<le> 13) \<or> (28 \<le> n \<and> n \<le> 30) \<or> n = 133)"

fun lines_acc :: "string \<Rightarrow> string \<Rightarrow> string list" where
  "lines_acc acc [] = (if acc = [] then [] else [rev acc])"
| "lines_acc acc [c] = (if line_break c then [rev acc] else [rev (c # acc)])"
| "lines_acc acc (c # d # cs) =
     (if c = CHR 0x0D \<and> d = CHR 0x0A then rev acc # lines_acc [] cs
      else if line_break c then rev acc # lines_acc [] (d # cs)
      else lines_acc (c # acc) (d # cs))"

definition splitlines :: "string \<Rightarrow> string list" where
  "splitlines s = lines_acc [] s"

lemma lines_acc_clean:
  "\<forall>c \<in> set acc. \<not> line_break c \<Longrightarrow> l \<in> set (lines_acc acc s) \<Longrightarrow> \<forall>c \<in> set l. \<not> line_break c"
proof (induction acc s arbitrary: l rule: lines_acc.induct)
  case (3 acc c d cs)
  show ?case
  proof (cases "c = CHR 0x0D \<and> d = CHR 0x0A")
    case True
    then have "l = rev acc \<or> l \<in> set (lines_acc [] cs)" using "3.prems"(2) by simp
    then show ?thesis using "3.IH"(1) [OF True] "3.prems"(1) by auto
  next
    case F: False
    then show ?thesis
    proof (cases "line_break c")
      case True
      then have "l = rev acc \<or> l \<in> set (lines_acc [] (d # cs))" using "3.prems"(2) F by simp
      then show ?thesis using "3.IH"(2) [OF F True] "3.prems"(1) by auto
    next
      case False
      then have "l \<in> set (lines_acc (c # acc) (d # cs))" using "3.prems"(2) F by simp
      then show ?thesis using "3.IH"(3) [OF F False] "3.prems"(1) False by simp
    qed
  qed
qed (auto split: if_split_asm)

lemma splitlines_clean: "l \<in> set (splitlines s) \<Longrightarrow> c \<in> set l \<Longrightarrow> \<not> line_break c"
  using lines_acc_clean [of "[]" l s] by (auto simp: splitlines_def)

lemma line_break_LF: "line_break (CHR 0x0A)"
  by (simp add: line_break_def)

lemma lines_acc_LF: "lines_acc acc (CHR 0x0A # s) = rev acc # lines_acc [] s"
  by (cases s) (simp_all add: line_break_LF)

lemma lines_acc_step: "\<not> line_break c \<Longrightarrow> s \<noteq> [] \<Longrightarrow> lines_acc acc (c # s) = lines_acc (c # acc) s"
  by (cases s) (auto simp: line_break_def)

lemma lines_acc_line:
  "\<forall>c \<in> set l. \<not> line_break c \<Longrightarrow> lines_acc acc (l @ CHR 0x0A # s) = (rev acc @ l) # lines_acc [] s"
  by (induction l arbitrary: acc) (simp_all add: lines_acc_LF lines_acc_step)

text \<open>Lines joined with line feeds split into the same lines.\<close>

lemma splitlines_lines:
  "\<forall>l \<in> set ls. \<forall>c \<in> set l. \<not> line_break c \<Longrightarrow> splitlines (concat (map (\<lambda>l. l @ [CHR 0x0A]) ls)) = ls"
  unfolding splitlines_def by (induction ls) (simp_all add: lines_acc_line)

end
