(* ===== verification/Marc_Import.thy ===== *)
theory Marc_Import
  imports Ingest Py_Xml Py_Text
begin

text \<open>
  \<^verbatim>\<open>app/importers/marc.py\<close>: the ISO 2709 parser, the MARCXML reader, the two mappings to backend
  documents and the two flat-file importers. Bytes are \<open>string\<close>s, one \<open>char\<close> per byte.

  A field that is UTF-8 for code points above 255 is outside the modelled texts. A byte of a tag
  that is not ASCII reads as a question mark here; Python puts U+FFFD, and no mapping asks for
  a tag with either.
\<close>

section \<open>Records\<close>

definition field_terminator :: char where "field_terminator = CHR 0x1E"
definition record_terminator :: char where "record_terminator = CHR 0x1D"
definition subfield_delimiter :: char where "subfield_delimiter = CHR 0x1F"

record marc_field =
  mf_tag :: string
  mf_indicator1 :: string
  mf_indicator2 :: string
  mf_value :: string
  mf_subfields :: "(string \<times> string) list option"

definition control_field :: "string \<Rightarrow> string \<Rightarrow> marc_field" where
  "control_field tag v =
     \<lparr>mf_tag = tag, mf_indicator1 = '' '', mf_indicator2 = '' '', mf_value = v, mf_subfields = None\<rparr>"

definition data_field :: "string \<Rightarrow> string \<Rightarrow> string \<Rightarrow> (string \<times> string) list \<Rightarrow> marc_field" where
  "data_field tag i1 i2 subs =
     \<lparr>mf_tag = tag, mf_indicator1 = i1, mf_indicator2 = i2, mf_value = [], mf_subfields = Some subs\<rparr>"

record marc_record =
  mr_leader :: string
  mr_fields :: "marc_field list"

definition field_values :: "string \<Rightarrow> string \<Rightarrow> marc_field \<Rightarrow> string list" where
  "field_values tag code f =
     (if mf_tag f = tag
      then map snd (filter (\<lambda>(c, v). c = code \<and> v \<noteq> []) (case mf_subfields f of None \<Rightarrow> [] | Some s \<Rightarrow> s))
      else [])"

definition get_subfields :: "marc_record \<Rightarrow> string \<Rightarrow> string \<Rightarrow> string list" where
  "get_subfields r tag code = concat (map (field_values tag code) (mr_fields r))"

definition get_subfield :: "marc_record \<Rightarrow> string \<Rightarrow> string \<Rightarrow> string" where
  "get_subfield r tag code = (case get_subfields r tag code of [] \<Rightarrow> [] | v # vs \<Rightarrow> v)"

definition get_control :: "marc_record \<Rightarrow> string \<Rightarrow> string" where
  "get_control r tag =
     (case find (\<lambda>f. mf_tag f = tag \<and> mf_subfields f \<in> {None, Some []}) (mr_fields r) of
        None \<Rightarrow> [] | Some f \<Rightarrow> mf_value f)"

section \<open>ISO 2709\<close>

text \<open>
  \<open>for idx, byte in enumerate(data)\<close> with the variable \<open>start\<close>: the slices yielded and the final value
  of \<open>start\<close>.
\<close>

fun split_loop :: "string \<Rightarrow> nat \<Rightarrow> nat \<Rightarrow> string \<Rightarrow> string list \<times> nat" where
  "split_loop data start idx [] = ([], start)"
| "split_loop data start idx (b # bs) =
     (if b = record_terminator
      then (case split_loop data (idx + 1) (idx + 1) bs of (out, s) \<Rightarrow>
        ((if start < idx then [take (idx - start) (drop start data)] else []) @ out, s))
      else split_loop data start (idx + 1) bs)"

definition split_records :: "string \<Rightarrow> string list" where
  "split_records data =
     (case split_loop data 0 0 data of (out, start) \<Rightarrow>
        out @ (if start < length data \<and> strip_chars [CHR 0x00, CHR 0x0A, CHR 0x0D, CHR '' ''] (drop start data) \<noteq> []
               then [drop start data] else []))"

definition decode_text :: "string \<Rightarrow> string" where
  "decode_text raw = (case utf8_decode raw of Some s \<Rightarrow> s | None \<Rightarrow> raw)"

definition decode_ascii :: "string \<Rightarrow> string" where
  "decode_ascii raw = map (\<lambda>c. if (of_char c :: nat) < 128 then c else CHR ''?'') raw"

text \<open>\<open>int(b)\<close> of bytes: a byte above 127 is no digit and no white space.\<close>

definition bytes_int :: "string \<Rightarrow> int option" where
  "bytes_int b = (if is_ascii b then (case py_int b of Inl e \<Rightarrow> None | Inr i \<Rightarrow> Some i) else None)"

definition marc_error :: "string \<Rightarrow> py_exc" where
  "marc_error msg = ExApp (AppError ''backend_unavailable'' msg [(''scope'', JStr ''marc'')] 502)"

function dir_entries :: "string \<Rightarrow> string list" where
  "dir_entries d = (if d = [] then [] else take 12 d # dir_entries (drop 12 d))"
  by pat_completeness auto
termination by (relation "measure length") auto

declare dir_entries.simps [simp del]

definition parse_subfields :: "string \<Rightarrow> (string \<times> string) list" where
  "parse_subfields s =
     map (\<lambda>ch. (decode_text (take 1 ch), decode_text (drop 1 ch)))
       (filter (\<lambda>ch. ch \<noteq> []) (tl (split_char subfield_delimiter s)))"

definition parse_field_bytes :: "string \<Rightarrow> string \<Rightarrow> marc_field" where
  "parse_field_bytes tag raw =
     (let fb = (if ends_with [field_terminator] raw then butlast raw else raw) in
      if starts_with ''00'' tag then control_field tag (decode_text fb)
      else if length fb < 2 then data_field tag '' '' '' '' []
      else (let i1 = decode_text (take 1 fb); i2 = decode_text (take 1 (drop 1 fb)) in
        data_field tag (if i1 = [] then '' '' else i1) (if i2 = [] then '' '' else i2)
          (parse_subfields (drop 2 fb))))"

text \<open>One directory entry; a malformed one is skipped.\<close>

definition parse_entry :: "string \<Rightarrow> int \<Rightarrow> string \<Rightarrow> marc_field list" where
  "parse_entry rec base entry =
     (case (bytes_int (take 4 (drop 3 entry)), bytes_int (take 5 (drop 7 entry))) of
        (Some len, Some offset) \<Rightarrow>
          [parse_field_bytes (decode_ascii (take 3 entry)) (py_slice (base + offset) (base + offset + len) rec)]
      | _ \<Rightarrow> [])"

definition parse_iso2709_record :: "string \<Rightarrow> py_exc + marc_record" where
  "parse_iso2709_record rec =
     (if length rec < 24 then Inl (marc_error ''MARC record is shorter than a leader (24 bytes).'')
      else (let leader = decode_text (take 24 rec); digits = take 5 (drop 12 leader) in
        case py_int digits of
          Inl e \<Rightarrow> Inl (marc_error (''MARC record leader has an unparseable base address: '' @ py_repr digits))
        | Inr base \<Rightarrow>
            (case find_from field_terminator 24 rec of
               None \<Rightarrow> Inl (marc_error ''MARC record directory is not terminated before the base address.'')
             | Some de \<Rightarrow>
                 if int de > base
                 then Inl (marc_error ''MARC record directory is not terminated before the base address.'')
                 else (let directory = take (de - 24) (drop 24 rec) in
                   if length directory mod 12 \<noteq> 0
                   then Inl (marc_error (''MARC directory length ('' @ str_of_nat (length directory) @ '') is not a multiple of 12.''))
                   else Inr \<lparr>mr_leader = leader,
                     mr_fields = concat (map (parse_entry rec base) (dir_entries directory))\<rparr>))))"

text \<open>A record that does not parse is logged and skipped.\<close>

definition iter_iso2709_records :: "string \<Rightarrow> marc_record list" where
  "iter_iso2709_records data =
     concat (map (\<lambda>ch. case parse_iso2709_record ch of Inl e \<Rightarrow> [] | Inr r \<Rightarrow> [r]) (split_records data))"

section \<open>MARCXML\<close>

definition marcxml :: "string \<Rightarrow> string" where
  "marcxml t = ns_tag ''http://www.loc.gov/MARC21/slim'' t"

definition first_char :: "string \<Rightarrow> string" where
  "first_char s = (let c = take 1 (if s = [] then '' '' else s) in if c = [] then '' '' else c)"

definition marcxml_datafield :: "xml \<Rightarrow> marc_field list" where
  "marcxml_datafield el =
     (let tag = py_strip (x_attr el ''tag'') in
      if tag = [] then []
      else [data_field tag (first_char (x_attr el ''ind1'')) (first_char (x_attr el ''ind2''))
        (filter (\<lambda>(code, v). code \<noteq> [])
          (map (\<lambda>sub. (py_strip (x_attr sub ''code''), own_text sub)) (find_all [marcxml ''subfield''] el)))])"

definition marcxml_controlfield :: "xml \<Rightarrow> marc_field list" where
  "marcxml_controlfield el =
     (let tag = py_strip (x_attr el ''tag'') in if tag = [] then [] else [control_field tag (own_text el)])"

definition marcxml_record_to_marc_record :: "xml \<Rightarrow> marc_record" where
  "marcxml_record_to_marc_record el =
     \<lparr>mr_leader = (case find_first [marcxml ''leader''] el of
        Some l \<Rightarrow> own_text l | None \<Rightarrow> replicate 24 (CHR '' '')),
      mr_fields = concat (map marcxml_controlfield (find_all [marcxml ''controlfield''] el))
        @ concat (map marcxml_datafield (find_all [marcxml ''datafield''] el))\<rparr>"

text \<open>\<open>fromstring\<close> returns the root or the text of the ParseError or ValueError it raises.\<close>

definition marcxml_records_of :: "xml \<Rightarrow> marc_record list" where
  "marcxml_records_of rt =
     (if x_tag rt = marcxml ''record'' then [marcxml_record_to_marc_record rt]
      else map marcxml_record_to_marc_record (descendant_list (marcxml ''record'') rt))"

definition iter_marcxml_records :: "(string \<Rightarrow> string + xml) \<Rightarrow> string \<Rightarrow> py_exc + marc_record list" where
  "iter_marcxml_records fromstring data =
     (case fromstring data of
        Inl e \<Rightarrow> Inl (marc_error (''MARCXML file is not valid XML: '' @ e))
      | Inr rt \<Rightarrow> Inr (marcxml_records_of rt))"

section \<open>Documents\<close>

definition join_title :: "string \<Rightarrow> string \<Rightarrow> (string \<times> json) list" where
  "join_title a b = entry_if (a \<noteq> [] \<or> b \<noteq> []) ''title''
     (JStr (strip_chars '' /:'' (join '' '' (filter (\<lambda>p. p \<noteq> []) [a, b]))))"

text \<open>\<open>isbn.split()[0]\<close> raises IndexError on a text of white space.\<close>

definition isbn_entry :: "string \<Rightarrow> py_exc + (string \<times> json) list" where
  "isbn_entry isbn =
     (if isbn = [] then Inr []
      else (case split_ws isbn of [] \<Rightarrow> Inl (ExRaw ''IndexError: list index out of range'') | w # ws \<Rightarrow> Inr [(''isbn'', JStr w)]))"

definition first_nonempty_of :: "string \<Rightarrow> string \<Rightarrow> string" where
  "first_nonempty_of a b = (if a \<noteq> [] then a else b)"

definition marc21_doc :: "marc_record \<Rightarrow> py_exc + doc" where
  "marc21_doc r =
     (let record_id = get_control r ''001'';
          main_author = get_subfield r ''100'' ''a''; added_authors = get_subfields r ''700'' ''a'';
          creators = filter (\<lambda>a. a \<noteq> []) (main_author # added_authors);
          publisher = first_nonempty_of (get_subfield r ''260'' ''b'') (get_subfield r ''264'' ''b'');
          date = first_nonempty_of (get_subfield r ''260'' ''c'') (get_subfield r ''264'' ''c'');
          subjects = get_subfields r ''650'' ''a'';
          description_parts = filter (\<lambda>p. p \<noteq> []) (get_subfields r ''520'' ''a'' @ get_subfields r ''500'' ''a'');
          language = first_nonempty_of (get_subfield r ''041'' ''a'') (py_strip (take 3 (drop 35 (mr_leader r)))) in
      if record_id = [] then Inr []
      else bind_r (isbn_entry (get_subfield r ''020'' ''a'')) (\<lambda>isbn.
        Inr ([(''id'', JStr record_id), (''type'', JStr ''bibliographic'')]
          @ join_title (get_subfield r ''245'' ''a'') (get_subfield r ''245'' ''b'')
          @ strs_entry ''creators'' creators
          @ entry_if (publisher \<noteq> []) ''publisher'' (JStr (rstrip_chars '' ,;:'' publisher))
          @ entry_if (date \<noteq> []) ''date'' (JStr (strip_chars '' .,[]'' date))
          @ isbn
          @ strs_entry ''subject'' (map (rstrip_chars ''.'') subjects)
          @ entry_if (description_parts \<noteq> []) ''description'' (JStr (join blank_line description_parts))
          @ entry_if (language \<noteq> []) ''language'' (JStr language))))"

definition unimarc_doc :: "marc_record \<Rightarrow> py_exc + doc" where
  "unimarc_doc r =
     (let record_id = get_control r ''001'';
          main = get_subfield r ''700'' ''a'';
          added = get_subfields r ''701'' ''a'' @ get_subfields r ''702'' ''a'';
          creators = filter (\<lambda>a. a \<noteq> []) (main # added);
          publisher = get_subfield r ''210'' ''c'';
          date = get_subfield r ''210'' ''d'';
          subjects = get_subfields r ''606'' ''a'';
          description = first_nonempty_of (get_subfield r ''330'' ''a'') (get_subfield r ''300'' ''a'');
          language = get_subfield r ''101'' ''a'' in
      if record_id = [] then Inr []
      else bind_r (isbn_entry (get_subfield r ''010'' ''a'')) (\<lambda>isbn.
        Inr ([(''id'', JStr record_id), (''type'', JStr ''bibliographic'')]
          @ join_title (get_subfield r ''200'' ''a'') (get_subfield r ''200'' ''e'')
          @ strs_entry ''creators'' creators
          @ entry_if (publisher \<noteq> []) ''publisher'' (JStr (rstrip_chars '' ,;:'' publisher))
          @ entry_if (date \<noteq> []) ''date'' (JStr (strip_chars '' .,[]'' date))
          @ isbn
          @ strs_entry ''subject'' (map (rstrip_chars ''.'') subjects)
          @ entry_if (description \<noteq> []) ''description'' (JStr description)
          @ entry_if (language \<noteq> []) ''language'' (JStr language))))"

definition marc_record_to_doc :: "marc_record \<Rightarrow> string \<Rightarrow> py_exc + doc option" where
  "marc_record_to_doc r flavor =
     bind_r (if flavor = ''unimarc'' then unimarc_doc r else marc21_doc r) (\<lambda>doc.
       Inr (if doc = [] \<or> dict_get doc ''id'' = None then None else Some doc))"

section \<open>Ingestion\<close>

text \<open>The documents of the records, up to the first mapping that raises.\<close>

fun marc_stream :: "string \<Rightarrow> marc_record list \<Rightarrow> doc_stream" where
  "marc_stream flavor [] = ([], None)"
| "marc_stream flavor (r # rs) =
     (case marc_record_to_doc r flavor of
        Inl e \<Rightarrow> ([], Some e)
      | Inr None \<Rightarrow> marc_stream flavor rs
      | Inr (Some doc) \<Rightarrow> (case marc_stream flavor rs of (docs, stop) \<Rightarrow> (doc # docs, stop)))"

definition ingest_marc_file ::
  "file_system \<Rightarrow> 'b sink \<Rightarrow> string \<Rightarrow> nat \<Rightarrow> 'b \<Rightarrow> string \<Rightarrow> 'b \<times> (py_exc + import_result)"
where
  "ingest_marc_file fs bulk flavor chunk_size b path =
     file_ingest ''MARC'' (\<lambda>data. marc_stream flavor (iter_iso2709_records data)) fs bulk chunk_size b path"

definition ingest_marcxml_file ::
  "(string \<Rightarrow> string + xml) \<Rightarrow> file_system \<Rightarrow> 'b sink \<Rightarrow> string \<Rightarrow> nat \<Rightarrow> 'b \<Rightarrow> string \<Rightarrow>
     'b \<times> (py_exc + import_result)"
where
  "ingest_marcxml_file fromstring fs bulk flavor chunk_size b path =
     file_ingest ''MARCXML'' (\<lambda>data. case iter_marcxml_records fromstring data of
       Inl e \<Rightarrow> ([], Some e) | Inr rs \<Rightarrow> marc_stream flavor rs) fs bulk chunk_size b path"

text \<open>The record parser for an OAI-PMH harvest: \<open>None\<close> skips the record.\<close>

definition marc_oai_parse :: "string \<Rightarrow> xml \<Rightarrow> xml option \<Rightarrow> py_exc + doc option" where
  "marc_oai_parse flavor header metadata =
     (if py_strip (x_attr header ''status'') = ''deleted'' \<or> metadata = None then Inr None
      else (case find_first [marcxml ''record''] (the metadata) of
              None \<Rightarrow> Inr None
            | Some el \<Rightarrow> marc_record_to_doc (marcxml_record_to_marc_record el) flavor))"

end
