(* ===== verification/Py_Datetime.thy ===== *)
theory Py_Datetime
  imports Egg_Prelude
begin

text \<open>
  \<open>datetime.now(timezone.utc).isoformat()\<close>: the text form of every timestamp the program stores.
  An instant is the number of microseconds since 0001-01-01T00:00:00 UTC. The store compares
  timestamps as text, so the theory proves that the order of the texts is the order of the
  instants.
\<close>

section \<open>The proleptic Gregorian calendar\<close>

definition is_leap :: "nat \<Rightarrow> bool" where
  "is_leap y \<longleftrightarrow> y mod 4 = 0 \<and> (y mod 100 \<noteq> 0 \<or> y mod 400 = 0)"

definition year_len :: "nat \<Rightarrow> nat" where
  "year_len y = (if is_leap y then 366 else 365)"

definition month_len :: "nat \<Rightarrow> nat \<Rightarrow> nat" where
  "month_len y m =
     (if m = 2 then (if is_leap y then 29 else 28) else if m \<in> {4, 6, 9, 11} then 30 else 31)"

fun days_before_year :: "nat \<Rightarrow> nat" where
  "days_before_year 0 = 0"
| "days_before_year (Suc 0) = 0"
| "days_before_year (Suc (Suc y)) = days_before_year (Suc y) + year_len (Suc y)"

fun days_before_month :: "nat \<Rightarrow> nat \<Rightarrow> nat" where
  "days_before_month y 0 = 0"
| "days_before_month y (Suc 0) = 0"
| "days_before_month y (Suc (Suc m)) = days_before_month y (Suc m) + month_len y (Suc m)"

text \<open>\<open>date.toordinal()\<close>: 1 January of year 1 is day 1.\<close>

definition ymd2ord :: "nat \<times> nat \<times> nat \<Rightarrow> nat" where
  "ymd2ord d = (case d of (y, m, dd) \<Rightarrow> days_before_year y + days_before_month y m + dd)"

definition valid_ymd :: "nat \<times> nat \<times> nat \<Rightarrow> bool" where
  "valid_ymd d = (case d of (y, m, dd) \<Rightarrow> 1 \<le> y \<and> 1 \<le> m \<and> m \<le> 12 \<and> 1 \<le> dd \<and> dd \<le> month_len y m)"

text \<open>\<open>date.fromordinal(n)\<close>, by walking the years and then the months.\<close>

function find_month :: "nat \<Rightarrow> nat \<Rightarrow> nat \<Rightarrow> nat \<times> nat" where
  "find_month y m n =
     (if m < 12 \<and> month_len y m < n then find_month y (Suc m) (n - month_len y m) else (m, n))"
  by pat_completeness auto
termination
  by (relation "measure (\<lambda>(y, m, n). n)") (auto simp: month_len_def split: if_splits)

declare find_month.simps [simp del]

function find_year :: "nat \<Rightarrow> nat \<Rightarrow> nat \<times> nat" where
  "find_year y n = (if year_len y < n then find_year (Suc y) (n - year_len y) else (y, n))"
  by pat_completeness auto
termination
  by (relation "measure snd") (auto simp: year_len_def)

declare find_year.simps [simp del]

definition ord2ymd :: "nat \<Rightarrow> nat \<times> nat \<times> nat" where
  "ord2ymd n = (let (y, k) = find_year 1 n; (m, d) = find_month y 1 k in (y, m, d))"

lemma find_year_spec:
  "find_year y n = (y', k) \<Longrightarrow> 1 \<le> y \<Longrightarrow> 1 \<le> n \<Longrightarrow>
     y \<le> y' \<and> 1 \<le> k \<and> k \<le> year_len y' \<and> days_before_year y' + k = days_before_year y + n"
proof (induction y n rule: find_year.induct)
  case (1 y n)
  obtain z where z: "y = Suc z" using 1(3) by (cases y) auto
  show ?case
  proof (cases "year_len y < n")
    case True
    then have "find_year (Suc y) (n - year_len y) = (y', k)" using 1(2) by (simp add: find_year.simps [of y])
    moreover have "1 \<le> Suc y" "1 \<le> n - year_len y" using True by simp_all
    ultimately have "Suc y \<le> y' \<and> 1 \<le> k \<and> k \<le> year_len y' \<and>
        days_before_year y' + k = days_before_year (Suc y) + (n - year_len y)"
      using 1(1) [OF True] by blast
    then show ?thesis using True by (auto simp: z)
  next
    case False
    then show ?thesis using 1(2-4) by (simp add: find_year.simps [of y])
  qed
qed

lemma find_month_spec:
  "find_month y m n = (m', d) \<Longrightarrow> 1 \<le> m \<Longrightarrow> m \<le> 12 \<Longrightarrow> 1 \<le> n \<Longrightarrow>
     n \<le> days_before_month y 12 + month_len y 12 - days_before_month y m \<Longrightarrow>
     m \<le> m' \<and> m' \<le> 12 \<and> 1 \<le> d \<and> d \<le> month_len y m' \<and>
     days_before_month y m' + d = days_before_month y m + n"
proof (induction y m n rule: find_month.induct)
  case (1 y m n)
  obtain z where z: "m = Suc z" using 1(3) by (cases m) auto
  show ?case
  proof (cases "m < 12 \<and> month_len y m < n")
    case True
    then have "find_month y (Suc m) (n - month_len y m) = (m', d)"
      using 1(2) by (simp add: find_month.simps [of y m])
    moreover have "1 \<le> Suc m" "Suc m \<le> 12" "1 \<le> n - month_len y m"
      "n - month_len y m \<le> days_before_month y 12 + month_len y 12 - days_before_month y (Suc m)"
      using True 1(6) by (auto simp: z)
    ultimately have "Suc m \<le> m' \<and> m' \<le> 12 \<and> 1 \<le> d \<and> d \<le> month_len y m' \<and>
        days_before_month y m' + d = days_before_month y (Suc m) + (n - month_len y m)"
      using 1(1) [OF True] by blast
    then show ?thesis using True by (auto simp: z)
  next
    case False
    then have "m' = m" "d = n" using 1(2) by (simp_all add: find_month.simps [of y m] split: if_splits)
    then show ?thesis using False 1(3-6) by (cases "m = 12") auto
  qed
qed

lemma month_total: "days_before_month y 12 + month_len y 12 = year_len y"
  by (simp add: numeral_eq_Suc month_len_def year_len_def)

lemma ord2ymd_spec:
  assumes "1 \<le> n"
  shows "valid_ymd (ord2ymd n) \<and> ymd2ord (ord2ymd n) = n"
proof -
  obtain y k where y: "find_year 1 n = (y, k)" by (cases "find_year 1 n")
  obtain m d where m: "find_month y 1 k = (m, d)" by (cases "find_month y 1 k")
  from find_year_spec [OF y _ assms]
  have Y: "1 \<le> y" "1 \<le> k" "k \<le> year_len y" "days_before_year y + k = n" by auto
  from find_month_spec [OF m _ _ Y(2)] Y(3) month_total [of y]
  have "1 \<le> m \<and> m \<le> 12 \<and> 1 \<le> d \<and> d \<le> month_len y m \<and> days_before_month y m + d = k" by simp
  with Y y m show ?thesis by (simp add: ord2ymd_def valid_ymd_def ymd2ord_def)
qed

text \<open>The ordinal is strictly increasing in (year, month, day).\<close>

definition ymd_less :: "nat \<times> nat \<times> nat \<Rightarrow> nat \<times> nat \<times> nat \<Rightarrow> bool" where
  "ymd_less a b = (case (a, b) of ((y, m, d), (y', m', d')) \<Rightarrow>
     y < y' \<or> y = y' \<and> (m < m' \<or> m = m' \<and> d < d'))"

lemma days_before_year_mono: "1 \<le> y \<Longrightarrow> y < y' \<Longrightarrow> days_before_year y + year_len y \<le> days_before_year y'"
proof (induction y')
  case (Suc z)
  then obtain w where w: "z = Suc w" by (cases z) auto
  show ?case
  proof (cases "y = z")
    case False
    with Suc have "days_before_year y + year_len y \<le> days_before_year z" by simp
    also have "\<dots> \<le> days_before_year (Suc z)" by (simp add: w)
    finally show ?thesis .
  qed (simp add: w)
qed simp

lemma days_before_month_mono: "1 \<le> m \<Longrightarrow> m < m' \<Longrightarrow> days_before_month y m + month_len y m \<le> days_before_month y m'"
proof (induction m')
  case (Suc z)
  then obtain w where w: "z = Suc w" by (cases z) auto
  show ?case
  proof (cases "m = z")
    case False
    with Suc have "days_before_month y m + month_len y m \<le> days_before_month y z" by simp
    also have "\<dots> \<le> days_before_month y (Suc z)" by (simp add: w)
    finally show ?thesis .
  qed (simp add: w)
qed simp

lemma in_year: "m \<le> 12 \<Longrightarrow> 1 \<le> m \<Longrightarrow> d \<le> month_len y m \<Longrightarrow> days_before_month y m + d \<le> year_len y"
  using days_before_month_mono [of m 12 y] month_total [of y] by (cases "m = 12") auto

lemma ymd2ord_less:
  assumes "valid_ymd a" "valid_ymd b" "ymd_less a b"
  shows "ymd2ord a < ymd2ord b"
proof -
  obtain y m d y' m' d' where ab: "a = (y, m, d)" "b = (y', m', d')" by (cases a; cases b) auto
  consider "y < y'" | "y = y'" "m < m'" | "y = y'" "m = m'" "d < d'" using assms(3) by (auto simp: ymd_less_def ab)
  then show ?thesis
  proof cases
    case 1
    then show ?thesis using assms(1,2) days_before_year_mono [of y y'] in_year [of m d y]
      by (simp add: ab valid_ymd_def ymd2ord_def)
  next
    case 2
    then show ?thesis using assms(1,2) days_before_month_mono [of m m' y]
      by (simp add: ab valid_ymd_def ymd2ord_def)
  qed (simp add: ab ymd2ord_def)
qed

lemma ymd_less_linear: "ymd_less a b \<or> a = b \<or> ymd_less b a"
  by (cases a; cases b) (auto simp: ymd_less_def)

lemma ord2ymd_less:
  assumes "1 \<le> a" "a < b" shows "ymd_less (ord2ymd a) (ord2ymd b)"
  using ord2ymd_spec [of a] ord2ymd_spec [of b] assms ymd_less_linear [of "ord2ymd a" "ord2ymd b"]
    ymd2ord_less [of "ord2ymd b" "ord2ymd a"] by (metis less_imp_le less_asym' less_irrefl order_trans)

section \<open>Zero-padded decimals\<close>

lemma div_mod_less:
  fixes a b k :: nat
  assumes "0 < k"
  shows "a < b \<longleftrightarrow> a div k < b div k \<or> a div k = b div k \<and> a mod k < b mod k"
proof -
  have lt: "x < y" if "x div k < y div k" for x y
    using that by (metis div_le_mono linorder_not_less)
  have "a < b \<longleftrightarrow> a mod k < b mod k" if "a div k = b div k"
    using that by (metis add_less_cancel_left div_mult_mod_eq)
  then show ?thesis using lt by (metis less_asym linorder_neqE_nat)
qed

definition pad :: "nat \<Rightarrow> nat \<Rightarrow> string" where
  "pad w n = replicate (w - length (str_of_nat n)) (CHR ''0'') @ str_of_nat n"

fun fixed_digits :: "nat \<Rightarrow> nat \<Rightarrow> string" where
  "fixed_digits 0 n = []"
| "fixed_digits (Suc w) n = fixed_digits w (n div 10) @ [digit_char (n mod 10)]"

lemma length_fixed_digits [simp]: "length (fixed_digits w n) = w"
  by (induction w arbitrary: n) auto

lemma fixed_digits_zero: "fixed_digits w 0 = replicate w (CHR ''0'')"
  by (induction w) (simp_all add: digit_char_def char_of_zero_digit replicate_append_same)

lemma pad_fixed_digits: "n < 10 ^ w \<Longrightarrow> 0 < w \<Longrightarrow> pad w n = fixed_digits w n"
proof (induction w arbitrary: n)
  case (Suc w)
  show ?case
  proof (cases "n < 10")
    case True
    then show ?thesis by (simp add: pad_def str_of_nat.simps [of n] fixed_digits_zero)
  next
    case False
    then have w: "0 < w" "n div 10 < 10 ^ w" using Suc.prems(1) by (cases w; simp add: less_mult_imp_div_less)+
    show ?thesis using Suc.IH [OF w(2,1)] False by (simp add: pad_def str_of_nat.simps [of n])
  qed
qed simp

lemma append_less_iff:
  fixes a b x y :: string
  assumes "length a = length b"
  shows "a @ x < b @ y \<longleftrightarrow> a < b \<or> a = b \<and> x < y"
  using assms by (induction a b rule: list_induct2) auto

lemma digit_char_less: "a < 10 \<Longrightarrow> b < 10 \<Longrightarrow> digit_char a < digit_char b \<longleftrightarrow> a < b"
  by (simp add: less_char_def)

lemma fixed_digits_less:
  "a < 10 ^ w \<Longrightarrow> b < 10 ^ w \<Longrightarrow> fixed_digits w a < fixed_digits w b \<longleftrightarrow> a < b"
proof (induction w arbitrary: a b)
  case (Suc w)
  have d: "a div 10 < 10 ^ w" "b div 10 < 10 ^ w"
    using Suc.prems by (simp_all add: less_mult_imp_div_less)
  have eq: "fixed_digits w (a div 10) = fixed_digits w (b div 10) \<longleftrightarrow> a div 10 = b div 10"
    using Suc.IH [OF d] Suc.IH [OF d(2,1)] by (metis less_irrefl linorder_neqE_nat)
  have "a < b \<longleftrightarrow> a div 10 < b div 10 \<or> a div 10 = b div 10 \<and> a mod 10 < b mod 10"
    by (rule div_mod_less) simp
  then show ?case
    using Suc.IH [OF d] eq by (simp add: append_less_iff digit_char_less)
qed simp

lemma pad_less: "a < 10 ^ w \<Longrightarrow> b < 10 ^ w \<Longrightarrow> 0 < w \<Longrightarrow> pad w a < pad w b \<longleftrightarrow> a < b"
  by (simp add: pad_fixed_digits fixed_digits_less)

lemma pad_length: "a < 10 ^ w \<Longrightarrow> 0 < w \<Longrightarrow> length (pad w a) = w"
  by (simp add: pad_fixed_digits)

lemma pad_eq: "a < 10 ^ w \<Longrightarrow> b < 10 ^ w \<Longrightarrow> 0 < w \<Longrightarrow> pad w a = pad w b \<longleftrightarrow> a = b"
  using pad_less [of a w b] pad_less [of b w a] by (metis less_irrefl linorder_neqE_nat)

text \<open>A padded field followed by anything compares by the field first.\<close>

lemma pad_append_less:
  "a < 10 ^ w \<Longrightarrow> b < 10 ^ w \<Longrightarrow> 0 < w \<Longrightarrow> pad w a @ x < pad w b @ y \<longleftrightarrow> a < b \<or> a = b \<and> x < y"
  by (simp add: append_less_iff pad_length pad_less pad_eq)

section \<open>\<open>isoformat\<close>\<close>

definition us_per_day :: nat where
  "us_per_day = 86400000000"

definition date_isoformat :: "nat \<times> nat \<times> nat \<Rightarrow> string" where
  "date_isoformat d = (case d of (y, m, dd) \<Rightarrow> pad 4 y @ ''-'' @ pad 2 m @ ''-'' @ pad 2 dd)"

definition fraction :: "nat \<Rightarrow> string" where
  "fraction us = (if us = 0 then [] else ''.'' @ pad 6 us)"

definition time_isoformat :: "nat \<Rightarrow> string" where
  "time_isoformat r =
     (let s = r div 1000000 in
      pad 2 (s div 3600) @ '':'' @ pad 2 (s div 60 mod 60) @ '':'' @ pad 2 (s mod 60) @
      fraction (r mod 1000000))"

definition iso :: "nat \<Rightarrow> string" where
  "iso t = date_isoformat (ord2ymd (t div us_per_day + 1)) @ ''T'' @ time_isoformat (t mod us_per_day) @ ''+00:00''"

text \<open>The last instant of the year 9999, as an ordinal bound.\<close>

definition in_calendar :: "nat \<Rightarrow> bool" where
  "in_calendar t \<longleftrightarrow> fst (ord2ymd (t div us_per_day + 1)) \<le> 9999"

lemma fraction_less:
  assumes "a < 1000000" "b < 1000000" "a < b"
  shows "fraction a @ ''+00:00'' < fraction b @ ''+00:00''"
  using assms by (auto simp: fraction_def pad_append_less less_char_def)

lemma time_isoformat_less:
  assumes "a < us_per_day" "b < us_per_day" "a < b"
  shows "time_isoformat a @ ''+00:00'' < time_isoformat b @ ''+00:00''"
proof -
  define s s' where "s = a div 1000000" and "s' = b div 1000000"
  have sl: "s < 86400" "s' < 86400"
    using assms(1,2) by (simp_all add: s_def s'_def us_per_day_def less_mult_imp_div_less)
  have m60: "x mod 60 < 10 ^ 2" for x :: nat using mod_less_divisor [of 60 x] by simp
  have h: "s div 3600 < 10 ^ 2" "s' div 3600 < 10 ^ 2"
    using sl by (simp_all add: less_mult_imp_div_less)
  have m: "x div 60 div 60 = x div 3600" for x :: nat by (simp add: div_mult2_eq [symmetric])
  have lex: "s < s' \<longleftrightarrow> s div 3600 < s' div 3600 \<or> s div 3600 = s' div 3600 \<and>
      (s div 60 mod 60 < s' div 60 mod 60 \<or> s div 60 mod 60 = s' div 60 mod 60 \<and> s mod 60 < s' mod 60)"
    using div_mod_less [of 60 s s'] div_mod_less [of 60 "s div 60" "s' div 60"] div_mod_less [of 60 "s' div 60" "s div 60"]
    unfolding m by (metis div_mult_mod_eq m zero_less_numeral)
  have ab: "s < s' \<or> s = s' \<and> a mod 1000000 < b mod 1000000"
    using assms(3) div_mod_less [of 1000000 a b] unfolding s_def s'_def by simp
  with ab lex fraction_less [of "a mod 1000000" "b mod 1000000"] h m60 show ?thesis
    unfolding time_isoformat_def Let_def s_def [symmetric] s'_def [symmetric]
    by (auto simp: pad_append_less)
qed

lemma iso_strict_mono:
  assumes "a < b" "in_calendar b"
  shows "iso a < iso b"
proof -
  define m n where "m = a div us_per_day + 1" and "n = b div us_per_day + 1"
  have mn: "1 \<le> m" "1 \<le> n" "m < n \<or> m = n \<and> a mod us_per_day < b mod us_per_day"
    using assms(1) div_mod_less [of us_per_day a b] by (auto simp: m_def n_def us_per_day_def)
  obtain y mo d y' mo' d' where ym: "ord2ymd m = (y, mo, d)" "ord2ymd n = (y', mo', d')"
    by (cases "ord2ymd m"; cases "ord2ymd n") auto
  have v: "valid_ymd (y, mo, d)" "valid_ymd (y', mo', d')" using ord2ymd_spec mn(1,2) ym by metis+
  have y': "y' \<le> 9999" using assms(2) ym by (simp add: in_calendar_def n_def)
  have dlen: "month_len x z \<le> 31" for x z by (simp add: month_len_def)
  have le: "ymd_less (y, mo, d) (y', mo', d') \<or> (y, mo, d) = (y', mo', d')"
    using ord2ymd_less [of m n] mn ym by metis
  then have "y \<le> y'" by (auto simp: ymd_less_def)
  then have b: "y < 10 ^ 4" "y' < 10 ^ 4" "mo < 10 ^ 2" "mo' < 10 ^ 2" "d < 10 ^ 2" "d' < 10 ^ 2"
    using y' v dlen [of y mo] dlen [of y' mo'] by (auto simp: valid_ymd_def)
  have t: "m = n \<Longrightarrow> time_isoformat (a mod us_per_day) @ ''+00:00'' < time_isoformat (b mod us_per_day) @ ''+00:00''"
    using mn(3) by (intro time_isoformat_less) (auto simp: us_per_day_def)
  have mn': "ymd_less (y, mo, d) (y', mo', d') \<or> m = n \<and> (y, mo, d) = (y', mo', d')"
    using ord2ymd_less [of m n] mn ym by auto
  show ?thesis
    unfolding iso_def m_def [symmetric] n_def [symmetric] ym date_isoformat_def prod.case
    using mn' t b by (auto simp: pad_append_less ymd_less_def)
qed

text \<open>Text order is time order, so comparing stored timestamps compares the instants.\<close>

theorem iso_less_iff:
  assumes "in_calendar a" "in_calendar b"
  shows "iso a < iso b \<longleftrightarrow> a < b" "iso a \<le> iso b \<longleftrightarrow> a \<le> b" "iso a = iso b \<longleftrightarrow> a = b"
  using iso_strict_mono [of a b] iso_strict_mono [of b a] assms
  by (metis less_asym linorder_neqE_nat less_irrefl, metis linorder_not_less order_less_imp_le order.refl linorder_neqE_nat,
      metis less_irrefl linorder_neqE_nat)

end
