(* ===== verification/Marc_Correct.thy ===== *)
theory Marc_Correct
  imports Marc_Import Py_Datetime
begin

text \<open>
  What the MARC importer guarantees: the record splitter agrees with a split at the terminators, a
  file written by the rules of ISO 2709 reads back as the records it was written from, every
  document has an identifier, and the two defects of the mapping.
\<close>

section \<open>Splitting a file into records\<close>

lemma split_char_last_suffix: "drop (length s - length (last (split_char c s))) s = last (split_char c s)"
  and split_char_last_le: "length (last (split_char c s)) \<le> length s"
proof -
  have "suffix (last (split_char c s)) s"
  proof (induction s)
    case (Cons x s)
    obtain w ws where w: "split_char c s = w # ws" by (cases "split_char c s") auto
    show ?case
    proof (cases "x = c \<or> ws \<noteq> []")
      case True
      then have "last (split_char c (x # s)) = last (split_char c s)" by (auto simp: w)
      then show ?thesis using Cons.IH by (simp add: suffix_ConsI)
    next
      case False
      then have e: "split_char c s = [w]" and x: "x \<noteq> c" using w by blast+
      have "join [c] [w] = s" unfolding e [symmetric] by (rule join_split_char)
      then have "split_char c s = [s]" using e by simp
      then have "last (split_char c (x # s)) = x # s" using x by simp
      then show ?thesis by (rule ssubst) (rule suffix_order.refl)
    qed
  qed simp
  then obtain p where p: "s = p @ last (split_char c s)" unfolding suffix_def by (elim exE) (rule that)
  have "s = p @ l \<Longrightarrow> drop (length s - length l) s = l \<and> length l \<le> length s" for l by simp
  from this [OF p]
  show "drop (length s - length (last (split_char c s))) s = last (split_char c s)"
    "length (last (split_char c s)) \<le> length s"
    by blast+
qed

lemma split_loop_spec:
  "start \<le> length pre \<Longrightarrow> record_terminator \<notin> set (drop start pre) \<Longrightarrow>
   split_loop (pre @ bs) start (length pre) bs =
     (filter (\<lambda>w. w \<noteq> []) (butlast (split_char record_terminator (drop start pre @ bs))),
      length (pre @ bs) - length (last (split_char record_terminator (drop start pre @ bs))))"
proof (induction bs arbitrary: pre start)
  case Nil
  then show ?case by (simp add: split_char_not_in)
next
  case (Cons b bs)
  show ?case
  proof (cases "b = record_terminator")
    case True
    have "split_loop ((pre @ [b]) @ bs) (length (pre @ [b])) (length (pre @ [b])) bs =
        (filter (\<lambda>w. w \<noteq> []) (butlast (split_char record_terminator bs)),
         length ((pre @ [b]) @ bs) - length (last (split_char record_terminator bs)))"
      using Cons.IH [of "length (pre @ [b])" "pre @ [b]"] by simp
    then show ?thesis using True Cons.prems
      by (simp add: split_char_append)
  next
    case False
    then show ?thesis using Cons.IH [of start "pre @ [b]"] Cons.prems by simp
  qed
qed

text \<open>The reference: cut at every terminator, drop what is empty, and what is blank at the end.\<close>

definition split_records_ref :: "string \<Rightarrow> string list" where
  "split_records_ref data =
     (let ws = split_char record_terminator data in
      filter (\<lambda>w. w \<noteq> []) (butlast ws)
      @ (if strip_chars [CHR 0x00, CHR 0x0A, CHR 0x0D, CHR '' ''] (last ws) \<noteq> [] then [last ws] else []))"

lemma split_records_eq: "split_records data = split_records_ref data"
proof -
  have "strip_chars cs [] = []" for cs by (simp add: strip_chars_def)
  then show ?thesis
    using split_loop_spec [of 0 "[]" data] split_char_last_suffix [of data record_terminator]
      split_char_last_le [of record_terminator data]
    by (cases "last (split_char record_terminator data)")
       (simp_all add: split_records_def split_records_ref_def Let_def)
qed

text \<open>
  C34. The index-driven loop that cuts an ISO 2709 file computes the plain specification: the file
  cut at every terminator, without the empty pieces and without a blank rest.
\<close>

theorem split_records_equiv:
  "split_records data =
     (let ws = split_char record_terminator data in
      filter (\<lambda>w. w \<noteq> []) (butlast ws)
      @ (if strip_chars [CHR 0x00, CHR 0x0A, CHR 0x0D, CHR '' ''] (last ws) \<noteq> [] then [last ws] else []))"
  using split_records_eq by (simp add: split_records_ref_def)

section \<open>Writing ISO 2709\<close>

definition field_bytes :: "marc_field \<Rightarrow> string" where
  "field_bytes f =
     (case mf_subfields f of
        None \<Rightarrow> utf8_encode (mf_value f)
      | Some subs \<Rightarrow> mf_indicator1 f @ mf_indicator2 f @
          concat (map (\<lambda>(c, v). subfield_delimiter # c @ utf8_encode v) subs)) @ [field_terminator]"

definition dir_entry :: "marc_field \<Rightarrow> nat \<Rightarrow> string" where
  "dir_entry f off = mf_tag f @ pad 4 (length (field_bytes f)) @ pad 5 off"

fun directory :: "nat \<Rightarrow> marc_field list \<Rightarrow> string list" where
  "directory off [] = []"
| "directory off (f # fs) = dir_entry f off # directory (off + length (field_bytes f)) fs"

definition body :: "marc_field list \<Rightarrow> string" where
  "body fs = concat (map field_bytes fs)"

definition base_of :: "marc_record \<Rightarrow> nat" where
  "base_of r = 25 + 12 * length (mr_fields r)"

definition leader_of :: "marc_record \<Rightarrow> string" where
  "leader_of r = take 12 (mr_leader r) @ pad 5 (base_of r) @ drop 17 (mr_leader r)"

definition encode_marc :: "marc_record \<Rightarrow> string" where
  "encode_marc r =
     leader_of r @ concat (directory 0 (mr_fields r)) @ [field_terminator] @ body (mr_fields r)"

definition clean :: "string \<Rightarrow> bool" where
  "clean s \<longleftrightarrow> field_terminator \<notin> set s \<and> record_terminator \<notin> set s \<and> subfield_delimiter \<notin> set s"

definition one_char :: "string \<Rightarrow> bool" where
  "one_char s \<longleftrightarrow> length s = 1 \<and> is_ascii s \<and> clean s"

definition wf_field :: "marc_field \<Rightarrow> bool" where
  "wf_field f \<longleftrightarrow>
     length (mf_tag f) = 3 \<and> (\<forall>c \<in> set (mf_tag f). is_digit c) \<and> length (field_bytes f) < 10000 \<and>
     (case mf_subfields f of
        None \<Rightarrow> starts_with ''00'' (mf_tag f) \<and> mf_indicator1 f = '' '' \<and> mf_indicator2 f = '' '' \<and> clean (mf_value f)
      | Some subs \<Rightarrow> \<not> starts_with ''00'' (mf_tag f) \<and> mf_value f = [] \<and>
          one_char (mf_indicator1 f) \<and> one_char (mf_indicator2 f) \<and>
          (\<forall>(c, v) \<in> set subs. one_char c \<and> clean v))"

definition wf_marc :: "marc_record \<Rightarrow> bool" where
  "wf_marc r \<longleftrightarrow>
     length (mr_leader r) = 24 \<and> is_ascii (mr_leader r) \<and> record_terminator \<notin> set (mr_leader r) \<and>
     (\<forall>f \<in> set (mr_fields r). wf_field f) \<and> base_of r < 100000 \<and> length (body (mr_fields r)) < 100000"

section \<open>Reading it back\<close>

lemma utf8_special:
  assumes "(of_char c :: nat) < 128"
  shows "c \<in> set (utf8_encode s) \<longleftrightarrow> c \<in> set s"
proof -
  have "c \<in> set (utf8_encode_char d) \<longleftrightarrow> c = d" for d
  proof -
    consider "(of_char d :: nat) < 128" | "128 \<le> (of_char d :: nat)" by linarith
    then show ?thesis
    proof cases
      case 2
      then have "c \<noteq> d" "c \<noteq> CHR 0xC2" "c \<noteq> CHR 0xC3" using assms by auto
      moreover have "c \<noteq> char_of (of_char d - 64 :: nat)" if "192 \<le> (of_char d :: nat)"
      proof
        assume e: "c = char_of (of_char d - 64 :: nat)"
        have "(of_char d :: nat) < 256" by simp
        then have "(of_char d - 64 :: nat) mod 256 = of_char d - 64" by (intro mod_less) linarith
        then have "(of_char c :: nat) = of_char d - 64" by (simp add: e of_char_of)
        then show False using that assms by linarith
      qed
      ultimately show ?thesis using 2 by (auto simp: utf8_encode_char_def Let_def)
    qed (auto simp: utf8_encode_char_def)
  qed
  then show ?thesis by (auto simp: utf8_encode_def)
qed

lemma delims: "(of_char field_terminator :: nat) < 128" "(of_char record_terminator :: nat) < 128"
  "(of_char subfield_delimiter :: nat) < 128"
  by (simp_all add: field_terminator_def record_terminator_def subfield_delimiter_def)

lemma clean_utf8 [simp]: "clean (utf8_encode s) = clean s"
  by (simp add: clean_def utf8_special delims)

lemma clean_simps [simp]: "clean []" "clean (s @ t) = (clean s \<and> clean t)"
  by (auto simp: clean_def)

lemma digits_plain: "\<forall>c \<in> set s. is_digit c \<Longrightarrow> clean s \<and> is_ascii s"
  by (auto simp: clean_def is_ascii_def is_digit_def Let_def field_terminator_def record_terminator_def subfield_delimiter_def)

lemma fixed_digits_digits: "c \<in> set (fixed_digits w n) \<Longrightarrow> is_digit c"
  by (induction w arbitrary: n) auto

lemma fixed_digits_nat: "n < 10 ^ w \<Longrightarrow> nat_of_digits (fixed_digits w n) = n"
proof (induction w arbitrary: n)
  case (Suc w)
  then show ?case by (simp add: less_mult_imp_div_less)
qed (simp add: nat_of_digits_def)

lemma pad_digits: "n < 10 ^ w \<Longrightarrow> 0 < w \<Longrightarrow> \<forall>c \<in> set (pad w n). is_digit c"
  using fixed_digits_digits by (auto simp: pad_fixed_digits)

lemma py_int_pad:
  assumes "n < 10 ^ w" "0 < w" "w \<le> 4300" shows "py_int (pad w n) = Inr (int n)"
proof -
  have "pad w n \<noteq> []" using pad_length [OF assms(1,2)] assms(2) by auto
  from py_int_digits(1) [OF this pad_digits [OF assms(1,2)]] assms show ?thesis
    by (simp add: pad_length int_max_str_digits_def pad_fixed_digits fixed_digits_nat)
qed

lemma bytes_int_pad: "n < 10 ^ w \<Longrightarrow> 0 < w \<Longrightarrow> w \<le> 4300 \<Longrightarrow> bytes_int (pad w n) = Some (int n)"
  using digits_plain [OF pad_digits [of n w]] by (simp add: bytes_int_def py_int_pad)


lemma field_bytes_split:
  "\<forall>(c, v) \<in> set subs. one_char c \<and> clean v \<Longrightarrow>
     split_char subfield_delimiter (concat (map (\<lambda>(c, v). subfield_delimiter # c @ utf8_encode v) subs)) =
     [] # map (\<lambda>(c, v). c @ utf8_encode v) subs"
proof -
  assume w: "\<forall>(c, v) \<in> set subs. one_char c \<and> clean v"
  have "split_char subfield_delimiter (u @ concat (map (\<lambda>(c, v). subfield_delimiter # c @ utf8_encode v) subs)) =
      u # map (\<lambda>(c, v). c @ utf8_encode v) subs" if "clean u" for u
    using w that
  proof (induction subs arbitrary: u)
    case Nil
    then show ?case by (simp add: split_char_not_in clean_def)
  next
    case (Cons p subs)
    obtain c v where p: "p = (c, v)" by (cases p)
    then have "clean (c @ utf8_encode v)" using Cons.prems by (simp add: one_char_def)
    from Cons.IH [OF _ this] Cons.prems(1)
    have IH: "split_char subfield_delimiter ((c @ utf8_encode v) @ concat (map (\<lambda>(c, v). subfield_delimiter # c @ utf8_encode v) subs)) =
        (c @ utf8_encode v) # map (\<lambda>(c, v). c @ utf8_encode v) subs" by simp
    have "subfield_delimiter \<notin> set u" using Cons.prems(2) unfolding clean_def by blast
    from split_char_append [OF this] IH show ?case by (simp add: p)
  qed
  from this [of "[]"] show ?thesis by simp
qed

lemma one_charE: "one_char c \<Longrightarrow> \<exists>x. c = [x] \<and> (of_char x :: nat) < 128"
  by (cases c) (auto simp: one_char_def)

lemma decode_utf8 [simp]: "decode_text (utf8_encode s) = s"
  by (simp add: decode_text_def utf8_decode_encode)

lemma decode_one: "(of_char x :: nat) < 128 \<Longrightarrow> decode_text [x] = [x]"
  by (simp add: decode_text_def)

lemma parse_subfields_encode:
  assumes "\<forall>(c, v) \<in> set subs. one_char c \<and> clean v"
  shows "parse_subfields (concat (map (\<lambda>(c, v). subfield_delimiter # c @ utf8_encode v) subs)) = subs"
  unfolding parse_subfields_def field_bytes_split [OF assms] list.sel
  using assms by (induction subs) (auto dest!: one_charE simp: decode_one)

lemma parse_field_bytes_encode:
  assumes "wf_field f" shows "parse_field_bytes (mf_tag f) (field_bytes f) = f"
proof (cases "mf_subfields f")
  case None
  with assms show ?thesis
    by (simp add: parse_field_bytes_def field_bytes_def wf_field_def control_field_def)
next
  case (Some subs)
  with assms obtain i j where i: "mf_indicator1 f = [i]" "mf_indicator2 f = [j]"
      "(of_char i :: nat) < 128" "(of_char j :: nat) < 128"
    by (auto simp: wf_field_def dest!: one_charE)
  have "\<forall>(c, v) \<in> set subs. one_char c \<and> clean v" using assms Some by (simp add: wf_field_def)
  from parse_subfields_encode [OF this]
    suffixI [of "i # j # xs @ [field_terminator]" "i # j # xs" "[field_terminator]" for xs]
  show ?thesis
    using assms Some i
    by (simp add: parse_field_bytes_def field_bytes_def wf_field_def data_field_def decode_one Let_def)
qed

lemma dir_entries_12:
  "\<forall>e \<in> set es. length e = 12 \<Longrightarrow> dir_entries (concat es) = es"
proof (induction es)
  case Nil
  show ?case by (simp add: dir_entries.simps)
next
  case (Cons e es)
  then have "concat (e # es) \<noteq> []" by auto
  then show ?case using Cons by (subst dir_entries.simps) simp
qed

lemma field_size: "wf_field f \<Longrightarrow> length (field_bytes f) < 10 ^ 4"
  by (simp add: wf_field_def)

lemma directory_facts:
  assumes "\<forall>f \<in> set fs. wf_field f" "off + length (body fs) < 10 ^ 5"
  shows "\<forall>e \<in> set (directory off fs). length e = 12 \<and> clean e"
  using assms
proof (induction fs arbitrary: off)
  case (Cons f fs)
  have "off < 10 ^ 5" using Cons.prems(2) by simp
  then have "length (dir_entry f off) = 12" "clean (dir_entry f off)"
    using Cons.prems(1) field_size [of f] digits_plain [OF pad_digits [of _ 4]] digits_plain [OF pad_digits [of off 5]]
      digits_plain [of "mf_tag f"]
    by (simp_all add: dir_entry_def pad_length wf_field_def)
  moreover have "\<forall>e \<in> set (directory (off + length (field_bytes f)) fs). length e = 12 \<and> clean e"
    by (rule Cons.IH) (use Cons.prems in \<open>simp_all add: body_def\<close>)
  ultimately show ?case by simp
qed simp

lemma parse_entry_dir:
  assumes "wf_field f" "off < 10 ^ 5" "rec = pre @ field_bytes f @ post" "length pre = base + off"
  shows "parse_entry rec (int base) (dir_entry f off) = [f]"
proof -
  have t: "length (mf_tag f) = 3" "is_ascii (mf_tag f)"
    using assms(1) digits_plain [of "mf_tag f"] by (simp_all add: wf_field_def)
  have "decode_ascii (mf_tag f) = mf_tag f"
    using t(2) by (auto simp: decode_ascii_def is_ascii_def intro!: map_idI)
  moreover have "take 3 (dir_entry f off) = mf_tag f" "take 4 (drop 3 (dir_entry f off)) = pad 4 (length (field_bytes f))"
    "take 5 (drop 7 (dir_entry f off)) = pad 5 off"
    using t(1) field_size [OF assms(1)] assms(2) by (simp_all add: dir_entry_def pad_length)
  moreover have "py_slice (int base + int off) (int base + int off + int (length (field_bytes f))) rec = field_bytes f"
    using py_slice_nat [of "base + off + length (field_bytes f)" rec "base + off"] assms(3,4) by simp
  ultimately show ?thesis
    using parse_field_bytes_encode [OF assms(1)] bytes_int_pad [OF field_size [OF assms(1)]] bytes_int_pad [OF assms(2)]
    by (simp add: parse_entry_def)
qed

lemma parse_directory:
  assumes "\<forall>f \<in> set fs. wf_field f" "off + length (body fs) < 10 ^ 5" "length pre = base + off"
  shows "concat (map (parse_entry (pre @ body fs) (int base)) (directory off fs)) = fs"
  using assms
proof (induction fs arbitrary: off pre)
  case (Cons f fs)
  have "parse_entry (pre @ body (f # fs)) (int base) (dir_entry f off) = [f]"
    by (rule parse_entry_dir [where post = "body fs"]) (use Cons.prems in \<open>simp_all add: body_def\<close>)
  moreover have "concat (map (parse_entry ((pre @ field_bytes f) @ body fs) (int base)) (directory (off + length (field_bytes f)) fs)) = fs"
    by (rule Cons.IH) (use Cons.prems in \<open>simp_all add: body_def\<close>)
  ultimately show ?case by (simp add: body_def)
qed simp


lemma leader_facts:
  assumes "wf_marc r"
  shows "length (leader_of r) = 24" "is_ascii (leader_of r)" "take 5 (drop 12 (leader_of r)) = pad 5 (base_of r)"
    "record_terminator \<notin> set (leader_of r)"
proof -
  have b: "base_of r < 10 ^ 5" and l: "length (mr_leader r) = 24" and a: "is_ascii (mr_leader r)"
    using assms by (simp_all add: wf_marc_def)
  note p = digits_plain [OF pad_digits [OF b]]
  show "length (leader_of r) = 24" "take 5 (drop 12 (leader_of r)) = pad 5 (base_of r)"
    using b l by (simp_all add: leader_of_def pad_length)
  show "is_ascii (leader_of r)"
    using a p by (auto simp: leader_of_def is_ascii_def dest: in_set_takeD in_set_dropD)
  show "record_terminator \<notin> set (leader_of r)"
    using assms p by (auto simp: leader_of_def wf_marc_def clean_def dest: in_set_takeD in_set_dropD)
qed

lemma concat_12: "\<forall>e \<in> set es. length e = 12 \<Longrightarrow> length (concat es) = 12 * length es"
  by (induction es) auto

lemma length_directory [simp]: "length (directory off fs) = length fs"
  by (induction fs arbitrary: off) auto

lemma parse_encode:
  assumes "wf_marc r"
  shows "parse_iso2709_record (encode_marc r) = Inr (r\<lparr>mr_leader := leader_of r\<rparr>)"
proof -
  let ?fs = "mr_fields r" and ?L = "leader_of r" and ?D = "concat (directory 0 (mr_fields r))"
  let ?R = "?L @ ?D @ field_terminator # body ?fs"
  note L = leader_facts [OF assms]
  have w: "\<forall>f \<in> set ?fs. wf_field f" "0 + length (body ?fs) < 10 ^ 5" using assms by (simp_all add: wf_marc_def)
  note D = directory_facts [OF w]
  have lD: "length ?D = 12 * length ?fs" using D concat_12 [of "directory 0 ?fs"] by simp
  have "field_terminator \<notin> set ?D" using D by (auto simp: clean_def)
  from find_from_append [OF this, of ?L "body ?fs"] have find: "find_from field_terminator 24 ?R = Some (24 + 12 * length ?fs)"
    by (simp add: L(1) lD)
  have leader: "decode_text (take 24 ?R) = ?L" using L(1,2) by (simp add: decode_text_def)
  have base: "py_int (take 5 (drop 12 ?L)) = Inr (int (base_of r))"
    unfolding L(3) by (rule py_int_pad) (use assms in \<open>simp_all add: wf_marc_def\<close>)
  have dir: "take (24 + 12 * length ?fs - 24) (drop 24 ?R) = ?D" using L(1) lD by simp
  have ents: "dir_entries ?D = directory 0 ?fs" by (rule dir_entries_12) (use D in blast)
  have "concat (map (parse_entry ((?L @ ?D @ [field_terminator]) @ body ?fs) (int (base_of r))) (directory 0 ?fs)) = ?fs"
    by (rule parse_directory [OF w]) (simp add: L(1) lD base_of_def)
  then have fields: "concat (map (parse_entry ?R (int (base_of r))) (directory 0 ?fs)) = ?fs" by simp
  have "\<not> length ?R < 24" "\<not> int (24 + 12 * length ?fs) > int (base_of r)"
    by (simp_all add: L(1) base_of_def)
  moreover have "length ?D mod 12 = 0" by (simp add: lD)
  ultimately have "parse_iso2709_record ?R = Inr \<lparr>mr_leader = ?L, mr_fields = ?fs\<rparr>"
    unfolding parse_iso2709_record_def Let_def leader base sum.case find option.case dir ents fields
    by (simp only: if_False if_True not_True_eq_False refl)
  then show ?thesis by (simp add: encode_marc_def)
qed

lemma field_bytes_no_RT: "wf_field f \<Longrightarrow> record_terminator \<notin> set (field_bytes f)"
  by (auto simp: wf_field_def field_bytes_def one_char_def clean_def utf8_special delims field_terminator_def
      record_terminator_def subfield_delimiter_def split: option.splits)

lemma encode_no_RT:
  assumes "wf_marc r" shows "record_terminator \<notin> set (encode_marc r) \<and> encode_marc r \<noteq> []"
proof -
  have w: "\<forall>f \<in> set (mr_fields r). wf_field f" "0 + length (body (mr_fields r)) < 10 ^ 5"
    using assms by (simp_all add: wf_marc_def)
  then show ?thesis
    using directory_facts [OF w] leader_facts [OF assms] field_bytes_no_RT
    by (auto simp: encode_marc_def body_def clean_def field_terminator_def record_terminator_def)
qed

lemma split_records_concat:
  assumes "\<forall>c \<in> set cs. record_terminator \<notin> set c \<and> c \<noteq> []"
  shows "split_records (concat (map (\<lambda>c. c @ [record_terminator]) cs)) = cs"
proof -
  have "split_char record_terminator (concat (map (\<lambda>c. c @ [record_terminator]) cs)) = cs @ [[]]"
    using assms by (induction cs) (simp_all add: split_char_append)
  then show ?thesis using assms
    by (simp add: split_records_eq split_records_ref_def strip_chars_def)
qed

text \<open>
  C16. Reading back what the format writes: a file of well-formed MARC records, written by the rules
  of ISO 2709 (leader with the base address, directory of twelve-byte entries, fields and
  subfields behind their delimiters, text in UTF-8), is read as exactly these records, in order.
\<close>

theorem marc_roundtrip:
  assumes "\<forall>r \<in> set rs. wf_marc r"
  shows "iter_iso2709_records (concat (map (\<lambda>r. encode_marc r @ [record_terminator]) rs)) =
    map (\<lambda>r. r\<lparr>mr_leader := leader_of r\<rparr>) rs"
proof -
  have "split_records (concat (map (\<lambda>r. encode_marc r @ [record_terminator]) rs)) = map encode_marc rs"
    using split_records_concat [of "map encode_marc rs"] assms encode_no_RT by (simp add: comp_def)
  moreover have "concat (map (\<lambda>ch. case parse_iso2709_record ch of Inl e \<Rightarrow> [] | Inr r \<Rightarrow> [r]) (map encode_marc rs)) =
      map (\<lambda>r. r\<lparr>mr_leader := leader_of r\<rparr>) rs"
    using assms by (induction rs) (simp_all add: parse_encode)
  ultimately show ?thesis by (simp add: iter_iso2709_records_def)
qed

section \<open>The documents\<close>

lemma marc_doc_identified:
  "marc_record_to_doc r flavor = Inr (Some d) \<Longrightarrow> identified d"
  by (auto simp: marc_record_to_doc_def marc21_doc_def unimarc_doc_def Let_def identified_def egg_simps
      split: if_split_asm)

lemma marc_stream_identified: "marc_stream flavor rs = (docs, stop) \<Longrightarrow> d \<in> set docs \<Longrightarrow> identified d"
  by (induction rs arbitrary: docs) (auto split: sum.split_asm option.split_asm prod.split_asm dest: marc_doc_identified)

text \<open>The leader of a parsed record ends before position 35, where the mapping looks for a language.\<close>

lemma decode_text_length: "length (decode_text raw) \<le> length raw"
proof -
  have "utf8_decode raw = Some s \<Longrightarrow> length s \<le> length raw" for s
    by (induction raw arbitrary: s rule: utf8_decode.induct) (auto split: if_split_asm list.split_asm intro: le_SucI)
  then show ?thesis by (cases "utf8_decode raw") (simp_all add: decode_text_def)
qed

lemma leader_language_empty:
  assumes "parse_iso2709_record rec = Inr r" shows "py_strip (take 3 (drop 35 (mr_leader r))) = []"
proof -
  have "mr_leader r = decode_text (take 24 rec)"
    using assms by (auto simp: parse_iso2709_record_def Let_def split: if_split_asm sum.split_asm option.split_asm)
  then have "length (mr_leader r) \<le> 24" using decode_text_length [of "take 24 rec"] by simp
  then show ?thesis by simp
qed

text \<open>
  A blank ISBN stops a whole import: a record with an identifier whose ISBN subfield holds only
  white space makes the mapping raise IndexError, which the importer does not catch.
\<close>

lemma blank_isbn_raises:
  assumes "get_control r ''001'' \<noteq> []" "get_subfield r ''020'' ''a'' \<noteq> []" "py_strip (get_subfield r ''020'' ''a'') = []"
  shows "marc_record_to_doc r ''marc21'' = Inl (ExRaw ''IndexError: list index out of range'') \<and>
    marc_stream ''marc21'' (r # rs) = ([], Some (ExRaw ''IndexError: list index out of range''))"
proof -
  have "split_ws (get_subfield r ''020'' ''a'') = []" using assms(3) by (simp add: split_ws_Nil_iff)
  then have "marc_record_to_doc r ''marc21'' = Inl (ExRaw ''IndexError: list index out of range'')"
    using assms(1,2) by (simp add: marc_record_to_doc_def marc21_doc_def isbn_entry_def Let_def)
  then show ?thesis by simp
qed

section \<open>Concrete records\<close>

definition demo_marc :: marc_record where
  "demo_marc =
     \<lparr>mr_leader = ''00000nam a2200000 a 4500'',
      mr_fields = [control_field ''001'' ''b1'', data_field ''245'' ''1'' ''0'' [(''a'', ''Germinal''), (''b'', ''roman'')]]\<rparr>"

lemma demo_marc_wf: "wf_marc demo_marc"
  by (simp add: wf_marc_def demo_marc_def record_terminator_def wf_field_def control_field_def data_field_def
      field_bytes_def is_digit_def one_char_def clean_def field_terminator_def subfield_delimiter_def base_of_def body_def)

theorem marc_roundtrip_witness:
  "map (\<lambda>r. get_subfield r ''245'' ''a'')
     (iter_iso2709_records (concat (map (\<lambda>r. encode_marc r @ [record_terminator]) [demo_marc, demo_marc]))) =
   [''Germinal'', ''Germinal'']"
proof -
  have "\<forall>r \<in> set [demo_marc, demo_marc]. wf_marc r" using demo_marc_wf by simp
  from marc_roundtrip [OF this] show ?thesis
    by (simp add: get_subfield_def get_subfields_def field_values_def demo_marc_def control_field_def data_field_def)
qed

definition demo_blank :: marc_record where
  "demo_blank = \<lparr>mr_leader = [], mr_fields = [control_field ''001'' ''b1'', data_field ''020'' '' '' '' '' [(''a'', '' '')]]\<rparr>"

theorem blank_isbn_raises_witness:
  "marc_stream ''marc21'' [demo_blank, demo_marc] = ([], Some (ExRaw ''IndexError: list index out of range''))"
  using blank_isbn_raises [of demo_blank "[demo_marc]"]
  by (simp add: demo_blank_def get_control_def get_subfield_def get_subfields_def field_values_def control_field_def
      data_field_def py_strip_def strip_by_def is_space_def)

end
