(* ===== verification/Store.thy ===== *)
theory Store
  imports Config_Models Py_Datetime
begin

text \<open>
  \<^verbatim>\<open>app/storage/sqlite_store.py\<close>: the persistent state. Every table is the list of its rows in
  rowid order, every method the effect of its SQL statements on those lists; the thread-local
  connection cache does not show. Timestamps are the ISO texts the program writes
  (\<open>iso\<close> of the clock reading, an argument), compared as text.

  SHA-256 and HMAC are arguments (\<open>crypto\<close>), as are the random tokens. Where SQL leaves the
  choice of a row open (\<open>fetchone\<close> without ORDER BY) the choice is an argument too. A
  violated UNIQUE or PRIMARY KEY constraint is the exception \<open>IntegrityError\<close>.
\<close>

section \<open>Rows and tables\<close>

record api_key_row =
  ak_key_id :: string
  ak_key_hash :: string
  ak_prefix :: string
  ak_status :: string
  ak_created_at :: string
  ak_last_used_at :: "string option"
  ak_hash_variant :: string

record session_row =
  ss_token :: string
  ss_key_id :: string
  ss_created_at :: string
  ss_expires_at :: "string option"
  ss_last_activity_at :: "string option"

record draft_row =
  dr_key_id :: string
  dr_payload :: string
  dr_step :: string
  dr_updated_at :: string

record otp_row =
  ot_token_hash :: string
  ot_key_id :: string
  ot_created_at :: string
  ot_expires_at :: string
  ot_consumed_at :: "string option"

record import_source =
  is_id :: nat
  is_label :: string
  is_kind :: string
  is_url :: "string option"
  is_metadata_prefix :: "string option"
  is_set_spec :: "string option"
  is_schema_profile :: string
  is_created_at :: string
  is_last_run_at :: "string option"
  is_schedule :: "string option"
  is_next_run_at :: "string option"

record import_run =
  ir_id :: nat
  ir_source_id :: int
  ir_started_at :: string
  ir_ended_at :: "string option"
  ir_status :: string
  ir_records_ingested :: int
  ir_records_failed :: int
  ir_error_message :: "string option"

record usage_event =
  ue_id :: nat
  ue_request_id :: string
  ue_timestamp :: string
  ue_endpoint :: string
  ue_method :: string
  ue_status_code :: int
  ue_api_key_id :: "string option"
  ue_subject :: string
  ue_latency_ms :: int
  ue_error_code :: "string option"

text \<open>\<open>db_*_seq\<close> is the AUTOINCREMENT sequence of a table: the largest id it ever used.\<close>

record db =
  db_api_keys :: "api_key_row list"
  db_ui_sessions :: "session_row list"
  db_setup_drafts :: "draft_row list"
  db_setup_otps :: "otp_row list"
  db_import_sources :: "import_source list"
  db_sources_seq :: nat
  db_import_runs :: "import_run list"
  db_runs_seq :: nat
  db_usage_events :: "usage_event list"
  db_usage_seq :: nat

definition empty_db :: db where
  "empty_db = \<lparr>db_api_keys = [], db_ui_sessions = [], db_setup_drafts = [], db_setup_otps = [],
     db_import_sources = [], db_sources_seq = 0, db_import_runs = [], db_runs_seq = 0,
     db_usage_events = [], db_usage_seq = 0\<rparr>"

record crypto =
  cr_sha256 :: "string \<Rightarrow> string"
  cr_hmac :: "string \<Rightarrow> string \<Rightarrow> string"
  cr_pepper :: "string option"

text \<open>\<open>pepper or None\<close>, read from the environment when the argument is absent.\<close>

definition store_pepper :: "string option \<Rightarrow> string option \<Rightarrow> string option" where
  "store_pepper arg env =
     (let p = (case arg of Some p \<Rightarrow> Some p
        | None \<Rightarrow> (let e = py_strip (case env of None \<Rightarrow> [] | Some e \<Rightarrow> e) in if e = [] then None else Some e)) in
      if p = Some [] then None else p)"

definition integrity_error :: py_exc where
  "integrity_error = ExRaw ''IntegrityError''"

section \<open>API keys\<close>

definition variant_sha256 :: string where "variant_sha256 = ''sha256''"
definition variant_hmac_v1 :: string where "variant_hmac_v1 = ''hmac_sha256_v1''"

definition hash_key :: "crypto \<Rightarrow> string \<Rightarrow> string" where
  "hash_key cr key = cr_sha256 cr key"

definition hash_with_variant :: "crypto \<Rightarrow> string \<Rightarrow> string \<times> string" where
  "hash_with_variant cr key =
     (case cr_pepper cr of
        Some p \<Rightarrow> (cr_hmac cr p key, variant_hmac_v1)
      | None \<Rightarrow> (hash_key cr key, variant_sha256))"

definition candidate_hashes :: "crypto \<Rightarrow> string \<Rightarrow> (string \<times> string) list" where
  "candidate_hashes cr key =
     (case cr_pepper cr of Some p \<Rightarrow> [(cr_hmac cr p key, variant_hmac_v1)] | None \<Rightarrow> []) @
     [(hash_key cr key, variant_sha256)]"

definition key_conflict :: "db \<Rightarrow> string \<Rightarrow> string \<Rightarrow> bool" where
  "key_conflict d key_id digest \<longleftrightarrow>
     (\<exists>r \<in> set (db_api_keys d). ak_key_id r = key_id \<or> ak_key_hash r = digest)"

definition key_row :: "crypto \<Rightarrow> nat \<Rightarrow> string \<Rightarrow> string \<Rightarrow> api_key_row" where
  "key_row cr now key_id secret =
     (let (digest, variant) = hash_with_variant cr secret in
      \<lparr>ak_key_id = key_id, ak_key_hash = digest, ak_prefix = take 8 secret, ak_status = ''active'',
       ak_created_at = iso now, ak_last_used_at = None, ak_hash_variant = variant\<rparr>)"

text \<open>INSERT OR IGNORE.\<close>

definition ensure_admin_key :: "crypto \<Rightarrow> db \<Rightarrow> nat \<Rightarrow> string \<Rightarrow> string \<Rightarrow> db" where
  "ensure_admin_key cr d now key key_id =
     (let r = key_row cr now key_id key in
      if key_conflict d key_id (ak_key_hash r) then d
      else d\<lparr>db_api_keys := db_api_keys d @ [r]\<rparr>)"

definition create_api_key :: "crypto \<Rightarrow> db \<Rightarrow> nat \<Rightarrow> string \<Rightarrow> string \<Rightarrow> py_exc + db \<times> api_key_row" where
  "create_api_key cr d now secret key_id =
     (let r = key_row cr now key_id secret in
      if key_conflict d key_id (ak_key_hash r) then Inl integrity_error
      else Inr (d\<lparr>db_api_keys := db_api_keys d @ [r]\<rparr>, r))"

definition list_api_keys :: "db \<Rightarrow> api_key_row list" where
  "list_api_keys d = sort_key ak_key_id (db_api_keys d)"

definition update_keys :: "(api_key_row \<Rightarrow> bool) \<Rightarrow> (api_key_row \<Rightarrow> api_key_row) \<Rightarrow> db \<Rightarrow> db" where
  "update_keys p f d = d\<lparr>db_api_keys := map (\<lambda>r. if p r then f r else r) (db_api_keys d)\<rparr>"

definition set_key_status_by_key_id :: "db \<Rightarrow> string \<Rightarrow> string \<Rightarrow> db \<times> bool" where
  "set_key_status_by_key_id d key_id status =
     (update_keys (\<lambda>r. ak_key_id r = key_id) (\<lambda>r. r\<lparr>ak_status := status\<rparr>) d,
      \<exists>r \<in> set (db_api_keys d). ak_key_id r = key_id)"

definition matches_secret :: "crypto \<Rightarrow> string \<Rightarrow> api_key_row \<Rightarrow> bool" where
  "matches_secret cr secret r \<longleftrightarrow> ak_key_hash r \<in> fst ` set (candidate_hashes cr secret)"

definition set_key_status_by_secret :: "crypto \<Rightarrow> db \<Rightarrow> string \<Rightarrow> string \<Rightarrow> db \<times> bool" where
  "set_key_status_by_secret cr d secret status =
     (update_keys (matches_secret cr secret) (\<lambda>r. r\<lparr>ak_status := status\<rparr>) d,
      \<exists>r \<in> set (db_api_keys d). matches_secret cr secret r)"

definition set_key_status :: "crypto \<Rightarrow> db \<Rightarrow> string \<Rightarrow> string \<Rightarrow> db \<times> bool" where
  "set_key_status cr d secret_or_key_id status =
     (let (d1, ok) = set_key_status_by_key_id d secret_or_key_id status in
      if ok then (d1, True) else set_key_status_by_secret cr d1 secret_or_key_id status)"

text \<open>The UPDATE fails when another row already holds the new hash.\<close>

definition rotate_api_key :: "crypto \<Rightarrow> db \<Rightarrow> string \<Rightarrow> string \<Rightarrow> py_exc + db \<times> string option" where
  "rotate_api_key cr d new_secret key_id =
     (let (digest, variant) = hash_with_variant cr new_secret in
      if \<not> (\<exists>r \<in> set (db_api_keys d). ak_key_id r = key_id) then Inr (d, None)
      else if \<exists>r \<in> set (db_api_keys d). ak_key_id r \<noteq> key_id \<and> ak_key_hash r = digest then Inl integrity_error
      else Inr (update_keys (\<lambda>r. ak_key_id r = key_id)
             (\<lambda>r. r\<lparr>ak_key_hash := digest, ak_prefix := take 8 new_secret, ak_status := ''active'',
                    ak_hash_variant := variant\<rparr>) d, Some new_secret))"

text \<open>\<open>pick\<close> picks the row that \<open>fetchone\<close> returns.\<close>

definition validate_api_key ::
  "crypto \<Rightarrow> (api_key_row list \<Rightarrow> api_key_row) \<Rightarrow> db \<Rightarrow> nat \<Rightarrow> string option \<Rightarrow> db \<times> api_key_row option"
where
  "validate_api_key cr pick d now secret =
     (if \<not> is_set secret then (d, None)
      else (let rows = filter (matches_secret cr (the secret)) (db_api_keys d) in
        if rows = [] then (d, None)
        else (let r = pick rows in
          if ak_status r \<noteq> ''active'' then (d, None)
          else (update_keys (\<lambda>x. ak_key_id x = ak_key_id r) (\<lambda>x. x\<lparr>ak_last_used_at := Some (iso now)\<rparr>) d, Some r))))"

section \<open>UI sessions\<close>

definition us_minute :: nat where "us_minute = 60000000"
definition us_hour :: nat where "us_hour = 3600000000"

definition create_ui_session :: "crypto \<Rightarrow> db \<Rightarrow> nat \<Rightarrow> string \<Rightarrow> string \<Rightarrow> int \<Rightarrow> py_exc + db \<times> string" where
  "create_ui_session cr d now token key_id ttl_hours =
     (let h = cr_sha256 cr token;
          expires_at = iso (now + nat (max 1 ttl_hours) * us_hour) in
      if \<exists>r \<in> set (db_ui_sessions d). ss_token r = h then Inl integrity_error
      else Inr (d\<lparr>db_ui_sessions := db_ui_sessions d @
        [\<lparr>ss_token = h, ss_key_id = key_id, ss_created_at = iso now, ss_expires_at = Some expires_at,
          ss_last_activity_at = Some (iso now)\<rparr>]\<rparr>, token))"

definition drop_sessions :: "(session_row \<Rightarrow> bool) \<Rightarrow> db \<Rightarrow> db" where
  "drop_sessions p d = d\<lparr>db_ui_sessions := filter (\<lambda>r. \<not> p r) (db_ui_sessions d)\<rparr>"

definition find_session :: "db \<Rightarrow> string \<Rightarrow> session_row option" where
  "find_session d h = find (\<lambda>r. ss_token r = h) (db_ui_sessions d)"

definition first_set :: "string option list \<Rightarrow> string \<Rightarrow> string" where
  "first_set xs dflt = (case find (\<lambda>x. is_set x) xs of Some (Some s) \<Rightarrow> s | _ \<Rightarrow> dflt)"

definition get_ui_session_key_id :: "crypto \<Rightarrow> db \<Rightarrow> nat \<Rightarrow> string option \<Rightarrow> int \<Rightarrow> db \<times> string option" where
  "get_ui_session_key_id cr d now token idle_timeout_minutes =
     (if \<not> is_set token then (d, None)
      else (let h = cr_sha256 cr (the token); now_iso = iso now in
        case find_session d h of
          None \<Rightarrow> (d, None)
        | Some row \<Rightarrow>
            if (case ss_expires_at row of None \<Rightarrow> False | Some e \<Rightarrow> e \<le> now_iso)
            then (drop_sessions (\<lambda>r. ss_token r = h) d, None)
            else if 0 < idle_timeout_minutes \<and>
              first_set [ss_last_activity_at row, ss_expires_at row] now_iso
                \<le> iso (now - nat idle_timeout_minutes * us_minute)
            then (drop_sessions (\<lambda>r. ss_token r = h) d, None)
            else (d\<lparr>db_ui_sessions := map (\<lambda>r. if ss_token r = h then r\<lparr>ss_last_activity_at := Some now_iso\<rparr> else r)
                       (db_ui_sessions d)\<rparr>, Some (ss_key_id row))))"

definition invalidate_sessions_for_key_id :: "db \<Rightarrow> string \<Rightarrow> db \<times> nat" where
  "invalidate_sessions_for_key_id d key_id =
     (drop_sessions (\<lambda>r. ss_key_id r = key_id) d,
      length (filter (\<lambda>r. ss_key_id r = key_id) (db_ui_sessions d)))"

definition delete_ui_session :: "crypto \<Rightarrow> db \<Rightarrow> string option \<Rightarrow> db" where
  "delete_ui_session cr d token =
     (if \<not> is_set token then d else drop_sessions (\<lambda>r. ss_token r = cr_sha256 cr (the token)) d)"

definition session_expired :: "string \<Rightarrow> session_row \<Rightarrow> bool" where
  "session_expired now_iso r = (case ss_expires_at r of None \<Rightarrow> False | Some e \<Rightarrow> e \<le> now_iso)"

definition purge_expired_ui_sessions :: "db \<Rightarrow> nat \<Rightarrow> db \<times> nat" where
  "purge_expired_ui_sessions d now =
     (drop_sessions (session_expired (iso now)) d,
      length (filter (session_expired (iso now)) (db_ui_sessions d)))"

section \<open>Setup drafts and one-time tokens\<close>

definition load_setup_draft :: "db \<Rightarrow> string \<Rightarrow> ((string \<times> json) list \<times> string) option" where
  "load_setup_draft d key_id =
     (case find (\<lambda>r. dr_key_id r = key_id) (db_setup_drafts d) of
        None \<Rightarrow> None
      | Some r \<Rightarrow> (case json_loads (dr_payload r) of Some (JDict p) \<Rightarrow> Some (p, dr_step r) | _ \<Rightarrow> None))"

definition save_setup_draft :: "db \<Rightarrow> nat \<Rightarrow> string \<Rightarrow> (string \<times> json) list \<Rightarrow> string \<Rightarrow> db" where
  "save_setup_draft d now key_id payload step =
     (let row = \<lparr>dr_key_id = key_id, dr_payload = json_dumps (sort_keys (JDict payload)), dr_step = step,
                 dr_updated_at = iso now\<rparr> in
      d\<lparr>db_setup_drafts :=
         (if \<exists>r \<in> set (db_setup_drafts d). dr_key_id r = key_id
          then map (\<lambda>r. if dr_key_id r = key_id then row else r) (db_setup_drafts d)
          else db_setup_drafts d @ [row])\<rparr>)"

definition delete_setup_draft :: "db \<Rightarrow> string \<Rightarrow> db" where
  "delete_setup_draft d key_id =
     d\<lparr>db_setup_drafts := filter (\<lambda>r. dr_key_id r \<noteq> key_id) (db_setup_drafts d)\<rparr>"

definition create_setup_otp :: "crypto \<Rightarrow> db \<Rightarrow> nat \<Rightarrow> string \<Rightarrow> string \<Rightarrow> int \<Rightarrow> py_exc + db \<times> string" where
  "create_setup_otp cr d now token key_id ttl_seconds =
     (let digest = cr_sha256 cr token in
      if \<exists>r \<in> set (db_setup_otps d). ot_token_hash r = digest then Inl integrity_error
      else Inr (d\<lparr>db_setup_otps := db_setup_otps d @
        [\<lparr>ot_token_hash = digest, ot_key_id = key_id, ot_created_at = iso now,
          ot_expires_at = iso (now + nat (max 30 ttl_seconds) * 1000000), ot_consumed_at = None\<rparr>]\<rparr>, token))"

definition consume_setup_otp :: "crypto \<Rightarrow> db \<Rightarrow> nat \<Rightarrow> string option \<Rightarrow> db \<times> string option" where
  "consume_setup_otp cr d now token =
     (if \<not> is_set token then (d, None)
      else (let digest = cr_sha256 cr (the token) in
        case find (\<lambda>r. ot_token_hash r = digest) (db_setup_otps d) of
          None \<Rightarrow> (d, None)
        | Some row \<Rightarrow>
            if ot_consumed_at row \<noteq> None then (d, None)
            else if ot_expires_at row \<le> iso now then (d, None)
            else (d\<lparr>db_setup_otps := map (\<lambda>r. if ot_token_hash r = digest then r\<lparr>ot_consumed_at := Some (iso now)\<rparr> else r)
                       (db_setup_otps d)\<rparr>, Some (ot_key_id row))))"

definition purge_expired_setup_otps :: "db \<Rightarrow> nat \<Rightarrow> db \<times> nat" where
  "purge_expired_setup_otps d now =
     (let gone = (\<lambda>r. ot_expires_at r \<le> iso now \<or> ot_consumed_at r \<noteq> None) in
      (d\<lparr>db_setup_otps := filter (\<lambda>r. \<not> gone r) (db_setup_otps d)\<rparr>, length (filter gone (db_setup_otps d))))"

section \<open>Import sources and runs\<close>

definition add_import_source ::
  "db \<Rightarrow> nat \<Rightarrow> string \<Rightarrow> string \<Rightarrow> string option \<Rightarrow> string option \<Rightarrow> string option \<Rightarrow> string \<Rightarrow>
     string option \<Rightarrow> string option \<Rightarrow> db \<times> import_source"
where
  "add_import_source d now label kind url metadata_prefix set_spec schema_profile schedule next_run_at =
     (let r = \<lparr>is_id = Suc (db_sources_seq d), is_label = label, is_kind = kind, is_url = url,
               is_metadata_prefix = metadata_prefix, is_set_spec = set_spec,
               is_schema_profile = schema_profile, is_created_at = iso now, is_last_run_at = None,
               is_schedule = schedule, is_next_run_at = next_run_at\<rparr> in
      (d\<lparr>db_import_sources := db_import_sources d @ [r], db_sources_seq := Suc (db_sources_seq d)\<rparr>, r))"

text \<open>ORDER BY created_at DESC; rows with equal keys in rowid order, one of the orders SQL allows.\<close>

definition list_import_sources :: "db \<Rightarrow> import_source list" where
  "list_import_sources d = rev (sort_key is_created_at (rev (db_import_sources d)))"

definition get_import_source :: "db \<Rightarrow> int \<Rightarrow> import_source option" where
  "get_import_source d source_id = find (\<lambda>r. int (is_id r) = source_id) (db_import_sources d)"

definition is_due :: "string \<Rightarrow> import_source \<Rightarrow> bool" where
  "is_due now r = (case is_next_run_at r of None \<Rightarrow> False | Some t \<Rightarrow> t \<le> now)"

definition list_due_import_sources :: "db \<Rightarrow> string \<Rightarrow> import_source list" where
  "list_due_import_sources d now =
     sort_key (\<lambda>r. the (is_next_run_at r)) (filter (is_due now) (db_import_sources d))"

definition set_import_source_schedule :: "db \<Rightarrow> int \<Rightarrow> string option \<Rightarrow> string option \<Rightarrow> db \<times> bool" where
  "set_import_source_schedule d source_id schedule next_run_at =
     (d\<lparr>db_import_sources := map (\<lambda>r. if int (is_id r) = source_id
          then r\<lparr>is_schedule := schedule, is_next_run_at := next_run_at\<rparr> else r) (db_import_sources d)\<rparr>,
      \<exists>r \<in> set (db_import_sources d). int (is_id r) = source_id)"

text \<open>
  The schema declares ON DELETE CASCADE, but SQLite enforces foreign keys only after
  \<open>PRAGMA foreign_keys\<close>, which the store never issues: the runs of the source stay.
\<close>

definition delete_import_source :: "db \<Rightarrow> int \<Rightarrow> db \<times> bool" where
  "delete_import_source d source_id =
     (d\<lparr>db_import_sources := filter (\<lambda>r. int (is_id r) \<noteq> source_id) (db_import_sources d)\<rparr>,
      \<exists>r \<in> set (db_import_sources d). int (is_id r) = source_id)"

definition start_import_run :: "db \<Rightarrow> nat \<Rightarrow> int \<Rightarrow> db \<times> nat" where
  "start_import_run d now source_id =
     (d\<lparr>db_import_runs := db_import_runs d @
         [\<lparr>ir_id = Suc (db_runs_seq d), ir_source_id = source_id, ir_started_at = iso now, ir_ended_at = None,
           ir_status = ''running'', ir_records_ingested = 0, ir_records_failed = 0, ir_error_message = None\<rparr>],
        db_runs_seq := Suc (db_runs_seq d)\<rparr>, Suc (db_runs_seq d))"

definition finish_import_run :: "db \<Rightarrow> nat \<Rightarrow> nat \<Rightarrow> string \<Rightarrow> int \<Rightarrow> int \<Rightarrow> string option \<Rightarrow> db" where
  "finish_import_run d now run_id status ingested failed error_message =
     (let runs = map (\<lambda>r. if ir_id r = run_id
            then r\<lparr>ir_ended_at := Some (iso now), ir_status := status, ir_records_ingested := ingested,
                   ir_records_failed := failed, ir_error_message := error_message\<rparr> else r) (db_import_runs d) in
      d\<lparr>db_import_runs := runs,
        db_import_sources := (case find (\<lambda>r. ir_id r = run_id) runs of
            None \<Rightarrow> db_import_sources d
          | Some run \<Rightarrow> map (\<lambda>r. if int (is_id r) = ir_source_id run then r\<lparr>is_last_run_at := Some (iso now)\<rparr> else r)
              (db_import_sources d))\<rparr>)"

definition list_import_runs :: "db \<Rightarrow> int \<Rightarrow> int \<Rightarrow> import_run list" where
  "list_import_runs d source_id limit =
     take (nat (max 1 (min limit 200)))
       (rev (sort_key ir_started_at (rev (filter (\<lambda>r. ir_source_id r = source_id) (db_import_runs d)))))"

section \<open>Usage events\<close>

definition us_day :: nat where "us_day = us_per_day"

definition purge_usage_events_older_than :: "db \<Rightarrow> nat \<Rightarrow> int \<Rightarrow> db \<times> nat" where
  "purge_usage_events_older_than d now retention_days =
     (if retention_days \<le> 0 then (d, 0)
      else (let cutoff = iso (now - nat retention_days * us_day) in
        (d\<lparr>db_usage_events := filter (\<lambda>e. \<not> ue_timestamp e < cutoff) (db_usage_events d)\<rparr>,
         length (filter (\<lambda>e. ue_timestamp e < cutoff) (db_usage_events d)))))"

definition log_usage_event ::
  "db \<Rightarrow> nat \<Rightarrow> string \<Rightarrow> string \<Rightarrow> string \<Rightarrow> int \<Rightarrow> string option \<Rightarrow> string \<Rightarrow> int \<Rightarrow> string option \<Rightarrow> db"
where
  "log_usage_event d now request_id endpoint meth status_code api_key_id subject latency_ms error_code =
     d\<lparr>db_usage_events := db_usage_events d @
        [\<lparr>ue_id = Suc (db_usage_seq d), ue_request_id = request_id, ue_timestamp = iso now,
          ue_endpoint = endpoint, ue_method = meth, ue_status_code = status_code,
          ue_api_key_id = api_key_id, ue_subject = subject, ue_latency_ms = latency_ms,
          ue_error_code = error_code\<rparr>], db_usage_seq := Suc (db_usage_seq d)\<rparr>"

definition page_of :: "int \<Rightarrow> int \<Rightarrow> 'a list \<Rightarrow> 'a list" where
  "page_of limit offset xs =
     take (nat (max 1 (min limit 1000))) (drop (nat (max 0 offset)) xs)"

text \<open>ORDER BY id DESC: the rows are stored in id order.\<close>

definition list_recent_usage_events :: "db \<Rightarrow> int \<Rightarrow> int \<Rightarrow> usage_event list" where
  "list_recent_usage_events d limit offset = page_of limit offset (rev (db_usage_events d))"

record usage_filter =
  uf_endpoint :: "string option"
  uf_status_min :: "int option"
  uf_status_max :: "int option"
  uf_since :: "string option"
  uf_until :: "string option"
  uf_key_id :: "string option"

definition usage_matches :: "usage_filter \<Rightarrow> usage_event \<Rightarrow> bool" where
  "usage_matches f e \<longleftrightarrow>
     (is_set (uf_endpoint f) \<longrightarrow> ue_endpoint e = the (uf_endpoint f)) \<and>
     (case uf_status_min f of None \<Rightarrow> True | Some n \<Rightarrow> n \<le> ue_status_code e) \<and>
     (case uf_status_max f of None \<Rightarrow> True | Some n \<Rightarrow> ue_status_code e \<le> n) \<and>
     (is_set (uf_since f) \<longrightarrow> the (uf_since f) \<le> ue_timestamp e) \<and>
     (is_set (uf_until f) \<longrightarrow> ue_timestamp e \<le> the (uf_until f)) \<and>
     (is_set (uf_key_id f) \<longrightarrow> ue_api_key_id e = uf_key_id f)"

definition query_usage_events :: "db \<Rightarrow> int \<Rightarrow> int \<Rightarrow> usage_filter \<Rightarrow> usage_event list \<times> nat" where
  "query_usage_events d limit offset f =
     (page_of limit offset (rev (filter (usage_matches f) (db_usage_events d))),
      length (filter (usage_matches f) (db_usage_events d)))"

definition count_usage_events :: "db \<Rightarrow> nat" where
  "count_usage_events d = length (db_usage_events d)"

definition usage_summary :: "db \<Rightarrow> (string \<times> nat) list" where
  "usage_summary d =
     [(''events'', length (db_usage_events d)),
      (''errors'', length (filter (\<lambda>e. 400 \<le> ue_status_code e) (db_usage_events d))),
      (''active_keys'', length (filter (\<lambda>r. ak_status r = ''active'') (db_api_keys d)))]"

section \<open>The store as a state machine\<close>

text \<open>
  The writing methods as steps. A method that raises leaves the tables as they were: its
  statements run inside \<open>with conn\<close>, which rolls back.
\<close>

datatype store_op =
    OpEnsureAdmin nat string string
  | OpCreateKey nat string string
  | OpStatusById string string
  | OpStatusBySecret string string
  | OpRotate string string
  | OpValidate nat "string option"
  | OpCreateSession nat string string int
  | OpGetSession nat "string option" int
  | OpInvalidate string
  | OpDeleteSession "string option"
  | OpPurgeSessions nat
  | OpSaveDraft nat string "(string \<times> json) list" string
  | OpDeleteDraft string
  | OpCreateOtp nat string string int
  | OpConsumeOtp nat "string option"
  | OpPurgeOtps nat
  | OpAddSource nat string string "string option" "string option" "string option" string "string option" "string option"
  | OpSchedule int "string option" "string option"
  | OpDeleteSource int
  | OpStartRun nat int
  | OpFinishRun nat nat string int int "string option"
  | OpLogUsage nat string string string int "string option" string int "string option"
  | OpPurgeUsage nat int

definition keep_or :: "db \<Rightarrow> py_exc + db \<times> 'a \<Rightarrow> db" where
  "keep_or d r = (case r of Inl _ \<Rightarrow> d | Inr x \<Rightarrow> fst x)"

fun store_step :: "crypto \<Rightarrow> (api_key_row list \<Rightarrow> api_key_row) \<Rightarrow> db \<Rightarrow> store_op \<Rightarrow> db" where
  "store_step cr pick d (OpEnsureAdmin now key key_id) = ensure_admin_key cr d now key key_id"
| "store_step cr pick d (OpCreateKey now secret key_id) = keep_or d (create_api_key cr d now secret key_id)"
| "store_step cr pick d (OpStatusById key_id status) = fst (set_key_status_by_key_id d key_id status)"
| "store_step cr pick d (OpStatusBySecret secret status) = fst (set_key_status_by_secret cr d secret status)"
| "store_step cr pick d (OpRotate secret key_id) = keep_or d (rotate_api_key cr d secret key_id)"
| "store_step cr pick d (OpValidate now secret) = fst (validate_api_key cr pick d now secret)"
| "store_step cr pick d (OpCreateSession now token key_id ttl) = keep_or d (create_ui_session cr d now token key_id ttl)"
| "store_step cr pick d (OpGetSession now token idle) = fst (get_ui_session_key_id cr d now token idle)"
| "store_step cr pick d (OpInvalidate key_id) = fst (invalidate_sessions_for_key_id d key_id)"
| "store_step cr pick d (OpDeleteSession token) = delete_ui_session cr d token"
| "store_step cr pick d (OpPurgeSessions now) = fst (purge_expired_ui_sessions d now)"
| "store_step cr pick d (OpSaveDraft now key_id payload step) = save_setup_draft d now key_id payload step"
| "store_step cr pick d (OpDeleteDraft key_id) = delete_setup_draft d key_id"
| "store_step cr pick d (OpCreateOtp now token key_id ttl) = keep_or d (create_setup_otp cr d now token key_id ttl)"
| "store_step cr pick d (OpConsumeOtp now token) = fst (consume_setup_otp cr d now token)"
| "store_step cr pick d (OpPurgeOtps now) = fst (purge_expired_setup_otps d now)"
| "store_step cr pick d (OpAddSource now label kind url mp sp prof sched next) =
     fst (add_import_source d now label kind url mp sp prof sched next)"
| "store_step cr pick d (OpSchedule i sched next) = fst (set_import_source_schedule d i sched next)"
| "store_step cr pick d (OpDeleteSource i) = fst (delete_import_source d i)"
| "store_step cr pick d (OpStartRun now i) = fst (start_import_run d now i)"
| "store_step cr pick d (OpFinishRun now rid status n m err) = finish_import_run d now rid status n m err"
| "store_step cr pick d (OpLogUsage now rid ep meth code kid subj lat err) =
     log_usage_event d now rid ep meth code kid subj lat err"
| "store_step cr pick d (OpPurgeUsage now days) = fst (purge_usage_events_older_than d now days)"

inductive reachable :: "crypto \<Rightarrow> (api_key_row list \<Rightarrow> api_key_row) \<Rightarrow> db \<Rightarrow> bool" for cr pick where
  init: "reachable cr pick empty_db"
| step: "reachable cr pick d \<Longrightarrow> reachable cr pick (store_step cr pick d op)"

inductive_cases reachableE: "reachable cr pick d"

section \<open>The table invariant\<close>

definition key_table_ok :: "api_key_row list \<Rightarrow> bool" where
  "key_table_ok rs \<longleftrightarrow> distinct (map ak_key_id rs) \<and> distinct (map ak_key_hash rs)"

definition id_table_ok :: "nat list \<Rightarrow> nat \<Rightarrow> bool" where
  "id_table_ok ids n \<longleftrightarrow> sorted_wrt (<) ids \<and> (\<forall>i \<in> set ids. 0 < i \<and> i \<le> n)"

definition db_inv :: "db \<Rightarrow> bool" where
  "db_inv d \<longleftrightarrow>
     key_table_ok (db_api_keys d) \<and> distinct (map ss_token (db_ui_sessions d)) \<and>
     distinct (map dr_key_id (db_setup_drafts d)) \<and> distinct (map ot_token_hash (db_setup_otps d)) \<and>
     id_table_ok (map is_id (db_import_sources d)) (db_sources_seq d) \<and>
     id_table_ok (map ir_id (db_import_runs d)) (db_runs_seq d) \<and>
     id_table_ok (map ue_id (db_usage_events d)) (db_usage_seq d)"

lemma id_table_snoc: "id_table_ok ids n \<Longrightarrow> id_table_ok (ids @ [Suc n]) (Suc n)"
  by (auto simp: id_table_ok_def sorted_wrt_append less_Suc_eq_le le_Suc_eq)

lemma sorted_wrt_map_filter: "sorted_wrt (<) (map f xs) \<Longrightarrow> sorted_wrt (<) (map f (filter p xs))"
  by (induction xs) auto

lemma id_table_filter: "id_table_ok (map f xs) n \<Longrightarrow> id_table_ok (map f (filter p xs)) n"
  by (auto simp: id_table_ok_def sorted_wrt_map_filter)

text \<open>A conditional row update that keeps the key column keeps the column of the table.\<close>

lemmas row_if = if_distrib [of ak_key_id] if_distrib [of ak_key_hash] if_distrib [of ss_token]
  if_distrib [of dr_key_id] if_distrib [of ot_token_hash] if_distrib [of is_id] if_distrib [of ir_id]
  if_distrib [of ue_id]

lemmas store_defs = ensure_admin_key_def create_api_key_def set_key_status_by_key_id_def
  set_key_status_by_secret_def rotate_api_key_def validate_api_key_def create_ui_session_def
  get_ui_session_key_id_def invalidate_sessions_for_key_id_def delete_ui_session_def
  purge_expired_ui_sessions_def save_setup_draft_def delete_setup_draft_def create_setup_otp_def
  consume_setup_otp_def purge_expired_setup_otps_def add_import_source_def set_import_source_schedule_def
  delete_import_source_def start_import_run_def finish_import_run_def log_usage_event_def
  purge_usage_events_older_than_def update_keys_def drop_sessions_def keep_or_def

lemma key_ok_snoc:
  "key_table_ok (db_api_keys d) \<Longrightarrow> \<not> key_conflict d (ak_key_id r) (ak_key_hash r) \<Longrightarrow>
     key_table_ok (db_api_keys d @ [r])"
  by (auto simp: key_table_ok_def key_conflict_def)

lemma key_row_id [simp]: "ak_key_id (key_row cr now key_id secret) = key_id"
  by (simp add: key_row_def split: prod.splits)

lemma key_ok_rotate:
  assumes "key_table_ok rs" "\<not> (\<exists>r \<in> set rs. ak_key_id r \<noteq> key_id \<and> ak_key_hash r = digest)"
    and "\<And>r. ak_key_id (g r) = ak_key_id r" "\<And>r. ak_key_hash (g r) = digest"
  shows "key_table_ok (map (\<lambda>r. if ak_key_id r = key_id then g r else r) rs)"
proof -
  have "map ak_key_id (map (\<lambda>r. if ak_key_id r = key_id then g r else r) rs) = map ak_key_id rs"
    using assms(3) by auto
  moreover have "distinct (map ak_key_hash (map (\<lambda>r. if ak_key_id r = key_id then g r else r) rs))"
    using assms(1,2)
  proof (induction rs)
    case (Cons r rs)
    have IH: "distinct (map ak_key_hash (map (\<lambda>r. if ak_key_id r = key_id then g r else r) rs))"
      using Cons by (auto simp: key_table_ok_def)
    have "ak_key_hash (if ak_key_id r = key_id then g r else r) \<notin>
        set (map ak_key_hash (map (\<lambda>r. if ak_key_id r = key_id then g r else r) rs))"
      using Cons.prems assms(4) by (auto simp: key_table_ok_def image_iff split: if_splits)
    with IH show ?case by simp
  qed simp
  ultimately show ?thesis using assms(1) unfolding key_table_ok_def by metis
qed

lemma keys_step:
  assumes "key_table_ok (db_api_keys d)"
  shows "key_table_ok (db_api_keys (store_step cr pick d op))"
proof (cases op)
  case (OpRotate secret key_id)
  show ?thesis
  proof (cases "rotate_api_key cr d secret key_id")
    case (Inr x)
    then show ?thesis using assms OpRotate
      by (auto simp: rotate_api_key_def keep_or_def update_keys_def split: if_splits prod.splits intro!: key_ok_rotate)
  qed (use assms OpRotate in \<open>simp add: keep_or_def\<close>)
next
  case (OpEnsureAdmin now key key_id)
  then show ?thesis using assms key_ok_snoc [OF assms, of "key_row cr now key_id key"]
    by (simp add: ensure_admin_key_def Let_def)
next
  case (OpCreateKey now secret key_id)
  then show ?thesis using assms key_ok_snoc [OF assms, of "key_row cr now key_id secret"]
    by (simp add: create_api_key_def Let_def keep_or_def)
qed (use assms in \<open>simp_all add: store_defs row_if key_table_ok_def comp_def Let_def cong: if_cong split: option.splits sum.splits\<close>)

lemma sessions_step:
  "distinct (map ss_token (db_ui_sessions d)) \<Longrightarrow>
     distinct (map ss_token (db_ui_sessions (store_step cr pick d op)))"
  by (cases op)
     (simp_all add: store_defs row_if comp_def Let_def distinct_map_filter find_session_def
        cong: if_cong split: option.split sum.split prod.split, auto)

lemma drafts_step:
  "distinct (map dr_key_id (db_setup_drafts d)) \<Longrightarrow>
     distinct (map dr_key_id (db_setup_drafts (store_step cr pick d op)))"
proof (cases op)
  case (OpSaveDraft now key_id payload step)
  assume d: "distinct (map dr_key_id (db_setup_drafts d))"
  have "map dr_key_id (map (\<lambda>r. if dr_key_id r = key_id then row else r) rs) = map dr_key_id rs"
    if "dr_key_id row = key_id" for row rs using that by auto
  then show ?thesis using d OpSaveDraft by (auto simp: save_setup_draft_def Let_def simp del: map_map)
qed (simp_all add: store_defs row_if comp_def Let_def distinct_map_filter
        cong: if_cong split: option.split sum.split prod.split)

lemma otps_step:
  "distinct (map ot_token_hash (db_setup_otps d)) \<Longrightarrow>
     distinct (map ot_token_hash (db_setup_otps (store_step cr pick d op)))"
  by (cases op)
     (simp_all add: store_defs row_if comp_def Let_def distinct_map_filter
        cong: if_cong split: option.split sum.split prod.split, auto)

lemma ids_step:
  "id_table_ok (map is_id (db_import_sources d)) (db_sources_seq d) \<Longrightarrow>
     id_table_ok (map is_id (db_import_sources (store_step cr pick d op))) (db_sources_seq (store_step cr pick d op))"
  "id_table_ok (map ir_id (db_import_runs d)) (db_runs_seq d) \<Longrightarrow>
     id_table_ok (map ir_id (db_import_runs (store_step cr pick d op))) (db_runs_seq (store_step cr pick d op))"
  "id_table_ok (map ue_id (db_usage_events d)) (db_usage_seq d) \<Longrightarrow>
     id_table_ok (map ue_id (db_usage_events (store_step cr pick d op))) (db_usage_seq (store_step cr pick d op))"
  by (cases op;
      simp add: store_defs row_if comp_def Let_def id_table_filter id_table_snoc
        cong: if_cong split: option.split sum.split prod.split)+


section \<open>Sessions in real time\<close>

lemma find_unique:
  "distinct (map f xs) \<Longrightarrow> r \<in> set xs \<Longrightarrow> find (\<lambda>x. f x = f r) xs = Some r"
  by (induction xs) auto

lemma filter_unique:
  "distinct (map f xs) \<Longrightarrow> find (\<lambda>x. f x = k) (filter (\<lambda>x. f x \<noteq> k) xs) = None"
  by (simp add: find_None_iff)

definition has_session :: "db \<Rightarrow> string \<Rightarrow> string \<Rightarrow> nat \<Rightarrow> nat \<Rightarrow> bool" where
  "has_session d h key_id expires seen \<longleftrightarrow>
     (\<exists>r. find_session d h = Some r \<and> ss_key_id r = key_id \<and> ss_expires_at r = Some (iso expires) \<and>
        ss_last_activity_at r = Some (iso seen))"

lemma iso_nonempty: "iso t \<noteq> []"
  by (simp add: iso_def)

lemma find_session_drop: "find_session (drop_sessions (\<lambda>r. ss_token r = h) d) h = None"
  by (auto simp: find_session_def drop_sessions_def find_None_iff)

lemma find_touch:
  assumes "find (\<lambda>r. ss_token r = h) xs = Some row"
  shows "find (\<lambda>r. ss_token r = h) (map (\<lambda>r. if ss_token r = h then r\<lparr>ss_last_activity_at := x\<rparr> else r) xs)
    = Some (row\<lparr>ss_last_activity_at := x\<rparr>)"
  using assms by (induction xs) (auto split: if_splits)

text \<open>
  A session lives exactly as long as its policy says, in real time: a lookup succeeds if and
  only if the clock is before the expiry and, when an idle timeout is set, less than that
  time has passed since the last activity. A success restarts the idle window; a failure
  removes the session, so no later lookup can succeed.
\<close>

lemma session_lookup_exact:
  assumes "has_session d (cr_sha256 cr token) key_id expires seen" "token \<noteq> []"
    and "in_calendar expires" "in_calendar now" "in_calendar seen"
    and "in_calendar (now - nat idle * us_minute)"
  shows "(let (d', r) = get_ui_session_key_id cr d now (Some token) idle in
     if now < expires \<and> (0 < idle \<longrightarrow> now - nat idle * us_minute < seen)
     then r = Some key_id \<and> has_session d' (cr_sha256 cr token) key_id expires now
     else r = None \<and> find_session d' (cr_sha256 cr token) = None)"
proof -
  let ?h = "cr_sha256 cr token"
  obtain row where row: "find_session d ?h = Some row" "ss_key_id row = key_id"
    "ss_expires_at row = Some (iso expires)" "ss_last_activity_at row = Some (iso seen)"
    using assms(1) by (auto simp: has_session_def)
  have e: "iso expires \<le> iso now \<longleftrightarrow> \<not> now < expires" using iso_less_iff(2) [OF assms(3,4)] by auto
  have l: "iso seen \<le> iso (now - nat idle * us_minute) \<longleftrightarrow> \<not> now - nat idle * us_minute < seen"
    using iso_less_iff(2) [OF assms(5,6)] by auto
  have f: "first_set [ss_last_activity_at row, ss_expires_at row] (iso now) = iso seen"
    using iso_nonempty by (simp add: first_set_def row)
  have drop: "find_session (drop_sessions (\<lambda>r. ss_token r = ?h) d) ?h = None" by (rule find_session_drop)
  have touch: "has_session (d\<lparr>db_ui_sessions := map (\<lambda>r. if ss_token r = ?h then r\<lparr>ss_last_activity_at := Some (iso now)\<rparr> else r)
      (db_ui_sessions d)\<rparr>) ?h key_id expires now"
    using find_touch [OF row(1) [unfolded find_session_def], of "Some (iso now)"] row(2,3)
    by (simp add: has_session_def find_session_def)
  show ?thesis
    unfolding get_ui_session_key_id_def Let_def option.sel row(1) option.case f l
    using assms(2) e row(2,3) drop touch by (auto simp: not_less)
qed

section \<open>One-time tokens\<close>

definition spent :: "db \<Rightarrow> string \<Rightarrow> bool" where
  "spent d h \<longleftrightarrow> (\<forall>r \<in> set (db_setup_otps d). ot_token_hash r = h \<longrightarrow> ot_consumed_at r \<noteq> None)"

definition mints :: "crypto \<Rightarrow> string \<Rightarrow> store_op \<Rightarrow> bool" where
  "mints cr h op = (case op of OpCreateOtp now token key_id ttl \<Rightarrow> cr_sha256 cr token = h | _ \<Rightarrow> False)"

lemma spent_step:
  "spent d h \<Longrightarrow> \<not> mints cr h op \<Longrightarrow> spent (store_step cr pick d op) h"
  by (cases op)
     (auto simp: spent_def mints_def store_defs Let_def split: option.splits sum.splits prod.splits if_splits)

lemma spent_steps:
  "spent d h \<Longrightarrow> \<forall>op \<in> set ops. \<not> mints cr h op \<Longrightarrow> spent (foldl (store_step cr pick) d ops) h"
  by (induction ops arbitrary: d) (auto intro: spent_step)

lemma spent_consume:
  assumes "spent d (cr_sha256 cr token)" shows "snd (consume_setup_otp cr d now (Some token)) = None"
proof (cases "find (\<lambda>r. ot_token_hash r = cr_sha256 cr token) (db_setup_otps d)")
  case (Some row)
  then have "ot_consumed_at row \<noteq> None" using assms by (auto simp: spent_def find_Some_iff)
  with Some show ?thesis by (simp add: consume_setup_otp_def Let_def)
qed (simp add: consume_setup_otp_def)

text \<open>
  C33. A one-time token opens one session at most: after it has been consumed, no history of
  calls (short of drawing the same random token again) makes it redeemable.
\<close>

theorem otp_single_use:
  assumes "distinct (map ot_token_hash (db_setup_otps d))"
    and "consume_setup_otp cr d now (Some token) = (d1, Some key_id)"
    and "\<forall>op \<in> set ops. \<not> mints cr (cr_sha256 cr token) op"
  shows "snd (consume_setup_otp cr (foldl (store_step cr pick) d1 ops) later (Some token)) = None"
proof -
  let ?h = "cr_sha256 cr token"
  have "spent d1 ?h" using assms(2)
    by (auto simp: consume_setup_otp_def spent_def Let_def split: if_splits option.splits)
  then show ?thesis by (intro spent_consume spent_steps assms(3))
qed

section \<open>Paging through the usage log\<close>

text \<open>
  Paging loses and repeats nothing: the pages of a query at the offsets 0, \<open>n\<close>, 2\<open>n\<close>, ... put
  together are the matching events, newest first, and the total is their number.
\<close>

lemma usage_pages_complete:
  assumes "1 \<le> n" "n \<le> 1000" "snd (query_usage_events d (int n) 0 f) \<le> k * n"
  shows "concat (map (\<lambda>i. fst (query_usage_events d (int n) (int (i * n)) f)) [0..<k]) =
    rev (filter (usage_matches f) (db_usage_events d)) \<and>
    snd (query_usage_events d (int n) 0 f) = length (filter (usage_matches f) (db_usage_events d))"
proof -
  let ?xs = "rev (filter (usage_matches f) (db_usage_events d))"
  have m: "nat (int i * int n) = i * n" for i by (metis nat_int of_nat_mult)
  have p: "fst (query_usage_events d (int n) (int (i * n)) f) = take n (drop (i * n) ?xs)" for i
    using assms(1,2) by (simp add: query_usage_events_def page_of_def m)
  have "concat (map (\<lambda>i. take n (drop (i * n) xs)) [0..<k]) = take (k * n) xs" for xs :: "usage_event list" and k
  proof (induction k)
    case (Suc k)
    then show ?case using take_add [of "k * n" n xs] by (simp add: add.commute)
  qed simp
  then have "concat (map (\<lambda>i. fst (query_usage_events d (int n) (int (i * n)) f)) [0..<k]) = take (k * n) ?xs"
    unfolding p by blast
  then show ?thesis using assms(3) by (simp add: query_usage_events_def)
qed

section \<open>Deleting a source\<close>

text \<open>
  Deleting a source leaves its run history in the table: the cascade that the schema
  declares does not happen.
\<close>

lemma delete_source_keeps_runs:
  "db_import_runs (fst (delete_import_source d i)) = db_import_runs d \<and>
   get_import_source (fst (delete_import_source d i)) i = None"
  by (auto simp: delete_import_source_def get_import_source_def find_None_iff)

section \<open>Concrete histories\<close>

definition demo_crypto :: crypto where
  "demo_crypto = \<lparr>cr_sha256 = (\<lambda>s. ''h'' @ s), cr_hmac = (\<lambda>p s. p @ s), cr_pepper = None\<rparr>"

lemma first_day: "t < us_per_day \<Longrightarrow> in_calendar t"
  by (simp add: in_calendar_def ord2ymd_def find_year.simps [of "Suc 0" "Suc 0"]
      find_month.simps [of "Suc 0" "Suc 0" "Suc 0"]
      year_len_def month_len_def is_leap_def)


definition demo_session_db :: db where
  "demo_session_db = store_step demo_crypto hd empty_db (OpCreateSession us_hour ''tok'' ''admin'' 12)"

theorem session_lookup_exact_witness:
  "snd (get_ui_session_key_id demo_crypto demo_session_db (70 * us_minute) (Some ''tok'') 15) = Some ''admin'' \<and>
   snd (get_ui_session_key_id demo_crypto demo_session_db (80 * us_minute) (Some ''tok'') 15) = None"
proof -
  have h: "has_session demo_session_db (cr_sha256 demo_crypto ''tok'') ''admin'' (13 * us_hour) us_hour"
    by (simp add: demo_session_db_def create_ui_session_def keep_or_def empty_db_def has_session_def find_session_def Let_def)
  have c: "in_calendar (13 * us_hour)" "in_calendar (70 * us_minute)" "in_calendar (80 * us_minute)" "in_calendar us_hour"
    "in_calendar (70 * us_minute - nat 15 * us_minute)" "in_calendar (80 * us_minute - nat 15 * us_minute)"
    by (simp_all add: first_day us_hour_def us_minute_def us_per_day_def)
  show ?thesis
    using session_lookup_exact [OF h _ c(1) c(2) c(4) c(5)] session_lookup_exact [OF h _ c(1) c(3) c(4) c(6)]
    by (simp add: us_minute_def us_hour_def split: prod.splits)
qed

theorem otp_single_use_witness:
  "snd (consume_setup_otp demo_crypto (foldl (store_step demo_crypto hd)
     (fst (consume_setup_otp demo_crypto (store_step demo_crypto hd empty_db (OpCreateOtp 0 ''otp'' ''admin'' 300)) 0 (Some ''otp'')))
     [OpCreateOtp 1 ''other'' ''admin'' 300]) 2 (Some ''otp'')) = None"
proof -
  let ?d = "store_step demo_crypto hd empty_db (OpCreateOtp 0 ''otp'' ''admin'' 300)"
  have c: "in_calendar 0" "in_calendar 300000000" by (simp_all add: first_day us_per_day_def)
  have lt: "\<not> iso 300000000 \<le> iso 0" using iso_less_iff(2) [OF c(2,1)] by simp
  have r: "snd (consume_setup_otp demo_crypto ?d 0 (Some ''otp'')) = Some ''admin''"
    using lt by (simp add: consume_setup_otp_def create_setup_otp_def keep_or_def empty_db_def demo_crypto_def Let_def)
  show ?thesis
    by (rule otp_single_use [of ?d demo_crypto 0 "''otp''" _ "''admin''"])
       (use r in \<open>simp_all add: prod_eq_iff create_setup_otp_def keep_or_def empty_db_def mints_def demo_crypto_def Let_def\<close>)
qed

definition demo_usage_db :: db where
  "demo_usage_db = foldl (store_step demo_crypto hd) empty_db
     (map (\<lambda>n. OpLogUsage n ''r'' ''/v1/search'' ''GET'' 200 None ''ip'' 1 None) [0, 1, 2])"

definition no_filter :: usage_filter where
  "no_filter = \<lparr>uf_endpoint = None, uf_status_min = None, uf_status_max = None, uf_since = None,
     uf_until = None, uf_key_id = None\<rparr>"

theorem usage_pages_complete_witness:
  "concat (map (\<lambda>i. fst (query_usage_events demo_usage_db (int 2) (int (i * 2)) no_filter)) [0..<2]) =
    rev (filter (usage_matches no_filter) (db_usage_events demo_usage_db)) \<and>
   snd (query_usage_events demo_usage_db (int 2) 0 no_filter) = length (filter (usage_matches no_filter) (db_usage_events demo_usage_db))"
  by (rule usage_pages_complete)
     (simp_all add: query_usage_events_def demo_usage_db_def no_filter_def usage_matches_def log_usage_event_def empty_db_def)

end
