(* ===== verification/Lido_Import.thy ===== *)
theory Lido_Import
  imports Ingest Py_Xml
begin

text \<open>
  \<^verbatim>\<open>app/importers/lido.py\<close>: the mapping of a LIDO record to a backend document, the flat-file
  importer and the record parser for an OAI-PMH harvest.
\<close>

definition lido :: "string \<Rightarrow> string" where
  "lido t = ns_tag ''http://www.lido-schema.org'' t"

definition lido_path :: "string list \<Rightarrow> string list" where
  "lido_path ts = map lido ts"

definition lido_error :: "string \<Rightarrow> py_exc" where
  "lido_error msg = ExApp (AppError ''backend_unavailable'' msg [(''scope'', JStr ''lido'')] 502)"

definition identification :: "string list \<Rightarrow> string list" where
  "identification ts = lido_path ([''descriptiveMetadata'', ''objectIdentificationWrap''] @ ts)"

text \<open>The value of the \<open>lido:type\<close> attribute, \<open>(... or "").strip().lower()\<close>.\<close>

definition lido_type :: "xml \<Rightarrow> string" where
  "lido_type el = py_lower (py_strip (x_attr el (lido ''type'')))"

section \<open>Parts of a record\<close>

definition preferred_types :: "string list" where
  "preferred_types = [''inventory number'', ''inventory_number'', ''accession number'', ''accession_number'']"

definition inventory_number :: "xml \<Rightarrow> string" where
  "inventory_number el =
     (let ids = filter (\<lambda>w. own_text w \<noteq> []) (find_all (identification [''repositoryWrap'', ''repositorySet'', ''workID'']) el) in
      case find (\<lambda>w. lido_type w \<in> set preferred_types) ids of
        Some w \<Rightarrow> own_text w
      | None \<Rightarrow> (case ids of [] \<Rightarrow> [] | w # ws \<Rightarrow> own_text w))"

definition production_terms :: "string list" where
  "production_terms = [''production'', ''creation'', ''cr'' @ [CHR 0xE9] @ ''ation'']"

definition acquisition_terms :: "string list" where
  "acquisition_terms = [''acquisition'', ''acquired'', ''accession'']"

text \<open>One event on the state (artist, production date, acquisition date).\<close>

definition event_step :: "xml \<Rightarrow> string \<times> string \<times> string \<Rightarrow> string \<times> string \<times> string" where
  "event_step ev = (\<lambda>(artist, production_date, acquisition_date).
     let event_type = py_lower (first_text (lido_path [''eventType'', ''term'']) ev);
         display_date = first_text (lido_path [''eventDate'', ''displayDate'']) ev in
     if event_type \<in> set production_terms
     then (if artist = [] then first_text (lido_path [''eventActor'', ''actorInRole'', ''actor'', ''nameActorSet'', ''appellationValue'']) ev
             else artist,
           if production_date = [] then display_date else production_date,
           acquisition_date)
     else if event_type \<in> set acquisition_terms
     then (artist, production_date, if acquisition_date = [] then display_date else acquisition_date)
     else (artist, production_date, acquisition_date))"

definition production_and_acquisition :: "xml \<Rightarrow> string \<times> string \<times> string" where
  "production_and_acquisition el =
     fold event_step (find_all (lido_path [''descriptiveMetadata'', ''eventWrap'', ''eventSet'', ''event'']) el) ([], [], [])"

definition repr_step :: "xml \<Rightarrow> string \<times> string \<Rightarrow> string \<times> string" where
  "repr_step r = (\<lambda>(iiif, thumbnail).
     let link = first_text (lido_path [''linkResource'']) r; kind = lido_type r in
     if link = [] then (iiif, thumbnail)
     else if iiif = [] \<and> (contains_str ''iiif'' kind \<or> ends_with ''/manifest'' (rstrip_chars ''/'' (py_lower link)))
     then (link, thumbnail)
     else if thumbnail = [] \<and> kind \<in> {''thumbnail'', ''image_thumb'', ''preview''} then (iiif, link)
     else (iiif, thumbnail))"

definition iiif_and_thumbnail :: "xml \<Rightarrow> string \<times> string" where
  "iiif_and_thumbnail el =
     fold repr_step (find_all (lido_path [''administrativeMetadata'', ''resourceWrap'', ''resourceSet'', ''resourceRepresentation'']) el)
       ([], [])"

section \<open>The document\<close>

definition lido_record_id :: "xml \<Rightarrow> string" where
  "lido_record_id el =
     (let i = first_text (lido_path [''lidoRecID'']) el in
      if i \<noteq> [] then i else first_text (lido_path [''administrativeMetadata'', ''recordWrap'', ''recordID'']) el)"

definition lido_element_to_doc :: "xml \<Rightarrow> doc option" where
  "lido_element_to_doc el =
     (let record_id = lido_record_id el;
          work_type = first_text (lido_path [''descriptiveMetadata'', ''objectClassificationWrap'', ''objectWorkTypeWrap'',
            ''objectWorkType'', ''term'']) el;
          titles = all_texts (identification [''titleWrap'', ''titleSet'', ''appellationValue'']) el;
          descriptions = all_texts (identification [''objectDescriptionWrap'', ''objectDescriptionSet'', ''descriptiveNoteValue'']) el;
          medium = first_text (identification [''objectMaterialsTechWrap'', ''objectMaterialsTechSet'', ''materialsTech'',
            ''termMaterialsTech'', ''term'']) el;
          dimensions = first_text (identification [''objectMeasurementsWrap'', ''objectMeasurementsSet'',
            ''displayObjectMeasurements'']) el;
          current_location = first_text (identification [''repositoryWrap'', ''repositorySet'', ''repositoryName'',
            ''legalBodyName'', ''appellationValue'']) el;
          inv_no = inventory_number el;
          (artist, production_date, acquisition_date) = production_and_acquisition el;
          (iiif, thumbnail) = iiif_and_thumbnail el in
      if record_id = [] then None
      else Some ([(''id'', JStr record_id), (''type'', JStr (if work_type = [] then ''object'' else work_type))]
        @ entry_if (titles \<noteq> []) ''title'' (JStr (hd titles))
        @ entry_if (descriptions \<noteq> []) ''description'' (JStr (join blank_line descriptions))
        @ entry_if (artist \<noteq> []) ''creators'' (JList [JStr artist]) @ str_entry ''artist'' artist
        @ str_entry ''inventory_number'' inv_no
        @ str_entry ''medium'' medium
        @ str_entry ''dimensions'' dimensions
        @ str_entry ''acquisition_date'' acquisition_date
        @ str_entry ''date'' production_date
        @ str_entry ''current_location'' current_location
        @ str_entry ''iiif_manifest'' iiif
        @ str_entry ''thumbnail'' thumbnail))"

section \<open>Files and harvests\<close>

definition iter_lido_elements :: "xml \<Rightarrow> xml list" where
  "iter_lido_elements doc_el =
     (if x_tag doc_el = lido ''lido'' then [doc_el] else descendant_list (lido ''lido'') doc_el)"

definition parse_lido_bytes :: "(string \<Rightarrow> string + xml) \<Rightarrow> string \<Rightarrow> doc_stream" where
  "parse_lido_bytes fromstring data =
     (case fromstring data of
        Inl e \<Rightarrow> ([], Some (lido_error (''LIDO file is not valid XML: '' @ e)))
      | Inr doc_el \<Rightarrow> (List.map_filter lido_element_to_doc (iter_lido_elements doc_el), None))"

definition lido_ingest_file ::
  "(string \<Rightarrow> string + xml) \<Rightarrow> file_system \<Rightarrow> 'b sink \<Rightarrow> nat \<Rightarrow> 'b \<Rightarrow> string \<Rightarrow> 'b \<times> (py_exc + import_result)"
where
  "lido_ingest_file fromstring fs bulk chunk_size b path =
     file_ingest ''LIDO'' (parse_lido_bytes fromstring) fs bulk chunk_size b path"

definition lido_oai_parse :: "xml \<Rightarrow> xml option \<Rightarrow> doc option" where
  "lido_oai_parse header metadata =
     (case metadata of
        None \<Rightarrow> None
      | Some md \<Rightarrow>
          if py_strip (x_attr header ''status'') = ''deleted'' then None
          else (let direct = (case find_first [lido ''lidoWrap''] md of
                      Some wrap \<Rightarrow> find_first [lido ''lido''] wrap
                    | None \<Rightarrow> find_first [lido ''lido''] md);
                    el = (case direct of Some e \<Rightarrow> Some e
                      | None \<Rightarrow> find (\<lambda>c. x_tag c = lido ''lido'') (x_children md)) in
            case el of None \<Rightarrow> None | Some e \<Rightarrow> lido_element_to_doc e))"

definition docs_from_oai :: "(xml \<times> xml option) list \<Rightarrow> doc list" where
  "docs_from_oai records = List.map_filter (\<lambda>(h, m). lido_oai_parse h m) records"

section \<open>Every document is identified\<close>

lemma first_text_spec: "first_text ts el \<noteq> [] \<Longrightarrow> \<exists>e \<in> set (find_all ts el). own_text e = first_text ts el"
proof -
  assume ne: "first_text ts el \<noteq> []"
  then have "first_text ts el \<in> set (all_texts ts el)" by (auto simp: first_text_def split: list.splits)
  then show ?thesis by (auto simp: all_texts_def)
qed

lemma lido_doc_identified: "lido_element_to_doc el = Some d \<Longrightarrow> identified d"
  by (auto simp: lido_element_to_doc_def Let_def identified_def split: if_split_asm prod.split_asm)

lemma parse_lido_identified: "d \<in> set (fst (parse_lido_bytes fromstring data)) \<Longrightarrow> identified d"
  by (auto simp: parse_lido_bytes_def List.map_filter_def dest: lido_doc_identified split: sum.split_asm)

end
