(* ===== verification/Ead_Import.thy ===== *)
theory Ead_Import
  imports Ingest Py_Xml
begin

text \<open>
  \<^verbatim>\<open>app/importers/ead.py\<close>: a finding aid becomes one document for its \<open>archdesc\<close> and one for every
  component below it, each with a pointer to its parent. The counter that the generator shares
  between its recursive calls is passed along.
\<close>

section \<open>Elements by local name\<close>

definition local :: "string \<Rightarrow> string" where
  "local tag = (if CHR ''}'' \<in> set tag then rev (takeWhile (\<lambda>c. c \<noteq> CHR ''}'') (rev tag)) else tag)"

definition find_local :: "string \<Rightarrow> xml \<Rightarrow> xml option" where
  "find_local name el = find (\<lambda>c. local (x_tag c) = name) (x_iter el)"

definition find_child :: "string \<Rightarrow> xml \<Rightarrow> xml option" where
  "find_child name el = find (\<lambda>c. local (x_tag c) = name) (x_children el)"

definition direct_children :: "string \<Rightarrow> xml \<Rightarrow> xml list" where
  "direct_children name el = filter (\<lambda>c. local (x_tag c) = name) (x_children el)"

definition descendants :: "string \<Rightarrow> xml \<Rightarrow> xml list" where
  "descendants name el = filter (\<lambda>c. local (x_tag c) = name) (x_descendants el)"

definition ead_text :: "xml option \<Rightarrow> string" where
  "ead_text el = (case el of None \<Rightarrow> [] | Some e \<Rightarrow> py_strip (x_itertext e))"

definition paragraphs :: "xml option \<Rightarrow> string" where
  "paragraphs el =
     (case el of
        None \<Rightarrow> []
      | Some e \<Rightarrow> (let paras = direct_children ''p'' e in
          if paras = [] then ead_text el
          else join blank_line (filter (\<lambda>t. t \<noteq> []) (map (\<lambda>p. ead_text (Some p)) paras))))"

section \<open>One component\<close>

definition xml_id :: string where
  "xml_id = ns_tag ''http://www.w3.org/XML/1998/namespace'' ''id''"

definition best_id :: "xml \<Rightarrow> string \<Rightarrow> string" where
  "best_id did fallback =
     (let unitid = ead_text (find_local ''unitid'' did) in
      if unitid \<noteq> [] then unitid
      else if x_attr did ''id'' \<noteq> [] then x_attr did ''id''
      else if x_attr did xml_id \<noteq> [] then x_attr did xml_id
      else fallback)"

fun unit_date :: "xml list \<Rightarrow> string" where
  "unit_date [] = []"
| "unit_date (u # us) =
     (let normal = py_strip (x_attr u ''normal'') in
      if normal \<noteq> [] then hd (split_char (CHR ''/'') normal)
      else (let t = ead_text (Some u) in if t \<noteq> [] then t else unit_date us))"

definition or_text :: "string \<Rightarrow> string \<Rightarrow> string" where
  "or_text a b = (if a \<noteq> [] then a else b)"

definition component_to_doc ::
  "xml \<Rightarrow> string option \<Rightarrow> string \<Rightarrow> string option \<Rightarrow> string option \<Rightarrow> doc option"
where
  "component_to_doc component parent_id fallback_id level_override repository =
     (case find_child ''did'' component of
        None \<Rightarrow> None
      | Some did \<Rightarrow>
          (let record_id = best_id did fallback_id;
               unit_level = or_text (or_text (opt_text level_override) (py_strip (x_attr component ''level''))) ''component'';
               title = ead_text (find_local ''unittitle'' did);
               date = unit_date (descendants ''unitdate'' did);
               origination = ead_text (find_local ''origination'' did);
               extent = or_text (ead_text (find_local ''extent'' did)) (ead_text (find_local ''physdesc'' did));
               repo_text = or_text (ead_text (find_local ''repository'' did)) (opt_text repository);
               scope_content = paragraphs (find_child ''scopecontent'' component);
               access_conditions = paragraphs (find_child ''accessrestrict'' component) in
           if record_id = [] then None
           else Some ([(''id'', JStr record_id), (''type'', JStr unit_level)]
             @ str_entry ''title'' title
             @ entry_if (origination \<noteq> []) ''creators'' (JList [JStr origination])
             @ str_entry ''description'' scope_content
             @ str_entry ''date'' date
             @ str_entry ''unit_id'' record_id
             @ entry_if (unit_level \<noteq> ''component'') ''unit_level'' (JStr unit_level)
             @ str_entry ''extent'' extent
             @ str_entry ''repository'' repo_text
             @ str_entry ''scope_content'' scope_content
             @ str_entry ''access_conditions'' access_conditions
             @ str_entry ''parent_id'' (opt_text parent_id))))"

section \<open>The tree\<close>

definition component_tags :: "string list" where
  "component_tags = ''c'' # map (\<lambda>i. ''c'' @ [digit_char (i div 10), digit_char (i mod 10)]) [1..<13]"

definition doc_id :: "doc \<Rightarrow> string" where
  "doc_id d = (case dict_get d ''id'' of Some (JStr s) \<Rightarrow> s | _ \<Rightarrow> [])"

text \<open>The children of a node under \<open>parent_id\<close>, with the value of the counter before and after.\<close>

function walk :: "string option \<Rightarrow> string \<Rightarrow> nat \<Rightarrow> xml list \<Rightarrow> doc list \<times> nat" where
  "walk repository parent_id n [] = ([], n)"
| "walk repository parent_id n (c # cs) =
     (if local (x_tag c) \<notin> set component_tags then walk repository parent_id n cs
      else (case component_to_doc c (Some parent_id) (parent_id @ ''-'' @ str_of_nat (n + 1)) None repository of
              None \<Rightarrow> walk repository parent_id (n + 1) cs
            | Some d \<Rightarrow>
                (case walk repository (doc_id d) (n + 1) (x_children c) of (below, n2) \<Rightarrow>
                   (case walk repository parent_id n2 cs of (rest, n3) \<Rightarrow> (d # below @ rest, n3)))))"
  by pat_completeness auto
termination
proof (relation "measure (\<lambda>(r, p, n, cs). size_list size cs)", goal_cases)
  case (4 repository parent_id n c cs d)
  have "size_list size (x_children c) < size c" by (cases c) simp
  then show ?case by simp
qed simp_all

definition ead_archdesc :: "xml \<Rightarrow> xml option" where
  "ead_archdesc el =
     (if local (x_tag el) = ''ead'' then find_child ''archdesc'' el
      else if local (x_tag el) = ''archdesc'' then Some el
      else find_local ''archdesc'' el)"

definition iter_ead_docs :: "xml \<Rightarrow> doc list" where
  "iter_ead_docs el =
     (case ead_archdesc el of
        None \<Rightarrow> []
      | Some archdesc \<Rightarrow>
          (let repo = ead_text (find_local ''repository'' archdesc);
               repository = (if repo = [] then None else Some repo) in
           case component_to_doc archdesc None ''archdesc-root''
                  (Some (or_text (x_attr archdesc ''level'') ''fonds'')) repository of
             None \<Rightarrow> []
           | Some d \<Rightarrow> d # (case find_child ''dsc'' archdesc of
               None \<Rightarrow> []
             | Some dsc \<Rightarrow> fst (walk repository (doc_id d) 0 (x_children dsc)))))"

section \<open>Files and harvests\<close>

definition ead_error :: "string \<Rightarrow> py_exc" where
  "ead_error msg = ExApp (AppError ''backend_unavailable'' msg [(''scope'', JStr ''ead'')] 502)"

definition parse_ead_bytes :: "(string \<Rightarrow> string + xml) \<Rightarrow> string \<Rightarrow> doc_stream" where
  "parse_ead_bytes fromstring data =
     (case fromstring data of
        Inl e \<Rightarrow> ([], Some (ead_error (''EAD file is not valid XML: '' @ e)))
      | Inr el \<Rightarrow> (iter_ead_docs el, None))"

definition ead_ingest_file ::
  "(string \<Rightarrow> string + xml) \<Rightarrow> file_system \<Rightarrow> 'b sink \<Rightarrow> nat \<Rightarrow> 'b \<Rightarrow> string \<Rightarrow> 'b \<times> (py_exc + import_result)"
where
  "ead_ingest_file fromstring fs bulk chunk_size b path =
     file_ingest ''EAD'' (parse_ead_bytes fromstring) fs bulk chunk_size b path"

definition ead_payload :: "xml \<Rightarrow> xml option \<Rightarrow> xml option" where
  "ead_payload header metadata =
     (case metadata of
        None \<Rightarrow> None
      | Some md \<Rightarrow>
          if py_strip (x_attr header ''status'') = ''deleted'' then None
          else find (\<lambda>c. local (x_tag c) \<in> {''ead'', ''archdesc''}) (x_iter md))"

definition ead_oai_record_to_docs :: "xml \<Rightarrow> xml option \<Rightarrow> doc list" where
  "ead_oai_record_to_docs header metadata =
     (case ead_payload header metadata of None \<Rightarrow> [] | Some el \<Rightarrow> iter_ead_docs el)"

definition ead_oai_record_to_doc :: "xml \<Rightarrow> xml option \<Rightarrow> doc option" where
  "ead_oai_record_to_doc header metadata =
     (case ead_oai_record_to_docs header metadata of [] \<Rightarrow> None | d # ds \<Rightarrow> Some d)"

section \<open>The hierarchy\<close>

definition parent_of :: "doc \<Rightarrow> string option" where
  "parent_of d = (case dict_get d ''parent_id'' of Some (JStr s) \<Rightarrow> Some s | _ \<Rightarrow> None)"

lemma component_doc:
  assumes "component_to_doc c parent fallback level repo = Some d"
  shows "identified d" "doc_id d \<noteq> []" "parent_of d = (if opt_text parent = [] then None else Some (opt_text parent))"
proof -
  obtain i where i: "dict_get d ''id'' = Some (JStr i)" "i \<noteq> []"
    using assms by (auto simp: component_to_doc_def Let_def split: option.split_asm if_split_asm)
  obtain t where "dict_get d ''type'' = Some (JStr t)"
    using assms by (auto simp: component_to_doc_def Let_def split: option.split_asm if_split_asm)
  with i show "identified d" "doc_id d \<noteq> []" by (simp_all add: identified_def doc_id_def)
  have "dict_get d ''parent_id'' = (if opt_text parent = [] then None else Some (JStr (opt_text parent)))"
    using assms by (auto simp: component_to_doc_def Let_def map_add_def split: option.split_asm if_split_asm)
  then show "parent_of d = (if opt_text parent = [] then None else Some (opt_text parent))"
    by (simp add: parent_of_def)
qed

text \<open>\<open>linked known docs\<close>: the parent of every document is known before it.\<close>

fun linked :: "string set \<Rightarrow> doc list \<Rightarrow> bool" where
  "linked known [] = True"
| "linked known (d # ds) = ((\<exists>p \<in> known. parent_of d = Some p) \<and> identified d \<and> linked (insert (doc_id d) known) ds)"

lemma linked_mono: "linked A ds \<Longrightarrow> A \<subseteq> B \<Longrightarrow> linked B ds"
proof (induction ds arbitrary: A B)
  case (Cons d ds)
  then show ?case using Cons.IH [of "insert (doc_id d) A" "insert (doc_id d) B"] by auto
qed simp

lemma linked_append: "linked A ds \<Longrightarrow> linked A es \<Longrightarrow> linked A (ds @ es)"
proof (induction ds arbitrary: A)
  case (Cons d ds)
  then show ?case using linked_mono [OF Cons.prems(2), of "insert (doc_id d) A"] by auto
qed simp

lemma walk_linked: "p \<noteq> [] \<Longrightarrow> linked {p} (fst (walk repo p n cs))"
proof (induction repo p n cs rule: walk.induct)
  case (2 repo p n c cs)
  show ?case
  proof (cases "local (x_tag c) \<in> set component_tags")
    case comp: True
    show ?thesis
    proof (cases "component_to_doc c (Some p) (p @ ''-'' @ str_of_nat (n + 1)) None repo")
      case None
      with 2 comp show ?thesis by simp
    next
      case (Some d)
      note D = component_doc [OF Some]
      obtain below n2 where b: "walk repo (doc_id d) (n + 1) (x_children c) = (below, n2)" by fastforce
      obtain rest n3 where r: "walk repo p n2 cs = (rest, n3)" by fastforce
      have "linked {doc_id d} below" using "2.IH"(3) [OF _ Some D(2)] comp b by simp
      moreover have "linked {p} rest" using "2.IH"(4) [OF _ Some b [symmetric] "2.prems"] comp r by simp
      ultimately have "linked (insert (doc_id d) {p}) (below @ rest)"
        by (intro linked_append) (auto elim: linked_mono)
      then show ?thesis using comp Some b r D "2.prems" by (simp add: opt_text_def)
    qed
  qed (use 2 in simp)
qed simp

lemma linked_nth:
  "linked known ds \<Longrightarrow> i < length ds \<Longrightarrow> identified (ds ! i) \<and>
     (\<exists>p. parent_of (ds ! i) = Some p \<and> (p \<in> known \<or> (\<exists>j < i. doc_id (ds ! j) = p)))"
proof (induction ds arbitrary: known i)
  case (Cons d ds)
  show ?case
  proof (cases i)
    case 0
    with Cons.prems(1) show ?thesis by auto
  next
    case (Suc k)
    with Cons.prems have "linked (insert (doc_id d) known) ds" "k < length ds" by simp_all
    from Cons.IH [OF this] Suc show ?thesis by (auto 0 3 intro: exI [of _ 0] exI [of _ "Suc _"])
  qed
qed simp

lemma iter_ead_docs_linked:
  assumes "iter_ead_docs el = d # ds"
  shows "linked {doc_id d} ds" "identified d" "parent_of d = None"
proof -
  obtain a where a: "ead_archdesc el = Some a"
    using assms by (cases "ead_archdesc el") (simp_all add: iter_ead_docs_def)
  obtain repo lvl where e: "iter_ead_docs el = (case component_to_doc a None ''archdesc-root'' lvl repo of
      None \<Rightarrow> [] | Some d \<Rightarrow> d # (case find_child ''dsc'' a of None \<Rightarrow> []
        | Some dsc \<Rightarrow> fst (walk repo (doc_id d) 0 (x_children dsc))))"
    by (simp add: iter_ead_docs_def a Let_def)
  with assms have c: "component_to_doc a None ''archdesc-root'' lvl repo = Some d"
    by (cases "component_to_doc a None ''archdesc-root'' lvl repo") simp_all
  with e assms have "ds = (case find_child ''dsc'' a of None \<Rightarrow> []
      | Some dsc \<Rightarrow> fst (walk repo (doc_id d) 0 (x_children dsc)))" by simp
  then show "linked {doc_id d} ds"
    using walk_linked [OF component_doc(2) [OF c]] by (simp split: option.split)
  show "identified d" "parent_of d = None" using component_doc(1,3) [OF c] by (simp_all add: opt_text_def)
qed

lemma linked_identified: "linked known ds \<Longrightarrow> d \<in> set ds \<Longrightarrow> identified d"
  by (induction ds arbitrary: known) auto

lemma ead_docs_identified: "d \<in> set (iter_ead_docs el) \<Longrightarrow> identified d"
  using iter_ead_docs_linked [of el] linked_identified by (cases "iter_ead_docs el") auto


section \<open>A concrete finding aid\<close>

definition leaf :: "string \<Rightarrow> string \<Rightarrow> xml" where
  "leaf t s = Elem t [] (Some s) [] None"

definition node :: "string \<Rightarrow> xml list \<Rightarrow> xml" where
  "node t cs = Elem t [] None cs None"

definition demo_aid :: xml where
  "demo_aid = node ''ead'' [node ''archdesc''
     [node ''did'' [leaf ''unitid'' ''F1''],
      node ''dsc'' [node ''c'' [node ''did'' [leaf ''unitid'' ''F1-1''], node ''c'' [node ''did'' []]]]]]"

lemma demo_aid_docs: "map doc_id (iter_ead_docs demo_aid) = [''F1'', ''F1-1'', ''F1-1-'' @ str_of_nat 2]"
  by (simp add: demo_aid_def node_def leaf_def iter_ead_docs_def ead_archdesc_def local_def find_child_def find_local_def
      component_to_doc_def Let_def best_id_def ead_text_def opt_text_def py_strip_def strip_by_def rstrip_by_def is_space_def
      x_attr_def x_get_def xml_id_def or_text_def doc_id_def component_tags_def upt_rec
      ns_tag_def)


end
