(* ===== verification/Oai_Import.thy ===== *)
theory Oai_Import
  imports Ingest Py_Xml
begin

text \<open>
  \<^verbatim>\<open>app/importers/oaipmh.py\<close>: the Dublin Core mapping, the \<open>Identify\<close> request and the harvest that
  follows resumption tokens. The HTTP client is an argument, with a state of its own; a record
  parser returns the documents of a record, none for a skipped one. The dash of one error
  message, which is not a Latin-1 character, is written as two hyphens.
\<close>

definition oai :: "string \<Rightarrow> string" where
  "oai t = ns_tag ''http://www.openarchives.org/OAI/2.0/'' t"

definition dc_ns :: string where
  "dc_ns = ''http://purl.org/dc/elements/1.1/''"

definition dc :: "string \<Rightarrow> string" where
  "dc t = ns_tag dc_ns t"

definition oai_dc :: "string \<Rightarrow> string" where
  "oai_dc t = ns_tag ''http://www.openarchives.org/OAI/2.0/oai_dc/'' t"

section \<open>Dublin Core\<close>

definition looks_like_iiif_manifest :: "string \<Rightarrow> bool" where
  "looks_like_iiif_manifest v =
     (let lower = py_lower v in
      contains_str ''/iiif/'' lower \<or> ends_with ''/manifest'' lower \<or> contains_str ''manifest.json'' lower)"

text \<open>
  The Dublin Core element. The first alternative is \<open>a or b\<close> on elements: an element without
  children is false, so an empty \<open>oai_dc:dc\<close> gives way to the second one.
\<close>

definition dc_root_of :: "xml \<Rightarrow> xml option" where
  "dc_root_of md =
     (let direct = (case find_first [oai_dc ''dc''] md of
            Some e \<Rightarrow> if x_children e \<noteq> [] then Some e else find_first [''dc''] md
          | None \<Rightarrow> find_first [''dc''] md) in
      case direct of
        Some e \<Rightarrow> Some e
      | None \<Rightarrow> find (\<lambda>child. \<exists>c \<in> set (x_children child). starts_with (''{'' @ dc_ns) (x_tag c)) (x_children md))"

definition first_entry :: "string \<Rightarrow> string list \<Rightarrow> (string \<times> json) list" where
  "first_entry k vs = (case vs of [] \<Rightarrow> [] | v # _ \<Rightarrow> [(k, JStr v)])"

definition dc_entries :: "xml \<Rightarrow> (string \<times> json) list" where
  "dc_entries r =
     (let identifiers = all_texts [dc ''identifier''] r;
          descriptions = all_texts [dc ''description''] r;
          types = all_texts [dc ''type''] r in
      first_entry ''id'' identifiers
      @ entry_if (1 < length identifiers) ''identifiers'' (JList (map JStr identifiers))
      @ first_entry ''iiif_manifest'' (filter looks_like_iiif_manifest identifiers)
      @ first_entry ''title'' (all_texts [dc ''title''] r)
      @ entry_if (descriptions \<noteq> []) ''description'' (JStr (join blank_line descriptions))
      @ strs_entry ''creators'' (all_texts [dc ''creator''] r)
      @ strs_entry ''subject'' (all_texts [dc ''subject''] r)
      @ first_entry ''date'' (all_texts [dc ''date''] r)
      @ [(''type'', JStr (case types of [] \<Rightarrow> ''record'' | t # _ \<Rightarrow> t))]
      @ first_entry ''language'' (all_texts [dc ''language''] r)
      @ first_entry ''publisher'' (all_texts [dc ''publisher''] r)
      @ first_entry ''rights'' (all_texts [dc ''rights''] r))"

definition child_text :: "string \<Rightarrow> xml \<Rightarrow> string" where
  "child_text t el = (case find_first [oai t] el of None \<Rightarrow> [] | Some e \<Rightarrow> own_text e)"

definition dc_part :: "xml option \<Rightarrow> (string \<times> json) list" where
  "dc_part metadata = (case metadata of None \<Rightarrow> []
     | Some md \<Rightarrow> (case dc_root_of md of None \<Rightarrow> [] | Some r \<Rightarrow> dc_entries r))"

text \<open>The identifier of the header stands in for a missing one, and \<open>record\<close> for a missing type.\<close>

definition with_fallbacks :: "string \<Rightarrow> (string \<times> json) list \<Rightarrow> (string \<times> json) list" where
  "with_fallbacks header_identifier doc0 =
     (let doc1 = doc0 @ entry_if (dict_get doc0 ''id'' = None \<and> header_identifier \<noteq> []) ''id'' (JStr header_identifier) in
      doc1 @ entry_if (dict_get doc1 ''type'' = None) ''type'' (JStr ''record''))"

definition dc_record_to_doc :: "xml \<Rightarrow> xml option \<Rightarrow> doc option" where
  "dc_record_to_doc header metadata =
     (if py_strip (x_attr header ''status'') = ''deleted'' then None
      else (let doc = with_fallbacks (child_text ''identifier'' header) (dc_part metadata) in
            if dict_get doc ''id'' = None then None else Some doc))"

section \<open>Requests\<close>

datatype fetch_outcome =
    FetchError string \<comment> \<open>httpx.HTTPError, by its text\<close>
  | FetchRaised string \<comment> \<open>any other exception\<close>
  | Fetched string

type_synonym 'h http_get = "'h \<Rightarrow> (string \<times> string) list \<Rightarrow> 'h \<times> fetch_outcome"

definition oai_error :: "string \<Rightarrow> (string \<times> json) list \<Rightarrow> py_exc" where
  "oai_error msg extra = ExApp (AppError ''backend_unavailable'' msg ((''scope'', JStr ''oaipmh'') # extra) 502)"

definition parse_response :: "(string \<Rightarrow> string + xml) \<Rightarrow> string \<Rightarrow> py_exc + xml" where
  "parse_response fromstring body =
     (case fromstring body of
        Inl e \<Rightarrow> Inl (oai_error (''OAI-PMH response is not valid XML: '' @ e) [])
      | Inr el \<Rightarrow> Inr el)"

definition detect_oaipmh_error :: "xml \<Rightarrow> py_exc + unit" where
  "detect_oaipmh_error el =
     (case find_first [oai ''error''] el of
        None \<Rightarrow> Inr ()
      | Some e \<Rightarrow>
          (let code = py_strip (if x_attr e ''code'' = [] then ''error'' else x_attr e ''code'') in
           Inl (oai_error (''OAI-PMH server returned an error: '' @ code @ '' -- '' @ own_text e)
             [(''oai_error'', JStr code)])))"

definition identify ::
  "(string \<Rightarrow> string + xml) \<Rightarrow> 'h http_get \<Rightarrow> string \<Rightarrow> 'h \<Rightarrow> 'h \<times> (py_exc + (string \<times> string) list)"
where
  "identify fromstring get url h =
     (case get h [(''verb'', ''Identify'')] of
        (h', FetchError e) \<Rightarrow> (h', Inl (oai_error (''Could not reach OAI-PMH endpoint: '' @ e) [(''url'', JStr url)]))
      | (h', FetchRaised e) \<Rightarrow> (h', Inl (ExRaw e))
      | (h', Fetched body) \<Rightarrow> (h',
          bind_r (parse_response fromstring body) (\<lambda>el.
          bind_r (detect_oaipmh_error el) (\<lambda>_.
            case find_first [oai ''Identify''] el of
              None \<Rightarrow> Inl (oai_error ''OAI-PMH response did not contain an Identify block.'' [])
            | Some info \<Rightarrow> Inr
                [(''repository_name'', child_text ''repositoryName'' info), (''base_url'', child_text ''baseURL'' info),
                 (''protocol_version'', child_text ''protocolVersion'' info),
                 (''earliest_datestamp'', child_text ''earliestDatestamp'' info),
                 (''granularity'', child_text ''granularity'' info)]))))"

section \<open>Harvesting\<close>

type_synonym record_parser = "xml \<Rightarrow> xml option \<Rightarrow> py_exc + doc list"

text \<open>The records of a page: the documents up to the first record whose parser raises.\<close>

fun parse_records :: "record_parser \<Rightarrow> xml list \<Rightarrow> doc_stream" where
  "parse_records parser [] = ([], None)"
| "parse_records parser (r # rs) =
     (case find_first [oai ''header''] r of
        None \<Rightarrow> parse_records parser rs
      | Some header \<Rightarrow>
          (case parser header (find_first [oai ''metadata''] r) of
             Inl e \<Rightarrow> ([], Some e)
           | Inr ds \<Rightarrow> (case parse_records parser rs of (docs, stop) \<Rightarrow> (ds @ docs, stop))))"

text \<open>One response: its documents, the exception that ends the harvest, the token to go on with.\<close>

definition harvest_page ::
  "(string \<Rightarrow> string + xml) \<Rightarrow> record_parser \<Rightarrow> string \<Rightarrow> doc list \<times> py_exc option \<times> string option"
where
  "harvest_page fromstring parser body =
     (case bind_r (parse_response fromstring body) (\<lambda>el. bind_r (detect_oaipmh_error el) (\<lambda>_. Inr el)) of
        Inl e \<Rightarrow> ([], Some e, None)
      | Inr el \<Rightarrow>
          (case find_first [oai ''ListRecords''] el of
             None \<Rightarrow> ([], None, None)
           | Some lr \<Rightarrow>
               (case parse_records parser (find_all [oai ''record''] lr) of
                  (docs, Some e) \<Rightarrow> (docs, Some e, None)
                | (docs, None) \<Rightarrow>
                    (let token = child_text ''resumptionToken'' lr in
                     (docs, None, if token = [] then None else Some token)))))"

definition resume_params :: "string \<Rightarrow> (string \<times> string) list" where
  "resume_params token = [(''verb'', ''ListRecords''), (''resumptionToken'', token)]"

text \<open>\<open>for page_index in range(max_pages)\<close>: \<open>page\<close> is the index, \<open>left\<close> the iterations left.\<close>

fun harvest_loop ::
  "(string \<Rightarrow> string + xml) \<Rightarrow> 'h http_get \<Rightarrow> record_parser \<Rightarrow> string \<Rightarrow> nat \<Rightarrow> nat \<Rightarrow> nat \<Rightarrow> 'h \<Rightarrow> (string \<times> string) list \<Rightarrow>
     'h \<times> doc_stream"
where
  "harvest_loop fromstring get parser url max_pages page 0 h params =
     (h, [], Some (oai_error (''OAI-PMH pagination exceeded '' @ str_of_nat max_pages @ '' pages; aborting.'')
       [(''max_pages'', JInt (int max_pages))]))"
| "harvest_loop fromstring get parser url max_pages page (Suc left) h params =
     (case get h params of
        (h', FetchError e) \<Rightarrow> (h', [], Some (oai_error
          (''OAI-PMH fetch failed on page '' @ str_of_nat (page + 1) @ '': '' @ e) [(''url'', JStr url)]))
      | (h', FetchRaised e) \<Rightarrow> (h', [], Some (ExRaw e))
      | (h', Fetched body) \<Rightarrow>
          (case harvest_page fromstring parser body of
             (docs, stop, None) \<Rightarrow> (h', docs, stop)
           | (docs, stop, Some token) \<Rightarrow>
               (case harvest_loop fromstring get parser url max_pages (page + 1) left h' (resume_params token) of
                  (h'', later_docs, stop') \<Rightarrow> (h'', docs @ later_docs, stop'))))"

definition list_params :: "string \<Rightarrow> string option \<Rightarrow> (string \<times> string) list" where
  "list_params metadata_prefix set_spec =
     [(''verb'', ''ListRecords''), (''metadataPrefix'', metadata_prefix)]
     @ (if is_set set_spec then [(''set'', the set_spec)] else [])"

definition iter_records ::
  "(string \<Rightarrow> string + xml) \<Rightarrow> 'h http_get \<Rightarrow> record_parser \<Rightarrow> string \<Rightarrow> string \<Rightarrow> string option \<Rightarrow> nat \<Rightarrow> 'h \<Rightarrow>
     'h \<times> doc_stream"
where
  "iter_records fromstring get parser url metadata_prefix set_spec max_pages h =
     harvest_loop fromstring get parser url max_pages 0 max_pages h (list_params metadata_prefix set_spec)"

text \<open>\<open>ingest\<close>: an AppError gives its message, any other exception its text.\<close>

definition oai_ingest ::
  "(string \<Rightarrow> string + xml) \<Rightarrow> 'h http_get \<Rightarrow> record_parser \<Rightarrow> 'b sink \<Rightarrow> nat \<Rightarrow> string \<Rightarrow> string \<Rightarrow> string option \<Rightarrow>
     nat \<Rightarrow> 'h \<Rightarrow> 'b \<Rightarrow> 'h \<times> 'b \<times> import_result"
where
  "oai_ingest fromstring get parser bulk chunk_size url metadata_prefix set_spec max_pages h b =
     (case iter_records fromstring get parser url metadata_prefix set_spec max_pages h of (h', s) \<Rightarrow>
        (case ingest_stream bulk chunk_size b s of (b', ing, fl, stop) \<Rightarrow>
           (h', b', \<lparr>im_ingested = ing, im_failed = fl,
             im_error = (case stop of None \<Rightarrow> None
               | Some (ExApp e) \<Rightarrow> Some (ae_message e)
               | Some e \<Rightarrow> Some (if exc_text e = [] then exc_class e else exc_text e))\<rparr>)))"

section \<open>How long a harvest runs and what it returns\<close>

text \<open>The client with a log of the requests it was given.\<close>

definition counting :: "'h http_get \<Rightarrow> ('h \<times> (string \<times> string) list list) http_get" where
  "counting get = (\<lambda>(h, lg) params. case get h params of (h', r) \<Rightarrow> ((h', lg @ [params]), r))"

lemma harvest_loop_requests:
  "\<exists>new. snd (fst (harvest_loop fromstring (counting get) parser url mp page left (h, lg) params)) = lg @ new \<and>
     length new \<le> left"
proof (induction left arbitrary: h lg page params)
  case (Suc left)
  obtain h1 r where g: "get h params = (h1, r)" by (cases "get h params")
  then have c: "counting get (h, lg) params = ((h1, lg @ [params]), r)" by (simp add: counting_def)
  show ?case
  proof (cases r)
    case (Fetched body)
    obtain docs stop nxt where p: "harvest_page fromstring parser body = (docs, stop, nxt)"
      by (cases "harvest_page fromstring parser body") auto
    show ?thesis
    proof (cases nxt)
      case None
      then show ?thesis by (simp add: c Fetched p)
    next
      case (Some token)
      obtain new where "snd (fst (harvest_loop fromstring (counting get) parser url mp (page + 1) left
          (h1, lg @ [params]) (resume_params token))) = (lg @ [params]) @ new" "length new \<le> left"
        using Suc.IH by blast
      then show ?thesis by (intro exI [of _ "params # new"]) (auto simp: c Fetched p Some split: prod.split)
    qed
  qed (simp_all add: c)
qed simp

text \<open>
  \<open>delivers h params pages\<close>: asked with \<open>params\<close>, the server sends the pages one after the other, each
  but the last with a token for the next, and no request or record fails.
\<close>

fun delivers ::
  "(string \<Rightarrow> string + xml) \<Rightarrow> 'h http_get \<Rightarrow> record_parser \<Rightarrow> 'h \<Rightarrow> (string \<times> string) list \<Rightarrow> doc list list \<Rightarrow> bool"
where
  "delivers fromstring get parser h params [] = False"
| "delivers fromstring get parser h params (p # ps) =
     (case get h params of
        (h', Fetched body) \<Rightarrow>
          (case harvest_page fromstring parser body of
             (docs, None, None) \<Rightarrow> docs = p \<and> ps = []
           | (docs, None, Some token) \<Rightarrow> docs = p \<and> delivers fromstring get parser h' (resume_params token) ps
           | _ \<Rightarrow> False)
      | _ \<Rightarrow> False)"

lemma page_token: "harvest_page fromstring parser body = (docs, Some e, nxt) \<Longrightarrow> nxt = None"
  by (auto simp: harvest_page_def Let_def split: sum.split_asm option.split_asm prod.split_asm)

lemma harvest_loop_exact:
  "(\<exists>h'. harvest_loop fromstring get parser url mp page left h params = (h', docs, None)) \<longleftrightarrow>
     (\<exists>pages. delivers fromstring get parser h params pages \<and> length pages \<le> left \<and> concat pages = docs)"
proof (induction left arbitrary: h page params docs)
  case (Suc left)
  obtain h1 r where g: "get h params = (h1, r)" by (cases "get h params")
  have D: "delivers fromstring get parser h params pages \<longleftrightarrow> (\<exists>p ps. pages = p # ps \<and>
      delivers fromstring get parser h params (p # ps))" for pages
    by (cases pages) simp_all
  show ?case
  proof (cases r)
    case (Fetched body)
    obtain ds stop nxt where p: "harvest_page fromstring parser body = (ds, stop, nxt)"
      by (cases "harvest_page fromstring parser body") auto
    show ?thesis
    proof (cases nxt)
      case None
      then show ?thesis by (subst D) (cases stop; auto simp: g Fetched p intro: exI [of _ "[]"])
    next
      case (Some token)
      then have "stop = None" using p page_token [of fromstring parser body ds _ nxt] by (cases stop) auto
      have "(\<exists>h'. harvest_loop fromstring get parser url mp page (Suc left) h params = (h', docs, None)) \<longleftrightarrow>
          (\<exists>ld. (\<exists>h'. harvest_loop fromstring get parser url mp (page + 1) left h1 (resume_params token) = (h', ld, None)) \<and>
             docs = ds @ ld)"
        by (auto simp: g Fetched p Some split: prod.split)
      also have "\<dots> \<longleftrightarrow> (\<exists>pages. delivers fromstring get parser h1 (resume_params token) pages \<and>
          length pages \<le> left \<and> docs = ds @ concat pages)"
        unfolding Suc.IH by auto
      also have "\<dots> \<longleftrightarrow> (\<exists>pages. delivers fromstring get parser h params pages \<and> length pages \<le> Suc left \<and>
          concat pages = docs)"
        by (subst D) (auto simp: g Fetched p Some \<open>stop = None\<close>)
      finally show ?thesis .
    qed
  next
    case (FetchError e)
    then show ?thesis by (subst D) (simp add: g)
  next
    case (FetchRaised e)
    then show ?thesis by (subst D) (simp add: g)
  qed
qed (auto elim: delivers.elims)

text \<open>
  C17. A harvest always ends, and says honestly how: whatever the server answers, at most
  \<open>max_pages\<close> requests are made; and it ends without an error exactly when the server delivers its
  chain of pages to the end within that many, and then yields precisely their documents, in order.
\<close>

theorem harvest_terminates_exactly:
  "length (snd (fst (iter_records fromstring (counting get) parser url mprefix set_spec max_pages (h, [])))) \<le> max_pages \<and>
   ((\<exists>h'. iter_records fromstring get parser url mprefix set_spec max_pages h = (h', docs, None)) \<longleftrightarrow>
     (\<exists>pages. delivers fromstring get parser h (list_params mprefix set_spec) pages \<and> length pages \<le> max_pages \<and>
        concat pages = docs))"
proof -
  obtain new where "snd (fst (harvest_loop fromstring (counting get) parser url max_pages 0 max_pages (h, [])
      (list_params mprefix set_spec))) = [] @ new" "length new \<le> max_pages"
    using harvest_loop_requests [of fromstring get parser url max_pages 0 max_pages h "[]" "list_params mprefix set_spec"]
    by (elim exE conjE) (rule that)
  then show ?thesis
    unfolding iter_records_def by (intro conjI harvest_loop_exact) simp
qed

section \<open>Every document is identified\<close>

lemma all_texts_nonempty: "t \<in> set (all_texts ts el) \<Longrightarrow> t \<noteq> []"
  by (simp add: all_texts_def)

lemma map_of_first_entry [simp]:
  "map_of (first_entry k vs) k' = (if k' = k \<and> vs \<noteq> [] then Some (JStr (hd vs)) else None)"
  by (cases vs) (simp_all add: first_entry_def)

lemma map_of_strs_entry [simp]:
  "map_of (strs_entry k vs) k' = (if k' = k \<and> vs \<noteq> [] then Some (JList (map JStr vs)) else None)"
  by (simp add: strs_entry_def)

lemma dc_entries_get:
  "map_of (dc_entries r) ''id'' =
     (if all_texts [dc ''identifier''] r = [] then None else Some (JStr (hd (all_texts [dc ''identifier''] r))))"
  "\<exists>t. map_of (dc_entries r) ''type'' = Some (JStr t)"
  by (simp_all add: dc_entries_def Let_def map_add_def)

lemma with_fallbacks_identified:
  assumes "map_of doc0 ''id'' = None \<or> (\<exists>i. map_of doc0 ''id'' = Some (JStr i) \<and> i \<noteq> [])"
    and "map_of doc0 ''type'' = None \<or> (\<exists>t. map_of doc0 ''type'' = Some (JStr t))"
    and "map_of (with_fallbacks hid doc0) ''id'' \<noteq> None"
  shows "identified (with_fallbacks hid doc0)"
  using assms by (auto simp: identified_def with_fallbacks_def Let_def map_add_def split: if_split_asm)

lemma dc_doc_identified:
  assumes "dc_record_to_doc header metadata = Some d" shows "identified d"
proof -
  have d: "d = with_fallbacks (child_text ''identifier'' header) (dc_part metadata)" "map_of d ''id'' \<noteq> None"
    using assms by (simp_all add: dc_record_to_doc_def Let_def split: if_split_asm)
  have "dc_part metadata = [] \<or> (\<exists>r. dc_part metadata = dc_entries r)"
    by (auto simp: dc_part_def split: option.split)
  then have "(map_of (dc_part metadata) ''id'' = None \<or> (\<exists>i. map_of (dc_part metadata) ''id'' = Some (JStr i) \<and> i \<noteq> [])) \<and>
      (map_of (dc_part metadata) ''type'' = None \<or> (\<exists>t. map_of (dc_part metadata) ''type'' = Some (JStr t)))"
    using dc_entries_get all_texts_nonempty [OF hd_in_set] by (elim disjE exE) auto
  with d show ?thesis using with_fallbacks_identified by blast
qed

end
