(* ===== verification/Csv_Import.thy ===== *)
theory Csv_Import
  imports Ingest Py_Text
begin

text \<open>
  \<^verbatim>\<open>app/importers/csv_importer.py\<close>. \<open>csv.reader\<close> is the state machine of the standard library for the
  dialects that occur (no escape character, not strict, minimal quoting; fields within the
  library's size limit). \<open>csv.Sniffer\<close>, whose heuristics guess the dialect from a sample, is an
  argument: any dialect, or \<open>None\<close> for the \<open>csv.Error\<close> that falls back to \<open>excel\<close>. So is the decoding
  of the bytes.
\<close>

section \<open>The reader\<close>

record csv_dialect =
  cd_delimiter :: char
  cd_quotechar :: char
  cd_doublequote :: bool
  cd_skipinitialspace :: bool

definition excel :: csv_dialect where
  "excel = \<lparr>cd_delimiter = CHR '','', cd_quotechar = CHR 0x22, cd_doublequote = True, cd_skipinitialspace = False\<rparr>"

definition detect_dialect :: "(string \<Rightarrow> csv_dialect option) \<Rightarrow> string \<Rightarrow> csv_dialect" where
  "detect_dialect sniff sample = (case sniff sample of Some d \<Rightarrow> d | None \<Rightarrow> excel)"

datatype csv_state = StartField | InField | InQuoted | QuoteInQuoted

text \<open>State, the field so far (reversed) and the fields of the row so far (reversed).\<close>

type_synonym csv_cursor = "csv_state \<times> string \<times> string list"

definition csv_step :: "csv_dialect \<Rightarrow> csv_cursor \<Rightarrow> char \<Rightarrow> csv_cursor" where
  "csv_step d = (\<lambda>(st, fld, row) c.
     case st of
       StartField \<Rightarrow>
         if c = cd_quotechar d then (InQuoted, fld, row)
         else if c = CHR '' '' \<and> cd_skipinitialspace d then (StartField, fld, row)
         else if c = cd_delimiter d then (StartField, [], rev fld # row)
         else (InField, c # fld, row)
     | InField \<Rightarrow>
         if c = cd_delimiter d then (StartField, [], rev fld # row) else (InField, c # fld, row)
     | InQuoted \<Rightarrow>
         if c = cd_quotechar d then (if cd_doublequote d then QuoteInQuoted else InField, fld, row)
         else (InQuoted, c # fld, row)
     | QuoteInQuoted \<Rightarrow>
         if c = cd_quotechar d then (InQuoted, c # fld, row)
         else if c = cd_delimiter d then (StartField, [], rev fld # row)
         else (InField, c # fld, row))"

text \<open>
  The rows of a list of lines. \<open>Some cur\<close> is a row that a quoted field carries over from the line
  before; nothing stands for the line break between them. A row that the input ends in is
  returned.
\<close>

fun csv_rows :: "csv_dialect \<Rightarrow> csv_cursor option \<Rightarrow> string list \<Rightarrow> string list list" where
  "csv_rows d None [] = []"
| "csv_rows d (Some (st, fld, row)) [] = [rev (rev fld # row)]"
| "csv_rows d None (l # ls) =
     (if l = [] then [] # csv_rows d None ls
      else (case foldl (csv_step d) (StartField, [], []) l of (st, fld, row) \<Rightarrow>
        if st = InQuoted then csv_rows d (Some (st, fld, row)) ls
        else rev (rev fld # row) # csv_rows d None ls))"
| "csv_rows d (Some cur) (l # ls) =
     (case foldl (csv_step d) cur l of (st, fld, row) \<Rightarrow>
        if st = InQuoted then csv_rows d (Some (st, fld, row)) ls
        else rev (rev fld # row) # csv_rows d None ls)"

section \<open>Documents\<close>

definition always_list :: "string list" where
  "always_list = [''creators'', ''subject'', ''subjects'', ''authors'', ''identifiers'', ''languages'']"

definition split_cell :: "string \<Rightarrow> string \<Rightarrow> string \<Rightarrow> json" where
  "split_cell column raw0 list_separator =
     (let raw = py_strip raw0 in
      if raw = [] then JStr []
      else if column \<in> set always_list \<or> contains_str list_separator raw
      then (let parts = filter (\<lambda>p. p \<noteq> []) (map py_strip (split_str list_separator raw)) in
        if column \<in> set always_list then JList (map JStr parts)
        else (case parts of [p] \<Rightarrow> JStr p | _ \<Rightarrow> JList (map JStr parts)))
      else JStr raw)"

definition is_id_column :: "string \<Rightarrow> bool" where
  "is_id_column h \<longleftrightarrow> py_lower h = ''id''"

definition cell_step :: "string \<Rightarrow> string \<Rightarrow> doc \<Rightarrow> string \<times> string \<Rightarrow> doc" where
  "cell_step list_separator row_id doc = (\<lambda>(column, cell).
     if column = [] then doc
     else if is_id_column column then dict_set ''id'' (JStr row_id) doc
     else (let v = split_cell column cell list_separator in
       if v = JStr [] then doc else dict_set column v doc))"

definition row_to_doc :: "string \<Rightarrow> string list \<Rightarrow> nat \<Rightarrow> string list \<Rightarrow> doc option" where
  "row_to_doc list_separator header id_index row0 =
     (if row0 = [] \<or> (\<forall>cell \<in> set row0. py_strip cell = []) then None
      else (let row = row0 @ replicate (length header - length row0) [];
                row_id = py_strip (row ! id_index) in
        if row_id = [] then None
        else (let doc = foldl (cell_step list_separator row_id) [] (zip header row) in
          Some (if dict_get doc ''type'' = None then doc @ [(''type'', JStr ''record'')] else doc))))"

text \<open>\<open>text\<close> is \<open>data.decode("utf-8-sig", errors="replace")\<close>.\<close>

definition parse_csv_text :: "(string \<Rightarrow> csv_dialect option) \<Rightarrow> string \<Rightarrow> string \<Rightarrow> doc_stream" where
  "parse_csv_text sniff list_separator txt =
     (if py_strip txt = [] then ([], None)
      else (case csv_rows (detect_dialect sniff (take 4096 txt)) None (splitlines txt) of
         [] \<Rightarrow> ([], None)
       | header0 # rows \<Rightarrow>
           (let header = map py_strip header0 in
            if \<not> (\<exists>h \<in> set header. is_id_column h)
            then ([], Some (ExApp (AppError ''backend_unavailable''
              ''CSV file must have a column named 'id' (any case).''
              [(''scope'', JStr ''csv''), (''columns'', JList (map JStr header))] 400)))
            else (let id_index = length (takeWhile (\<lambda>h. \<not> is_id_column h) header) in
              (List.map_filter (row_to_doc list_separator header id_index) rows, None)))))"

definition ingest_csv_file ::
  "(string \<Rightarrow> string) \<Rightarrow> (string \<Rightarrow> csv_dialect option) \<Rightarrow> file_system \<Rightarrow> 'b sink \<Rightarrow> string \<Rightarrow> nat \<Rightarrow> 'b \<Rightarrow> string \<Rightarrow>
     'b \<times> (py_exc + import_result)"
where
  "ingest_csv_file decode sniff fs bulk list_separator chunk_size b path =
     file_ingest ''CSV'' (\<lambda>data. parse_csv_text sniff list_separator (decode data)) fs bulk chunk_size b path"

section \<open>Writing and reading a table\<close>

text \<open>A writer that quotes every cell and doubles the quotes inside.\<close>

definition quote_cell :: "csv_dialect \<Rightarrow> string \<Rightarrow> string" where
  "quote_cell d s = [cd_quotechar d] @ concat (map (\<lambda>c. if c = cd_quotechar d then [c, c] else [c]) s) @ [cd_quotechar d]"

definition write_row :: "csv_dialect \<Rightarrow> string list \<Rightarrow> string" where
  "write_row d cells = join [cd_delimiter d] (map (quote_cell d) cells)"

definition write_table :: "csv_dialect \<Rightarrow> string list list \<Rightarrow> string" where
  "write_table d rows = concat (map (\<lambda>r. write_row d r @ [CHR 0x0A]) rows)"

lemma csv_step_simps [simp]:
  "csv_step d (StartField, f, r) c =
     (if c = cd_quotechar d then (InQuoted, f, r)
      else if c = CHR '' '' \<and> cd_skipinitialspace d then (StartField, f, r)
      else if c = cd_delimiter d then (StartField, [], rev f # r) else (InField, c # f, r))"
  "csv_step d (InField, f, r) c = (if c = cd_delimiter d then (StartField, [], rev f # r) else (InField, c # f, r))"
  "csv_step d (InQuoted, f, r) c =
     (if c = cd_quotechar d then (if cd_doublequote d then QuoteInQuoted else InField, f, r) else (InQuoted, c # f, r))"
  "csv_step d (QuoteInQuoted, f, r) c =
     (if c = cd_quotechar d then (InQuoted, c # f, r)
      else if c = cd_delimiter d then (StartField, [], rev f # r) else (InField, c # f, r))"
  by (simp_all add: csv_step_def)

lemma quoted_run:
  assumes "cd_doublequote d"
  shows "foldl (csv_step d) (InQuoted, fld, row) (concat (map (\<lambda>c. if c = cd_quotechar d then [c, c] else [c]) s)) =
    (InQuoted, rev s @ fld, row)"
  by (induction s arbitrary: fld) (simp_all add: assms)

lemma quoted_cell:
  assumes "cd_doublequote d"
  shows "foldl (csv_step d) (StartField, [], row) (quote_cell d s) = (QuoteInQuoted, rev s, row)"
  using assms by (simp add: quote_cell_def quoted_run)

lemma written_row:
  assumes "cd_doublequote d" "cd_delimiter d \<noteq> cd_quotechar d" "cells \<noteq> []"
  shows "foldl (csv_step d) (StartField, [], row) (write_row d cells) =
    (QuoteInQuoted, rev (last cells), rev (butlast cells) @ row)"
  using assms(3)
proof (induction cells arbitrary: row rule: list_nonempty_induct)
  case (single x)
  then show ?case by (simp add: write_row_def quoted_cell [OF assms(1)])
next
  case (cons x xs)
  obtain y ys where "xs = y # ys" using cons.hyps by (cases xs) auto
  then have "write_row d (x # xs) = quote_cell d x @ [cd_delimiter d] @ write_row d xs"
    by (simp add: write_row_def)
  then show ?case
    using cons.IH [of "x # row"] cons.hyps assms(2) by (simp add: quoted_cell [OF assms(1)])
qed

definition writable :: "csv_dialect \<Rightarrow> string list list \<Rightarrow> bool" where
  "writable d rows \<longleftrightarrow>
     cd_doublequote d \<and> cd_delimiter d \<noteq> cd_quotechar d \<and> \<not> line_break (cd_delimiter d) \<and> \<not> line_break (cd_quotechar d) \<and>
     (\<forall>r \<in> set rows. r \<noteq> [] \<and> (\<forall>s \<in> set r. \<forall>c \<in> set s. \<not> line_break c))"

lemma set_join: "set (join sep xs) \<subseteq> set sep \<union> \<Union> (set (map set xs))"
  by (induction sep xs rule: join.induct) auto

lemma quote_cell_chars: "c \<in> set (quote_cell d s) \<Longrightarrow> c = cd_quotechar d \<or> c \<in> set s"
  by (auto simp: quote_cell_def split: if_split_asm)

lemma write_row_clean:
  "writable d rows \<Longrightarrow> r \<in> set rows \<Longrightarrow> c \<in> set (write_row d r) \<Longrightarrow> \<not> line_break c"
  using set_join [of "[cd_delimiter d]" "map (quote_cell d) r"]
  by (fastforce simp: write_row_def writable_def dest: quote_cell_chars)

lemma write_row_ne: "r \<noteq> [] \<Longrightarrow> write_row d r \<noteq> []"
  by (cases r; cases "tl r") (simp_all add: write_row_def quote_cell_def)

text \<open>
  The reader undoes the writer: a table whose cells hold any characters but line breaks,
  delimiters and quotes included, reads back cell for cell.
\<close>

lemma csv_roundtrip:
  assumes "writable d rows"
  shows "csv_rows d None (splitlines (write_table d rows)) = rows"
proof -
  have "splitlines (write_table d rows) = map (write_row d) rows"
    using splitlines_lines [of "map (write_row d) rows"] write_row_clean [OF assms]
    by (simp add: write_table_def comp_def)
  moreover have "csv_rows d None (map (write_row d) rows) = rows" using assms
  proof (induction rows)
    case (Cons r rows)
    then have "r \<noteq> []" "writable d rows" "cd_doublequote d" "cd_delimiter d \<noteq> cd_quotechar d"
      by (simp_all add: writable_def)
    note W = written_row [OF \<open>cd_doublequote d\<close> \<open>cd_delimiter d \<noteq> cd_quotechar d\<close> \<open>r \<noteq> []\<close>, of "[]"]
    have "rev (last r # rev (butlast r)) = r" using \<open>r \<noteq> []\<close> by simp
    then show ?case using Cons.IH [OF \<open>writable d rows\<close>] write_row_ne [OF \<open>r \<noteq> []\<close>, of d]
      by (simp add: W)
  qed simp
  ultimately show ?thesis by simp
qed

text \<open>
  A written table imports row by row: when the dialect is recognised, some trimmed header cell
  is \<open>id\<close> and the table is not blank, the documents are those of the rows of the table, in order,
  whatever delimiters and quotes the cells hold; no row is an error.
\<close>

lemma csv_table_read:
  assumes "writable d (hdr # rows)" "detect_dialect sniff (take 4096 (write_table d (hdr # rows))) = d"
    and "\<exists>h \<in> set hdr. is_id_column (py_strip h)" "py_strip (write_table d (hdr # rows)) \<noteq> []"
  shows "parse_csv_text sniff sep (write_table d (hdr # rows)) =
    (List.map_filter (row_to_doc sep (map py_strip hdr)
       (length (takeWhile (\<lambda>h. \<not> is_id_column h) (map py_strip hdr)))) rows, None)"
proof -
  have "csv_rows d None (splitlines (write_table d (hdr # rows))) = hdr # rows"
    by (rule csv_roundtrip [OF assms(1)])
  moreover have "\<exists>h \<in> set (map py_strip hdr). is_id_column h" using assms(3) by auto
  ultimately show ?thesis using assms(2,4) by (simp add: parse_csv_text_def Let_def del: set_map)
qed

text \<open>A line break inside a quoted cell disappears, because the text is cut into lines first.\<close>

lemma cell_line_break_lost:
  assumes "\<forall>c \<in> set (a @ b). \<not> line_break c \<and> c \<noteq> CHR 0x22"
  shows "csv_rows excel None (splitlines (write_table excel [[a @ [CHR 0x0A] @ b]])) = [[a @ b]]"
proof -
  have q: "concat (map (\<lambda>c. if c = CHR 0x22 then [c, c] else [c]) s) = s" if "CHR 0x22 \<notin> set s" for s :: string
    using that by (induction s) auto
  have nq: "CHR 0x22 \<notin> set a" "CHR 0x22 \<notin> set b" using assms by auto
  have W: "write_table excel [[a @ [CHR 0x0A] @ b]] = concat (map (\<lambda>l. l @ [CHR 0x0A]) [CHR 0x22 # a, b @ [CHR 0x22]])"
    unfolding write_table_def write_row_def quote_cell_def excel_def
    by (simp add: q nq)
  have S: "splitlines (concat (map (\<lambda>l. l @ [CHR 0x0A]) [CHR 0x22 # a, b @ [CHR 0x22]])) = [CHR 0x22 # a, b @ [CHR 0x22]]"
    by (rule splitlines_lines) (use assms in \<open>auto simp: line_break_def\<close>)
  have run: "foldl (csv_step excel) (InQuoted, fld, row) s = (InQuoted, rev s @ fld, row)"
    if "CHR 0x22 \<notin> set s" for s fld row
    using that by (induction s arbitrary: fld) (auto simp: excel_def)
  have "foldl (csv_step excel) (StartField, [], []) (CHR 0x22 # a) = (InQuoted, rev a, [])"
    using run [OF nq(1), of "[]" "[]"] by (simp add: excel_def)
  moreover have "foldl (csv_step excel) (InQuoted, rev a, []) (b @ [CHR 0x22]) = (QuoteInQuoted, rev b @ rev a, [])"
    using run [OF nq(2), of "rev a" "[]"] by (simp add: excel_def)
  ultimately have "csv_rows excel None [CHR 0x22 # a, b @ [CHR 0x22]] = [[a @ b]]"
    unfolding csv_rows.simps by simp
  then show ?thesis by (simp only: W S)
qed

section \<open>Every document is identified\<close>

lemma cell_steps_get:
  "map_of (foldl (cell_step sep i) doc cells) ''id'' = Some (JStr i) \<or>
     (map_of (foldl (cell_step sep i) doc cells) ''id'' = map_of doc ''id'' \<and> (\<forall>(h, c) \<in> set cells. \<not> is_id_column h))"
proof (induction cells arbitrary: doc)
  case (Cons p cells)
  obtain h c where p: "p = (h, c)" by (cases p)
  have id: "is_id_column ''id''" by (simp add: is_id_column_def lower_char_def)
  consider "is_id_column h" | "\<not> is_id_column h" by blast
  then show ?case
  proof cases
    case 1
    then have "h \<noteq> []" by (auto simp: is_id_column_def)
    then have "map_of (cell_step sep i doc p) ''id'' = Some (JStr i)" using 1 by (simp add: p cell_step_def)
    then show ?thesis using Cons.IH [of "cell_step sep i doc p"] by auto
  next
    case 2
    then have "h \<noteq> ''id''" using id by blast
    then have "map_of (cell_step sep i doc p) ''id'' = map_of doc ''id''" using 2 by (simp add: p cell_step_def Let_def)
    then show ?thesis using Cons.IH [of "cell_step sep i doc p"] 2 p by auto
  qed
qed simp

lemma csv_doc_id:
  assumes "row_to_doc sep header (length (takeWhile (\<lambda>h. \<not> is_id_column h) header)) row = Some d" "\<exists>h \<in> set header. is_id_column h"
  shows "\<exists>i. map_of d ''id'' = Some (JStr i) \<and> i \<noteq> []" "map_of d ''type'' \<noteq> None"
proof -
  let ?k = "length (takeWhile (\<lambda>h. \<not> is_id_column h) header)"
  define r where "r = row @ replicate (length header - length row) []"
  define i where "i = py_strip (r ! ?k)"
  define doc where "doc = foldl (cell_step sep i) [] (zip header r)"
  have d: "i \<noteq> []" "d = (if map_of doc ''type'' = None then doc @ [(''type'', JStr ''record'')] else doc)"
    using assms(1) by (simp_all add: row_to_doc_def r_def i_def doc_def Let_def split: if_split_asm)
  obtain h where h: "h \<in> set header" "is_id_column h" using assms(2) by blast
  have "length header \<le> length r" by (simp add: r_def)
  then have "map fst (zip header r) = header" by (simp add: map_fst_zip_take)
  then obtain c where "(h, c) \<in> set (zip header r)" using h(1) by (metis (no_types, lifting) imageE list.set_map prod.collapse)
  then have "map_of doc ''id'' = Some (JStr i)"
    using cell_steps_get [of sep i "[]" "zip header r"] h(2) by (auto simp: doc_def)
  then show "\<exists>i. map_of d ''id'' = Some (JStr i) \<and> i \<noteq> []" "map_of d ''type'' \<noteq> None"
    using d by (auto simp: map_add_def)
qed

section \<open>A concrete table\<close>

definition demo_table :: "string list list" where
  "demo_table = [['' ID'', ''title''], [''1'', ''a,b'' @ [CHR 0x22]], ['''', ''x'']]"

theorem csv_table_read_witness:
  "parse_csv_text (\<lambda>s. None) ''|'' (write_table excel demo_table) =
     ([[(''id'', JStr ''1''), (''title'', JStr (''a,b'' @ [CHR 0x22])), (''type'', JStr ''record'')]], None)"
proof -
  have w: "writable excel demo_table" by (simp add: writable_def excel_def line_break_def demo_table_def)
  have ne: "py_strip (write_table excel demo_table) \<noteq> []"
    by (simp add: demo_table_def write_table_def write_row_def quote_cell_def excel_def py_strip_def strip_by_def
        rstrip_by_def is_space_def)
  have id: "\<exists>h \<in> set ['' ID'', ''title'']. is_id_column (py_strip h)"
    by code_simp
  have d: "detect_dialect (\<lambda>s. None) x = excel" for x by (simp add: detect_dialect_def)
  note R = csv_table_read [OF w [unfolded demo_table_def] d id ne [unfolded demo_table_def], of "''|''"]
  show ?thesis unfolding demo_table_def R by code_simp
qed

end
