(* ===== verification/Importers.thy ===== *)
theory Importers
  imports Store Marc_Correct Lido_Import Ead_Import Oai_Import Csv_Import
begin

text \<open>
  \<^verbatim>\<open>app/importers/__init__.py\<close>: the dispatcher that every way of running an import goes through. What
  lies outside the program is collected in one record: the XML parser, the HTTP client of a URL,
  the file system, the decoder of CSV files and the dialect sniffer.
\<close>

definition supported_kinds :: "string list" where
  "supported_kinds = [''oaipmh'', ''oaipmh_lido'', ''oaipmh_marcxml'', ''oaipmh_ead'', ''lido_file'', ''marc_file'',
     ''marcxml_file'', ''csv_file'', ''ead_file'']"

definition oaipmh_kinds :: "string list" where
  "oaipmh_kinds = [''oaipmh'', ''oaipmh_lido'', ''oaipmh_marcxml'', ''oaipmh_ead'']"

definition supported_marc_flavors :: "string list" where
  "supported_marc_flavors = [''marc21'', ''unimarc'']"

definition marc_flavor :: "import_source \<Rightarrow> string" where
  "marc_flavor src =
     (let raw = py_lower (py_strip (opt_text (is_metadata_prefix src))) in
      if raw \<in> set supported_marc_flavors then raw else ''marc21'')"

record 'h import_env =
  ie_fromstring :: "string \<Rightarrow> string + xml"
  ie_get :: "string \<Rightarrow> 'h http_get"
  ie_fs :: file_system
  ie_decode :: "string \<Rightarrow> string"
  ie_sniff :: "string \<Rightarrow> csv_dialect option"

definition harvest_max_pages :: nat where "harvest_max_pages = 10000"
definition import_chunk_size :: nat where "import_chunk_size = 500"
definition list_separator :: string where "list_separator = ''|''"

section \<open>The dispatcher\<close>

text \<open>The record parsers as the iterator calls them: a list of documents, or an exception.\<close>

definition one_doc :: "(xml \<Rightarrow> xml option \<Rightarrow> doc option) \<Rightarrow> record_parser" where
  "one_doc p = (\<lambda>hdr md. Inr (case p hdr md of None \<Rightarrow> [] | Some d \<Rightarrow> [d]))"

definition marc_parser :: "string \<Rightarrow> record_parser" where
  "marc_parser flavor = (\<lambda>hdr md. map_r (\<lambda>d. case d of None \<Rightarrow> [] | Some x \<Rightarrow> [x]) (marc_oai_parse flavor hdr md))"

definition ead_parser :: record_parser where
  "ead_parser = (\<lambda>hdr md. Inr (ead_oai_record_to_docs hdr md))"

type_synonym ('h, 'b) import_result_in = "('h \<times> 'b) \<times> (py_exc + import_result)"

definition run_harvest ::
  "'h import_env \<Rightarrow> 'b sink \<Rightarrow> import_source \<Rightarrow> record_parser \<Rightarrow> string \<Rightarrow> string \<Rightarrow> 'h \<times> 'b \<Rightarrow> ('h, 'b) import_result_in"
where
  "run_harvest env bulk src parser url mprefix w =
     (case oai_ingest (ie_fromstring env) (ie_get env url) parser bulk import_chunk_size url mprefix
        (is_set_spec src) harvest_max_pages (fst w) (snd w) of (h, b, r) \<Rightarrow> ((h, b), Inr r))"

definition run_file ::
  "('b \<Rightarrow> string \<Rightarrow> 'b \<times> (py_exc + import_result)) \<Rightarrow> string \<Rightarrow> 'h \<times> 'b \<Rightarrow> ('h, 'b) import_result_in"
where
  "run_file ingest path w = (case ingest (snd w) path of (b, r) \<Rightarrow> ((fst w, b), r))"

definition no_url :: "string \<Rightarrow> string" where
  "no_url kind = (if kind = ''oaipmh'' then ''OAI-PMH source has no URL''
     else if kind = ''oaipmh_lido'' then ''OAI-PMH (LIDO) source has no URL''
     else if kind = ''oaipmh_marcxml'' then ''OAI-PMH (MARCXML) source has no URL''
     else if kind = ''oaipmh_ead'' then ''OAI-PMH (EAD) source has no URL''
     else if kind = ''lido_file'' then ''LIDO file source has no path''
     else if kind = ''marc_file'' then ''MARC file source has no path''
     else if kind = ''marcxml_file'' then ''MARCXML file source has no path''
     else if kind = ''csv_file'' then ''CSV file source has no path''
     else ''EAD file source has no path'')"

definition run_import :: "'h import_env \<Rightarrow> 'b sink \<Rightarrow> import_source \<Rightarrow> 'h \<times> 'b \<Rightarrow> ('h, 'b) import_result_in" where
  "run_import env bulk src w =
     (let kind = is_kind src; url = opt_text (is_url src);
          mprefix = (\<lambda>dflt. or_text (opt_text (is_metadata_prefix src)) dflt);
          fs = ie_fs env; n = import_chunk_size in
      if kind \<notin> set supported_kinds then (w, Inl (ExRaw (''ValueError: Unknown import source kind: '' @ py_repr kind)))
      else if url = [] then (w, Inr (no_import (no_url kind)))
      else if kind = ''oaipmh'' then run_harvest env bulk src (one_doc dc_record_to_doc) url (mprefix ''oai_dc'') w
      else if kind = ''oaipmh_lido'' then run_harvest env bulk src (one_doc lido_oai_parse) url (mprefix ''lido'') w
      else if kind = ''oaipmh_marcxml''
      then run_harvest env bulk src (marc_parser (marc_flavor src)) url ''marcxml'' w
      else if kind = ''lido_file'' then run_file (lido_ingest_file (ie_fromstring env) fs bulk n) url w
      else if kind = ''marc_file'' then run_file (ingest_marc_file fs bulk (marc_flavor src) n) url w
      else if kind = ''marcxml_file''
      then run_file (ingest_marcxml_file (ie_fromstring env) fs bulk (marc_flavor src) n) url w
      else if kind = ''csv_file''
      then run_file (ingest_csv_file (ie_decode env) (ie_sniff env) fs bulk list_separator n) url w
      else if kind = ''ead_file'' then run_file (ead_ingest_file (ie_fromstring env) fs bulk n) url w
      else run_harvest env bulk src ead_parser url (mprefix ''ead'') w)"

section \<open>What an import ships\<close>

text \<open>A document that the backend can store and the mapper can serve: an identifier, and a type of some form.\<close>

definition keyed :: "doc \<Rightarrow> bool" where
  "keyed d \<longleftrightarrow> (\<exists>i. dict_get d ''id'' = Some (JStr i) \<and> i \<noteq> []) \<and> dict_get d ''type'' \<noteq> None"

definition yields_keyed :: "doc_stream \<Rightarrow> bool" where
  "yields_keyed s \<longleftrightarrow> (\<forall>d \<in> set (fst s). keyed d)"

definition good_chunks :: "doc list list \<Rightarrow> bool" where
  "good_chunks lg \<longleftrightarrow> (\<forall>c \<in> set lg. c \<noteq> [] \<and> length c \<le> import_chunk_size \<and> (\<forall>d \<in> set c. keyed d))"

lemma identified_keyed: "identified d \<Longrightarrow> keyed d"
  by (auto simp: identified_def keyed_def)

lemma prefix_keyed:
  assumes "prefix (concat lg) ds" "\<forall>d \<in> set ds. keyed d" "c \<in> set lg" "d \<in> set c"
  shows "keyed d"
  using assms set_mono_prefix [OF assms(1)] by auto

lemma stream_good:
  assumes "ingest_stream (logging bulk) import_chunk_size (b, []) s = ((b', lg), rest)" "yields_keyed s"
  shows "good_chunks lg"
proof -
  obtain ing fl err where r: "rest = (ing, fl, err)" by (cases rest)
  have "ingest_loop (logging bulk) import_chunk_size (b, []) 0 0 [] (fst s) (snd s) = ((b', lg), ing, fl, err)"
    using assms(1) by (simp add: ingest_stream_def r)
  from ingest_loop_chunks [OF this]
  have "prefix (concat lg) (fst s)" "\<forall>c \<in> set lg. c \<noteq> [] \<and> length c \<le> import_chunk_size"
    by (simp_all add: import_chunk_size_def)
  then show ?thesis using prefix_keyed assms(2) by (auto simp: good_chunks_def yields_keyed_def)
qed

lemma good_chunks_Nil [simp]: "good_chunks []"
  by (simp add: good_chunks_def)

section \<open>Parsers of files\<close>

text \<open>What the dispatcher needs of the parser of a flat file: its documents are keyed.\<close>

locale keyed_file_parser =
  fixes parse :: "string \<Rightarrow> doc_stream"
  assumes keyed_stream: "yields_keyed (parse data)"
begin

lemma file_good:
  assumes "file_ingest label parse fs (logging bulk) import_chunk_size (b, []) path = ((b', lg), r)"
  shows "good_chunks lg"
  using assms stream_good [OF _ keyed_stream]
  by (auto simp: file_ingest_def Let_def split: if_split_asm sum.split_asm prod.split_asm option.split_asm py_exc.split_asm)

lemma run_file_good:
  assumes "run_file (file_ingest label parse fs (logging bulk) import_chunk_size) path (h, (b, [])) = ((h', (b', lg)), r)"
  shows "good_chunks lg"
  using assms file_good by (auto simp: run_file_def split: prod.split_asm)

end

interpretation lido_file: keyed_file_parser "parse_lido_bytes fromstring" for fromstring
  by unfold_locales (auto simp: yields_keyed_def intro: identified_keyed dest: parse_lido_identified)

interpretation ead_file: keyed_file_parser "parse_ead_bytes fromstring" for fromstring
  by unfold_locales
    (auto simp: yields_keyed_def parse_ead_bytes_def intro: identified_keyed ead_docs_identified split: sum.split)

lemma marc_stream_keyed: "yields_keyed (marc_stream flavor rs)"
  using marc_stream_identified [of flavor rs] identified_keyed
  by (cases "marc_stream flavor rs") (auto simp: yields_keyed_def)

interpretation marc_file: keyed_file_parser "\<lambda>data. marc_stream flavor (iter_iso2709_records data)" for flavor
  by unfold_locales (rule marc_stream_keyed)

interpretation marcxml_file: keyed_file_parser
  "\<lambda>data. case iter_marcxml_records fromstring data of Inl e \<Rightarrow> ([], Some e) | Inr rs \<Rightarrow> marc_stream flavor rs"
  for fromstring flavor
  using marc_stream_keyed by unfold_locales (auto simp: yields_keyed_def split: sum.split)

lemma csv_stream_keyed: "yields_keyed (parse_csv_text sniff sep txt)"
proof -
  have "keyed d" if "row_to_doc sep hdr (length (takeWhile (\<lambda>h. \<not> is_id_column h) hdr)) row = Some d"
    "\<exists>h \<in> set hdr. is_id_column h" for d hdr row
    using csv_doc_id [OF that] by (simp add: keyed_def)
  then show ?thesis
    by (auto simp: yields_keyed_def parse_csv_text_def List.map_filter_def Let_def split: list.split)
qed

interpretation csv_file: keyed_file_parser "\<lambda>data. parse_csv_text sniff sep (decode data)" for sniff sep decode
  by unfold_locales (rule csv_stream_keyed)

section \<open>Parsers of harvested records\<close>

text \<open>The same contract for the record parser that a harvest is given.\<close>

locale keyed_record_parser =
  fixes p :: record_parser
  assumes keyed_docs: "p hdr md = Inr ds \<Longrightarrow> d \<in> set ds \<Longrightarrow> keyed d"
begin

lemma records_keyed: "yields_keyed (parse_records p rs)"
proof (induction rs)
  case (Cons r rs)
  then show ?case using keyed_docs
    by (fastforce simp: yields_keyed_def split: option.split sum.split prod.split)
qed (simp add: yields_keyed_def)

lemma page_keyed: "\<forall>d \<in> set (fst (harvest_page fromstring p xml_body)). keyed d"
proof -
  have "\<forall>d \<in> set docs. keyed d" if "parse_records p rs = (docs, stop)" for rs docs stop
    using records_keyed [of rs] that by (simp add: yields_keyed_def)
  then show ?thesis
    unfolding harvest_page_def Let_def by (auto split: sum.split option.split prod.split)
qed

lemma loop_keyed: "yields_keyed (snd (harvest_loop fromstring get p url mp page left h params))"
proof (induction left arbitrary: h page params)
  case (Suc left)
  obtain h1 r where g: "get h params = (h1, r)" by (cases "get h params")
  show ?case
  proof (cases r)
    case (Fetched bd)
    obtain docs stop nxt where p: "harvest_page fromstring p bd = (docs, stop, nxt)"
      by (cases "harvest_page fromstring p bd") auto
    have "\<forall>d \<in> set docs. keyed d" using page_keyed [of fromstring bd] p by simp
    moreover obtain h2 ds st where
      "harvest_loop fromstring get p url mp (page + 1) left h1 (resume_params (the nxt)) = (h2, ds, st)"
      by (cases "harvest_loop fromstring get p url mp (page + 1) left h1 (resume_params (the nxt))") auto
    ultimately show ?thesis
      using Suc.IH [of "page + 1" h1 "resume_params (the nxt)"] by (cases nxt) (auto simp: yields_keyed_def g Fetched p)
  qed (simp_all add: yields_keyed_def g)
qed (simp add: yields_keyed_def)

lemma harvest_good:
  assumes "run_harvest env (logging bulk) src p url mprefix (h, (b, [])) = ((h', (b', lg)), r)"
  shows "good_chunks lg"
proof -
  obtain h1 s where s: "iter_records (ie_fromstring env) (ie_get env url) p url mprefix (is_set_spec src) harvest_max_pages h = (h1, s)"
    by (cases "iter_records (ie_fromstring env) (ie_get env url) p url mprefix (is_set_spec src) harvest_max_pages h")
  then have "yields_keyed s"
    using loop_keyed [of "ie_fromstring env" "ie_get env url" url] unfolding iter_records_def by (metis snd_conv)
  then show ?thesis using assms stream_good [of bulk b s]
    by (auto simp: run_harvest_def oai_ingest_def s split: prod.split_asm)
qed

end

interpretation dc: keyed_record_parser "one_doc dc_record_to_doc"
  by unfold_locales (auto simp: one_doc_def intro!: identified_keyed dest: dc_doc_identified split: option.split_asm)

lemma lido_oai_identified: "lido_oai_parse hdr md = Some d \<Longrightarrow> identified d"
  by (auto simp: lido_oai_parse_def Let_def dest: lido_doc_identified split: option.split_asm if_split_asm)

interpretation lido: keyed_record_parser "one_doc lido_oai_parse"
  by unfold_locales (auto simp: one_doc_def intro!: identified_keyed dest: lido_oai_identified split: option.split_asm)

lemma marc_oai_identified: "marc_oai_parse flavor hdr md = Inr (Some d) \<Longrightarrow> identified d"
  by (auto simp: marc_oai_parse_def dest: marc_doc_identified split: option.split_asm if_split_asm)

interpretation marc: keyed_record_parser "marc_parser flavor" for flavor
  by unfold_locales
    (auto simp: marc_parser_def egg_simps intro!: identified_keyed dest: marc_oai_identified split: option.split_asm)

interpretation ead: keyed_record_parser ead_parser
  by unfold_locales
    (auto simp: ead_parser_def ead_oai_record_to_docs_def intro: identified_keyed ead_docs_identified split: option.split_asm)

section \<open>Every kind of import\<close>

lemmas harvests_good = dc.harvest_good lido.harvest_good marc.harvest_good ead.harvest_good
lemmas files_good = lido_file.run_file_good ead_file.run_file_good marc_file.run_file_good
  marcxml_file.run_file_good csv_file.run_file_good

text \<open>
  C18. Whatever kind of import is run, from whatever source and with whatever backend, every batch
  it ships is not empty, has at most 500 documents, and every document in it has a non-empty text
  identifier and a type, which is what storing and serving it takes.
\<close>

theorem import_ships_keyed_documents:
  assumes "run_import env (logging bulk) src (h, (b, [])) = ((h', (b', chunks)), r)"
  shows "\<forall>c \<in> set chunks. c \<noteq> [] \<and> length c \<le> 500 \<and> (\<forall>d \<in> set c. keyed d)"
proof -
  have "good_chunks chunks"
    using assms unfolding run_import_def Let_def lido_ingest_file_def [abs_def] ead_ingest_file_def [abs_def]
      ingest_marc_file_def [abs_def] ingest_marcxml_file_def [abs_def] ingest_csv_file_def [abs_def]
    by (simp_all split: if_split_asm) (erule harvests_good files_good)+
  then show ?thesis by (simp add: good_chunks_def import_chunk_size_def)
qed

section \<open>A concrete import\<close>

definition demo_source :: import_source where
  "demo_source = \<lparr>is_id = 1, is_label = ''demo'', is_kind = ''csv_file'', is_url = Some ''/data/t.csv'',
     is_metadata_prefix = None, is_set_spec = None, is_schema_profile = ''library'',
     is_created_at = [], is_last_run_at = None, is_schedule = Some ''daily'', is_next_run_at = Some []\<rparr>"

definition demo_env :: "unit import_env" where
  "demo_env = \<lparr>ie_fromstring = (\<lambda>s. Inl ''no element found''), ie_get = (\<lambda>url h params. (h, FetchError ''unreachable'')),
     ie_fs = \<lparr>fs_str = (\<lambda>p. p), fs_is_file = (\<lambda>p. True), fs_read = (\<lambda>p. Inr (''id,title'' @ [CHR 0x0A] @ ''7,Egg''))\<rparr>,
     ie_decode = (\<lambda>s. s), ie_sniff = (\<lambda>s. None)\<rparr>"

lemma demo_import:
  "run_import demo_env (logging demo_sink) demo_source ((), ((), [])) =
     (((), ((), [[[(''id'', JStr ''7''), (''title'', JStr ''Egg''), (''type'', JStr ''record'')]]])),
      Inr \<lparr>im_ingested = 1, im_failed = 0, im_error = None\<rparr>)"
  by code_simp

theorem import_ships_keyed_documents_witness:
  "keyed [(''id'', JStr ''7''), (''title'', JStr ''Egg''), (''type'', JStr ''record'')]"
  using import_ships_keyed_documents [OF demo_import] by simp

end
