(* ===== verification/Scheduler.thy ===== *)
theory Scheduler
  imports Importers
begin

text \<open>
  \<^verbatim>\<open>app/scheduler.py\<close> and the import endpoints of \<^verbatim>\<open>app/admin_api/imports.py\<close>: what runs an import
  source, by schedule or by hand, and how it keeps the books of the runs. The world of a run is
  the store, the HTTP peers, the sink that ships documents, and a clock: the store reads the time
  on its own, so \<open>clock k\<close> is what the reading number \<open>k\<close> returns.
\<close>

record ('h, 'b) world =
  w_db :: db
  w_http :: 'h
  w_sink :: 'b
  w_reads :: nat

section \<open>One run\<close>

definition open_run :: "(nat \<Rightarrow> nat) \<Rightarrow> ('h, 'b) world \<Rightarrow> int \<Rightarrow> ('h, 'b) world \<times> nat" where
  "open_run clock w source_id =
     (case start_import_run (w_db w) (clock (w_reads w)) source_id of
        (d, run_id) \<Rightarrow> (w\<lparr>w_db := d, w_reads := Suc (w_reads w)\<rparr>, run_id))"

definition close_run ::
  "(nat \<Rightarrow> nat) \<Rightarrow> ('h, 'b) world \<Rightarrow> nat \<Rightarrow> string \<Rightarrow> int \<Rightarrow> int \<Rightarrow> string option \<Rightarrow> ('h, 'b) world"
where
  "close_run clock w run_id status ingested failed err =
     w\<lparr>w_db := finish_import_run (w_db w) (clock (w_reads w)) run_id status ingested failed err,
       w_reads := Suc (w_reads w)\<rparr>"

definition ship :: "'h import_env \<Rightarrow> 'b sink \<Rightarrow> import_source \<Rightarrow> ('h, 'b) world \<Rightarrow> ('h, 'b) world \<times> (py_exc + import_result)" where
  "ship env bulk src w =
     (case run_import env bulk src (w_http w, w_sink w) of ((h, b), r) \<Rightarrow> (w\<lparr>w_http := h, w_sink := b\<rparr>, r))"

definition run_status :: "import_result \<Rightarrow> string" where
  "run_status r = (if is_set (im_error r) then ''failed'' else ''succeeded'')"

text \<open>Both callers close the run in the same two ways: with the failure of an exception, or with the result.\<close>

definition close_with :: "(nat \<Rightarrow> nat) \<Rightarrow> ('h, 'b) world \<Rightarrow> nat \<Rightarrow> py_exc + import_result \<Rightarrow> ('h, 'b) world" where
  "close_with clock w run_id r =
     (case r of
        Inl e \<Rightarrow> close_run clock w run_id ''failed'' 0 0 (Some (exc_text e))
      | Inr res \<Rightarrow> close_run clock w run_id (run_status res) (im_ingested res) (im_failed res) (im_error res))"

section \<open>Cadences\<close>

definition schedule_deltas :: "(string \<times> nat) list" where
  "schedule_deltas = [(''hourly'', us_hour), (''6h'', 6 * us_hour), (''daily'', 24 * us_hour), (''weekly'', 7 * us_per_day)]"

definition is_valid_schedule :: "string option \<Rightarrow> bool" where
  "is_valid_schedule v = (case v of None \<Rightarrow> False | Some s \<Rightarrow> map_of schedule_deltas s \<noteq> None)"

definition compute_next_run_at :: "string option \<Rightarrow> nat \<Rightarrow> string option" where
  "compute_next_run_at schedule now =
     (case schedule of None \<Rightarrow> None
      | Some s \<Rightarrow> (case map_of schedule_deltas s of None \<Rightarrow> None | Some delta \<Rightarrow> Some (iso (now + delta))))"

section \<open>The scheduler\<close>

definition reschedule :: "('h, 'b) world \<Rightarrow> import_source \<Rightarrow> nat \<Rightarrow> ('h, 'b) world" where
  "reschedule w src now =
     (if \<not> is_valid_schedule (is_schedule src)
      then w\<lparr>w_db := fst (set_import_source_schedule (w_db w) (int (is_id src)) None None)\<rparr>
      else w\<lparr>w_db := fst (set_import_source_schedule (w_db w) (int (is_id src)) (is_schedule src)
             (compute_next_run_at (is_schedule src) now))\<rparr>)"

definition run_one ::
  "'h import_env \<Rightarrow> 'b sink \<Rightarrow> (nat \<Rightarrow> nat) \<Rightarrow> nat \<Rightarrow> import_source \<Rightarrow> ('h, 'b) world \<Rightarrow> ('h, 'b) world"
where
  "run_one env bulk clock now src w =
     (case open_run clock w (int (is_id src)) of (w1, run_id) \<Rightarrow>
        (case ship env bulk src w1 of (w2, r) \<Rightarrow> reschedule (close_with clock w2 run_id r) src now))"

text \<open>\<open>run_pending\<close>: the due sources are read once, then run one after the other.\<close>

definition run_pending ::
  "'h import_env \<Rightarrow> 'b sink \<Rightarrow> (nat \<Rightarrow> nat) \<Rightarrow> nat \<Rightarrow> ('h, 'b) world \<Rightarrow> ('h, 'b) world \<times> int list"
where
  "run_pending env bulk clock now w =
     (let due = list_due_import_sources (w_db w) (iso now) in
      (fold (run_one env bulk clock now) due w, map (\<lambda>s. int (is_id s)) due))"

section \<open>The import endpoints\<close>

record create_request =
  cr_label :: string
  cr_kind :: string
  cr_url :: string
  cr_metadata_prefix :: string
  cr_set_spec :: "string option"
  cr_schema_profile :: string
  cr_schedule :: "string option"

definition length_in :: "nat \<Rightarrow> nat \<Rightarrow> string \<Rightarrow> bool" where
  "length_in a b s \<longleftrightarrow> a \<le> length s \<and> length s \<le> b"

text \<open>The constraints that the request model declares.\<close>

definition create_request_ok :: "create_request \<Rightarrow> bool" where
  "create_request_ok p \<longleftrightarrow>
     length_in 1 128 (cr_label p) \<and> cr_kind p \<in> set supported_kinds \<and> length_in 1 2048 (cr_url p) \<and>
     length (cr_metadata_prefix p) \<le> 64 \<and> (\<forall>s. cr_set_spec p = Some s \<longrightarrow> length s \<le> 256) \<and>
     cr_schema_profile p \<in> {''library'', ''museum'', ''archive'', ''custom''} \<and>
     (\<forall>s. cr_schedule p = Some s \<longrightarrow> s \<in> {''hourly'', ''6h'', ''daily'', ''weekly''})"

definition source_response :: "import_source \<Rightarrow> (string \<times> json) list" where
  "source_response s =
     [(''id'', JInt (int (is_id s))), (''label'', JStr (is_label s)), (''kind'', JStr (is_kind s)),
      (''url'', jopt JStr (is_url s)), (''metadata_prefix'', jopt JStr (is_metadata_prefix s)),
      (''set_spec'', jopt JStr (is_set_spec s)), (''schema_profile'', JStr (is_schema_profile s)),
      (''created_at'', JStr (is_created_at s)), (''last_run_at'', jopt JStr (is_last_run_at s)),
      (''schedule'', jopt JStr (is_schedule s)), (''next_run_at'', jopt JStr (is_next_run_at s))]"

definition run_response :: "import_run \<Rightarrow> (string \<times> json) list" where
  "run_response r =
     [(''id'', JInt (int (ir_id r))), (''source_id'', JInt (ir_source_id r)), (''started_at'', JStr (ir_started_at r)),
      (''ended_at'', jopt JStr (ir_ended_at r)), (''status'', JStr (ir_status r)),
      (''records_ingested'', JInt (ir_records_ingested r)), (''records_failed'', JInt (ir_records_failed r)),
      (''error_message'', jopt JStr (ir_error_message r))]"

definition unknown_source :: "int \<Rightarrow> py_exc" where
  "unknown_source source_id =
     ExApp (AppError ''not_found'' (''Unknown import source: '' @ str_of_int source_id) [(''source_id'', JInt source_id)] 404)"

definition api_list_sources :: "db \<Rightarrow> (string \<times> json) list list" where
  "api_list_sources d = map source_response (list_import_sources d)"

text \<open>\<open>now\<close> is the reading for the next run, \<open>now'\<close> the later one for the row.\<close>

definition api_create_source :: "db \<Rightarrow> nat \<Rightarrow> nat \<Rightarrow> create_request \<Rightarrow> db \<times> (string \<times> json) list" where
  "api_create_source d now now' p =
     (let next_run_at = (if is_set (cr_schedule p) then compute_next_run_at (cr_schedule p) now else None) in
      case add_import_source d now' (cr_label p) (cr_kind p) (Some (cr_url p)) (Some (cr_metadata_prefix p))
             (cr_set_spec p) (cr_schema_profile p) (cr_schedule p) next_run_at of
        (d', src) \<Rightarrow> (d', source_response src))"

definition api_get_source :: "db \<Rightarrow> int \<Rightarrow> py_exc + (string \<times> json) list" where
  "api_get_source d source_id =
     (case get_import_source d source_id of None \<Rightarrow> Inl (unknown_source source_id) | Some s \<Rightarrow> Inr (source_response s))"

definition api_delete_source :: "db \<Rightarrow> int \<Rightarrow> db \<times> (py_exc + unit)" where
  "api_delete_source d source_id =
     (case delete_import_source d source_id of
        (d', ok) \<Rightarrow> (d', if ok then Inr () else Inl (unknown_source source_id)))"

definition api_list_runs :: "db \<Rightarrow> int \<Rightarrow> int \<Rightarrow> py_exc + (string \<times> json) list list" where
  "api_list_runs d source_id limit =
     (case get_import_source d source_id of
        None \<Rightarrow> Inl (unknown_source source_id)
      | Some s \<Rightarrow> Inr (map run_response (list_import_runs d source_id limit)))"

definition api_identify :: "'h import_env \<Rightarrow> db \<Rightarrow> int \<Rightarrow> 'h \<Rightarrow> 'h \<times> (py_exc + (string \<times> string) list)" where
  "api_identify env d source_id h =
     (case get_import_source d source_id of
        Some s \<Rightarrow>
          if is_kind s \<notin> set oaipmh_kinds \<or> \<not> is_set (is_url s)
          then (h, Inl (ExApp (AppError ''invalid_parameter'' ''Only configured OAI-PMH sources can be identified.''
                 [(''source_id'', JInt source_id)] 400)))
          else identify (ie_fromstring env) (ie_get env (the (is_url s))) (the (is_url s)) h
      | None \<Rightarrow> (h, Inl (ExApp (AppError ''invalid_parameter'' ''Only configured OAI-PMH sources can be identified.''
                 [(''source_id'', JInt source_id)] 400))))"

record run_result =
  rr_run_id :: nat
  rr_status :: string
  rr_records_ingested :: int
  rr_records_failed :: int
  rr_error :: "string option"

text \<open>\<open>except ValueError\<close> takes its subclasses too, among them the JSON and codec errors.\<close>

definition is_value_error :: "py_exc \<Rightarrow> bool" where
  "is_value_error e \<longleftrightarrow>
     exc_class e \<in> {''ValueError'', ''JSONDecodeError'', ''UnicodeDecodeError'', ''UnicodeEncodeError''}"

definition api_run_source ::
  "'h import_env \<Rightarrow> 'b sink \<Rightarrow> (nat \<Rightarrow> nat) \<Rightarrow> ('h, 'b) world \<Rightarrow> int \<Rightarrow> ('h, 'b) world \<times> (py_exc + run_result)"
where
  "api_run_source env bulk clock w source_id =
     (case get_import_source (w_db w) source_id of
        None \<Rightarrow> (w, Inl (unknown_source source_id))
      | Some src \<Rightarrow>
          (case open_run clock w source_id of (w1, run_id) \<Rightarrow>
             (case ship env bulk src w1 of (w2, r) \<Rightarrow>
                (close_with clock w2 run_id r,
                 (case r of
                    Inl e \<Rightarrow> Inl (if is_value_error e
                      then ExApp (AppError ''invalid_parameter'' (exc_text e) [(''kind'', JStr (is_kind src))] 400)
                      else e)
                  | Inr res \<Rightarrow> Inr \<lparr>rr_run_id = run_id, rr_status = run_status res,
                      rr_records_ingested = im_ingested res, rr_records_failed = im_failed res,
                      rr_error = im_error res\<rparr>)))))"

section \<open>The books of a run\<close>

text \<open>A finished entry for a source, and the row of the source after it.\<close>

definition finished_run :: "int \<Rightarrow> import_run \<Rightarrow> bool" where
  "finished_run source_id r \<longleftrightarrow>
     ir_source_id r = source_id \<and> ir_ended_at r \<noteq> None \<and> ir_status r \<in> {''failed'', ''succeeded''}"

definition entry_of :: "nat \<Rightarrow> int \<Rightarrow> nat \<Rightarrow> nat \<Rightarrow> py_exc + import_result \<Rightarrow> import_run" where
  "entry_of run_id source_id t t' r =
     \<lparr>ir_id = run_id, ir_source_id = source_id, ir_started_at = iso t, ir_ended_at = Some (iso t'),
      ir_status = (case r of Inl e \<Rightarrow> ''failed'' | Inr res \<Rightarrow> run_status res),
      ir_records_ingested = (case r of Inl e \<Rightarrow> 0 | Inr res \<Rightarrow> im_ingested res),
      ir_records_failed = (case r of Inl e \<Rightarrow> 0 | Inr res \<Rightarrow> im_failed res),
      ir_error_message = (case r of Inl e \<Rightarrow> Some (exc_text e) | Inr res \<Rightarrow> im_error res)\<rparr>"

definition touch_source :: "int \<Rightarrow> nat \<Rightarrow> import_source \<Rightarrow> import_source" where
  "touch_source source_id t s = (if int (is_id s) = source_id then s\<lparr>is_last_run_at := Some (iso t)\<rparr> else s)"

lemma entry_finished: "finished_run source_id (entry_of run_id source_id t t' r)"
  by (simp add: finished_run_def entry_of_def run_status_def split: sum.split)

definition runs_ok :: "db \<Rightarrow> bool" where
  "runs_ok d \<longleftrightarrow> id_table_ok (map ir_id (db_import_runs d)) (db_runs_seq d)"

lemma find_skips: "find p xs = None \<Longrightarrow> find p (xs @ ys) = find p ys"
  by (induction xs) (auto split: if_split_asm)

lemma finish_new_run:
  assumes "runs_ok d" "start_import_run d t source_id = (d1, run_id)"
  shows "finish_import_run d1 t' run_id status i f err =
    d\<lparr>db_import_sources := map (touch_source source_id t') (db_import_sources d),
      db_import_runs := db_import_runs d @ [\<lparr>ir_id = run_id, ir_source_id = source_id, ir_started_at = iso t,
        ir_ended_at = Some (iso t'), ir_status = status, ir_records_ingested = i, ir_records_failed = f,
        ir_error_message = err\<rparr>],
      db_runs_seq := run_id\<rparr>"
proof -
  have id: "run_id = Suc (db_runs_seq d)" using assms(2) by (simp add: start_import_run_def)
  have old: "ir_id r \<noteq> run_id" if "r \<in> set (db_import_runs d)" for r
    using that assms(1) by (fastforce simp: runs_ok_def id_table_ok_def id)
  have "map (\<lambda>r. if ir_id r = run_id then g r else r) (db_import_runs d) = db_import_runs d" for g
    by (rule map_idI) (simp add: old)
  moreover have "find (\<lambda>r. ir_id r = run_id) (db_import_runs d) = None"
    using old by (simp add: find_None_iff)
  note find_skips [OF this]
  ultimately show ?thesis
    using assms(2) by (auto simp: start_import_run_def finish_import_run_def Let_def id touch_source_def fun_eq_iff)
qed

lemma run_closed:
  assumes "runs_ok (w_db w)" "open_run clock w source_id = (w1, run_id)" "ship env bulk src w1 = (w2, r)"
  obtains t t' where "run_id = Suc (db_runs_seq (w_db w))"
    "w_db (close_with clock w2 run_id r) = (w_db w)\<lparr>
      db_import_sources := map (touch_source source_id t') (db_import_sources (w_db w)),
      db_import_runs := db_import_runs (w_db w) @ [entry_of run_id source_id t t' r], db_runs_seq := run_id\<rparr>"
proof -
  obtain d1 where s: "start_import_run (w_db w) (clock (w_reads w)) source_id = (d1, run_id)" and w1: "w_db w1 = d1"
    using assms(2) by (auto simp: open_run_def split: prod.split_asm)
  have w2: "w_db w2 = d1" using assms(3) w1 by (auto simp: ship_def split: prod.split_asm)
  have "run_id = Suc (db_runs_seq (w_db w))" using s by (simp add: start_import_run_def)
  moreover have "w_db (close_with clock w2 run_id r) = (w_db w)\<lparr>
      db_import_sources := map (touch_source source_id (clock (w_reads w2))) (db_import_sources (w_db w)),
      db_import_runs := db_import_runs (w_db w) @ [entry_of run_id source_id (clock (w_reads w)) (clock (w_reads w2)) r],
      db_runs_seq := run_id\<rparr>"
    using finish_new_run [OF assms(1) s]
    by (cases r) (simp_all add: close_with_def close_run_def w2 entry_of_def)
  ultimately show ?thesis by (rule that)
qed

definition next_run :: "import_source \<Rightarrow> nat \<Rightarrow> string option" where
  "next_run s now = (if is_valid_schedule (is_schedule s) then compute_next_run_at (is_schedule s) now else None)"

text \<open>What one scheduled run does to a row: only the row of its source changes.\<close>

definition row_after :: "import_source \<Rightarrow> nat \<Rightarrow> import_source \<Rightarrow> import_source \<Rightarrow> bool" where
  "row_after src now s s' \<longleftrightarrow> is_id s' = is_id s \<and>
     (if is_id s = is_id src then is_next_run_at s' = next_run src now else s' = s)"

lemma run_one_db:
  assumes "runs_ok (w_db w)"
  shows "\<exists>run f. w_db (run_one env bulk clock now src w) = (w_db w)\<lparr>
      db_import_sources := map f (db_import_sources (w_db w)), db_import_runs := db_import_runs (w_db w) @ [run],
      db_runs_seq := Suc (db_runs_seq (w_db w))\<rparr> \<and>
    ir_id run = Suc (db_runs_seq (w_db w)) \<and> finished_run (int (is_id src)) run \<and> (\<forall>s. row_after src now s (f s))"
proof -
  let ?i = "int (is_id src)"
  obtain w1 run_id where o: "open_run clock w ?i = (w1, run_id)" by (cases "open_run clock w ?i")
  obtain w2 r where p: "ship env bulk src w1 = (w2, r)" by (cases "ship env bulk src w1")
  obtain t t' where c: "run_id = Suc (db_runs_seq (w_db w))"
    "w_db (close_with clock w2 run_id r) = (w_db w)\<lparr>
      db_import_sources := map (touch_source ?i t') (db_import_sources (w_db w)),
      db_import_runs := db_import_runs (w_db w) @ [entry_of run_id ?i t t' r], db_runs_seq := run_id\<rparr>"
    using run_closed [OF assms o p] by blast
  define sched where "sched = (if is_valid_schedule (is_schedule src) then is_schedule src else None)"
  define g where "g = (\<lambda>s :: import_source. if int (is_id s) = ?i
      then s\<lparr>is_schedule := sched, is_next_run_at := next_run src now\<rparr> else s)"
  have "w_db (reschedule w3 src now) = (w_db w3)\<lparr>db_import_sources := map g (db_import_sources (w_db w3))\<rparr>" for w3 :: "('a, 'b) world"
    by (simp add: reschedule_def set_import_source_schedule_def g_def sched_def next_run_def)
  then have "w_db (run_one env bulk clock now src w) = (w_db w)\<lparr>
      db_import_sources := map (g \<circ> touch_source ?i t') (db_import_sources (w_db w)),
      db_import_runs := db_import_runs (w_db w) @ [entry_of run_id ?i t t' r],
      db_runs_seq := Suc (db_runs_seq (w_db w))\<rparr>"
    by (simp add: run_one_def o p c(2)) (simp add: c(1))
  moreover have "row_after src now s ((g \<circ> touch_source ?i t') s)" for s
    by (simp add: row_after_def g_def touch_source_def)
  moreover have "ir_id (entry_of run_id ?i t t' r) = Suc (db_runs_seq (w_db w))" by (simp add: entry_of_def c)
  ultimately show ?thesis using entry_finished by blast
qed

section \<open>A tick of the scheduler\<close>

text \<open>Every row a fold over \<open>due\<close> leaves behind: changed by its own source, or untouched.\<close>

lemma run_all_db:
  assumes "runs_ok (w_db w)" "distinct (map is_id due)"
  shows "\<exists>runs f. w_db (fold (run_one env bulk clock now) due w) = (w_db w)\<lparr>
      db_import_sources := map f (db_import_sources (w_db w)), db_import_runs := db_import_runs (w_db w) @ runs,
      db_runs_seq := db_runs_seq (w_db w) + length due\<rparr> \<and>
    runs_ok (w_db (fold (run_one env bulk clock now) due w)) \<and>
    list_all2 (\<lambda>src. finished_run (int (is_id src))) due runs \<and>
    (\<forall>s. is_id (f s) = is_id s) \<and> (\<forall>s. is_id s \<notin> is_id ` set due \<longrightarrow> f s = s) \<and>
    (\<forall>s. \<forall>src \<in> set due. is_id s = is_id src \<longrightarrow> is_next_run_at (f s) = next_run src now)"
  using assms
proof (induction due arbitrary: w)
  case Nil
  then show ?case by (intro exI [of _ "[]"] exI [of _ "\<lambda>s. s"]) simp
next
  case (Cons src due)
  define w1 where "w1 = run_one env bulk clock now src w"
  obtain run f where 1: "w_db w1 = (w_db w)\<lparr>
      db_import_sources := map f (db_import_sources (w_db w)), db_import_runs := db_import_runs (w_db w) @ [run],
      db_runs_seq := Suc (db_runs_seq (w_db w))\<rparr>" and
    run: "ir_id run = Suc (db_runs_seq (w_db w))" "finished_run (int (is_id src)) run" and f: "\<And>s. row_after src now s (f s)"
    using run_one_db [OF Cons.prems(1), of env bulk clock now src] unfolding w1_def by blast
  have ok: "runs_ok (w_db w1)"
    using id_table_snoc Cons.prems(1) by (simp add: runs_ok_def 1 run(1))
  obtain runs g where 2: "w_db (fold (run_one env bulk clock now) due w1) = (w_db w1)\<lparr>
      db_import_sources := map g (db_import_sources (w_db w1)), db_import_runs := db_import_runs (w_db w1) @ runs,
      db_runs_seq := db_runs_seq (w_db w1) + length due\<rparr>"
    "runs_ok (w_db (fold (run_one env bulk clock now) due w1))" "list_all2 (\<lambda>src. finished_run (int (is_id src))) due runs"
    and g: "\<And>s. is_id (g s) = is_id s" "\<And>s. is_id s \<notin> is_id ` set due \<Longrightarrow> g s = s"
    "\<And>s src. src \<in> set due \<Longrightarrow> is_id s = is_id src \<Longrightarrow> is_next_run_at (g s) = next_run src now"
    using Cons.IH [OF ok] Cons.prems(2) by auto
  have f': "is_id (f s) = is_id s" "is_id s \<noteq> is_id src \<Longrightarrow> f s = s"
    "is_id s = is_id src \<Longrightarrow> is_next_run_at (f s) = next_run src now" for s
    using f [of s] by (simp_all add: row_after_def split: if_split_asm)
  have new: "is_id src \<notin> is_id ` set due" using Cons.prems(2) by auto
  show ?case
  proof (intro exI conjI)
    show "w_db (fold (run_one env bulk clock now) (src # due) w) = (w_db w)\<lparr>
      db_import_sources := map (g \<circ> f) (db_import_sources (w_db w)), db_import_runs := db_import_runs (w_db w) @ run # runs,
      db_runs_seq := db_runs_seq (w_db w) + length (src # due)\<rparr>"
      using 2(1) by (simp add: w1_def [symmetric] 1)
    show "runs_ok (w_db (fold (run_one env bulk clock now) (src # due) w))" using 2(2) by (simp add: w1_def)
    show "list_all2 (\<lambda>src. finished_run (int (is_id src))) (src # due) (run # runs)" using 2(3) run(2) by simp
    show "\<forall>s. is_id ((g \<circ> f) s) = is_id s" by (simp add: g f')
    show "\<forall>s. is_id s \<notin> is_id ` set (src # due) \<longrightarrow> (g \<circ> f) s = s" by (auto simp: g f')
    show "\<forall>s. \<forall>x \<in> set (src # due). is_id s = is_id x \<longrightarrow> is_next_run_at ((g \<circ> f) s) = next_run x now"
      using new by (auto simp: g f')
  qed
qed

lemma in_calendar_mono: "in_calendar b \<Longrightarrow> a \<le> b \<Longrightarrow> in_calendar a"
proof -
  assume b: "in_calendar b" and ab: "a \<le> b"
  then have "a div us_per_day + 1 \<le> b div us_per_day + 1" by (simp add: div_le_mono)
  then have "ord2ymd (a div us_per_day + 1) = ord2ymd (b div us_per_day + 1) \<or>
      ymd_less (ord2ymd (a div us_per_day + 1)) (ord2ymd (b div us_per_day + 1))"
    using ord2ymd_less [of "a div us_per_day + 1" "b div us_per_day + 1"] by (cases "a div us_per_day = b div us_per_day") auto
  then have "fst (ord2ymd (a div us_per_day + 1)) \<le> fst (ord2ymd (b div us_per_day + 1))"
    by (auto simp: ymd_less_def split: prod.splits)
  with b show ?thesis by (simp add: in_calendar_def)
qed

lemma next_run_later:
  assumes "in_calendar (now + 7 * us_per_day)" "next_run src now = Some t"
  shows "iso now < t"
proof -
  obtain c delta where "map_of schedule_deltas c = Some delta" "t = iso (now + delta)"
    using assms(2) by (auto simp: next_run_def compute_next_run_at_def split: if_split_asm option.split_asm)
  moreover from this have "0 < delta" "delta \<le> 7 * us_per_day"
    by (auto simp: schedule_deltas_def us_hour_def us_per_day_def split: if_split_asm)
  ultimately show ?thesis
    using iso_strict_mono [of now "now + delta"] in_calendar_mono [OF assms(1), of "now + delta"] by simp
qed

lemma id_table_distinct: "id_table_ok ids n \<Longrightarrow> distinct ids"
  by (simp add: id_table_ok_def strict_sorted_iff)


text \<open>
  C36. A run by hand keeps the books on every path: when the source exists, exactly one entry is
  added, it is closed, and it says what the caller is told. An exception is recorded as a failed
  run with its text and leaves the endpoint as an exception; a result is recorded with its counts.
  An unknown source is a 404 that changes nothing.
\<close>

theorem run_source_books:
  assumes "db_inv (w_db w)" "api_run_source env bulk clock w source_id = (w', r)"
  shows "if get_import_source (w_db w) source_id = None then w' = w \<and> r = Inl (unknown_source source_id)
    else \<exists>run. db_import_runs (w_db w') = db_import_runs (w_db w) @ [run] \<and> finished_run source_id run \<and>
      (case r of
         Inl e \<Rightarrow> ir_status run = ''failed'' \<and> ir_records_ingested run = 0 \<and> ir_error_message run = Some (exc_text e)
       | Inr rr \<Rightarrow> rr_run_id rr = ir_id run \<and> rr_status rr = ir_status run \<and> rr_error rr = ir_error_message run \<and>
           rr_records_ingested rr = ir_records_ingested run \<and> rr_records_failed rr = ir_records_failed run)"
proof (cases "get_import_source (w_db w) source_id")
  case None
  then show ?thesis using assms(2) by (simp add: api_run_source_def)
next
  case (Some src)
  obtain w1 run_id where o: "open_run clock w source_id = (w1, run_id)" by (cases "open_run clock w source_id")
  obtain w2 res where p: "ship env bulk src w1 = (w2, res)" by (cases "ship env bulk src w1")
  have ok: "runs_ok (w_db w)" using assms(1) by (simp add: db_inv_def runs_ok_def)
  obtain t t' where c: "w_db (close_with clock w2 run_id res) = (w_db w)\<lparr>
      db_import_sources := map (touch_source source_id t') (db_import_sources (w_db w)),
      db_import_runs := db_import_runs (w_db w) @ [entry_of run_id source_id t t' res], db_runs_seq := run_id\<rparr>"
    using run_closed [OF ok o p] by blast
  have "w' = close_with clock w2 run_id res" using assms(2) by (simp add: api_run_source_def Some o p)
  then have "db_import_runs (w_db w') = db_import_runs (w_db w) @ [entry_of run_id source_id t t' res]" using c by simp
  moreover have "case r of
         Inl e \<Rightarrow> ir_status (entry_of run_id source_id t t' res) = ''failed'' \<and>
           ir_records_ingested (entry_of run_id source_id t t' res) = 0 \<and>
           ir_error_message (entry_of run_id source_id t t' res) = Some (exc_text e)
       | Inr rr \<Rightarrow> rr_run_id rr = ir_id (entry_of run_id source_id t t' res) \<and>
           rr_status rr = ir_status (entry_of run_id source_id t t' res) \<and>
           rr_error rr = ir_error_message (entry_of run_id source_id t t' res) \<and>
           rr_records_ingested rr = ir_records_ingested (entry_of run_id source_id t t' res) \<and>
           rr_records_failed rr = ir_records_failed (entry_of run_id source_id t t' res)"
    using assms(2) by (cases res) (auto simp: api_run_source_def Some o p entry_of_def exc_text_def)
  ultimately have "\<exists>run. db_import_runs (w_db w') = db_import_runs (w_db w) @ [run] \<and> finished_run source_id run \<and>
      (case r of
         Inl e \<Rightarrow> ir_status run = ''failed'' \<and> ir_records_ingested run = 0 \<and> ir_error_message run = Some (exc_text e)
       | Inr rr \<Rightarrow> rr_run_id rr = ir_id run \<and> rr_status rr = ir_status run \<and> rr_error rr = ir_error_message run \<and>
           rr_records_ingested rr = ir_records_ingested run \<and> rr_records_failed rr = ir_records_failed run)"
    using entry_finished [of source_id run_id t t' res] by (intro exI [of _ "entry_of run_id source_id t t' res"] conjI)
  then show ?thesis by (simp add: Some)
qed

section \<open>A concrete tick\<close>

definition demo_world :: "(unit, unit) world" where
  "demo_world = \<lparr>w_db = empty_db\<lparr>db_import_sources := [demo_source], db_sources_seq := 1\<rparr>,
     w_http = (), w_sink = (), w_reads = 0\<rparr>"

lemma demo_world_inv: "db_inv (w_db demo_world)"
  by (simp add: db_inv_def demo_world_def empty_db_def demo_source_def key_table_ok_def id_table_ok_def)

lemma first_week: "in_calendar (0 + 7 * us_per_day)"
  by (simp add: in_calendar_def us_per_day_def ord2ymd_def find_year.simps [of "Suc 0" "8"]
      find_month.simps [of "Suc 0" "Suc 0" "8"] year_len_def month_len_def is_leap_def)


theorem run_source_books_witness:
  "\<exists>w' r run. api_run_source demo_env demo_sink (\<lambda>k. k) demo_world 1 = (w', r) \<and>
     db_import_runs (w_db w') = [run] \<and> finished_run 1 run"
proof -
  obtain w' r where e: "api_run_source demo_env demo_sink (\<lambda>k. k) demo_world 1 = (w', r)"
    by (cases "api_run_source demo_env demo_sink (\<lambda>k. k) demo_world 1")
  have "get_import_source (w_db demo_world) 1 \<noteq> None" "db_import_runs (w_db demo_world) = []"
    by (simp_all add: demo_world_def get_import_source_def demo_source_def empty_db_def)
  with run_source_books [OF demo_world_inv e] e show ?thesis by auto
qed

end
