(* ===== verification/Scheduler_Thread.thy ===== *)
theory Scheduler_Thread
  imports Scheduler
begin

text \<open>
  The background thread of \<^verbatim>\<open>app/scheduler.py\<close>: \<open>start\<close>, \<open>stop\<close> and the polling loop, as a step relation. The threads that
  were ever started are a list of program counters; any of them, or the caller of \<open>start\<close> and \<open>stop\<close>, may do the next
  step. The tick itself is the one of \<open>Scheduler\<close>, one source at a time.
\<close>

section \<open>The loop and its control\<close>

datatype pc =
    AtCheck
  | Running nat "import_source list"
  | AtWait
  | Exited

record ('h, 'b) sched =
  sd_stop_event :: bool
  sd_thread :: "nat option"
  sd_stopping :: bool
  sd_pcs :: "pc list"
  sd_world :: "('h, 'b) world"

definition idle :: "('h, 'b) world \<Rightarrow> ('h, 'b) sched" where
  "idle w = \<lparr>sd_stop_event = False, sd_thread = None, sd_stopping = False, sd_pcs = [], sd_world = w\<rparr>"

definition alive :: "('h, 'b) sched \<Rightarrow> nat \<Rightarrow> bool" where
  "alive s i \<longleftrightarrow> i < length (sd_pcs s) \<and> sd_pcs s ! i \<noteq> Exited"

definition thread_alive :: "('h, 'b) sched \<Rightarrow> bool" where
  "thread_alive s = (case sd_thread s of None \<Rightarrow> False | Some i \<Rightarrow> alive s i)"

definition start_scheduler :: "('h, 'b) sched \<Rightarrow> ('h, 'b) sched" where
  "start_scheduler s =
     (if thread_alive s then s
      else s\<lparr>sd_stop_event := False, sd_thread := Some (length (sd_pcs s)), sd_pcs := sd_pcs s @ [AtCheck]\<rparr>)"

text \<open>\<open>stop\<close> has two halves: the signal, and the return once the thread has been joined or the time for it is over.\<close>

definition stop_signal :: "('h, 'b) sched \<Rightarrow> ('h, 'b) sched" where
  "stop_signal s = s\<lparr>sd_stop_event := True, sd_stopping := True\<rparr>"

definition stop_return :: "('h, 'b) sched \<Rightarrow> ('h, 'b) sched" where
  "stop_return s = s\<lparr>sd_thread := None, sd_stopping := False\<rparr>"

definition set_pc :: "nat \<Rightarrow> pc \<Rightarrow> ('h, 'b) sched \<Rightarrow> ('h, 'b) sched" where
  "set_pc i p s = s\<lparr>sd_pcs := (sd_pcs s)[i := p]\<rparr>"

text \<open>One step of thread \<open>i\<close>. A tick that raises ends early, and the loop goes on; a wait ends with the event or with the time.\<close>

inductive loop_step ::
  "'h import_env \<Rightarrow> 'b sink \<Rightarrow> (nat \<Rightarrow> nat) \<Rightarrow> nat \<Rightarrow> ('h, 'b) sched \<Rightarrow> ('h, 'b) sched \<Rightarrow> bool"
  for env bulk clock i
where
  loop_leaves: "alive s i \<Longrightarrow> sd_pcs s ! i = AtCheck \<Longrightarrow> sd_stop_event s \<Longrightarrow> loop_step env bulk clock i s (set_pc i Exited s)"
| loop_picks: "alive s i \<Longrightarrow> sd_pcs s ! i = AtCheck \<Longrightarrow> \<not> sd_stop_event s \<Longrightarrow>
    loop_step env bulk clock i s (set_pc i (Running now (list_due_import_sources (w_db (sd_world s)) (iso now))) s)"
| loop_runs: "alive s i \<Longrightarrow> sd_pcs s ! i = Running now (src # rest) \<Longrightarrow>
    loop_step env bulk clock i s (set_pc i (Running now rest) (s\<lparr>sd_world := run_one env bulk clock now src (sd_world s)\<rparr>))"
| loop_finishes: "alive s i \<Longrightarrow> sd_pcs s ! i = Running now [] \<Longrightarrow> loop_step env bulk clock i s (set_pc i AtWait s)"
| loop_fails: "alive s i \<Longrightarrow> sd_pcs s ! i = Running now rest \<Longrightarrow> loop_step env bulk clock i s (set_pc i AtWait s)"
| loop_woken: "alive s i \<Longrightarrow> sd_pcs s ! i = AtWait \<Longrightarrow> sd_stop_event s \<Longrightarrow> loop_step env bulk clock i s (set_pc i Exited s)"
| loop_elapsed: "alive s i \<Longrightarrow> sd_pcs s ! i = AtWait \<Longrightarrow> \<not> sd_stop_event s \<Longrightarrow> loop_step env bulk clock i s (set_pc i AtCheck s)"

text \<open>\<open>patient\<close>: the join is never cut off by its timeout.\<close>

inductive sched_step ::
  "'h import_env \<Rightarrow> 'b sink \<Rightarrow> (nat \<Rightarrow> nat) \<Rightarrow> bool \<Rightarrow> ('h, 'b) sched \<Rightarrow> ('h, 'b) sched \<Rightarrow> bool"
  for env bulk clock patient
where
  step_starts: "\<not> sd_stopping s \<Longrightarrow> sched_step env bulk clock patient s (start_scheduler s)"
| step_signals: "\<not> sd_stopping s \<Longrightarrow> sched_step env bulk clock patient s (stop_signal s)"
| step_returns: "sd_stopping s \<Longrightarrow> \<not> (patient \<and> thread_alive s) \<Longrightarrow> sched_step env bulk clock patient s (stop_return s)"
| step_loops: "loop_step env bulk clock i s s' \<Longrightarrow> sched_step env bulk clock patient s s'"

abbreviation sched_reach ::
  "'h import_env \<Rightarrow> 'b sink \<Rightarrow> (nat \<Rightarrow> nat) \<Rightarrow> bool \<Rightarrow> ('h, 'b) sched \<Rightarrow> ('h, 'b) sched \<Rightarrow> bool"
where
  "sched_reach env bulk clock patient \<equiv> (sched_step env bulk clock patient)\<^sup>*\<^sup>*"

section \<open>One thread at a time\<close>

lemmas sched_defs = start_scheduler_def stop_signal_def stop_return_def set_pc_def alive_def thread_alive_def

lemma loop_step_alive: "loop_step env bulk clock i s s' \<Longrightarrow> alive s' j \<Longrightarrow> alive s j"
  by (induction rule: loop_step.induct) (auto simp: sched_defs nth_list_update split: if_split_asm)

lemma loop_step_frame:
  "loop_step env bulk clock i s s' \<Longrightarrow> sd_thread s' = sd_thread s \<and> sd_stop_event s' = sd_stop_event s \<and> alive s i"
  by (induction rule: loop_step.induct) (auto simp: sched_defs)

definition one_thread :: "('h, 'b) sched \<Rightarrow> bool" where
  "one_thread s \<longleftrightarrow> (\<forall>i. alive s i \<longrightarrow> sd_thread s = Some i)"

lemma start_alive: "alive (start_scheduler s) j \<Longrightarrow> alive s j \<or> (\<not> thread_alive s \<and> j = length (sd_pcs s))"
  by (auto simp: start_scheduler_def alive_def nth_append split: if_split_asm)

lemma one_thread_step:
  assumes "sched_step env bulk clock True s s'" "one_thread s"
  shows "one_thread s'"
  using assms
proof (induction rule: sched_step.induct)
  case (step_starts s)
  show ?case
  proof (cases "thread_alive s")
    case True
    then show ?thesis using step_starts by (simp add: start_scheduler_def)
  next
    case False
    then have "\<not> alive s i" for i using step_starts(2) by (auto simp: one_thread_def thread_alive_def)
    then show ?thesis using start_alive [of s] False by (auto simp: one_thread_def start_scheduler_def)
  qed
next
  case (step_returns s)
  then have "\<not> alive s i" for i by (auto simp: one_thread_def thread_alive_def)
  then show ?case by (auto simp: one_thread_def stop_return_def alive_def)
next
  case (step_loops i s s')
  then show ?case using loop_step_alive loop_step_frame by (metis one_thread_def)
qed (simp add: one_thread_def stop_signal_def alive_def)

section \<open>Ticks in sequence\<close>

text \<open>The abstract scheduler: a tick runs the sources that are due, in order, all of them or, when it fails, the first ones.\<close>

inductive one_tick :: "'h import_env \<Rightarrow> 'b sink \<Rightarrow> (nat \<Rightarrow> nat) \<Rightarrow> ('h, 'b) world \<Rightarrow> ('h, 'b) world \<Rightarrow> bool"
  for env bulk clock
where
  "list_due_import_sources (w_db w) (iso now) = done @ rest \<Longrightarrow> one_tick env bulk clock w (fold (run_one env bulk clock now) done w)"

text \<open>Between two ticks the world is the last one's; during a tick it is some way into it.\<close>

definition during ::
  "'h import_env \<Rightarrow> 'b sink \<Rightarrow> (nat \<Rightarrow> nat) \<Rightarrow> ('h, 'b) world \<Rightarrow> ('h, 'b) world \<Rightarrow> nat \<Rightarrow> import_source list \<Rightarrow> bool"
where
  "during env bulk clock w0 w now rest \<longleftrightarrow> (\<exists>ws done. (one_tick env bulk clock)\<^sup>*\<^sup>* w0 ws \<and>
     list_due_import_sources (w_db ws) (iso now) = done @ rest \<and> w = fold (run_one env bulk clock now) done ws)"

definition sequential :: "'h import_env \<Rightarrow> 'b sink \<Rightarrow> (nat \<Rightarrow> nat) \<Rightarrow> ('h, 'b) world \<Rightarrow> ('h, 'b) sched \<Rightarrow> bool" where
  "sequential env bulk clock w0 s \<longleftrightarrow>
     (one_tick env bulk clock)\<^sup>*\<^sup>* w0 (sd_world s) \<and>
     (\<forall>i now rest. alive s i \<longrightarrow> sd_pcs s ! i = Running now rest \<longrightarrow> during env bulk clock w0 (sd_world s) now rest)"

lemma during_ticks: "during env bulk clock w0 w now rest \<Longrightarrow> (one_tick env bulk clock)\<^sup>*\<^sup>* w0 w"
  unfolding during_def by (meson rtranclp.rtrancl_into_rtrancl one_tick.intros)

lemma during_begins:
  "(one_tick env bulk clock)\<^sup>*\<^sup>* w0 w \<Longrightarrow> during env bulk clock w0 w now (list_due_import_sources (w_db w) (iso now))"
  unfolding during_def by (intro exI [of _ w] exI [of _ "[]"]) simp

lemma during_goes_on:
  assumes "during env bulk clock w0 w now (src # rest)"
  shows "during env bulk clock w0 (run_one env bulk clock now src w) now rest"
proof -
  obtain ws d where "(one_tick env bulk clock)\<^sup>*\<^sup>* w0 ws" "list_due_import_sources (w_db ws) (iso now) = d @ src # rest"
    "w = fold (run_one env bulk clock now) d ws"
    using assms unfolding during_def by blast
  then show ?thesis unfolding during_def by (intro exI [of _ ws] exI [of _ "d @ [src]"]) simp
qed

lemma one_thread_alive: "one_thread s \<Longrightarrow> \<forall>i j. alive s i \<longrightarrow> alive s j \<longrightarrow> i = j"
  unfolding one_thread_def by (metis option.inject)

lemma loop_step_sequential:
  assumes "loop_step env bulk clock i s s'" "\<forall>i j. alive s i \<longrightarrow> alive s j \<longrightarrow> i = j" "sequential env bulk clock w0 s"
  shows "sequential env bulk clock w0 s'"
  using assms
proof (induction rule: loop_step.induct)
  case (loop_picks s now)
  then have "\<forall>j. alive s j \<longrightarrow> j = i" by blast
  with loop_picks show ?case
    using during_begins [of env bulk clock w0 "sd_world s" now] by (auto simp: sequential_def set_pc_def alive_def nth_list_update)
next
  case (loop_runs s now src rest)
  then have o: "\<forall>j. alive s j \<longrightarrow> j = i" by blast
  have "during env bulk clock w0 (run_one env bulk clock now src (sd_world s)) now rest"
    using loop_runs during_goes_on unfolding sequential_def by blast
  note d = this
  let ?s = "set_pc i (Running now rest) (s\<lparr>sd_world := run_one env bulk clock now src (sd_world s)\<rparr>)"
  have only: "j = i" if "alive ?s j" for j
    using that o by (cases "j = i") (auto simp: set_pc_def alive_def)
  have "sd_pcs ?s ! i = Running now rest" "sd_world ?s = run_one env bulk clock now src (sd_world s)"
    using loop_runs(1) by (simp_all add: set_pc_def alive_def)
  then have "during env bulk clock w0 (sd_world ?s) n xs" if "alive ?s j" "sd_pcs ?s ! j = Running n xs" for j n xs
    using d only [OF that(1)] that(2) by simp
  then show ?case using during_ticks [OF d] unfolding sequential_def by (simp add: set_pc_def)
qed (auto simp: sequential_def set_pc_def alive_def nth_list_update split: if_split_asm)

lemma sched_step_sequential:
  assumes "sched_step env bulk clock patient s s'" "one_thread s" "sequential env bulk clock w0 s"
  shows "sequential env bulk clock w0 s'"
  using assms
proof (induction rule: sched_step.induct)
  case (step_starts s)
  then show ?case by (auto simp: sequential_def start_scheduler_def alive_def nth_append)
next
  case (step_loops i s s')
  then show ?case using loop_step_sequential one_thread_alive by blast
qed (auto simp: sequential_def stop_signal_def stop_return_def alive_def)

text \<open>C13. As long as every stop waits for the thread to end, any interleaving of starts, stops and threads is a sequence of ticks: at
  most one thread is alive, the world is one that ticks in sequence reach, and during a tick it is that tick some way on.\<close>

theorem scheduler_is_sequential:
  assumes "sched_reach env bulk clock True (idle w) s"
  shows "(\<forall>i j. alive s i \<longrightarrow> alive s j \<longrightarrow> i = j) \<and> sequential env bulk clock w s"
proof -
  have "one_thread s \<and> sequential env bulk clock w s"
    using assms
  proof (induction rule: rtranclp_induct)
    case base
    show ?case by (simp add: one_thread_def sequential_def alive_def idle_def)
  next
    case (step s s')
    then show ?case using one_thread_step sched_step_sequential by blast
  qed
  then show ?thesis using one_thread_alive by blast
qed

section \<open>Stopping\<close>

fun steps_left :: "pc \<Rightarrow> nat" where
  "steps_left Exited = 0"
| "steps_left AtCheck = 1"
| "steps_left AtWait = 1"
| "steps_left (Running now rest) = 2 + length rest"

text \<open>After the signal a thread reads no new sources: each of its steps brings it nearer to its end, and until then it has one.\<close>

lemma stop_drains:
  "loop_step env bulk clock i s s' \<Longrightarrow> sd_stop_event s \<Longrightarrow>
     steps_left (sd_pcs s' ! i) < steps_left (sd_pcs s ! i) \<and> sd_stop_event s'"
  by (induction rule: loop_step.induct) (auto simp: set_pc_def alive_def)

lemma alive_thread_moves:
  assumes "alive s i"
  shows "\<exists>s'. loop_step env bulk clock i s s'"
proof (cases "sd_pcs s ! i")
  case (Running now rest)
  then show ?thesis using assms loop_fails by blast
next
  case AtCheck
  then show ?thesis using assms loop_leaves loop_picks by (cases "sd_stop_event s") blast+
next
  case AtWait
  then show ?thesis using assms loop_woken loop_elapsed by (cases "sd_stop_event s") blast+
qed (use assms in \<open>simp add: alive_def\<close>)

section \<open>What the timeout gives away\<close>

text \<open>An import that takes longer than the five seconds of \<open>stop\<close> is forgotten while it runs; a start then adds a second thread,
  clears the signal of the first, and both hold the same source.\<close>

lemma cut_off_stop_runs_twice:
  assumes "list_due_import_sources (w_db w) (iso now) = due"
  shows "\<exists>s. sched_reach env bulk clock False (idle w) s \<and> sd_pcs s = [Running now due, Running now due] \<and> \<not> sd_stop_event s"
proof -
  let ?S = "sched_step env bulk clock False"
  let ?s = "\<lambda>e t st pcs. \<lparr>sd_stop_event = e, sd_thread = t, sd_stopping = st, sd_pcs = pcs, sd_world = w\<rparr>"
  let ?r = "Running now due"
  have 1: "?S (idle w) (?s False (Some 0) False [AtCheck])"
    using step_starts [of "idle w"] by (simp add: idle_def sched_defs)
  have 2: "?S (?s False (Some 0) False [AtCheck]) (?s False (Some 0) False [?r])"
    using step_loops [OF loop_picks [of "?s False (Some 0) False [AtCheck]" 0]] by (simp add: sched_defs assms [symmetric])
  have 3: "?S (?s False (Some 0) False [?r]) (?s True (Some 0) True [?r])"
    using step_signals [of "?s False (Some 0) False [?r]"] by (simp add: sched_defs)
  have 4: "?S (?s True (Some 0) True [?r]) (?s True None False [?r])"
    using step_returns [of "?s True (Some 0) True [?r]" False] by (simp add: sched_defs)
  have 5: "?S (?s True None False [?r]) (?s False (Some 1) False [?r, AtCheck])"
    using step_starts [of "?s True None False [?r]"] by (simp add: sched_defs)
  have 6: "?S (?s False (Some 1) False [?r, AtCheck]) (?s False (Some 1) False [?r, ?r])"
    using step_loops [OF loop_picks [of "?s False (Some 1) False [?r, AtCheck]" 1]] by (simp add: sched_defs assms [symmetric])
  from 1 2 3 4 5 6 have "sched_reach env bulk clock False (idle w) (?s False (Some 1) False [?r, ?r])"
    by (meson rtranclp.rtrancl_into_rtrancl rtranclp.rtrancl_refl)
  then show ?thesis by (intro exI) (auto)
qed

section \<open>A concrete run\<close>

theorem scheduler_is_sequential_witness:
  "\<exists>s. sched_reach demo_env demo_sink (\<lambda>k. k) True (idle demo_world) s \<and> alive s 0 \<and>
     sequential demo_env demo_sink (\<lambda>k. k) demo_world s"
proof -
  let ?s = "start_scheduler (idle demo_world)"
  have "sched_step demo_env demo_sink (\<lambda>k. k) True (idle demo_world) ?s" by (rule step_starts) (simp add: idle_def)
  then have r: "sched_reach demo_env demo_sink (\<lambda>k. k) True (idle demo_world) ?s" by blast
  moreover have "alive ?s 0" by (simp add: sched_defs idle_def)
  ultimately show ?thesis using scheduler_is_sequential [OF r] by blast
qed

end
