(* ===== verification/Http_Cache.thy ===== *)
theory Http_Cache
  imports Importers
begin

text \<open>
  \<^verbatim>\<open>app/http_cache.py\<close> with the write epoch of \<^verbatim>\<open>app/dependencies.py\<close>: the weak validators of the public
  responses, the revalidation of a cached response, and \<open>Container.ingest\<close>, which rotates the
  validators when a write has stored something. The theory ties an import to the caches.
\<close>

section \<open>The epoch\<close>

text \<open>\<open>Container.ingest\<close>: the state of the backend, and the epoch.\<close>

definition container_ingest :: "'b sink \<Rightarrow> ('b \<times> nat) sink" where
  "container_ingest bulk = (\<lambda>(b, epoch) docs.
     case bulk b docs of
       (b', Inl e) \<Rightarrow> ((b', epoch), Inl e)
     | (b', Inr (ingested, failed)) \<Rightarrow> ((b', if 0 < ingested then Suc epoch else epoch), Inr (ingested, failed)))"

text \<open>
  What the caches rely on: a sink with an epoch that no write takes back, and that every write
  which stores a document moves on.
\<close>

locale epoch_sink =
  fixes sink :: "'s sink" and epoch :: "'s \<Rightarrow> nat"
  assumes epoch_mono: "epoch s \<le> epoch (fst (sink s docs))"
    and epoch_bump: "snd (sink s docs) = Inr (ingested, failed) \<Longrightarrow> 0 < ingested \<Longrightarrow> epoch s < epoch (fst (sink s docs))"
begin

lemma loop_mono: "ingest_loop sink n s ing fl chunk ds stop = (s', ing', fl', err) \<Longrightarrow> epoch s \<le> epoch s'"
proof (induction ds arbitrary: s ing fl chunk)
  case Nil
  then show ?case using epoch_mono [of s chunk]
    by (auto split: option.split_asm if_split_asm prod.split_asm sum.split_asm)
next
  case (Cons d ds)
  show ?case
  proof (cases "n \<le> length (chunk @ [d])")
    case True
    obtain s1 r where r: "sink s (chunk @ [d]) = (s1, r)" by (cases "sink s (chunk @ [d])")
    then have "epoch s \<le> epoch s1" using epoch_mono [of s "chunk @ [d]"] by simp
    moreover have "epoch s1 \<le> epoch s'"
      using Cons.prems True r Cons.IH [of s1 _ _ "[]"] by (cases r) (auto split: prod.split_asm)
    ultimately show ?thesis by simp
  next
    case False
    then show ?thesis using Cons.prems Cons.IH [of s ing fl "chunk @ [d]"] by simp
  qed
qed

lemma loop_bump:
  "ingest_loop sink n s ing fl chunk ds stop = (s', ing', fl', err) \<Longrightarrow> ing < ing' \<Longrightarrow> epoch s < epoch s'"
proof (induction ds arbitrary: s ing fl chunk)
  case Nil
  then show ?case using epoch_bump [of s chunk]
    by (auto split: option.split_asm if_split_asm prod.split_asm sum.split_asm)
next
  case (Cons d ds)
  show ?case
  proof (cases "n \<le> length (chunk @ [d])")
    case True
    obtain s1 r where r: "sink s (chunk @ [d]) = (s1, r)" by (cases "sink s (chunk @ [d])")
    show ?thesis
    proof (cases r)
      case (Inl e)
      with Cons.prems True r show ?thesis by simp
    next
      case (Inr p)
      obtain a f where p: "p = (a, f)" by (cases p)
      have l: "ingest_loop sink n s1 (ing + a) (fl + f) [] ds stop = (s', ing', fl', err)"
        using Cons.prems(1) True r Inr p by simp
      show ?thesis
      proof (cases "0 < a")
        case True
        then have "epoch s < epoch s1" using epoch_bump [of s "chunk @ [d]" a f] r Inr p by simp
        with loop_mono [OF l] show ?thesis by simp
      next
        case False
        then have "epoch s1 < epoch s'" using Cons.IH [OF l] Cons.prems(2) by simp
        with epoch_mono [of s "chunk @ [d]"] r show ?thesis by simp
      qed
    qed
  next
    case False
    then show ?thesis using Cons.prems Cons.IH [of s ing fl "chunk @ [d]"] by simp
  qed
qed

lemma file_bump:
  assumes "file_ingest label parse fs sink n s path = (s', Inr res)" "0 < im_ingested res"
  shows "epoch s < epoch s'"
proof -
  obtain data where r: "fs_read fs (fs_str fs path) = Inr data"
    using assms by (auto simp: file_ingest_def no_import_def Let_def split: if_split_asm sum.split_asm)
  obtain s1 ing fl stop where i: "ingest_stream sink n s (parse data) = (s1, ing, fl, stop)"
    by (cases "ingest_stream sink n s (parse data)") auto
  have "s1 = s'" "im_ingested res = ing"
    using assms r i by (auto simp: file_ingest_def no_import_def Let_def
        split: if_split_asm option.split_asm py_exc.split_asm)
  then show ?thesis using loop_bump [of n s 0 0 "[]" "fst (parse data)" "snd (parse data)"] i assms(2)
    by (simp add: ingest_stream_def)
qed

lemma run_file_bump:
  assumes "run_file (file_ingest label parse fs sink n) path (h, s) = ((h', s'), Inr res)" "0 < im_ingested res"
  shows "epoch s < epoch s'"
  using assms file_bump by (auto simp: run_file_def split: prod.split_asm)

lemma run_harvest_bump:
  assumes "run_harvest env sink src p url mprefix (h, s) = ((h', s'), Inr res)" "0 < im_ingested res"
  shows "epoch s < epoch s'"
proof -
  obtain h1 st where d: "iter_records (ie_fromstring env) (ie_get env url) p url mprefix (is_set_spec src) harvest_max_pages h = (h1, st)"
    by (cases "iter_records (ie_fromstring env) (ie_get env url) p url mprefix (is_set_spec src) harvest_max_pages h")
  obtain s1 ing fl stop where i: "ingest_stream sink import_chunk_size s st = (s1, ing, fl, stop)"
    by (cases "ingest_stream sink import_chunk_size s st") auto
  have "s1 = s'" "im_ingested res = ing" using assms(1) d i by (auto simp: run_harvest_def oai_ingest_def)
  then show ?thesis using loop_bump [of import_chunk_size s 0 0 "[]" "fst st" "snd st"] i assms(2)
    by (simp add: ingest_stream_def)
qed

lemma run_import_bump:
  assumes "run_import env sink src (h, s) = ((h', s'), Inr res)" "0 < im_ingested res"
  shows "epoch s < epoch s'"
  using assms unfolding run_import_def Let_def lido_ingest_file_def [abs_def] ead_ingest_file_def [abs_def]
    ingest_marc_file_def [abs_def] ingest_marcxml_file_def [abs_def] ingest_csv_file_def [abs_def]
  by (simp_all add: no_import_def split: if_split_asm)
     ((erule (1) run_harvest_bump run_file_bump | clarsimp)+)

end

interpretation container: epoch_sink "container_ingest bulk" snd for bulk
  by unfold_locales (auto simp: container_ingest_def split: prod.splits sum.splits)

section \<open>Validators\<close>

definition strip_weak_prefix :: "string \<Rightarrow> string" where
  "strip_weak_prefix tag = (if starts_with ''W/'' tag then drop 2 tag else tag)"

definition etag_matches :: "string \<Rightarrow> string \<Rightarrow> bool" where
  "etag_matches header_value etag =
     (let target = strip_weak_prefix etag;
          candidates = filter (\<lambda>c. c \<noteq> []) (map py_strip (split_char (CHR '','') header_value)) in
      list_ex (\<lambda>c. c = ''*'' \<or> strip_weak_prefix c = target) candidates)"

definition cache_control_directive :: "app_config \<Rightarrow> int \<Rightarrow> string" where
  "cache_control_directive c max_age =
     ((if au_public_mode (ac_auth c) = AnonymousAllowed then ''public'' else ''private'') @ '', max-age='' @ str_of_int max_age)"

text \<open>The headers set on the response, and whether it becomes a 304.\<close>

definition apply_cache_headers ::
  "app_config \<Rightarrow> string option \<Rightarrow> string \<Rightarrow> (string \<times> string) list \<times> bool"
where
  "apply_cache_headers c if_none_match etag =
     (if \<not> cc_enabled (ac_cache c) then ([], False)
      else (let cache_control = cache_control_directive c (max 0 (cc_public_max_age_seconds (ac_cache c))) in
        ([(''Cache-Control'', cache_control), (''ETag'', etag)],
         is_set if_none_match \<and> etag_matches (the if_none_match) etag)))"

definition weak_tag :: "string \<Rightarrow> nat \<Rightarrow> string" where
  "weak_tag resource epoch = ''W/'' @ [CHR 0x22] @ resource @ '':v'' @ str_of_nat epoch @ [CHR 0x22]"

definition search_etag :: "string \<Rightarrow> string \<Rightarrow> nat \<Rightarrow> string" where
  "search_etag fmt key epoch = weak_tag (''search:'' @ fmt @ '':'' @ key) epoch"

definition record_etag :: "string \<Rightarrow> nat \<Rightarrow> string" where
  "record_etag record_id epoch = weak_tag (''record:'' @ record_id) epoch"

definition facets_etag :: "string \<Rightarrow> nat \<Rightarrow> string" where
  "facets_etag key epoch = weak_tag (''facets:'' @ key) epoch"

section \<open>Revalidation is never stale\<close>

definition header_members :: "string \<Rightarrow> string list" where
  "header_members header_value = filter (\<lambda>c. c \<noteq> []) (map py_strip (split_char (CHR '','') header_value))"

lemma etag_matches_iff:
  "etag_matches header_value etag \<longleftrightarrow>
     (\<exists>c \<in> set (header_members header_value). c = ''*'' \<or> strip_weak_prefix c = strip_weak_prefix etag)"
  by (simp add: etag_matches_def header_members_def list_ex_iff Let_def)

lemma strip_weak_tag: "strip_weak_prefix (weak_tag r v) = drop 2 (weak_tag r v)"
  by (simp add: strip_weak_prefix_def weak_tag_def)

lemma weak_tag_epoch:
  assumes "drop 2 (weak_tag r v) = drop 2 (weak_tag r' v')"
  shows "v = v'"
proof -
  have tail: "takeWhile is_digit (rev (butlast (drop 2 (weak_tag q n)))) = rev (str_of_nat n)" for q n
  proof -
    have "rev (butlast (drop 2 (weak_tag q n))) = rev (str_of_nat n) @ CHR ''v'' # CHR '':'' # rev q @ [CHR 0x22]"
      by (simp add: weak_tag_def butlast_append)
    moreover have "takeWhile is_digit (rev (str_of_nat n) @ CHR ''v'' # s) = rev (str_of_nat n)" for s
      by (subst takeWhile_append2) (auto dest: str_of_nat_digits simp: is_digit_def [of "CHR ''v''"])
    ultimately show ?thesis by simp
  qed
  from arg_cong [OF assms, of "\<lambda>s. takeWhile is_digit (rev (butlast s))"]
  have "str_of_nat v = str_of_nat v'" by (simp add: tail)
  then show ?thesis by simp
qed


text \<open>
  A client that revalidates while nothing was stored gets its 304, when the validator has no comma.
\<close>

lemma split_no_comma: "CHR '','' \<notin> set t \<Longrightarrow> split_char (CHR '','') t = [t]"
  by (rule split_char_not_in)

lemma weak_tag_strip: "py_strip (weak_tag r v) = weak_tag r v"
  by (simp add: py_strip_def strip_by_def weak_tag_def is_space_def rstrip_by_def)

lemma revalidates:
  assumes "CHR '','' \<notin> set (weak_tag r v)"
  shows "etag_matches (weak_tag r v) (weak_tag r v)"
proof -
  have "weak_tag r v \<noteq> []" by (simp add: weak_tag_def)
  then show ?thesis by (simp add: etag_matches_iff header_members_def split_no_comma [OF assms] weak_tag_strip)
qed

text \<open>
  The identifier of a record goes into its validator as it is. One with a lone star between commas
  makes a validator that matches every later validator of the record, so that its client never
  sees a change again.
\<close>

lemma starred_record_never_refreshes:
  "etag_matches (record_etag ''a,*,b'' v) (record_etag ''a,*,b'' v')"
proof -
  have "split_char (CHR '','') (record_etag ''a,*,b'' v) =
      [''W/'' @ [CHR 0x22] @ ''record:a'', ''*'', ''b:v'' @ str_of_nat v @ [CHR 0x22]]"
  proof -
    have "CHR '','' \<notin> set (str_of_nat v)" using str_of_nat_digits [of "CHR '',''" v] by (auto simp: is_digit_def)
    then have "split_char (CHR '','') (''b:v'' @ str_of_nat v @ [CHR 0x22]) = [''b:v'' @ str_of_nat v @ [CHR 0x22]]"
      by (intro split_char_not_in) auto
    then show ?thesis by (simp add: record_etag_def weak_tag_def)
  qed
  then show ?thesis by (simp add: etag_matches_iff header_members_def py_strip_def strip_by_def rstrip_by_def is_space_def)
qed

section \<open>A concrete revalidation\<close>

lemma demo_container_import:
  "run_import demo_env (container_ingest demo_sink) demo_source ((), ((), 4)) =
     (((), ((), 5)), Inr \<lparr>im_ingested = 1, im_failed = 0, im_error = None\<rparr>)"
  by code_simp


end
