(* ===== verification/Rate_Limit.thy ===== *)
theory Rate_Limit
  imports Egg_Prelude Complex_Main
begin

text \<open>
  \<^verbatim>\<open>app/rate_limit/\<close>: the in-memory sliding-window limiter, the Redis fixed-window limiter and the
  401 lockout. Clock readings are rational numbers and arguments; the Redis client is an
  argument. The locale \<open>request_limiter\<close> is the contract that both limiters give their callers
  (\<open>allow(subject)\<close>), and what a caller may conclude from it is proved once.
\<close>

section \<open>The contract\<close>

text \<open>
  \<open>live st now s\<close> is the number of accepted requests of \<open>s\<close> that still count at \<open>now\<close>, and
  \<open>counts t now\<close> says whether a request accepted at \<open>t\<close> does. \<open>ok st now\<close> is the invariant of the
  state, for clock readings from \<open>now\<close> on.
\<close>

locale request_limiter =
  fixes allow :: "'s \<Rightarrow> rat \<Rightarrow> string \<Rightarrow> 's \<times> bool"
    and live :: "'s \<Rightarrow> rat \<Rightarrow> string \<Rightarrow> nat"
    and limit :: int
    and counts :: "rat \<Rightarrow> rat \<Rightarrow> bool"
    and ok :: "'s \<Rightarrow> rat \<Rightarrow> bool"
  assumes decides: "ok st now \<Longrightarrow> snd (allow st now s) \<longleftrightarrow> int (live st now s) < limit"
    and charges: "ok st now \<Longrightarrow> now \<le> now' \<Longrightarrow>
      live (fst (allow st now s)) now' s' =
        live st now' s' + (if s' = s \<and> snd (allow st now s) \<and> counts now now' then 1 else 0)"
    and ages: "ok st now \<Longrightarrow> now \<le> now' \<Longrightarrow> live st now' s \<le> live st now s"
    and counts_refl: "ok st now \<Longrightarrow> counts now now"
    and keeps: "ok st now \<Longrightarrow> ok (fst (allow st now s)) now"
    and later: "ok st now \<Longrightarrow> now \<le> now' \<Longrightarrow> ok st now'"
begin

text \<open>A run: the state after a list of timed requests, and the requests that were accepted.\<close>

fun run :: "'s \<Rightarrow> (rat \<times> string) list \<Rightarrow> 's \<times> (rat \<times> string) list" where
  "run st [] = (st, [])"
| "run st ((t, s) # reqs) =
     (let (st', yes) = allow st t s; (st'', acc) = run st' reqs in
      (st'', (if yes then (t, s) # acc else acc)))"

definition timed :: "rat \<Rightarrow> (rat \<times> string) list \<Rightarrow> rat \<Rightarrow> bool" where
  "timed t0 reqs t1 \<longleftrightarrow> sorted_wrt (\<le>) (t0 # map fst reqs @ [t1])"

lemma timed_Cons: "timed t0 ((t, s) # reqs) t1 \<longleftrightarrow> t0 \<le> t \<and> timed t reqs t1"
  by (auto simp: timed_def)

lemma timed_le: "timed t0 reqs t1 \<Longrightarrow> t0 \<le> t1"
  by (simp add: timed_def)

lemma run_Cons:
  "run st ((t, s) # reqs) =
     (fst (run (fst (allow st t s)) reqs),
      (if snd (allow st t s) then (t, s) # snd (run (fst (allow st t s)) reqs)
       else snd (run (fst (allow st t s)) reqs)))"
  by (simp add: split_beta Let_def)

lemma run_ok: "ok st t0 \<Longrightarrow> timed t0 reqs now \<Longrightarrow> ok (fst (run st reqs)) now"
proof (induction reqs arbitrary: st t0)
  case Nil
  then show ?case using later timed_le by fastforce
next
  case (Cons r reqs)
  obtain t s where r: "r = (t, s)" by (cases r)
  have t: "t0 \<le> t" "timed t reqs now" using Cons.prems(2) r by (auto simp: timed_Cons)
  show ?case
    using Cons.IH [OF keeps [OF later [OF Cons.prems(1) t(1)]] t(2)] by (simp add: r run_Cons del: run.simps)
qed

lemma run_live:
  "ok st t0 \<Longrightarrow> timed t0 reqs now \<Longrightarrow>
     live (fst (run st reqs)) now s =
       live st now s + length (filter (\<lambda>(t, s'). s' = s \<and> counts t now) (snd (run st reqs)))"
proof (induction reqs arbitrary: st t0)
  case (Cons r reqs)
  obtain t s' where r: "r = (t, s')" by (cases r)
  have t: "t0 \<le> t" "timed t reqs now" "t \<le> now"
    using Cons.prems(2) r by (auto simp: timed_Cons dest: timed_le)
  have o: "ok st t" by (rule later [OF Cons.prems(1) t(1)])
  note IH = Cons.IH [OF keeps [OF o] t(2), of s']
  show ?case
    using Cons.IH [OF keeps [OF o, of s'] t(2)] charges [OF o t(3), of s' s]
    by (auto simp: r run_Cons simp del: run.simps)
qed simp

lemma run_bound:
  "ok st t0 \<Longrightarrow> timed t0 reqs now \<Longrightarrow>
     int (live (fst (run st reqs)) now s) \<le> max limit (int (live st t0 s))"
proof (induction reqs arbitrary: st t0)
  case Nil
  then show ?case using ages [of st t0 now s] timed_le [of t0 "[]" now] by fastforce
next
  case (Cons r reqs)
  obtain t s' where r: "r = (t, s')" by (cases r)
  have t: "t0 \<le> t" "timed t reqs now" using Cons.prems(2) r by (auto simp: timed_Cons)
  have o: "ok st t" by (rule later [OF Cons.prems(1) t(1)])
  have "int (live (fst (run (fst (allow st t s')) reqs)) now s) \<le> max limit (int (live (fst (allow st t s')) t s))"
    by (rule Cons.IH [OF keeps [OF o] t(2)])
  also have "int (live (fst (allow st t s')) t s) \<le> max limit (int (live st t s))"
    using charges [OF o order.refl, of s' s] decides [OF o, of s'] by (auto simp: counts_refl [OF o])
  also have "int (live st t s) \<le> int (live st t0 s)" using ages [OF Cons.prems(1) t(1)] by simp
  finally show ?case by (simp add: r run_Cons del: run.simps)
qed

text \<open>Of the accepted requests of one subject, those that count at any one instant stay within the limit.\<close>

lemma accepted_bound:
  assumes "ok st t0" "timed t0 reqs now" "int (live st t0 s) \<le> max 0 limit"
  shows "int (length (filter (\<lambda>(t, s'). s' = s \<and> counts t now) (snd (run st reqs)))) \<le> max 0 limit"
  using run_live [OF assms(1,2), of s] run_bound [OF assms(1,2), of s] assms(3) by linarith

lemma run_agree:
  "ok st1 t0 \<Longrightarrow> ok st2 t0 \<Longrightarrow> timed t0 reqs now \<Longrightarrow> \<forall>t \<ge> t0. live st1 t s = live st2 t s \<Longrightarrow>
     filter (\<lambda>(t, s'). s' = s) (snd (run st1 reqs)) = snd (run st2 (filter (\<lambda>(t, s'). s' = s) reqs))"
proof (induction reqs arbitrary: st1 st2 t0)
  case (Cons r reqs)
  obtain t s' where r: "r = (t, s')" by (cases r)
  have t: "t0 \<le> t" "timed t reqs now" using Cons.prems(3) r by (auto simp: timed_Cons)
  have o: "ok st1 t" "ok st2 t" by (rule later [OF _ t(1)]; rule Cons.prems)+
  show ?case
  proof (cases "s' = s")
    case True
    have d: "snd (allow st1 t s) = snd (allow st2 t s)"
      using decides [OF o(1), of s] decides [OF o(2), of s] Cons.prems(4) t(1) by simp
    have "\<forall>u \<ge> t. live (fst (allow st1 t s)) u s = live (fst (allow st2 t s)) u s"
      using charges [OF o(1)] charges [OF o(2)] d Cons.prems(4) t(1) by (auto intro: order_trans)
    from Cons.IH [OF keeps [OF o(1)] keeps [OF o(2)] t(2) this] d True show ?thesis
      by (simp add: r run_Cons del: run.simps)
  next
    case False
    have "\<forall>u \<ge> t. live (fst (allow st1 t s')) u s = live st2 u s"
      using charges [OF o(1)] False Cons.prems(4) t(1) by (auto intro: order_trans)
    from Cons.IH [OF keeps [OF o(1)] o(2) t(2) this] False show ?thesis
      by (simp add: r run_Cons del: run.simps)
  qed
qed simp

text \<open>One subject's decisions do not depend on the requests of the others.\<close>

lemma isolation:
  assumes "ok st t0" "timed t0 reqs now"
  shows "filter (\<lambda>(t, s'). s' = s) (snd (run st reqs)) = snd (run st (filter (\<lambda>(t, s'). s' = s) reqs))"
  by (rule run_agree [OF assms(1) assms(1) assms(2)]) simp

end

section \<open>The in-memory limiter\<close>

record mem_limiter =
  ml_max_requests :: int
  ml_window_seconds :: int
  ml_buckets :: "(string \<times> rat list) list"

definition new_mem_limiter :: "int \<Rightarrow> int \<Rightarrow> mem_limiter" where
  "new_mem_limiter mx w = \<lparr>ml_max_requests = mx, ml_window_seconds = w, ml_buckets = []\<rparr>"

definition bucket :: "(string \<times> rat list) list \<Rightarrow> string \<Rightarrow> rat list" where
  "bucket bs s = (case dict_get bs s of None \<Rightarrow> [] | Some b \<Rightarrow> b)"

definition mem_allow :: "mem_limiter \<Rightarrow> rat \<Rightarrow> string \<Rightarrow> mem_limiter \<times> bool" where
  "mem_allow st now subject =
     (let b = dropWhile (\<lambda>t. now - t > of_int (ml_window_seconds st)) (bucket (ml_buckets st) subject) in
      if int (length b) \<ge> ml_max_requests st
      then (st\<lparr>ml_buckets := dict_set subject b (ml_buckets st)\<rparr>, False)
      else (st\<lparr>ml_buckets := dict_set subject (b @ [now]) (ml_buckets st)\<rparr>, True))"

definition in_window :: "int \<Rightarrow> rat \<Rightarrow> rat \<Rightarrow> bool" where
  "in_window w t now \<longleftrightarrow> now - t \<le> of_int w"

definition mem_live :: "mem_limiter \<Rightarrow> rat \<Rightarrow> string \<Rightarrow> nat" where
  "mem_live st now s =
     length (filter (\<lambda>t. in_window (ml_window_seconds st) t now) (bucket (ml_buckets st) s))"

definition mem_ok :: "int \<Rightarrow> int \<Rightarrow> mem_limiter \<Rightarrow> rat \<Rightarrow> bool" where
  "mem_ok mx w st now \<longleftrightarrow> ml_max_requests st = mx \<and> ml_window_seconds st = w \<and> 0 \<le> w \<and>
     (\<forall>s. sorted (bucket (ml_buckets st) s) \<and> (\<forall>t \<in> set (bucket (ml_buckets st) s). t \<le> now))"

lemma bucket_set [simp]: "bucket (dict_set s b bs) s' = (if s' = s then b else bucket bs s')"
  by (simp add: bucket_def)

lemma bucket_Nil [simp]: "bucket [] s = []"
  by (simp add: bucket_def)

text \<open>On a sorted bucket, eviction from the front is a filter.\<close>

lemma evict_filter:
  fixes b :: "rat list"
  shows "sorted b \<Longrightarrow> dropWhile (\<lambda>t. t < c) b = filter (\<lambda>t. c \<le> t) b"
  by (induction b) (force intro: filter_True [symmetric])+

lemma mem_evict:
  assumes "mem_ok mx w st now"
  shows "dropWhile (\<lambda>t. now - t > of_int (ml_window_seconds st)) (bucket (ml_buckets st) s) =
    filter (\<lambda>t. in_window w t now) (bucket (ml_buckets st) s)"
proof -
  have "(\<lambda>t. now - t > of_int (ml_window_seconds st)) = (\<lambda>t. t < now - of_int w)"
    "(\<lambda>t. in_window w t now) = (\<lambda>t. now - of_int w \<le> t)"
    using assms by (auto simp: mem_ok_def in_window_def algebra_simps)
  then show ?thesis using assms by (simp add: mem_ok_def evict_filter)
qed

lemma filter_in_window_later:
  "now \<le> now' \<Longrightarrow> filter (\<lambda>t. in_window w t now') (filter (\<lambda>t. in_window w t now) b) =
     filter (\<lambda>t. in_window w t now') b"
  by (auto simp: in_window_def intro: filter_cong)

interpretation mem: request_limiter mem_allow mem_live mx "in_window w" "mem_ok mx w"
  for mx w :: int
proof
  fix st :: mem_limiter and now now' :: rat and s s' :: string
  assume o: "mem_ok mx w st now"
  then have m: "ml_max_requests st = mx" "ml_window_seconds st = w" "0 \<le> w"
    and sb: "sorted (bucket (ml_buckets st) s)" "\<forall>t \<in> set (bucket (ml_buckets st) s). t \<le> now" for s
    by (simp_all add: mem_ok_def)
  note ev = mem_evict [OF o, unfolded m(2)]
  show "snd (mem_allow st now s) \<longleftrightarrow> int (mem_live st now s) < mx"
    by (simp add: mem_allow_def Let_def ev m mem_live_def)
  show "mem_ok mx w (fst (mem_allow st now s)) now"
    using sb m by (auto simp: mem_allow_def Let_def ev mem_ok_def sorted_append intro: sorted_wrt_filter)
  show "in_window w now now" using m by (simp add: in_window_def)
  assume le: "now \<le> now'"
  show "mem_live (fst (mem_allow st now s)) now' s' =
      mem_live st now' s' + (if s' = s \<and> snd (mem_allow st now s) \<and> in_window w now now' then 1 else 0)"
    using filter_in_window_later [OF le] by (simp add: mem_allow_def Let_def ev m mem_live_def)
  show "mem_live st now' s \<le> mem_live st now s"
    using filter_in_window_later [OF le, of w "bucket (ml_buckets st) s"]
    by (metis mem_live_def length_filter_le m(2))
  show "mem_ok mx w st now'" using o le by (fastforce simp: mem_ok_def)
qed

definition mem_run :: "mem_limiter \<Rightarrow> (rat \<times> string) list \<Rightarrow> mem_limiter \<times> (rat \<times> string) list" where
  "mem_run st reqs = mem.run st reqs"

definition clock_ok :: "(rat \<times> string) list \<Rightarrow> rat \<Rightarrow> bool" where
  "clock_ok reqs now \<longleftrightarrow> sorted_wrt (\<le>) (map fst reqs @ [now])"

definition accepted_in_window :: "int \<Rightarrow> (rat \<times> string) list \<Rightarrow> rat \<Rightarrow> string \<Rightarrow> nat" where
  "accepted_in_window w acc now s = length (filter (\<lambda>(t, s'). s' = s \<and> in_window w t now) acc)"

lemma clock_timed:
  assumes "clock_ok reqs now"
  shows "\<exists>t0. mem.timed t0 reqs now"
proof (cases reqs)
  case Nil
  then show ?thesis using assms by (auto simp: mem.timed_def clock_ok_def)
next
  case (Cons r rs)
  then show ?thesis using assms
    by (intro exI [of _ "fst r"]) (auto simp: mem.timed_def clock_ok_def)
qed

lemma new_mem_ok: "0 \<le> w \<Longrightarrow> mem_ok mx w (new_mem_limiter mx w) t"
  by (simp add: mem_ok_def new_mem_limiter_def)

lemma new_mem_live [simp]: "mem_live (new_mem_limiter mx w) t s = 0"
  by (simp add: mem_live_def new_mem_limiter_def)

text \<open>
  C12. The in-memory limiter is a sliding window, exactly: in any sequence of calls with a clock
  that does not go back, a request is accepted if and only if fewer than \<open>max_requests\<close> accepted
  requests of the same subject lie in the window that ends with it, and the requests of the
  other subjects have no influence.
\<close>

theorem mem_limiter_sliding_window:
  assumes "0 \<le> w" "clock_ok reqs now"
  shows "(snd (mem_allow (fst (mem_run (new_mem_limiter mx w) reqs)) now s) \<longleftrightarrow>
      int (accepted_in_window w (snd (mem_run (new_mem_limiter mx w) reqs)) now s) < mx) \<and>
    filter (\<lambda>(t, s'). s' = s) (snd (mem_run (new_mem_limiter mx w) reqs)) =
      snd (mem_run (new_mem_limiter mx w) (filter (\<lambda>(t, s'). s' = s) reqs))"
proof -
  let ?st = "new_mem_limiter mx w"
  obtain t0 where t: "mem.timed t0 reqs now" using clock_timed [OF assms(2)] by blast
  note o = new_mem_ok [OF assms(1), of mx t0]
  have "mem_ok mx w (fst (mem.run ?st reqs)) now" by (rule mem.run_ok [OF o t])
  from mem.decides [OF this] mem.run_live [OF o t, of s]
  have "snd (mem_allow (fst (mem_run ?st reqs)) now s) \<longleftrightarrow>
      int (accepted_in_window w (snd (mem_run ?st reqs)) now s) < mx"
    by (simp add: mem_run_def accepted_in_window_def)
  moreover have "filter (\<lambda>(t, s'). s' = s) (snd (mem_run ?st reqs)) =
      snd (mem_run ?st (filter (\<lambda>(t, s'). s' = s) reqs))"
    unfolding mem_run_def by (rule mem.isolation [OF o t])
  ultimately show ?thesis by blast
qed

text \<open>
  No window of \<open>window_seconds\<close> ever contains more than \<open>max_requests\<close> accepted requests of
  one subject.
\<close>

lemma mem_limiter_bound:
  assumes "0 \<le> w" "clock_ok reqs now"
  shows "int (accepted_in_window w (snd (mem_run (new_mem_limiter mx w) reqs)) now s) \<le> max 0 mx"
proof -
  obtain t0 where t: "mem.timed t0 reqs now" using clock_timed [OF assms(2)] by blast
  show ?thesis
    using mem.accepted_bound [OF new_mem_ok [OF assms(1)] t, of mx s]
    by (simp add: mem_run_def accepted_in_window_def)
qed

section \<open>The Redis limiter\<close>

record redis_limiter =
  rd_max_requests :: int
  rd_window_seconds :: int
  rd_scope :: string

definition new_redis_limiter :: "int \<Rightarrow> int \<Rightarrow> string \<Rightarrow> redis_limiter" where
  "new_redis_limiter mx w scope = \<lparr>rd_max_requests = mx, rd_window_seconds = max 1 w, rd_scope = scope\<rparr>"

text \<open>\<open>int(x)\<close> of a float truncates toward zero.\<close>

definition py_trunc :: "rat \<Rightarrow> int" where
  "py_trunc r = (if r < 0 then - \<lfloor>- r\<rfloor> else \<lfloor>r\<rfloor>)"

definition window_start :: "redis_limiter \<Rightarrow> rat \<Rightarrow> int" where
  "window_start rl now = py_trunc now - py_trunc now mod rd_window_seconds rl"

definition redis_key :: "redis_limiter \<Rightarrow> string \<Rightarrow> rat \<Rightarrow> string" where
  "redis_key rl subject now =
     ''egg:rl:'' @ rd_scope rl @ '':'' @ subject @ '':'' @ str_of_int (window_start rl now)"

text \<open>
  The client is an argument: \<open>exec st key ttl\<close> runs the pipeline \<open>INCR key; EXPIRE key ttl\<close> and
  returns the count, or \<open>None\<close> when it raises. A failure lets the request through.
\<close>

definition redis_allow ::
  "('c \<Rightarrow> string \<Rightarrow> int \<Rightarrow> 'c \<times> int option) \<Rightarrow> redis_limiter \<Rightarrow> 'c \<Rightarrow> rat \<Rightarrow> string \<Rightarrow> 'c \<times> bool"
where
  "redis_allow exec rl st now subject =
     (case exec st (redis_key rl subject now) (rd_window_seconds rl) of
        (st', None) \<Rightarrow> (st', True)
      | (st', Some count) \<Rightarrow> (st', count \<le> rd_max_requests rl))"

text \<open>
  What Redis documents of the two commands on keys that have not expired: the count is one more
  than before, other keys keep theirs. A key lives \<open>window_seconds\<close> from its last increment,
  which is longer than the rest of the window its name holds.
\<close>

definition incr_lawful :: "('c \<Rightarrow> string \<Rightarrow> int \<Rightarrow> 'c \<times> int option) \<Rightarrow> ('c \<Rightarrow> string \<Rightarrow> nat) \<Rightarrow> bool" where
  "incr_lawful exec count \<longleftrightarrow>
     (\<forall>st key ttl. snd (exec st key ttl) = Some (int (count st key) + 1) \<and>
        (\<forall>k. count (fst (exec st key ttl)) k = count st k + (if k = key then 1 else 0)))"

definition redis_live :: "('c \<Rightarrow> string \<Rightarrow> nat) \<Rightarrow> redis_limiter \<Rightarrow> 'c \<Rightarrow> rat \<Rightarrow> string \<Rightarrow> nat" where
  "redis_live count rl st now s = min (nat (rd_max_requests rl)) (count st (redis_key rl s now))"

definition redis_ok :: "('c \<Rightarrow> string \<Rightarrow> nat) \<Rightarrow> redis_limiter \<Rightarrow> 'c \<Rightarrow> rat \<Rightarrow> bool" where
  "redis_ok count rl st now \<longleftrightarrow> 0 < rd_window_seconds rl \<and>
     (\<forall>s t. now \<le> t \<longrightarrow> window_start rl t \<noteq> window_start rl now \<longrightarrow> count st (redis_key rl s t) = 0)"

definition same_window :: "redis_limiter \<Rightarrow> rat \<Rightarrow> rat \<Rightarrow> bool" where
  "same_window rl t now \<longleftrightarrow> window_start rl t = window_start rl now"

lemma py_trunc_mono: "a \<le> b \<Longrightarrow> py_trunc a \<le> py_trunc b"
proof -
  assume ab: "a \<le> b"
  consider "b < 0" | "a < 0" "0 \<le> b" | "0 \<le> a" by linarith
  then show ?thesis
  proof cases
    case 1
    then show ?thesis using ab floor_mono [of "- b" "- a"] by (simp add: py_trunc_def)
  next
    case 2
    then have "0 \<le> \<lfloor>- a\<rfloor>" "0 \<le> \<lfloor>b\<rfloor>" by simp_all
    moreover have "py_trunc a = - \<lfloor>- a\<rfloor>" "py_trunc b = \<lfloor>b\<rfloor>" using 2 by (simp_all add: py_trunc_def)
    ultimately show ?thesis by linarith
  next
    case 3
    then show ?thesis using ab floor_mono [OF ab] by (simp add: py_trunc_def)
  qed
qed

lemma window_start_div: "window_start rl t = rd_window_seconds rl * (py_trunc t div rd_window_seconds rl)"
  by (simp add: window_start_def minus_mod_eq_mult_div)

lemma window_start_mono: "0 < rd_window_seconds rl \<Longrightarrow> a \<le> b \<Longrightarrow> window_start rl a \<le> window_start rl b"
  unfolding window_start_div by (intro mult_left_mono zdiv_mono1 py_trunc_mono) auto

lemma str_of_nat_chars: "CHR '':'' \<notin> set (str_of_nat n)" "CHR ''-'' \<notin> set (str_of_nat n)"
  by (auto dest: str_of_nat_digits simp: is_digit_def)

lemma str_of_int_no_colon: "CHR '':'' \<notin> set (str_of_int i)"
  by (simp add: str_of_int_def str_of_nat_chars)

lemma str_of_int_inject: "str_of_int i = str_of_int j \<longleftrightarrow> i = j"
proof
  have hd: "str_of_nat n \<noteq> CHR ''-'' # s" for n s using str_of_nat_chars(2) [of n] by auto
  assume "str_of_int i = str_of_int j"
  then show "i = j" using hd hd [symmetric] by (auto simp: str_of_int_def split: if_splits)
qed simp

text \<open>The key names one subject and one window: a colon inside a subject cannot blur the two.\<close>

lemma last_colon:
  assumes "a @ CHR '':'' # x = b @ CHR '':'' # y" "CHR '':'' \<notin> set x" "CHR '':'' \<notin> set y"
  shows "a = b \<and> x = y"
proof -
  have e: "rev x @ CHR '':'' # rev a = rev y @ CHR '':'' # rev b" using arg_cong [OF assms(1), of rev] by simp
  have t: "takeWhile (\<lambda>c. c \<noteq> CHR '':'') (rev z @ CHR '':'' # r) = rev z" if "CHR '':'' \<notin> set z" for z r
    using that by (induction z arbitrary: r rule: rev_induct) auto
  have "rev x = rev y" using t [OF assms(2)] t [OF assms(3)] e by metis
  with e show ?thesis by simp
qed

lemma redis_key_inject:
  "redis_key rl s t = redis_key rl s' t' \<longleftrightarrow> s = s' \<and> window_start rl t = window_start rl t'"
  using last_colon [of "''egg:rl:'' @ rd_scope rl @ '':'' @ s" "str_of_int (window_start rl t)"
      "''egg:rl:'' @ rd_scope rl @ '':'' @ s'" "str_of_int (window_start rl t')"]
  by (auto simp: redis_key_def str_of_int_no_colon str_of_int_inject)

lemma redis_is_limiter:
  assumes "incr_lawful exec count"
  shows "request_limiter (redis_allow exec rl) (redis_live count rl) (rd_max_requests rl)
    (same_window rl) (redis_ok count rl)"
proof
  fix st and now now' :: rat and s s' :: string
  assume o: "redis_ok count rl st now"
  then have w: "0 < rd_window_seconds rl" by (simp add: redis_ok_def)
  let ?k = "redis_key rl s now" and ?mx = "rd_max_requests rl"
  have e: "snd (exec st k ttl) = Some (int (count st k) + 1)"
    and c: "count (fst (exec st k ttl)) k' = count st k' + (if k' = k then 1 else 0)" for k ttl k'
    using assms by (auto simp: incr_lawful_def)
  have a: "fst (redis_allow exec rl st now s) = fst (exec st ?k (rd_window_seconds rl))"
    "snd (redis_allow exec rl st now s) \<longleftrightarrow> int (count st ?k) + 1 \<le> ?mx"
    using e [of ?k "rd_window_seconds rl"] by (auto simp: redis_allow_def split: prod.splits option.splits)
  show "snd (redis_allow exec rl st now s) \<longleftrightarrow> int (redis_live count rl st now s) < ?mx"
    by (auto simp: a redis_live_def)
  show "same_window rl now now" by (simp add: same_window_def)
  show "redis_ok count rl (fst (redis_allow exec rl st now s)) now"
    using o by (auto simp: redis_ok_def a c redis_key_inject)
  assume le: "now \<le> now'"
  show "redis_live count rl (fst (redis_allow exec rl st now s)) now' s' =
      redis_live count rl st now' s' + (if s' = s \<and> snd (redis_allow exec rl st now s) \<and> same_window rl now now' then 1 else 0)"
    by (auto simp: redis_live_def a c redis_key_inject same_window_def redis_key_def [symmetric])
       (auto simp: redis_key_def)
  show "redis_live count rl st now' s \<le> redis_live count rl st now s"
    using o le by (cases "window_start rl now' = window_start rl now") (auto simp: redis_live_def redis_ok_def redis_key_def)
  show "redis_ok count rl st now'"
    using o le window_start_mono [OF w] unfolding redis_ok_def
    by (metis order_antisym order_trans)
qed

definition redis_run ::
  "('c \<Rightarrow> string \<Rightarrow> int \<Rightarrow> 'c \<times> int option) \<Rightarrow> redis_limiter \<Rightarrow> 'c \<Rightarrow> (rat \<times> string) list \<Rightarrow>
     'c \<times> (rat \<times> string) list"
where
  "redis_run exec rl st reqs = request_limiter.run (redis_allow exec rl) st reqs"

text \<open>
  With a Redis that counts as documented, no fixed window accepts more than
  \<open>max_requests\<close> requests of one subject, whatever the other subjects send and whatever
  characters a subject contains.
\<close>

lemma redis_limiter_bound:
  assumes "incr_lawful exec count" "\<forall>k. count st k = 0" "clock_ok reqs now" "0 < rd_window_seconds rl"
  shows "int (length (filter (\<lambda>(t, s'). s' = s \<and> same_window rl t now) (snd (redis_run exec rl st reqs))))
    \<le> max 0 (rd_max_requests rl)"
proof -
  note L = redis_is_limiter [OF assms(1), of rl]
  obtain t0 where t: "mem.timed t0 reqs now" using clock_timed [OF assms(3)] by blast
  have o: "redis_ok count rl st t0" and z: "int (redis_live count rl st t0 s) \<le> max 0 (rd_max_requests rl)"
    using assms(2,4) by (simp_all add: redis_ok_def redis_live_def)
  show ?thesis
    using request_limiter.accepted_bound [OF L o t z] by (simp add: redis_run_def)
qed

section \<open>Choosing a limiter\<close>

text \<open>
  \<open>build_rate_limiter\<close>: the environment variable, whether the driver imports, and whether the
  server answers the ping are the arguments.
\<close>

datatype limiter = InMemory mem_limiter | Redis redis_limiter

definition build_rate_limiter :: "string option \<Rightarrow> bool \<Rightarrow> bool \<Rightarrow> int \<Rightarrow> int \<Rightarrow> string \<Rightarrow> limiter" where
  "build_rate_limiter redis_url driver ping mx w scope =
     (let url = py_strip (case redis_url of None \<Rightarrow> [] | Some u \<Rightarrow> u) in
      if url = [] then InMemory (new_mem_limiter mx w)
      else if \<not> driver then InMemory (new_mem_limiter mx w)
      else if \<not> ping then InMemory (new_mem_limiter mx w)
      else Redis (new_redis_limiter mx w scope))"

section \<open>The 401 lockout\<close>

record lockout =
  lk_threshold :: int
  lk_window_seconds :: int
  lk_events :: "(string \<times> rat list) list"

definition new_lockout :: "int \<Rightarrow> int \<Rightarrow> lockout" where
  "new_lockout threshold w = \<lparr>lk_threshold = max 0 threshold, lk_window_seconds = max 1 w, lk_events = []\<rparr>"

definition lk_evict :: "lockout \<Rightarrow> rat list \<Rightarrow> rat \<Rightarrow> rat list" where
  "lk_evict st b now = dropWhile (\<lambda>t. t \<le> now - of_int (lk_window_seconds st)) b"

definition record_failure :: "lockout \<Rightarrow> rat \<Rightarrow> string \<Rightarrow> lockout" where
  "record_failure st now subject =
     (if lk_threshold st \<le> 0 then st
      else st\<lparr>lk_events := dict_set subject (lk_evict st (bucket (lk_events st) subject) now @ [now]) (lk_events st)\<rparr>)"

definition is_locked :: "lockout \<Rightarrow> rat \<Rightarrow> string \<Rightarrow> lockout \<times> bool" where
  "is_locked st now subject =
     (if lk_threshold st \<le> 0 then (st, False)
      else (case dict_get (lk_events st) subject of
              None \<Rightarrow> (st, False)
            | Some b \<Rightarrow>
                if b = [] then (st, False)
                else (let b' = lk_evict st b now in
                      (st\<lparr>lk_events := dict_set subject b' (lk_events st)\<rparr>, lk_threshold st \<le> int (length b')))))"

definition lk_reset :: "lockout \<Rightarrow> string \<Rightarrow> lockout" where
  "lk_reset st subject = st\<lparr>lk_events := dict_pop subject (lk_events st)\<rparr>"

text \<open>The operations as steps of a machine, in any interleaving, with the clock of each.\<close>

datatype lockout_op = Fail rat string | Check rat string | Reset string

fun lk_step :: "lockout \<Rightarrow> lockout_op \<Rightarrow> lockout" where
  "lk_step st (Fail t s) = record_failure st t s"
| "lk_step st (Check t s) = fst (is_locked st t s)"
| "lk_step st (Reset s) = lk_reset st s"

text \<open>The failures of a subject since its last reset: the specification keeps them all.\<close>

fun fail_step :: "lockout_op \<Rightarrow> string \<Rightarrow> rat list \<Rightarrow> rat list" where
  "fail_step (Fail t s') s acc = (if s' = s then acc @ [t] else acc)"
| "fail_step (Check t s') s acc = acc"
| "fail_step (Reset s') s acc = (if s' = s then [] else acc)"

definition failures :: "lockout_op list \<Rightarrow> string \<Rightarrow> rat list" where
  "failures ops s = fold (\<lambda>op acc. fail_step op s acc) ops []"

definition recent :: "int \<Rightarrow> rat list \<Rightarrow> rat \<Rightarrow> nat" where
  "recent w ts now = length (filter (\<lambda>t. now - of_int w < t) ts)"

text \<open>The bucket is the failures without a prefix that no later window can reach.\<close>

definition bucket_ok :: "int \<Rightarrow> rat list \<Rightarrow> rat list \<Rightarrow> rat \<Rightarrow> bool" where
  "bucket_ok w fs b now \<longleftrightarrow>
     sorted fs \<and> (\<forall>t \<in> set fs. t \<le> now) \<and>
     (\<exists>old. fs = old @ b \<and> (\<forall>t \<in> set old. t \<le> now - of_int w))"

lemma bucket_ok_later: "bucket_ok w fs b now \<Longrightarrow> now \<le> now' \<Longrightarrow> bucket_ok w fs b now'"
  by (fastforce simp: bucket_ok_def)

lemma bucket_ok_evict:
  assumes "bucket_ok w fs b now"
  shows "bucket_ok w fs (dropWhile (\<lambda>t. t \<le> now - of_int w) b) now"
    and "length (dropWhile (\<lambda>t. t \<le> now - of_int w) b) = recent w fs now"
proof -
  obtain old where f: "fs = old @ b" "\<forall>t \<in> set old. t \<le> now - of_int w" and s: "sorted fs" "\<forall>t \<in> set fs. t \<le> now"
    using assms by (auto simp: bucket_ok_def)
  let ?p = "\<lambda>t. t \<le> now - of_int w"
  have b: "b = takeWhile ?p b @ dropWhile ?p b" by simp
  have "fs = (old @ takeWhile ?p b) @ dropWhile ?p b" using f(1) by simp
  moreover have "\<forall>t \<in> set (old @ takeWhile ?p b). ?p t" using f(2) by (auto dest: set_takeWhileD)
  ultimately show "bucket_ok w fs (dropWhile ?p b) now" using s unfolding bucket_ok_def by blast
  have sb: "sorted b" using s(1) f(1) by (simp add: sorted_append)
  have "dropWhile ?p b = filter (\<lambda>t. \<not> ?p t) b"
    using sb by (induction b) (force intro: filter_True [symmetric])+
  moreover have "filter (\<lambda>t. \<not> ?p t) old = []" using f(2) by (auto simp: filter_empty_conv)
  ultimately show "length (dropWhile ?p b) = recent w fs now"
    by (simp add: recent_def f(1) not_le)
qed

definition lk_inv :: "int \<Rightarrow> int \<Rightarrow> lockout \<Rightarrow> (string \<Rightarrow> rat list) \<Rightarrow> rat \<Rightarrow> bool" where
  "lk_inv th w st F now \<longleftrightarrow>
     lk_threshold st = th \<and> lk_window_seconds st = w \<and> 0 < th \<and>
     (\<forall>s. bucket_ok w (F s) (bucket (lk_events st) s) now)"

lemma bucket_pop [simp]: "bucket (dict_pop s b) s' = (if s' = s then [] else bucket b s')"
  by (simp add: bucket_def delete_conv')

lemma is_locked_bucket:
  "0 < lk_threshold st \<Longrightarrow> snd (is_locked st now s) \<longleftrightarrow>
     lk_threshold st \<le> int (length (lk_evict st (bucket (lk_events st) s) now))"
  by (auto simp: is_locked_def bucket_def lk_evict_def Let_def split: option.splits)

lemma is_locked_state:
  "0 < lk_threshold st \<Longrightarrow> bucket (lk_events (fst (is_locked st now s))) s' =
     (if s' = s then lk_evict st (bucket (lk_events st) s) now else bucket (lk_events st) s') \<and>
     lk_threshold (fst (is_locked st now s)) = lk_threshold st \<and>
     lk_window_seconds (fst (is_locked st now s)) = lk_window_seconds st"
  by (auto simp: is_locked_def bucket_def lk_evict_def Let_def split: option.splits)

fun op_time :: "rat \<Rightarrow> lockout_op \<Rightarrow> rat" where
  "op_time now (Fail t s) = t"
| "op_time now (Check t s) = t"
| "op_time now (Reset s) = now"

lemma lk_step_inv:
  assumes "lk_inv th w st F now" "now \<le> op_time now op"
  shows "lk_inv th w (lk_step st op) (\<lambda>s. fail_step op s (F s)) (op_time now op)"
proof -
  have I: "lk_threshold st = th" "lk_window_seconds st = w" "0 < th"
    and B: "\<And>s. bucket_ok w (F s) (bucket (lk_events st) s) (op_time now op)"
    using assms bucket_ok_later [OF _ assms(2)] by (auto simp: lk_inv_def)
  show ?thesis
  proof (cases op)
    case (Fail t s)
    have "bucket_ok w (F s @ [t]) (lk_evict st (bucket (lk_events st) s) t @ [t]) t"
      using bucket_ok_evict(1) [OF B [of s]] Fail I(2)
      by (fastforce simp: bucket_ok_def lk_evict_def sorted_append)
    then show ?thesis using Fail I B by (simp add: lk_inv_def record_failure_def)
  next
    case (Check t s)
    then show ?thesis using I B bucket_ok_evict(1) [OF B [of s]]
      by (simp add: lk_inv_def is_locked_state lk_evict_def)
  next
    case (Reset s)
    then show ?thesis using I B by (simp add: lk_inv_def lk_reset_def bucket_ok_def)
  qed
qed

fun run_times :: "rat \<Rightarrow> lockout_op list \<Rightarrow> rat list" where
  "run_times now [] = []"
| "run_times now (op # ops) = op_time now op # run_times (op_time now op) ops"

lemma lk_run_inv:
  assumes "lk_inv th w st F now" "sorted_wrt (\<le>) (now # run_times now ops @ [t1])"
  shows "lk_inv th w (foldl lk_step st ops) (\<lambda>s. fold (\<lambda>op acc. fail_step op s acc) ops (F s)) t1"
  using assms
proof (induction ops arbitrary: st F now)
  case Nil
  then show ?case by (auto simp: lk_inv_def intro: bucket_ok_later)
next
  case (Cons op ops)
  have "lk_inv th w (lk_step st op) (\<lambda>s. fail_step op s (F s)) (op_time now op)"
    by (rule lk_step_inv [OF Cons.prems(1)]) (use Cons.prems(2) in simp)
  from Cons.IH [OF this] Cons.prems(2) show ?case by simp
qed

text \<open>
  C31. The lockout decides exactly by its specification: after any interleaving of failures,
  checks and resets with a clock that does not go back, a subject is locked if and only if at
  least \<open>threshold\<close> of its failures since its last reset lie in the open window that ends now.
\<close>

theorem lockout_exact:
  assumes "0 < threshold" "sorted_wrt (\<le>) (t0 # run_times t0 ops @ [now])"
  shows "snd (is_locked (foldl lk_step (new_lockout threshold w) ops) now s) \<longleftrightarrow>
    threshold \<le> int (recent (max 1 w) (failures ops s) now)"
proof -
  have "lk_inv threshold (max 1 w) (new_lockout threshold w) (\<lambda>_. []) t0"
    using assms(1) by (simp add: lk_inv_def new_lockout_def bucket_ok_def)
  from lk_run_inv [OF this assms(2)]
  have I: "lk_inv threshold (max 1 w) (foldl lk_step (new_lockout threshold w) ops) (failures ops) now"
    by (simp add: failures_def [abs_def])
  then have b: "bucket_ok (max 1 w) (failures ops s)
      (bucket (lk_events (foldl lk_step (new_lockout threshold w) ops)) s) now" by (simp add: lk_inv_def)
  show ?thesis
    using bucket_ok_evict(2) [OF b] I assms(1)
    by (simp add: lk_inv_def is_locked_bucket lk_evict_def)
qed

section \<open>Concrete runs\<close>

definition demo_reqs :: "(rat \<times> string) list" where
  "demo_reqs = [(0, ''a''), (1, ''b''), (2, ''a''), (3, ''a'')]"

lemma demo_reqs_clock: "clock_ok demo_reqs 5"
  by (simp add: clock_ok_def demo_reqs_def)

theorem mem_limiter_sliding_window_witness:
  "(snd (mem_allow (fst (mem_run (new_mem_limiter 2 4) demo_reqs)) 5 ''a'') \<longleftrightarrow>
      int (accepted_in_window 4 (snd (mem_run (new_mem_limiter 2 4) demo_reqs)) 5 ''a'') < 2) \<and>
    filter (\<lambda>(t, s'). s' = ''a'') (snd (mem_run (new_mem_limiter 2 4) demo_reqs)) =
      snd (mem_run (new_mem_limiter 2 4) (filter (\<lambda>(t, s'). s' = ''a'') demo_reqs))"
  by (rule mem_limiter_sliding_window [OF _ demo_reqs_clock]) simp

theorem mem_limiter_bound_witness:
  "int (accepted_in_window 4 (snd (mem_run (new_mem_limiter 2 4) demo_reqs)) 5 ''a'') \<le> max 0 2"
  by (rule mem_limiter_bound [OF _ demo_reqs_clock]) simp

text \<open>A Redis that keeps its counters in a function.\<close>

definition demo_exec :: "(string \<Rightarrow> nat) \<Rightarrow> string \<Rightarrow> int \<Rightarrow> (string \<Rightarrow> nat) \<times> int option" where
  "demo_exec st key ttl = (st(key := st key + 1), Some (int (st key) + 1))"

theorem redis_limiter_bound_witness:
  "int (length (filter (\<lambda>(t, s'). s' = ''a'' \<and> same_window (new_redis_limiter 2 60 ''public'') t 5)
     (snd (redis_run demo_exec (new_redis_limiter 2 60 ''public'') (\<lambda>_. 0) demo_reqs)))) \<le> max 0 2"
proof -
  have "incr_lawful demo_exec id" by (simp add: incr_lawful_def demo_exec_def)
  from redis_limiter_bound [OF this _ demo_reqs_clock, of "\<lambda>_. 0" "new_redis_limiter 2 60 ''public''" "''a''"]
  show ?thesis by (simp add: new_redis_limiter_def)
qed

theorem lockout_exact_witness:
  "snd (is_locked (foldl lk_step (new_lockout 2 60) [Fail 1 ''ip'', Fail 2 ''other'', Fail 3 ''ip'']) 10 ''ip'') \<longleftrightarrow>
     2 \<le> int (recent (max 1 60) (failures [Fail 1 ''ip'', Fail 2 ''other'', Fail 3 ''ip''] ''ip'') 10)"
  by (rule lockout_exact [of 2 0]) simp_all

end
