(* ===== verification/Key_Service.thy ===== *)
theory Key_Service
  imports Store Rate_Limit
begin

text \<open>
  \<^verbatim>\<open>app/auth/api_keys.py\<close>, \<^verbatim>\<open>app/auth/key_service.py\<close> and \<^verbatim>\<open>app/auth/dependencies.py\<close>: the key
  manager, the life cycle of an API key with the sessions that hang on it, and the two
  authentication dependencies of the routers.
\<close>

section \<open>The manager\<close>

record key_manager =
  km_db :: db
  km_default_admin_key :: string

definition new_key_manager :: "crypto \<Rightarrow> db \<Rightarrow> nat \<Rightarrow> string \<Rightarrow> key_manager" where
  "new_key_manager cr d now bootstrap =
     \<lparr>km_db = ensure_admin_key cr d now bootstrap ''admin'', km_default_admin_key = bootstrap\<rparr>"

record api_key =
  ky_key_id :: string
  ky_key :: string
  ky_created_at :: string

definition km_create :: "crypto \<Rightarrow> key_manager \<Rightarrow> nat \<Rightarrow> string \<Rightarrow> string \<Rightarrow> py_exc + key_manager \<times> api_key" where
  "km_create cr m now secret key_id =
     (if key_id = [] then Inl (ExRaw ''ValueError'')
      else bind_r (create_api_key cr (km_db m) now secret key_id) (\<lambda>(d, r).
        Inr (m\<lparr>km_db := d\<rparr>, \<lparr>ky_key_id = ak_key_id r, ky_key = secret, ky_created_at = ak_created_at r\<rparr>)))"

definition km_status_by_key_id :: "key_manager \<Rightarrow> string \<Rightarrow> string \<Rightarrow> key_manager \<times> bool" where
  "km_status_by_key_id m key_id status =
     (let (d, ok) = set_key_status_by_key_id (km_db m) key_id status in (m\<lparr>km_db := d\<rparr>, ok))"

definition km_status_by_secret :: "crypto \<Rightarrow> key_manager \<Rightarrow> string \<Rightarrow> string \<Rightarrow> key_manager \<times> bool" where
  "km_status_by_secret cr m secret status =
     (let (d, ok) = set_key_status_by_secret cr (km_db m) secret status in (m\<lparr>km_db := d\<rparr>, ok))"

definition km_status_either :: "crypto \<Rightarrow> key_manager \<Rightarrow> string \<Rightarrow> string \<Rightarrow> key_manager \<times> bool" where
  "km_status_either cr m v status =
     (let (m1, ok) = km_status_by_key_id m v status in
      if ok then (m1, True) else km_status_by_secret cr m1 v status)"

definition km_rotate :: "crypto \<Rightarrow> key_manager \<Rightarrow> string \<Rightarrow> string \<Rightarrow> py_exc + key_manager \<times> string option" where
  "km_rotate cr m new_secret key_id =
     bind_r (rotate_api_key cr (km_db m) new_secret key_id) (\<lambda>(d, s).
       Inr (m\<lparr>km_db := d,
              km_default_admin_key := (if is_set s \<and> key_id = ''admin'' then the s else km_default_admin_key m)\<rparr>, s))"

definition km_get_identity ::
  "crypto \<Rightarrow> (api_key_row list \<Rightarrow> api_key_row) \<Rightarrow> key_manager \<Rightarrow> nat \<Rightarrow> string option \<Rightarrow> key_manager \<times> api_key_row option"
where
  "km_get_identity cr pick m now key =
     (let (d, r) = validate_api_key cr pick (km_db m) now key in (m\<lparr>km_db := d\<rparr>, r))"

definition km_validate ::
  "crypto \<Rightarrow> (api_key_row list \<Rightarrow> api_key_row) \<Rightarrow> key_manager \<Rightarrow> nat \<Rightarrow> string option \<Rightarrow> key_manager \<times> bool"
where
  "km_validate cr pick m now key =
     (let (m', r) = km_get_identity cr pick m now key in (m', r \<noteq> None))"

section \<open>The service\<close>

definition label_char :: "char \<Rightarrow> bool" where
  "label_char c = (let n = (of_char c :: nat) in
     (97 \<le> n \<and> n \<le> 122) \<or> (65 \<le> n \<and> n \<le> 90) \<or> (48 \<le> n \<and> n \<le> 57) \<or> n = 95 \<or> n = 46 \<or> n = 45)"

text \<open>
  \<open>re.match(r"^[a-zA-Z0-9_.-]{1,64}$", s)\<close>: in Python the dollar sign also matches before a line
  break that ends the string.
\<close>

definition key_id_pattern :: "string \<Rightarrow> bool" where
  "key_id_pattern s =
     (let t = (if s \<noteq> [] \<and> last s = CHR 0x0A then butlast s else s) in
      1 \<le> length t \<and> length t \<le> 64 \<and> (\<forall>c \<in> set t. label_char c))"

definition validate_label :: "string \<Rightarrow> unit result" where
  "validate_label key_id =
     (if \<not> key_id_pattern key_id
      then raise_400 ''invalid_parameter'' ''Key label must be 1-64 characters and match [a-zA-Z0-9_.-]''
        [(''key_id'', JStr key_id)]
      else Inr ())"

definition unknown_label :: "string \<Rightarrow> app_error" where
  "unknown_label key_id =
     AppError ''not_found'' (''Unknown key label: '' @ key_id) [(''key_id'', JStr key_id)] 404"

definition get_key :: "key_manager \<Rightarrow> string \<Rightarrow> py_exc + api_key_row" where
  "get_key m key_id =
     bind_r (lift_app (validate_label key_id)) (\<lambda>_.
       case find (\<lambda>r. ak_key_id r = key_id) (list_api_keys (km_db m)) of
         Some r \<Rightarrow> Inr r
       | None \<Rightarrow> Inl (ExApp (unknown_label key_id)))"

definition svc_create :: "crypto \<Rightarrow> key_manager \<Rightarrow> nat \<Rightarrow> string \<Rightarrow> string \<Rightarrow> py_exc + key_manager \<times> api_key" where
  "svc_create cr m now secret key_id =
     bind_r (lift_app (validate_label key_id)) (\<lambda>_.
       if \<exists>r \<in> set (list_api_keys (km_db m)). ak_key_id r = key_id
       then Inl (ExApp (AppError ''conflict'' (''Key label already exists: '' @ key_id)
         [(''key_id'', JStr key_id)] 409))
       else km_create cr m now secret key_id)"

definition drop_key_sessions :: "key_manager \<Rightarrow> string \<Rightarrow> key_manager" where
  "drop_key_sessions m key_id = m\<lparr>km_db := fst (invalidate_sessions_for_key_id (km_db m) key_id)\<rparr>"

definition svc_rotate :: "crypto \<Rightarrow> key_manager \<Rightarrow> string \<Rightarrow> string \<Rightarrow> py_exc + key_manager \<times> string" where
  "svc_rotate cr m new_secret key_id =
     bind_r (lift_app (validate_label key_id)) (\<lambda>_.
     bind_r (km_rotate cr m new_secret key_id) (\<lambda>(m1, s).
       case s of
         None \<Rightarrow> Inl (ExApp (unknown_label key_id))
       | Some secret \<Rightarrow> Inr (drop_key_sessions m1 key_id, secret)))"

definition action_status :: "string \<Rightarrow> string" where
  "action_status action =
     (if action = ''activate'' then ''active'' else if action = ''suspend'' then ''suspended'' else ''revoked'')"

definition set_status :: "key_manager \<Rightarrow> string \<Rightarrow> string \<Rightarrow> key_manager \<times> (py_exc + api_key_row)" where
  "set_status m key_id action =
     (case validate_label key_id of
        Inl e \<Rightarrow> (m, Inl (ExApp e))
      | Inr _ \<Rightarrow>
          if action \<notin> {''activate'', ''suspend'', ''revoke''}
          then (m, Inl (ExApp (AppError ''invalid_parameter''
            (''action must be one of '' @ repr_strs [''activate'', ''revoke'', ''suspend''])
            [(''action'', JStr action)] 400)))
          else (let (m1, ok) = km_status_by_key_id m key_id (action_status action) in
            if \<not> ok then (m1, Inl (ExApp (unknown_label key_id)))
            else (let m2 = (if action \<in> {''suspend'', ''revoke''} then drop_key_sessions m1 key_id else m1) in
              (m2, get_key m2 key_id))))"

section \<open>Authentication of requests\<close>

definition require_admin_key ::
  "crypto \<Rightarrow> (api_key_row list \<Rightarrow> api_key_row) \<Rightarrow> key_manager \<Rightarrow> nat \<Rightarrow> string option \<Rightarrow> key_manager \<times> string result"
where
  "require_admin_key cr pick m now x_api_key =
     (let (m', ok) = km_validate cr pick m now x_api_key in
      if \<not> ok then (m', Inl (AppError ''invalid_api_key'' ''Invalid admin API key'' [] 401))
      else (m', Inr (case x_api_key of None \<Rightarrow> [] | Some k \<Rightarrow> k)))"

text \<open>The limiter is an argument: any \<open>allow\<close>, with its state. \<open>client\<close> is the peer address.\<close>

definition limiter_subject :: "api_key_row option \<Rightarrow> string option \<Rightarrow> string" where
  "limiter_subject identity client =
     (case identity of
        Some r \<Rightarrow> ''key:'' @ ak_key_id r
      | None \<Rightarrow> (case client of Some host \<Rightarrow> ''ip:'' @ host | None \<Rightarrow> ''anonymous''))"

definition enforce_public_auth ::
  "crypto \<Rightarrow> (api_key_row list \<Rightarrow> api_key_row) \<Rightarrow> ('l \<Rightarrow> rat \<Rightarrow> string \<Rightarrow> 'l \<times> bool) \<Rightarrow> public_auth_mode \<Rightarrow>
     key_manager \<Rightarrow> 'l \<Rightarrow> nat \<Rightarrow> rat \<Rightarrow> string option \<Rightarrow> string option \<Rightarrow> key_manager \<times> 'l \<times> unit result"
where
  "enforce_public_auth cr pick allow mode m ls now now_s client x_api_key =
     (let (m', identity) = (if is_set x_api_key then km_get_identity cr pick m now x_api_key else (m, None)) in
      if mode = ApiKeyRequired \<and> identity = None
      then (m', ls, Inl (AppError ''invalid_api_key'' ''Public API key required'' [] 401))
      else if mode = ApiKeyOptional \<and> is_set x_api_key \<and> identity = None
      then (m', ls, Inl (AppError ''invalid_api_key'' ''Invalid public API key'' [] 401))
      else (let (ls', ok) = allow ls now_s (limiter_subject identity client) in
        if \<not> ok then (m', ls', Inl (AppError ''quota_exceeded'' ''Rate limit exceeded'' [] 429))
        else (m', ls', Inr ())))"


section \<open>Keys that cannot be used\<close>

text \<open>
  \<open>dead d key_id\<close>: the label is taken by a row that is not active, and nobody holds a session of it.
  \<open>revives key_id op\<close>: the operations that give the label back to somebody.
\<close>

definition dead :: "db \<Rightarrow> string \<Rightarrow> bool" where
  "dead d key_id \<longleftrightarrow>
     key_id \<in> set (map ak_key_id (db_api_keys d)) \<and>
     (\<forall>r \<in> set (db_api_keys d). ak_key_id r = key_id \<longrightarrow> ak_status r \<noteq> ''active'') \<and>
     (\<forall>r \<in> set (db_ui_sessions d). ss_key_id r \<noteq> key_id)"

fun revives :: "string \<Rightarrow> store_op \<Rightarrow> bool" where
  "revives key_id (OpStatusById k status) = (k = key_id \<and> status = ''active'')"
| "revives key_id (OpStatusBySecret secret status) = (status = ''active'')"
| "revives key_id (OpRotate secret k) = (k = key_id)"
| "revives key_id (OpCreateSession now token k ttl) = (k = key_id)"
| "revives key_id _ = False"

lemma labels_step:
  assumes "key_id \<in> set (map ak_key_id (db_api_keys d))"
  shows "key_id \<in> set (map ak_key_id (db_api_keys (store_step cr pick d op)))"
proof -
  have *: "map ak_key_id (map (\<lambda>r. if p r then f r else r) rs) = map ak_key_id rs"
    if "\<And>r. ak_key_id (f r) = ak_key_id r" for p f and rs :: "api_key_row list"
    using that by auto
  show ?thesis using assms
    by (cases op)
       (simp_all add: store_defs * Let_def del: map_map set_map split: option.splits sum.splits prod.splits)
qed

lemma status_step:
  assumes "\<forall>r \<in> set (db_api_keys d). ak_key_id r = key_id \<longrightarrow> ak_status r \<noteq> ''active''"
    "key_id \<in> set (map ak_key_id (db_api_keys d))" "\<not> revives key_id op"
  shows "\<forall>r \<in> set (db_api_keys (store_step cr pick d op)). ak_key_id r = key_id \<longrightarrow> ak_status r \<noteq> ''active''"
  using assms
  by (cases op)
     (auto simp: store_defs key_conflict_def Let_def split: option.splits sum.splits prod.splits if_splits)

lemma dead_sessions:
  assumes "dead d key_id" "\<not> revives key_id op"
  shows "\<forall>r \<in> set (db_ui_sessions (store_step cr pick d op)). ss_key_id r \<noteq> key_id"
  using assms
  by (cases op)
     (auto simp: dead_def store_defs Let_def split: option.splits sum.splits prod.splits if_splits)

lemma dead_steps:
  "dead d key_id \<Longrightarrow> \<forall>op \<in> set ops. \<not> revives key_id op \<Longrightarrow> dead (foldl (store_step cr pick) d ops) key_id"
proof (induction ops arbitrary: d)
  case (Cons op ops)
  have "dead (store_step cr pick d op) key_id"
    unfolding dead_def
    using labels_step [of key_id d cr pick op] status_step [of d key_id op cr pick]
      dead_sessions [OF Cons.prems(1), of op cr pick] Cons.prems
    by (simp add: dead_def del: set_map)
  then show ?case using Cons by simp
qed simp

text \<open>\<open>fetchone\<close> returns one of the matching rows.\<close>

definition picks :: "(api_key_row list \<Rightarrow> api_key_row) \<Rightarrow> bool" where
  "picks pick \<longleftrightarrow> (\<forall>rows. rows \<noteq> [] \<longrightarrow> pick rows \<in> set rows)"

lemma validate_some:
  assumes "snd (validate_api_key cr pick d now secret) = Some r" "picks pick"
  shows "r \<in> set (db_api_keys d) \<and> matches_secret cr (the secret) r \<and> ak_status r = ''active''"
proof -
  let ?rows = "filter (matches_secret cr (the secret)) (db_api_keys d)"
  have r: "?rows \<noteq> []" "r = pick ?rows" "ak_status r = ''active''"
    using assms(1) by (simp_all add: validate_api_key_def Let_def split: if_split_asm)
  have "pick ?rows \<in> set ?rows" using r(1) assms(2) unfolding picks_def by blast
  then have "r \<in> set ?rows" by (simp only: r(2))
  with r(3) show ?thesis by simp
qed

lemma dead_validate:
  "dead d key_id \<Longrightarrow> picks pick \<Longrightarrow> snd (validate_api_key cr pick d now secret) = Some r \<Longrightarrow> ak_key_id r \<noteq> key_id"
  using validate_some [of cr pick d now secret r] by (auto simp: dead_def)

lemma session_some:
  assumes "snd (get_ui_session_key_id cr d now token idle) = Some key_id"
  shows "\<exists>r \<in> set (db_ui_sessions d). ss_key_id r = key_id"
proof -
  obtain row where "find_session d (cr_sha256 cr (the token)) = Some row" "ss_key_id row = key_id"
    using assms by (auto simp: get_ui_session_key_id_def Let_def simp del: not_None_eq split: if_split_asm option.split_asm)
  then show ?thesis by (auto simp: find_session_def find_Some_iff)
qed

lemma dead_session_lookup:
  "dead d key_id \<Longrightarrow> snd (get_ui_session_key_id cr d now token idle) \<noteq> Some key_id"
  using session_some [of cr d now token idle key_id] by (auto simp: dead_def)

lemma set_status_rows:
  "\<forall>r \<in> set (db_api_keys (fst (set_key_status_by_key_id d key_id st))). ak_key_id r = key_id \<longrightarrow> ak_status r = st"
proof -
  have "list_all (\<lambda>r. ak_key_id r = key_id \<longrightarrow> ak_status r = st)
      (map (\<lambda>r. if ak_key_id r = key_id then r\<lparr>ak_status := st\<rparr> else r) rs)" for rs
    by (induction rs) simp_all
  then show ?thesis by (simp add: set_key_status_by_key_id_def update_keys_def list_all_iff)
qed

lemma set_status_dead:
  assumes "set_status m key_id action = (m', Inr r)" "action \<in> {''suspend'', ''revoke''}"
  shows "dead (km_db m') key_id"
proof -
  have a: "action_status action \<noteq> ''active''" using assms(2) by (auto simp: action_status_def)
  let ?st = "action_status action"
  obtain m1 where m1: "km_status_by_key_id m key_id ?st = (m1, True)" "m' = drop_key_sessions m1 key_id"
    using assms by (auto simp: set_status_def Let_def split: sum.split_asm prod.split_asm if_split_asm)
  then have e: "km_db m' = fst (invalidate_sessions_for_key_id (fst (set_key_status_by_key_id (km_db m) key_id ?st)) key_id)"
    "snd (set_key_status_by_key_id (km_db m) key_id ?st)"
    by (auto simp: km_status_by_key_id_def drop_key_sessions_def split: prod.split_asm)
  define d where "d = fst (set_key_status_by_key_id (km_db m) key_id ?st)"
  have "key_id \<in> set (map ak_key_id (db_api_keys (km_db m)))"
    using e(2) unfolding set_key_status_by_key_id_def snd_conv set_map by blast
  from labels_step [OF this, of undefined undefined "OpStatusById key_id ?st"]
  have 1: "key_id \<in> set (map ak_key_id (db_api_keys d))" unfolding d_def store_step.simps .
  have 2: "\<forall>r \<in> set (db_api_keys d). ak_key_id r = key_id \<longrightarrow> ak_status r \<noteq> ''active''"
    using set_status_rows [of "km_db m" key_id ?st] a unfolding d_def by metis
  have "km_db m' = drop_sessions (\<lambda>r. ss_key_id r = key_id) d"
    using e(1) by (simp add: d_def invalidate_sessions_for_key_id_def)
  with 1 2 show ?thesis by (simp add: dead_def drop_sessions_def del: set_map)
qed


section \<open>Rotation\<close>

lemma svc_rotate_db:
  assumes "svc_rotate cr m new key_id = Inr (m', secret)"
  shows "secret = new \<and> (\<exists>r \<in> set (db_api_keys (km_db m)). ak_key_id r = key_id) \<and>
    (\<forall>r \<in> set (db_api_keys (km_db m')). ak_key_id r = key_id \<longrightarrow>
       ak_key_hash r = fst (hash_with_variant cr new) \<and> ak_status r = ''active'') \<and>
    (\<exists>r \<in> set (db_api_keys (km_db m')). ak_key_id r = key_id) \<and>
    (\<forall>r \<in> set (db_ui_sessions (km_db m')). ss_key_id r \<noteq> key_id)"
proof -
  obtain d s where d: "rotate_api_key cr (km_db m) new key_id = Inr (d, Some s)"
    and m': "km_db m' = fst (invalidate_sessions_for_key_id d key_id)" "secret = s"
    using assms by (auto simp: svc_rotate_def km_rotate_def drop_key_sessions_def egg_simps split: option.split_asm)
  obtain g where u: "d = update_keys (\<lambda>r. ak_key_id r = key_id) g (km_db m)" "s = new"
      "\<exists>r \<in> set (db_api_keys (km_db m)). ak_key_id r = key_id"
    and g: "\<And>r. ak_key_id (g r) = ak_key_id r \<and> ak_key_hash (g r) = fst (hash_with_variant cr new) \<and> ak_status (g r) = ''active''"
    using d by (fastforce simp: rotate_api_key_def split: prod.split_asm if_split_asm)
  show ?thesis using u g m'
    by (auto simp: update_keys_def invalidate_sessions_for_key_id_def drop_sessions_def)
qed

lemma new_secret_matches: "ak_key_hash r = fst (hash_with_variant cr new) \<Longrightarrow> matches_secret cr new r"
  by (auto simp: matches_secret_def hash_with_variant_def candidate_hashes_def split: option.splits)

text \<open>
  Rotation replaces the secret: the new secret is the only one that acts as the label. A
  secret that does not hash to the new digest no longer does, every session of the label is
  gone, and the new secret does validate, as the label, when no other row matches it.
\<close>

lemma rotation_replaces_secret:
  assumes "svc_rotate cr m new key_id = Inr (m', secret)" "picks pick"
  shows "(\<forall>old now x. fst (hash_with_variant cr new) \<notin> fst ` set (candidate_hashes cr old) \<longrightarrow>
      snd (validate_api_key cr pick (km_db m') now (Some old)) = Some x \<longrightarrow> ak_key_id x \<noteq> key_id) \<and>
    (\<forall>token now idle. snd (get_ui_session_key_id cr (km_db m') now token idle) \<noteq> Some key_id) \<and>
    (new \<noteq> [] \<longrightarrow> (\<forall>r \<in> set (db_api_keys (km_db m')). matches_secret cr new r \<longrightarrow> ak_key_id r = key_id) \<longrightarrow>
      (\<forall>now. map_option ak_key_id (snd (validate_api_key cr pick (km_db m') now (Some new))) = Some key_id))"
proof (intro conjI allI impI)
  note R = svc_rotate_db [OF assms(1)]
  let ?d = "km_db m'"
  show "ak_key_id x \<noteq> key_id"
    if h: "fst (hash_with_variant cr new) \<notin> fst ` set (candidate_hashes cr old)"
      and v: "snd (validate_api_key cr pick ?d now (Some old)) = Some x" for old now x
    using validate_some [OF v assms(2)] R h by (metis matches_secret_def option.sel)
  show "snd (get_ui_session_key_id cr ?d now token idle) \<noteq> Some key_id" for token now idle
    using R session_some [of cr ?d now token idle key_id] by auto
  show "map_option ak_key_id (snd (validate_api_key cr pick ?d now (Some new))) = Some key_id"
    if n: "new \<noteq> []" and o: "\<forall>r \<in> set (db_api_keys ?d). matches_secret cr new r \<longrightarrow> ak_key_id r = key_id" for now
  proof -
    let ?rows = "filter (matches_secret cr new) (db_api_keys ?d)"
    have ne: "?rows \<noteq> []" using R new_secret_matches by (fastforce simp: filter_empty_conv)
    then have p: "pick ?rows \<in> set ?rows" using assms(2) unfolding picks_def by blast
    then have k: "ak_key_id (pick ?rows) = key_id" using o by auto
    with p R have "ak_status (pick ?rows) = ''active''" by auto
    with k ne n show ?thesis by (simp add: validate_api_key_def Let_def)
  qed
qed


section \<open>The quota of unauthenticated callers\<close>

text \<open>
  Requests to the public routes in sequence, over the in-memory limiter: the time of each, the
  host it comes from and the identity its key gave, for those let through.
\<close>

fun serve ::
  "crypto \<Rightarrow> (api_key_row list \<Rightarrow> api_key_row) \<Rightarrow> public_auth_mode \<Rightarrow> key_manager \<Rightarrow> mem_limiter \<Rightarrow>
     (rat \<times> nat \<times> string option \<times> string option) list \<Rightarrow> (rat \<times> string option \<times> api_key_row option) list"
where
  "serve cr pick mode m ls [] = []"
| "serve cr pick mode m ls ((t, now, client, key) # reqs) =
     (let (m', ls', r) = enforce_public_auth cr pick mem_allow mode m ls now t client key;
          rest = serve cr pick mode m' ls' reqs in
      if r = Inr ()
      then (t, client, snd (if is_set key then km_get_identity cr pick m now key else (m, None))) # rest
      else rest)"

definition charged :: "rat \<times> string option \<times> api_key_row option \<Rightarrow> rat \<times> string" where
  "charged x = (case x of (t, client, identity) \<Rightarrow> (t, limiter_subject identity client))"

text \<open>What is let through is what the limiter accepts of the calls it gets.\<close>

lemma serve_is_run:
  "\<exists>calls. map charged (serve cr pick mode m ls reqs) = snd (mem_run ls calls) \<and>
     subseq (map fst calls) (map fst reqs)"
proof (induction reqs arbitrary: m ls)
  case Nil
  show ?case by (rule exI [of _ "[]"]) (simp add: mem_run_def)
next
  case (Cons r reqs)
  obtain t now client key where r: "r = (t, now, client, key)" by (cases r)
  define ident where "ident = (if is_set key then km_get_identity cr pick m now key else (m, None))"
  obtain m' ls' o' where e: "enforce_public_auth cr pick mem_allow mode m ls now t client key = (m', ls', o')"
    by (cases "enforce_public_auth cr pick mem_allow mode m ls now t client key") auto
  obtain calls where c: "map charged (serve cr pick mode m' ls' reqs) = snd (mem_run ls' calls)"
    "subseq (map fst calls) (map fst reqs)" using Cons.IH by blast
  let ?s = "limiter_subject (snd ident) client"
  consider (refused) "ls' = ls" "o' \<noteq> Inr ()" | (called) "ls' = fst (mem_allow ls t ?s)" "o' = Inr () \<longleftrightarrow> snd (mem_allow ls t ?s)"
    using e unfolding enforce_public_auth_def ident_def [symmetric]
    by (auto simp: split_beta Let_def split: if_split_asm)
  then show ?case
  proof cases
    case refused
    with c e show ?thesis by (intro exI [of _ calls]) (auto simp: r)
  next
    case called
    have "map charged (serve cr pick mode m ls (r # reqs)) = snd (mem_run ls ((t, ?s) # calls))"
      using called c(1) e by (auto simp: r mem_run_def mem.run_Cons ident_def charged_def simp del: mem.run.simps)
    with c(2) show ?thesis by (intro exI [of _ "(t, ?s) # calls"]) (simp add: r)
  qed
qed

lemma sorted_wrt_subseq: "subseq xs ys \<Longrightarrow> sorted_wrt P ys \<Longrightarrow> sorted_wrt P xs"
  by (induction rule: list_emb.induct) (auto dest: list_emb_set)

lemma length_filter_mono:
  "(\<And>x. x \<in> set xs \<Longrightarrow> P x \<Longrightarrow> Q x) \<Longrightarrow> length (filter P xs) \<le> length (filter Q xs)"
  by (induction xs) auto

text \<open>
  Sending made-up keys does not buy quota: whatever key texts a host sends, and whatever the
  other callers do meanwhile, no window holds more than \<open>max_requests\<close> accepted requests of that
  host that no key identified.
\<close>

lemma unidentified_quota:
  assumes "0 \<le> w" "clock_ok (map (\<lambda>(t, now, client, key). (t, [])) reqs) now"
  shows "int (length (filter (\<lambda>(t, client, identity). identity = None \<and> client = Some host \<and> in_window w t now)
     (serve cr pick mode m (new_mem_limiter mx w) reqs))) \<le> max 0 mx"
proof -
  let ?out = "serve cr pick mode m (new_mem_limiter mx w) reqs"
  obtain calls where c: "map charged ?out = snd (mem_run (new_mem_limiter mx w) calls)"
    and s: "subseq (map fst calls) (map fst reqs)" using serve_is_run by blast
  have "map fst (map (\<lambda>(t, now, client, key). (t, [] :: string)) reqs) = map fst reqs" by auto
  with assms(2) have "sorted_wrt (\<le>) (map fst reqs @ [now])" by (simp only: clock_ok_def)
  moreover have "subseq (map fst calls @ [now]) (map fst reqs @ [now])" using s by simp
  ultimately have "sorted_wrt (\<le>) (map fst calls @ [now])"
    by (rule sorted_wrt_subseq [rotated])
  then have k: "clock_ok calls now" by (simp add: clock_ok_def)
  obtain t0 where t: "mem.timed t0 calls now" using clock_timed [OF k] by blast
  have "int (accepted_in_window w (map charged ?out) now (''ip:'' @ host)) \<le> max 0 mx"
    using mem.accepted_bound [OF new_mem_ok [OF assms(1)] t, of mx "''ip:'' @ host"]
    by (simp add: c mem_run_def accepted_in_window_def)
  moreover have "length (filter (\<lambda>(t, client, identity). identity = None \<and> client = Some host \<and> in_window w t now) ?out)
      \<le> accepted_in_window w (map charged ?out) now (''ip:'' @ host)"
    unfolding accepted_in_window_def filter_map length_map
    by (rule length_filter_mono) (auto simp: charged_def limiter_subject_def)
  ultimately show ?thesis by linarith
qed

section \<open>Concrete runs\<close>

definition demo_manager :: key_manager where
  "demo_manager = (let base = new_key_manager demo_crypto empty_db 0 ''boot'' in
     case svc_create demo_crypto base 1 ''s1'' ''partner'' of Inl e \<Rightarrow> base | Inr x \<Rightarrow> fst x)"

lemma partner_label: "validate_label ''partner'' = Inr ()"
  by (simp add: validate_label_def key_id_pattern_def label_char_def)

lemma partner_pattern: "lift_app (validate_label ''partner'') = Inr ()"
  by (simp add: partner_label lift_app_def)

lemma demo_manager_keys:
  "demo_manager = \<lparr>km_db = empty_db\<lparr>db_api_keys := [key_row demo_crypto 0 ''admin'' ''boot'', key_row demo_crypto 1 ''partner'' ''s1'']\<rparr>,
     km_default_admin_key = ''boot''\<rparr>"
  by (simp add: demo_manager_def new_key_manager_def ensure_admin_key_def key_conflict_def empty_db_def svc_create_def
      partner_pattern list_api_keys_def km_create_def create_api_key_def Let_def key_row_def hash_with_variant_def
      demo_crypto_def hash_key_def)

lemma picks_hd: "picks hd"
  by (simp add: picks_def)


theorem rotation_replaces_secret_witness:
  "\<exists>m'. svc_rotate demo_crypto demo_manager ''s9'' ''partner'' = Inr (m', ''s9'') \<and>
     (\<forall>now x. snd (validate_api_key demo_crypto hd (km_db m') now (Some ''s1'')) = Some x \<longrightarrow> ak_key_id x \<noteq> ''partner'')"
proof -
  have "\<exists>m'. svc_rotate demo_crypto demo_manager ''s9'' ''partner'' = Inr (m', ''s9'')"
    by (simp add: svc_rotate_def partner_pattern demo_manager_keys km_rotate_def rotate_api_key_def
        key_row_def hash_with_variant_def hash_key_def demo_crypto_def empty_db_def)
  then obtain m' where s: "svc_rotate demo_crypto demo_manager ''s9'' ''partner'' = Inr (m', ''s9'')" by blast
  have n: "fst (hash_with_variant demo_crypto ''s9'') \<notin> fst ` set (candidate_hashes demo_crypto ''s1'')"
    by (simp add: hash_with_variant_def candidate_hashes_def hash_key_def demo_crypto_def)
  from rotation_replaces_secret [OF s picks_hd] s n show ?thesis by blast
qed

theorem unidentified_quota_witness:
  "int (length (filter (\<lambda>(t, client, identity). identity = None \<and> client = Some ''h'' \<and> in_window 60 t 5)
     (serve demo_crypto hd AnonymousAllowed demo_manager (new_mem_limiter 2 60)
       [(1, 1, Some ''h'', Some ''x''), (2, 2, Some ''h'', Some ''y''), (3, 3, Some ''h'', Some ''z'')]))) \<le> max 0 2"
  by (rule unidentified_quota) (simp_all add: clock_ok_def)

end
