(* ===== verification/Py_Url.thy ===== *)
theory Py_Url
  imports Egg_Prelude
begin

text \<open>
  \<open>urllib.parse.urlsplit\<close> on the modelled strings, up to the two components the program reads:
  scheme and network location. What a bracketed host must look like changed between the
  supported Python versions, so that check is the argument \<open>bracket_ok\<close>. \<open>None\<close> stands for
  the ValueError.
\<close>

section \<open>Splitting\<close>

definition c0_or_space :: "char \<Rightarrow> bool" where
  "c0_or_space c = ((of_char c :: nat) \<le> 32)"

definition unsafe_byte :: "char \<Rightarrow> bool" where
  "unsafe_byte c = (let n = (of_char c :: nat) in n = 9 \<or> n = 13 \<or> n = 10)"

definition clean_url :: "string \<Rightarrow> string" where
  "clean_url url = filter (\<lambda>c. \<not> unsafe_byte c) (dropWhile c0_or_space url)"

definition is_ascii_letter :: "char \<Rightarrow> bool" where
  "is_ascii_letter c = (let n = (of_char c :: nat) in (65 \<le> n \<and> n \<le> 90) \<or> (97 \<le> n \<and> n \<le> 122))"

definition scheme_char :: "char \<Rightarrow> bool" where
  "scheme_char c \<longleftrightarrow> is_ascii_letter c \<or> is_digit c \<or> c \<in> {CHR ''+'', CHR ''-'', CHR ''.''}"

definition split_scheme :: "string \<Rightarrow> string \<times> string" where
  "split_scheme url =
     (let (head, found, rest) = partition_char (CHR '':'') url in
      if found \<and> head \<noteq> [] \<and> is_ascii_letter (hd head) \<and> (\<forall>c \<in> set head. scheme_char c)
      then (py_lower head, rest) else ([], url))"

definition netloc_char :: "char \<Rightarrow> bool" where
  "netloc_char c \<longleftrightarrow> c \<notin> {CHR ''/'', CHR ''?'', CHR ''#''}"

definition bracketed_host :: "string \<Rightarrow> string" where
  "bracketed_host netloc =
     takeWhile (\<lambda>c. c \<noteq> CHR '']'') (tl (dropWhile (\<lambda>c. c \<noteq> CHR ''['') netloc))"

definition urlsplit :: "(string \<Rightarrow> bool) \<Rightarrow> string \<Rightarrow> (string \<times> string) option" where
  "urlsplit bracket_ok url =
     (let (scheme, rest) = split_scheme (clean_url url) in
      if \<not> prefix ''//'' rest then Some (scheme, [])
      else (let netloc = takeWhile netloc_char (drop 2 rest);
                op = CHR ''['' \<in> set netloc; cl = CHR '']'' \<in> set netloc in
        if op \<noteq> cl then None
        else if op \<and> \<not> bracket_ok (bracketed_host netloc) then None
        else Some (scheme, netloc)))"

section \<open>Shape of a URL with a scheme and a host\<close>

lemma split_scheme_nonempty:
  "split_scheme u = (s, r) \<Longrightarrow> s \<noteq> [] \<Longrightarrow> \<exists>h. u = h @ CHR '':'' # r \<and> py_lower h = s"
  unfolding split_scheme_def Let_def
  by (auto split: prod.splits if_splits dest!: partition_char_join)

lemma urlsplit_shape:
  assumes "urlsplit ok url = Some (s, n)" "s \<noteq> []" "n \<noteq> []"
  shows "\<exists>h c t. clean_url url = h @ '':'' @ ''//'' @ c # t \<and> py_lower h = s \<and> netloc_char c"
proof -
  obtain r where r: "split_scheme (clean_url url) = (s, r)" and p: "prefix ''//'' r"
    and n: "n = takeWhile netloc_char (drop 2 r)"
    using assms by (auto simp: urlsplit_def Let_def split: prod.splits if_splits)
  obtain h where h: "clean_url url = h @ CHR '':'' # r" "py_lower h = s"
    using split_scheme_nonempty [OF r assms(2)] by blast
  from p obtain q where q: "r = ''//'' @ q" by (auto simp: prefix_def)
  with n assms(3) obtain c t where "q = c # t" "netloc_char c"
    by (cases q) (auto split: if_splits)
  with h q show ?thesis by auto
qed

end
