(* ===== verification/Schema_Mapper.thy ===== *)
theory Schema_Mapper
  imports Config_Models Py_Url Py_Datetime
begin

text \<open>
  \<^verbatim>\<open>app/mappers/schema_mapper.py\<close>: the nine mapping modes, \<open>map_record\<close> and the mapping health
  classification.

  \<open>Record.model_validate\<close> is pydantic's and an argument of \<open>map_record\<close>. The language that
  \<open>datetime.fromisoformat\<close> accepts differs between the supported Python versions, so it is an
  argument too (year, month and day of the result, \<open>None\<close> for a ValueError).
\<close>

section \<open>Substitution of templates\<close>

definition ident_start :: "char \<Rightarrow> bool" where
  "ident_start c \<longleftrightarrow> is_ascii_letter c \<or> c = CHR ''_''"

definition ident_char :: "char \<Rightarrow> bool" where
  "ident_char c \<longleftrightarrow> ident_start c \<or> is_digit c"

definition ident_at :: "string \<Rightarrow> string" where
  "ident_at s = (if s \<noteq> [] \<and> ident_start (hd s) then takeWhile ident_char s else [])"

text \<open>A match of the placeholder pattern after a dollar sign: the name and the length matched.\<close>

definition placeholder_at :: "string \<Rightarrow> (string \<times> nat) option" where
  "placeholder_at r =
     (let brace = (r \<noteq> [] \<and> hd r = CHR 0x7B); r1 = (if brace then tl r else r);
          name = ident_at r1; r2 = drop (length name) r1;
          close = (r2 \<noteq> [] \<and> hd r2 = CHR 0x7D) in
      if name = [] then None
      else Some (name, (if brace then 1 else 0) + length name + (if close then 1 else 0)))"

function placeholders :: "string \<Rightarrow> string list" where
  "placeholders [] = []"
| "placeholders (c # r) =
     (if c = CHR ''$'' then
        (case placeholder_at r of
           None \<Rightarrow> placeholders r
         | Some (name, k) \<Rightarrow> name # placeholders (drop k r))
      else placeholders r)"
  by pat_completeness auto
termination
  by (relation "measure length") auto

function prune_template :: "string list \<Rightarrow> string \<Rightarrow> string" where
  "prune_template allow [] = []"
| "prune_template allow (c # r) =
     (if c = CHR ''$'' then
        (case placeholder_at r of
           None \<Rightarrow> c # prune_template allow r
         | Some (name, k) \<Rightarrow>
             (if name \<in> set allow then c # take k r else []) @ prune_template allow (drop k r))
      else c # prune_template allow r)"
  by pat_completeness auto
termination
  by (relation "measure (\<lambda>(a, s). length s)") auto

text \<open>\<open>string.Template(s).safe_substitute(m)\<close>.\<close>

definition braced_at :: "string \<Rightarrow> string" where
  "braced_at r =
     (if r \<noteq> [] \<and> hd r = CHR 0x7B \<and> prefix [CHR 0x7D] (drop (length (ident_at (tl r))) (tl r))
      then ident_at (tl r) else [])"

function safe_substitute :: "(string \<times> json) list \<Rightarrow> string \<Rightarrow> string" where
  "safe_substitute m [] = []"
| "safe_substitute m (c # r) =
     (if c \<noteq> CHR ''$'' then c # safe_substitute m r
      else if r \<noteq> [] \<and> hd r = CHR ''$'' then CHR ''$'' # safe_substitute m (tl r)
      else if ident_at r \<noteq> [] then
        (case dict_get m (ident_at r) of
           Some v \<Rightarrow> json_str v | None \<Rightarrow> c # ident_at r) @ safe_substitute m (drop (length (ident_at r)) r)
      else if braced_at r \<noteq> [] then
        (case dict_get m (braced_at r) of
           Some v \<Rightarrow> json_str v | None \<Rightarrow> c # take (length (braced_at r) + 2) r)
        @ safe_substitute m (drop (length (braced_at r) + 2) r)
      else c # safe_substitute m r)"
  by pat_completeness auto
termination
  by (relation "measure (\<lambda>(m, s). length s)") auto

section \<open>The modes\<close>

abbreviation py_or :: "json \<Rightarrow> json \<Rightarrow> json" where
  "py_or a b \<equiv> or_default a b"

definition doc_get :: "(string \<times> json) list \<Rightarrow> string option \<Rightarrow> json" where
  "doc_get doc source = (case source of None \<Rightarrow> JNull | Some k \<Rightarrow> jget doc k)"

definition filter_internal_fields :: "(string \<times> json) list \<Rightarrow> (string \<times> json) list" where
  "filter_internal_fields doc = filter (\<lambda>(k, v). \<not> starts_with ''_'' k) doc"

definition apply_split_list :: "field_mapping \<Rightarrow> (string \<times> json) list \<Rightarrow> py_exc + json" where
  "apply_split_list rule doc =
     (let value = doc_get doc (fm_source rule) in
      if \<not> truthy value then Inr (JList [])
      else if fm_separator rule = [] then Inl (ExRaw ''ValueError'')
      else Inr (JList (map (JStr \<circ> py_strip)
             (filter (\<lambda>x. py_strip x \<noteq> []) (split_str (fm_separator rule) (json_str value))))))"

fun apply_first_non_empty :: "string list \<Rightarrow> (string \<times> json) list \<Rightarrow> json" where
  "apply_first_non_empty [] doc = JNull"
| "apply_first_non_empty (source # sources) doc =
     (if truthy (jget doc source) then jget doc source else apply_first_non_empty sources doc)"

definition template_allowlist :: "field_mapping \<Rightarrow> string list" where
  "template_allowlist rule =
     (if fm_allowed_fields rule \<noteq> [] then fm_allowed_fields rule
      else placeholders (case fm_template rule of None \<Rightarrow> [] | Some t \<Rightarrow> t))"

definition apply_template :: "field_mapping \<Rightarrow> (string \<times> json) list \<Rightarrow> json" where
  "apply_template rule doc =
     (let template = (case fm_template rule of None \<Rightarrow> [] | Some t \<Rightarrow> t);
          allow = template_allowlist rule;
          pruned = prune_template allow template;
          safe_doc = map (\<lambda>name. (name, case dict_get doc name of None \<Rightarrow> JStr [] | Some v \<Rightarrow> v)) allow in
      JStr (safe_substitute safe_doc pruned))"

definition apply_nested_object :: "field_mapping \<Rightarrow> (string \<times> json) list \<Rightarrow> json" where
  "apply_nested_object rule doc =
     (case doc_get doc (fm_source rule) of JDict d \<Rightarrow> JDict d | _ \<Rightarrow> JDict [])"

definition parse_iso_date :: "(string \<Rightarrow> (nat \<times> nat \<times> nat) option) \<Rightarrow> json \<Rightarrow> json" where
  "parse_iso_date fromiso value =
     (if value = JNull \<or> value = JStr [] then JNull
      else case fromiso (replace_str ''Z'' ''+00:00'' (json_str value)) of
        None \<Rightarrow> JNull | Some d \<Rightarrow> JStr (date_isoformat d))"

definition safe_public_url :: "(string \<Rightarrow> bool) \<Rightarrow> json \<Rightarrow> json" where
  "safe_public_url bracket_ok value =
     (case value of
        JStr s \<Rightarrow>
          (case urlsplit bracket_ok s of
             None \<Rightarrow> JNull
           | Some (scheme, netloc) \<Rightarrow>
               if scheme \<notin> {''http'', ''https''} then JNull
               else if netloc = [] then JNull
               else value)
      | _ \<Rightarrow> JNull)"

record py_env =
  pe_fromisoformat :: "string \<Rightarrow> (nat \<times> nat \<times> nat) option"
  pe_bracket_ok :: "string \<Rightarrow> bool"

definition apply_mode :: "py_env \<Rightarrow> field_mapping \<Rightarrow> (string \<times> json) list \<Rightarrow> py_exc + json" where
  "apply_mode env rule doc =
     (case fm_mode rule of
        MDirect \<Rightarrow> Inr (doc_get doc (fm_source rule))
      | MConstant \<Rightarrow> Inr (case fm_constant rule of None \<Rightarrow> JNull | Some s \<Rightarrow> JStr s)
      | MSplitList \<Rightarrow> apply_split_list rule doc
      | MFirstNonEmpty \<Rightarrow> Inr (apply_first_non_empty (fm_sources rule) doc)
      | MTemplate \<Rightarrow> Inr (apply_template rule doc)
      | MNestedObject \<Rightarrow> Inr (apply_nested_object rule doc)
      | MDateParser \<Rightarrow> Inr (parse_iso_date (pe_fromisoformat env) (doc_get doc (fm_source rule)))
      | MBooleanCast \<Rightarrow> Inr (JBool (truthy (doc_get doc (fm_source rule))))
      | MUrlPassthrough \<Rightarrow> Inr (safe_public_url (pe_bracket_ok env) (doc_get doc (fm_source rule))))"

section \<open>\<open>map_record\<close>\<close>

type_synonym fields = "(string \<times> json) list"
type_synonym blocks = "(string \<times> fields) list"

definition block_of :: "blocks \<Rightarrow> string \<Rightarrow> fields" where
  "block_of nested head = (case dict_get nested head of None \<Rightarrow> [] | Some b \<Rightarrow> b)"

text \<open>The loop over the mapping rules: plain names and dotted names are collected apart.\<close>

fun run_rules ::
  "py_env \<Rightarrow> (string \<times> field_mapping) list \<Rightarrow> fields \<Rightarrow> fields \<Rightarrow> blocks \<Rightarrow> py_exc + fields \<times> blocks"
where
  "run_rules env [] doc mapped nested = Inr (mapped, nested)"
| "run_rules env ((public_field, rule) # rules) doc mapped nested =
     bind_r (apply_mode env rule doc) (\<lambda>value.
       if CHR ''.'' \<in> set public_field then
         (let head = fst (partition_char (CHR ''.'') public_field);
              tail = snd (snd (partition_char (CHR ''.'') public_field)) in
          run_rules env rules doc mapped (dict_set head (dict_set tail value (block_of nested head)) nested))
       else run_rules env rules doc (dict_set public_field value mapped) nested)"

definition blank :: "json \<Rightarrow> bool" where
  "blank v \<longleftrightarrow> v \<in> {JNull, JStr [], JList []}"

fun merge_blocks :: "blocks \<Rightarrow> fields \<Rightarrow> fields" where
  "merge_blocks [] mapped = mapped"
| "merge_blocks ((head, block) # nested) mapped =
     (let filtered = filter (\<lambda>(k, v). \<not> blank v) block in
      merge_blocks nested (if filtered \<noteq> [] then dict_set head (JDict filtered) mapped else mapped))"

definition default_id :: "fields \<Rightarrow> fields \<Rightarrow> fields" where
  "default_id doc mapped =
     (if \<not> truthy (jget mapped ''id'')
      then dict_set ''id'' (JStr (json_str (py_or (jget doc ''id'') (py_or (jget doc ''_id'') (JStr []))))) mapped
      else mapped)"

definition default_type :: "fields \<Rightarrow> fields \<Rightarrow> fields" where
  "default_type doc mapped =
     (if \<not> truthy (jget mapped ''type'')
      then dict_set ''type'' (JStr (json_str (py_or (jget doc ''type'') (JStr ''record'')))) mapped
      else mapped)"

definition missing_id :: app_error where
  "missing_id = AppError ''bad_gateway'' ''Backend record is missing a usable identifier''
     [(''hint'', JStr ''id / _id fields were empty or absent'')] 502"

definition map_fields :: "py_env \<Rightarrow> app_config \<Rightarrow> fields \<Rightarrow> py_exc + fields" where
  "map_fields env c doc =
     bind_r (run_rules env (ac_mapping c) doc [] []) (\<lambda>(mapped0, nested).
       (let mapped = default_type doc (default_id doc (merge_blocks nested mapped0)) in
        if \<not> truthy (jget mapped ''id'') then Inl (ExApp missing_id)
        else Inr (if sp_allow_raw_fields (active_profile c)
                  then dict_set ''raw_fields'' (JDict (filter_internal_fields doc)) mapped
                  else mapped)))"

definition map_record ::
  "py_env \<Rightarrow> (fields \<Rightarrow> py_exc + 'r) \<Rightarrow> app_config \<Rightarrow> fields \<Rightarrow> py_exc + 'r"
where
  "map_record env validate c doc = bind_r (map_fields env c doc) validate"

section \<open>Mapping health\<close>

definition classify_field :: "fields \<Rightarrow> field_mapping \<Rightarrow> string" where
  "classify_field doc rule =
     (if is_set (fm_source rule) \<and> dict_get doc (the (fm_source rule)) = None
      then (if fm_criticality rule \<in> {CritRequired, CritRecommended} then ''missing'' else ''degraded'')
      else if is_set (fm_source rule) \<and> jget doc (the (fm_source rule)) \<in> {JNull, JStr [], JList [], JDict []}
      then ''empty_source''
      else ''ok'')"

definition classify :: "(string \<times> field_mapping) list \<Rightarrow> fields \<Rightarrow> (string \<times> string) list" where
  "classify mapping doc = map (\<lambda>(field, rule). (field, classify_field doc rule)) mapping"

section \<open>What a template can reveal\<close>

text \<open>
  A template rule reveals nothing but the fields of its allow list: two backend documents
  that agree on those fields render to the same text, whatever else they hold.
\<close>

lemma template_reveals_only_allowlist:
  assumes "\<forall>n \<in> set (template_allowlist rule). dict_get doc n = dict_get doc' n"
  shows "apply_template rule doc = apply_template rule doc'"
proof -
  have "map (\<lambda>name. (name, case dict_get doc name of None \<Rightarrow> JStr [] | Some v \<Rightarrow> v)) (template_allowlist rule)
      = map (\<lambda>name. (name, case dict_get doc' name of None \<Rightarrow> JStr [] | Some v \<Rightarrow> v)) (template_allowlist rule)"
    using assms by simp
  then show ?thesis by (simp only: apply_template_def Let_def)
qed

section \<open>URL passthrough\<close>

text \<open>
  A value passes \<open>url_passthrough\<close> only unchanged, and only when, once leading control
  characters and embedded tabs and line breaks are dropped, it starts with \<open>http://\<close> or
  \<open>https://\<close> in any letter case and a host character follows; every other value becomes
  null.
\<close>

lemma safe_public_url_sound:
  "safe_public_url ok value = JNull \<or>
   (\<exists>u h c t. safe_public_url ok value = value \<and> value = JStr u \<and> clean_url u = h @ ''://'' @ c # t \<and>
      py_lower h \<in> {''http'', ''https''} \<and> netloc_char c)"
proof (cases "safe_public_url ok value = JNull")
  case False
  then obtain u sch n where u: "value = JStr u" "urlsplit ok u = Some (sch, n)" "sch \<in> {''http'', ''https''}" "n \<noteq> []"
    by (auto simp: safe_public_url_def split: json.splits option.splits if_splits)
  then have "sch \<noteq> []" by auto
  from urlsplit_shape [OF u(2) this u(4)] obtain h c t
    where "clean_url u = h @ '':'' @ ''//'' @ c # t" "py_lower h = sch" "netloc_char c" by blast
  moreover have "safe_public_url ok value = value" using u by (auto simp: safe_public_url_def)
  ultimately show ?thesis using u(1,3) by auto
qed simp

section \<open>The mapped record\<close>

lemma or_default_truthy: "truthy (or_default a b) = (truthy a \<or> truthy b)"
  by (simp add: or_default_def)

lemma join_nonempty: "xs \<noteq> [] \<Longrightarrow> \<forall>x \<in> set xs. x \<noteq> [] \<Longrightarrow> join sep xs \<noteq> []"
  by (induction sep xs rule: join.induct) auto

lemma json_repr_nonempty: "wf_json v \<Longrightarrow> json_repr v \<noteq> []"
  by (cases v) (auto simp: str_of_int_def py_repr_def Let_def scan_number_def scan_int_part_def)

lemma json_str_nonempty: "wf_json v \<Longrightarrow> truthy v \<Longrightarrow> json_str v \<noteq> []"
  using json_repr_nonempty [of v] by (cases v) (simp_all add: json_str_def del: json_repr.simps)

lemma wf_jget: "wf_json (JDict d) \<Longrightarrow> wf_json (jget d k)"
  by (auto simp: jget_def split: option.splits dest!: map_of_SomeD)

lemma map_fields_Inr:
  assumes "map_fields env c doc = Inr m"
  obtains mapped0 nested mapped where
    "run_rules env (ac_mapping c) doc [] [] = Inr (mapped0, nested)"
    "mapped = default_type doc (default_id doc (merge_blocks nested mapped0))" "truthy (jget mapped ''id'')"
    "m = (if sp_allow_raw_fields (active_profile c)
          then dict_set ''raw_fields'' (JDict (filter_internal_fields doc)) mapped else mapped)"
  using assms by (auto simp: map_fields_def egg_simps Let_def split: if_splits)

lemma map_fields_identified:
  assumes "wf_json (JDict doc)" "map_fields env c doc = Inr m"
  shows "truthy (jget m ''id'') \<and> truthy (jget m ''type'')"
proof -
  obtain mapped0 nested mapped where
    m: "mapped = default_type doc (default_id doc (merge_blocks nested mapped0))" "truthy (jget mapped ''id'')"
      "m = (if sp_allow_raw_fields (active_profile c)
          then dict_set ''raw_fields'' (JDict (filter_internal_fields doc)) mapped else mapped)"
    using assms(2) by (rule map_fields_Inr)
  have "wf_json (jget doc ''type'')" using assms(1) by (rule wf_jget)
  then have "json_str (py_or (jget doc ''type'') (JStr ''record'')) \<noteq> []"
    by (intro json_str_nonempty) (auto simp: or_default_def)
  then have "truthy (jget mapped ''type'')" unfolding m(1) default_type_def by simp
  with m show ?thesis by auto
qed

text \<open>
  Every record that leaves the mapper has an identifier and a type that are not empty; a
  document without a usable identifier is the upstream error 502, and the mapper raises
  nothing else but the ValueError of an empty list separator.
\<close>

lemma mapped_record_identified:
  assumes "wf_json (JDict doc)"
  shows "(\<exists>m. map_fields env c doc = Inr m \<and> truthy (jget m ''id'') \<and> truthy (jget m ''type'')) \<or>
    map_fields env c doc = Inl (ExApp missing_id) \<or> map_fields env c doc = Inl (ExRaw ''ValueError'')"
proof (cases "map_fields env c doc")
  case (Inr m)
  with map_fields_identified [OF assms] show ?thesis by simp
next
  case (Inl e)
  have mode: "e' = ExRaw ''ValueError''" if "apply_mode env rule doc = Inl e'" for env rule doc e'
    using that by (auto simp: apply_mode_def apply_split_list_def Let_def split: mapping_mode.splits if_splits)
  have "e' = ExRaw ''ValueError''" if "run_rules env rules doc mapped nested = Inl e'" for rules mapped nested e'
    using that
    by (induction env rules doc mapped nested rule: run_rules.induct)
       (auto simp: egg_simps Let_def dest: mode split: if_splits)
  with Inl show ?thesis by (auto simp: map_fields_def egg_simps Let_def split: if_splits)
qed

text \<open>
  Backend-internal fields stay inside: the raw fields of a record are exactly the document's
  fields whose name does not start with an underscore, and they are added only when the
  active profile allows them.
\<close>

lemma raw_fields_exclude_internal:
  assumes "map_fields env c doc = Inr m" "sp_allow_raw_fields (active_profile c)"
  shows "\<exists>raw. dict_get m ''raw_fields'' = Some (JDict raw) \<and>
    (\<forall>k. dict_get raw k = (if starts_with ''_'' k then None else dict_get doc k))"
proof -
  have "dict_get (filter_internal_fields d) k = (if starts_with ''_'' k then None else dict_get d k)" for d k
    by (induction d) (auto simp: filter_internal_fields_def)
  then show ?thesis using assms by (auto elim!: map_fields_Inr)
qed

lemma merge_blocks_get:
  "distinct (map fst nested) \<Longrightarrow> dict_get (merge_blocks nested mapped) k =
     (let filtered = filter (\<lambda>(k, v). \<not> blank v) (block_of nested k) in
      if filtered \<noteq> [] then Some (JDict filtered) else dict_get mapped k)"
proof (induction nested mapped rule: merge_blocks.induct)
  case (2 head block nested mapped)
  have "dict_get nested head = None" using 2(2) by (simp add: map_of_eq_None_iff)
  then have "block_of nested head = []" by (simp add: block_of_def)
  with 2 show ?case by (auto simp: Let_def block_of_def)
qed (simp add: block_of_def)

lemma run_rules_nested:
  "run_rules env rules doc mapped nested = Inr (mapped', nested') \<Longrightarrow> distinct (map fst nested) \<Longrightarrow>
     distinct (map fst nested') \<and>
     (head \<notin> set (map fst rules) \<longrightarrow> dict_get mapped' head = dict_get mapped head)"
proof (induction env rules doc mapped nested rule: run_rules.induct)
  case (2 env public_field rule rules doc mapped nested)
  from 2(3) obtain val where v: "apply_mode env rule doc = Inr val" by (auto simp: egg_simps)
  show ?case
  proof (cases "CHR ''.'' \<in> set public_field")
    case True
    then show ?thesis using 2(1) [OF True refl refl] 2(3,4) v
      by (simp add: Let_def distinct_dict_set)
  next
    case False
    then show ?thesis using 2(2) [OF False] 2(3,4) v by auto
  qed
qed simp

text \<open>
  An optional block (\<open>museum\<close>, \<open>archive\<close>) appears on the wire only with content: when no
  rule maps the block name itself, its value in the record is an object with at least one
  entry and without a null, empty-string or empty-list value.
\<close>

lemma nested_blocks_have_content:
  assumes "map_fields env c doc = Inr m" "head \<notin> set (map fst (ac_mapping c))"
    and "head \<notin> {''id'', ''type'', ''raw_fields''}" "dict_get m head = Some v"
  shows "\<exists>d. v = JDict d \<and> d \<noteq> [] \<and> (\<forall>(k, x) \<in> set d. \<not> blank x)"
proof -
  obtain mapped0 nested mapped where
    r: "run_rules env (ac_mapping c) doc [] [] = Inr (mapped0, nested)" and
    m: "mapped = default_type doc (default_id doc (merge_blocks nested mapped0))"
      "m = (if sp_allow_raw_fields (active_profile c)
          then dict_set ''raw_fields'' (JDict (filter_internal_fields doc)) mapped else mapped)"
    using assms(1) by (rule map_fields_Inr)
  have n: "distinct (map fst nested)" "dict_get mapped0 head = None"
    using run_rules_nested [OF r, of head] assms(2) by auto
  have "dict_get m head = dict_get (merge_blocks nested mapped0) head"
    using assms(3) by (auto simp: m default_type_def default_id_def)
  with assms(4) n merge_blocks_get [OF n(1), of mapped0 head]
  have "v = JDict (filter (\<lambda>(k, v). \<not> blank v) (block_of nested head))"
    "filter (\<lambda>(k, v). \<not> blank v) (block_of nested head) \<noteq> []"
    by (simp_all only: Let_def split: if_splits) simp_all
  then show ?thesis by auto
qed

section \<open>Concrete documents\<close>

definition demo_py_env :: py_env where
  "demo_py_env = \<lparr>pe_fromisoformat = (\<lambda>s. None), pe_bracket_ok = (\<lambda>_. False)\<rparr>"

definition demo_doc :: fields where
  "demo_doc = [(''_score'', JInt 3), (''id'', JStr ''rec-1''), (''creator_csv'', JStr ''A; B ;'')]"

definition raw_config :: app_config where
  "raw_config = default_app_config\<lparr>ac_profiles := [(''prudent'', default_security_profile\<lparr>sp_allow_raw_fields := True\<rparr>)],
     ac_mapping := [(''id'', default_field_mapping\<lparr>fm_source := Some ''id''\<rparr>),
       (''museum.artist'', default_field_mapping\<lparr>fm_source := Some ''creator_csv''\<rparr>),
       (''museum.medium'', default_field_mapping\<lparr>fm_source := Some ''absent''\<rparr>)]\<rparr>"

lemma demo_map_fields:
  "map_fields demo_py_env raw_config demo_doc = Inr
     [(''id'', JStr ''rec-1''), (''museum'', JDict [(''artist'', JStr ''A; B ;'')]), (''type'', JStr ''record''),
      (''raw_fields'', JDict [(''id'', JStr ''rec-1''), (''creator_csv'', JStr ''A; B ;'')])]"
  by (simp add: map_fields_def raw_config_def default_app_config_def default_field_mapping_def
      apply_mode_def doc_get_def demo_doc_def partition_char_def block_of_def blank_def default_id_def
      default_type_def or_default_def json_str_def filter_internal_fields_def active_profile_def
      default_security_profile_def Let_def)

theorem template_reveals_only_allowlist_witness:
  "apply_template (default_field_mapping\<lparr>fm_template := Some ''$title ($_score)'', fm_allowed_fields := [''title'']\<rparr>)
     [(''title'', JStr ''T''), (''_score'', JInt 1)] =
   apply_template (default_field_mapping\<lparr>fm_template := Some ''$title ($_score)'', fm_allowed_fields := [''title'']\<rparr>)
     [(''title'', JStr ''T''), (''_score'', JInt 2)]"
  by (rule template_reveals_only_allowlist) (simp add: template_allowlist_def default_field_mapping_def)

theorem mapped_record_identified_witness:
  "\<exists>m. map_fields demo_py_env raw_config demo_doc = Inr m \<and> truthy (jget m ''id'') \<and> truthy (jget m ''type'')"
proof -
  have "wf_json (JDict demo_doc)" by (simp add: demo_doc_def int_max_str_digits_def str_of_nat.simps)
  from mapped_record_identified [OF this, of demo_py_env raw_config] show ?thesis
    unfolding demo_map_fields by simp
qed

theorem raw_fields_exclude_internal_witness:
  "\<exists>raw. dict_get [(''id'', JStr ''rec-1''), (''museum'', JDict [(''artist'', JStr ''A; B ;'')]), (''type'', JStr ''record''),
      (''raw_fields'', JDict [(''id'', JStr ''rec-1''), (''creator_csv'', JStr ''A; B ;'')])] ''raw_fields'' = Some (JDict raw) \<and>
    dict_get raw ''_score'' = None"
proof -
  have "sp_allow_raw_fields (active_profile raw_config)"
    by (simp add: raw_config_def active_profile_def default_app_config_def)
  from raw_fields_exclude_internal [OF demo_map_fields this] show ?thesis by force
qed

theorem nested_blocks_have_content_witness:
  "\<exists>d. JDict [(''artist'', JStr ''A; B ;'')] = JDict d \<and> d \<noteq> [] \<and> (\<forall>(k, x) \<in> set d. \<not> blank x)"
  by (rule nested_blocks_have_content [OF demo_map_fields, of "''museum''"])
     (simp_all add: raw_config_def)

end
