(* ===== verification/Public_Api.thy ===== *)
theory Public_Api
  imports Http_Cache Key_Service Schema_Mapper
begin

text \<open>
  \<^verbatim>\<open>app/public_api/routes.py\<close> and \<^verbatim>\<open>app/public_api/jsonld.py\<close>: the public endpoints, as they compose
  the query policy, the validators, the search backend and the schema mapper. Authentication
  (\<open>enforce_public_auth\<close>, in \<open>Key_Service\<close>) runs before them. The Pydantic models are arguments: the
  validation of a mapped record, its \<open>model_dump\<close>, and the check of the search envelope.
\<close>

section \<open>Requests, responses, the snapshot of the services\<close>

record http_in =
  hi_params :: query_params
  hi_accept :: string
  hi_if_none_match :: "string option"

type_synonym facet_table = "(string \<times> (json \<times> json) list) list"

record envelope =
  en_total :: json
  en_page :: int
  en_page_size :: int
  en_results :: "doc list"
  en_facets :: facet_table
  en_next_cursor :: "string option"

datatype body =
    Search envelope
  | SparseSearch envelope
  | JsonLdSearch "(string \<times> json) list" envelope
  | CsvText string
  | RecordBody doc
  | JsonLdRecord doc
  | FacetBody facet_table
  | JsonBody json
  | NoBody

record http_out =
  ho_status :: int
  ho_headers :: "(string \<times> string) list"
  ho_body :: body

record 'r models =
  md_validate :: "doc \<Rightarrow> py_exc + 'r"
  md_dump :: "'r \<Rightarrow> doc"
  md_envelope :: "envelope \<Rightarrow> py_exc + envelope"

record 'r services =
  sv_config :: app_config
  sv_adapter :: es_adapter
  sv_http :: http_env
  sv_context :: "(string \<times> json) list"
  sv_python :: py_env
  sv_models :: "'r models"
  sv_filter_order :: "string list"
  sv_sha256_hex :: "string \<Rightarrow> string"
  sv_epoch :: nat

definition respond :: "(string \<times> string) list \<Rightarrow> body \<Rightarrow> http_out" where
  "respond headers b = \<lparr>ho_status = 200, ho_headers = headers, ho_body = b\<rparr>"

definition not_modified :: "(string \<times> string) list \<Rightarrow> http_out" where
  "not_modified headers = \<lparr>ho_status = 304, ho_headers = headers, ho_body = NoBody\<rparr>"

definition fail_with :: "string \<Rightarrow> string \<Rightarrow> (string \<times> json) list \<Rightarrow> int \<Rightarrow> py_exc" where
  "fail_with code msg details status = ExApp (AppError code msg details status)"

section \<open>CSV export\<close>

definition csv_columns :: "string list" where
  "csv_columns = [''id'', ''type'', ''title'', ''subtitle'', ''description'', ''creators'', ''languages'', ''subjects'',
     ''collection'', ''holding_institution'']"

definition csv_cell :: "fields \<Rightarrow> string \<Rightarrow> string" where
  "csv_cell dumped column =
     (case jget dumped column of
        JNull \<Rightarrow> []
      | JList vs \<Rightarrow> join ''; '' (map json_str (filter truthy vs))
      | JDict d \<Rightarrow> json_str (py_or (py_or (jget d ''label'') (jget d ''id'')) (JStr []))
      | v \<Rightarrow> json_str v)"

text \<open>\<open>csv.writer\<close> with minimal quoting: a cell is quoted when it holds a delimiter, a quote or a line end.\<close>

definition needs_quotes :: "string \<Rightarrow> bool" where
  "needs_quotes s \<longleftrightarrow> (\<exists>c \<in> set s. c \<in> {CHR '','', CHR 0x22, CHR 0x0A, CHR 0x0D})"

definition minimal_cell :: "string \<Rightarrow> string" where
  "minimal_cell s = (if needs_quotes s then quote_cell excel s else s)"

definition csv_line :: "string list \<Rightarrow> string" where
  "csv_line cells = join [CHR '',''] (map minimal_cell cells) @ [CHR 0x0D, CHR 0x0A]"

definition render_csv :: "fields list \<Rightarrow> string" where
  "render_csv results = concat (map csv_line (csv_columns # map (\<lambda>r. map (csv_cell r) csv_columns) results))"

section \<open>JSON-LD\<close>

definition jsonld_media_type :: string where
  "jsonld_media_type = ''application/ld+json''"

definition jsonld_context :: "(string \<times> json) list" where
  "jsonld_context = map (\<lambda>(k, v). (k, JStr v))
     [(''@vocab'', ''https://schema.org/''), (''dcterms'', ''http://purl.org/dc/terms/''),
      (''egg'', ''https://egg-api.example/vocab#''), (''id'', ''@id''), (''type'', ''@type''), (''title'', ''name''),
      (''description'', ''description''), (''creators'', ''creator''), (''contributors'', ''contributor''),
      (''languages'', ''inLanguage''), (''subjects'', ''about''), (''keywords'', ''keywords''),
      (''identifiers'', ''identifier''), (''links'', ''egg:links''), (''rights'', ''license''),
      (''availability'', ''egg:availability''), (''collection'', ''isPartOf''),
      (''holding_institution'', ''provider''), (''date'', ''temporal''), (''timestamps'', ''egg:timestamps''),
      (''raw_fields'', ''egg:rawFields''), (''media'', ''associatedMedia'')]"

definition record_to_jsonld :: "fields \<Rightarrow> fields" where
  "record_to_jsonld dumped = dict_set ''@context'' (JDict jsonld_context) dumped"

definition search_context :: "(string \<times> json) list" where
  "search_context = jsonld_context @ [(''results'', JStr ''itemListElement''), (''total'', JStr ''numberOfItems'')]"

definition search_to_jsonld :: "envelope \<Rightarrow> body" where
  "search_to_jsonld e = JsonLdSearch search_context (e\<lparr>en_results := map record_to_jsonld (en_results e)\<rparr>)"

section \<open>Search\<close>

definition negotiated_format :: "http_in \<Rightarrow> string" where
  "negotiated_format rq =
     (let fmt = py_lower (or_text (opt_text (qp_get (hi_params rq) ''format'')) ''json'') in
      if fmt = ''json'' \<and> contains_str jsonld_media_type (hi_accept rq) then ''jsonld'' else fmt)"

text \<open>\<open>payload.get("hits", {}).get("hits", [])\<close>, as a list.\<close>

definition hits_of :: "json \<Rightarrow> py_exc + json list" where
  "hits_of payload = bind_r (py_get payload ''hits'' (JDict [])) (\<lambda>h. bind_r (py_get h ''hits'' (JList [])) py_iter)"

definition map_source :: "'r services \<Rightarrow> json \<Rightarrow> py_exc + fields" where
  "map_source sv src =
     (case src of
        JDict doc \<Rightarrow> map_r (md_dump (sv_models sv)) (map_record (sv_python sv) (md_validate (sv_models sv)) (sv_config sv) doc)
      | _ \<Rightarrow> Inl (ExRaw ''AttributeError''))"

definition map_hit :: "'r services \<Rightarrow> json \<Rightarrow> py_exc + fields" where
  "map_hit sv h = bind_r (py_get h ''_source'' (JDict [])) (map_source sv)"

definition total_of :: "json \<Rightarrow> nat \<Rightarrow> py_exc + json" where
  "total_of payload n =
     bind_r (py_get payload ''hits'' (JDict [])) (\<lambda>h.
     bind_r (py_get h ''total'' (JDict [])) (\<lambda>t. py_get t ''value'' (JInt (int n))))"

text \<open>A full page carries the cursor for the next one: the sort tail of its last hit.\<close>

definition encode_tail :: "json \<Rightarrow> string" where
  "encode_tail v = (case v of JList vs \<Rightarrow> encode_cursor vs | _ \<Rightarrow> b64_unpadded (utf8_encode (json_dumps_compact v)))"

definition next_cursor_of :: "json list \<Rightarrow> int \<Rightarrow> py_exc + string option" where
  "next_cursor_of hits page_size =
     (if hits \<noteq> [] \<and> page_size \<le> int (length hits)
      then bind_r (py_get (last hits) ''sort'' JNull) (\<lambda>s. Inr (if truthy s then Some (encode_tail s) else None))
      else Inr None)"

definition search_body :: "'r services \<Rightarrow> string \<Rightarrow> normalized_query \<Rightarrow> json \<Rightarrow> py_exc + body" where
  "search_body sv fmt nq payload =
     bind_r (hits_of payload) (\<lambda>hits.
     bind_r (traverse_r (map_hit sv) hits) (\<lambda>results.
       if fmt = ''csv'' then Inr (CsvText (render_csv results))
       else bind_r (if nq_facets nq \<noteq> [] then extract_facets payload else Inr []) (\<lambda>facets.
       bind_r (total_of payload (length results)) (\<lambda>total.
       bind_r (next_cursor_of hits (nq_page_size nq)) (\<lambda>next_cursor.
         let e = \<lparr>en_total = total, en_page = nq_page nq, en_page_size = nq_page_size nq, en_results = results,
                  en_facets = facets, en_next_cursor = next_cursor\<rparr> in
         if fmt = ''jsonld'' then Inr (search_to_jsonld e)
         else if nq_include_fields nq \<noteq> []
         then Inr (SparseSearch (e\<lparr>en_results :=
                map (filter (\<lambda>(k, v). k \<in> set (nq_include_fields nq) \<union> {''id'', ''type''})) results\<rparr>))
         else map_r Search (md_envelope (sv_models sv) e))))))"

definition csv_headers :: "string \<Rightarrow> (string \<times> string) list" where
  "csv_headers fmt = (if fmt = ''csv'' then [(''Content-Disposition'', ''attachment; filename='' @ [CHR 0x22] @ ''search.csv'' @ [CHR 0x22])] else [])"

definition cached_etag :: "'r services \<Rightarrow> http_in \<Rightarrow> string \<Rightarrow> (string \<times> string) list \<times> bool" where
  "cached_etag sv rq etag = apply_cache_headers (sv_config sv) (hi_if_none_match rq) etag"

definition search_endpoint :: "'r services \<Rightarrow> http_in \<Rightarrow> http_out run" where
  "search_endpoint sv rq =
     (let fmt = negotiated_format rq in
      if fmt \<notin> {''json'', ''csv'', ''jsonld''}
      then ([], Inl (fail_with ''invalid_parameter'' ''format must be one of json|csv|jsonld'' [(''format'', JStr fmt)] 400))
      else (case parse_query (sv_config sv) (sv_filter_order sv) (hi_params rq) of
              Inl e \<Rightarrow> ([], Inl (ExApp e))
            | Inr nq \<Rightarrow>
                (case cached_etag sv rq (search_etag fmt (compute_cache_key (sv_sha256_hex sv) nq) (sv_epoch sv)) of
                   (headers, True) \<Rightarrow> ([], Inr (not_modified headers))
                 | (headers, False) \<Rightarrow>
                     bind_run (search (sv_adapter sv) (sv_http sv) (sv_context sv) nq) (\<lambda>payload.
                       map_r (respond (headers @ csv_headers fmt)) (search_body sv fmt nq payload)))))"

section \<open>The other endpoints\<close>

definition get_record_endpoint :: "'r services \<Rightarrow> http_in \<Rightarrow> string \<Rightarrow> http_out run" where
  "get_record_endpoint sv rq record_id =
     (case cached_etag sv rq (record_etag record_id (sv_epoch sv)) of
        (headers, True) \<Rightarrow> ([], Inr (not_modified headers))
      | (headers, False) \<Rightarrow>
          bind_run (get_record (sv_adapter sv) (sv_http sv) (sv_context sv) record_id) (\<lambda>raw.
            if raw = JNull then Inl (fail_with ''not_found'' ''Record not found'' [] 404)
            else map_r (\<lambda>r. respond headers
                (if contains_str jsonld_media_type (hi_accept rq) then JsonLdRecord (record_to_jsonld r) else RecordBody r))
              (map_source sv raw)))"

definition facets_endpoint :: "'r services \<Rightarrow> http_in \<Rightarrow> http_out run" where
  "facets_endpoint sv rq =
     (case parse_query (sv_config sv) (sv_filter_order sv) (hi_params rq) of
        Inl e \<Rightarrow> ([], Inl (ExApp e))
      | Inr nq \<Rightarrow>
          (case cached_etag sv rq (facets_etag (compute_cache_key (sv_sha256_hex sv) nq) (sv_epoch sv)) of
             (headers, True) \<Rightarrow> ([], Inr (not_modified headers))
           | (headers, False) \<Rightarrow>
               bind_run (get_facets (sv_adapter sv) (sv_http sv) (sv_context sv) nq) (\<lambda>f.
                 Inr (respond headers (FacetBody f)))))"

definition suggest_endpoint :: "'r services \<Rightarrow> http_in \<Rightarrow> http_out run" where
  "suggest_endpoint sv rq =
     (let pfx = py_strip (opt_text (qp_get (hi_params rq) ''q'')) in
      if pfx = [] then ([], Inl (fail_with ''missing_parameter'' ''q is required'' [(''parameter'', JStr ''q'')] 400))
      else (case py_int (get_or (hi_params rq) ''limit'' ''10'') of
              Inl e \<Rightarrow> ([], Inl (fail_with ''invalid_parameter'' ''limit must be an integer'' [(''reason'', JStr e)] 400))
            | Inr limit \<Rightarrow>
                if limit < 1 \<or> 25 < limit
                then ([], Inl (fail_with ''invalid_parameter'' ''limit must be in [1, 25]'' [(''limit'', JInt limit)] 400))
                else bind_run (suggest (sv_adapter sv) (sv_http sv) (sv_context sv) pfx limit) (\<lambda>ss.
                  Inr (respond [] (JsonBody (JDict [(''q'', JStr pfx), (''suggestions'', jstrs ss)]))))))"

definition whoami ::
  "crypto \<Rightarrow> (api_key_row list \<Rightarrow> api_key_row) \<Rightarrow> app_config \<Rightarrow> key_manager \<Rightarrow> nat \<Rightarrow> string option \<Rightarrow> string option \<Rightarrow>
     key_manager \<times> json"
where
  "whoami cr pick c m now client x_api_key =
     (case (if is_set x_api_key then km_get_identity cr pick m now x_api_key else (m, None)) of
        (m', identity) \<Rightarrow>
          (m', JDict (case identity of
             None \<Rightarrow> [(''authenticated'', JBool False),
               (''subject'', JStr (''ip:'' @ (case client of None \<Rightarrow> ''anonymous'' | Some h \<Rightarrow> h))),
               (''public_mode'', JStr (public_mode_str (au_public_mode (ac_auth c))))]
           | Some k \<Rightarrow> [(''authenticated'', JBool True), (''key_id'', JStr (ak_key_id k)), (''status'', JStr (ak_status k)),
               (''created_at'', JStr (ak_created_at k)), (''last_used_at'', jopt JStr (ak_last_used_at k)),
               (''public_mode'', JStr (public_mode_str (au_public_mode (ac_auth c))))])))"

definition collections_endpoint :: "'r services \<Rightarrow> json" where
  "collections_endpoint sv = JDict [(''collections'',
     JList (map (\<lambda>n. JDict [(''id'', JStr n), (''label'', JStr n)]) (list_sources (sv_adapter sv))))]"

text \<open>The redirect to a IIIF manifest; Starlette percent-encodes the target on its way out.\<close>

definition manifest_endpoint :: "'r services \<Rightarrow> string \<Rightarrow> http_out run" where
  "manifest_endpoint sv record_id =
     bind_run (get_record (sv_adapter sv) (sv_http sv) (sv_context sv) record_id) (\<lambda>raw.
       if raw = JNull
       then Inl (fail_with ''not_found'' (''Record '' @ py_repr record_id @ '' not found'') [(''record_id'', JStr record_id)] 404)
       else bind_r (map_source sv raw) (\<lambda>r.
         (case jget r ''links'' of
            JDict links \<Rightarrow>
              (case jget links ''iiif_manifest'' of
                 JStr target \<Rightarrow>
                   if target = [] then Inl (fail_with ''not_found'' ''Record has no IIIF manifest link''
                     [(''record_id'', JStr record_id), (''hint'', JStr ''map links.iiif_manifest in your config'')] 404)
                   else Inr \<lparr>ho_status = 302, ho_headers = [(''location'', target)], ho_body = NoBody\<rparr>
               | _ \<Rightarrow> Inl (fail_with ''not_found'' ''Record has no IIIF manifest link''
                     [(''record_id'', JStr record_id), (''hint'', JStr ''map links.iiif_manifest in your config'')] 404))
          | _ \<Rightarrow> Inl (ExRaw ''AttributeError''))))"

definition public_schema :: "app_config \<Rightarrow> json" where
  "public_schema c = JDict
     [(''fields'', JList (map (\<lambda>(n, rule). JDict [(''name'', JStr n), (''mode'', JStr (mapping_mode_str (fm_mode rule))),
         (''criticality'', JStr (criticality_str (fm_criticality rule)))]) (ac_mapping c))),
      (''allowed_include_fields'', jstrs (ac_allowed_include_fields c)),
      (''allowed_facets'', jstrs (ac_allowed_facets c)), (''allowed_sorts'', jstrs (ac_allowed_sorts c)),
      (''filters'', jstrs (sort filter_params))]"

definition livez :: json where
  "livez = JDict [(''status'', JStr ''ok'')]"

definition readyz :: "'r services \<Rightarrow> json run" where
  "readyz sv = bind_run (health (sv_adapter sv) (sv_http sv) (sv_context sv)) (\<lambda>h.
     Inr (JDict [(''status'', JStr ''ok''), (''backend'', h)]))"

section \<open>What a public search returns\<close>

text \<open>Every attempt of a request sends the same message.\<close>

lemma request_loop_calls:
  "EvCall q n \<in> set (fst (request_loop a env rq deadline le left attempt)) \<Longrightarrow> q = rq"
  by (induction left arbitrary: le attempt) (auto simp: Let_def split: outcome.split_asm if_split_asm prod.split_asm, (metis fst_conv)+)

lemma request_calls: "EvCall q n \<in> set (fst (request a env rq)) \<Longrightarrow> q = rq"
  unfolding request_def Let_def by (rule request_loop_calls)

lemma fst_bind_run [simp]: "fst (bind_run r f) = fst r"
  by (cases r) (simp add: bind_run_def)

lemma snd_bind_run: "snd (bind_run r f) = bind_r (snd r) f"
  by (cases r) (auto simp: bind_run_def split: sum.split)

lemma search_calls:
  "EvCall q n \<in> set (fst (search a env ctx nq)) \<Longrightarrow>
     \<exists>bd. translate_query a nq True None None = Inr bd \<and> q = post_request a ctx (search_path a) bd"
  by (auto simp: search_def dest: request_calls split: sum.split_asm)

text \<open>
  The documented behaviour of the models: \<open>str\<close> fields keep the strings they validate, and the
  envelope keeps its records. JSON that the decoder returns is well formed.
\<close>

definition models_lawful :: "'r models \<Rightarrow> bool" where
  "models_lawful md \<longleftrightarrow>
     (\<forall>fs r. md_validate md fs = Inr r \<longrightarrow> jget (md_dump md r) ''id'' = jget fs ''id'' \<and> jget (md_dump md r) ''type'' = jget fs ''type'') \<and>
     (\<forall>e e'. md_envelope md e = Inr e' \<longrightarrow> en_results e' = en_results e)"

definition decodes_json :: "http_env \<Rightarrow> bool" where
  "decodes_json env \<longleftrightarrow> (\<forall>rq n resp v. he_outcome env rq n = OResponse resp \<longrightarrow> rs_json resp = Some v \<longrightarrow> wf_json v)"

definition has_identity :: "doc \<Rightarrow> bool" where
  "has_identity r \<longleftrightarrow> truthy (jget r ''id'') \<and> truthy (jget r ''type'')"

lemma map_source_identity:
  assumes "models_lawful (sv_models sv)" "wf_json src" "map_source sv src = Inr r"
  shows "has_identity r"
proof -
  obtain doc where d: "src = JDict doc" using assms(3) by (cases src) (simp_all add: map_source_def)
  obtain m x where m: "map_fields (sv_python sv) (sv_config sv) doc = Inr m" "md_validate (sv_models sv) m = Inr x"
    "r = md_dump (sv_models sv) x"
    using assms(3) by (auto simp: d map_source_def map_record_def egg_simps)
  have "truthy (jget m ''id'') \<and> truthy (jget m ''type'')"
    using map_fields_identified [OF _ m(1)] assms(2) d by simp
  with assms(1) m show ?thesis by (simp add: has_identity_def models_lawful_def)
qed

lemma wf_py_get: "wf_json v \<Longrightarrow> wf_json d \<Longrightarrow> py_get v k d = Inr x \<Longrightarrow> wf_json x"
  by (cases v) (auto simp: py_get_def split: option.split_asm dest!: map_of_SomeD)

lemma wf_py_iter: "wf_json v \<Longrightarrow> py_iter v = Inr xs \<Longrightarrow> x \<in> set xs \<Longrightarrow> wf_json x"
  by (cases v) (auto simp: py_iter_def)

lemma hits_wf: "wf_json payload \<Longrightarrow> hits_of payload = Inr hits \<Longrightarrow> h \<in> set hits \<Longrightarrow> wf_json h"
  unfolding hits_of_def by (auto simp: egg_simps dest!: wf_py_get [rotated 2] dest: wf_py_iter [rotated])

lemma map_hits_identity:
  assumes "models_lawful (sv_models sv)" "wf_json payload" "hits_of payload = Inr hits" "traverse_r (map_hit sv) hits = Inr rs"
  shows "\<forall>r \<in> set rs. has_identity r"
proof
  fix r assume "r \<in> set rs"
  then obtain h where h: "h \<in> set hits" "map_hit sv h = Inr r"
    using assms(4) by (fastforce simp: traverse_r_Inr_iff list_all2_conv_all_nth in_set_conv_nth)
  then obtain src where "py_get h ''_source'' (JDict []) = Inr src" "map_source sv src = Inr r"
    by (auto simp: map_hit_def egg_simps)
  moreover from this have "wf_json src" using wf_py_get [OF hits_wf [OF assms(2,3) h(1)], of "JDict []"] by simp
  ultimately show "has_identity r" using map_source_identity [OF assms(1)] by blast
qed

fun results_of :: "body \<Rightarrow> doc list" where
  "results_of (Search e) = en_results e"
| "results_of (SparseSearch e) = en_results e"
| "results_of (JsonLdSearch ctx e) = en_results e"
| "results_of b = []"

text \<open>The keys a result may carry: with a sparse fieldset, the requested ones and the two structural ones.\<close>

definition within_fields :: "normalized_query \<Rightarrow> body \<Rightarrow> bool" where
  "within_fields nq b \<longleftrightarrow> (\<forall>e. b = SparseSearch e \<longrightarrow>
     (\<forall>r \<in> set (en_results e). set (map fst r) \<subseteq> set (nq_include_fields nq) \<union> {''id'', ''type''}))"

lemma jget_filter: "k \<in> ks \<Longrightarrow> jget (filter (\<lambda>(k, v). k \<in> ks) d) k = jget d k"
  by (induction d) (auto simp: jget_def split: option.splits)

lemma search_body_results:
  assumes "models_lawful (sv_models sv)" "wf_json payload" "search_body sv fmt nq payload = Inr b"
  shows "(\<forall>r \<in> set (results_of b). has_identity r) \<and> within_fields nq b"
proof -
  obtain hits rs where h: "hits_of payload = Inr hits" "traverse_r (map_hit sv) hits = Inr rs"
    using assms(3) by (auto simp: search_body_def egg_simps)
  note I = map_hits_identity [OF assms(1,2) h]
  have sparse: "has_identity (filter (\<lambda>(k, v). k \<in> set (nq_include_fields nq) \<union> {''id'', ''type''}) r)" if "r \<in> set rs" for r
    using I that unfolding has_identity_def by (subst (1 2) jget_filter) auto
  have ld: "has_identity (record_to_jsonld r)" if "r \<in> set rs" for r
    using I that by (auto simp: has_identity_def record_to_jsonld_def jget_def)
  show ?thesis
  proof (cases "fmt = ''csv''")
    case True
    then show ?thesis using assms(3) h by (auto simp: search_body_def within_fields_def)
  next
    case False
    then obtain facets total cur where e: "(let e = \<lparr>en_total = total, en_page = nq_page nq, en_page_size = nq_page_size nq,
         en_results = rs, en_facets = facets, en_next_cursor = cur\<rparr> in
         if fmt = ''jsonld'' then Inr (search_to_jsonld e)
         else if nq_include_fields nq \<noteq> []
         then Inr (SparseSearch (e\<lparr>en_results :=
                map (filter (\<lambda>(k, v). k \<in> set (nq_include_fields nq) \<union> {''id'', ''type''})) rs\<rparr>))
         else map_r Search (md_envelope (sv_models sv) e)) = Inr b"
      using assms(3) h by (auto simp: search_body_def egg_simps)
    show ?thesis
    proof (cases "fmt = ''jsonld''")
      case True
      then show ?thesis using e ld by (auto simp: search_to_jsonld_def within_fields_def)
    next
      case f: False
      show ?thesis
      proof (cases "nq_include_fields nq = []")
        case True
        then show ?thesis using e f I assms(1)
          by (auto simp: egg_simps within_fields_def models_lawful_def)
      next
        case False
        then show ?thesis using e f sparse by (auto simp: within_fields_def)
      qed
    qed
  qed
qed

lemma request_loop_outcome:
  "snd (request_loop a env rq deadline le left attempt) = Inr resp \<Longrightarrow> \<exists>n. he_outcome env rq n = OResponse resp"
  by (induction left arbitrary: le attempt) (auto simp: Let_def split: outcome.split_asm if_split_asm prod.split_asm, (metis snd_conv)+)

lemma search_payload_wf:
  assumes "decodes_json env" "snd (search a env ctx nq) = Inr payload"
  shows "wf_json payload"
proof -
  obtain q resp where "snd (request a env q) = Inr resp" "rs_json resp = Some payload"
    using assms(2) by (auto simp: search_def snd_bind_run egg_simps check_status_def response_json_def
        split: sum.split_asm if_split_asm option.split_asm)
  moreover from this obtain n where "he_outcome env q n = OResponse resp"
    unfolding request_def Let_def using request_loop_outcome by metis
  ultimately show ?thesis using assms(1) unfolding decodes_json_def by blast
qed

text \<open>
  C3. A public search stays within the policy from end to end. Every call it makes sends the
  translation of a query that lies within the active security profile; a refused request and a
  304 make none. Every result it returns, in JSON, as a sparse fieldset or in JSON-LD, has a
  non-empty identifier and type, and a sparse result carries no field that was not asked for.
\<close>

theorem public_search_sound:
  assumes "search_endpoint sv rq = (evs, r)"
    and "set (sv_filter_order sv) = set filter_params" "models_lawful (sv_models sv)" "decodes_json (sv_http sv)"
  shows "(\<forall>q n. EvCall q n \<in> set evs \<longrightarrow> (\<exists>nq bd.
      parse_query (sv_config sv) (sv_filter_order sv) (hi_params rq) = Inr nq \<and> within_policy (sv_config sv) nq \<and>
      translate_query (sv_adapter sv) nq True None None = Inr bd \<and>
      q = post_request (sv_adapter sv) (sv_context sv) (search_path (sv_adapter sv)) bd)) \<and>
    (\<forall>out. r = Inr out \<longrightarrow>
      (ho_status out = 304 \<and> evs = [] \<and> ho_body out = NoBody) \<or>
      (ho_status out = 200 \<and> (\<forall>x \<in> set (results_of (ho_body out)). has_identity x) \<and>
        (\<exists>nq. parse_query (sv_config sv) (sv_filter_order sv) (hi_params rq) = Inr nq \<and> within_fields nq (ho_body out))))"
proof (cases "negotiated_format rq \<in> {''json'', ''csv'', ''jsonld''}")
  case False
  then show ?thesis using assms(1) by (auto simp: search_endpoint_def Let_def)
next
  case fmt: True
  show ?thesis
  proof (cases "parse_query (sv_config sv) (sv_filter_order sv) (hi_params rq)")
    case (Inl e)
    then show ?thesis using assms(1) fmt unfolding search_endpoint_def Let_def by auto
  next
    case (Inr nq)
    define etag where "etag = search_etag (negotiated_format rq) (compute_cache_key (sv_sha256_hex sv) nq) (sv_epoch sv)"
    obtain headers hit where c: "cached_etag sv rq etag = (headers, hit)" by (cases "cached_etag sv rq etag")
    show ?thesis
    proof (cases hit)
      case True
      then have "evs = []" "r = Inr (not_modified headers)"
        using assms(1) fmt Inr c unfolding search_endpoint_def Let_def etag_def by auto
      then show ?thesis by (simp add: not_modified_def)
    next
      case False
      then have s: "(evs, r) = bind_run (search (sv_adapter sv) (sv_http sv) (sv_context sv) nq) (\<lambda>payload.
          map_r (respond (headers @ csv_headers (negotiated_format rq))) (search_body sv (negotiated_format rq) nq payload))"
        using assms(1) fmt Inr c unfolding search_endpoint_def Let_def etag_def by auto
      have evs: "evs = fst (search (sv_adapter sv) (sv_http sv) (sv_context sv) nq)" using arg_cong [OF s, of fst] by simp
      have r: "r = bind_r (snd (search (sv_adapter sv) (sv_http sv) (sv_context sv) nq)) (\<lambda>payload.
          map_r (respond (headers @ csv_headers (negotiated_format rq))) (search_body sv (negotiated_format rq) nq payload))"
        using arg_cong [OF s, of snd] by (simp add: snd_bind_run)
      have 1: "\<forall>q n. EvCall q n \<in> set evs \<longrightarrow> (\<exists>bd. translate_query (sv_adapter sv) nq True None None = Inr bd \<and>
          q = post_request (sv_adapter sv) (sv_context sv) (search_path (sv_adapter sv)) bd)"
        using search_calls unfolding evs by blast
      have 2: "ho_status out = 200 \<and> (\<forall>x \<in> set (results_of (ho_body out)). has_identity x) \<and> within_fields nq (ho_body out)"
        if ro: "r = Inr out" for out
      proof -
        obtain payload b where p: "snd (search (sv_adapter sv) (sv_http sv) (sv_context sv) nq) = Inr payload"
          "search_body sv (negotiated_format rq) nq payload = Inr b"
          "out = respond (headers @ csv_headers (negotiated_format rq)) b"
          using ro r by (auto simp: egg_simps)
        show ?thesis using search_body_results [OF assms(3) search_payload_wf [OF assms(4) p(1)] p(2)]
          by (simp add: p(3) respond_def)
      qed
      show ?thesis using 1 2 parse_query_admits [OF Inr assms(2)] Inr by blast
    qed
  qed
qed

section \<open>The export reads back\<close>

lemma in_field_run:
  "CHR '','' \<notin> set s \<Longrightarrow> foldl (csv_step excel) (InField, f, row) s = (InField, rev s @ f, row)"
  by (induction s arbitrary: f) (auto simp: excel_def)

lemma minimal_cell_run:
  obtains st where "st \<noteq> InQuoted" "foldl (csv_step excel) (StartField, [], row) (minimal_cell s) = (st, rev s, row)"
proof (cases "needs_quotes s")
  case True
  have "cd_doublequote excel" by (simp add: excel_def)
  from quoted_cell [OF this, of row s] True that [of QuoteInQuoted] show ?thesis by (simp add: minimal_cell_def)
next
  case False
  show ?thesis
  proof (cases s)
    case Nil
    then show ?thesis using False that [of StartField] by (simp add: minimal_cell_def)
  next
    case (Cons c t)
    with False have "c \<noteq> CHR 0x22" "c \<noteq> CHR '',''" "CHR '','' \<notin> set t" by (auto simp: needs_quotes_def)
    then have "foldl (csv_step excel) (StartField, [], row) s = (InField, rev s, row)"
      using in_field_run [of t "[c]" row] by (simp add: Cons excel_def)
    then show ?thesis using False that [of InField] by (simp add: minimal_cell_def)
  qed
qed

lemma end_of_cell: "st \<noteq> InQuoted \<Longrightarrow> csv_step excel (st, f, row) (CHR '','') = (StartField, [], rev f # row)"
  by (cases st) (simp_all add: excel_def)

lemma csv_line_run:
  assumes "cells \<noteq> []"
  shows "\<exists>st. st \<noteq> InQuoted \<and> foldl (csv_step excel) (StartField, [], row) (join [CHR '',''] (map minimal_cell cells)) =
    (st, rev (last cells), rev (butlast cells) @ row)"
  using assms
proof (induction cells arbitrary: row rule: list_nonempty_induct)
  case (single x)
  obtain st where "st \<noteq> InQuoted" "foldl (csv_step excel) (StartField, [], row) (minimal_cell x) = (st, rev x, row)"
    by (rule minimal_cell_run)
  then show ?case by simp
next
  case (cons x xs)
  obtain st where st: "st \<noteq> InQuoted" "foldl (csv_step excel) (StartField, [], row) (minimal_cell x) = (st, rev x, row)"
    by (rule minimal_cell_run)
  have "join [CHR '',''] (map minimal_cell (x # xs)) = minimal_cell x @ CHR '','' # join [CHR '',''] (map minimal_cell xs)"
    using cons.hyps by (cases xs) simp_all
  then show ?case using cons.IH [of "x # row"] cons.hyps st end_of_cell [OF st(1)] by simp
qed

lemma lines_acc_CRLF:
  "\<forall>c \<in> set l. \<not> line_break c \<Longrightarrow> lines_acc acc (l @ CHR 0x0D # CHR 0x0A # s) = (rev acc @ l) # lines_acc [] s"
  by (induction l arbitrary: acc) (simp_all add: lines_acc_step)

lemma splitlines_CRLF:
  "\<forall>l \<in> set ls. \<forall>c \<in> set l. \<not> line_break c \<Longrightarrow> splitlines (concat (map (\<lambda>l. l @ [CHR 0x0D, CHR 0x0A]) ls)) = ls"
  unfolding splitlines_def by (induction ls) (simp_all add: lines_acc_CRLF)

lemma minimal_cell_chars: "c \<in> set (minimal_cell s) \<Longrightarrow> c = CHR 0x22 \<or> c \<in> set s"
  by (auto simp: minimal_cell_def excel_def dest: quote_cell_chars split: if_split_asm)

lemma csv_table_reads_back:
  assumes "\<forall>cells \<in> set rows. 2 \<le> length cells \<and> (\<forall>s \<in> set cells. \<forall>c \<in> set s. \<not> line_break c)"
  shows "csv_rows excel None (splitlines (concat (map csv_line rows))) = rows"
proof -
  let ?l = "\<lambda>cells. join [CHR '',''] (map minimal_cell cells)"
  have "\<not> line_break c" if "cells \<in> set rows" "c \<in> set (?l cells)" for cells c
  proof -
    have "c = CHR '','' \<or> (\<exists>s \<in> set cells. c \<in> set (minimal_cell s))"
      using set_join [of "[CHR '','']" "map minimal_cell cells"] that(2) by auto
    moreover have "\<not> line_break (CHR '','')" "\<not> line_break (CHR 0x22)" by (simp_all add: line_break_def)
    ultimately show ?thesis using assms that(1) minimal_cell_chars [of c] by blast
  qed
  then have "splitlines (concat (map (\<lambda>l. l @ [CHR 0x0D, CHR 0x0A]) (map ?l rows))) = map ?l rows"
    by (intro splitlines_CRLF) auto
  then have "splitlines (concat (map csv_line rows)) = map ?l rows" by (simp add: csv_line_def [abs_def] comp_def)
  moreover have "csv_rows excel None (map ?l rows) = rows" using assms
  proof (induction rows)
    case (Cons cells rows)
    then obtain x y t where c: "cells = x # y # t" by (cases cells; cases "tl cells") auto
    then have "?l cells \<noteq> []" by simp
    moreover obtain st where "st \<noteq> InQuoted"
      "foldl (csv_step excel) (StartField, [], []) (?l cells) = (st, rev (last cells), rev (butlast cells) @ [])"
      using csv_line_run [of cells "[]"] c by blast
    moreover have "rev (last cells # rev (butlast cells)) = cells" using c by simp
    ultimately show ?case using Cons by simp
  qed simp
  ultimately show ?thesis by simp
qed

text \<open>
  The CSV export is a table that the program's own CSV reader takes back: for results whose
  cells hold no line break, reading the export gives the header and, row for row, the cells of
  the results, whatever commas and quotes they hold.
\<close>

lemma csv_export_reads_back:
  assumes "\<forall>r \<in> set results. \<forall>col \<in> set csv_columns. \<forall>c \<in> set (csv_cell r col). \<not> line_break c"
  shows "csv_rows excel None (splitlines (render_csv results)) =
    csv_columns # map (\<lambda>r. map (csv_cell r) csv_columns) results"
  unfolding render_csv_def
proof (rule csv_table_reads_back, rule ballI)
  fix cells assume "cells \<in> set (csv_columns # map (\<lambda>r. map (csv_cell r) csv_columns) results)"
  then consider "cells = csv_columns" | r where "r \<in> set results" "cells = map (csv_cell r) csv_columns" by auto
  then show "2 \<le> length cells \<and> (\<forall>s \<in> set cells. \<forall>c \<in> set s. \<not> line_break c)"
  proof cases
    case 1
    then show ?thesis by (simp add: csv_columns_def line_break_def)
  next
    case 2
    then show ?thesis using assms by (simp add: csv_columns_def)
  qed
qed

section \<open>Concrete searches\<close>

definition demo_models :: "doc models" where
  "demo_models = \<lparr>md_validate = (\<lambda>fs. Inr fs), md_dump = (\<lambda>r. r), md_envelope = (\<lambda>e. Inr e)\<rparr>"

definition demo_hits :: json where
  "demo_hits = JDict [(''hits'', JDict [(''total'', JDict [(''value'', JInt 1)]),
     (''hits'', JList [JDict [(''_source'', JDict [(''id'', JStr ''7''), (''type'', JStr ''book''), (''title'', JStr ''Egg, a'')])]])])]"

definition demo_services :: "doc services" where
  "demo_services = \<lparr>sv_config = default_app_config, sv_adapter = demo_adapter,
     sv_http = Es_Adapter.demo_env\<lparr>he_outcome := (\<lambda>_ n. OResponse (demo_response 200 (Some demo_hits)))\<rparr>, sv_context = [],
     sv_python = demo_py_env, sv_models = demo_models, sv_filter_order = filter_params,
     sv_sha256_hex = (\<lambda>s. ''k''), sv_epoch = 3\<rparr>"

definition demo_request :: http_in where
  "demo_request = \<lparr>hi_params = qp_of [(''q'', ''egg'')], hi_accept = [], hi_if_none_match = None\<rparr>"

lemma demo_lawful: "models_lawful demo_models" "decodes_json (sv_http demo_services)"
  by (simp_all add: models_lawful_def demo_models_def decodes_json_def demo_services_def demo_response_def demo_hits_def
      int_max_str_digits_def str_of_nat.simps)

lemma demo_search:
  "(case snd (search_endpoint demo_services demo_request) of
      Inl e \<Rightarrow> False
    | Inr out \<Rightarrow> ho_status out = 200 \<and> map (\<lambda>r. jget r ''title'') (results_of (ho_body out)) = [JStr ''Egg, a''])"
  by code_simp

theorem public_search_sound_witness:
  "\<exists>out x. snd (search_endpoint demo_services demo_request) = Inr out \<and> results_of (ho_body out) = [x] \<and>
     jget x ''title'' = JStr ''Egg, a'' \<and> has_identity x"
proof -
  obtain evs r where e: "search_endpoint demo_services demo_request = (evs, r)"
    by (cases "search_endpoint demo_services demo_request")
  then obtain out x where o: "r = Inr out" "ho_status out = 200" "results_of (ho_body out) = [x]" "jget x ''title'' = JStr ''Egg, a''"
    using demo_search by (auto split: sum.split_asm)
  have "set (sv_filter_order demo_services) = set filter_params" "sv_models demo_services = demo_models"
    by (simp_all add: demo_services_def)
  with public_search_sound [OF e] demo_lawful o have "has_identity x" by auto
  with e o show ?thesis by auto
qed

theorem csv_export_reads_back_witness:
  "csv_rows excel None (splitlines (render_csv [[(''id'', JStr ''7''), (''title'', JStr (''Egg, a'' @ [CHR 0x22]))]])) =
     [csv_columns, [''7'', [], ''Egg, a'' @ [CHR 0x22], [], [], [], [], [], [], []]]"
proof -
  let ?r = "[(''id'', JStr ''7''), (''title'', JStr (''Egg, a'' @ [CHR 0x22]))]"
  have c: "map (csv_cell ?r) csv_columns = [''7'', [], ''Egg, a'' @ [CHR 0x22], [], [], [], [], [], [], []]"
    by (simp add: csv_columns_def csv_cell_def jget_def json_str_def)
  have "\<forall>col \<in> set csv_columns. \<forall>c \<in> set (csv_cell ?r col). \<not> line_break c"
    by (simp add: csv_columns_def csv_cell_def jget_def json_str_def line_break_def)
  with csv_export_reads_back [of "[?r]"] c show ?thesis by simp
qed

text \<open>One validator stands for the JSON and the JSON-LD form of a record: the one revalidates the other.\<close>

lemma record_formats_share_validator:
  assumes "cached_etag sv rq (record_etag i (sv_epoch sv)) = (headers, True)"
  shows "get_record_endpoint sv (rq\<lparr>hi_accept := jsonld_media_type\<rparr>) i = ([], Inr (not_modified headers))"
  using assms by (simp add: get_record_endpoint_def cached_etag_def)

end
