(* ===== verification/Oai_Provider.thy ===== *)
theory Oai_Provider
  imports Public_Api
begin

text \<open>
  \<^verbatim>\<open>app/oai_provider.py\<close>: the program as an OAI-PMH repository. The handler is a function of the
  request parameters, the services and the clock; the response is the XML text it returns. One
  reading of the clock stands for the readings of one request. The configuration model has none of
  the fields that the repository identity looks for, so the fallbacks are its value.
\<close>

section \<open>Constants and text\<close>

definition DEFAULT_PAGE_SIZE :: int where "DEFAULT_PAGE_SIZE = 100"
definition MAX_PAGE_SIZE :: int where "MAX_PAGE_SIZE = 500"

definition supported_metadata_prefixes :: "string list" where
  "supported_metadata_prefixes = [''oai_dc'']"

definition oai_ns :: string where "oai_ns = ''http://www.openarchives.org/OAI/2.0/''"
definition oai_dc_ns :: string where "oai_dc_ns = ''http://www.openarchives.org/OAI/2.0/oai_dc/''"
definition xsi_ns :: string where "xsi_ns = ''http://www.w3.org/2001/XMLSchema-instance''"

definition now_iso :: "nat \<Rightarrow> string" where
  "now_iso t =
     (let s = t mod us_per_day div 1000000 in
      date_isoformat (ord2ymd (t div us_per_day + 1)) @ ''T'' @ pad 2 (s div 3600) @ '':'' @ pad 2 (s div 60 mod 60)
      @ '':'' @ pad 2 (s mod 60) @ ''Z'')"

text \<open>\<open>xml.sax.saxutils.escape\<close>: ampersand and the angle brackets, nothing else.\<close>

definition escape_char :: "char \<Rightarrow> string" where
  "escape_char c = (if c = CHR ''&'' then ''&amp;'' else if c = CHR ''<'' then ''&lt;'' else if c = CHR ''>'' then ''&gt;'' else [c])"

definition xml_escape :: "string \<Rightarrow> string" where
  "xml_escape s = concat (map escape_char s)"

definition esc :: "json \<Rightarrow> string" where
  "esc v = (case v of JNull \<Rightarrow> [] | JBool b \<Rightarrow> if b then ''true'' else ''false'' | _ \<Rightarrow> xml_escape (json_str v))"

definition element :: "string \<Rightarrow> string \<Rightarrow> string" where
  "element tag inner = ''<'' @ tag @ ''>'' @ inner @ ''</'' @ tag @ ''>''"

definition attribute :: "string \<Rightarrow> string \<Rightarrow> string" where
  "attribute key v = key @ ''='' @ [CHR 0x22] @ v @ [CHR 0x22]"

section \<open>Resumption tokens and identifiers\<close>

definition token_encode :: "string \<times> string \<Rightarrow> string" where
  "token_encode t = (case t of (cursor, metadata_prefix) \<Rightarrow>
     b64_unpadded (utf8_encode (json_dumps (JDict [(''c'', JStr cursor), (''m'', JStr metadata_prefix)]))))"

text \<open>\<open>_Token.decode\<close>: anything that fails gives \<open>None\<close>, whatever it is.\<close>

definition token_decode :: "string \<Rightarrow> (string \<times> string) option" where
  "token_decode raw =
     (let padded = b64_repad raw in
      if \<not> is_ascii padded then None
      else (case b64_decode padded of
              None \<Rightarrow> None
            | Some bytes \<Rightarrow>
                (case utf8_decode bytes of
                   None \<Rightarrow> None
                 | Some txt \<Rightarrow>
                     (case json_loads txt of
                        Some (JDict d) \<Rightarrow>
                          (case (dict_get d ''c'', dict_get d ''m'') of
                             (Some c, Some m) \<Rightarrow> Some (json_str c, json_str m)
                           | _ \<Rightarrow> None)
                      | _ \<Rightarrow> None))))"

definition after_colon :: "string \<Rightarrow> string" where
  "after_colon s = tl (dropWhile (\<lambda>c. c \<noteq> CHR '':'') s)"

text \<open>\<open>identifier.split(":", 2)[-1]\<close> of a text with two colons is what follows the second.\<close>

definition normalize_identifier :: "string \<Rightarrow> string" where
  "normalize_identifier identifier =
     (if starts_with ''oai:'' identifier \<and> CHR '':'' \<in> set (drop 4 identifier)
      then after_colon (after_colon identifier) else identifier)"

definition identifier_for :: "string \<Rightarrow> string \<Rightarrow> string" where
  "identifier_for record_id base_id = ''oai:'' @ base_id @ '':'' @ record_id"

definition repository_identity :: "string \<times> string" where
  "repository_identity = (''egg-api'', ''EGG-API repository'')"

section \<open>Dublin Core\<close>

definition dc_element :: "string \<Rightarrow> json \<Rightarrow> string list" where
  "dc_element tag v = (let t = esc v in if t = [] then [] else [element (''dc:'' @ tag) t])"

definition dc_add :: "string \<Rightarrow> json \<Rightarrow> string list" where
  "dc_add tag v =
     (if v \<in> {JNull, JStr [], JList []} then []
      else (case v of JList items \<Rightarrow> concat (map (dc_element tag) items) | _ \<Rightarrow> dc_element tag v))"

definition combined_subjects :: "doc \<Rightarrow> json list" where
  "combined_subjects r =
     (let subjects = jget r ''subjects''; keywords = jget r ''keywords'' in
      (case subjects of
         JList ss \<Rightarrow> filter truthy ss
       | _ \<Rightarrow> if truthy subjects then [JStr (json_str subjects)] else [])
      @ (case keywords of JList ks \<Rightarrow> filter truthy ks | _ \<Rightarrow> []))"

definition dc_elements :: "doc \<Rightarrow> string list" where
  "dc_elements r =
     dc_add ''title'' (jget r ''title'')
     @ dc_add ''creator'' (jget r ''creators'')
     @ dc_add ''subject'' (JList (combined_subjects r))
     @ dc_add ''description'' (jget r ''description'')
     @ dc_add ''date'' (case jget r ''date'' of
         JDict d \<Rightarrow> py_or (jget d ''display'') (jget d ''value'') | v \<Rightarrow> v)
     @ dc_add ''language'' (jget r ''languages'')
     @ dc_add ''publisher'' (jget r ''publisher'')
     @ dc_add ''type'' (jget r ''type'')
     @ (case jget r ''identifiers'' of
          JDict ids \<Rightarrow> concat (map (\<lambda>k. dc_add ''identifier'' (jget ids k)) [''isbn'', ''issn'', ''doi'', ''url'', ''canonical''])
        | _ \<Rightarrow> [])
     @ dc_add ''rights'' (case jget r ''rights'' of
         JDict d \<Rightarrow> py_or (jget d ''label'') (jget d ''license'') | v \<Rightarrow> v)
     @ (case jget r ''links'' of
          JDict links \<Rightarrow> if truthy (jget links ''iiif_manifest'') then dc_add ''identifier'' (jget links ''iiif_manifest'') else []
        | _ \<Rightarrow> [])"

definition dublin_core_block :: "doc \<Rightarrow> string" where
  "dublin_core_block r =
     ''<oai_dc:dc '' @ attribute ''xmlns:oai_dc'' oai_dc_ns @ '' '' @ attribute ''xmlns:dc'' ''http://purl.org/dc/elements/1.1/'' @ '' ''
     @ attribute ''xmlns:xsi'' xsi_ns @ '' ''
     @ attribute ''xsi:schemaLocation'' (oai_dc_ns @ '' http://www.openarchives.org/OAI/2.0/oai_dc.xsd'') @ ''>''
     @ concat (dc_elements r) @ ''</oai_dc:dc>''"

section \<open>The envelope\<close>

record oai_request =
  oq_url :: string
  oq_params :: "(string \<times> string) list"  \<comment> \<open>the query parameters without \<open>verb\<close>, every key once\<close>
  oq_now :: nat

definition request_attrs :: "(string \<times> string) list \<Rightarrow> string" where
  "request_attrs params =
     join '' '' (map (\<lambda>(k, v). attribute (xml_escape k) (xml_escape v)) (filter (\<lambda>(k, v). v \<noteq> []) (sort_key fst params)))"

definition oai_envelope :: "oai_request \<Rightarrow> string \<Rightarrow> string \<Rightarrow> string" where
  "oai_envelope rq verb inner =
     (let attrs = request_attrs (oq_params rq) in
      ''<?xml '' @ attribute ''version'' ''1.0'' @ '' '' @ attribute ''encoding'' ''UTF-8'' @ ''?>''
      @ ''<OAI-PMH '' @ attribute ''xmlns'' oai_ns @ '' '' @ attribute ''xmlns:xsi'' xsi_ns @ '' ''
      @ attribute ''xsi:schemaLocation'' (oai_ns @ '' http://www.openarchives.org/OAI/2.0/OAI-PMH.xsd'') @ ''>''
      @ element ''responseDate'' (now_iso (oq_now rq))
      @ ''<request '' @ attribute ''verb'' (xml_escape verb) @ (if attrs = [] then [] else '' '') @ attrs @ ''>''
      @ xml_escape (oq_url rq) @ ''</request>'' @ inner @ ''</OAI-PMH>'')"

definition oai_fault :: "oai_request \<Rightarrow> string \<Rightarrow> string \<Rightarrow> string \<Rightarrow> string" where
  "oai_fault rq verb code message =
     oai_envelope rq verb (''<error '' @ attribute ''code'' (xml_escape code) @ ''>'' @ xml_escape message @ ''</error>'')"

section \<open>Pages of records\<close>

definition build_query :: "int \<Rightarrow> string option \<Rightarrow> normalized_query" where
  "build_query page_size cursor =
     empty_query\<lparr>nq_page_size := page_size, nq_cursor := (if is_set cursor then cursor else None)\<rparr>"

definition sources_of :: "json list \<Rightarrow> py_exc + json list" where
  "sources_of hits = traverse_r (\<lambda>h. py_get h ''_source'' (JDict [])) hits"

definition int_total :: "json \<Rightarrow> nat \<Rightarrow> py_exc + int" where
  "int_total payload n =
     bind_r (total_of payload n) (\<lambda>v. case json_int v of None \<Rightarrow> Inl (ExRaw ''TypeError'') | Some i \<Rightarrow> Inr i)"

definition search_page :: "'r services \<Rightarrow> int \<Rightarrow> string option \<Rightarrow> (json list \<times> string option \<times> int) run" where
  "search_page sv page_size0 cursor =
     (let page_size = max 1 (min MAX_PAGE_SIZE page_size0) in
      bind_run (search (sv_adapter sv) (sv_http sv) (sv_context sv) (build_query page_size cursor)) (\<lambda>payload.
        bind_r (hits_of payload) (\<lambda>hits.
        bind_r (sources_of hits) (\<lambda>sources.
        bind_r (int_total payload (length sources)) (\<lambda>total.
        bind_r (next_cursor_of hits page_size) (\<lambda>next_cursor. Inr (sources, next_cursor, total)))))))"

text \<open>\<open>updated_at.split(".")[0]\<close>, with a \<open>Z\<close> when there is none.\<close>

definition datestamp_of :: "doc \<Rightarrow> nat \<Rightarrow> string" where
  "datestamp_of r now =
     (let updated_at = (case or_default (jget r ''timestamps'') (JDict []) of
            JDict ts \<Rightarrow> py_or (py_or (jget ts ''updated_at'') (jget ts ''indexed_at'')) (JStr [])
          | _ \<Rightarrow> JStr []);
          d = takeWhile (\<lambda>c. c \<noteq> CHR ''.'') (json_str (py_or updated_at (JStr (now_iso now)))) in
      if ends_with ''Z'' d then d else d @ ''Z'')"

definition record_header :: "string \<Rightarrow> nat \<Rightarrow> doc \<Rightarrow> string" where
  "record_header base_id now r =
     (let local_id = json_str (py_or (jget r ''id'') (JStr [])) in
      element ''header''
        (element ''identifier'' (xml_escape (identifier_for local_id base_id))
         @ element ''datestamp'' (xml_escape (datestamp_of r now))))"

definition record_block :: "'r services \<Rightarrow> nat \<Rightarrow> string \<Rightarrow> bool \<Rightarrow> string \<Rightarrow> json \<Rightarrow> py_exc + string" where
  "record_block sv now base_id headers_only metadata_prefix src =
     map_r (\<lambda>r. let hdr = record_header base_id now r in
       if headers_only then hdr
       else element ''record'' (hdr @ element ''metadata''
              (if metadata_prefix = ''oai_dc'' then dublin_core_block r else [])))
     (map_source sv src)"

section \<open>The verbs\<close>

definition param :: "oai_request \<Rightarrow> string \<Rightarrow> string" where
  "param rq k = opt_text (dict_get (oq_params rq) k)"

definition verb_identify :: "oai_request \<Rightarrow> string" where
  "verb_identify rq =
     (let (base_id, repo_name) = repository_identity in
      oai_envelope rq ''Identify''
        (element ''Identify''
          (element ''repositoryName'' (xml_escape repo_name)
           @ element ''baseURL'' (xml_escape (takeWhile (\<lambda>c. c \<noteq> CHR ''?'') (oq_url rq)))
           @ element ''protocolVersion'' ''2.0'' @ element ''adminEmail'' ''admin@localhost''
           @ element ''earliestDatestamp'' ''1970-01-01T00:00:00Z'' @ element ''deletedRecord'' ''no''
           @ element ''granularity'' ''YYYY-MM-DDThh:mm:ssZ''
           @ element ''description''
               (''<oai-identifier '' @ attribute ''xmlns'' ''http://www.openarchives.org/OAI/2.0/oai-identifier'' @ '' ''
                @ attribute ''xmlns:xsi'' xsi_ns @ '' ''
                @ attribute ''xsi:schemaLocation'' (''http://www.openarchives.org/OAI/2.0/oai-identifier ''
                    @ ''http://www.openarchives.org/OAI/2.0/oai-identifier.xsd'') @ ''>''
                @ element ''scheme'' ''oai'' @ element ''repositoryIdentifier'' (xml_escape base_id)
                @ element ''delimiter'' '':'' @ element ''sampleIdentifier'' (''oai:'' @ xml_escape base_id @ '':sample-1'')
                @ ''</oai-identifier>''))))"

definition verb_list_metadata_formats :: "oai_request \<Rightarrow> string" where
  "verb_list_metadata_formats rq =
     oai_envelope rq ''ListMetadataFormats''
       (element ''ListMetadataFormats''
         (element ''metadataFormat''
           (element ''metadataPrefix'' ''oai_dc'' @ element ''schema'' ''http://www.openarchives.org/OAI/2.0/oai_dc.xsd''
            @ element ''metadataNamespace'' ''http://www.openarchives.org/OAI/2.0/oai_dc/'')))"

definition verb_list_sets :: "oai_request \<Rightarrow> string" where
  "verb_list_sets rq = oai_fault rq ''ListSets'' ''noSetHierarchy'' ''This repository does not expose OAI-PMH sets.''"

definition resumption_xml :: "string option \<Rightarrow> string \<Rightarrow> int \<Rightarrow> string" where
  "resumption_xml next_cursor metadata_prefix n_total =
     (if is_set next_cursor
      then ''<resumptionToken '' @ attribute ''completeListSize'' (str_of_int n_total) @ ''>''
           @ xml_escape (token_encode (the next_cursor, metadata_prefix)) @ ''</resumptionToken>''
      else [])"

text \<open>The metadata prefix and the cursor that a request asks for, unless its token does not decode.\<close>

definition list_position :: "oai_request \<Rightarrow> (string \<times> string option) option" where
  "list_position rq =
     (if param rq ''resumptionToken'' = [] then Some (param rq ''metadataPrefix'', None)
      else (case token_decode (param rq ''resumptionToken'') of
              None \<Rightarrow> None
            | Some (cursor, metadata_prefix) \<Rightarrow> Some (metadata_prefix, Some cursor)))"

definition verb_list :: "'r services \<Rightarrow> oai_request \<Rightarrow> string \<Rightarrow> bool \<Rightarrow> string run" where
  "verb_list sv rq verb headers_only =
     (case list_position rq of
        None \<Rightarrow> ([], Inr (oai_fault rq verb ''badResumptionToken'' ''The resumption token is not valid.''))
      | Some (metadata_prefix, cursor) \<Rightarrow>
          if metadata_prefix \<notin> set supported_metadata_prefixes
          then ([], Inr (oai_fault rq verb ''cannotDisseminateFormat''
                 (''metadataPrefix '' @ py_repr metadata_prefix @ '' is not supported.'')))
          else bind_run (search_page sv DEFAULT_PAGE_SIZE cursor) (\<lambda>(sources, next_cursor, n_total).
            if sources = [] \<and> cursor = None
            then Inr (oai_fault rq verb ''noRecordsMatch'' ''The repository has no records to expose.'')
            else map_r (\<lambda>blocks.
                oai_envelope rq verb (element (if verb = ''ListRecords'' then ''ListRecords'' else ''ListIdentifiers'')
                  (concat blocks @ resumption_xml next_cursor metadata_prefix n_total)))
              (traverse_r (record_block sv (oq_now rq) (fst repository_identity) headers_only metadata_prefix) sources)))"

definition verb_get_record :: "'r services \<Rightarrow> oai_request \<Rightarrow> string run" where
  "verb_get_record sv rq =
     (let identifier = param rq ''identifier''; metadata_prefix = param rq ''metadataPrefix'' in
      if identifier = [] then ([], Inr (oai_fault rq ''GetRecord'' ''badArgument'' ''identifier is required.''))
      else if metadata_prefix \<notin> set supported_metadata_prefixes
      then ([], Inr (oai_fault rq ''GetRecord'' ''cannotDisseminateFormat''
             (''metadataPrefix '' @ py_repr metadata_prefix @ '' is not supported.'')))
      else bind_run (get_record (sv_adapter sv) (sv_http sv) (sv_context sv) (normalize_identifier identifier)) (\<lambda>raw.
        if raw = JNull
        then Inr (oai_fault rq ''GetRecord'' ''idDoesNotExist'' (''No record with identifier '' @ py_repr identifier @ ''.''))
        else map_r (\<lambda>block. oai_envelope rq ''GetRecord'' (element ''GetRecord'' block))
          (record_block sv (oq_now rq) (fst repository_identity) False metadata_prefix raw)))"

section \<open>The dispatcher\<close>

definition required_params :: "(string \<times> string list) list" where
  "required_params = [(''Identify'', []), (''ListMetadataFormats'', []), (''ListSets'', []),
     (''ListIdentifiers'', [''metadataPrefix'']), (''ListRecords'', [''metadataPrefix'']),
     (''GetRecord'', [''identifier'', ''metadataPrefix''])]"

definition missing_params :: "string \<Rightarrow> (string \<times> string) list \<Rightarrow> string list" where
  "missing_params verb params = filter (\<lambda>k. k \<notin> fst ` set params) (the (map_of required_params verb))"

definition oai_handle :: "'r services \<Rightarrow> nat \<Rightarrow> string \<Rightarrow> (string \<times> string) list \<Rightarrow> string run" where
  "oai_handle sv now request_url query_params =
     (let verb = opt_text (dict_get query_params ''verb'');
          rq = \<lparr>oq_url = request_url, oq_params = filter (\<lambda>(k, v). k \<noteq> ''verb'') query_params, oq_now = now\<rparr>;
          resuming = (verb \<in> {''ListRecords'', ''ListIdentifiers''} \<and> param rq ''resumptionToken'' \<noteq> []) in
      if map_of required_params verb = None
      then ([], Inr (oai_fault rq verb ''badVerb'' (''Unknown or missing verb: '' @ py_repr verb)))
      else if \<not> resuming \<and> missing_params verb (oq_params rq) \<noteq> []
      then ([], Inr (oai_fault rq verb ''badArgument''
             (''Missing required argument(s): '' @ join '', '' (missing_params verb (oq_params rq)))))
      else if verb = ''Identify'' then ([], Inr (verb_identify rq))
      else if verb = ''ListMetadataFormats'' then ([], Inr (verb_list_metadata_formats rq))
      else if verb = ''ListSets'' then ([], Inr (verb_list_sets rq))
      else if verb = ''ListIdentifiers'' then verb_list sv rq verb True
      else if verb = ''ListRecords'' then verb_list sv rq verb False
      else verb_get_record sv rq)"

text \<open>\<open>urllib.parse.quote(path, safe="/:")\<close>.\<close>

definition hex_upper :: "nat \<Rightarrow> char" where
  "hex_upper n = (if n < 10 then char_of (48 + n) else char_of (55 + n))"

definition quote_byte :: "char \<Rightarrow> string" where
  "quote_byte c =
     (if is_ascii_letter c \<or> is_digit c \<or> c \<in> set ''_.-~/:'' then [c]
      else [CHR ''%'', hex_upper (of_char c div 16), hex_upper (of_char c mod 16)])"

definition quote_path :: "string \<Rightarrow> string" where
  "quote_path path = concat (map quote_byte (utf8_encode path))"

definition build_request_url :: "string \<Rightarrow> string \<Rightarrow> string \<Rightarrow> string" where
  "build_request_url scheme host path = scheme @ ''://'' @ host @ quote_path path"

section \<open>Identifiers and tokens read back\<close>

lemma after_colon_append: "CHR '':'' \<notin> set a \<Longrightarrow> after_colon (a @ CHR '':'' # s) = s"
  by (induction a) (auto simp: after_colon_def)

lemma other_key: "k \<noteq> x \<Longrightarrow> map_of (filter (\<lambda>(k, v). k \<noteq> x) ps) k = map_of ps k"
  by (induction ps) auto

lemma other_key_in: "dict_get ps k = Some v \<Longrightarrow> k \<noteq> x \<Longrightarrow> k \<in> fst ` set (filter (\<lambda>(k, v). k \<noteq> x) ps)"
  by (induction ps) (auto split: if_split_asm)

text \<open>
  \<open>GetRecord\<close> finds what the lists announce: the identifier that the provider puts into a
  header for a record, asked for again, makes exactly one lookup of that record in the backend,
  whatever colons its own identifier holds.
\<close>

lemma announced_identifier_found:
  assumes "dict_get params ''verb'' = Some ''GetRecord''" "dict_get params ''metadataPrefix'' = Some ''oai_dc''"
    and "dict_get params ''identifier'' = Some (identifier_for i (fst repository_identity))"
  shows "fst (oai_handle sv now url params) = fst (get_record (sv_adapter sv) (sv_http sv) (sv_context sv) i)"
proof -
  let ?p = "filter (\<lambda>(k, v). k \<noteq> ''verb'') params"
  have n: "normalize_identifier (identifier_for i ''egg-api'') = i"
    using after_colon_append [of "''oai''" "''egg-api:'' @ i"] after_colon_append [of "''egg-api''" i]
    by (simp add: normalize_identifier_def identifier_for_def)
  have m: "missing_params ''GetRecord'' ?p = []"
    unfolding missing_params_def required_params_def
    using other_key_in [OF assms(2), of "''verb''"] other_key_in [OF assms(3), of "''verb''"] by simp
  have "identifier_for i ''egg-api'' \<noteq> []" by (simp add: identifier_for_def)
  then show ?thesis using assms m
    by (simp add: oai_handle_def opt_text_def Let_def verb_get_record_def param_def other_key required_params_def
        repository_identity_def supported_metadata_prefixes_def n)
qed

lemma token_roundtrip: "token_decode (token_encode (c, m)) = Some (c, m)"
proof -
  let ?v = "JDict [(''c'', JStr c), (''m'', JStr m)]"
  have w: "wf_json ?v" by simp
  have a: "is_ascii (json_dumps ?v)"
    by (rule dumps_ascii [OF _ _ w]) simp_all
  have l: "json_loads (json_dumps ?v) = Some ?v"
    using json_loads_dumps [OF _ _ w, of "'' ''" "'' ''"] by (simp add: json_ws_def del: dumps.simps)
  show ?thesis
    unfolding token_decode_def token_encode_def
    using a l b64_repad_unpadded [THEN conjunct2] by (simp add: Let_def b64_decode_unpadded json_str_def del: dumps.simps)
qed

section \<open>A complete harvest\<close>

text \<open>
  A backend that serves its records in a fixed order: every record with its sort tail and its
  document, pages of a hundred from the start, or from behind the record whose tail is the cursor.
\<close>

type_synonym sorted_index = "(json list \<times> doc) list"

definition hit_of :: "json list \<times> doc \<Rightarrow> json" where
  "hit_of r = JDict [(''_source'', JDict (snd r)), (''sort'', JList (fst r))]"

definition page_from :: "sorted_index \<Rightarrow> nat \<Rightarrow> json" where
  "page_from H k = JDict [(''hits'', JDict [(''total'', JDict [(''value'', JInt (int (length H)))]),
     (''hits'', JList (map hit_of (take 100 (drop k H))))])]"

definition serves :: "'r services \<Rightarrow> sorted_index \<Rightarrow> bool" where
  "serves sv H \<longleftrightarrow>
     snd (search (sv_adapter sv) (sv_http sv) (sv_context sv) (build_query 100 None)) = Inr (page_from H 0) \<and>
     (\<forall>i < length H. snd (search (sv_adapter sv) (sv_http sv) (sv_context sv)
        (build_query 100 (Some (encode_cursor (fst (H ! i)))))) = Inr (page_from H (Suc i)))"

text \<open>A harvester: it sends the token of each page back until a page has none.\<close>

fun harvest :: "'r services \<Rightarrow> nat \<Rightarrow> string option \<Rightarrow> json list option" where
  "harvest sv 0 cursor = None"
| "harvest sv (Suc n) cursor =
     (case snd (search_page sv DEFAULT_PAGE_SIZE cursor) of
        Inl e \<Rightarrow> None
      | Inr (sources, next_cursor, _) \<Rightarrow>
          (case next_cursor of
             None \<Rightarrow> Some sources
           | Some c \<Rightarrow>
               (case token_decode (token_encode (c, ''oai_dc'')) of
                  None \<Rightarrow> None
                | Some (c', m) \<Rightarrow> map_option (\<lambda>rest. sources @ rest) (harvest sv n (Some c')))))"

lemma page_result:
  assumes "snd (search (sv_adapter sv) (sv_http sv) (sv_context sv) (build_query 100 cursor)) = Inr (page_from H k)"
    and "\<forall>r \<in> set H. fst r \<noteq> []" "k \<le> length H"
  shows "snd (search_page sv DEFAULT_PAGE_SIZE cursor) = Inr (map (\<lambda>r. JDict (snd r)) (take 100 (drop k H)),
    if k + 100 \<le> length H then Some (encode_cursor (fst (H ! (k + 99)))) else None, int (length H))"
proof -
  let ?hs = "map hit_of (take 100 (drop k H))"
  have "hits_of (page_from H k) = Inr ?hs" by (simp add: hits_of_def page_from_def py_get_def py_iter_def)
  moreover have "sources_of ?hs = Inr (map (\<lambda>r. JDict (snd r)) (take 100 (drop k H)))"
    by (simp add: sources_of_def traverse_r_Inr_iff list_all2_map1 list_all2_map2 hit_of_def py_get_def list_all2_refl)
  moreover have "int_total (page_from H k) n = Inr (int (length H))" for n
    by (simp add: int_total_def total_of_def page_from_def py_get_def)
  moreover have "next_cursor_of ?hs 100 = Inr (if k + 100 \<le> length H then Some (encode_cursor (fst (H ! (k + 99)))) else None)"
  proof (cases "k + 100 \<le> length H")
    case True
    then have "last ?hs = hit_of (H ! (k + 99))" "length ?hs = 100" "?hs \<noteq> []"
      by (simp_all add: last_map last_conv_nth)
    moreover have "fst (H ! (k + 99)) \<noteq> []" using True assms(2) by simp
    ultimately show ?thesis using True by (simp add: next_cursor_of_def hit_of_def py_get_def encode_tail_def)
  next
    case False
    then have "\<not> 100 \<le> int (length ?hs)" by simp
    with False show ?thesis unfolding next_cursor_of_def by simp
  qed
  ultimately show ?thesis
    by (simp add: search_page_def DEFAULT_PAGE_SIZE_def MAX_PAGE_SIZE_def snd_bind_run assms(1))
qed

lemma harvest_from:
  assumes "serves sv H" "\<forall>r \<in> set H. fst r \<noteq> []" "k \<le> length H" "length H - k < 100 * n"
    and "cursor = None \<and> k = 0 \<or> (\<exists>i < length H. k = Suc i \<and> cursor = Some (encode_cursor (fst (H ! i))))"
  shows "harvest sv n cursor = Some (map (\<lambda>r. JDict (snd r)) (drop k H))"
  using assms(3-5)
proof (induction n arbitrary: k cursor)
  case (Suc n)
  have "snd (search (sv_adapter sv) (sv_http sv) (sv_context sv) (build_query 100 cursor)) = Inr (page_from H k)"
    using Suc.prems(3) assms(1) unfolding serves_def by blast
  note P = page_result [OF this assms(2) Suc.prems(1)]
  show ?case
  proof (cases "k + 100 \<le> length H")
    case True
    have "harvest sv n (Some (encode_cursor (fst (H ! (k + 99))))) = Some (map (\<lambda>r. JDict (snd r)) (drop (k + 100) H))"
      using Suc.prems(2) True by (intro Suc.IH) (auto simp: add.commute intro!: exI [of _ "k + 99"])
    moreover have "take 100 (drop k H) @ drop (k + 100) H = drop k H"
      using append_take_drop_id [of 100 "drop k H"] by (simp add: add.commute)
    ultimately show ?thesis using True by (simp add: P token_roundtrip flip: map_append)
  next
    case False
    then show ?thesis using P by simp
  qed
qed simp


section \<open>Where the protocol is not met\<close>

text \<open>Escaped text holds no markup, but its quotes stay: an attribute value ends where a parameter says so.\<close>

lemma xml_escape_no_markup: "CHR ''<'' \<notin> set (xml_escape s)" "CHR ''>'' \<notin> set (xml_escape s)"
  by (induction s) (auto simp: xml_escape_def escape_char_def split: if_split_asm)

lemma request_attribute_injection:
  "request_attrs [(''set'', ''a'' @ [CHR 0x22] @ '' verb='' @ [CHR 0x22] @ ''Identify'')] =
     attribute ''set'' ''a'' @ '' '' @ attribute ''verb'' ''Identify''"
  by (simp add: request_attrs_def attribute_def xml_escape_def escape_char_def)

text \<open>A token whose cursor is not one leaves the handler as an exception, not as \<open>badResumptionToken\<close>.\<close>

lemma foreign_cursor_is_http_error:
  assumes "param rq ''resumptionToken'' = token_encode (c, ''oai_dc'')" "c \<noteq> []" "decode_cursor c = Inl e"
    and "token_encode (c, ''oai_dc'') \<noteq> []"
  shows "verb_list sv rq verb headers_only = ([], Inl (ExApp e))"
proof -
  have "translate_query a (build_query 100 (Some c)) True None None = Inl e" for a
    using assms(2,3) by (simp add: translate_query_def build_query_def empty_query_def Let_def)
  then show ?thesis using assms(1,2,4)
    by (simp add: verb_list_def list_position_def token_roundtrip supported_metadata_prefixes_def search_page_def
        DEFAULT_PAGE_SIZE_def MAX_PAGE_SIZE_def search_def bind_run_def)
qed

text \<open>A timestamp with an offset and no fraction gets a second zone designator.\<close>

lemma offset_datestamp:
  "datestamp_of [(''timestamps'', JDict [(''updated_at'', JStr ''2024-01-01T00:00:00+00:00'')])] now =
     ''2024-01-01T00:00:00+00:00Z''"
  by (simp add: datestamp_of_def Let_def jget_def or_default_def json_str_def suffix_def)

section \<open>A concrete repository\<close>

definition demo_index :: sorted_index where
  "demo_index = [([JInt 4], [(''id'', JStr ''a:b''), (''type'', JStr ''book'')])]"

definition demo_repository :: "doc services" where
  "demo_repository = demo_services\<lparr>sv_http := Es_Adapter.demo_env\<lparr>he_outcome := (\<lambda>rq n. OResponse (demo_response 200 (Some
     (page_from demo_index (case rq_json rq of
        Some (JDict d) \<Rightarrow> if dict_get d ''search_after'' = None then 0 else 1 | _ \<Rightarrow> 0)))))\<rparr>\<rparr>"

lemma demo_repository_serves: "serves demo_repository demo_index"
proof -
  have "snd (search (sv_adapter demo_repository) (sv_http demo_repository) (sv_context demo_repository)
      (build_query 100 None)) = Inr (page_from demo_index 0)"
    by code_simp
  moreover have "snd (search (sv_adapter demo_repository) (sv_http demo_repository) (sv_context demo_repository)
      (build_query 100 (Some (encode_cursor [JInt 4])))) = Inr (page_from demo_index (Suc 0))"
    by code_simp
  ultimately show ?thesis by (simp add: serves_def demo_index_def)
qed


theorem announced_identifier_found_witness:
  "fst (oai_handle demo_repository 0 ''http://h/v1/oai'' [(''verb'', ''GetRecord''),
      (''identifier'', ''oai:egg-api:a:b''), (''metadataPrefix'', ''oai_dc'')]) =
    fst (get_record (sv_adapter demo_repository) (sv_http demo_repository) (sv_context demo_repository) ''a:b'')"
  by (rule announced_identifier_found) (simp_all add: identifier_for_def repository_identity_def)

end
