(* ===== verification/Migrations.thy ===== *)
theory Migrations
  imports Config_Models Py_Datetime
begin

text \<open>
  \<^verbatim>\<open>app/storage/migrations.py\<close>: the versioned migrations of the SQLite schema. A database is its tables
  (columns and rows), its indexes and the rows of \<open>schema_version\<close>; a migration is the list of its
  SQL statements, a guarded \<open>ALTER TABLE\<close> being one statement. Column constraints and the journal
  mode are not modelled. An error of SQLite ends the run with its text.
\<close>

section \<open>Databases and statements\<close>

type_synonym sql_row = "(string \<times> string option) list"

record sql_table =
  tb_cols :: "string list"
  tb_rows :: "sql_row list"

record sqlite =
  sq_tables :: "(string \<times> sql_table) list"
  sq_indexes :: "(string \<times> string) list"
  sq_versions :: "(nat \<times> string \<times> string) list option"

datatype stmt =
    CreateTable string "string list"
  | AddColumn string string "string option"
  | AddColumnFrom string string string
  | CreateIndex string string "string list"
  | DropTable string
  | DeleteAll string

definition has_table :: "string \<Rightarrow> sqlite \<Rightarrow> bool" where
  "has_table t db \<longleftrightarrow> dict_get (sq_tables db) t \<noteq> None"

text \<open>\<open>PRAGMA table_info\<close>: no columns for a missing table.\<close>

definition table_info :: "string \<Rightarrow> sqlite \<Rightarrow> string list" where
  "table_info t db = (case dict_get (sq_tables db) t of None \<Rightarrow> [] | Some tb \<Rightarrow> tb_cols tb)"

definition no_such_table :: "string \<Rightarrow> string" where
  "no_such_table t = ''OperationalError: no such table: '' @ t"

definition on_table :: "string \<Rightarrow> (sql_table \<Rightarrow> sql_table) \<Rightarrow> sqlite \<Rightarrow> string + sqlite" where
  "on_table t f db =
     (case dict_get (sq_tables db) t of
        None \<Rightarrow> Inl (no_such_table t)
      | Some tb \<Rightarrow> Inr (db\<lparr>sq_tables := dict_set t (f tb) (sq_tables db)\<rparr>))"

definition add_column :: "string \<Rightarrow> (sql_row \<Rightarrow> string option) \<Rightarrow> sql_table \<Rightarrow> sql_table" where
  "add_column c v tb = \<lparr>tb_cols = tb_cols tb @ [c], tb_rows = map (\<lambda>r. r @ [(c, v r)]) (tb_rows tb)\<rparr>"

definition column_of :: "string \<Rightarrow> sql_row \<Rightarrow> string option" where
  "column_of c r = (case dict_get r c of None \<Rightarrow> None | Some v \<Rightarrow> v)"

fun exec :: "stmt \<Rightarrow> sqlite \<Rightarrow> string + sqlite" where
  "exec (CreateTable t cols) db =
     Inr (if has_table t db then db
          else db\<lparr>sq_tables := dict_set t \<lparr>tb_cols = cols, tb_rows = []\<rparr> (sq_tables db)\<rparr>)"
| "exec (AddColumn t c dflt) db =
     (if c \<in> set (table_info t db) then Inr db else on_table t (add_column c (\<lambda>r. dflt)) db)"
| "exec (AddColumnFrom t c src) db =
     (if c \<in> set (table_info t db) then Inr db else on_table t (add_column c (column_of src)) db)"
| "exec (CreateIndex i t cols) db =
     (if i \<in> fst ` set (sq_indexes db) then Inr db
      else if \<not> has_table t db then Inl (no_such_table t)
      else if \<not> set cols \<subseteq> set (table_info t db) then Inl (''OperationalError: table '' @ t @ '' lacks an indexed column'')
      else Inr (db\<lparr>sq_indexes := sq_indexes db @ [(i, t)]\<rparr>))"
| "exec (DropTable t) db =
     Inr (db\<lparr>sq_tables := dict_pop t (sq_tables db), sq_indexes := filter (\<lambda>(i, t'). t' \<noteq> t) (sq_indexes db)\<rparr>)"
| "exec (DeleteAll t) db = on_table t (\<lambda>tb. tb\<lparr>tb_rows := []\<rparr>) db"

fun exec_all :: "stmt list \<Rightarrow> sqlite \<Rightarrow> string + sqlite" where
  "exec_all [] db = Inr db"
| "exec_all (s # ss) db = bind_r (exec s db) (exec_all ss)"

section \<open>The migrations\<close>

definition m001_baseline :: "stmt list" where
  "m001_baseline =
     [CreateTable ''api_keys'' [''id'', ''key_id'', ''key_hash'', ''prefix'', ''status'', ''created_at'', ''last_used_at''],
      CreateTable ''usage_events'' [''id'', ''request_id'', ''timestamp'', ''endpoint'', ''method'', ''status_code'',
        ''api_key_id'', ''subject'', ''latency_ms'', ''error_code''],
      CreateTable ''ui_sessions'' [''token'', ''key_id'', ''created_at'', ''expires_at''],
      CreateIndex ''idx_api_keys_hash'' ''api_keys'' [''key_hash''],
      CreateIndex ''idx_usage_events_timestamp'' ''usage_events'' [''timestamp''],
      CreateIndex ''idx_usage_events_subject'' ''usage_events'' [''subject''],
      CreateIndex ''idx_usage_events_status'' ''usage_events'' [''status_code'']]"

definition m002_ui_sessions_expires_at :: "stmt list" where
  "m002_ui_sessions_expires_at =
     [AddColumn ''ui_sessions'' ''expires_at'' None, CreateIndex ''idx_ui_sessions_expires'' ''ui_sessions'' [''expires_at'']]"

definition m003_ui_sessions_wipe_pre_hash :: "stmt list" where
  "m003_ui_sessions_wipe_pre_hash = [DeleteAll ''ui_sessions'']"

definition m004_retire_quota_counters :: "stmt list" where
  "m004_retire_quota_counters = [DropTable ''quota_counters'', DropTable ''quota_config'']"

definition m005_api_keys_hash_variant :: "stmt list" where
  "m005_api_keys_hash_variant = [AddColumn ''api_keys'' ''hash_variant'' (Some ''sha256'')]"

definition m006_setup_drafts :: "stmt list" where
  "m006_setup_drafts = [CreateTable ''setup_drafts'' [''key_id'', ''payload'', ''step'', ''updated_at'']]"

definition m007_setup_otps :: "stmt list" where
  "m007_setup_otps =
     [CreateTable ''setup_otps'' [''token_hash'', ''key_id'', ''created_at'', ''expires_at'', ''consumed_at''],
      CreateIndex ''idx_setup_otps_expires'' ''setup_otps'' [''expires_at'']]"

definition m008_ui_sessions_last_activity :: "stmt list" where
  "m008_ui_sessions_last_activity = [AddColumnFrom ''ui_sessions'' ''last_activity_at'' ''created_at'']"

definition m009_import_sources_and_runs :: "stmt list" where
  "m009_import_sources_and_runs =
     [CreateTable ''import_sources'' [''id'', ''label'', ''kind'', ''url'', ''metadata_prefix'', ''set_spec'',
        ''schema_profile'', ''created_at'', ''last_run_at''],
      CreateTable ''import_runs'' [''id'', ''source_id'', ''started_at'', ''ended_at'', ''status'', ''records_ingested'',
        ''records_failed'', ''error_message''],
      CreateIndex ''idx_import_runs_source'' ''import_runs'' [''source_id'', ''started_at'']]"

definition m010_import_sources_schedule :: "stmt list" where
  "m010_import_sources_schedule =
     [AddColumn ''import_sources'' ''schedule'' None, AddColumn ''import_sources'' ''next_run_at'' None,
      CreateIndex ''idx_import_sources_next_run'' ''import_sources'' [''next_run_at'']]"

definition migrations :: "(nat \<times> string \<times> stmt list) list" where
  "migrations =
     [(1, ''baseline'', m001_baseline), (2, ''ui_sessions_expires_at'', m002_ui_sessions_expires_at),
      (3, ''ui_sessions_wipe_pre_hash'', m003_ui_sessions_wipe_pre_hash),
      (4, ''retire_quota_counters'', m004_retire_quota_counters),
      (5, ''api_keys_hash_variant'', m005_api_keys_hash_variant), (6, ''setup_drafts'', m006_setup_drafts),
      (7, ''setup_otps'', m007_setup_otps), (8, ''ui_sessions_last_activity'', m008_ui_sessions_last_activity),
      (9, ''import_sources_and_runs'', m009_import_sources_and_runs),
      (10, ''import_sources_schedule'', m010_import_sources_schedule)]"

section \<open>The runner\<close>

definition version_rows :: "sqlite \<Rightarrow> (nat \<times> string \<times> string) list" where
  "version_rows db = (case sq_versions db of None \<Rightarrow> [] | Some rs \<Rightarrow> rs)"

definition applied_versions :: "sqlite \<Rightarrow> nat list" where
  "applied_versions db = map fst (version_rows db)"

definition ensure_schema_version_table :: "sqlite \<Rightarrow> sqlite" where
  "ensure_schema_version_table db = db\<lparr>sq_versions := Some (version_rows db)\<rparr>"

definition record_version :: "nat \<Rightarrow> string \<Rightarrow> nat \<Rightarrow> sqlite \<Rightarrow> sqlite" where
  "record_version v n now db = db\<lparr>sq_versions := Some (version_rows db @ [(v, n, iso now)])\<rparr>"

text \<open>The versions that the shape of a database without version rows shows as applied, in order.\<close>

definition looks_applied :: "sqlite \<Rightarrow> nat \<Rightarrow> bool" where
  "looks_applied db v =
     (if v = 1 then has_table ''api_keys'' db
      else if v = 2 then ''expires_at'' \<in> set (table_info ''ui_sessions'' db)
      else if v = 4 then \<not> has_table ''quota_counters'' db \<and> has_table ''api_keys'' db
      else if v = 5 then ''hash_variant'' \<in> set (table_info ''api_keys'' db)
      else if v = 6 then has_table ''setup_drafts'' db
      else if v = 7 then has_table ''setup_otps'' db
      else if v = 8 then ''last_activity_at'' \<in> set (table_info ''ui_sessions'' db)
      else if v = 9 then has_table ''import_sources'' db
      else False)"

definition baseline_pre_existing_db :: "nat \<Rightarrow> sqlite \<Rightarrow> sqlite \<times> nat list" where
  "baseline_pre_existing_db now db =
     (if applied_versions db \<noteq> [] then (db, applied_versions db)
      else (let baselined = filter (\<lambda>(v, _). looks_applied db v) migrations in
        (fold (\<lambda>(v, n, _) d. record_version v n now d) baselined db, map fst baselined)))"

fun apply_pending :: "nat \<Rightarrow> (nat \<times> string \<times> stmt list) list \<Rightarrow> sqlite \<Rightarrow> string + sqlite" where
  "apply_pending now [] db = Inr db"
| "apply_pending now ((v, n, ss) # ms) db =
     bind_r (exec_all ss db) (\<lambda>db'. apply_pending now ms (record_version v n now db'))"

definition migrate :: "nat \<Rightarrow> sqlite \<Rightarrow> string + sqlite \<times> nat list" where
  "migrate now db0 =
     (let (db, applied) = baseline_pre_existing_db now (ensure_schema_version_table db0);
          pending = filter (\<lambda>(v, _). v \<notin> set applied) migrations in
      map_r (\<lambda>db'. (db', map fst pending)) (apply_pending now pending db))"

definition current_version :: "sqlite \<Rightarrow> nat" where
  "current_version db = Max (set (0 # applied_versions db))"

section \<open>What statements need, give and keep\<close>

type_synonym columns = "string \<times> string list"

definition has_cols :: "string \<Rightarrow> string list \<Rightarrow> sqlite \<Rightarrow> bool" where
  "has_cols t cs db \<longleftrightarrow> has_table t db \<and> set cs \<subseteq> set (table_info t db)"

definition all_stmts :: "stmt list" where
  "all_stmts = concat (map (\<lambda>(v, n, ss). ss) migrations)"

text \<open>The columns that some migration adds; a table of an older release may still lack them.\<close>

definition added :: "(string \<times> string) list" where
  "added = concat (map (\<lambda>s. case s of AddColumn t c _ \<Rightarrow> [(t, c)] | AddColumnFrom t c _ \<Rightarrow> [(t, c)] | _ \<Rightarrow> []) all_stmts)"

definition first_cols :: "string \<Rightarrow> string list \<Rightarrow> string list" where
  "first_cols t cols = filter (\<lambda>c. (t, c) \<notin> set added) cols"

fun needs :: "stmt \<Rightarrow> columns list" where
  "needs (CreateTable t cols) = []"
| "needs (AddColumn t c dflt) = [(t, [])]"
| "needs (AddColumnFrom t c src) = [(t, [])]"
| "needs (CreateIndex i t cols) = [(t, cols)]"
| "needs (DropTable t) = []"
| "needs (DeleteAll t) = [(t, [])]"

fun gives :: "stmt \<Rightarrow> columns list" where
  "gives (CreateTable t cols) = [(t, first_cols t cols)]"
| "gives (AddColumn t c dflt) = [(t, [c])]"
| "gives (AddColumnFrom t c src) = [(t, [c])]"
| "gives s = []"

definition retired :: "string list" where
  "retired = [''quota_counters'', ''quota_config'']"

definition created :: "columns list" where
  "created = concat (map (\<lambda>s. case s of CreateTable t cols \<Rightarrow> [(t, first_cols t cols)] | _ \<Rightarrow> []) all_stmts)"

text \<open>A table that a migration would create has its first columns, when it is there already.\<close>

definition known_shapes :: "sqlite \<Rightarrow> bool" where
  "known_shapes db \<longleftrightarrow> (\<forall>(t, cs) \<in> set created. has_table t db \<longrightarrow> has_cols t cs db)"

fun stmt_ok :: "stmt \<Rightarrow> bool" where
  "stmt_ok (CreateTable t cols) = ((t, first_cols t cols) \<in> set created \<and> t \<notin> set retired)"
| "stmt_ok (AddColumn t c dflt) = (t \<notin> set retired)"
| "stmt_ok (AddColumnFrom t c src) = (t \<notin> set retired)"
| "stmt_ok (CreateIndex i t cols) = True"
| "stmt_ok (DropTable t) = (t \<in> set retired)"
| "stmt_ok (DeleteAll t) = (t = ''ui_sessions'')"

text \<open>No row of another table than \<open>ui_sessions\<close> and the retired ones is lost or changed: it can only grow.\<close>

definition rows_grow :: "sql_table \<Rightarrow> sql_table \<Rightarrow> bool" where
  "rows_grow tb tb' \<longleftrightarrow> (\<exists>ext. tb_rows tb' = map (\<lambda>r. r @ ext r) (tb_rows tb))"

definition rows_kept :: "sqlite \<Rightarrow> sqlite \<Rightarrow> bool" where
  "rows_kept db db' \<longleftrightarrow> (\<forall>t tb. t \<notin> set (''ui_sessions'' # retired) \<longrightarrow> dict_get (sq_tables db) t = Some tb \<longrightarrow>
     (\<exists>tb'. dict_get (sq_tables db') t = Some tb' \<and> rows_grow tb tb'))"

definition keeps :: "sqlite \<Rightarrow> sqlite \<Rightarrow> bool" where
  "keeps db db' \<longleftrightarrow> (\<forall>t cs. t \<notin> set retired \<longrightarrow> has_cols t cs db \<longrightarrow> has_cols t cs db') \<and> rows_kept db db' \<and>
     known_shapes db' \<and> sq_versions db' = sq_versions db"

lemma created_unique: "(t, cs) \<in> set created \<Longrightarrow> (t, cs') \<in> set created \<Longrightarrow> cs' = cs"
proof -
  have "distinct (map fst created)" by code_simp
  then show "(t, cs) \<in> set created \<Longrightarrow> (t, cs') \<in> set created \<Longrightarrow> cs' = cs"
    using eq_key_imp_eq_value by fast
qed

lemma created_not_retired: "(t, cs) \<in> set created \<Longrightarrow> t \<notin> set retired"
proof -
  have "\<forall>p \<in> set created. fst p \<notin> set retired" by code_simp
  then show "(t, cs) \<in> set created \<Longrightarrow> t \<notin> set retired" by fastforce
qed

lemma rows_grow_refl: "rows_grow tb tb"
  unfolding rows_grow_def by (rule exI [of _ "\<lambda>r. []"]) simp

lemma rows_grow_trans: "rows_grow a b \<Longrightarrow> rows_grow b c \<Longrightarrow> rows_grow a c"
proof -
  assume "rows_grow a b" and "rows_grow b c"
  then obtain e1 e2 where "tb_rows b = map (\<lambda>r. r @ e1 r) (tb_rows a)" "tb_rows c = map (\<lambda>r. r @ e2 r) (tb_rows b)"
    unfolding rows_grow_def by blast
  then have "tb_rows c = map (\<lambda>r. r @ (e1 r @ e2 (r @ e1 r))) (tb_rows a)" by simp
  then show ?thesis unfolding rows_grow_def by (rule exI [of _ "\<lambda>r. e1 r @ e2 (r @ e1 r)"])
qed

lemma rows_kept_refl: "rows_kept db db"
  unfolding rows_kept_def using rows_grow_refl by blast

lemma rows_kept_trans: "rows_kept a b \<Longrightarrow> rows_kept b c \<Longrightarrow> rows_kept a c"
  unfolding rows_kept_def using rows_grow_trans by meson

lemma keeps_refl: "known_shapes db \<Longrightarrow> keeps db db"
  by (simp add: keeps_def rows_kept_refl)

lemma keeps_trans: "keeps a b \<Longrightarrow> keeps b c \<Longrightarrow> keeps a c"
  unfolding keeps_def using rows_kept_trans by metis

text \<open>One table is replaced by one that has its columns; the others stay.\<close>

lemma table_change_keeps:
  assumes others: "\<And>t'. t' \<noteq> t \<Longrightarrow> dict_get (sq_tables db') t' = dict_get (sq_tables db) t'"
    and new: "dict_get (sq_tables db') t = Some tb'"
    and old: "\<And>tb. dict_get (sq_tables db) t = Some tb \<Longrightarrow> set (tb_cols tb) \<subseteq> set (tb_cols tb')"
    and grow: "\<And>tb. t \<noteq> ''ui_sessions'' \<Longrightarrow> dict_get (sq_tables db) t = Some tb \<Longrightarrow> rows_grow tb tb'"
    and shapes: "known_shapes db" "\<And>cs. dict_get (sq_tables db) t = None \<Longrightarrow> (t, cs) \<in> set created \<Longrightarrow> set cs \<subseteq> set (tb_cols tb')"
    and "sq_versions db' = sq_versions db"
  shows "keeps db db'"
proof -
  have cols: "has_cols t' cs db'" if h: "has_cols t' cs db" for t' cs
  proof (cases "t' = t")
    case True
    then obtain tb where "dict_get (sq_tables db) t = Some tb" "set cs \<subseteq> set (tb_cols tb)"
      using h by (auto simp: has_cols_def has_table_def table_info_def)
    then show ?thesis using old new True by (auto simp: has_cols_def has_table_def table_info_def)
  next
    case False
    then show ?thesis using h others [OF False] by (simp add: has_cols_def has_table_def table_info_def)
  qed
  have "has_cols t' cs db'" if c: "(t', cs) \<in> set created" "has_table t' db'" for t' cs
  proof (cases "has_table t' db")
    case True
    then show ?thesis using shapes(1) c(1) cols by (auto simp: known_shapes_def)
  next
    case False
    then have "t' = t" using c(2) others by (cases "t' = t") (auto simp: has_table_def)
    then show ?thesis using False shapes(2) c new
      by (simp add: has_cols_def has_table_def table_info_def)
  qed
  then have "known_shapes db'" by (auto simp: known_shapes_def)
  moreover have "rows_kept db db'"
    unfolding rows_kept_def
  proof (intro allI impI)
    fix t' tb assume t': "t' \<notin> set (''ui_sessions'' # retired)" "dict_get (sq_tables db) t' = Some tb"
    show "\<exists>tb'. dict_get (sq_tables db') t' = Some tb' \<and> rows_grow tb tb'"
    proof (cases "t' = t")
      case True
      have "t \<noteq> ''ui_sessions''" using t'(1) True by (simp only: set_simps insert_iff de_Morgan_disj not_False_eq_True)
      then show ?thesis using True t'(2) new grow by blast
    next
      case False
      then show ?thesis using t'(2) others rows_grow_refl by metis
    qed
  qed
  ultimately show ?thesis using cols assms(7) by (simp add: keeps_def)
qed

lemma add_column_keeps:
  assumes "dict_get (sq_tables db) t = Some tb" "known_shapes db"
    and "db' = db\<lparr>sq_tables := dict_set t (add_column c v tb) (sq_tables db)\<rparr>"
  shows "keeps db db' \<and> has_cols t [c] db'"
proof
  show "keeps db db'"
  proof (rule table_change_keeps [where t = t and tb' = "add_column c v tb"])
    have "rows_grow tb (add_column c v tb)" unfolding rows_grow_def by (rule exI [of _ "\<lambda>r. [(c, v r)]"]) (simp add: add_column_def)
    then show "rows_grow tb0 (add_column c v tb)" if "dict_get (sq_tables db) t = Some tb0" for tb0 using that assms(1) by simp
  qed (use assms in \<open>auto simp: add_column_def\<close>)
  show "has_cols t [c] db'" by (simp add: assms(3) has_cols_def has_table_def table_info_def add_column_def)
qed

definition holds :: "columns list \<Rightarrow> sqlite \<Rightarrow> bool" where
  "holds G db \<longleftrightarrow> (\<forall>(t, cs) \<in> set G. t \<notin> set retired \<and> has_cols t cs db)"

lemma holds_Nil [simp]: "holds [] db"
  by (simp add: holds_def)

lemma holds_append [simp]: "holds (G @ H) db \<longleftrightarrow> holds G db \<and> holds H db"
  by (auto simp: holds_def)

lemma holds_keeps: "holds G db \<Longrightarrow> keeps db db' \<Longrightarrow> holds G db'"
  by (fastforce simp: holds_def keeps_def)

lemma drop_keeps:
  assumes "t \<in> set retired" "known_shapes db"
    and "sq_tables db' = dict_pop t (sq_tables db)" "sq_versions db' = sq_versions db"
  shows "keeps db db'"
proof -
  have same: "dict_get (sq_tables db') t' = dict_get (sq_tables db) t'" if "t' \<notin> set retired" for t'
  proof -
    have "t' \<noteq> t" using that assms(1) by blast
    then show ?thesis unfolding assms(3) by (rule map_of_delete)
  qed
  have cols: "has_cols t' cs db' = has_cols t' cs db" if "t' \<notin> set retired" for t' cs
    using same [OF that] by (simp add: has_cols_def has_table_def table_info_def)
  have "known_shapes db'"
    using assms(2) created_not_retired same cols by (fastforce simp: known_shapes_def has_table_def)
  moreover have "rows_kept db db'"
    unfolding rows_kept_def using same rows_grow_refl by (metis list.set_intros(2))
  ultimately show ?thesis using cols assms(4) by (simp add: keeps_def)
qed

lemma exec_runs:
  assumes "stmt_ok s" "known_shapes db" "\<And>t cs. (t, cs) \<in> set (needs s) \<Longrightarrow> has_cols t cs db"
  shows "\<exists>db'. exec s db = Inr db' \<and> keeps db db' \<and> holds (gives s) db'"
proof (cases s)
  case (CreateTable t cols)
  then have c: "(t, first_cols t cols) \<in> set created" "t \<notin> set retired" using assms(1) by simp_all
  show ?thesis
  proof (cases "has_table t db")
    case True
    then have "has_cols t (first_cols t cols) db" using assms(2) c(1) by (auto simp: known_shapes_def)
    then show ?thesis using CreateTable True c(2) keeps_refl [OF assms(2)] by (simp add: holds_def)
  next
    case False
    let ?tb = "\<lparr>tb_cols = cols, tb_rows = []\<rparr>"
    let ?db = "db\<lparr>sq_tables := dict_set t ?tb (sq_tables db)\<rparr>"
    have "set cs \<subseteq> set cols" if "(t, cs) \<in> set created" for cs
      using created_unique [OF c(1) that] by (auto simp: first_cols_def)
    then have "keeps db ?db"
      by (intro table_change_keeps [where t = t and tb' = ?tb]) (use False assms(2) in \<open>auto simp: has_table_def\<close>)
    moreover have "set (first_cols t cols) \<subseteq> set cols" by (auto simp: first_cols_def)
    ultimately show ?thesis using CreateTable False c(2) by (simp add: holds_def has_cols_def has_table_def table_info_def)
  qed
next
  case (AddColumn t c dflt)
  then obtain tb where "dict_get (sq_tables db) t = Some tb" using assms(3) by (auto simp: has_cols_def has_table_def)
  then show ?thesis using AddColumn assms keeps_refl add_column_keeps
    by (auto simp: on_table_def holds_def has_cols_def has_table_def)
next
  case (AddColumnFrom t c src)
  then obtain tb where "dict_get (sq_tables db) t = Some tb" using assms(3) by (auto simp: has_cols_def has_table_def)
  then show ?thesis using AddColumnFrom assms keeps_refl add_column_keeps
    by (auto simp: on_table_def holds_def has_cols_def has_table_def)
next
  case (CreateIndex i t cols)
  let ?db = "db\<lparr>sq_indexes := sq_indexes db @ [(i, t)]\<rparr>"
  have "keeps db ?db" using keeps_refl [OF assms(2)]
    by (simp add: keeps_def rows_kept_def known_shapes_def has_cols_def has_table_def table_info_def)
  then show ?thesis using CreateIndex assms keeps_refl by (auto simp: has_cols_def)
next
  case (DropTable t)
  then show ?thesis using assms drop_keeps by simp
next
  case (DeleteAll t)
  then obtain tb where tb: "dict_get (sq_tables db) t = Some tb" using assms(3) by (auto simp: has_cols_def has_table_def)
  let ?db = "db\<lparr>sq_tables := dict_set t (tb\<lparr>tb_rows := []\<rparr>) (sq_tables db)\<rparr>"
  have "t = ''ui_sessions''" using DeleteAll assms(1) by simp
  then have "keeps db ?db"
    by (intro table_change_keeps [where t = t and tb' = "tb\<lparr>tb_rows := []\<rparr>"]) (use tb assms(2) in simp_all)
  then show ?thesis using DeleteAll tb by (simp add: on_table_def)
qed

text \<open>The plan: what each statement needs is given by an earlier one.\<close>

definition covers :: "columns list \<Rightarrow> columns \<Rightarrow> bool" where
  "covers G p = (fst p \<in> set (map fst G) \<and>
     (\<forall>c \<in> set (snd p). \<exists>(t', cs') \<in> set G. t' = fst p \<and> c \<in> set cs'))"

fun plan_ok :: "columns list \<Rightarrow> stmt list \<Rightarrow> bool" where
  "plan_ok G [] = True"
| "plan_ok G (s # ss) = (stmt_ok s \<and> list_all (covers G) (needs s) \<and> plan_ok (gives s @ G) ss)"

definition all_gives :: "stmt list \<Rightarrow> columns list" where
  "all_gives ss = concat (map gives ss)"

fun schedule_ok :: "columns list \<Rightarrow> (nat \<times> string \<times> stmt list) list \<Rightarrow> bool" where
  "schedule_ok G [] = True"
| "schedule_ok G ((v, n, ss) # ms) = (plan_ok G ss \<and> schedule_ok (all_gives ss @ G) ms)"

lemma covers_has_cols: "covers G p \<Longrightarrow> holds G db \<Longrightarrow> has_cols (fst p) (snd p) db"
  by (fastforce simp: covers_def holds_def has_cols_def)

lemma exec_all_runs:
  assumes "plan_ok G ss" "holds G db" "known_shapes db"
  shows "\<exists>db'. exec_all ss db = Inr db' \<and> keeps db db' \<and> holds (all_gives ss) db'"
  using assms
proof (induction ss arbitrary: G db)
  case Nil
  then show ?case using keeps_refl by (simp add: all_gives_def)
next
  case (Cons s ss)
  have "has_cols t cs db" if "(t, cs) \<in> set (needs s)" for t cs
    using Cons.prems that covers_has_cols [of G "(t, cs)" db] by (auto simp: list_all_iff)
  then obtain d1 where d1: "exec s db = Inr d1" "keeps db d1" "holds (gives s) d1"
    using exec_runs Cons.prems by (metis plan_ok.simps(2))
  have "plan_ok (gives s @ G) ss" "holds (gives s @ G) d1" "known_shapes d1"
    using Cons.prems d1 holds_keeps by (simp_all add: keeps_def)
  from Cons.IH [OF this] obtain d2 where d2: "exec_all ss d1 = Inr d2" "keeps d1 d2" "holds (all_gives ss) d2" by blast
  have "holds (gives s) d2" using d1(3) d2(2) holds_keeps by blast
  then show ?case using d1 d2 keeps_trans by (auto simp: all_gives_def)
qed

lemma schedule_plan: "schedule_ok [] migrations"
  by code_simp

definition version_list :: "nat list" where
  "version_list = map fst migrations"

text \<open>The tables as the versions recorded do not matter.\<close>

definition same_tables :: "sqlite \<Rightarrow> sqlite \<Rightarrow> bool" where
  "same_tables a b \<longleftrightarrow> sq_tables a = sq_tables b"

lemma same_tables_facts:
  "same_tables a b \<Longrightarrow> has_cols t cs a = has_cols t cs b" "same_tables a b \<Longrightarrow> holds G a = holds G b"
  "same_tables a b \<Longrightarrow> known_shapes a = known_shapes b" "same_tables a b \<Longrightarrow> rows_kept a c = rows_kept b c"
  "same_tables a b \<Longrightarrow> rows_kept c a = rows_kept c b"
  by (simp_all add: same_tables_def has_cols_def has_table_def table_info_def holds_def known_shapes_def rows_kept_def)

lemma record_version_same [simp]: "same_tables (record_version v n now db) db"
  by (simp add: same_tables_def record_version_def)

lemma version_rows_record [simp]: "version_rows (record_version v n now db) = version_rows db @ [(v, n, iso now)]"
  by (simp add: version_rows_def record_version_def)

text \<open>The database after the versions of \<open>ms\<close> outside \<open>A\<close> have run.\<close>

definition upgraded :: "nat \<Rightarrow> nat set \<Rightarrow> (nat \<times> string \<times> stmt list) list \<Rightarrow> sqlite \<Rightarrow> sqlite \<Rightarrow> bool" where
  "upgraded now A ms db db' \<longleftrightarrow> rows_kept db db' \<and> (\<forall>H. holds H db \<longrightarrow> holds H db') \<and>
     (\<forall>(v, n, ss) \<in> set ms. holds (all_gives ss) db') \<and>
     version_rows db' = version_rows db @ map (\<lambda>(v, n, ss). (v, n, iso now)) (filter (\<lambda>(v, _). v \<notin> A) ms)"

definition shapes_of :: "nat set \<Rightarrow> (nat \<times> string \<times> stmt list) list \<Rightarrow> sqlite \<Rightarrow> bool" where
  "shapes_of A ms db \<longleftrightarrow> (\<forall>(v, n, ss) \<in> set ms. v \<in> A \<longrightarrow> holds (all_gives ss) db)"

lemma shapes_of_Cons: "shapes_of A ((v, n, ss) # ms) db \<longleftrightarrow> (v \<in> A \<longrightarrow> holds (all_gives ss) db) \<and> shapes_of A ms db"
  by (simp add: shapes_of_def)

lemma shapes_of_mono: "shapes_of A ms db \<Longrightarrow> (\<And>H. holds H db \<Longrightarrow> holds H db') \<Longrightarrow> shapes_of A ms db'"
  by (fastforce simp: shapes_of_def)

lemma upgraded_skip: "v \<in> A \<Longrightarrow> holds (all_gives ss) db \<Longrightarrow> upgraded now A ms db db' \<Longrightarrow> upgraded now A ((v, n, ss) # ms) db db'"
  by (simp add: upgraded_def)

lemma upgraded_step:
  assumes "v \<notin> A" "keeps db d1" "holds (all_gives ss) d1" "upgraded now A ms (record_version v n now d1) d2"
  shows "upgraded now A ((v, n, ss) # ms) db d2"
proof -
  note same = same_tables_facts [OF record_version_same [of v n now d1]]
  have "rows_kept db d1" "version_rows d1 = version_rows db" using assms(2) by (simp_all add: keeps_def version_rows_def)
  moreover have "rows_kept d1 d2" using assms(4) by (simp add: upgraded_def same)
  ultimately show ?thesis
    using assms holds_keeps [OF _ assms(2)] rows_kept_trans by (simp add: upgraded_def same)
qed

lemma apply_pending_runs:
  assumes "schedule_ok G ms" "holds G db" "known_shapes db" "shapes_of A ms db"
  shows "\<exists>db'. apply_pending now (filter (\<lambda>(v, _). v \<notin> A) ms) db = Inr db' \<and> upgraded now A ms db db'"
  using assms
proof (induction ms arbitrary: G db)
  case Nil
  then show ?case by (simp add: upgraded_def rows_kept_refl)
next
  case (Cons m ms)
  obtain v n ss where m: "m = (v, n, ss)" by (cases m)
  have plan: "plan_ok G ss" and rest: "schedule_ok (all_gives ss @ G) ms" using Cons.prems(1) m by auto
  have tail: "shapes_of A ms db" and head: "v \<in> A \<Longrightarrow> holds (all_gives ss) db"
    using Cons.prems(4) by (simp_all add: m shapes_of_Cons)
  show ?case
  proof (cases "v \<in> A")
    case True
    then have "holds (all_gives ss @ G) db" using head Cons.prems(2) by simp
    from Cons.IH [OF rest this Cons.prems(3) tail] show ?thesis
      using True m upgraded_skip [OF True head [OF True]] by (auto simp del: holds_append)
  next
    case False
    obtain d1 where d1: "exec_all ss db = Inr d1" "keeps db d1" "holds (all_gives ss) d1"
      using exec_all_runs plan Cons.prems(2,3) by blast
    let ?d = "record_version v n now d1"
    note same = same_tables_facts [OF record_version_same [of v n now d1]]
    have K: "known_shapes ?d" using d1(2) by (simp add: keeps_def same)
    have G: "holds (all_gives ss @ G) ?d" using d1 Cons.prems(2) holds_keeps by (simp add: same)
    have A: "shapes_of A ms ?d" using shapes_of_mono [OF tail] d1(2) holds_keeps same(2) by blast
    from Cons.IH [OF rest G K A] obtain d2
      where d2: "apply_pending now (filter (\<lambda>(v, _). v \<notin> A) ms) ?d = Inr d2" "upgraded now A ms ?d d2" by blast
    have "upgraded now A (m # ms) db d2" unfolding m by (rule upgraded_step [OF False d1(2,3) d2(2)])
    then show ?thesis using False m d1(1) d2(1) by simp
  qed
qed

lemma fst_filter: "map fst (filter (\<lambda>(v, _). P v) ms) = filter P (map fst ms)"
  by (induction ms) auto

lemma fst_map_rows: "map fst (map (\<lambda>(v, n, ss). (v, n, t)) (filter (\<lambda>(v, _). P v) ms)) = filter P (map fst ms)"
  by (induction ms) auto

lemma migration_versions: "map fst migrations = [1..<11]"
  by code_simp

text \<open>The versions a run counts as applied: the recorded ones, or those the shape of the database shows.\<close>

definition counted :: "sqlite \<Rightarrow> nat list" where
  "counted db = snd (baseline_pre_existing_db 0 (ensure_schema_version_table db))"

definition pending :: "sqlite \<Rightarrow> nat list" where
  "pending db = filter (\<lambda>v. v \<notin> set (counted db)) (map fst migrations)"

lemma fold_record:
  "same_tables (fold (\<lambda>(v, n, _) d. record_version v n now d) ms db) db \<and>
   version_rows (fold (\<lambda>(v, n, _) d. record_version v n now d) ms db) = version_rows db @ map (\<lambda>(v, n, _). (v, n, iso now)) ms"
proof (induction ms arbitrary: db)
  case Nil
  then show ?case by (simp add: same_tables_def)
next
  case (Cons m ms)
  obtain v n x where "m = (v, n, x)" by (cases m)
  then show ?case using Cons [of "record_version v n now db"] record_version_same [of v n now db] by (simp add: same_tables_def)
qed

lemma ensure_facts [simp]: "version_rows (ensure_schema_version_table db) = version_rows db"
  "same_tables (ensure_schema_version_table db) db" "applied_versions (ensure_schema_version_table db) = applied_versions db"
  by (simp_all add: version_rows_def ensure_schema_version_table_def same_tables_def applied_versions_def)

lemma same_looks_applied: "same_tables a b \<Longrightarrow> looks_applied a v = looks_applied b v"
  by (simp only: same_tables_def looks_applied_def has_table_def table_info_def)

lemma baseline_facts:
  obtains d where "baseline_pre_existing_db now (ensure_schema_version_table db) = (d, counted db)" "same_tables d db"
    "map fst (version_rows d) = counted db"
proof -
  let ?e = "ensure_schema_version_table db"
  let ?d = "fst (baseline_pre_existing_db now ?e)"
  have "snd (baseline_pre_existing_db now ?e) = counted db" by (simp add: counted_def baseline_pre_existing_db_def Let_def)
  then have "baseline_pre_existing_db now ?e = (?d, counted db)" by (metis prod.collapse)
  moreover have "same_tables ?d db \<and> map fst (version_rows ?d) = counted db"
  proof (cases "applied_versions db = []")
    case True
    then have "version_rows db = []" by (simp add: applied_versions_def)
    then show ?thesis
      using True fold_record [of now "filter (\<lambda>(v, _). looks_applied ?e v) migrations" ?e] ensure_facts(2) [of db]
      by (simp add: baseline_pre_existing_db_def counted_def Let_def same_tables_def comp_def case_prod_beta)
  next
    case False
    then show ?thesis by (simp add: baseline_pre_existing_db_def counted_def applied_versions_def)
  qed
  ultimately show thesis using that by blast
qed

text \<open>The schema that the migrations lead to.\<close>

definition final_schema :: "columns list" where
  "final_schema =
     [(''api_keys'', [''id'', ''key_id'', ''key_hash'', ''prefix'', ''status'', ''created_at'', ''last_used_at'', ''hash_variant'']),
      (''usage_events'', [''id'', ''request_id'', ''timestamp'', ''endpoint'', ''method'', ''status_code'', ''api_key_id'',
        ''subject'', ''latency_ms'', ''error_code'']),
      (''ui_sessions'', [''token'', ''key_id'', ''created_at'', ''expires_at'', ''last_activity_at'']),
      (''setup_drafts'', [''key_id'', ''payload'', ''step'', ''updated_at'']),
      (''setup_otps'', [''token_hash'', ''key_id'', ''created_at'', ''expires_at'', ''consumed_at'']),
      (''import_sources'', [''id'', ''label'', ''kind'', ''url'', ''metadata_prefix'', ''set_spec'', ''schema_profile'',
        ''created_at'', ''last_run_at'', ''schedule'', ''next_run_at'']),
      (''import_runs'', [''id'', ''source_id'', ''started_at'', ''ended_at'', ''status'', ''records_ingested'',
        ''records_failed'', ''error_message''])]"

lemma plan_covers_schema: "list_all (covers (all_gives all_stmts)) final_schema"
  by code_simp

lemma final_schema_holds:
  assumes "\<forall>(v, n, ss) \<in> set migrations. holds (all_gives ss) db"
  shows "\<forall>(t, cs) \<in> set final_schema. has_cols t cs db"
proof -
  have "holds (all_gives (concat (map (\<lambda>(v, n, ss). ss) ms))) db"
    if "\<forall>(v, n, ss) \<in> set ms. holds (all_gives ss) db" for ms
    using that by (induction ms) (auto simp: all_gives_def)
  then have "holds (all_gives all_stmts) db" unfolding all_stmts_def using assms by blast
  then show ?thesis using plan_covers_schema covers_has_cols by (fastforce simp: list_all_iff)
qed

lemma settled_is_noop:
  assumes "sq_versions db = Some (version_rows db)" "set [1..<11] \<subseteq> set (applied_versions db)"
  shows "migrate now db = Inr (db, [])"
proof -
  have "ensure_schema_version_table db = db" using assms(1) by (simp add: ensure_schema_version_table_def)
  moreover have "applied_versions db \<noteq> []" using assms(2) by auto
  moreover have "v \<in> set (applied_versions db)" if "(v, x) \<in> set migrations" for v x
  proof -
    have "v \<in> set (map fst migrations)" using that by force
    then show ?thesis using assms(2) unfolding migration_versions by blast
  qed
  then have "filter (\<lambda>(v, _). v \<notin> set (applied_versions db)) migrations = []" by (auto simp: filter_empty_conv)
  ultimately show ?thesis by (simp add: migrate_def baseline_pre_existing_db_def map_r_def)
qed


text \<open>A database of the first release: no \<open>schema_version\<close>, sessions without an expiry.\<close>

definition first_release :: sqlite where
  "first_release =
     \<lparr>sq_tables =
        [(''api_keys'', \<lparr>tb_cols = [''id'', ''key_id'', ''key_hash'', ''prefix'', ''status'', ''created_at'', ''last_used_at''],
           tb_rows = [[(''id'', Some ''1''), (''key_id'', Some ''admin''), (''status'', Some ''active'')]]\<rparr>),
         (''usage_events'', \<lparr>tb_cols = [''id'', ''request_id'', ''timestamp'', ''endpoint'', ''method'', ''status_code'',
           ''api_key_id'', ''subject'', ''latency_ms'', ''error_code''], tb_rows = []\<rparr>),
         (''ui_sessions'', \<lparr>tb_cols = [''token'', ''key_id'', ''created_at''],
           tb_rows = [[(''token'', Some ''raw'')]]\<rparr>),
         (''quota_counters'', \<lparr>tb_cols = [''n''], tb_rows = []\<rparr>)],
      sq_indexes = [], sq_versions = None\<rparr>"

lemma counted_eq:
  "counted db = (if applied_versions db \<noteq> [] then applied_versions db else filter (looks_applied db) [1..<11])"
proof -
  have "looks_applied (ensure_schema_version_table db) = looks_applied db"
    using same_looks_applied [OF ensure_facts(2)] by blast
  then show ?thesis
    using fst_filter [of "looks_applied db" migrations]
    by (simp add: counted_def baseline_pre_existing_db_def migration_versions del: upt_Suc)
qed

lemma first_release_counted: "counted first_release = [1]"
proof -
  have "applied_versions first_release = [] \<and> filter (looks_applied first_release) [1..<11] = [1]" by code_simp
  then show ?thesis by (simp add: counted_eq del: upt_Suc)
qed

lemma first_release_pending: "pending first_release = [2, 3, 4, 5, 6, 7, 8, 9, 10]"
  unfolding pending_def first_release_counted migration_versions by code_simp

lemma created_eq:
  "created =
     [(''api_keys'', [''id'', ''key_id'', ''key_hash'', ''prefix'', ''status'', ''created_at'', ''last_used_at'']),
      (''usage_events'', [''id'', ''request_id'', ''timestamp'', ''endpoint'', ''method'', ''status_code'', ''api_key_id'',
        ''subject'', ''latency_ms'', ''error_code'']),
      (''ui_sessions'', [''token'', ''key_id'', ''created_at'']),
      (''setup_drafts'', [''key_id'', ''payload'', ''step'', ''updated_at'']),
      (''setup_otps'', [''token_hash'', ''key_id'', ''created_at'', ''expires_at'', ''consumed_at'']),
      (''import_sources'', [''id'', ''label'', ''kind'', ''url'', ''metadata_prefix'', ''set_spec'', ''schema_profile'',
        ''created_at'', ''last_run_at'']),
      (''import_runs'', [''id'', ''source_id'', ''started_at'', ''ended_at'', ''status'', ''records_ingested'',
        ''records_failed'', ''error_message''])]"
  by code_simp

lemma baseline_gives:
  "all_gives m001_baseline =
     [(''api_keys'', [''id'', ''key_id'', ''key_hash'', ''prefix'', ''status'', ''created_at'', ''last_used_at'']),
      (''usage_events'', [''id'', ''request_id'', ''timestamp'', ''endpoint'', ''method'', ''status_code'', ''api_key_id'',
        ''subject'', ''latency_ms'', ''error_code'']),
      (''ui_sessions'', [''token'', ''key_id'', ''created_at''])]"
  by code_simp

lemma first_release_shapes: "known_shapes first_release"
  unfolding known_shapes_def created_eq by code_simp

lemma first_release_holds: "shapes_of (set (counted first_release)) migrations first_release"
proof -
  have "holds (all_gives m001_baseline) first_release" unfolding baseline_gives by code_simp
  then show ?thesis by (simp add: shapes_of_def migrations_def first_release_counted)
qed


text \<open>The baseline takes \<open>api_keys\<close> alone for the whole of version 1: on a database that lacks \<open>ui_sessions\<close>, version 2
  alters a table that version 1 was not run to create, and the upgrade stops.\<close>

lemma keys_only_upgrade_fails:
  assumes "applied_versions db = []" "has_table ''api_keys'' db" "\<not> has_table ''ui_sessions'' db"
  shows "migrate now db = Inl (no_such_table ''ui_sessions'')"
proof -
  obtain d where d: "baseline_pre_existing_db now (ensure_schema_version_table db) = (d, counted db)" "same_tables d db"
    by (rule baseline_facts)
  have c: "counted db = filter (looks_applied db) [1..<11]" using assms(1) by (simp add: counted_eq del: upt_Suc)
  have "looks_applied db 1" "\<not> looks_applied db 2"
    using assms(2,3) by (simp_all add: looks_applied_def table_info_def has_table_def split: option.splits)
  then have "1 \<in> set (counted db)" "2 \<notin> set (counted db)" unfolding c by simp_all
  then have p: "filter (\<lambda>(v, _). v \<notin> set (counted db)) migrations =
      (2, ''ui_sessions_expires_at'', m002_ui_sessions_expires_at) # filter (\<lambda>(v, _). v \<notin> set (counted db)) (drop 2 migrations)"
    by (simp add: migrations_def)
  have "dict_get (sq_tables d) ''ui_sessions'' = None" using assms(3) d(2) by (simp add: has_table_def same_tables_def)
  then have "exec_all m002_ui_sessions_expires_at d = Inl (no_such_table ''ui_sessions'')"
    by (simp add: m002_ui_sessions_expires_at_def table_info_def on_table_def bind_r_def)
  then show ?thesis using d(1) p by (simp add: migrate_def map_r_def bind_r_def)
qed

end
