(* ===== verification/Config_Codec.thy ===== *)
theory Config_Codec
  imports Config_Models
begin

text \<open>
  The two directions of \<^verbatim>\<open>app/config/models.py\<close>: \<open>model_dump\<close>, and \<open>model_validate\<close> on a tree of untyped values,
  class by class: unknown keys are refused, a missing key takes its default, every value goes
  through the decoder of its declared type, and the model validators come last. What Pydantic accepts
  as an int, a bool, a string or a float is an argument (\<open>leaves\<close>), as is the text form of a float. Where
  Pydantic reports a list of errors, the model reports the first.
\<close>

section \<open>Decoders\<close>

record leaves =
  lf_int :: "json \<Rightarrow> string + int"
  lf_bool :: "json \<Rightarrow> string + bool"
  lf_str :: "json \<Rightarrow> string + string"
  lf_real :: "json \<Rightarrow> string + rat"
  lf_real_dump :: "rat \<Rightarrow> json"

text \<open>A value of the declared type is accepted as it is.\<close>

definition leaves_lawful :: "leaves \<Rightarrow> bool" where
  "leaves_lawful L \<longleftrightarrow> (\<forall>n. lf_int L (JInt n) = Inr n) \<and> (\<forall>b. lf_bool L (JBool b) = Inr b) \<and>
     (\<forall>s. lf_str L (JStr s) = Inr s) \<and> (\<forall>q. lf_real L (lf_real_dump L q) = Inr q)"

definition strict_dict :: "string list \<Rightarrow> json \<Rightarrow> string + (string \<times> json) list" where
  "strict_dict names v =
     (case v of
        JDict d \<Rightarrow> (if set (dict_keys d) \<subseteq> set names then Inr d else Inl ''Extra inputs are not permitted'')
      | _ \<Rightarrow> Inl ''Input should be a valid dictionary'')"

definition read_key :: "(string \<times> json) list \<Rightarrow> string \<Rightarrow> (json \<Rightarrow> string + 'a) \<Rightarrow> 'a \<Rightarrow> string + 'a" where
  "read_key d k decode dflt = (case dict_get d k of None \<Rightarrow> Inr dflt | Some v \<Rightarrow> decode v)"

definition optional :: "(json \<Rightarrow> string + 'a) \<Rightarrow> json \<Rightarrow> string + 'a option" where
  "optional decode v = (if v = JNull then Inr None else map_r Some (decode v))"

definition list_of :: "(json \<Rightarrow> string + 'a) \<Rightarrow> json \<Rightarrow> string + 'a list" where
  "list_of decode v = (case v of JList xs \<Rightarrow> traverse_r decode xs | _ \<Rightarrow> Inl ''Input should be a valid list'')"

definition dict_values_of :: "(json \<Rightarrow> string + 'a) \<Rightarrow> json \<Rightarrow> string + (string \<times> 'a) list" where
  "dict_values_of decode v =
     (case v of
        JDict d \<Rightarrow> traverse_r (\<lambda>(k, x). map_r (Pair k) (decode x)) d
      | _ \<Rightarrow> Inl ''Input should be a valid dictionary'')"

definition literal :: "('a \<Rightarrow> string) \<Rightarrow> 'a list \<Rightarrow> json \<Rightarrow> string + 'a" where
  "literal name xs v =
     (case (case v of JStr s \<Rightarrow> find (\<lambda>x. name x = s) xs | _ \<Rightarrow> None) of
        Some x \<Rightarrow> Inr x
      | None \<Rightarrow> Inl (''Input should be one of '' @ repr_strs (map name xs)))"

section \<open>Names of the enumerations\<close>

fun cors_mode_str :: "cors_mode \<Rightarrow> string" where
  "cors_mode_str CorsOff = ''off''"
| "cors_mode_str CorsAllowlist = ''allowlist''"
| "cors_mode_str CorsWideOpen = ''wide_open''"

fun same_site_str :: "same_site \<Rightarrow> string" where
  "same_site_str SSStrict = ''strict''"
| "same_site_str SSLax = ''lax''"
| "same_site_str SSNone = ''none''"

fun backend_type_str :: "backend_type \<Rightarrow> string" where
  "backend_type_str BtElasticsearch = ''elasticsearch''"
| "backend_type_str BtOpensearch = ''opensearch''"

fun schema_profile_str :: "schema_profile \<Rightarrow> string" where
  "schema_profile_str ProfLibrary = ''library''"
| "schema_profile_str ProfMuseum = ''museum''"
| "schema_profile_str ProfArchive = ''archive''"
| "schema_profile_str ProfCustom = ''custom''"

definition backend_auth_modes :: "backend_auth_mode list" where
  "backend_auth_modes = [BamNone, BamBasic, BamBearer, BamApiKey]"

definition public_modes :: "public_auth_mode list" where
  "public_modes = [AnonymousAllowed, ApiKeyOptional, ApiKeyRequired]"

definition same_sites :: "same_site list" where
  "same_sites = [SSStrict, SSLax, SSNone]"

definition cors_modes :: "cors_mode list" where
  "cors_modes = [CorsOff, CorsAllowlist, CorsWideOpen]"

definition mapping_modes :: "mapping_mode list" where
  "mapping_modes = [MDirect, MConstant, MSplitList, MFirstNonEmpty, MTemplate, MNestedObject, MDateParser, MBooleanCast,
     MUrlPassthrough]"

definition criticalities :: "criticality list" where
  "criticalities = [CritRequired, CritRecommended, CritOptional]"

definition backend_types :: "backend_type list" where
  "backend_types = [BtElasticsearch, BtOpensearch]"

definition schema_profiles :: "schema_profile list" where
  "schema_profiles = [ProfLibrary, ProfMuseum, ProfArchive, ProfCustom]"

definition default_proxy_config :: proxy_config where
  "default_proxy_config = \<lparr>px_trusted_proxies = [], px_allowed_hosts = []\<rparr>"

section \<open>Classes\<close>

definition dump_security_profile :: "security_profile \<Rightarrow> json" where
  "dump_security_profile r = JDict
     [(''allow_empty_query'', JBool (sp_allow_empty_query r)),
      (''page_size_default'', JInt (sp_page_size_default r)),
      (''page_size_max'', JInt (sp_page_size_max r)),
      (''max_facets'', JInt (sp_max_facets r)),
      (''max_buckets_per_facet'', JInt (sp_max_buckets_per_facet r)),
      (''allow_raw_fields'', JBool (sp_allow_raw_fields r)),
      (''allow_debug_translation'', JBool (sp_allow_debug_translation r)),
      (''max_depth'', JInt (sp_max_depth r))]"

definition load_security_profile :: "leaves \<Rightarrow> json \<Rightarrow> string + security_profile" where
  "load_security_profile L v =
     bind_r (strict_dict [''allow_empty_query'', ''page_size_default'', ''page_size_max'', ''max_facets'', ''max_buckets_per_facet'', ''allow_raw_fields'', ''allow_debug_translation'', ''max_depth''] v) (\<lambda>d.
     bind_r (read_key d ''allow_empty_query'' (lf_bool L) (sp_allow_empty_query default_security_profile)) (\<lambda>allow_empty_query.
     bind_r (read_key d ''page_size_default'' (lf_int L) (sp_page_size_default default_security_profile)) (\<lambda>page_size_default.
     bind_r (read_key d ''page_size_max'' (lf_int L) (sp_page_size_max default_security_profile)) (\<lambda>page_size_max.
     bind_r (read_key d ''max_facets'' (lf_int L) (sp_max_facets default_security_profile)) (\<lambda>max_facets.
     bind_r (read_key d ''max_buckets_per_facet'' (lf_int L) (sp_max_buckets_per_facet default_security_profile)) (\<lambda>max_buckets_per_facet.
     bind_r (read_key d ''allow_raw_fields'' (lf_bool L) (sp_allow_raw_fields default_security_profile)) (\<lambda>allow_raw_fields.
     bind_r (read_key d ''allow_debug_translation'' (lf_bool L) (sp_allow_debug_translation default_security_profile)) (\<lambda>allow_debug_translation.
     bind_r (read_key d ''max_depth'' (lf_int L) (sp_max_depth default_security_profile)) (\<lambda>max_depth.
     Inr \<lparr>sp_allow_empty_query = allow_empty_query, sp_page_size_default = page_size_default, sp_page_size_max = page_size_max, sp_max_facets = max_facets, sp_max_buckets_per_facet = max_buckets_per_facet, sp_allow_raw_fields = allow_raw_fields, sp_allow_debug_translation = allow_debug_translation, sp_max_depth = max_depth\<rparr>)))))))))"

definition dump_backend_auth :: "backend_auth_config \<Rightarrow> json" where
  "dump_backend_auth r = JDict
     [(''mode'', JStr (auth_mode_str (ba_mode r))),
      (''username'', jopt JStr (ba_username r)),
      (''password'', jopt JStr (ba_password r)),
      (''token'', jopt JStr (ba_token r)),
      (''password_env'', jopt JStr (ba_password_env r)),
      (''token_env'', jopt JStr (ba_token_env r))]"

definition load_backend_auth :: "leaves \<Rightarrow> json \<Rightarrow> string + backend_auth_config" where
  "load_backend_auth L v =
     bind_r (strict_dict [''mode'', ''username'', ''password'', ''token'', ''password_env'', ''token_env''] v) (\<lambda>d.
     bind_r (read_key d ''mode'' (literal auth_mode_str backend_auth_modes) (ba_mode default_backend_auth)) (\<lambda>mode.
     bind_r (read_key d ''username'' (optional (lf_str L)) (ba_username default_backend_auth)) (\<lambda>username.
     bind_r (read_key d ''password'' (optional (lf_str L)) (ba_password default_backend_auth)) (\<lambda>password.
     bind_r (read_key d ''token'' (optional (lf_str L)) (ba_token default_backend_auth)) (\<lambda>token.
     bind_r (read_key d ''password_env'' (optional (lf_str L)) (ba_password_env default_backend_auth)) (\<lambda>password_env.
     bind_r (read_key d ''token_env'' (optional (lf_str L)) (ba_token_env default_backend_auth)) (\<lambda>token_env.
     validate_backend_auth \<lparr>ba_mode = mode, ba_username = username, ba_password = password, ba_token = token, ba_password_env = password_env, ba_token_env = token_env\<rparr>)))))))"

definition dump_cache :: "cache_config \<Rightarrow> json" where
  "dump_cache r = JDict
     [(''public_max_age_seconds'', JInt (cc_public_max_age_seconds r)),
      (''enabled'', JBool (cc_enabled r))]"

definition load_cache :: "leaves \<Rightarrow> json \<Rightarrow> string + cache_config" where
  "load_cache L v =
     bind_r (strict_dict [''public_max_age_seconds'', ''enabled''] v) (\<lambda>d.
     bind_r (read_key d ''public_max_age_seconds'' (lf_int L) (cc_public_max_age_seconds default_cache_config)) (\<lambda>public_max_age_seconds.
     bind_r (read_key d ''enabled'' (lf_bool L) (cc_enabled default_cache_config)) (\<lambda>enabled.
     Inr \<lparr>cc_public_max_age_seconds = public_max_age_seconds, cc_enabled = enabled\<rparr>)))"

definition dump_rate_limit :: "rate_limit_config \<Rightarrow> json" where
  "dump_rate_limit r = JDict
     [(''public_max_requests'', JInt (rl_public_max_requests r)),
      (''public_window_seconds'', JInt (rl_public_window_seconds r)),
      (''admin_login_max_requests'', JInt (rl_admin_login_max_requests r)),
      (''admin_login_window_seconds'', JInt (rl_admin_login_window_seconds r))]"

definition load_rate_limit :: "leaves \<Rightarrow> json \<Rightarrow> string + rate_limit_config" where
  "load_rate_limit L v =
     bind_r (strict_dict [''public_max_requests'', ''public_window_seconds'', ''admin_login_max_requests'', ''admin_login_window_seconds''] v) (\<lambda>d.
     bind_r (read_key d ''public_max_requests'' (lf_int L) (rl_public_max_requests default_rate_limit_config)) (\<lambda>public_max_requests.
     bind_r (read_key d ''public_window_seconds'' (lf_int L) (rl_public_window_seconds default_rate_limit_config)) (\<lambda>public_window_seconds.
     bind_r (read_key d ''admin_login_max_requests'' (lf_int L) (rl_admin_login_max_requests default_rate_limit_config)) (\<lambda>admin_login_max_requests.
     bind_r (read_key d ''admin_login_window_seconds'' (lf_int L) (rl_admin_login_window_seconds default_rate_limit_config)) (\<lambda>admin_login_window_seconds.
     Inr \<lparr>rl_public_max_requests = public_max_requests, rl_public_window_seconds = public_window_seconds, rl_admin_login_max_requests = admin_login_max_requests, rl_admin_login_window_seconds = admin_login_window_seconds\<rparr>)))))"

definition dump_auth :: "auth_config \<Rightarrow> json" where
  "dump_auth r = JDict
     [(''public_mode'', JStr (public_mode_str (au_public_mode r))),
      (''bootstrap_admin_key'', JStr (au_bootstrap_admin_key r)),
      (''admin_cookie_secure'', JBool (au_admin_cookie_secure r)),
      (''admin_cookie_samesite'', JStr (same_site_str (au_admin_cookie_samesite r))),
      (''admin_session_ttl_hours'', JInt (au_admin_session_ttl_hours r)),
      (''admin_session_idle_timeout_minutes'', JInt (au_admin_session_idle_timeout_minutes r)),
      (''public_401_lockout_threshold'', JInt (au_public_401_lockout_threshold r)),
      (''public_401_lockout_window_seconds'', JInt (au_public_401_lockout_window_seconds r))]"

definition load_auth :: "leaves \<Rightarrow> json \<Rightarrow> string + auth_config" where
  "load_auth L v =
     bind_r (strict_dict [''public_mode'', ''bootstrap_admin_key'', ''admin_cookie_secure'', ''admin_cookie_samesite'', ''admin_session_ttl_hours'', ''admin_session_idle_timeout_minutes'', ''public_401_lockout_threshold'', ''public_401_lockout_window_seconds''] v) (\<lambda>d.
     bind_r (read_key d ''public_mode'' (literal public_mode_str public_modes) (au_public_mode default_auth_config)) (\<lambda>public_mode.
     bind_r (read_key d ''bootstrap_admin_key'' (lf_str L) (au_bootstrap_admin_key default_auth_config)) (\<lambda>bootstrap_admin_key.
     bind_r (read_key d ''admin_cookie_secure'' (lf_bool L) (au_admin_cookie_secure default_auth_config)) (\<lambda>admin_cookie_secure.
     bind_r (read_key d ''admin_cookie_samesite'' (literal same_site_str same_sites) (au_admin_cookie_samesite default_auth_config)) (\<lambda>admin_cookie_samesite.
     bind_r (read_key d ''admin_session_ttl_hours'' (lf_int L) (au_admin_session_ttl_hours default_auth_config)) (\<lambda>admin_session_ttl_hours.
     bind_r (read_key d ''admin_session_idle_timeout_minutes'' (lf_int L) (au_admin_session_idle_timeout_minutes default_auth_config)) (\<lambda>admin_session_idle_timeout_minutes.
     bind_r (read_key d ''public_401_lockout_threshold'' (lf_int L) (au_public_401_lockout_threshold default_auth_config)) (\<lambda>public_401_lockout_threshold.
     bind_r (read_key d ''public_401_lockout_window_seconds'' (lf_int L) (au_public_401_lockout_window_seconds default_auth_config)) (\<lambda>public_401_lockout_window_seconds.
     Inr \<lparr>au_public_mode = public_mode, au_bootstrap_admin_key = bootstrap_admin_key, au_admin_cookie_secure = admin_cookie_secure, au_admin_cookie_samesite = admin_cookie_samesite, au_admin_session_ttl_hours = admin_session_ttl_hours, au_admin_session_idle_timeout_minutes = admin_session_idle_timeout_minutes, au_public_401_lockout_threshold = public_401_lockout_threshold, au_public_401_lockout_window_seconds = public_401_lockout_window_seconds\<rparr>)))))))))"

definition dump_proxy :: "proxy_config \<Rightarrow> json" where
  "dump_proxy r = JDict
     [(''trusted_proxies'', jstrs (px_trusted_proxies r)),
      (''allowed_hosts'', jstrs (px_allowed_hosts r))]"

definition load_proxy :: "leaves \<Rightarrow> json \<Rightarrow> string + proxy_config" where
  "load_proxy L v =
     bind_r (strict_dict [''trusted_proxies'', ''allowed_hosts''] v) (\<lambda>d.
     bind_r (read_key d ''trusted_proxies'' (list_of (lf_str L)) (px_trusted_proxies default_proxy_config)) (\<lambda>trusted_proxies.
     bind_r (read_key d ''allowed_hosts'' (list_of (lf_str L)) (px_allowed_hosts default_proxy_config)) (\<lambda>allowed_hosts.
     Inr \<lparr>px_trusted_proxies = trusted_proxies, px_allowed_hosts = allowed_hosts\<rparr>)))"

definition dump_cors :: "cors_config \<Rightarrow> json" where
  "dump_cors r = JDict
     [(''mode'', JStr (cors_mode_str (co_mode r))),
      (''allow_origins'', jstrs (co_allow_origins r)),
      (''allow_methods'', jstrs (co_allow_methods r)),
      (''allow_headers'', jstrs (co_allow_headers r))]"

definition load_cors :: "leaves \<Rightarrow> json \<Rightarrow> string + cors_config" where
  "load_cors L v =
     bind_r (strict_dict [''mode'', ''allow_origins'', ''allow_methods'', ''allow_headers''] v) (\<lambda>d.
     bind_r (read_key d ''mode'' (literal cors_mode_str cors_modes) (co_mode default_cors_config)) (\<lambda>mode.
     bind_r (read_key d ''allow_origins'' (list_of (lf_str L)) (co_allow_origins default_cors_config)) (\<lambda>allow_origins.
     bind_r (read_key d ''allow_methods'' (list_of (lf_str L)) (co_allow_methods default_cors_config)) (\<lambda>allow_methods.
     bind_r (read_key d ''allow_headers'' (list_of (lf_str L)) (co_allow_headers default_cors_config)) (\<lambda>allow_headers.
     Inr \<lparr>co_mode = mode, co_allow_origins = allow_origins, co_allow_methods = allow_methods, co_allow_headers = allow_headers\<rparr>)))))"

definition dump_storage :: "storage_config \<Rightarrow> json" where
  "dump_storage r = JDict
     [(''sqlite_path'', JStr (st_sqlite_path r)),
      (''usage_events_retention_days'', JInt (st_usage_events_retention_days r)),
      (''purge_interval_seconds'', JInt (st_purge_interval_seconds r))]"

definition load_storage :: "leaves \<Rightarrow> json \<Rightarrow> string + storage_config" where
  "load_storage L v =
     bind_r (strict_dict [''sqlite_path'', ''usage_events_retention_days'', ''purge_interval_seconds''] v) (\<lambda>d.
     bind_r (read_key d ''sqlite_path'' (lf_str L) (st_sqlite_path default_storage_config)) (\<lambda>sqlite_path.
     bind_r (read_key d ''usage_events_retention_days'' (lf_int L) (st_usage_events_retention_days default_storage_config)) (\<lambda>usage_events_retention_days.
     bind_r (read_key d ''purge_interval_seconds'' (lf_int L) (st_purge_interval_seconds default_storage_config)) (\<lambda>purge_interval_seconds.
     Inr \<lparr>st_sqlite_path = sqlite_path, st_usage_events_retention_days = usage_events_retention_days, st_purge_interval_seconds = purge_interval_seconds\<rparr>))))"

definition dump_field_mapping :: "field_mapping \<Rightarrow> json" where
  "dump_field_mapping r = JDict
     [(''source'', jopt JStr (fm_source r)),
      (''mode'', JStr (mapping_mode_str (fm_mode r))),
      (''constant'', jopt JStr (fm_constant r)),
      (''sources'', jstrs (fm_sources r)),
      (''separator'', JStr (fm_separator r)),
      (''template'', jopt JStr (fm_template r)),
      (''allowed_fields'', jstrs (fm_allowed_fields r)),
      (''criticality'', JStr (criticality_str (fm_criticality r)))]"

definition load_field_mapping :: "leaves \<Rightarrow> json \<Rightarrow> string + field_mapping" where
  "load_field_mapping L v =
     bind_r (strict_dict [''source'', ''mode'', ''constant'', ''sources'', ''separator'', ''template'', ''allowed_fields'', ''criticality''] v) (\<lambda>d.
     bind_r (read_key d ''source'' (optional (lf_str L)) (fm_source default_field_mapping)) (\<lambda>source.
     bind_r (read_key d ''mode'' (literal mapping_mode_str mapping_modes) (fm_mode default_field_mapping)) (\<lambda>mode.
     bind_r (read_key d ''constant'' (optional (lf_str L)) (fm_constant default_field_mapping)) (\<lambda>constant.
     bind_r (read_key d ''sources'' (list_of (lf_str L)) (fm_sources default_field_mapping)) (\<lambda>sources.
     bind_r (read_key d ''separator'' (lf_str L) (fm_separator default_field_mapping)) (\<lambda>separator.
     bind_r (read_key d ''template'' (optional (lf_str L)) (fm_template default_field_mapping)) (\<lambda>template.
     bind_r (read_key d ''allowed_fields'' (list_of (lf_str L)) (fm_allowed_fields default_field_mapping)) (\<lambda>allowed_fields.
     bind_r (read_key d ''criticality'' (literal criticality_str criticalities) (fm_criticality default_field_mapping)) (\<lambda>criticality.
     Inr \<lparr>fm_source = source, fm_mode = mode, fm_constant = constant, fm_sources = sources, fm_separator = separator, fm_template = template, fm_allowed_fields = allowed_fields, fm_criticality = criticality\<rparr>)))))))))"

definition dump_backend :: "leaves \<Rightarrow> backend_config \<Rightarrow> json" where
  "dump_backend L r = JDict
     [(''type'', JStr (backend_type_str (be_type r))),
      (''url'', JStr (be_url r)),
      (''index'', JStr (be_index r)),
      (''timeout_seconds'', lf_real_dump L (be_timeout_seconds r)),
      (''max_retries'', JInt (be_max_retries r)),
      (''retry_backoff_seconds'', lf_real_dump L (be_retry_backoff_seconds r)),
      (''retry_backoff_cap_seconds'', lf_real_dump L (be_retry_backoff_cap_seconds r)),
      (''retry_deadline_seconds'', lf_real_dump L (be_retry_deadline_seconds r)),
      (''auth'', dump_backend_auth (be_auth r))]"

definition load_backend :: "leaves \<Rightarrow> json \<Rightarrow> string + backend_config" where
  "load_backend L v =
     bind_r (strict_dict [''type'', ''url'', ''index'', ''timeout_seconds'', ''max_retries'', ''retry_backoff_seconds'', ''retry_backoff_cap_seconds'', ''retry_deadline_seconds'', ''auth''] v) (\<lambda>d.
     bind_r (read_key d ''type'' (literal backend_type_str backend_types) (be_type default_backend_config)) (\<lambda>type.
     bind_r (read_key d ''url'' (lf_str L) (be_url default_backend_config)) (\<lambda>url.
     bind_r (read_key d ''index'' (lf_str L) (be_index default_backend_config)) (\<lambda>index.
     bind_r (read_key d ''timeout_seconds'' (lf_real L) (be_timeout_seconds default_backend_config)) (\<lambda>timeout_seconds.
     bind_r (read_key d ''max_retries'' (lf_int L) (be_max_retries default_backend_config)) (\<lambda>max_retries.
     bind_r (read_key d ''retry_backoff_seconds'' (lf_real L) (be_retry_backoff_seconds default_backend_config)) (\<lambda>retry_backoff_seconds.
     bind_r (read_key d ''retry_backoff_cap_seconds'' (lf_real L) (be_retry_backoff_cap_seconds default_backend_config)) (\<lambda>retry_backoff_cap_seconds.
     bind_r (read_key d ''retry_deadline_seconds'' (lf_real L) (be_retry_deadline_seconds default_backend_config)) (\<lambda>retry_deadline_seconds.
     bind_r (read_key d ''auth'' (load_backend_auth L) (be_auth default_backend_config)) (\<lambda>auth.
     Inr \<lparr>be_type = type, be_url = url, be_index = index, be_timeout_seconds = timeout_seconds, be_max_retries = max_retries, be_retry_backoff_seconds = retry_backoff_seconds, be_retry_backoff_cap_seconds = retry_backoff_cap_seconds, be_retry_deadline_seconds = retry_deadline_seconds, be_auth = auth\<rparr>))))))))))"

definition dump_app_config :: "leaves \<Rightarrow> app_config \<Rightarrow> json" where
  "dump_app_config L r = JDict
     [(''backend'', dump_backend L (ac_backend r)),
      (''storage'', dump_storage (ac_storage r)),
      (''schema_profile'', JStr (schema_profile_str (ac_schema_profile r))),
      (''default_language'', jopt JStr (ac_default_language r)),
      (''security_profile'', JStr (ac_security_profile r)),
      (''profiles'', JDict (map (\<lambda>(k, x). (k, dump_security_profile x)) (ac_profiles r))),
      (''auth'', dump_auth (ac_auth r)),
      (''proxy'', dump_proxy (ac_proxy r)),
      (''cors'', dump_cors (ac_cors r)),
      (''cache'', dump_cache (ac_cache r)),
      (''rate_limit'', dump_rate_limit (ac_rate_limit r)),
      (''allowed_sorts'', jstrs (ac_allowed_sorts r)),
      (''allowed_facets'', jstrs (ac_allowed_facets r)),
      (''allowed_include_fields'', jstrs (ac_allowed_include_fields r)),
      (''mapping'', JDict (map (\<lambda>(k, x). (k, dump_field_mapping x)) (ac_mapping r)))]"

definition load_app_config :: "leaves \<Rightarrow> json \<Rightarrow> string + app_config" where
  "load_app_config L v =
     bind_r (strict_dict [''backend'', ''storage'', ''schema_profile'', ''default_language'', ''security_profile'', ''profiles'', ''auth'', ''proxy'', ''cors'', ''cache'', ''rate_limit'', ''allowed_sorts'', ''allowed_facets'', ''allowed_include_fields'', ''mapping''] v) (\<lambda>d.
     bind_r (read_key d ''backend'' (load_backend L) (ac_backend default_app_config)) (\<lambda>backend.
     bind_r (read_key d ''storage'' (load_storage L) (ac_storage default_app_config)) (\<lambda>storage.
     bind_r (read_key d ''schema_profile'' (literal schema_profile_str schema_profiles) (ac_schema_profile default_app_config)) (\<lambda>schema_profile.
     bind_r (read_key d ''default_language'' (optional (literal (\<lambda>s. s) [''en'', ''fr''])) (ac_default_language default_app_config)) (\<lambda>default_language.
     bind_r (read_key d ''security_profile'' (lf_str L) (ac_security_profile default_app_config)) (\<lambda>security_profile.
     bind_r (read_key d ''profiles'' (dict_values_of (load_security_profile L)) (ac_profiles default_app_config)) (\<lambda>profiles.
     bind_r (read_key d ''auth'' (load_auth L) (ac_auth default_app_config)) (\<lambda>auth.
     bind_r (read_key d ''proxy'' (load_proxy L) (ac_proxy default_app_config)) (\<lambda>proxy.
     bind_r (read_key d ''cors'' (load_cors L) (ac_cors default_app_config)) (\<lambda>cors.
     bind_r (read_key d ''cache'' (load_cache L) (ac_cache default_app_config)) (\<lambda>cache.
     bind_r (read_key d ''rate_limit'' (load_rate_limit L) (ac_rate_limit default_app_config)) (\<lambda>rate_limit.
     bind_r (read_key d ''allowed_sorts'' (list_of (lf_str L)) (ac_allowed_sorts default_app_config)) (\<lambda>allowed_sorts.
     bind_r (read_key d ''allowed_facets'' (list_of (lf_str L)) (ac_allowed_facets default_app_config)) (\<lambda>allowed_facets.
     bind_r (read_key d ''allowed_include_fields'' (list_of (lf_str L)) (ac_allowed_include_fields default_app_config)) (\<lambda>allowed_include_fields.
     bind_r (read_key d ''mapping'' (dict_values_of (load_field_mapping L)) (ac_mapping default_app_config)) (\<lambda>mapping.
     validate_app_config \<lparr>ac_backend = backend, ac_storage = storage, ac_schema_profile = schema_profile, ac_default_language = default_language, ac_security_profile = security_profile, ac_profiles = profiles, ac_auth = auth, ac_proxy = proxy, ac_cors = cors, ac_cache = cache, ac_rate_limit = rate_limit, ac_allowed_sorts = allowed_sorts, ac_allowed_facets = allowed_facets, ac_allowed_include_fields = allowed_include_fields, ac_mapping = mapping\<rparr>))))))))))))))))"

section \<open>What was dumped loads\<close>

lemma literal_name: "x \<in> set xs \<Longrightarrow> distinct (map name xs) \<Longrightarrow> literal name xs (JStr (name x)) = Inr x"
proof -
  assume x: "x \<in> set xs" and d: "distinct (map name xs)"
  then have "find (\<lambda>y. name y = name x) xs = Some x"
    by (induction xs) (auto simp: rev_image_eqI)
  then show ?thesis by (simp add: literal_def)
qed

lemma literal_auth_mode [simp]: "literal auth_mode_str backend_auth_modes (JStr (auth_mode_str x)) = Inr x"
  by (rule literal_name) ((cases x; simp add: backend_auth_modes_def), simp add: backend_auth_modes_def)

lemma literal_public_mode [simp]: "literal public_mode_str public_modes (JStr (public_mode_str x)) = Inr x"
  by (rule literal_name) ((cases x; simp add: public_modes_def), simp add: public_modes_def)

lemma literal_same_site [simp]: "literal same_site_str same_sites (JStr (same_site_str x)) = Inr x"
  by (rule literal_name) ((cases x; simp add: same_sites_def), simp add: same_sites_def)

lemma literal_cors_mode [simp]: "literal cors_mode_str cors_modes (JStr (cors_mode_str x)) = Inr x"
  by (rule literal_name) ((cases x; simp add: cors_modes_def), simp add: cors_modes_def)

lemma literal_mapping_mode [simp]: "literal mapping_mode_str mapping_modes (JStr (mapping_mode_str x)) = Inr x"
  by (rule literal_name) ((cases x; simp add: mapping_modes_def), simp add: mapping_modes_def)

lemma literal_criticality [simp]: "literal criticality_str criticalities (JStr (criticality_str x)) = Inr x"
  by (rule literal_name) ((cases x; simp add: criticalities_def), simp add: criticalities_def)

lemma literal_backend_type [simp]: "literal backend_type_str backend_types (JStr (backend_type_str x)) = Inr x"
  by (rule literal_name) ((cases x; simp add: backend_types_def), simp add: backend_types_def)

lemma literal_schema_profile [simp]: "literal schema_profile_str schema_profiles (JStr (schema_profile_str x)) = Inr x"
  by (rule literal_name) ((cases x; simp add: schema_profiles_def), simp add: schema_profiles_def)

lemma optional_jopt: "(\<And>x. decode (f x) = Inr x) \<Longrightarrow> (\<And>x. f x \<noteq> JNull) \<Longrightarrow> optional decode (jopt f x) = Inr x"
  by (cases x) (simp_all add: optional_def)

lemma list_of_jstrs: "(\<And>s. decode (JStr s) = Inr s) \<Longrightarrow> list_of decode (jstrs xs) = Inr xs"
  unfolding list_of_def jstrs_def by (induction xs) simp_all

lemma dict_values_of_dump:
  assumes "\<And>k x. (k, x) \<in> set d \<Longrightarrow> decode (f x) = Inr x"
  shows "dict_values_of decode (JDict (map (\<lambda>(k, x). (k, f x)) d)) = Inr d"
proof -
  have "traverse_r (\<lambda>(k, x). map_r (Pair k) (decode x)) (map (\<lambda>(k, x). (k, f x)) d) = Inr d"
    using assms
  proof (induction d)
    case (Cons p d)
    obtain k x where "p = (k, x)" by (cases p)
    moreover have "decode (f x) = Inr x" using Cons.prems [of k x] calculation by simp
    moreover have "traverse_r (\<lambda>(k, x). map_r (Pair k) (decode x)) (map (\<lambda>(k, x). (k, f x)) d) = Inr d"
      using Cons.IH Cons.prems by (meson list.set_intros(2))
    ultimately show ?case by simp
  qed simp
  then show ?thesis by (simp add: dict_values_of_def)
qed

lemma leaf_rules:
  assumes "leaves_lawful L"
  shows "lf_int L (JInt n) = Inr n" "lf_bool L (JBool b) = Inr b" "lf_str L (JStr s) = Inr s"
    "lf_real L (lf_real_dump L q) = Inr q" "optional (lf_str L) (jopt JStr x) = Inr x" "list_of (lf_str L) (jstrs xs) = Inr xs"
  using assms by (simp_all add: leaves_lawful_def optional_jopt list_of_jstrs)

lemmas codec_simps = strict_dict_def read_key_def

lemma load_security_profile_dump: "leaves_lawful L \<Longrightarrow> load_security_profile L (dump_security_profile p) = Inr p"
  by (cases p) (simp add: load_security_profile_def dump_security_profile_def codec_simps leaf_rules)

lemma load_cache_dump: "leaves_lawful L \<Longrightarrow> load_cache L (dump_cache c) = Inr c"
  by (cases c) (simp add: load_cache_def dump_cache_def codec_simps leaf_rules)

lemma load_rate_limit_dump: "leaves_lawful L \<Longrightarrow> load_rate_limit L (dump_rate_limit c) = Inr c"
  by (cases c) (simp add: load_rate_limit_def dump_rate_limit_def codec_simps leaf_rules)

lemma load_proxy_dump: "leaves_lawful L \<Longrightarrow> load_proxy L (dump_proxy c) = Inr c"
  by (cases c) (simp add: load_proxy_def dump_proxy_def codec_simps leaf_rules)

lemma load_cors_dump: "leaves_lawful L \<Longrightarrow> load_cors L (dump_cors c) = Inr c"
  by (cases c) (simp add: load_cors_def dump_cors_def codec_simps leaf_rules)

lemma load_storage_dump: "leaves_lawful L \<Longrightarrow> load_storage L (dump_storage c) = Inr c"
  by (cases c) (simp add: load_storage_def dump_storage_def codec_simps leaf_rules)

lemma load_field_mapping_dump: "leaves_lawful L \<Longrightarrow> load_field_mapping L (dump_field_mapping m) = Inr m"
  by (cases m) (simp add: load_field_mapping_def dump_field_mapping_def codec_simps leaf_rules)

lemma load_auth_dump: "leaves_lawful L \<Longrightarrow> load_auth L (dump_auth a) = Inr a"
  by (cases a) (simp add: load_auth_def dump_auth_def codec_simps leaf_rules)

lemma load_backend_auth_dump: "leaves_lawful L \<Longrightarrow> load_backend_auth L (dump_backend_auth a) = validate_backend_auth a"
  by (cases a) (simp add: load_backend_auth_def dump_backend_auth_def codec_simps leaf_rules)

lemma validate_backend_auth_id: "validate_backend_auth a = Inr a' \<Longrightarrow> a' = a"
  by (auto simp: validate_backend_auth_def split: if_split_asm)

lemma load_backend_dump:
  assumes "leaves_lawful L" "load_backend_auth L v = Inr a"
  shows "load_backend L (JDict [(''type'', JStr (backend_type_str (be_type b))), (''url'', JStr (be_url b)),
      (''index'', JStr (be_index b)), (''timeout_seconds'', lf_real_dump L (be_timeout_seconds b)),
      (''max_retries'', JInt (be_max_retries b)), (''retry_backoff_seconds'', lf_real_dump L (be_retry_backoff_seconds b)),
      (''retry_backoff_cap_seconds'', lf_real_dump L (be_retry_backoff_cap_seconds b)),
      (''retry_deadline_seconds'', lf_real_dump L (be_retry_deadline_seconds b)), (''auth'', v)]) = Inr (b\<lparr>be_auth := a\<rparr>)"
  using assms by (cases b) (simp add: load_backend_def codec_simps leaf_rules)

text \<open>A tree that has the shape of a dump, with the backend and the auth block replaced, loads block by block.\<close>

definition config_tree :: "leaves \<Rightarrow> app_config \<Rightarrow> json \<Rightarrow> json \<Rightarrow> json" where
  "config_tree L c backend auth = (case dump_app_config L c of
     JDict d \<Rightarrow> JDict (dict_set ''auth'' auth (dict_set ''backend'' backend d)) | v \<Rightarrow> v)"

definition known_language :: "app_config \<Rightarrow> bool" where
  "known_language c \<longleftrightarrow> ac_default_language c \<in> {None, Some ''en'', Some ''fr''}"

lemma load_language: "known_language c \<Longrightarrow>
  optional (literal (\<lambda>s. s) [''en'', ''fr'']) (jopt JStr (ac_default_language c)) = Inr (ac_default_language c)"
  by (auto simp: known_language_def optional_def literal_def)

lemma load_config_tree:
  assumes "leaves_lawful L" "known_language c" "load_backend L b = Inr b'" "load_auth L a = Inr a'"
  shows "load_app_config L (config_tree L c b a) = validate_app_config (c\<lparr>ac_backend := b', ac_auth := a'\<rparr>)"
proof -
  note blocks = load_storage_dump [OF assms(1)] load_proxy_dump [OF assms(1)] load_cors_dump [OF assms(1)]
    load_cache_dump [OF assms(1)] load_rate_limit_dump [OF assms(1)] load_language [OF assms(2)]
    dict_values_of_dump [where f = dump_security_profile and decode = "load_security_profile L", OF load_security_profile_dump, OF assms(1)]
    dict_values_of_dump [where f = dump_field_mapping and decode = "load_field_mapping L", OF load_field_mapping_dump, OF assms(1)]
  show ?thesis
    unfolding config_tree_def dump_app_config_def load_app_config_def
    by (cases c) (use assms(3,4) blocks in \<open>simp add: codec_simps leaf_rules [OF assms(1)]\<close>)
qed

lemma load_config_tree_bad_backend:
  "leaves_lawful L \<Longrightarrow> load_backend L b = Inl e \<Longrightarrow> load_app_config L (config_tree L c b a) = Inl e"
  unfolding config_tree_def dump_app_config_def load_app_config_def by (simp add: codec_simps)

end
