(* ===== verification/Runtime_Paths.thy ===== *)
theory Runtime_Paths
  imports Py_Int Py_Json
begin

text \<open>
  \<^verbatim>\<open>app/runtime_paths.py\<close>: where the program keeps its files, the two secrets it keeps beside them, and
  the check that a shared rate limiter backs several workers. The operating system is one record:
  environment, user directories, the files and which paths can be written. A path is the flag of an
  absolute path with its components (POSIX).
\<close>

section \<open>The operating system\<close>

type_synonym path = "bool \<times> string list"

record os =
  os_env :: "(string \<times> string) list"
  os_darwin :: bool
  os_windows :: bool
  os_home :: path
  os_expanduser :: "path \<Rightarrow> path"
  os_files :: "(path \<times> string) list"
  os_can_write :: "path \<Rightarrow> bool"

definition getenv :: "os \<Rightarrow> string \<Rightarrow> string \<Rightarrow> string" where
  "getenv s k dflt = (case dict_get (os_env s) k of None \<Rightarrow> dflt | Some v \<Rightarrow> v)"

definition path_of :: "string \<Rightarrow> path" where
  "path_of s = (starts_with ''/'' s, filter (\<lambda>p. p \<noteq> [] \<and> p \<noteq> ''.'') (split_char (CHR ''/'') s))"

definition path_join :: "path \<Rightarrow> path \<Rightarrow> path" where
  "path_join a b = (if fst b then b else (fst a, snd a @ snd b))"

definition path_str :: "path \<Rightarrow> string" where
  "path_str p = (if fst p then ''/'' @ join ''/'' (snd p) else if snd p = [] then ''.'' else join ''/'' (snd p))"

definition expand :: "os \<Rightarrow> string \<Rightarrow> path" where
  "expand s t = os_expanduser s (path_of t)"

text \<open>\<open>mkdir\<close> of the parent and \<open>write_text\<close>; the \<open>chmod\<close> that follows leaves the text alone.\<close>

definition write_text :: "os \<Rightarrow> path \<Rightarrow> string \<Rightarrow> os option" where
  "write_text s p t = (if os_can_write s p then Some (s\<lparr>os_files := dict_set p t (os_files s)\<rparr>) else None)"

abbreviation read_text :: "os \<Rightarrow> path \<Rightarrow> string option" where
  "read_text s p \<equiv> dict_get (os_files s) p"

section \<open>Locations\<close>

definition legacy_insecure_bootstrap_key :: string where
  "legacy_insecure_bootstrap_key = ''admin-change-me''"

definition desktop_home_dir :: "os \<Rightarrow> path" where
  "desktop_home_dir s =
     (if os_darwin s then path_join (os_home s) (path_of ''Library/Application Support/EGG-API'')
      else if os_windows s then
        (if getenv s ''APPDATA'' [] \<noteq> [] then path_join (path_of (getenv s ''APPDATA'' [])) (path_of ''EGG-API'')
         else path_join (os_home s) (path_of ''AppData/Roaming/EGG-API''))
      else if getenv s ''XDG_DATA_HOME'' [] \<noteq> []
      then path_join (path_of (getenv s ''XDG_DATA_HOME'' [])) (path_of ''egg-api'')
      else path_join (os_home s) (path_of ''.local/share/egg-api''))"

definition get_home_dir :: "os \<Rightarrow> path" where
  "get_home_dir s = expand s (getenv s ''EGG_HOME'' ''.'')"

definition get_env :: "os \<Rightarrow> string" where
  "get_env s = py_lower (py_strip (getenv s ''EGG_ENV'' ''development''))"

definition is_production :: "os \<Rightarrow> bool" where
  "is_production s \<longleftrightarrow> get_env s = ''production''"

definition overridden :: "os \<Rightarrow> string \<Rightarrow> string \<Rightarrow> path" where
  "overridden s var rel =
     (if getenv s var [] \<noteq> [] then expand s (getenv s var []) else path_join (get_home_dir s) (path_of rel))"

definition get_config_path :: "os \<Rightarrow> path" where
  "get_config_path s = overridden s ''EGG_CONFIG_PATH'' ''config/egg.yaml''"

definition get_state_db_path :: "os \<Rightarrow> string \<Rightarrow> path" where
  "get_state_db_path s config_db_path =
     (if getenv s ''EGG_STATE_DB_PATH'' [] \<noteq> [] then expand s (getenv s ''EGG_STATE_DB_PATH'' [])
      else if config_db_path \<noteq> [] then expand s config_db_path
      else path_join (get_home_dir s) (path_of ''data/egg_state.sqlite3''))"

definition get_bootstrap_key_path :: "os \<Rightarrow> path" where
  "get_bootstrap_key_path s = overridden s ''EGG_BOOTSTRAP_KEY_PATH'' ''data/bootstrap_admin.key''"

definition get_csrf_key_path :: "os \<Rightarrow> path" where
  "get_csrf_key_path s = overridden s ''EGG_CSRF_KEY_PATH'' ''data/csrf_signing.key''"

section \<open>Secrets beside the program\<close>

text \<open>\<open>bytes.hex\<close> and \<open>bytes.fromhex\<close>: pairs of digits, white space of ASCII between the pairs.\<close>

definition ascii_space :: "char \<Rightarrow> bool" where
  "ascii_space c = (let n = (of_char c :: nat) in (9 \<le> n \<and> n \<le> 13) \<or> n = 32)"

definition hex_of :: "string \<Rightarrow> string" where
  "hex_of bs = concat (map (\<lambda>c. [hex_digit (of_char c div 16), hex_digit (of_char c mod 16)]) bs)"

fun fromhex :: "string \<Rightarrow> string option" where
  "fromhex [] = Some []"
| "fromhex [c] = (if ascii_space c then Some [] else None)"
| "fromhex (c # d # s) =
     (if ascii_space c then fromhex (d # s)
      else (case (hex_val c, hex_val d) of
              (Some x, Some y) \<Rightarrow> map_option (\<lambda>bs. char_of (16 * x + y) # bs) (fromhex s)
            | _ \<Rightarrow> None))"

text \<open>\<open>fresh\<close> is what the \<open>secrets\<close> module returns.\<close>

definition resolve_csrf_signing_key :: "os \<Rightarrow> string \<Rightarrow> os \<times> (string + string)" where
  "resolve_csrf_signing_key s fresh =
     (let env_value = py_strip (getenv s ''EGG_CSRF_SIGNING_KEY'' []) in
      if env_value \<noteq> [] then
        (case fromhex env_value of
           Some k \<Rightarrow> (s, Inr k)
         | None \<Rightarrow> (s, Inl ''RuntimeError: EGG_CSRF_SIGNING_KEY is not valid hex (needs 64 hex chars for 32 bytes).''))
      else (let raw = (case read_text s (get_csrf_key_path s) of None \<Rightarrow> [] | Some t \<Rightarrow> py_strip t) in
        case (if raw = [] then None else fromhex raw) of
          Some k \<Rightarrow> (s, Inr k)
        | None \<Rightarrow>
            (case write_text s (get_csrf_key_path s) (hex_of fresh) of
               None \<Rightarrow> (s, Inl ''OSError'')
             | Some s' \<Rightarrow> (s', Inr fresh))))"

definition read_sidecar_key :: "os \<Rightarrow> path \<Rightarrow> string option" where
  "read_sidecar_key s p =
     (case read_text s p of None \<Rightarrow> None | Some t \<Rightarrow> if py_strip t = [] then None else Some (py_strip t))"

definition write_sidecar_key :: "os \<Rightarrow> path \<Rightarrow> string \<Rightarrow> os option" where
  "write_sidecar_key s p key = write_text s p key"

definition resolve_bootstrap_admin_key :: "os \<Rightarrow> string \<Rightarrow> string \<Rightarrow> os \<times> (string + string \<times> bool)" where
  "resolve_bootstrap_admin_key s config_value fresh =
     (let env_value = py_strip (getenv s ''EGG_BOOTSTRAP_ADMIN_KEY'' []);
          trimmed = py_strip config_value;
          p = get_bootstrap_key_path s in
      if env_value \<noteq> [] then
        (if env_value = legacy_insecure_bootstrap_key
         then (s, Inl ''RuntimeError: EGG_BOOTSTRAP_ADMIN_KEY is set to the insecure default 'admin-change-me'. Set it to a strong random value.'')
         else (s, Inr (env_value, False)))
      else if trimmed \<noteq> [] \<and> trimmed \<noteq> legacy_insecure_bootstrap_key then (s, Inr (trimmed, False))
      else (case read_sidecar_key s p of
          Some k \<Rightarrow> if k \<noteq> legacy_insecure_bootstrap_key then (s, Inr (k, False))
                    else if is_production s
                    then (s, Inl ''RuntimeError: Refusing to start in production: no bootstrap admin key provided.'')
                    else (case write_sidecar_key s p fresh of
                            None \<Rightarrow> (s, Inl ''OSError'') | Some s' \<Rightarrow> (s', Inr (fresh, True)))
        | None \<Rightarrow> if is_production s
                  then (s, Inl ''RuntimeError: Refusing to start in production: no bootstrap admin key provided.'')
                  else (case write_sidecar_key s p fresh of
                          None \<Rightarrow> (s, Inl ''OSError'') | Some s' \<Rightarrow> (s', Inr (fresh, True)))))"

definition get_bootstrap_admin_key :: "os \<Rightarrow> string \<Rightarrow> string \<Rightarrow> os \<times> (string + string)" where
  "get_bootstrap_admin_key s config_value fresh =
     (case resolve_bootstrap_admin_key s config_value fresh of (s', r) \<Rightarrow> (s', map_r fst r))"

section \<open>Workers\<close>

definition worker_env_vars :: "string list" where
  "worker_env_vars = [''EGG_WORKERS'', ''WEB_CONCURRENCY'', ''UVICORN_WORKERS'']"

fun first_count :: "os \<Rightarrow> string list \<Rightarrow> int" where
  "first_count s [] = 1"
| "first_count s (v # vs) =
     (let raw = py_strip (getenv s v []) in
      if raw = [] then first_count s vs
      else (case py_int raw of Inl e \<Rightarrow> first_count s vs | Inr n \<Rightarrow> if 0 < n then n else first_count s vs))"

definition declared_worker_count :: "os \<Rightarrow> int" where
  "declared_worker_count s = first_count s worker_env_vars"

text \<open>The result: refused, or started with or without a warning.\<close>

datatype worker_check = Refused | Warned | Quiet

definition check_rate_limit_worker_safety :: "os \<Rightarrow> worker_check" where
  "check_rate_limit_worker_safety s =
     (if declared_worker_count s \<le> 1 then Quiet
      else if py_strip (getenv s ''EGG_RATE_LIMIT_REDIS_URL'' []) \<noteq> [] then Quiet
      else if is_production s then Refused else Warned)"

section \<open>What a restart finds\<close>

lemma hex_digit_not_space: "n < 16 \<Longrightarrow> \<not> is_space (hex_digit n) \<and> \<not> ascii_space (hex_digit n)"
  by (simp add: is_space_def ascii_space_def hex_digit_def Let_def)

lemma fromhex_hex_of: "fromhex (hex_of bs) = Some bs"
proof (induction bs)
  case (Cons c bs)
  have "of_char c < (256 :: nat)" by simp
  then have "of_char c div 16 < (16 :: nat)" by (simp add: less_mult_imp_div_less)
  moreover have "of_char c mod 16 < (16 :: nat)" by simp
  moreover have "char_of (16 * (of_char c div 16 :: nat) + of_char c mod 16) = c"
    by (simp only: mult_div_mod_eq char_of_char)
  ultimately show ?case
    using Cons hex_val_hex_digit hex_digit_not_space by (simp add: hex_of_def)
qed (simp add: hex_of_def)

lemma strip_by_none: "\<forall>c \<in> set s. \<not> p c \<Longrightarrow> strip_by p s = s"
  using dropWhile_eq_self_iff [of p s] by (cases s) (simp_all add: strip_by_def rstrip_by_id)

lemma py_strip_hex_of: "py_strip (hex_of bs) = hex_of bs"
proof -
  have "\<not> is_space c" if h: "c \<in> set (hex_of bs)" for c
  proof -
    obtain b :: char where b: "c = hex_digit (of_char b div 16) \<or> c = hex_digit (of_char b mod 16)"
      using h unfolding hex_of_def by auto
    have "of_char b < (256 :: nat)" by simp
    then have "of_char b div 16 < (16 :: nat)" by (simp add: less_mult_imp_div_less)
    moreover have "of_char b mod 16 < (16 :: nat)" by simp
    ultimately show ?thesis using b hex_digit_not_space by blast
  qed
  then show ?thesis by (simp add: py_strip_def strip_by_none)
qed

lemma write_text_read:
  assumes "write_text s p t = Some s'"
  shows "read_text s' p = Some t" "s' = s\<lparr>os_files := os_files s'\<rparr>"
  using assms by (auto simp: write_text_def split: if_split_asm)

text \<open>What the locations depend on is not in the files.\<close>

lemma locations_files:
  "getenv (s\<lparr>os_files := f\<rparr>) k d = getenv s k d" "is_production (s\<lparr>os_files := f\<rparr>) = is_production s"
  "get_csrf_key_path (s\<lparr>os_files := f\<rparr>) = get_csrf_key_path s"
  "get_bootstrap_key_path (s\<lparr>os_files := f\<rparr>) = get_bootstrap_key_path s"
  by (simp_all add: getenv_def is_production_def get_env_def get_csrf_key_path_def get_bootstrap_key_path_def
      overridden_def expand_def get_home_dir_def)

lemma csrf_key_stable:
  assumes r: "resolve_csrf_signing_key s fresh = (s', Inr k)" and ne: "fresh \<noteq> []"
  shows "resolve_csrf_signing_key s' fresh' = (s', Inr k)"
proof -
  let ?env = "py_strip (getenv s ''EGG_CSRF_SIGNING_KEY'' [])"
  let ?raw = "case read_text s (get_csrf_key_path s) of None \<Rightarrow> [] | Some t \<Rightarrow> py_strip t"
  show ?thesis
  proof (cases "?env = [] \<and> (?raw = [] \<or> fromhex ?raw = None)")
    case False
    then show ?thesis
      using r by (auto simp: resolve_csrf_signing_key_def Let_def split: if_split_asm option.split_asm)
  next
    case True
    then have k: "k = fresh" and w: "write_text s (get_csrf_key_path s) (hex_of fresh) = Some s'"
      using r by (auto simp: resolve_csrf_signing_key_def Let_def split: if_split_asm option.split_asm)
    obtain f where s': "s' = s\<lparr>os_files := f\<rparr>" using write_text_read(2) [OF w] by blast
    have "hex_of fresh \<noteq> []" using ne by (cases fresh) (simp_all add: hex_of_def)
    then show ?thesis
      using True k write_text_read(1) [OF w]
      by (simp add: resolve_csrf_signing_key_def locations_files s' py_strip_hex_of fromhex_hex_of Let_def)
  qed
qed

definition good_token :: "string \<Rightarrow> bool" where
  "good_token t \<longleftrightarrow> t \<noteq> [] \<and> py_strip t = t \<and> t \<noteq> legacy_insecure_bootstrap_key"

lemma bootstrap_key_facts:
  assumes "resolve_bootstrap_admin_key s config_value fresh = (s', Inr (k, generated))" "good_token fresh"
  shows "k \<noteq> [] \<and> k \<noteq> legacy_insecure_bootstrap_key \<and> (is_production s \<longrightarrow> \<not> generated \<and> s' = s) \<and>
    resolve_bootstrap_admin_key s' config_value fresh' = (s', Inr (k, False))"
proof (cases generated)
  case False
  then have "s' = s \<and> k \<noteq> [] \<and> k \<noteq> legacy_insecure_bootstrap_key \<and>
      resolve_bootstrap_admin_key s config_value fresh' = (s, Inr (k, False))"
    using assms(1) by (auto simp: resolve_bootstrap_admin_key_def read_sidecar_key_def Let_def split: if_split_asm option.split_asm)
  then show ?thesis using False by simp
next
  case True
  let ?p = "get_bootstrap_key_path s"
  have env: "py_strip (getenv s ''EGG_BOOTSTRAP_ADMIN_KEY'' []) = []" and k: "k = fresh" and "\<not> is_production s"
    and cfg: "py_strip config_value = [] \<or> py_strip config_value = legacy_insecure_bootstrap_key"
    and w: "write_text s ?p fresh = Some s'"
    using True assms(1)
    by (auto simp: resolve_bootstrap_admin_key_def write_sidecar_key_def Let_def split: if_split_asm option.split_asm)
  obtain f where s': "s' = s\<lparr>os_files := f\<rparr>" using write_text_read(2) [OF w] by blast
  have "read_sidecar_key s' ?p = Some fresh"
    using write_text_read(1) [OF w] assms(2) by (simp add: read_sidecar_key_def good_token_def)
  moreover have "\<not> (py_strip config_value \<noteq> [] \<and> py_strip config_value \<noteq> legacy_insecure_bootstrap_key)"
    using cfg by blast
  ultimately show ?thesis
    using env k assms(2) \<open>\<not> is_production s\<close>
    by (auto simp: resolve_bootstrap_admin_key_def locations_files s' good_token_def Let_def)
qed

text \<open>C37. Whenever the bootstrap key resolves, the key is not empty and not the published default; a restart with the same
  configuration returns the same key and generates nothing, whatever the random source says then; and in production
  no key is ever generated.\<close>

theorem bootstrap_key_stable:
  assumes "resolve_bootstrap_admin_key s config_value fresh = (s', Inr (k, generated))" "good_token fresh"
  shows "k \<noteq> [] \<and> k \<noteq> legacy_insecure_bootstrap_key \<and> (is_production s \<longrightarrow> \<not> generated \<and> s' = s) \<and>
    resolve_bootstrap_admin_key s' config_value fresh' = (s', Inr (k, False))"
  using assms by (rule bootstrap_key_facts)

definition demo_os :: os where
  "demo_os = \<lparr>os_env = [], os_darwin = False, os_windows = False, os_home = path_of ''/home/egg'',
     os_expanduser = (\<lambda>p. p), os_files = [], os_can_write = (\<lambda>p. True)\<rparr>"

lemma bootstrap_key_stable_witness:
  "\<exists>s'. resolve_bootstrap_admin_key demo_os [] ''s3cret'' = (s', Inr (''s3cret'', True)) \<and>
     resolve_bootstrap_admin_key s' [] ''other'' = (s', Inr (''s3cret'', False))"
proof -
  have t: "good_token ''s3cret''" unfolding good_token_def by code_simp
  have r: "resolve_bootstrap_admin_key demo_os [] ''s3cret'' =
      (demo_os\<lparr>os_files := [(get_bootstrap_key_path demo_os, ''s3cret'')]\<rparr>, Inr (''s3cret'', True))"
    by (simp add: resolve_bootstrap_admin_key_def demo_os_def getenv_def read_sidecar_key_def write_sidecar_key_def
        write_text_def is_production_def get_env_def lower_char_def Let_def py_strip_def strip_by_def rstrip_by_def is_space_def)
  from bootstrap_key_stable [OF this t] show ?thesis using r by blast
qed

text \<open>Several workers with counters of their own start only outside production, and with a warning.\<close>

lemma worker_safety:
  "check_rate_limit_worker_safety s \<noteq> Refused \<Longrightarrow> is_production s \<Longrightarrow> 1 < declared_worker_count s \<Longrightarrow>
     py_strip (getenv s ''EGG_RATE_LIMIT_REDIS_URL'' []) \<noteq> []"
  by (simp add: check_rate_limit_worker_safety_def split: if_split_asm)

lemma first_count_pos: "1 \<le> first_count s vs"
  by (induction vs) (auto simp: Let_def split: sum.split)

end
