(* ===== verification/Config_Manager.thy ===== *)
theory Config_Manager
  imports Config_Codec Runtime_Paths
begin

text \<open>
  \<^verbatim>\<open>app/config/manager.py\<close>: the configuration file, and the redaction that every way out of the process goes
  through. The YAML library is a pair of arguments.
\<close>

section \<open>Redaction\<close>

definition redacted_keys :: "string list list" where
  "redacted_keys = [[''auth'', ''bootstrap_admin_key''], [''backend'', ''auth'', ''password''], [''backend'', ''auth'', ''token'']]"

definition mask_sentinel :: string where
  "mask_sentinel = ''***''"

text \<open>The walk along one path; the dictionaries on it are updated in place.\<close>

fun redact_at :: "bool \<Rightarrow> string list \<Rightarrow> json \<Rightarrow> json" where
  "redact_at hide [] v = v"
| "redact_at hide [leaf] v =
     (case v of
        JDict d \<Rightarrow>
          (case dict_get d leaf of
             None \<Rightarrow> v
           | Some x \<Rightarrow> if hide then (if truthy x then JDict (dict_set leaf (JStr mask_sentinel) d) else v)
                       else JDict (dict_pop leaf d))
      | _ \<Rightarrow> v)"
| "redact_at hide (p # q # ps) v =
     (case v of
        JDict d \<Rightarrow>
          (case dict_get d p of None \<Rightarrow> v | Some x \<Rightarrow> JDict (dict_set p (redact_at hide (q # ps) x) d))
      | _ \<Rightarrow> v)"

definition redact :: "bool \<Rightarrow> json \<Rightarrow> json" where
  "redact hide data = fold (redact_at hide) redacted_keys data"

section \<open>The manager\<close>

record config_manager =
  cm_path :: path
  cm_config :: app_config

record yaml =
  ya_dump :: "json \<Rightarrow> string"
  ya_load :: "string \<Rightarrow> string + json"

definition missing_file :: "path \<Rightarrow> string" where
  "missing_file p = ''FileNotFoundError: Configuration file does not exist: '' @ path_str p"

definition cm_load :: "yaml \<Rightarrow> leaves \<Rightarrow> os \<Rightarrow> config_manager \<Rightarrow> string + config_manager" where
  "cm_load y L s m =
     (case read_text s (cm_path m) of
        None \<Rightarrow> Inl (missing_file (cm_path m))
      | Some t \<Rightarrow>
          bind_r (ya_load y t) (\<lambda>v.
          map_r (\<lambda>c. m\<lparr>cm_config := c\<rparr>) (load_app_config L (if truthy v then v else JDict []))))"

definition cm_new :: "yaml \<Rightarrow> leaves \<Rightarrow> os \<Rightarrow> path option \<Rightarrow> bool \<Rightarrow> string + config_manager" where
  "cm_new y L s p require_existing =
     (let m = \<lparr>cm_path = (case p of Some q \<Rightarrow> q | None \<Rightarrow> get_config_path s), cm_config = default_app_config\<rparr> in
      if read_text s (cm_path m) \<noteq> None then cm_load y L s m
      else if require_existing then Inl (missing_file (cm_path m) @ ''. Run `egg-api init` to create it.'')
      else Inr m)"

text \<open>The configuration in memory changes before the file is written.\<close>

definition cm_save :: "yaml \<Rightarrow> leaves \<Rightarrow> os \<Rightarrow> config_manager \<Rightarrow> app_config \<Rightarrow> config_manager \<times> os \<times> (string + unit)" where
  "cm_save y L s m c =
     (let m' = m\<lparr>cm_config := c\<rparr>; v = redact False (dump_app_config L c) in
      case write_text s (cm_path m) (ya_dump y v) of
        None \<Rightarrow> (m', s, Inl ''OSError'')
      | Some s' \<Rightarrow> (m', s', Inr ()))"

definition cm_validate_data :: "leaves \<Rightarrow> json \<Rightarrow> bool \<times> string option" where
  "cm_validate_data L v = (case load_app_config L v of Inl e \<Rightarrow> (False, Some e) | Inr c \<Rightarrow> (True, None))"

section \<open>What redaction leaves\<close>

definition erase_auth :: "backend_auth_config \<Rightarrow> backend_auth_config" where
  "erase_auth a = a\<lparr>ba_password := None, ba_token := None\<rparr>"

definition erase_secrets :: "app_config \<Rightarrow> app_config" where
  "erase_secrets c = c\<lparr>ac_backend := (ac_backend c)\<lparr>be_auth := erase_auth (be_auth (ac_backend c))\<rparr>,
     ac_auth := (ac_auth c)\<lparr>au_bootstrap_admin_key := []\<rparr>\<rparr>"

definition auth_block :: "bool \<Rightarrow> backend_auth_config \<Rightarrow> json" where
  "auth_block hide a = redact_at hide [''token''] (redact_at hide [''password''] (dump_backend_auth a))"

definition backend_block :: "leaves \<Rightarrow> backend_config \<Rightarrow> json \<Rightarrow> json" where
  "backend_block L b v = JDict [(''type'', JStr (backend_type_str (be_type b))), (''url'', JStr (be_url b)),
      (''index'', JStr (be_index b)), (''timeout_seconds'', lf_real_dump L (be_timeout_seconds b)),
      (''max_retries'', JInt (be_max_retries b)), (''retry_backoff_seconds'', lf_real_dump L (be_retry_backoff_seconds b)),
      (''retry_backoff_cap_seconds'', lf_real_dump L (be_retry_backoff_cap_seconds b)),
      (''retry_deadline_seconds'', lf_real_dump L (be_retry_deadline_seconds b)), (''auth'', v)]"

lemma redact_dump:
  "redact hide (dump_app_config L c) = config_tree L c (backend_block L (ac_backend c) (auth_block hide (be_auth (ac_backend c))))
     (redact_at hide [''bootstrap_admin_key''] (dump_auth (ac_auth c)))"
  by (simp add: redact_def redacted_keys_def config_tree_def dump_app_config_def dump_backend_def backend_block_def auth_block_def)

lemma load_auth_block: "leaves_lawful L \<Longrightarrow> load_backend_auth L (auth_block False a) = validate_backend_auth (erase_auth a)"
  by (cases a) (simp add: auth_block_def dump_backend_auth_def load_backend_auth_def codec_simps leaf_rules
      default_backend_auth_def erase_auth_def)

lemma load_redacted_auth: "leaves_lawful L \<Longrightarrow>
  load_auth L (redact_at False [''bootstrap_admin_key''] (dump_auth a)) = Inr (a\<lparr>au_bootstrap_admin_key := []\<rparr>)"
  by (cases a) (simp add: dump_auth_def load_auth_def codec_simps leaf_rules default_auth_config_def)

lemma load_backend_block_bad:
  "leaves_lawful L \<Longrightarrow> load_backend_auth L v = Inl e \<Longrightarrow> load_backend L (backend_block L b v) = Inl e"
  by (simp add: backend_block_def load_backend_def codec_simps leaf_rules)

lemma config_ok_erase: "config_ok c \<Longrightarrow> config_ok (erase_secrets c)"
  by (simp add: config_ok_def erase_secrets_def)

lemma load_redacted:
  assumes "leaves_lawful L" "known_language c" "config_ok c"
  shows "load_app_config L (redact False (dump_app_config L c)) =
    map_r (\<lambda>_. erase_secrets c) (validate_backend_auth (erase_auth (be_auth (ac_backend c))))"
proof (cases "validate_backend_auth (erase_auth (be_auth (ac_backend c)))")
  case (Inl e)
  then show ?thesis
    using assms(1) load_auth_block load_backend_block_bad load_config_tree_bad_backend by (simp add: redact_dump)
next
  case (Inr a)
  let ?b = "ac_backend c"
  have a: "a = erase_auth (be_auth ?b)" using Inr validate_backend_auth_id by blast
  have "load_backend L (backend_block L ?b (auth_block False (be_auth ?b))) = Inr (?b\<lparr>be_auth := a\<rparr>)"
    unfolding backend_block_def by (rule load_backend_dump) (use assms(1) Inr load_auth_block in simp_all)
  from load_config_tree [OF assms(1,2) this load_redacted_auth [OF assms(1)]] show ?thesis
    using config_ok_erase [OF assms(3)] Inr a
    by (simp add: redact_dump erase_secrets_def validate_app_config_iff)
qed

lemma truthy_config_tree: "truthy (config_tree L c b a)"
  by (simp add: config_tree_def dump_app_config_def)

lemma saved_config_facts:
  assumes "leaves_lawful L" "config_ok c" "known_language c"
    and "ya_load y (ya_dump y (redact False (dump_app_config L c))) = Inr (redact False (dump_app_config L c))"
    and "cm_save y L s m c = (m', s', Inr ())"
  shows "cm_config m' = c \<and>
    cm_new y L s' (Some (cm_path m)) r =
      map_r (\<lambda>_. \<lparr>cm_path = cm_path m, cm_config = erase_secrets c\<rparr>) (validate_backend_auth (erase_auth (be_auth (ac_backend c))))"
proof -
  let ?v = "redact False (dump_app_config L c)"
  have w: "write_text s (cm_path m) (ya_dump y ?v) = Some s'" and m': "m' = m\<lparr>cm_config := c\<rparr>"
    using assms(5) by (auto simp: cm_save_def Let_def split: option.split_asm)
  have "truthy ?v" by (simp add: redact_dump truthy_config_tree)
  then show ?thesis
    using write_text_read(1) [OF w] assms(4) load_redacted [OF assms(1,3,2)] m'
    by (cases "validate_backend_auth (erase_auth (be_auth (ac_backend c)))") (simp_all add: cm_new_def cm_load_def)
qed

text \<open>What \<open>save\<close> wrote, a restart reads back as the configuration without its three secrets; or the restart fails with
  the error of the backend authentication block, exactly when that block is not valid without its inline secrets.\<close>

lemma saved_config_reads_back:
  assumes "leaves_lawful L" "config_ok c" "known_language c"
    and "ya_load y (ya_dump y (redact False (dump_app_config L c))) = Inr (redact False (dump_app_config L c))"
    and "cm_save y L s m c = (m', s', Inr ())"
  shows "cm_config m' = c \<and>
    cm_new y L s' (Some (cm_path m)) r =
      map_r (\<lambda>_. \<lparr>cm_path = cm_path m, cm_config = erase_secrets c\<rparr>) (validate_backend_auth (erase_auth (be_auth (ac_backend c))))"
  using assms by (rule saved_config_facts)

text \<open>What the masked view shows of a secret.\<close>

definition shown :: "string option \<Rightarrow> string option" where
  "shown x = (if is_set x then Some mask_sentinel else x)"

definition secret_view :: "app_config \<Rightarrow> bool \<times> string option \<times> string option" where
  "secret_view c = (au_bootstrap_admin_key (ac_auth c) = [], shown (ba_password (be_auth (ac_backend c))),
     shown (ba_token (be_auth (ac_backend c))))"

lemma auth_block_erased: "erase_auth a = erase_auth a' \<Longrightarrow> auth_block False a = auth_block False a'"
  by (cases a; cases a') (simp add: auth_block_def dump_backend_auth_def erase_auth_def)

lemma auth_block_hidden: "auth_block True a = dump_backend_auth (a\<lparr>ba_password := shown (ba_password a), ba_token := shown (ba_token a)\<rparr>)"
  by (cases a; cases "ba_password a"; cases "ba_token a") (simp_all add: auth_block_def dump_backend_auth_def shown_def)

lemma bootstrap_hidden:
  "redact_at True [''bootstrap_admin_key''] (dump_auth a) =
     dump_auth (a\<lparr>au_bootstrap_admin_key := if au_bootstrap_admin_key a = [] then [] else mask_sentinel\<rparr>)"
  by (cases a) (simp add: dump_auth_def)

lemma bootstrap_erased:
  "a\<lparr>au_bootstrap_admin_key := []\<rparr> = a'\<lparr>au_bootstrap_admin_key := []\<rparr> \<Longrightarrow>
     redact_at False [''bootstrap_admin_key''] (dump_auth a) = redact_at False [''bootstrap_admin_key''] (dump_auth a')"
  by (cases a; cases a') (simp add: dump_auth_def)

lemma erased_fields:
  assumes "erase_secrets c = erase_secrets c'"
  shows "ac_storage c = ac_storage c'"
    "ac_schema_profile c = ac_schema_profile c'"
    "ac_default_language c = ac_default_language c'"
    "ac_security_profile c = ac_security_profile c'"
    "ac_profiles c = ac_profiles c'"
    "ac_proxy c = ac_proxy c'"
    "ac_cors c = ac_cors c'"
    "ac_cache c = ac_cache c'"
    "ac_rate_limit c = ac_rate_limit c'"
    "ac_allowed_sorts c = ac_allowed_sorts c'"
    "ac_allowed_facets c = ac_allowed_facets c'"
    "ac_allowed_include_fields c = ac_allowed_include_fields c'"
    "ac_mapping c = ac_mapping c'"
  using arg_cong [OF assms, of ac_storage]
    arg_cong [OF assms, of ac_schema_profile]
    arg_cong [OF assms, of ac_default_language]
    arg_cong [OF assms, of ac_security_profile]
    arg_cong [OF assms, of ac_profiles]
    arg_cong [OF assms, of ac_proxy]
    arg_cong [OF assms, of ac_cors]
    arg_cong [OF assms, of ac_cache]
    arg_cong [OF assms, of ac_rate_limit]
    arg_cong [OF assms, of ac_allowed_sorts]
    arg_cong [OF assms, of ac_allowed_facets]
    arg_cong [OF assms, of ac_allowed_include_fields]
    arg_cong [OF assms, of ac_mapping]
  by (simp_all add: erase_secrets_def)

lemma erased_backend:
  assumes "erase_secrets c = erase_secrets c'"
  shows "be_type (ac_backend c) = be_type (ac_backend c')"
    "be_url (ac_backend c) = be_url (ac_backend c')"
    "be_index (ac_backend c) = be_index (ac_backend c')"
    "be_timeout_seconds (ac_backend c) = be_timeout_seconds (ac_backend c')"
    "be_max_retries (ac_backend c) = be_max_retries (ac_backend c')"
    "be_retry_backoff_seconds (ac_backend c) = be_retry_backoff_seconds (ac_backend c')"
    "be_retry_backoff_cap_seconds (ac_backend c) = be_retry_backoff_cap_seconds (ac_backend c')"
    "be_retry_deadline_seconds (ac_backend c) = be_retry_deadline_seconds (ac_backend c')"
    "erase_auth (be_auth (ac_backend c)) = erase_auth (be_auth (ac_backend c'))"
  using arg_cong [OF assms, of "be_type \<circ> ac_backend"]
    arg_cong [OF assms, of "be_url \<circ> ac_backend"]
    arg_cong [OF assms, of "be_index \<circ> ac_backend"]
    arg_cong [OF assms, of "be_timeout_seconds \<circ> ac_backend"]
    arg_cong [OF assms, of "be_max_retries \<circ> ac_backend"]
    arg_cong [OF assms, of "be_retry_backoff_seconds \<circ> ac_backend"]
    arg_cong [OF assms, of "be_retry_backoff_cap_seconds \<circ> ac_backend"]
    arg_cong [OF assms, of "be_retry_deadline_seconds \<circ> ac_backend"]
    arg_cong [OF assms, of "be_auth \<circ> ac_backend"]
  by (simp_all add: erase_secrets_def)

lemma erased_blocks:
  assumes "erase_secrets c = erase_secrets c'"
  shows "config_tree L c b a = config_tree L c' b a" "backend_block L (ac_backend c) v = backend_block L (ac_backend c') v"
    "erase_auth (be_auth (ac_backend c)) = erase_auth (be_auth (ac_backend c'))"
    "(ac_auth c)\<lparr>au_bootstrap_admin_key := []\<rparr> = (ac_auth c')\<lparr>au_bootstrap_admin_key := []\<rparr>"
  using erased_fields [OF assms] erased_backend [OF assms] arg_cong [OF assms, of ac_auth]
  by (simp_all add: config_tree_def dump_app_config_def backend_block_def erase_secrets_def)

text \<open>C20. No secret leaves: the saved and exported tree is a function of the configuration without its secrets, and the masked
  view tells of each secret only whether it is set.\<close>

theorem secrets_do_not_leave:
  assumes "erase_secrets c = erase_secrets c'"
  shows "redact False (dump_app_config L c) = redact False (dump_app_config L c') \<and>
    (secret_view c = secret_view c' \<longrightarrow> redact True (dump_app_config L c) = redact True (dump_app_config L c'))"
proof
  note same = erased_blocks [OF assms]
  show "redact False (dump_app_config L c) = redact False (dump_app_config L c')"
    unfolding redact_dump using same auth_block_erased [OF same(3)] bootstrap_erased [OF same(4)] by metis
  show "secret_view c = secret_view c' \<longrightarrow> redact True (dump_app_config L c) = redact True (dump_app_config L c')"
  proof
    assume v: "secret_view c = secret_view c'"
    have "auth_block True (be_auth (ac_backend c)) = auth_block True (be_auth (ac_backend c'))"
      using v same(3) unfolding auth_block_hidden
      by (cases "be_auth (ac_backend c)"; cases "be_auth (ac_backend c')") (simp add: secret_view_def erase_auth_def)
    moreover have "redact_at True [''bootstrap_admin_key''] (dump_auth (ac_auth c)) =
        redact_at True [''bootstrap_admin_key''] (dump_auth (ac_auth c'))"
      using v same(4) unfolding bootstrap_hidden
      by (cases "ac_auth c"; cases "ac_auth c'") (simp add: secret_view_def)
    ultimately show "redact True (dump_app_config L c) = redact True (dump_app_config L c')"
      unfolding redact_dump using same(1,2) by metis
  qed
qed

section \<open>Instances\<close>

definition demo_leaves :: leaves where
  "demo_leaves = \<lparr>lf_int = (\<lambda>v. case v of JInt n \<Rightarrow> Inr n | _ \<Rightarrow> Inl ''int''),
     lf_bool = (\<lambda>v. case v of JBool b \<Rightarrow> Inr b | _ \<Rightarrow> Inl ''bool''),
     lf_str = (\<lambda>v. case v of JStr s \<Rightarrow> Inr s | _ \<Rightarrow> Inl ''str''),
     lf_real = (\<lambda>v. case v of JList [JInt a, JInt b] \<Rightarrow> Inr (Fract a b) | _ \<Rightarrow> Inl ''float''),
     lf_real_dump = (\<lambda>q. JList [JInt (fst (quotient_of q)), JInt (snd (quotient_of q))])\<rparr>"

lemma demo_leaves_lawful: "leaves_lawful demo_leaves"
  by (simp add: leaves_lawful_def demo_leaves_def)

definition demo_yaml :: "app_config \<Rightarrow> yaml" where
  "demo_yaml c = \<lparr>ya_dump = (\<lambda>v. ''saved''),
     ya_load = (\<lambda>t. if t = ''saved'' then Inr (redact False (dump_app_config demo_leaves c)) else Inl ''YAMLError'')\<rparr>"

definition demo_path :: path where
  "demo_path = (True, [''egg.yaml''])"

lemma demo_save:
  "\<exists>m' s'. cm_save (demo_yaml c) demo_leaves demo_os \<lparr>cm_path = demo_path, cm_config = c0\<rparr> c = (m', s', Inr ())"
  by (simp add: cm_save_def write_text_def demo_os_def Let_def)

lemma default_erased: "erase_secrets default_app_config = default_app_config"
  by (simp add: erase_secrets_def erase_auth_def default_app_config_def default_auth_config_def default_backend_config_def
      default_backend_auth_def)

lemma saved_config_reads_back_witness:
  "\<exists>m' s'. cm_save (demo_yaml default_app_config) demo_leaves demo_os \<lparr>cm_path = demo_path, cm_config = default_app_config\<rparr>
       default_app_config = (m', s', Inr ()) \<and>
     cm_new (demo_yaml default_app_config) demo_leaves s' (Some demo_path) True =
       Inr \<lparr>cm_path = demo_path, cm_config = default_app_config\<rparr>"
proof -
  let ?c = default_app_config
  obtain m' s' where sv: "cm_save (demo_yaml ?c) demo_leaves demo_os \<lparr>cm_path = demo_path, cm_config = ?c\<rparr> ?c = (m', s', Inr ())"
    using demo_save by blast
  have lang: "known_language ?c" by (simp add: known_language_def default_app_config_def)
  have y: "ya_load (demo_yaml ?c) (ya_dump (demo_yaml ?c) (redact False (dump_app_config demo_leaves ?c))) =
      Inr (redact False (dump_app_config demo_leaves ?c))" by (simp add: demo_yaml_def)
  have "erase_auth (be_auth (ac_backend ?c)) = default_backend_auth"
    by (simp add: erase_auth_def default_app_config_def default_backend_config_def default_backend_auth_def)
  then have "validate_backend_auth (erase_auth (be_auth (ac_backend ?c))) = Inr default_backend_auth"
    by (simp add: validate_backend_auth_def default_backend_auth_def)
  then show ?thesis
    using sv saved_config_reads_back [OF demo_leaves_lawful default_config_ok lang y sv] default_erased by auto
qed

definition secret_config :: "string \<Rightarrow> app_config" where
  "secret_config k = default_app_config\<lparr>ac_auth := default_auth_config\<lparr>au_bootstrap_admin_key := k\<rparr>\<rparr>"

lemma secrets_do_not_leave_witness:
  "redact True (dump_app_config demo_leaves (secret_config ''a'')) = redact True (dump_app_config demo_leaves (secret_config ''b''))"
  using secrets_do_not_leave [of "secret_config ''a''" "secret_config ''b''"]
  by (simp add: secret_config_def erase_secrets_def secret_view_def)

section \<open>Two round trips that lose the secrets\<close>

text \<open>An inline password is accepted in memory and not written: the program does not start again.\<close>

lemma inline_password_blocks_restart:
  assumes "leaves_lawful L" "config_ok c" "known_language c"
    and "ya_load y (ya_dump y (redact False (dump_app_config L c))) = Inr (redact False (dump_app_config L c))"
    and "cm_save y L s m c = (m', s', Inr ())"
    and "ba_mode (be_auth (ac_backend c)) = BamBasic" "is_set (ba_username (be_auth (ac_backend c)))"
      "\<not> is_set (ba_password_env (be_auth (ac_backend c)))"
  shows "cm_new y L s' (Some (cm_path m)) r = Inl ''backend.auth.mode='basic' requires either password or password_env''"
  using saved_config_facts [OF assms(1-5)] assms(6-8) by (simp add: validate_backend_auth_def erase_auth_def)

text \<open>The masked view is itself a valid configuration: sent back as it came, it replaces each secret by the sentinel.\<close>

definition masked_auth :: "backend_auth_config \<Rightarrow> backend_auth_config" where
  "masked_auth a = a\<lparr>ba_password := shown (ba_password a), ba_token := shown (ba_token a)\<rparr>"

definition masked_config :: "app_config \<Rightarrow> app_config" where
  "masked_config c = c\<lparr>ac_backend := (ac_backend c)\<lparr>be_auth := masked_auth (be_auth (ac_backend c))\<rparr>,
     ac_auth := (ac_auth c)\<lparr>au_bootstrap_admin_key := if au_bootstrap_admin_key (ac_auth c) = [] then [] else mask_sentinel\<rparr>\<rparr>"

lemma is_set_shown: "is_set (shown x) \<longleftrightarrow> is_set x"
  by (simp add: shown_def mask_sentinel_def)

lemma validate_masked: "validate_backend_auth a = Inr a \<Longrightarrow> validate_backend_auth (masked_auth a) = Inr (masked_auth a)"
  by (cases "ba_mode a") (simp_all add: validate_backend_auth_def masked_auth_def is_set_shown del: not_None_eq split: if_split_asm)

lemma masked_view_loads:
  assumes "leaves_lawful L" "config_ok c" "known_language c" "validate_backend_auth (be_auth (ac_backend c)) = Inr (be_auth (ac_backend c))"
  shows "load_app_config L (redact True (dump_app_config L c)) = Inr (masked_config c)"
proof -
  let ?b = "ac_backend c"
  have "load_backend L (backend_block L ?b (auth_block True (be_auth ?b))) = Inr (?b\<lparr>be_auth := masked_auth (be_auth ?b)\<rparr>)"
    unfolding backend_block_def auth_block_hidden masked_auth_def [symmetric]
    by (rule load_backend_dump) (use assms(1,4) validate_masked load_backend_auth_dump in simp_all)
  from load_config_tree [OF assms(1,3) this load_auth_dump [OF assms(1)]]
  have "load_app_config L (redact True (dump_app_config L c)) = validate_app_config (masked_config c)"
    unfolding redact_dump bootstrap_hidden masked_config_def by blast
  moreover have "config_ok (masked_config c)" using assms(2) by (simp add: config_ok_def masked_config_def)
  ultimately show ?thesis by (simp add: validate_app_config_iff)
qed

end
