(* ===== verification/Record_Model.thy ===== *)
theory Record_Model
  imports Public_Api Config_Manager
begin

text \<open>
  \<^verbatim>\<open>app/schemas/record.py\<close>: the classes of a public record and of the search envelope, with \<open>model_validate\<close> and \<open>model_dump\<close>.
  Keys that a class does not declare are ignored, a missing key takes its default, and every value goes through
  the decoder of its declared type; what Pydantic takes as a string, an int or a bool is the argument \<open>leaves\<close> of
  \<open>Config_Codec\<close>. At the end these models take the place of the arguments of \<open>Public_Api\<close>.
\<close>

named_theorems record_codec

section \<open>Decoders\<close>

definition loose_dict :: "json \<Rightarrow> string + doc" where
  "loose_dict v = (case v of JDict d \<Rightarrow> Inr d | _ \<Rightarrow> Inl ''Input should be a valid dictionary'')"

definition read_required :: "doc \<Rightarrow> string \<Rightarrow> (json \<Rightarrow> string + 'a) \<Rightarrow> string + 'a" where
  "read_required d k decode = (case dict_get d k of None \<Rightarrow> Inl ''Field required'' | Some v \<Rightarrow> decode v)"

abbreviation opt_str :: "leaves \<Rightarrow> json \<Rightarrow> string + string option" where
  "opt_str L \<equiv> optional (lf_str L)"

section \<open>The blocks of a record\<close>

record date_info =
  di_display :: "string option"
  di_sort :: "string option"
  di_start :: "string option"
  di_end :: "string option"

definition empty_date_info :: date_info where
  "empty_date_info = \<lparr>di_display = None, di_sort = None, di_start = None, di_end = None\<rparr>"

definition dump_date_info :: "date_info \<Rightarrow> json" where
  "dump_date_info r = JDict
     [(''display'', jopt JStr (di_display r)),
      (''sort'', jopt JStr (di_sort r)),
      (''start'', jopt JStr (di_start r)),
      (''end'', jopt JStr (di_end r))]"

definition load_date_info :: "leaves \<Rightarrow> json \<Rightarrow> string + date_info" where
  "load_date_info L v =
     bind_r (loose_dict v) (\<lambda>d.
     bind_r (read_key d ''display'' (opt_str L) None) (\<lambda>v_display.
     bind_r (read_key d ''sort'' (opt_str L) None) (\<lambda>v_sort.
     bind_r (read_key d ''start'' (opt_str L) None) (\<lambda>v_start.
     bind_r (read_key d ''end'' (opt_str L) None) (\<lambda>v_end.
     Inr \<lparr>di_display = v_display, di_sort = v_sort, di_start = v_start, di_end = v_end\<rparr>)))))"

record label_ref =
  lr_id :: "string option"
  lr_label :: "string option"

definition empty_label_ref :: label_ref where
  "empty_label_ref = \<lparr>lr_id = None, lr_label = None\<rparr>"

definition dump_label_ref :: "label_ref \<Rightarrow> json" where
  "dump_label_ref r = JDict
     [(''id'', jopt JStr (lr_id r)),
      (''label'', jopt JStr (lr_label r))]"

definition load_label_ref :: "leaves \<Rightarrow> json \<Rightarrow> string + label_ref" where
  "load_label_ref L v =
     bind_r (loose_dict v) (\<lambda>d.
     bind_r (read_key d ''id'' (opt_str L) None) (\<lambda>v_id.
     bind_r (read_key d ''label'' (opt_str L) None) (\<lambda>v_label.
     Inr \<lparr>lr_id = v_id, lr_label = v_label\<rparr>)))"

record identifiers =
  id_source_id :: "string option"
  id_ark :: "string option"
  id_doi :: "string option"
  id_isbn :: "string option"
  id_issn :: "string option"
  id_call_number :: "string option"

definition empty_identifiers :: identifiers where
  "empty_identifiers = \<lparr>id_source_id = None, id_ark = None, id_doi = None, id_isbn = None, id_issn = None, id_call_number = None\<rparr>"

definition dump_identifiers :: "identifiers \<Rightarrow> json" where
  "dump_identifiers r = JDict
     [(''source_id'', jopt JStr (id_source_id r)),
      (''ark'', jopt JStr (id_ark r)),
      (''doi'', jopt JStr (id_doi r)),
      (''isbn'', jopt JStr (id_isbn r)),
      (''issn'', jopt JStr (id_issn r)),
      (''call_number'', jopt JStr (id_call_number r))]"

definition load_identifiers :: "leaves \<Rightarrow> json \<Rightarrow> string + identifiers" where
  "load_identifiers L v =
     bind_r (loose_dict v) (\<lambda>d.
     bind_r (read_key d ''source_id'' (opt_str L) None) (\<lambda>v_source_id.
     bind_r (read_key d ''ark'' (opt_str L) None) (\<lambda>v_ark.
     bind_r (read_key d ''doi'' (opt_str L) None) (\<lambda>v_doi.
     bind_r (read_key d ''isbn'' (opt_str L) None) (\<lambda>v_isbn.
     bind_r (read_key d ''issn'' (opt_str L) None) (\<lambda>v_issn.
     bind_r (read_key d ''call_number'' (opt_str L) None) (\<lambda>v_call_number.
     Inr \<lparr>id_source_id = v_source_id, id_ark = v_ark, id_doi = v_doi, id_isbn = v_isbn, id_issn = v_issn, id_call_number = v_call_number\<rparr>)))))))"

record links =
  li_source :: "string option"
  li_thumbnail :: "string option"
  li_preview :: "string option"
  li_iiif_manifest :: "string option"
  li_iiif_image :: "string option"
  li_rights :: "string option"

definition empty_links :: links where
  "empty_links = \<lparr>li_source = None, li_thumbnail = None, li_preview = None, li_iiif_manifest = None, li_iiif_image = None, li_rights = None\<rparr>"

definition dump_links :: "links \<Rightarrow> json" where
  "dump_links r = JDict
     [(''source'', jopt JStr (li_source r)),
      (''thumbnail'', jopt JStr (li_thumbnail r)),
      (''preview'', jopt JStr (li_preview r)),
      (''iiif_manifest'', jopt JStr (li_iiif_manifest r)),
      (''iiif_image'', jopt JStr (li_iiif_image r)),
      (''rights'', jopt JStr (li_rights r))]"

definition load_links :: "leaves \<Rightarrow> json \<Rightarrow> string + links" where
  "load_links L v =
     bind_r (loose_dict v) (\<lambda>d.
     bind_r (read_key d ''source'' (opt_str L) None) (\<lambda>v_source.
     bind_r (read_key d ''thumbnail'' (opt_str L) None) (\<lambda>v_thumbnail.
     bind_r (read_key d ''preview'' (opt_str L) None) (\<lambda>v_preview.
     bind_r (read_key d ''iiif_manifest'' (opt_str L) None) (\<lambda>v_iiif_manifest.
     bind_r (read_key d ''iiif_image'' (opt_str L) None) (\<lambda>v_iiif_image.
     bind_r (read_key d ''rights'' (opt_str L) None) (\<lambda>v_rights.
     Inr \<lparr>li_source = v_source, li_thumbnail = v_thumbnail, li_preview = v_preview, li_iiif_manifest = v_iiif_manifest, li_iiif_image = v_iiif_image, li_rights = v_rights\<rparr>)))))))"

record rights_info =
  ri_label :: "string option"
  ri_uri :: "string option"
  ri_license :: "string option"

definition empty_rights_info :: rights_info where
  "empty_rights_info = \<lparr>ri_label = None, ri_uri = None, ri_license = None\<rparr>"

definition dump_rights_info :: "rights_info \<Rightarrow> json" where
  "dump_rights_info r = JDict
     [(''label'', jopt JStr (ri_label r)),
      (''uri'', jopt JStr (ri_uri r)),
      (''license'', jopt JStr (ri_license r))]"

definition load_rights_info :: "leaves \<Rightarrow> json \<Rightarrow> string + rights_info" where
  "load_rights_info L v =
     bind_r (loose_dict v) (\<lambda>d.
     bind_r (read_key d ''label'' (opt_str L) None) (\<lambda>v_label.
     bind_r (read_key d ''uri'' (opt_str L) None) (\<lambda>v_uri.
     bind_r (read_key d ''license'' (opt_str L) None) (\<lambda>v_license.
     Inr \<lparr>ri_label = v_label, ri_uri = v_uri, ri_license = v_license\<rparr>))))"

record availability =
  av_public :: bool
  av_digital :: bool
  av_iiif :: bool

definition empty_availability :: availability where
  "empty_availability = \<lparr>av_public = False, av_digital = False, av_iiif = False\<rparr>"

definition dump_availability :: "availability \<Rightarrow> json" where
  "dump_availability r = JDict
     [(''public'', JBool (av_public r)),
      (''digital'', JBool (av_digital r)),
      (''iiif'', JBool (av_iiif r))]"

definition load_availability :: "leaves \<Rightarrow> json \<Rightarrow> string + availability" where
  "load_availability L v =
     bind_r (loose_dict v) (\<lambda>d.
     bind_r (read_key d ''public'' (lf_bool L) False) (\<lambda>v_public.
     bind_r (read_key d ''digital'' (lf_bool L) False) (\<lambda>v_digital.
     bind_r (read_key d ''iiif'' (lf_bool L) False) (\<lambda>v_iiif.
     Inr \<lparr>av_public = v_public, av_digital = v_digital, av_iiif = v_iiif\<rparr>))))"

record timestamps =
  tm_indexed_at :: "string option"
  tm_updated_at :: "string option"

definition empty_timestamps :: timestamps where
  "empty_timestamps = \<lparr>tm_indexed_at = None, tm_updated_at = None\<rparr>"

definition dump_timestamps :: "timestamps \<Rightarrow> json" where
  "dump_timestamps r = JDict
     [(''indexed_at'', jopt JStr (tm_indexed_at r)),
      (''updated_at'', jopt JStr (tm_updated_at r))]"

definition load_timestamps :: "leaves \<Rightarrow> json \<Rightarrow> string + timestamps" where
  "load_timestamps L v =
     bind_r (loose_dict v) (\<lambda>d.
     bind_r (read_key d ''indexed_at'' (opt_str L) None) (\<lambda>v_indexed_at.
     bind_r (read_key d ''updated_at'' (opt_str L) None) (\<lambda>v_updated_at.
     Inr \<lparr>tm_indexed_at = v_indexed_at, tm_updated_at = v_updated_at\<rparr>)))"

record museum_fields =
  mu_inventory_number :: "string option"
  mu_artist :: "string option"
  mu_medium :: "string option"
  mu_dimensions :: "string option"
  mu_acquisition_date :: "string option"
  mu_current_location :: "string option"

definition empty_museum_fields :: museum_fields where
  "empty_museum_fields = \<lparr>mu_inventory_number = None, mu_artist = None, mu_medium = None, mu_dimensions = None, mu_acquisition_date = None, mu_current_location = None\<rparr>"

definition dump_museum_fields :: "museum_fields \<Rightarrow> json" where
  "dump_museum_fields r = JDict
     [(''inventory_number'', jopt JStr (mu_inventory_number r)),
      (''artist'', jopt JStr (mu_artist r)),
      (''medium'', jopt JStr (mu_medium r)),
      (''dimensions'', jopt JStr (mu_dimensions r)),
      (''acquisition_date'', jopt JStr (mu_acquisition_date r)),
      (''current_location'', jopt JStr (mu_current_location r))]"

definition load_museum_fields :: "leaves \<Rightarrow> json \<Rightarrow> string + museum_fields" where
  "load_museum_fields L v =
     bind_r (loose_dict v) (\<lambda>d.
     bind_r (read_key d ''inventory_number'' (opt_str L) None) (\<lambda>v_inventory_number.
     bind_r (read_key d ''artist'' (opt_str L) None) (\<lambda>v_artist.
     bind_r (read_key d ''medium'' (opt_str L) None) (\<lambda>v_medium.
     bind_r (read_key d ''dimensions'' (opt_str L) None) (\<lambda>v_dimensions.
     bind_r (read_key d ''acquisition_date'' (opt_str L) None) (\<lambda>v_acquisition_date.
     bind_r (read_key d ''current_location'' (opt_str L) None) (\<lambda>v_current_location.
     Inr \<lparr>mu_inventory_number = v_inventory_number, mu_artist = v_artist, mu_medium = v_medium, mu_dimensions = v_dimensions, mu_acquisition_date = v_acquisition_date, mu_current_location = v_current_location\<rparr>)))))))"

record archive_fields =
  ar_unit_id :: "string option"
  ar_unit_level :: "string option"
  ar_extent :: "string option"
  ar_repository :: "string option"
  ar_scope_content :: "string option"
  ar_access_conditions :: "string option"
  ar_parent_id :: "string option"

definition empty_archive_fields :: archive_fields where
  "empty_archive_fields = \<lparr>ar_unit_id = None, ar_unit_level = None, ar_extent = None, ar_repository = None, ar_scope_content = None, ar_access_conditions = None, ar_parent_id = None\<rparr>"

definition dump_archive_fields :: "archive_fields \<Rightarrow> json" where
  "dump_archive_fields r = JDict
     [(''unit_id'', jopt JStr (ar_unit_id r)),
      (''unit_level'', jopt JStr (ar_unit_level r)),
      (''extent'', jopt JStr (ar_extent r)),
      (''repository'', jopt JStr (ar_repository r)),
      (''scope_content'', jopt JStr (ar_scope_content r)),
      (''access_conditions'', jopt JStr (ar_access_conditions r)),
      (''parent_id'', jopt JStr (ar_parent_id r))]"

definition load_archive_fields :: "leaves \<Rightarrow> json \<Rightarrow> string + archive_fields" where
  "load_archive_fields L v =
     bind_r (loose_dict v) (\<lambda>d.
     bind_r (read_key d ''unit_id'' (opt_str L) None) (\<lambda>v_unit_id.
     bind_r (read_key d ''unit_level'' (opt_str L) None) (\<lambda>v_unit_level.
     bind_r (read_key d ''extent'' (opt_str L) None) (\<lambda>v_extent.
     bind_r (read_key d ''repository'' (opt_str L) None) (\<lambda>v_repository.
     bind_r (read_key d ''scope_content'' (opt_str L) None) (\<lambda>v_scope_content.
     bind_r (read_key d ''access_conditions'' (opt_str L) None) (\<lambda>v_access_conditions.
     bind_r (read_key d ''parent_id'' (opt_str L) None) (\<lambda>v_parent_id.
     Inr \<lparr>ar_unit_id = v_unit_id, ar_unit_level = v_unit_level, ar_extent = v_extent, ar_repository = v_repository, ar_scope_content = v_scope_content, ar_access_conditions = v_access_conditions, ar_parent_id = v_parent_id\<rparr>))))))))"

section \<open>The record\<close>

record public_record =
  pr_id :: "string"
  pr_type :: "string"
  pr_title :: "string option"
  pr_subtitle :: "string option"
  pr_description :: "string option"
  pr_creators :: "string list"
  pr_contributors :: "string list"
  pr_date :: "date_info"
  pr_languages :: "string list"
  pr_subjects :: "string list"
  pr_keywords :: "string list"
  pr_collection :: "label_ref"
  pr_holding_institution :: "label_ref"
  pr_identifiers :: "identifiers"
  pr_links :: "links"
  pr_media :: "doc list"
  pr_rights :: "rights_info"
  pr_availability :: "availability"
  pr_raw_fields :: "doc option"
  pr_timestamps :: "timestamps"
  pr_museum :: "museum_fields option"
  pr_archive :: "archive_fields option"

definition dump_record :: "public_record \<Rightarrow> doc" where
  "dump_record r =
     [(''id'', JStr (pr_id r)),
      (''type'', JStr (pr_type r)),
      (''title'', jopt JStr (pr_title r)),
      (''subtitle'', jopt JStr (pr_subtitle r)),
      (''description'', jopt JStr (pr_description r)),
      (''creators'', jstrs (pr_creators r)),
      (''contributors'', jstrs (pr_contributors r)),
      (''date'', dump_date_info (pr_date r)),
      (''languages'', jstrs (pr_languages r)),
      (''subjects'', jstrs (pr_subjects r)),
      (''keywords'', jstrs (pr_keywords r)),
      (''collection'', dump_label_ref (pr_collection r)),
      (''holding_institution'', dump_label_ref (pr_holding_institution r)),
      (''identifiers'', dump_identifiers (pr_identifiers r)),
      (''links'', dump_links (pr_links r)),
      (''media'', JList (map JDict (pr_media r))),
      (''rights'', dump_rights_info (pr_rights r)),
      (''availability'', dump_availability (pr_availability r)),
      (''raw_fields'', jopt JDict (pr_raw_fields r)),
      (''timestamps'', dump_timestamps (pr_timestamps r)),
      (''museum'', jopt dump_museum_fields (pr_museum r)),
      (''archive'', jopt dump_archive_fields (pr_archive r))]"

definition load_record :: "leaves \<Rightarrow> doc \<Rightarrow> string + public_record" where
  "load_record L d =
     bind_r (read_required d ''id'' (lf_str L)) (\<lambda>v_id.
     bind_r (read_required d ''type'' (lf_str L)) (\<lambda>v_type.
     bind_r (read_key d ''title'' (opt_str L) None) (\<lambda>v_title.
     bind_r (read_key d ''subtitle'' (opt_str L) None) (\<lambda>v_subtitle.
     bind_r (read_key d ''description'' (opt_str L) None) (\<lambda>v_description.
     bind_r (read_key d ''creators'' (list_of (lf_str L)) []) (\<lambda>v_creators.
     bind_r (read_key d ''contributors'' (list_of (lf_str L)) []) (\<lambda>v_contributors.
     bind_r (read_key d ''date'' (load_date_info L) empty_date_info) (\<lambda>v_date.
     bind_r (read_key d ''languages'' (list_of (lf_str L)) []) (\<lambda>v_languages.
     bind_r (read_key d ''subjects'' (list_of (lf_str L)) []) (\<lambda>v_subjects.
     bind_r (read_key d ''keywords'' (list_of (lf_str L)) []) (\<lambda>v_keywords.
     bind_r (read_key d ''collection'' (load_label_ref L) empty_label_ref) (\<lambda>v_collection.
     bind_r (read_key d ''holding_institution'' (load_label_ref L) empty_label_ref) (\<lambda>v_holding_institution.
     bind_r (read_key d ''identifiers'' (load_identifiers L) empty_identifiers) (\<lambda>v_identifiers.
     bind_r (read_key d ''links'' (load_links L) empty_links) (\<lambda>v_links.
     bind_r (read_key d ''media'' (list_of loose_dict) []) (\<lambda>v_media.
     bind_r (read_key d ''rights'' (load_rights_info L) empty_rights_info) (\<lambda>v_rights.
     bind_r (read_key d ''availability'' (load_availability L) empty_availability) (\<lambda>v_availability.
     bind_r (read_key d ''raw_fields'' (optional loose_dict) None) (\<lambda>v_raw.
     bind_r (read_key d ''timestamps'' (load_timestamps L) empty_timestamps) (\<lambda>v_timestamps.
     bind_r (read_key d ''museum'' (optional (load_museum_fields L)) None) (\<lambda>v_museum.
     bind_r (read_key d ''archive'' (optional (load_archive_fields L)) None) (\<lambda>v_archive.
     Inr \<lparr>pr_id = v_id, pr_type = v_type, pr_title = v_title, pr_subtitle = v_subtitle, pr_description = v_description,
       pr_creators = v_creators, pr_contributors = v_contributors, pr_date = v_date, pr_languages = v_languages, pr_subjects = v_subjects,
       pr_keywords = v_keywords, pr_collection = v_collection, pr_holding_institution = v_holding_institution, pr_identifiers = v_identifiers, pr_links = v_links,
       pr_media = v_media, pr_rights = v_rights, pr_availability = v_availability, pr_raw_fields = v_raw, pr_timestamps = v_timestamps,
       pr_museum = v_museum, pr_archive = v_archive\<rparr>))))))))))))))))))))))"

definition validate_record :: "leaves \<Rightarrow> doc \<Rightarrow> py_exc + public_record" where
  "validate_record L d = (case load_record L d of Inl e \<Rightarrow> Inl (ExRaw (''ValidationError: '' @ e)) | Inr r \<Rightarrow> Inr r)"

section \<open>The search envelope\<close>

text \<open>The results are records already and are kept; the keys of a facet are strings and its counts integers.\<close>

definition load_buckets :: "leaves \<Rightarrow> (json \<times> json) list \<Rightarrow> string + (json \<times> json) list" where
  "load_buckets L = traverse_r (\<lambda>(k, n). bind_r (lf_str L k) (\<lambda>s. map_r (\<lambda>i. (JStr s, JInt i)) (lf_int L n)))"

definition load_envelope :: "leaves \<Rightarrow> envelope \<Rightarrow> string + envelope" where
  "load_envelope L e =
     bind_r (lf_int L (en_total e)) (\<lambda>total.
     bind_r (traverse_r (\<lambda>(f, bs). map_r (Pair f) (load_buckets L bs)) (en_facets e)) (\<lambda>facets.
     Inr (e\<lparr>en_total := JInt total, en_facets := facets\<rparr>)))"

definition validate_envelope :: "leaves \<Rightarrow> envelope \<Rightarrow> py_exc + envelope" where
  "validate_envelope L e = (case load_envelope L e of Inl m \<Rightarrow> Inl (ExRaw (''ValidationError: '' @ m)) | Inr x \<Rightarrow> Inr x)"

definition record_models :: "leaves \<Rightarrow> public_record models" where
  "record_models L = \<lparr>md_validate = validate_record L, md_dump = dump_record, md_envelope = validate_envelope L\<rparr>"

section \<open>Reading back\<close>

lemma load_dump_date_info [record_codec]: "leaves_lawful L \<Longrightarrow> load_date_info L (dump_date_info r) = Inr r"
  by (cases r) (simp add: load_date_info_def dump_date_info_def loose_dict_def read_key_def leaf_rules)

lemma load_dump_label_ref [record_codec]: "leaves_lawful L \<Longrightarrow> load_label_ref L (dump_label_ref r) = Inr r"
  by (cases r) (simp add: load_label_ref_def dump_label_ref_def loose_dict_def read_key_def leaf_rules)

lemma load_dump_identifiers [record_codec]: "leaves_lawful L \<Longrightarrow> load_identifiers L (dump_identifiers r) = Inr r"
  by (cases r) (simp add: load_identifiers_def dump_identifiers_def loose_dict_def read_key_def leaf_rules)

lemma load_dump_links [record_codec]: "leaves_lawful L \<Longrightarrow> load_links L (dump_links r) = Inr r"
  by (cases r) (simp add: load_links_def dump_links_def loose_dict_def read_key_def leaf_rules)

lemma load_dump_rights_info [record_codec]: "leaves_lawful L \<Longrightarrow> load_rights_info L (dump_rights_info r) = Inr r"
  by (cases r) (simp add: load_rights_info_def dump_rights_info_def loose_dict_def read_key_def leaf_rules)

lemma load_dump_availability [record_codec]: "leaves_lawful L \<Longrightarrow> load_availability L (dump_availability r) = Inr r"
  by (cases r) (simp add: load_availability_def dump_availability_def loose_dict_def read_key_def leaf_rules)

lemma load_dump_timestamps [record_codec]: "leaves_lawful L \<Longrightarrow> load_timestamps L (dump_timestamps r) = Inr r"
  by (cases r) (simp add: load_timestamps_def dump_timestamps_def loose_dict_def read_key_def leaf_rules)

lemma load_dump_museum_fields [record_codec]: "leaves_lawful L \<Longrightarrow> load_museum_fields L (dump_museum_fields r) = Inr r"
  by (cases r) (simp add: load_museum_fields_def dump_museum_fields_def loose_dict_def read_key_def leaf_rules)

lemma load_dump_archive_fields [record_codec]: "leaves_lawful L \<Longrightarrow> load_archive_fields L (dump_archive_fields r) = Inr r"
  by (cases r) (simp add: load_archive_fields_def dump_archive_fields_def loose_dict_def read_key_def leaf_rules)

lemma list_of_dicts [record_codec]: "list_of loose_dict (JList (map JDict ds)) = Inr ds"
  by (induction ds) (simp_all add: list_of_def loose_dict_def)

lemma optional_dict [record_codec]: "optional loose_dict (jopt JDict v) = Inr v"
  by (cases v) (simp_all add: optional_def loose_dict_def)

lemma optional_block [record_codec]:
  assumes "leaves_lawful L"
  shows "optional (load_museum_fields L) (jopt dump_museum_fields m) = Inr m"
    "optional (load_archive_fields L) (jopt dump_archive_fields a) = Inr a"
proof -
  show "optional (load_museum_fields L) (jopt dump_museum_fields m) = Inr m"
    by (rule optional_jopt) (simp_all add: load_dump_museum_fields [OF assms], simp add: dump_museum_fields_def)
  show "optional (load_archive_fields L) (jopt dump_archive_fields a) = Inr a"
    by (rule optional_jopt) (simp_all add: load_dump_archive_fields [OF assms], simp add: dump_archive_fields_def)
qed

text \<open>The wire form of a record reads back as the record: nothing is lost, coerced or refused on the way.\<close>

lemma record_roundtrip:
  assumes "leaves_lawful L"
  shows "load_record L (dump_record r) = Inr r"
proof -
  have "dict_get (dump_record r) ''id'' = Some (JStr (pr_id r))" by (simp add: dump_record_def)
  then show ?thesis
    unfolding load_record_def dump_record_def read_required_def read_key_def
    by (cases r) (simp add: leaf_rules [OF assms] record_codec assms)
qed

text \<open>A block that no mapping fills is sent all the same, as null.\<close>

lemma null_blocks_are_sent:
  "pr_museum r = None \<Longrightarrow> dict_get (dump_record r) ''museum'' = Some JNull"
  "pr_archive r = None \<Longrightarrow> dict_get (dump_record r) ''archive'' = Some JNull"
  by (simp_all add: dump_record_def)

section \<open>The laws that the public interface relies on\<close>

text \<open>Pydantic takes only text for a text field.\<close>

definition strict_str :: "leaves \<Rightarrow> bool" where
  "strict_str L \<longleftrightarrow> (\<forall>v s. lf_str L v = Inr s \<longrightarrow> v = JStr s)"

definition record_keys :: "string list" where
  "record_keys = [''id'', ''type'', ''title'', ''subtitle'', ''description'', ''creators'', ''contributors'', ''date'', ''languages'',
     ''subjects'', ''keywords'', ''collection'', ''holding_institution'', ''identifiers'', ''links'', ''media'', ''rights'',
     ''availability'', ''raw_fields'', ''timestamps'', ''museum'', ''archive'']"

lemma dump_record_keys: "map fst (dump_record r) = record_keys"
  by (simp add: dump_record_def record_keys_def)

lemma load_record_identity:
  assumes "load_record L d = Inr r"
  shows "read_required d ''id'' (lf_str L) = Inr (pr_id r)" "read_required d ''type'' (lf_str L) = Inr (pr_type r)"
  using assms by (auto simp: load_record_def egg_simps)

lemma dump_record_identity: "jget (dump_record r) ''id'' = JStr (pr_id r)" "jget (dump_record r) ''type'' = JStr (pr_type r)"
  by (simp_all add: dump_record_def jget_def)

lemma required_str: "strict_str L \<Longrightarrow> read_required d k (lf_str L) = Inr s \<Longrightarrow> jget d k = JStr s"
  by (auto simp: read_required_def strict_str_def jget_def split: option.split_asm)

lemma envelope_keeps_results: "load_envelope L e = Inr e' \<Longrightarrow> en_results e' = en_results e"
  by (auto simp: load_envelope_def egg_simps)

lemma record_models_lawful: "strict_str L \<Longrightarrow> models_lawful (record_models L)"
  using load_record_identity required_str envelope_keeps_results
  by (fastforce simp: models_lawful_def record_models_def validate_record_def validate_envelope_def dump_record_identity
      split: sum.split_asm)

section \<open>What the search answers\<close>

definition is_record :: "doc \<Rightarrow> bool" where
  "is_record d \<longleftrightarrow> (\<exists>r. d = dump_record r)"

lemma mapped_is_record:
  assumes "sv_models sv = record_models L" "map_source sv src = Inr d"
  shows "is_record d"
  using assms by (auto simp: map_source_def record_models_def is_record_def egg_simps split: json.split_asm)

lemma hits_are_records:
  assumes "sv_models sv = record_models L" "traverse_r (map_hit sv) hits = Inr rs" "d \<in> set rs"
  shows "is_record d"
proof -
  obtain h where "map_hit sv h = Inr d"
    using assms(2,3) by (fastforce simp: traverse_r_Inr_iff list_all2_conv_all_nth in_set_conv_nth)
  then show ?thesis using mapped_is_record [OF assms(1)] by (auto simp: map_hit_def egg_simps)
qed

lemma search_body_records:
  assumes "sv_models sv = record_models L" "search_body sv fmt nq payload = Inr b"
  shows "(\<forall>e. b = Search e \<longrightarrow> (\<forall>d \<in> set (en_results e). is_record d) \<and> (\<exists>n. en_total e = JInt n)) \<and>
    (\<forall>ctx e. b = JsonLdSearch ctx e \<longrightarrow> (\<forall>d \<in> set (en_results e). \<exists>r. is_record r \<and> d = record_to_jsonld r)) \<and>
    (\<forall>e. b = SparseSearch e \<longrightarrow> (\<forall>d \<in> set (en_results e). \<exists>r. is_record r \<and>
      d = filter (\<lambda>(k, v). k \<in> set (nq_include_fields nq) \<union> {''id'', ''type''}) r))"
proof -
  obtain hits rs where h: "hits_of payload = Inr hits" "traverse_r (map_hit sv) hits = Inr rs"
    using assms(2) by (auto simp: search_body_def egg_simps)
  have R: "\<forall>d \<in> set rs. is_record d" using hits_are_records [OF assms(1) h(2)] by blast
  show ?thesis
  proof (cases "fmt = ''csv''")
    case True
    then show ?thesis using assms(2) h by (auto simp: search_body_def)
  next
    case False
    then obtain facets total cur where e: "(let e = \<lparr>en_total = total, en_page = nq_page nq, en_page_size = nq_page_size nq,
         en_results = rs, en_facets = facets, en_next_cursor = cur\<rparr> in
         if fmt = ''jsonld'' then Inr (search_to_jsonld e)
         else if nq_include_fields nq \<noteq> []
         then Inr (SparseSearch (e\<lparr>en_results :=
                map (filter (\<lambda>(k, v). k \<in> set (nq_include_fields nq) \<union> {''id'', ''type''})) rs\<rparr>))
         else map_r Search (md_envelope (sv_models sv) e)) = Inr b"
      using assms(2) h by (auto simp: search_body_def egg_simps)
    consider "fmt = ''jsonld''" | "fmt \<noteq> ''jsonld''" "nq_include_fields nq \<noteq> []" | "fmt \<noteq> ''jsonld''" "nq_include_fields nq = []"
      by blast
    then show ?thesis
    proof cases
      case 1
      then show ?thesis using e R by (fastforce simp: search_to_jsonld_def Let_def)
    next
      case 2
      then show ?thesis using e R by (fastforce simp: Let_def)
    next
      case 3
      define e0 where "e0 = \<lparr>en_total = total, en_page = nq_page nq, en_page_size = nq_page_size nq, en_results = rs,
        en_facets = facets, en_next_cursor = cur\<rparr>"
      then obtain e' where l: "load_envelope L e0 = Inr e'" "b = Search e'"
        using e assms(1) 3 by (auto simp: record_models_def validate_envelope_def egg_simps Let_def split: sum.split_asm)
      moreover have "\<exists>n. en_total e' = JInt n" using l(1) by (auto simp: load_envelope_def egg_simps)
      ultimately show ?thesis using R envelope_keeps_results [OF l(1)] by (auto simp: e0_def)
    qed
  qed
qed

lemma search_reply_body:
  assumes "snd (search_endpoint sv rq) = Inr out" "ho_status out = 200"
  shows "\<exists>nq payload. parse_query (sv_config sv) (sv_filter_order sv) (hi_params rq) = Inr nq \<and>
    search_body sv (negotiated_format rq) nq payload = Inr (ho_body out)"
  using assms
  by (auto simp: search_endpoint_def Let_def snd_bind_run not_modified_def respond_def egg_simps
      split: if_split_asm sum.split_asm prod.split_asm bool.split_asm)


section \<open>A concrete search\<close>

definition demo_record_services :: "public_record services" where
  "demo_record_services = \<lparr>sv_config = default_app_config, sv_adapter = demo_adapter,
     sv_http = Es_Adapter.demo_env\<lparr>he_outcome := (\<lambda>_ n. OResponse (demo_response 200 (Some demo_hits)))\<rparr>, sv_context = [],
     sv_python = demo_py_env, sv_models = record_models demo_leaves, sv_filter_order = filter_params,
     sv_sha256_hex = (\<lambda>s. ''k''), sv_epoch = 3\<rparr>"

lemma demo_record_search:
  "(case snd (search_endpoint demo_record_services demo_request) of
      Inl e \<Rightarrow> False
    | Inr out \<Rightarrow> ho_status out = 200 \<and>
        (case ho_body out of Search e \<Rightarrow> map (\<lambda>r. jget r ''title'') (en_results e) = [JStr ''Egg, a''] | _ \<Rightarrow> False))"
  by code_simp


definition demo_record :: public_record where
  "demo_record = \<lparr>pr_id = ''7'', pr_type = ''book'', pr_title = Some ''Egg'', pr_subtitle = None, pr_description = None,
     pr_creators = [''A'', ''B''], pr_contributors = [], pr_date = empty_date_info\<lparr>di_sort := Some ''1999''\<rparr>, pr_languages = [],
     pr_subjects = [], pr_keywords = [], pr_collection = empty_label_ref, pr_holding_institution = empty_label_ref,
     pr_identifiers = empty_identifiers, pr_links = empty_links, pr_media = [[(''url'', JNull)]], pr_rights = empty_rights_info,
     pr_availability = empty_availability, pr_raw_fields = None, pr_timestamps = empty_timestamps,
     pr_museum = Some (empty_museum_fields\<lparr>mu_medium := Some ''oil''\<rparr>), pr_archive = None\<rparr>"

theorem record_roundtrip_witness: "load_record demo_leaves (dump_record demo_record) = Inr demo_record"
  by (rule record_roundtrip [OF demo_leaves_lawful])

end
