(* ===== verification/Catalogue.thy ===== *)
theory Catalogue
  imports Egg_Prelude
begin

text \<open>
  The two catalogues of \<^verbatim>\<open>app/i18n.py\<close>, key by key in the order of the source. Texts are their UTF-8 bytes.
\<close>

definition EN :: "(string \<times> string) list" where
  "EN =
     [(''landing.hero.title'', ''The heritage API for institutions without an IT team.''),
      (''landing.hero.lead'', ''EGG-API publishes your library, museum or archive catalogue as a clean, standards-compliant public '' @ ''API '' @
        [CHR 0xE2, CHR 0x80, CHR 0x94] @
        '' set up through a step-by-step wizard, no code required. Import from OAI-PMH, LIDO, MARC, MARCXML, '' @
        ''EAD or CSV; expose Dublin Core back out as an OAI-PMH provider; serve IIIF manifests, search, '' @
        ''facets, and structured records on a fixed public schema.''),
      (''landing.cta.setup'', ''Start the setup wizard''),
      (''landing.cta.console'', ''Open the admin console''),
      (''landing.status.heading'', ''Status''),
      (''landing.status.service'', ''Service''),
      (''landing.status.backend'', ''Backend''),
      (''landing.status.online'', ''online''),
      (''landing.status.reachable'', ''reachable''),
      (''landing.status.unreachable'', ''unreachable''),
      (''landing.status.unknown'', ''unknown''),
      (''landing.card.public_api.heading'', ''Public API''),
      (''landing.card.oai.heading'', ''OAI-PMH provider''),
      (''landing.card.oai.body'', ''Aggregators (Europeana, Gallica, Isidore, BASE) can harvest this deployment directly:''),
      (''landing.who.heading'', ''Who is EGG-API for?''),
      (''landing.who.body'', ''It is built for the people who actually curate heritage collections '' @ [CHR 0xE2, CHR 0x80, CHR 0x94] @
        '' archivists, librarians, museum registrars '' @ [CHR 0xE2, CHR 0x80, CHR 0x94] @
        '' and who do not have a software engineer on call. You run one binary, open the wizard, fill a few '' @
        ''fields, and your collection is live on the web with all the right content-negotiation, '' @
        ''rate-limiting and audit logging a GLAM institution needs.''),
      (''landing.profiles.heading'', ''Three collection profiles, one public schema''),
      (''landing.importers.heading'', ''Nine importers, no custom scripts''),
      (''landing.importers.schedule'', ''Every source can be scheduled (hourly / every 6 h / daily / weekly) so the catalogue refreshes '' @ ''itself '' @
        [CHR 0xE2, CHR 0x80, CHR 0x94] @ '' no cron job to maintain.''),
      (''landing.not.heading'', ''What EGG-API is not''),
      (''landing.next.heading'', ''Next steps''),
      (''landing.nav.home'', ''Home''),
      (''landing.nav.console'', ''Open the console''),
      (''landing.nav.oai'', ''OAI endpoint''),
      (''landing.nav.openapi'', ''OpenAPI''),
      (''landing.nav.about'', ''About''),
      (''landing.footer.tagline'', ''heritage API for non-technical operators''),
      (''about.heading'', ''About EGG-API''),
      (''about.intro'', ''EGG-API started as a thin fa'' @ [CHR 0xC3, CHR 0xA7] @
        ''ade over Elasticsearch for heritage institutions. After a full product review it grew into a '' @
        ''complete publication layer that ingests the file and protocol formats every SIGB, DAMS and archive '' @
        ''CMS actually exports, republishes through a clean JSON API and an OAI-PMH endpoint, and lets '' @
        ''non-technical operators drive the whole flow from a browser.''),
      (''about.principles.heading'', ''Design principles''),
      (''about.principles.zero_it'', ''Zero IT required. Every install decision is a form field in the admin wizard. No YAML editing, no '' @
        ''container orchestration, no cron.''),
      (''about.principles.boring_deps'', ''Dependencies stay boring. FastAPI + Pydantic + httpx + stdlib XML / CSV. No pymarc, no lxml, no '' @
        ''openpyxl, no APScheduler, no message broker '' @ [CHR 0xE2, CHR 0x80, CHR 0x94] @
        '' everything in a single Python process.''),
      (''about.principles.standards'', ''Standards out of the box. OAI-PMH in and out, IIIF manifest passthrough, Dublin Core / LIDO / MARC '' @
        ''/ EAD mappers, JSON-LD search responses. Aggregators can harvest you the day you install.''),
      (''about.principles.no_lock_in'', ''No scare tactics, no vendor lock-in. No Apple Developer fee, no Authenticode cert, no SaaS control '' @
        ''plane. You own the binary, the config, the database and the index.''),
      (''about.fits.heading'', ''How it fits together''),
      (''about.links.heading'', ''Links''),
      (''lang.en'', ''English''),
      (''lang.fr'', ''Fran'' @ [CHR 0xC3, CHR 0xA7] @ ''ais''),
      (''lang.switch_to'', ''Switch language''),
      (''admin.title'', ''EGG-API Admin''),
      (''admin.signed_in_as'', ''Signed in as''),
      (''admin.nav.dashboard'', ''Dashboard''),
      (''admin.nav.setup'', ''Setup wizard''),
      (''admin.nav.config'', ''Configuration''),
      (''admin.nav.mapping'', ''Mapping''),
      (''admin.nav.keys'', ''API keys''),
      (''admin.nav.imports'', ''Data imports''),
      (''admin.nav.usage'', ''Recent activity''),
      (''admin.nav.help'', ''Help''),
      (''admin.nav.sign_out'', ''Sign out''),
      (''admin.nav.sign_out_everywhere'', ''Sign out everywhere''),
      (''admin.nav.lang_switch'', ''Switch language''),
      (''imports.page.title'', ''Data imports''),
      (''imports.page.help'', ''Connect your library, museum or archive catalogue to EGG-API through an OAI-PMH endpoint or a flat '' @
        ''file. The importer harvests the records into the active search backend; your public API then serves '' @ ''them.''),
      (''imports.add.heading'', ''Add an import source''),
      (''imports.add.label'', ''Label''),
      (''imports.add.label_help'', ''A human-readable name. Shown in the dashboard and logs.''),
      (''imports.add.kind'', ''Importer kind''),
      (''imports.add.submit'', ''Add source''),
      (''imports.add.schedule'', ''Run schedule''),
      (''imports.add.schedule.manual'', ''Manual only (run via the button below)''),
      (''imports.add.schedule.hourly'', ''Every hour''),
      (''imports.add.schedule.6h'', ''Every 6 hours''),
      (''imports.add.schedule.daily'', ''Once a day''),
      (''imports.add.schedule.weekly'', ''Once a week''),
      (''imports.table.label'', ''Label''),
      (''imports.table.endpoint'', ''Endpoint''),
      (''imports.table.prefix'', ''Prefix''),
      (''imports.table.set'', ''Set''),
      (''imports.table.profile'', ''Profile''),
      (''imports.table.schedule'', ''Schedule''),
      (''imports.table.last_run'', ''Last run''),
      (''imports.table.next_run'', ''Next run''),
      (''imports.table.actions'', ''Actions''),
      (''imports.table.run_now'', ''Run now''),
      (''imports.table.delete'', ''Delete''),
      (''imports.table.empty'', ''No sources yet. Add one above.'')]"

definition FR :: "(string \<times> string) list" where
  "FR =
     [(''landing.hero.title'', ''L'' @ [CHR 0x27] @ ''API patrimoniale pour les institutions sans '' @ [CHR 0xC3, CHR 0xA9] @ ''quipe informatique.''),
      (''landing.hero.lead'', ''EGG-API publie le catalogue de votre biblioth'' @ [CHR 0xC3, CHR 0xA8] @ ''que, mus'' @ [CHR 0xC3, CHR 0xA9] @
        ''e ou service d'' @ [CHR 0x27] @ ''archives sous forme d'' @ [CHR 0x27] @ ''API publique propre et standardis'' @
        [CHR 0xC3, CHR 0xA9] @ ''e '' @ [CHR 0xE2, CHR 0x80, CHR 0x94] @ '' configur'' @ [CHR 0xC3, CHR 0xA9] @
        ''e via un assistant pas '' @ [CHR 0xC3, CHR 0xA0] @
        '' pas, sans code. Importez depuis OAI-PMH, LIDO, MARC, MARCXML, EAD ou CSV ; r'' @ [CHR 0xC3, CHR 0xA9] @
        ''exposez du Dublin Core via un fournisseur OAI-PMH ; servez des manifestes IIIF, de la recherche, '' @
        ''des facettes et des enregistrements structur'' @ [CHR 0xC3, CHR 0xA9] @ ''s sur un sch'' @ [CHR 0xC3, CHR 0xA9] @
        ''ma public stable.''),
      (''landing.cta.setup'', ''Lancer l'' @ [CHR 0x27] @ ''assistant de configuration''),
      (''landing.cta.console'', ''Ouvrir la console d'' @ [CHR 0x27] @ ''administration''),
      (''landing.status.heading'', [CHR 0xC3, CHR 0x89] @ ''tat du service''),
      (''landing.status.service'', ''Service''),
      (''landing.status.backend'', ''Backend''),
      (''landing.status.online'', ''en ligne''),
      (''landing.status.reachable'', ''joignable''),
      (''landing.status.unreachable'', ''injoignable''),
      (''landing.status.unknown'', ''inconnu''),
      (''landing.card.public_api.heading'', ''API publique''),
      (''landing.card.oai.heading'', ''Fournisseur OAI-PMH''),
      (''landing.card.oai.body'', ''Les agr'' @ [CHR 0xC3, CHR 0xA9] @
        ''gateurs (Europeana, Gallica, Isidore, BASE) peuvent moissonner directement cette installation :''),
      (''landing.who.heading'', [CHR 0xC3, CHR 0x80] @ '' qui s'' @ [CHR 0x27] @ ''adresse EGG-API ?''),
      (''landing.who.body'', ''Il est con'' @ [CHR 0xC3, CHR 0xA7] @ ''u pour les personnes qui g'' @ [CHR 0xC3, CHR 0xA8] @
        ''rent les collections patrimoniales '' @ [CHR 0xE2, CHR 0x80, CHR 0x94] @ '' archivistes, biblioth'' @
        [CHR 0xC3, CHR 0xA9] @ ''caires, r'' @ [CHR 0xC3, CHR 0xA9] @ ''gisseurs d'' @ [CHR 0x27, CHR 0xC5, CHR 0x93] @
        ''uvres '' @ [CHR 0xE2, CHR 0x80, CHR 0x94] @ '' et qui n'' @ [CHR 0x27] @ ''ont pas d'' @ [CHR 0x27] @
        ''informaticien sous la main. Vous lancez un binaire, ouvrez l'' @ [CHR 0x27] @
        ''assistant, remplissez quelques champs, et votre collection est en ligne avec la n'' @ [CHR 0xC3, CHR 0xA9] @
        ''gociation de contenu, la limitation de d'' @ [CHR 0xC3, CHR 0xA9] @ ''bit et la journalisation d'' @ [CHR 0x27] @
        ''audit dont une institution GLAM a besoin.''),
      (''landing.profiles.heading'', ''Trois profils de collection, un sch'' @ [CHR 0xC3, CHR 0xA9] @ ''ma public''),
      (''landing.importers.heading'', ''Neuf importeurs, aucun script '' @ [CHR 0xC3, CHR 0xA0] @ '' '' @ [CHR 0xC3, CHR 0xA9] @ ''crire''),
      (''landing.importers.schedule'', ''Chaque source peut '' @ [CHR 0xC3, CHR 0xAA] @ ''tre planifi'' @ [CHR 0xC3, CHR 0xA9] @
        ''e (toutes les heures, 6 h, quotidien, hebdomadaire) pour que le catalogue se rafra'' @ [CHR 0xC3, CHR 0xAE] @
        ''chisse tout seul '' @ [CHR 0xE2, CHR 0x80, CHR 0x94] @ '' sans cron '' @ [CHR 0xC3, CHR 0xA0] @ '' maintenir.''),
      (''landing.not.heading'', ''Ce qu'' @ [CHR 0x27] @ ''EGG-API n'' @ [CHR 0x27] @ ''est pas''),
      (''landing.next.heading'', [CHR 0xC3, CHR 0x89] @ ''tapes suivantes''),
      (''landing.nav.home'', ''Accueil''),
      (''landing.nav.console'', ''Console d'' @ [CHR 0x27] @ ''administration''),
      (''landing.nav.oai'', ''Endpoint OAI''),
      (''landing.nav.openapi'', ''OpenAPI''),
      (''landing.nav.about'', [CHR 0xC3, CHR 0x80] @ '' propos''),
      (''landing.footer.tagline'', ''API patrimoniale pour op'' @ [CHR 0xC3, CHR 0xA9] @ ''rateurs non techniques''),
      (''about.heading'', [CHR 0xC3, CHR 0x80] @ '' propos d'' @ [CHR 0x27] @ ''EGG-API''),
      (''about.intro'', ''EGG-API a commenc'' @ [CHR 0xC3, CHR 0xA9] @ '' comme une fine fa'' @ [CHR 0xC3, CHR 0xA7] @ ''ade au-dessus d'' @
        [CHR 0x27] @ ''Elasticsearch pour les institutions patrimoniales. Apr'' @ [CHR 0xC3, CHR 0xA8] @
        ''s une revue produit compl'' @ [CHR 0xC3, CHR 0xA8] @ ''te, il est devenu une couche de publication compl'' @
        [CHR 0xC3, CHR 0xA8] @ ''te qui ing'' @ [CHR 0xC3, CHR 0xA8] @
        ''re les formats de fichiers et protocoles que tout SIGB, DAMS ou CMS d'' @ [CHR 0x27] @ ''archives exporte r'' @
        [CHR 0xC3, CHR 0xA9] @ ''ellement, les republie via une API JSON propre et un endpoint OAI-PMH, et laisse des op'' @
        [CHR 0xC3, CHR 0xA9] @ ''rateurs non techniques piloter l'' @ [CHR 0x27] @ ''ensemble depuis un navigateur.''),
      (''about.principles.heading'', ''Principes de conception''),
      (''about.principles.zero_it'', ''Aucune comp'' @ [CHR 0xC3, CHR 0xA9] @ ''tence informatique requise. Chaque choix d'' @ [CHR 0x27] @
        ''installation est un champ de formulaire dans l'' @ [CHR 0x27] @ ''assistant. Pas de YAML '' @ [CHR 0xC3, CHR 0xA0] @
        '' '' @ [CHR 0xC3, CHR 0xA9] @ ''diter, pas d'' @ [CHR 0x27] @ ''orchestration de conteneurs, pas de cron '' @
        [CHR 0xC3, CHR 0xA0] @ '' '' @ [CHR 0xC3, CHR 0xA9] @ ''crire.''),
      (''about.principles.boring_deps'', ''Des d'' @ [CHR 0xC3, CHR 0xA9] @ ''pendances ennuyeuses. FastAPI + Pydantic + httpx + XML / CSV de la biblioth'' @
        [CHR 0xC3, CHR 0xA8] @ ''que standard. Pas de pymarc, pas de lxml, pas d'' @ [CHR 0x27] @ ''openpyxl, pas d'' @
        [CHR 0x27] @ ''APScheduler, pas de courtier de messages '' @ [CHR 0xE2, CHR 0x80, CHR 0x94] @
        '' tout dans un seul processus Python.''),
      (''about.principles.standards'', ''Les standards par d'' @ [CHR 0xC3, CHR 0xA9] @ ''faut. OAI-PMH en entr'' @ [CHR 0xC3, CHR 0xA9] @
        ''e et en sortie, redirection IIIF, mappeurs Dublin Core / LIDO / MARC / EAD, r'' @ [CHR 0xC3, CHR 0xA9] @
        ''ponses JSON-LD. Les agr'' @ [CHR 0xC3, CHR 0xA9] @ ''gateurs peuvent vous moissonner d'' @ [CHR 0xC3, CHR 0xA8] @
        ''s l'' @ [CHR 0x27] @ ''installation.''),
      (''about.principles.no_lock_in'', ''Ni pi'' @ [CHR 0xC3, CHR 0xA8] @ ''ges, ni enfermement propri'' @ [CHR 0xC3, CHR 0xA9] @
        ''taire. Pas de frais Apple Developer, pas de certificat Authenticode, pas de plan de contr'' @ [CHR 0xC3, CHR 0xB4] @
        ''le SaaS. Vous poss'' @ [CHR 0xC3, CHR 0xA9] @ ''dez le binaire, la config, la base et l'' @ [CHR 0x27] @ ''index.''),
      (''about.fits.heading'', ''Comment '' @ [CHR 0xC3, CHR 0xA7] @ ''a s'' @ [CHR 0x27] @ ''articule''),
      (''about.links.heading'', ''Liens''),
      (''lang.en'', ''English''),
      (''lang.fr'', ''Fran'' @ [CHR 0xC3, CHR 0xA7] @ ''ais''),
      (''lang.switch_to'', ''Changer de langue''),
      (''admin.title'', ''Console EGG-API''),
      (''admin.signed_in_as'', ''Connect'' @ [CHR 0xC3, CHR 0xA9] @ '' en tant que''),
      (''admin.nav.dashboard'', ''Tableau de bord''),
      (''admin.nav.setup'', ''Assistant de configuration''),
      (''admin.nav.config'', ''Configuration''),
      (''admin.nav.mapping'', ''Mapping''),
      (''admin.nav.keys'', ''Cl'' @ [CHR 0xC3, CHR 0xA9] @ ''s d'' @ [CHR 0x27] @ ''API''),
      (''admin.nav.imports'', ''Imports de donn'' @ [CHR 0xC3, CHR 0xA9] @ ''es''),
      (''admin.nav.usage'', ''Activit'' @ [CHR 0xC3, CHR 0xA9] @ '' r'' @ [CHR 0xC3, CHR 0xA9] @ ''cente''),
      (''admin.nav.help'', ''Aide''),
      (''admin.nav.sign_out'', ''Se d'' @ [CHR 0xC3, CHR 0xA9] @ ''connecter''),
      (''admin.nav.sign_out_everywhere'', ''D'' @ [CHR 0xC3, CHR 0xA9] @ ''connecter toutes les sessions''),
      (''admin.nav.lang_switch'', ''Changer de langue''),
      (''imports.page.title'', ''Imports de donn'' @ [CHR 0xC3, CHR 0xA9] @ ''es''),
      (''imports.page.help'', ''Connectez le catalogue de votre biblioth'' @ [CHR 0xC3, CHR 0xA8] @ ''que, mus'' @ [CHR 0xC3, CHR 0xA9] @
        ''e ou service d'' @ [CHR 0x27] @ ''archives '' @ [CHR 0xC3, CHR 0xA0] @
        '' EGG-API via un endpoint OAI-PMH ou un fichier plat. L'' @ [CHR 0x27] @
        ''importeur moissonne les enregistrements vers le moteur de recherche actif ; votre API publique les '' @
        ''sert ensuite.''),
      (''imports.add.heading'', ''Ajouter une source d'' @ [CHR 0x27] @ ''import''),
      (''imports.add.label'', ''Libell'' @ [CHR 0xC3, CHR 0xA9]),
      (''imports.add.label_help'', ''Un nom lisible. Affich'' @ [CHR 0xC3, CHR 0xA9] @ '' dans le tableau de bord et les journaux.''),
      (''imports.add.kind'', ''Type d'' @ [CHR 0x27] @ ''importeur''),
      (''imports.add.submit'', ''Ajouter la source''),
      (''imports.add.schedule'', ''Planification''),
      (''imports.add.schedule.manual'', ''Manuel (lancer via le bouton ci-dessous)''),
      (''imports.add.schedule.hourly'', ''Toutes les heures''),
      (''imports.add.schedule.6h'', ''Toutes les 6 heures''),
      (''imports.add.schedule.daily'', ''Une fois par jour''),
      (''imports.add.schedule.weekly'', ''Une fois par semaine''),
      (''imports.table.label'', ''Libell'' @ [CHR 0xC3, CHR 0xA9]),
      (''imports.table.endpoint'', ''Endpoint''),
      (''imports.table.prefix'', ''Pr'' @ [CHR 0xC3, CHR 0xA9] @ ''fixe''),
      (''imports.table.set'', ''Ensemble''),
      (''imports.table.profile'', ''Profil''),
      (''imports.table.schedule'', ''Planification''),
      (''imports.table.last_run'', ''Dernier lancement''),
      (''imports.table.next_run'', ''Prochain lancement''),
      (''imports.table.actions'', ''Actions''),
      (''imports.table.run_now'', ''Lancer maintenant''),
      (''imports.table.delete'', ''Supprimer''),
      (''imports.table.empty'', ''Aucune source pour l'' @ [CHR 0x27] @ ''instant. Ajoutez-en une ci-dessus.'')]"

text \<open>The two languages have the same keys: nothing falls back.\<close>

lemma catalogues_agree: "map fst FR = map fst EN"
  unfolding EN_def FR_def list.map fst_conv by (rule refl)

end
