(* ===== verification/Container.thy ===== *)
theory Container
  imports Config_Manager Key_Service Es_Adapter
begin

text \<open>
  \<^verbatim>\<open>app/dependencies.py\<close>: the snapshot of services that requests work with, how it is built from a
  configuration, and how a new configuration replaces it. The configuration manager is one object that
  the old and the new snapshot share, so saving changes it under the readers of the old one. The
  databases are addressed by their path; the database of the open store is the one in the key manager.
\<close>

section \<open>The snapshot\<close>

record purge_state =
  pg_last_run_at :: "rat option"
  pg_sessions_purged :: nat
  pg_events_purged :: nat
  pg_errors :: nat

definition no_purge :: purge_state where
  "no_purge = \<lparr>pg_last_run_at = None, pg_sessions_purged = 0, pg_events_purged = 0, pg_errors = 0\<rparr>"

text \<open>The mapper and the policy engine are what they were built from.\<close>

record container_state =
  cs_manager :: config_manager
  cs_store :: path
  cs_keys :: key_manager
  cs_rate_limiter :: limiter
  cs_login_rate_limiter :: limiter
  cs_mapper :: app_config
  cs_policy :: app_config
  cs_adapter :: es_adapter
  cs_purge :: purge_state

type_synonym databases = "(path \<times> db) list"

text \<open>What the program is started with: libraries, the Redis driver and whether its server answers.\<close>

record platform =
  pf_yaml :: yaml
  pf_leaves :: leaves
  pf_crypto :: crypto
  pf_redis_driver :: bool
  pf_redis_ping :: bool

definition limiter_for :: "platform \<Rightarrow> os \<Rightarrow> int \<Rightarrow> int \<Rightarrow> string \<Rightarrow> limiter" where
  "limiter_for pf s mx w scope =
     build_rate_limiter (dict_get (os_env s) ''EGG_RATE_LIMIT_REDIS_URL'') (pf_redis_driver pf) (pf_redis_ping pf) mx w scope"

definition open_db :: "databases \<Rightarrow> path \<Rightarrow> db" where
  "open_db dbs p = (case dict_get dbs p of Some d \<Rightarrow> d | None \<Rightarrow> empty_db)"

definition build_state ::
  "platform \<Rightarrow> os \<Rightarrow> databases \<Rightarrow> nat \<Rightarrow> string \<Rightarrow> config_manager \<Rightarrow> container_state option \<Rightarrow>
     os \<times> databases \<times> (string + container_state)"
where
  "build_state pf s dbs now fresh m previous =
     (let c = cm_config m; rl = ac_rate_limit c; p = get_state_db_path s (st_sqlite_path (ac_storage c)) in
      if \<not> os_can_write s p then (s, dbs, Inl ''OperationalError: unable to open database file'')
      else (let d = open_db dbs p in
        case resolve_bootstrap_admin_key s (au_bootstrap_admin_key (ac_auth c)) fresh of
          (s', Inl e) \<Rightarrow> (s', dict_set p d dbs, Inl e)
        | (s', Inr (bootstrap_key, generated)) \<Rightarrow>
            (let keys = new_key_manager (pf_crypto pf) d now bootstrap_key in
             (s', dict_set p (km_db keys) dbs,
              Inr \<lparr>cs_manager = m, cs_store = p, cs_keys = keys,
                   cs_rate_limiter = limiter_for pf s (rl_public_max_requests rl) (rl_public_window_seconds rl) ''public'',
                   cs_login_rate_limiter =
                     limiter_for pf s (rl_admin_login_max_requests rl) (rl_admin_login_window_seconds rl) ''admin_login'',
                   cs_mapper = c, cs_policy = c, cs_adapter = build_adapter (\<lambda>v. dict_get (os_env s) v) c,
                   cs_purge = (case previous of Some st \<Rightarrow> cs_purge st | None \<Rightarrow> no_purge)\<rparr>))))"

definition build_public_lockout :: "app_config \<Rightarrow> lockout" where
  "build_public_lockout c =
     new_lockout (au_public_401_lockout_threshold (ac_auth c)) (au_public_401_lockout_window_seconds (ac_auth c))"

section \<open>The container\<close>

record container =
  ct_os :: os
  ct_dbs :: databases
  ct_state :: container_state
  ct_lockout :: lockout
  ct_epoch :: nat

definition container_new :: "platform \<Rightarrow> os \<Rightarrow> databases \<Rightarrow> nat \<Rightarrow> string \<Rightarrow> string + container" where
  "container_new pf s dbs now fresh =
     bind_r (cm_new (pf_yaml pf) (pf_leaves pf) s None False) (\<lambda>m.
       case build_state pf s dbs now fresh m None of
         (s', dbs', Inl e) \<Rightarrow> Inl e
       | (s', dbs', Inr st) \<Rightarrow>
           Inr \<lparr>ct_os = s', ct_dbs = dbs', ct_state = st, ct_lockout = build_public_lockout (cm_config m), ct_epoch = 0\<rparr>)"

text \<open>The configuration that handlers read: \<open>container.config_manager.config\<close>.\<close>

definition current_config :: "container \<Rightarrow> app_config" where
  "current_config ct = cm_config (cs_manager (ct_state ct))"

definition current_db :: "container \<Rightarrow> db" where
  "current_db ct = km_db (cs_keys (ct_state ct))"

text \<open>What the open store wrote is in its file.\<close>

definition flushed :: "container \<Rightarrow> databases" where
  "flushed ct = dict_set (cs_store (ct_state ct)) (current_db ct) (ct_dbs ct)"

definition reload :: "platform \<Rightarrow> container \<Rightarrow> nat \<Rightarrow> string \<Rightarrow> app_config \<Rightarrow> container \<times> (string + unit)" where
  "reload pf ct now fresh c =
     (let previous = ct_state ct in
      case cm_save (pf_yaml pf) (pf_leaves pf) (ct_os ct) (cs_manager previous) c of
        (m, s1, Inl e) \<Rightarrow> (ct\<lparr>ct_os := s1, ct_state := previous\<lparr>cs_manager := m\<rparr>\<rparr>, Inl e)
      | (m, s1, Inr _) \<Rightarrow>
          (case build_state pf s1 (flushed ct) now fresh m (Some previous) of
             (s2, dbs, Inl e) \<Rightarrow> (ct\<lparr>ct_os := s2, ct_dbs := dbs, ct_state := previous\<lparr>cs_manager := m\<rparr>\<rparr>, Inl e)
           | (s2, dbs, Inr st) \<Rightarrow>
               (ct\<lparr>ct_os := s2, ct_dbs := dbs, ct_state := st, ct_lockout := build_public_lockout c\<rparr>, Inr ())))"

text \<open>The attribute setters: each replaces the snapshot by a copy with one service changed.\<close>

definition set_store :: "path \<Rightarrow> container \<Rightarrow> container" where
  "set_store v ct = ct\<lparr>ct_state := (ct_state ct)\<lparr>cs_store := v\<rparr>\<rparr>"

definition set_api_keys :: "key_manager \<Rightarrow> container \<Rightarrow> container" where
  "set_api_keys v ct = ct\<lparr>ct_state := (ct_state ct)\<lparr>cs_keys := v\<rparr>\<rparr>"

definition set_rate_limiter :: "limiter \<Rightarrow> container \<Rightarrow> container" where
  "set_rate_limiter v ct = ct\<lparr>ct_state := (ct_state ct)\<lparr>cs_rate_limiter := v\<rparr>\<rparr>"

definition set_login_rate_limiter :: "limiter \<Rightarrow> container \<Rightarrow> container" where
  "set_login_rate_limiter v ct = ct\<lparr>ct_state := (ct_state ct)\<lparr>cs_login_rate_limiter := v\<rparr>\<rparr>"

definition set_mapper :: "app_config \<Rightarrow> container \<Rightarrow> container" where
  "set_mapper v ct = ct\<lparr>ct_state := (ct_state ct)\<lparr>cs_mapper := v\<rparr>\<rparr>"

definition set_policy :: "app_config \<Rightarrow> container \<Rightarrow> container" where
  "set_policy v ct = ct\<lparr>ct_state := (ct_state ct)\<lparr>cs_policy := v\<rparr>\<rparr>"

definition set_adapter :: "es_adapter \<Rightarrow> container \<Rightarrow> container" where
  "set_adapter v ct = ct\<lparr>ct_state := (ct_state ct)\<lparr>cs_adapter := v\<rparr>\<rparr>"

section \<open>A reload swaps everything or too little\<close>

text \<open>Every service of the snapshot comes from one configuration.\<close>

definition built_from :: "platform \<Rightarrow> os \<Rightarrow> app_config \<Rightarrow> container_state \<Rightarrow> bool" where
  "built_from pf s c st \<longleftrightarrow>
     cm_config (cs_manager st) = c \<and> cs_mapper st = c \<and> cs_policy st = c \<and>
     cs_adapter st = build_adapter (\<lambda>v. dict_get (os_env s) v) c \<and>
     cs_store st = get_state_db_path s (st_sqlite_path (ac_storage c)) \<and>
     cs_rate_limiter st = limiter_for pf s (rl_public_max_requests (ac_rate_limit c)) (rl_public_window_seconds (ac_rate_limit c)) ''public'' \<and>
     cs_login_rate_limiter st = limiter_for pf s (rl_admin_login_max_requests (ac_rate_limit c))
       (rl_admin_login_window_seconds (ac_rate_limit c)) ''admin_login''"

lemma built_from_env: "os_env s' = os_env s \<Longrightarrow> os_expanduser s' = os_expanduser s \<Longrightarrow>
  built_from pf s' c st = built_from pf s c st"
  by (simp add: built_from_def limiter_for_def get_state_db_path_def getenv_def expand_def get_home_dir_def)

lemma resolve_keeps_env:
  "resolve_bootstrap_admin_key s cv fresh = (s', r) \<Longrightarrow> s' = s\<lparr>os_files := os_files s'\<rparr>"
  by (auto simp: resolve_bootstrap_admin_key_def write_sidecar_key_def write_text_def Let_def
      split: if_split_asm option.split_asm)

lemma build_state_built:
  assumes "build_state pf s dbs now fresh m previous = (s', dbs', Inr st)"
  shows "built_from pf s (cm_config m) st" "s' = s\<lparr>os_files := os_files s'\<rparr>"
    "cs_purge st = (case previous of Some p \<Rightarrow> cs_purge p | None \<Rightarrow> no_purge)"
    "\<exists>k. cs_keys st = new_key_manager (pf_crypto pf) (open_db dbs (cs_store st)) now k"
    "dbs' = dict_set (cs_store st) (km_db (cs_keys st)) dbs"
  using assms resolve_keeps_env
  by (auto simp: build_state_def built_from_def Let_def split: if_split_asm prod.split_asm sum.split_asm)

lemma build_state_failed:
  assumes "build_state pf s dbs now fresh m previous = (s', dbs', Inl e)"
  shows "s' = s\<lparr>os_files := os_files s'\<rparr>" "open_db dbs' p = open_db dbs p"
  using assms resolve_keeps_env
  by (auto simp: build_state_def open_db_def Let_def split: if_split_asm prod.split_asm sum.split_asm)

lemma save_outcome:
  assumes "cm_save y L s m c = (m', s', r)"
  shows "m' = m\<lparr>cm_config := c\<rparr>" "s' = s\<lparr>os_files := os_files s'\<rparr>"
  using assms by (auto simp: cm_save_def write_text_def Let_def split: option.split_asm if_split_asm)

text \<open>Nothing of the snapshot but the configuration that its manager answers with.\<close>

definition same_services :: "container_state \<Rightarrow> container_state \<Rightarrow> bool" where
  "same_services st st' \<longleftrightarrow> st' = st\<lparr>cs_manager := cs_manager st'\<rparr>"

lemma reload_facts:
  assumes "reload pf ct now fresh c = (ct', r)"
  shows "ct_epoch ct' = ct_epoch ct \<and> current_config ct' = c \<and> cs_purge (ct_state ct') = cs_purge (ct_state ct) \<and>
    (r = Inr () \<longrightarrow> built_from pf (ct_os ct) c (ct_state ct') \<and> ct_lockout ct' = build_public_lockout c \<and>
       (\<exists>k. current_db ct' = ensure_admin_key (pf_crypto pf) (open_db (flushed ct) (cs_store (ct_state ct'))) now k ''admin'')) \<and>
    (r \<noteq> Inr () \<longrightarrow> same_services (ct_state ct) (ct_state ct') \<and> ct_lockout ct' = ct_lockout ct)"
proof -
  obtain m s1 sr where sv: "cm_save (pf_yaml pf) (pf_leaves pf) (ct_os ct) (cs_manager (ct_state ct)) c = (m, s1, sr)"
    by (cases "cm_save (pf_yaml pf) (pf_leaves pf) (ct_os ct) (cs_manager (ct_state ct)) c")
  note m = save_outcome [OF sv]
  show ?thesis
  proof (cases sr)
    case (Inl e)
    then have "ct' = ct\<lparr>ct_os := s1, ct_state := (ct_state ct)\<lparr>cs_manager := m\<rparr>\<rparr>" "r = Inl e"
      using assms sv by (simp_all add: reload_def Let_def)
    then show ?thesis using m by (simp add: current_config_def same_services_def)
  next
    case (Inr u)
    obtain s2 dbs b where bs: "build_state pf s1 (flushed ct) now fresh m (Some (ct_state ct)) = (s2, dbs, b)"
      by (cases "build_state pf s1 (flushed ct) now fresh m (Some (ct_state ct))")
    show ?thesis
    proof (cases b)
      case (Inl e)
      then have "ct' = ct\<lparr>ct_os := s2, ct_dbs := dbs, ct_state := (ct_state ct)\<lparr>cs_manager := m\<rparr>\<rparr>" "r = Inl e"
        using assms sv Inr bs by (simp_all add: reload_def Let_def)
      then show ?thesis using m by (simp add: current_config_def same_services_def)
    next
      case st: (Inr st)
      then have ct': "ct' = ct\<lparr>ct_os := s2, ct_dbs := dbs, ct_state := st, ct_lockout := build_public_lockout c\<rparr>" "r = Inr ()"
        using assms sv Inr bs by (simp_all add: reload_def Let_def)
      note b = build_state_built [OF bs [unfolded st]]
      have "built_from pf (ct_os ct) c st"
        using b(1) m built_from_env [of "ct_os ct" s1] by (metis config_manager.select_convs(2) config_manager.surjective
            config_manager.update_convs(2) os.select_convs(1) os.select_convs(5) os.surjective os.update_convs(6))
      moreover obtain k where "cs_keys st = new_key_manager (pf_crypto pf) (open_db (flushed ct) (cs_store st)) now k"
        using b(4) by blast
      ultimately show ?thesis
        using ct' b(3) by (auto simp: current_config_def current_db_def new_key_manager_def built_from_def)
    qed
  qed
qed

lemma same_services_policy: "same_services st st' \<Longrightarrow> cs_policy st' = cs_policy st"
proof -
  assume "same_services st st'"
  then have "cs_policy st' = cs_policy (st\<lparr>cs_manager := cs_manager st'\<rparr>)" unfolding same_services_def by (rule arg_cong)
  then show ?thesis by simp
qed

text \<open>What a failed reload leaves: the manager answers with the new configuration, the policy engine with the old one.\<close>

lemma failed_reload_mixes:
  assumes "reload pf ct now fresh c = (ct', r)" "r \<noteq> Inr ()" "cs_policy (ct_state ct) \<noteq> c"
  shows "current_config ct' \<noteq> cs_policy (ct_state ct')"
  using reload_facts [OF assms(1)] assms(2,3) same_services_policy by metis


definition demo_platform :: platform where
  "demo_platform = \<lparr>pf_yaml = demo_yaml default_app_config, pf_leaves = demo_leaves, pf_crypto = demo_crypto,
     pf_redis_driver = False, pf_redis_ping = False\<rparr>"

definition demo_state :: "config_manager \<Rightarrow> container_state" where
  "demo_state m = \<lparr>cs_manager = m, cs_store = demo_path, cs_keys = \<lparr>km_db = empty_db, km_default_admin_key = []\<rparr>,
     cs_rate_limiter = InMemory (new_mem_limiter 1 1), cs_login_rate_limiter = InMemory (new_mem_limiter 1 1),
     cs_mapper = cm_config m, cs_policy = cm_config m, cs_adapter = build_adapter (\<lambda>v. None) (cm_config m), cs_purge = no_purge\<rparr>"

definition demo_container :: container where
  "demo_container = \<lparr>ct_os = demo_os, ct_dbs = [], ct_state = demo_state \<lparr>cm_path = demo_path, cm_config = secret_config ''old''\<rparr>,
     ct_lockout = new_lockout 0 0, ct_epoch = 7\<rparr>"

lemma reload_returns:
  assumes "\<And>p. os_can_write (ct_os ct) p" "good_token fresh" "\<not> is_production (ct_os ct)"
    "py_strip (getenv (ct_os ct) ''EGG_BOOTSTRAP_ADMIN_KEY'' []) \<noteq> legacy_insecure_bootstrap_key"
  shows "\<exists>ct'. reload pf ct now fresh c = (ct', Inr ())"
proof -
  let ?m = "(cs_manager (ct_state ct))\<lparr>cm_config := c\<rparr>"
  obtain f where sv: "cm_save (pf_yaml pf) (pf_leaves pf) (ct_os ct) (cs_manager (ct_state ct)) c =
      (?m, (ct_os ct)\<lparr>os_files := f\<rparr>, Inr ())"
    using assms(1) by (auto simp: cm_save_def write_text_def Let_def)
  let ?s = "(ct_os ct)\<lparr>os_files := f\<rparr>"
  have "\<exists>s' k g. resolve_bootstrap_admin_key ?s (au_bootstrap_admin_key (ac_auth c)) fresh = (s', Inr (k, g))"
    using assms by (auto simp: resolve_bootstrap_admin_key_def locations_files write_sidecar_key_def write_text_def Let_def
        split: option.split)
  then have "\<exists>s2 dbs st. build_state pf ?s (flushed ct) now fresh ?m (Some (ct_state ct)) = (s2, dbs, Inr st)"
    using assms(1) by (auto simp: build_state_def Let_def)
  then show ?thesis using sv by (auto simp: reload_def Let_def)
qed


end
