(* ===== verification/Setup_Wizard.thy ===== *)
theory Setup_Wizard
  imports Container Schema_Mapper Py_Url
begin

text \<open>
  \<^verbatim>\<open>app/admin_ui/setup_service.py\<close>: the draft that the setup wizard keeps for each administrator, the probes that
  look at a backend before it is configured, the mapping it proposes, and the configuration that a
  finished draft becomes. The free-form parts of a draft are dictionaries of JSON values, as in the code.
\<close>

section \<open>Steps, catalogue, hints\<close>

definition wizard_steps :: "string list" where
  "wizard_steps = [''backend'', ''source'', ''mapping'', ''security'', ''exposure'', ''keys'', ''test'', ''done'']"

definition exposure_catalog :: "(string \<times> string list) list" where
  "exposure_catalog =
     [(''allowed_facets'', [''type'', ''language'', ''collection'', ''institution'', ''subject'']),
      (''allowed_sorts'', [''relevance'', ''date_desc'', ''date_asc'', ''title_asc'']),
      (''allowed_include_fields'', [''id'', ''type'', ''title'', ''description'', ''creators''])]"

definition default_exposure :: "(string \<times> json list) list" where
  "default_exposure = map (\<lambda>(k, vs). (k, map JStr vs)) exposure_catalog"

type_synonym hints = "(string \<times> string list) list"

definition library_mapping_hints :: hints where
  "library_mapping_hints =
     [(''id'', [''id'', ''identifier'', ''_id'']),
      (''type'', [''type'', ''record_type'', ''doc_type'']),
      (''title'', [''title'', ''name'', ''label'', ''dc_title'']),
      (''description'', [''description'', ''abstract'', ''summary'', ''dc_description'']),
      (''creators'', [''creator_csv'', ''creators'', ''creator'', ''author'', ''dc_creator''])]"

definition museum_mapping_hints :: hints where
  "museum_mapping_hints =
     [(''id'', [''inventory_no'', ''inventory_number'', ''object_id'', ''id'', ''identifier'', ''_id'']),
      (''type'', [''object_type'', ''objectworktype'', ''type'', ''doc_type'']),
      (''title'', [''title'', ''object_name'', ''appellation'', ''label'']),
      (''description'', [''description'', ''object_description'', ''summary'']),
      (''creators'', [''artist'', ''maker'', ''creator'', ''creators'', ''author'']),
      (''museum.inventory_number'', [''inventory_no'', ''inventory_number'', ''accession_no'']),
      (''museum.artist'', [''artist'', ''maker'']),
      (''museum.medium'', [''medium'', ''materials_techniques'', ''support'']),
      (''museum.dimensions'', [''dimensions'', ''measurements'', ''size'']),
      (''museum.acquisition_date'', [''acquisition_date'', ''acquired'', ''date_acquired'']),
      (''museum.current_location'', [''current_location'', ''location'', ''venue'']),
      (''links.iiif_manifest'', [''iiif_manifest'', ''iiif'', ''manifest_url'', ''manifest'']),
      (''links.thumbnail'', [''thumbnail'', ''image'', ''preview''])]"

definition archive_mapping_hints :: hints where
  "archive_mapping_hints =
     [(''id'', [''unitid'', ''unit_id'', ''ref_code'', ''id'', ''identifier'', ''_id'']),
      (''type'', [''level'', ''unit_level'', ''type'', ''doc_type'']),
      (''title'', [''unittitle'', ''title'', ''label'']),
      (''description'', [''scopecontent'', ''scope_content'', ''description'', ''abstract'']),
      (''creators'', [''origination'', ''creator'', ''creators'', ''author'']),
      (''archive.unit_id'', [''unitid'', ''unit_id'', ''ref_code'']),
      (''archive.unit_level'', [''unit_level'', ''level'']),
      (''archive.extent'', [''extent'', ''physdesc'', ''physical_description'']),
      (''archive.repository'', [''repository'', ''holding_institution'', ''archive'']),
      (''archive.scope_content'', [''scopecontent'', ''scope_content'', ''abstract'']),
      (''archive.access_conditions'', [''accessrestrict'', ''access_conditions'', ''access'']),
      (''archive.parent_id'', [''parent_id'', ''parent''])]"

definition hints_by_profile :: "(string \<times> hints) list" where
  "hints_by_profile =
     [(''library'', library_mapping_hints), (''museum'', museum_mapping_hints), (''archive'', archive_mapping_hints),
      (''custom'', [])]"

section \<open>Drafts\<close>

record setup_draft =
  wd_backend :: doc
  wd_source :: doc
  wd_detected_version :: json
  wd_available_indices :: "json list"
  wd_available_fields :: doc
  wd_mapping :: "(string \<times> doc) list"
  wd_schema_profile :: string
  wd_security_profile :: string
  wd_public_mode :: string
  wd_exposure :: "(string \<times> json list) list"
  wd_first_key :: "doc option"
  wd_test_result :: "doc option"

definition new_draft :: setup_draft where
  "new_draft = \<lparr>wd_backend = [(''type'', JStr ''elasticsearch''), (''url'', JStr []),
       (''auth'', JDict [(''mode'', JStr ''none'')])],
     wd_source = [(''index'', JStr [])], wd_detected_version = JNull, wd_available_indices = [],
     wd_available_fields = [], wd_mapping = [], wd_schema_profile = ''library'', wd_security_profile = ''prudent'',
     wd_public_mode = ''anonymous_allowed'', wd_exposure = default_exposure, wd_first_key = None, wd_test_result = None\<rparr>"

definition dict_or_none :: "doc option \<Rightarrow> json" where
  "dict_or_none x = (case x of None \<Rightarrow> JNull | Some d \<Rightarrow> if d = [] then JNull else JDict d)"

definition draft_to_json :: "setup_draft \<Rightarrow> doc" where
  "draft_to_json d =
     [(''backend'', JDict (wd_backend d)), (''source'', JDict (wd_source d)), (''detected_version'', wd_detected_version d),
      (''available_indices'', JList (wd_available_indices d)), (''available_fields'', JDict (wd_available_fields d)),
      (''mapping'', JDict (map (\<lambda>(k, v). (k, JDict v)) (wd_mapping d))),
      (''schema_profile'', JStr (wd_schema_profile d)), (''security_profile'', JStr (wd_security_profile d)),
      (''public_mode'', JStr (wd_public_mode d)),
      (''exposure'', JDict (map (\<lambda>(k, v). (k, JList v)) (wd_exposure d))),
      (''first_key'', dict_or_none (wd_first_key d)), (''test_result'', dict_or_none (wd_test_result d))]"

text \<open>\<open>dict(v)\<close> and \<open>list(v)\<close> of a stored value.\<close>

definition as_dict :: "json \<Rightarrow> py_exc + doc" where
  "as_dict v = (case v of JDict d \<Rightarrow> Inr d | _ \<Rightarrow> Inl (ExRaw ''TypeError''))"

definition entry_or :: "doc \<Rightarrow> string \<Rightarrow> json \<Rightarrow> json" where
  "entry_or p k dflt = or_default (jget p k) dflt"

definition optional_dict :: "doc \<Rightarrow> string \<Rightarrow> py_exc + doc option" where
  "optional_dict p k = (if truthy (jget p k) then map_r Some (as_dict (jget p k)) else Inr None)"

definition draft_from_json :: "doc \<Rightarrow> py_exc + setup_draft" where
  "draft_from_json p =
     bind_r (as_dict (entry_or p ''exposure'' (JDict []))) (\<lambda>raw.
     bind_r (traverse_r (\<lambda>(k, v). map_r (Pair k) (py_iter (entry_or raw k (JList v)))) default_exposure) (\<lambda>exposure.
     bind_r (as_dict (entry_or p ''backend'' (JDict (wd_backend new_draft)))) (\<lambda>backend.
     bind_r (as_dict (entry_or p ''source'' (JDict (wd_source new_draft)))) (\<lambda>source.
     bind_r (py_iter (entry_or p ''available_indices'' (JList []))) (\<lambda>indices.
     bind_r (as_dict (entry_or p ''available_fields'' (JDict []))) (\<lambda>available.
     bind_r (as_dict (entry_or p ''mapping'' (JDict []))) (\<lambda>raw_mapping.
     bind_r (traverse_r (\<lambda>(k, v). map_r (Pair k) (as_dict v)) raw_mapping) (\<lambda>mapping.
     bind_r (optional_dict p ''first_key'') (\<lambda>first_key.
     bind_r (optional_dict p ''test_result'') (\<lambda>test_result.
       Inr \<lparr>wd_backend = backend, wd_source = source, wd_detected_version = jget p ''detected_version'',
            wd_available_indices = indices, wd_available_fields = available, wd_mapping = mapping,
            wd_schema_profile = json_str (entry_or p ''schema_profile'' (JStr ''library'')),
            wd_security_profile = json_str (entry_or p ''security_profile'' (JStr ''prudent'')),
            wd_public_mode = json_str (entry_or p ''public_mode'' (JStr ''anonymous_allowed'')),
            wd_exposure = exposure, wd_first_key = first_key, wd_test_result = test_result\<rparr>))))))))))"

section \<open>The draft table\<close>

definition first_step :: string where
  "first_step = hd wizard_steps"

definition draft_load :: "db \<Rightarrow> string \<Rightarrow> py_exc + setup_draft \<times> string" where
  "draft_load d key_id =
     (case load_setup_draft d key_id of
        None \<Rightarrow> Inr (new_draft, first_step)
      | Some (payload, step) \<Rightarrow>
          map_r (\<lambda>dr. (dr, if step \<in> set wizard_steps then step else first_step)) (draft_from_json payload))"

definition draft_save :: "db \<Rightarrow> nat \<Rightarrow> string \<Rightarrow> setup_draft \<Rightarrow> string \<Rightarrow> py_exc + db" where
  "draft_save d now key_id dr step =
     (if step \<notin> set wizard_steps then Inl (ExRaw (''ValueError: Unknown wizard step: '' @ py_repr step))
      else Inr (save_setup_draft d now key_id (draft_to_json dr) step))"

definition draft_reset :: "db \<Rightarrow> string \<Rightarrow> db" where
  "draft_reset d key_id = delete_setup_draft d key_id"

section \<open>Probes\<close>

definition build_probe_adapter :: "leaves \<Rightarrow> (string \<Rightarrow> string option) \<Rightarrow> setup_draft \<Rightarrow> py_exc + es_adapter" where
  "build_probe_adapter L env dr =
     (let backend = wd_backend dr; btype = entry_or backend ''type'' (JStr ''elasticsearch'');
          index = entry_or (wd_source dr) ''index'' (JStr ''records'') in
      case entry_or backend ''url'' (JStr []) of
        JStr raw_url \<Rightarrow>
          (let url = py_strip raw_url in
           if url = []
           then Inl (ExApp (AppError ''invalid_parameter'' ''Backend URL is required before testing the connection.''
                  [(''field'', JStr ''backend.url'')] 400))
           else (case load_backend_auth L (entry_or backend ''auth'' (JDict [(''mode'', JStr ''none'')])) of
               Inl e \<Rightarrow> Inl (ExApp (AppError ''invalid_parameter'' (''Backend auth is misconfigured: '' @ e)
                      [(''field'', JStr ''backend.auth'')] 400))
             | Inr a \<Rightarrow> Inr (make_adapter env (if btype = JStr ''opensearch'' then OpenSearch else Elasticsearch)
                      url (json_str index) 15 2 (1 / 5) 5 30 20 (Some a))))
      | _ \<Rightarrow> Inl (ExRaw ''AttributeError''))"

text \<open>
  The assignments that walk makes, in order: the dotted name of every property with a textual type. The
  dictionary of a nested object is merged in its turn, which sets the same keys to the same values.
\<close>

lemma jget_size: "jget d k = JDict v \<Longrightarrow> size (JDict v) < size (JDict d)"
  by (induction d) (auto simp: jget_def split: option.split_asm if_split_asm)

function property_pairs :: "string \<Rightarrow> doc \<Rightarrow> doc" where
  "property_pairs pfx [] = []"
| "property_pairs pfx ((name, spec) # props) =
     (case spec of
        JDict d \<Rightarrow>
          (case jget d ''type'' of JStr t \<Rightarrow> [(pfx @ name, JStr t)] | _ \<Rightarrow> []) @
          (case jget d ''properties'' of JDict nested \<Rightarrow> property_pairs (pfx @ name @ ''.'') nested | _ \<Rightarrow> []) @
          property_pairs pfx props
      | _ \<Rightarrow> property_pairs pfx props)"
  by pat_completeness auto
termination
  by (relation "measure (\<lambda>(pfx, props). size (JDict props))") (auto dest!: jget_size)

definition flatten_es_properties :: "doc \<Rightarrow> doc" where
  "flatten_es_properties props = dict_of (property_pairs [] props)"

text \<open>The indices of a scan in order, and the union of their fields.\<close>

definition index_properties :: "json \<Rightarrow> doc" where
  "index_properties body =
     (case body of
        JDict b \<Rightarrow> (case jget b ''mappings'' of
            JDict m \<Rightarrow> (case jget m ''properties'' of JDict props \<Rightarrow> property_pairs [] props | _ \<Rightarrow> [])
          | _ \<Rightarrow> [])
      | _ \<Rightarrow> [])"

definition extract_index_choices :: "doc \<Rightarrow> string list \<times> doc" where
  "extract_index_choices scan =
     (sort (dict_keys scan), dict_of (concat (map (\<lambda>(k, body). index_properties body) scan)))"

section \<open>From a draft to a configuration\<close>

definition identity_rule :: "string \<Rightarrow> doc" where
  "identity_rule name = [(''source'', JStr name), (''mode'', JStr ''direct''), (''criticality'', JStr ''required'')]"

definition with_structural :: "(string \<times> doc) list \<Rightarrow> (string \<times> doc) list" where
  "with_structural m =
     (let m1 = (if dict_get m ''id'' = None then m @ [(''id'', identity_rule ''id'')] else m) in
      if dict_get m1 ''type'' = None then m1 @ [(''type'', identity_rule ''type'')] else m1)"

definition add_missing :: "json list \<Rightarrow> json list" where
  "add_missing xs =
     (let ys = (if JStr ''id'' \<in> set xs then xs else xs @ [JStr ''id'']) in
      if JStr ''type'' \<in> set ys then ys else ys @ [JStr ''type''])"

text \<open>\<open>exposure.get(k) or d\<close>.\<close>

definition exposed :: "(string \<times> json list) list \<Rightarrow> string \<Rightarrow> string list \<Rightarrow> json list" where
  "exposed exposure k dflt =
     (case dict_get exposure k of None \<Rightarrow> map JStr dflt | Some vs \<Rightarrow> if vs = [] then map JStr dflt else vs)"

definition or_str :: "string \<Rightarrow> string \<Rightarrow> json" where
  "or_str s dflt = JStr (if s = [] then dflt else s)"

definition draft_payload :: "leaves \<Rightarrow> setup_draft \<Rightarrow> app_config \<Rightarrow> json" where
  "draft_payload L dr preserve =
     (let exposure = (if wd_exposure dr = [] then default_exposure else wd_exposure dr);
          mapping = with_structural (wd_mapping dr);
          mapped = map JStr (dict_keys mapping @ structural_fields);
          includes = filter (\<lambda>f. f \<in> set mapped) (exposed exposure ''allowed_include_fields'' (ac_allowed_include_fields preserve));
          au = ac_auth preserve in
      JDict
       [(''backend'', JDict
          [(''type'', entry_or (wd_backend dr) ''type'' (JStr (backend_type_str (be_type (ac_backend preserve))))),
           (''url'', entry_or (wd_backend dr) ''url'' (JStr (be_url (ac_backend preserve)))),
           (''index'', entry_or (wd_source dr) ''index'' (JStr (be_index (ac_backend preserve)))),
           (''auth'', entry_or (wd_backend dr) ''auth'' (JDict [(''mode'', JStr ''none'')]))]),
        (''storage'', JDict [(''sqlite_path'', JStr (st_sqlite_path (ac_storage preserve)))]),
        (''schema_profile'', or_str (wd_schema_profile dr) (schema_profile_str (ac_schema_profile preserve))),
        (''security_profile'', or_str (wd_security_profile dr) (ac_security_profile preserve)),
        (''profiles'', JDict (map (\<lambda>(k, x). (k, dump_security_profile x)) (ac_profiles preserve))),
        (''auth'', JDict
          [(''public_mode'', or_str (wd_public_mode dr) (public_mode_str (au_public_mode au))),
           (''admin_cookie_secure'', JBool (au_admin_cookie_secure au)),
           (''admin_cookie_samesite'', JStr (same_site_str (au_admin_cookie_samesite au))),
           (''admin_session_ttl_hours'', JInt (au_admin_session_ttl_hours au))]),
        (''proxy'', dump_proxy (ac_proxy preserve)), (''cors'', dump_cors (ac_cors preserve)),
        (''cache'', dump_cache (ac_cache preserve)), (''rate_limit'', dump_rate_limit (ac_rate_limit preserve)),
        (''allowed_sorts'', JList (exposed exposure ''allowed_sorts'' (ac_allowed_sorts preserve))),
        (''allowed_facets'', JList (exposed exposure ''allowed_facets'' (ac_allowed_facets preserve))),
        (''allowed_include_fields'', JList (add_missing includes)),
        (''mapping'', JDict (map (\<lambda>(k, v). (k, JDict v)) mapping))])"

definition draft_to_config :: "leaves \<Rightarrow> setup_draft \<Rightarrow> app_config \<Rightarrow> string + app_config" where
  "draft_to_config L dr preserve = load_app_config L (draft_payload L dr preserve)"

section \<open>The test search\<close>

definition probe_query :: "string \<Rightarrow> normalized_query" where
  "probe_query q = empty_query\<lparr>nq_q := (if q = [] then None else Some q), nq_page_size := 3\<rparr>"

text \<open>\<open>v.get\<close> on something that is not a dictionary, and \<open>v[:3]\<close> on something that is not a sequence.\<close>

definition dict_or_raise :: "json \<Rightarrow> py_exc + doc" where
  "dict_or_raise v = (case v of JDict d \<Rightarrow> Inr d | _ \<Rightarrow> Inl (ExRaw ''AttributeError''))"

definition sequence_or_raise :: "json \<Rightarrow> py_exc + json list" where
  "sequence_or_raise v =
     (case v of JList xs \<Rightarrow> Inr xs | JStr s \<Rightarrow> Inr (map (\<lambda>c. JStr [c]) s) | _ \<Rightarrow> Inl (ExRaw ''TypeError''))"

definition sample_of :: "json \<Rightarrow> py_exc + json" where
  "sample_of hit =
     (case hit of
        JDict h \<Rightarrow> map_r (\<lambda>src. JDict [(''id'', jget src ''id''), (''title'', jget src ''title'')])
                    (dict_or_raise (entry_or h ''_source'' (JDict [])))
      | _ \<Rightarrow> Inr (JDict [(''id'', JNull), (''title'', JNull)]))"

definition probe_total :: "json \<Rightarrow> nat \<Rightarrow> py_exc + json" where
  "probe_total total_raw n =
     (case total_raw of
        JDict t \<Rightarrow> (case json_int (entry_or t ''value'' (JInt 0)) of None \<Rightarrow> Inl (ExRaw ''TypeError'') | Some i \<Rightarrow> Inr (JInt i))
      | JInt i \<Rightarrow> Inr (JInt i)
      | JBool b \<Rightarrow> Inr (JBool b)
      | _ \<Rightarrow> Inr (JInt (int n)))"

definition probe_summary :: "string \<Rightarrow> json \<Rightarrow> py_exc + doc" where
  "probe_summary query raw =
     bind_r (dict_or_raise raw) (\<lambda>r.
     bind_r (dict_or_raise (entry_or r ''hits'' (JDict []))) (\<lambda>block.
     bind_r (sequence_or_raise (entry_or block ''hits'' (JList []))) (\<lambda>hits.
     bind_r (probe_total (jget block ''total'') (length hits)) (\<lambda>total.
     bind_r (traverse_r sample_of (take 3 hits)) (\<lambda>samples.
       Inr [(''query'', JStr query), (''total'', total), (''samples'', JList samples)])))))"

definition run_probe_search :: "es_adapter \<Rightarrow> http_env \<Rightarrow> (string \<times> json) list \<Rightarrow> string \<Rightarrow> doc run" where
  "run_probe_search a env ctx query = bind_run (search a env ctx (probe_query query)) (probe_summary query)"

section \<open>The proposed mapping\<close>

definition lower_map :: "doc \<Rightarrow> (string \<times> string) list" where
  "lower_map available = dict_of (map (\<lambda>(name, t). (py_lower name, name)) available)"

fun first_hint :: "(string \<times> string) list \<Rightarrow> string list \<Rightarrow> string option" where
  "first_hint m [] = None"
| "first_hint m (h # hs) = (case dict_get m (py_lower h) of None \<Rightarrow> first_hint m hs | Some name \<Rightarrow> Some name)"

definition proposed_rule :: "string \<Rightarrow> string \<Rightarrow> doc" where
  "proposed_rule public_name chosen =
     (let splits = (public_name = ''creators'' \<and> contains_str ''csv'' (py_lower chosen)) in
      [(''source'', JStr chosen), (''mode'', JStr (if splits then ''split_list'' else ''direct'')),
       (''criticality'', JStr (if public_name \<in> {''id'', ''type''} then ''required'' else ''optional''))] @
      (if splits then [(''separator'', JStr '';'')] else []))"

definition propose_mapping :: "doc \<Rightarrow> string \<Rightarrow> (string \<times> doc) list" where
  "propose_mapping available profile =
     (let hints = (case dict_get hints_by_profile profile of Some h \<Rightarrow> h | None \<Rightarrow> library_mapping_hints);
          m = lower_map available in
      List.map_filter (\<lambda>(public_name, candidates).
        map_option (\<lambda>chosen. (public_name, proposed_rule public_name chosen))
          (case first_hint m candidates of Some c \<Rightarrow> Some c | None \<Rightarrow> dict_get m (py_lower public_name))) hints)"

section \<open>Discovery\<close>

definition default_discovery_hosts :: "(string \<times> int) list" where
  "default_discovery_hosts =
     [(''localhost'', 9200), (''127.0.0.1'', 9200), (''localhost'', 9201), (''elasticsearch'', 9200),
      (''opensearch'', 9200), (''opensearch-node1'', 9200)]"

definition discovery_entry :: "string \<Rightarrow> (string \<times> int) option" where
  "discovery_entry entry =
     (let (host0, found, port) = partition_char (CHR '':'') (py_strip entry); host = py_strip host0 in
      if py_strip entry = [] \<or> host = [] then None
      else if port = [] then Some (host, 9200)
      else (case py_int port of Inl e \<Rightarrow> None | Inr n \<Rightarrow> Some (host, n)))"

definition env_discovery_hosts :: "os \<Rightarrow> (string \<times> int) list" where
  "env_discovery_hosts s =
     (let raw = py_strip (getenv s ''EGG_DISCOVERY_HOSTS'' []) in
      if raw = [] then [] else List.map_filter discovery_entry (split_char (CHR '','') raw))"

definition candidate_urls :: "os \<Rightarrow> string list" where
  "candidate_urls s =
     rev (remdups (rev (map (\<lambda>(host, port). ''http://'' @ host @ '':'' @ str_of_int port)
       (default_discovery_hosts @ env_discovery_hosts s))))"

record candidate =
  ca_url :: string
  ca_backend_type :: "string option"
  ca_version :: "string option"
  ca_status :: string
  ca_message :: "string option"

definition unreachable :: "string \<Rightarrow> string option \<Rightarrow> string \<Rightarrow> candidate" where
  "unreachable url version msg =
     \<lparr>ca_url = url, ca_backend_type = None, ca_version = version, ca_status = ''unreachable'', ca_message = Some msg\<rparr>"

definition backend_kind :: "string \<Rightarrow> string \<Rightarrow> string option" where
  "backend_kind distribution tagline =
     (if distribution = ''opensearch'' then Some ''opensearch''
      else if contains_str ''elasticsearch'' tagline \<or> contains_str ''you know, for search'' tagline then Some ''elasticsearch''
      else None)"

text \<open>\<open>int(version.split(".", 1)[0])\<close>, or 0.\<close>

definition probe_major :: "string \<Rightarrow> int" where
  "probe_major version = (case py_int (takeWhile (\<lambda>c. c \<noteq> CHR ''.'') version) of Inl e \<Rightarrow> 0 | Inr n \<Rightarrow> n)"

definition too_old :: "string \<Rightarrow> string option \<Rightarrow> string \<Rightarrow> candidate" where
  "too_old url kind version =
     \<lparr>ca_url = url, ca_backend_type = kind, ca_version = Some version, ca_status = ''unsupported_version'',
      ca_message = Some (if kind = Some ''opensearch'' then ''OpenSearch '' @ version @ '' is too old (need 1+).''
                         else ''Elasticsearch '' @ version @ '' is too old (need 7+).'')\<rparr>"

definition judge_version :: "string \<Rightarrow> string \<Rightarrow> string option \<Rightarrow> candidate" where
  "judge_version url version kind =
     (if version \<noteq> [] \<and> kind = Some ''elasticsearch'' \<and> probe_major version < 7 then too_old url kind version
      else if version \<noteq> [] \<and> kind = Some ''opensearch'' \<and> probe_major version < 1 then too_old url kind version
      else if kind = None
      then unreachable url (if version = [] then None else Some version)
        ''Something answered but did not identify as Elasticsearch/OpenSearch.''
      else \<lparr>ca_url = url, ca_backend_type = kind, ca_version = (if version = [] then None else Some version),
            ca_status = ''ok'', ca_message = None\<rparr>)"

definition interpret_body :: "string \<Rightarrow> json \<Rightarrow> py_exc + candidate" where
  "interpret_body url body =
     bind_r (case body of JDict b \<Rightarrow> dict_or_raise (case dict_get b ''version'' of None \<Rightarrow> JDict [] | Some v \<Rightarrow> v) | _ \<Rightarrow> Inr [])
       (\<lambda>version_info.
     bind_r (dict_or_raise body) (\<lambda>b.
       (let version = json_str (entry_or version_info ''number'' (JStr []));
            distribution = py_lower (py_strip (json_str (entry_or version_info ''distribution'' (JStr []))));
            tagline = py_lower (py_strip (json_str (entry_or b ''tagline'' (JStr [])))) in
        Inr (judge_version url version (backend_kind distribution tagline)))))"

definition interpret_probe :: "string \<Rightarrow> http_response \<Rightarrow> py_exc + candidate" where
  "interpret_probe url resp =
     (if rs_status resp \<in> {401, 403}
      then Inr \<lparr>ca_url = url, ca_backend_type = None, ca_version = None, ca_status = ''needs_auth'',
        ca_message = Some ''Backend responded but requires authentication. Use this URL and fill in the credentials on the next step.''\<rparr>
      else if rs_status resp \<noteq> 200
      then Inr (unreachable url None (''Unexpected status '' @ str_of_int (rs_status resp) @ ''.''))
      else (case rs_json resp of
          None \<Rightarrow> Inr (unreachable url None ''Response was not JSON - this is probably not a search backend.'')
        | Some v \<Rightarrow> interpret_body url (or_default v (JDict []))))"

text \<open>\<open>get\<close> is one request without credentials: the text of an exception, or a response.\<close>

definition probe_one :: "(string \<Rightarrow> string + http_response) \<Rightarrow> string \<Rightarrow> py_exc + candidate" where
  "probe_one get url =
     (if fst (split_scheme (clean_url url)) \<notin> {''http'', ''https''}
      then Inr (unreachable url None ''Unsupported URL scheme'')
      else (case get url of Inl e \<Rightarrow> Inr (unreachable url None e) | Inr resp \<Rightarrow> interpret_probe url resp))"

text \<open>The pool keeps the order of the addresses; an exception of one probe is the exception of the discovery.\<close>

definition discover_backend_candidates ::
  "os \<Rightarrow> (string \<Rightarrow> string + http_response) \<Rightarrow> string list option \<Rightarrow> py_exc + candidate list"
where
  "discover_backend_candidates s get urls =
     traverse_r (probe_one get) (case urls of Some us \<Rightarrow> us | None \<Rightarrow> candidate_urls s)"

section \<open>A draft comes back\<close>

text \<open>What storing and loading does to a draft: empty parts come back as the defaults.\<close>

definition drop_empty :: "doc option \<Rightarrow> doc option" where
  "drop_empty x = (if x = Some [] then None else x)"

definition reopened :: "setup_draft \<Rightarrow> setup_draft" where
  "reopened dr = dr\<lparr>
     wd_backend := if wd_backend dr = [] then wd_backend new_draft else wd_backend dr,
     wd_source := if wd_source dr = [] then wd_source new_draft else wd_source dr,
     wd_schema_profile := if wd_schema_profile dr = [] then ''library'' else wd_schema_profile dr,
     wd_security_profile := if wd_security_profile dr = [] then ''prudent'' else wd_security_profile dr,
     wd_public_mode := if wd_public_mode dr = [] then ''anonymous_allowed'' else wd_public_mode dr,
     wd_exposure := map (\<lambda>(k, vs). (k, exposed (wd_exposure dr) k vs)) exposure_catalog,
     wd_first_key := drop_empty (wd_first_key dr), wd_test_result := drop_empty (wd_test_result dr)\<rparr>"

lemma as_dict_or: "as_dict (or_default (JDict d) (JDict e)) = Inr (if d = [] then e else d)"
  by (simp add: as_dict_def or_default_def)

lemma py_iter_or: "py_iter (or_default (JList xs) (JList ys)) = Inr (if xs = [] then ys else xs)"
  by (simp add: py_iter_def or_default_def)

lemma json_str_or: "json_str (or_default (JStr s) (JStr t)) = (if s = [] then t else s)"
  by (simp add: json_str_def or_default_def)

lemma optional_dict_or_none: "jget p k = dict_or_none x \<Longrightarrow> optional_dict p k = Inr (drop_empty x)"
  by (cases x) (simp_all add: optional_dict_def dict_or_none_def drop_empty_def as_dict_def)

lemma jget_map_JList: "jget (map (\<lambda>(k, v). (k, JList v)) e) k = (case dict_get e k of None \<Rightarrow> JNull | Some v \<Rightarrow> JList v)"
  by (induction e) (auto simp: jget_def)

lemma exposure_back:
  "map_r (Pair k) (py_iter (entry_or (map (\<lambda>(k, v). (k, JList v)) e) k (JList (map JStr vs)))) = Inr (k, exposed e k vs)"
  by (cases "dict_get e k") (simp_all add: entry_or_def jget_map_JList exposed_def py_iter_or or_default_def py_iter_def)

lemma traverse_exposure:
  "traverse_r (\<lambda>(k, v). map_r (Pair k) (py_iter (entry_or (map (\<lambda>(k, v). (k, JList v)) e) k (JList v))))
     (map (\<lambda>(k, vs). (k, map JStr vs)) cat) = Inr (map (\<lambda>(k, vs). (k, exposed e k vs)) cat)"
  by (induction cat) (auto simp: exposure_back)

lemma traverse_as_dict:
  "traverse_r (\<lambda>(k, v). map_r (Pair k) (as_dict v)) (map (\<lambda>(k, v). (k, JDict v)) m) = Inr m"
  by (induction m) (auto simp: as_dict_def)

lemma draft_back: "draft_from_json (draft_to_json dr) = Inr (reopened dr)"
proof -
  let ?p = "draft_to_json dr"
  have get: "jget ?p ''backend'' = JDict (wd_backend dr)" "jget ?p ''source'' = JDict (wd_source dr)"
    "jget ?p ''detected_version'' = wd_detected_version dr" "jget ?p ''available_indices'' = JList (wd_available_indices dr)"
    "jget ?p ''available_fields'' = JDict (wd_available_fields dr)"
    "jget ?p ''mapping'' = JDict (map (\<lambda>(k, v). (k, JDict v)) (wd_mapping dr))"
    "jget ?p ''schema_profile'' = JStr (wd_schema_profile dr)" "jget ?p ''security_profile'' = JStr (wd_security_profile dr)"
    "jget ?p ''public_mode'' = JStr (wd_public_mode dr)"
    "jget ?p ''exposure'' = JDict (map (\<lambda>(k, v). (k, JList v)) (wd_exposure dr))"
    "jget ?p ''first_key'' = dict_or_none (wd_first_key dr)" "jget ?p ''test_result'' = dict_or_none (wd_test_result dr)"
    by (simp_all add: draft_to_json_def jget_def)
  let ?e = "map (\<lambda>(k, v). (k, JList v)) (wd_exposure dr)"
  have steps: "as_dict (entry_or ?p ''exposure'' (JDict [])) = Inr ?e"
    "as_dict (entry_or ?p ''backend'' (JDict (wd_backend new_draft))) = Inr (wd_backend (reopened dr))"
    "as_dict (entry_or ?p ''source'' (JDict (wd_source new_draft))) = Inr (wd_source (reopened dr))"
    "py_iter (entry_or ?p ''available_indices'' (JList [])) = Inr (wd_available_indices dr)"
    "as_dict (entry_or ?p ''available_fields'' (JDict [])) = Inr (wd_available_fields dr)"
    "as_dict (entry_or ?p ''mapping'' (JDict [])) = Inr (map (\<lambda>(k, v). (k, JDict v)) (wd_mapping dr))"
    unfolding entry_or_def get as_dict_or py_iter_or by (simp_all add: reopened_def)
  have texts: "json_str (entry_or ?p ''schema_profile'' (JStr ''library'')) = wd_schema_profile (reopened dr)"
    "json_str (entry_or ?p ''security_profile'' (JStr ''prudent'')) = wd_security_profile (reopened dr)"
    "json_str (entry_or ?p ''public_mode'' (JStr ''anonymous_allowed'')) = wd_public_mode (reopened dr)"
    unfolding entry_or_def get json_str_or by (simp_all add: reopened_def)
  have exposure: "traverse_r (\<lambda>(k, v). map_r (Pair k) (py_iter (entry_or ?e k (JList v)))) default_exposure =
      Inr (wd_exposure (reopened dr))"
    unfolding default_exposure_def traverse_exposure by (simp add: reopened_def)
  have dicts: "optional_dict ?p ''first_key'' = Inr (drop_empty (wd_first_key dr))"
    "optional_dict ?p ''test_result'' = Inr (drop_empty (wd_test_result dr))"
    using get by (simp_all only: optional_dict_or_none)
  show ?thesis
    unfolding draft_from_json_def steps bind_r_simps exposure traverse_as_dict dicts texts get
    by (cases dr) (simp add: reopened_def)
qed

text \<open>No facet chosen is stored as no facet, and read back as all of them.\<close>

lemma no_facets_means_all:
  assumes "dict_get (wd_exposure dr) ''allowed_facets'' = Some []"
  shows "map_r (\<lambda>d. dict_get (wd_exposure d) ''allowed_facets'') (draft_from_json (draft_to_json dr)) =
    Inr (Some (map JStr [''type'', ''language'', ''collection'', ''institution'', ''subject'']))"
  using assms by (simp add: draft_back reopened_def exposure_catalog_def exposed_def)

section \<open>What the wizard proposes\<close>

lemma dict_get_set_mem: "dict_get (dict_set k v d) k' = Some x \<Longrightarrow> (k' = k \<and> x = v) \<or> dict_get d k' = Some x"
  by (auto simp: dict_get_set split: if_split_asm)

lemma lower_map_values: "dict_get (lower_map available) k = Some name \<Longrightarrow> name \<in> set (dict_keys available)"
proof (induction available rule: rev_induct)
  case Nil
  then show ?case by (simp add: lower_map_def dict_of_def)
next
  case (snoc p available)
  then have "dict_get (dict_set (py_lower (fst p)) (fst p) (lower_map available)) k = Some name"
    by (simp add: lower_map_def dict_of_def split_beta)
  then show ?case using snoc.IH dict_get_set_mem by fastforce
qed

lemma first_hint_field: "first_hint (lower_map available) hs = Some name \<Longrightarrow> name \<in> set (dict_keys available)"
  by (induction hs) (auto split: option.split_asm dest: lower_map_values)

text \<open>Every proposed rule reads a field the index has, and nothing is proposed for the custom profile.\<close>

lemma proposed_rules_read_fields:
  assumes "(public_name, rule) \<in> set (propose_mapping available profile)"
  shows "\<exists>field t. (field, t) \<in> set available \<and> rule = proposed_rule public_name field"
  using assms by (auto simp: propose_mapping_def Let_def map_filter_def split: option.split_asm if_split_asm
      dest!: first_hint_field lower_map_values) metis+

lemma custom_proposes_nothing: "propose_mapping available ''custom'' = []"
  by (simp add: propose_mapping_def hints_by_profile_def Let_def map_filter_simps)

section \<open>What discovery offers\<close>

lemma judged_ok:
  assumes "ca_status (judge_version url version kind) = ''ok''"
  shows "kind \<noteq> None \<and> (version \<noteq> [] \<and> kind = Some ''elasticsearch'' \<longrightarrow> 7 \<le> probe_major version) \<and>
    (version \<noteq> [] \<and> kind = Some ''opensearch'' \<longrightarrow> 1 \<le> probe_major version)"
  using assms by (auto simp: judge_version_def too_old_def unreachable_def split: if_split_asm)

lemma traverse_r_stops:
  assumes "f x = Inl e" "x \<in> set xs" "\<And>y e'. y \<in> set xs \<Longrightarrow> f y = Inl e' \<Longrightarrow> e' = e"
  shows "traverse_r f xs = Inl e"
  using assms(2,3)
proof (induction xs)
  case (Cons y ys)
  show ?case
  proof (cases "f y")
    case (Inl e')
    then show ?thesis using Cons.prems(2) [of y e'] by simp
  next
    case (Inr b)
    then have "x \<in> set ys" using Cons.prems(1) assms(1) by auto
    then have "traverse_r f ys = Inl e" by (rule Cons.IH) (rule Cons.prems(2), auto)
    then show ?thesis using Inr by simp
  qed
qed simp

text \<open>One address that answers with a JSON list, or with a version that is not an object, ends the whole discovery.\<close>

lemma list_answer_ends_discovery:
  assumes "fst (split_scheme (clean_url url)) \<in> {''http'', ''https''}" "get url = Inr resp" "rs_status resp = 200"
    "rs_json resp = Some (JList (x # xs))" "url \<in> set urls" "\<And>u e. u \<in> set urls \<Longrightarrow> probe_one get u = Inl e \<Longrightarrow> e = ExRaw ''AttributeError''"
  shows "discover_backend_candidates s get (Some urls) = Inl (ExRaw ''AttributeError'')"
proof -
  have "probe_one get url = Inl (ExRaw ''AttributeError'')"
    using assms(1-4) by (auto simp: probe_one_def interpret_probe_def interpret_body_def dict_or_raise_def or_default_def)
  then have "traverse_r (probe_one get) urls = Inl (ExRaw ''AttributeError'')"
    using assms(5,6) by (rule traverse_r_stops)
  then show ?thesis by (simp add: discover_backend_candidates_def)
qed

text \<open>A version that is not a number counts as too old here; the adapter's own check lets it pass.\<close>

lemma odd_version_is_too_old:
  "ca_status (judge_version url ''next'' (Some ''elasticsearch'')) = ''unsupported_version''"
proof -
  have "probe_major ''next'' = 0" by code_simp
  then show ?thesis by (simp add: judge_version_def too_old_def)
qed

section \<open>What is published\<close>

lemmas loaded_blocks = load_cors_dump load_cache_dump load_rate_limit_dump load_proxy_dump

lemma or_str_literal: "literal name xs (or_str s dflt) = Inr x \<Longrightarrow> name x = (if s = [] then dflt else s)"
  by (auto simp: literal_def or_str_def find_Some_iff split: option.split_asm if_split_asm)

lemma or_str_leaf: "leaves_lawful L \<Longrightarrow> lf_str L (or_str s dflt) = Inr (if s = [] then dflt else s)"
  by (simp add: or_str_def leaf_rules)

lemma load_app_config_Inr:
  assumes "load_app_config L (JDict d) = Inr c"
  shows "config_ok c"
    "read_key d ''backend'' (load_backend L) (ac_backend default_app_config) = Inr (ac_backend c)"
    "read_key d ''storage'' (load_storage L) (ac_storage default_app_config) = Inr (ac_storage c)"
    "read_key d ''schema_profile'' (literal schema_profile_str schema_profiles) (ac_schema_profile default_app_config) = Inr (ac_schema_profile c)"
    "read_key d ''default_language'' (optional (literal (\<lambda>s. s) [''en'', ''fr''])) (ac_default_language default_app_config) = Inr (ac_default_language c)"
    "read_key d ''security_profile'' (lf_str L) (ac_security_profile default_app_config) = Inr (ac_security_profile c)"
    "read_key d ''profiles'' (dict_values_of (load_security_profile L)) (ac_profiles default_app_config) = Inr (ac_profiles c)"
    "read_key d ''auth'' (load_auth L) (ac_auth default_app_config) = Inr (ac_auth c)"
    "read_key d ''proxy'' (load_proxy L) (ac_proxy default_app_config) = Inr (ac_proxy c)"
    "read_key d ''cors'' (load_cors L) (ac_cors default_app_config) = Inr (ac_cors c)"
    "read_key d ''cache'' (load_cache L) (ac_cache default_app_config) = Inr (ac_cache c)"
    "read_key d ''rate_limit'' (load_rate_limit L) (ac_rate_limit default_app_config) = Inr (ac_rate_limit c)"
    "read_key d ''allowed_sorts'' (list_of (lf_str L)) (ac_allowed_sorts default_app_config) = Inr (ac_allowed_sorts c)"
    "read_key d ''allowed_facets'' (list_of (lf_str L)) (ac_allowed_facets default_app_config) = Inr (ac_allowed_facets c)"
    "read_key d ''allowed_include_fields'' (list_of (lf_str L)) (ac_allowed_include_fields default_app_config) = Inr (ac_allowed_include_fields c)"
    "read_key d ''mapping'' (dict_values_of (load_field_mapping L)) (ac_mapping default_app_config) = Inr (ac_mapping c)"
  using assms unfolding load_app_config_def
  by (auto simp: egg_simps strict_dict_def validate_app_config_iff split: if_split_asm)

text \<open>The blocks that the wizard does not ask about, and what becomes of them.\<close>

definition kept_blocks :: "app_config \<Rightarrow> app_config \<Rightarrow> bool" where
  "kept_blocks c preserve \<longleftrightarrow>
     ac_profiles c = ac_profiles preserve \<and> ac_proxy c = ac_proxy preserve \<and> ac_cors c = ac_cors preserve \<and>
     ac_cache c = ac_cache preserve \<and> ac_rate_limit c = ac_rate_limit preserve \<and>
     st_sqlite_path (ac_storage c) = st_sqlite_path (ac_storage preserve) \<and>
     au_admin_cookie_secure (ac_auth c) = au_admin_cookie_secure (ac_auth preserve) \<and>
     au_admin_cookie_samesite (ac_auth c) = au_admin_cookie_samesite (ac_auth preserve) \<and>
     au_admin_session_ttl_hours (ac_auth c) = au_admin_session_ttl_hours (ac_auth preserve)"

definition reset_blocks :: "app_config \<Rightarrow> bool" where
  "reset_blocks c \<longleftrightarrow>
     ac_default_language c = None \<and> au_bootstrap_admin_key (ac_auth c) = [] \<and>
     au_admin_session_idle_timeout_minutes (ac_auth c) = 15 \<and> au_public_401_lockout_threshold (ac_auth c) = 20 \<and>
     au_public_401_lockout_window_seconds (ac_auth c) = 300 \<and> st_usage_events_retention_days (ac_storage c) = 30 \<and>
     st_purge_interval_seconds (ac_storage c) = 3600"

definition chosen :: "string \<Rightarrow> string \<Rightarrow> string" where
  "chosen s dflt = (if s = [] then dflt else s)"

lemma draft_to_config_facts:
  assumes "draft_to_config L dr preserve = Inr c" "leaves_lawful L"
  shows "config_ok c \<and> public_mode_str (au_public_mode (ac_auth c)) = chosen (wd_public_mode dr) (public_mode_str (au_public_mode (ac_auth preserve))) \<and>
    ac_security_profile c = chosen (wd_security_profile dr) (ac_security_profile preserve) \<and>
    schema_profile_str (ac_schema_profile c) = chosen (wd_schema_profile dr) (schema_profile_str (ac_schema_profile preserve)) \<and>
    kept_blocks c preserve \<and> reset_blocks c"
proof -
  note L = assms(2)
  obtain d where d: "draft_payload L dr preserve = JDict d" by (simp add: draft_payload_def Let_def)
  then have "load_app_config L (JDict d) = Inr c" using assms(1) by (simp add: draft_to_config_def)
  note eqs = load_app_config_Inr [OF this]
  have get: "read_key d ''storage'' f x = f (JDict [(''sqlite_path'', JStr (st_sqlite_path (ac_storage preserve)))])"
    "read_key d ''profiles'' f2 x2 = f2 (JDict (map (\<lambda>(k, x). (k, dump_security_profile x)) (ac_profiles preserve)))"
    "read_key d ''proxy'' f3 x3 = f3 (dump_proxy (ac_proxy preserve))" "read_key d ''cors'' f4 x4 = f4 (dump_cors (ac_cors preserve))"
    "read_key d ''cache'' f5 x5 = f5 (dump_cache (ac_cache preserve))"
    "read_key d ''rate_limit'' f6 x6 = f6 (dump_rate_limit (ac_rate_limit preserve))"
    "read_key d ''default_language'' f7 x7 = Inr x7"
    "read_key d ''schema_profile'' f8 x8 = f8 (or_str (wd_schema_profile dr) (schema_profile_str (ac_schema_profile preserve)))"
    "read_key d ''security_profile'' f9 x9 = f9 (or_str (wd_security_profile dr) (ac_security_profile preserve))"
    "read_key d ''auth'' f10 x10 = f10 (JDict
          [(''public_mode'', or_str (wd_public_mode dr) (public_mode_str (au_public_mode (ac_auth preserve)))),
           (''admin_cookie_secure'', JBool (au_admin_cookie_secure (ac_auth preserve))),
           (''admin_cookie_samesite'', JStr (same_site_str (au_admin_cookie_samesite (ac_auth preserve)))),
           (''admin_session_ttl_hours'', JInt (au_admin_session_ttl_hours (ac_auth preserve)))])"
    for f f2 f3 f4 f5 f6 f7 f8 f9 f10 x x2 x3 x4 x5 x6 x7 x8 x9 x10
    using d by (auto simp: draft_payload_def Let_def read_key_def)
  note got = eqs(2-) [unfolded get]
  have storage: "ac_storage c = default_storage_config\<lparr>st_sqlite_path := st_sqlite_path (ac_storage preserve)\<rparr>"
    using got(2) by (auto simp: load_storage_def codec_simps leaf_rules [OF L] default_storage_config_def)
  obtain mode where mode: "public_mode_str mode = chosen (wd_public_mode dr) (public_mode_str (au_public_mode (ac_auth preserve)))"
    and auth: "ac_auth c = default_auth_config\<lparr>au_public_mode := mode, au_admin_cookie_secure := au_admin_cookie_secure (ac_auth preserve),
      au_admin_cookie_samesite := au_admin_cookie_samesite (ac_auth preserve),
      au_admin_session_ttl_hours := au_admin_session_ttl_hours (ac_auth preserve)\<rparr>"
    using got(7) by (auto simp: load_auth_def codec_simps leaf_rules [OF L] default_auth_config_def egg_simps chosen_def
        dest!: or_str_literal)
  have "ac_profiles c = ac_profiles preserve" "ac_proxy c = ac_proxy preserve" "ac_cors c = ac_cors preserve"
    "ac_cache c = ac_cache preserve" "ac_rate_limit c = ac_rate_limit preserve"
    using got(6,8-11) load_proxy_dump [OF L] load_cors_dump [OF L] load_cache_dump [OF L] load_rate_limit_dump [OF L]
      dict_values_of_dump [where f = dump_security_profile and decode = "load_security_profile L", OF load_security_profile_dump, OF L]
    by simp_all
  moreover have "ac_security_profile c = chosen (wd_security_profile dr) (ac_security_profile preserve)"
    using got(5) or_str_leaf [OF L] by (simp add: chosen_def)
  moreover have "schema_profile_str (ac_schema_profile c) = chosen (wd_schema_profile dr) (schema_profile_str (ac_schema_profile preserve))"
    using or_str_literal [OF got(3)] by (simp add: chosen_def)
  moreover have "ac_default_language c = None" using got(4) by (simp add: default_app_config_def)
  ultimately show ?thesis
    using eqs(1) storage auth mode by (simp add: kept_blocks_def reset_blocks_def default_auth_config_def default_storage_config_def)
qed

text \<open>C38. A draft that becomes a configuration becomes a valid one, with the access mode, the security profile and the schema profile
  chosen in the draft and, of the active configuration, the profiles, proxy, CORS, cache and rate limits, the
  database and the cookie settings; the bootstrap key, the idle timeout, the lockout, the retention and the
  language fall back to the defaults.\<close>

theorem draft_to_config_outcome:
  assumes "draft_to_config L dr preserve = Inr c" "leaves_lawful L"
  shows "config_ok c \<and> public_mode_str (au_public_mode (ac_auth c)) = chosen (wd_public_mode dr) (public_mode_str (au_public_mode (ac_auth preserve))) \<and>
    ac_security_profile c = chosen (wd_security_profile dr) (ac_security_profile preserve) \<and>
    schema_profile_str (ac_schema_profile c) = chosen (wd_schema_profile dr) (schema_profile_str (ac_schema_profile preserve)) \<and>
    kept_blocks c preserve \<and> reset_blocks c"
  using assms by (rule draft_to_config_facts)

definition demo_draft :: setup_draft where
  "demo_draft = new_draft\<lparr>wd_backend := [(''url'', JStr ''http://es:9200'')], wd_source := [(''index'', JStr ''records'')],
     wd_mapping := [(''id'', [(''source'', JStr ''_id'')])], wd_public_mode := ''api_key_required''\<rparr>"

lemma demo_draft_published: "\<exists>c. draft_to_config demo_leaves demo_draft default_app_config = Inr c"
proof -
  have "(case draft_to_config demo_leaves demo_draft default_app_config of Inl e \<Rightarrow> False | Inr c \<Rightarrow> True)" by code_simp
  then show ?thesis by (auto split: sum.splits)
qed

lemma draft_to_config_outcome_witness:
  "\<exists>c. draft_to_config demo_leaves demo_draft default_app_config = Inr c \<and> config_ok c \<and>
     public_mode_str (au_public_mode (ac_auth c)) = ''api_key_required'' \<and> reset_blocks c"
proof -
  obtain c where c: "draft_to_config demo_leaves demo_draft default_app_config = Inr c" using demo_draft_published by blast
  show ?thesis
    using c draft_to_config_outcome [OF c demo_leaves_lawful] by (auto simp: chosen_def demo_draft_def new_draft_def)
qed

end
