(* ===== verification/Py_Form.thy ===== *)
theory Py_Form
  imports Egg_Prelude Py_Json
begin

text \<open>
  \<open>urllib.parse.parse_qs(text, keep_blank_values=True)\<close>, which reads the forms of the admin pages. The decoding
  of UTF-8 with replacement characters is the argument \<open>utf8\<close>.
\<close>

section \<open>Percent decoding\<close>

definition hex_char :: "char \<Rightarrow> bool" where
  "hex_char c = (c \<in> set ''0123456789abcdefABCDEF'')"

definition hex_digit_of :: "char \<Rightarrow> nat" where
  "hex_digit_of c = (let n = (of_char c :: nat) in if n < 58 then n - 48 else if n < 71 then n - 55 else n - 87)"

fun unquote_to_bytes :: "string \<Rightarrow> string" where
  "unquote_to_bytes (p # a # b # s) =
     (if p = CHR ''%'' \<and> hex_char a \<and> hex_char b
      then char_of (16 * hex_digit_of a + hex_digit_of b) # unquote_to_bytes s
      else p # unquote_to_bytes (a # b # s))"
| "unquote_to_bytes s = s"

definition ascii_char :: "char \<Rightarrow> bool" where
  "ascii_char c = ((of_char c :: nat) < 128)"

text \<open>The runs of ASCII characters are unquoted and decoded, the others are kept.\<close>

function unquote_runs :: "(string \<Rightarrow> string) \<Rightarrow> string \<Rightarrow> string" where
  "unquote_runs utf8 [] = []"
| "unquote_runs utf8 (c # s) =
     (if ascii_char c
      then utf8 (unquote_to_bytes (c # takeWhile ascii_char s)) @ unquote_runs utf8 (dropWhile ascii_char s)
      else c # unquote_runs utf8 s)"
  by pat_completeness auto
termination by (relation "measure (\<lambda>(u, s). length s)") (auto simp: le_imp_less_Suc length_dropWhile_le)

definition unquote :: "(string \<Rightarrow> string) \<Rightarrow> string \<Rightarrow> string" where
  "unquote utf8 s = (if CHR ''%'' \<in> set s then unquote_runs utf8 s else s)"

section \<open>Forms\<close>

definition unplus :: "string \<Rightarrow> string" where
  "unplus s = map (\<lambda>c. if c = CHR ''+'' then CHR '' '' else c) s"

definition form_pair :: "(string \<Rightarrow> string) \<Rightarrow> string \<Rightarrow> string \<times> string" where
  "form_pair utf8 piece =
     (let (name, found, v) = partition_char (CHR ''='') piece in (unquote utf8 (unplus name), unquote utf8 (unplus v)))"

definition parse_qsl :: "(string \<Rightarrow> string) \<Rightarrow> string \<Rightarrow> (string \<times> string) list" where
  "parse_qsl utf8 text = map (form_pair utf8) (filter (\<lambda>piece. piece \<noteq> []) (split_char (CHR ''&'') text))"

type_synonym form = "(string \<times> string list) list"

definition parse_qs :: "(string \<Rightarrow> string) \<Rightarrow> string \<Rightarrow> form" where
  "parse_qs utf8 text =
     fold (\<lambda>(name, v) f. dict_set name ((case dict_get f name of None \<Rightarrow> [] | Some vs \<Rightarrow> vs) @ [v]) f)
       (parse_qsl utf8 text) []"

section \<open>What a form holds\<close>

text \<open>The values under a name are those of its pairs, in order.\<close>

lemma parse_qs_get:
  "dict_get (parse_qs utf8 text) k =
     (let vs = map snd (filter (\<lambda>p. fst p = k) (parse_qsl utf8 text)) in if vs = [] then None else Some vs)"
proof -
  define add :: "string \<times> string \<Rightarrow> form \<Rightarrow> form" where "add = (\<lambda>(name, v) f. dict_set name ((case dict_get f name of None \<Rightarrow> [] | Some vs \<Rightarrow> vs) @ [v]) f)"
  define pre where "pre f = (case dict_get f k of None \<Rightarrow> [] | Some vs \<Rightarrow> vs)" for f :: form
  have "dict_get (fold add ps f) k =
      (let vs = pre f @ map snd (filter (\<lambda>p. fst p = k) ps) in if dict_get f k = None \<and> vs = [] then None else Some vs)" for ps f
  proof (induction ps arbitrary: f)
    case Nil
    then show ?case by (simp add: pre_def Let_def split: option.splits)
  next
    case (Cons p ps)
    then show ?case by (cases p) (auto simp: add_def pre_def Let_def split: option.splits)
  qed
  from this [of "parse_qsl utf8 text" "[]"] show ?thesis by (simp add: parse_qs_def add_def pre_def)
qed

lemma parse_qs_nonempty: "dict_get (parse_qs utf8 text) k = Some vs \<Longrightarrow> vs \<noteq> []"
  by (auto simp: parse_qs_get Let_def split: if_split_asm)

end
