(* ===== verification/Admin_Site.thy ===== *)
theory Admin_Site
  imports Setup_Wizard Scheduler Py_Form
begin

text \<open>
  \<^verbatim>\<open>app/admin_ui/auth.py\<close> and the frame of \<^verbatim>\<open>app/admin_ui/routes.py\<close>: the sessions of the admin pages, the CSRF
  token, the rendering of a page, and the guard in front of every form. The site is the container with what the
  handlers reach beyond it: the peers and the sink of imports, the Redis server, and how often the clock and the
  source of random tokens were read. A page is the name of its template with the values passed to it.
\<close>

section \<open>The site\<close>

record ('h, 'b, 'c) site =
  si_ct :: container
  si_http :: 'h
  si_sink :: 'b
  si_redis :: 'c
  si_reads :: nat
  si_draws :: nat

record ('h, 'b, 'c) site_env =
  se_platform :: platform
  se_pick :: "api_key_row list \<Rightarrow> api_key_row"
  se_clock :: "nat \<Rightarrow> nat"
  se_time :: "nat \<Rightarrow> rat"
  se_token :: "nat \<Rightarrow> string"
  se_csrf_key :: string
  se_utf8 :: "string \<Rightarrow> string"
  se_redis :: "'c \<Rightarrow> string \<Rightarrow> int \<Rightarrow> 'c \<times> int option"
  se_import :: "'h import_env"
  se_bulk :: "es_adapter \<Rightarrow> 'b sink"
  se_backend :: http_env
  se_context :: "(string \<times> json) list"
  se_probe :: "string \<Rightarrow> string + http_response"

abbreviation se_crypto :: "('h, 'b, 'c) site_env \<Rightarrow> crypto" where
  "se_crypto E \<equiv> pf_crypto (se_platform E)"

abbreviation site_config :: "('h, 'b, 'c) site \<Rightarrow> app_config" where
  "site_config s \<equiv> current_config (si_ct s)"

abbreviation site_keys :: "('h, 'b, 'c) site \<Rightarrow> key_manager" where
  "site_keys s \<equiv> cs_keys (ct_state (si_ct s))"

abbreviation site_db :: "('h, 'b, 'c) site \<Rightarrow> db" where
  "site_db s \<equiv> current_db (si_ct s)"

definition put_keys :: "key_manager \<Rightarrow> ('h, 'b, 'c) site \<Rightarrow> ('h, 'b, 'c) site" where
  "put_keys m s = s\<lparr>si_ct := (si_ct s)\<lparr>ct_state := (ct_state (si_ct s))\<lparr>cs_keys := m\<rparr>\<rparr>\<rparr>"

definition put_db :: "db \<Rightarrow> ('h, 'b, 'c) site \<Rightarrow> ('h, 'b, 'c) site" where
  "put_db d s = put_keys ((site_keys s)\<lparr>km_db := d\<rparr>) s"

definition tick :: "('h, 'b, 'c) site \<Rightarrow> ('h, 'b, 'c) site" where
  "tick s = s\<lparr>si_reads := Suc (si_reads s)\<rparr>"

definition draw :: "('h, 'b, 'c) site \<Rightarrow> ('h, 'b, 'c) site" where
  "draw s = s\<lparr>si_draws := Suc (si_draws s)\<rparr>"

abbreviation clock_now :: "('h, 'b, 'c) site_env \<Rightarrow> ('h, 'b, 'c) site \<Rightarrow> nat" where
  "clock_now E s \<equiv> se_clock E (si_reads s)"

abbreviation next_token :: "('h, 'b, 'c) site_env \<Rightarrow> ('h, 'b, 'c) site \<Rightarrow> string" where
  "next_token E s \<equiv> se_token E (si_draws s)"

text \<open>\<open>limiter.allow(subject)\<close> of either limiter.\<close>

definition limiter_allow ::
  "('c \<Rightarrow> string \<Rightarrow> int \<Rightarrow> 'c \<times> int option) \<Rightarrow> limiter \<Rightarrow> 'c \<Rightarrow> rat \<Rightarrow> string \<Rightarrow> limiter \<times> 'c \<times> bool"
where
  "limiter_allow exec l c t subject =
     (case l of
        InMemory m \<Rightarrow> (case mem_allow m t subject of (m', ok) \<Rightarrow> (InMemory m', c, ok))
      | Redis r \<Rightarrow> (case redis_allow exec r c t subject of (c', ok) \<Rightarrow> (Redis r, c', ok)))"

section \<open>Requests and pages\<close>

text \<open>The body is the raw one; the session is the cookie of its name.\<close>

record ui_request =
  ur_client :: "string option"
  ur_session :: "string option"
  ur_csrf_header :: "string option"
  ur_body :: string

record shown_key =
  sk_key_id :: string
  sk_key :: string

record run_row =
  rr_source_label :: string
  rr_started_at :: string
  rr_ended_at :: "string option"
  rr_run_status :: string
  rr_ingested :: int
  rr_failed :: int
  rr_error_message :: "string option"

datatype content =
    NoContent
  | StatusPage string "(string \<times> nat) list" string path path
  | ConfigPage app_config security_profile
  | MappingPage app_config
  | KeysPage "api_key_row list" "shown_key option"
  | UsagePage "usage_event list"
  | ImportsPage "import_source list" "run_row list"
  | LandingPage bool "string option" bool
  | WizardPage setup_draft string
  | DiscoveryPage setup_draft "candidate list"
  | PublishedPage "doc option"

datatype cookie = SetSession string bool string | DropSession | SetLang string

datatype view = Redirect string | Rendered string

record reply =
  rp_status :: int
  rp_view :: view
  rp_key_id :: "string option"
  rp_csrf :: "string option"
  rp_message :: "string option"
  rp_error :: "string option"
  rp_content :: content
  rp_cookies :: "cookie list"

definition redirect :: "string \<Rightarrow> reply" where
  "redirect url = \<lparr>rp_status = 303, rp_view = Redirect url, rp_key_id = None, rp_csrf = None, rp_message = None,
     rp_error = None, rp_content = NoContent, rp_cookies = []\<rparr>"

definition with_cookie :: "cookie \<Rightarrow> reply \<Rightarrow> reply" where
  "with_cookie c r = r\<lparr>rp_cookies := rp_cookies r @ [c]\<rparr>"

text \<open>A handler: the site it leaves, and its answer or the exception that ends it.\<close>

type_synonym ('h, 'b, 'c) answer = "('h, 'b, 'c) site \<times> (py_exc + reply)"

section \<open>Sessions and CSRF\<close>

definition csrf_for_session :: "('h, 'b, 'c) site_env \<Rightarrow> string \<Rightarrow> string" where
  "csrf_for_session E session_token = cr_hmac (se_crypto E) (se_csrf_key E) session_token"

definition open_ui_session ::
  "('h, 'b, 'c) site_env \<Rightarrow> string \<Rightarrow> ('h, 'b, 'c) site \<Rightarrow> ('h, 'b, 'c) site \<times> (py_exc + string)"
where
  "open_ui_session E key_id s =
     (let s1 = draw (tick s) in
      case create_ui_session (se_crypto E) (site_db s) (clock_now E s) (next_token E s) key_id
             (au_admin_session_ttl_hours (ac_auth (site_config s))) of
        Inl e \<Rightarrow> (s1, Inl e)
      | Inr (d, token) \<Rightarrow> (put_db d s1, Inr token))"

abbreviation create_ui_session_for_key_id ::
  "('h, 'b, 'c) site_env \<Rightarrow> string \<Rightarrow> ('h, 'b, 'c) site \<Rightarrow> ('h, 'b, 'c) site \<times> (py_exc + string)"
where
  "create_ui_session_for_key_id \<equiv> open_ui_session"

definition create_ui_session_for_api_key ::
  "('h, 'b, 'c) site_env \<Rightarrow> string \<Rightarrow> ('h, 'b, 'c) site \<Rightarrow> ('h, 'b, 'c) site \<times> (py_exc + string)"
where
  "create_ui_session_for_api_key E api_key s =
     (case km_get_identity (se_crypto E) (se_pick E) (site_keys s) (clock_now E s) (Some api_key) of
        (m, None) \<Rightarrow> (put_keys m (tick s), Inl (ExApp (AppError ''invalid_api_key'' ''Invalid admin API key'' [] 401)))
      | (m, Some r) \<Rightarrow> open_ui_session E (ak_key_id r) (put_keys m (tick s)))"

definition get_ui_key_id ::
  "('h, 'b, 'c) site_env \<Rightarrow> ui_request \<Rightarrow> ('h, 'b, 'c) site \<Rightarrow> ('h, 'b, 'c) site \<times> string option"
where
  "get_ui_key_id E rq s =
     (case get_ui_session_key_id (se_crypto E) (site_db s) (clock_now E s) (ur_session rq)
             (au_admin_session_idle_timeout_minutes (ac_auth (site_config s))) of
        (d, key_id) \<Rightarrow> (put_db d (tick s), key_id))"

definition require_ui_session ::
  "('h, 'b, 'c) site_env \<Rightarrow> ui_request \<Rightarrow> ('h, 'b, 'c) site \<Rightarrow> ('h, 'b, 'c) site \<times> (py_exc + string)"
where
  "require_ui_session E rq s =
     (case get_ui_key_id E rq s of
        (s', k) \<Rightarrow> (s', if is_set k then Inr (the k)
          else Inl (ExApp (AppError ''forbidden'' ''Admin login required'' [] 403))))"

definition clear_ui_session :: "('h, 'b, 'c) site_env \<Rightarrow> ui_request \<Rightarrow> ('h, 'b, 'c) site \<Rightarrow> ('h, 'b, 'c) site" where
  "clear_ui_session E rq s = put_db (delete_ui_session (se_crypto E) (site_db s) (ur_session rq)) s"

definition get_csrf_for_request :: "('h, 'b, 'c) site_env \<Rightarrow> ui_request \<Rightarrow> string option" where
  "get_csrf_for_request E rq =
     (if is_set (ur_session rq) then Some (csrf_for_session E (the (ur_session rq))) else None)"

text \<open>\<open>hmac.compare_digest\<close> refuses texts with characters beyond ASCII.\<close>

definition compare_digest :: "string \<Rightarrow> string \<Rightarrow> py_exc + bool" where
  "compare_digest a b =
     (if (\<forall>c \<in> set a. ascii_char c) \<and> (\<forall>c \<in> set b. ascii_char c) then Inr (a = b) else Inl (ExRaw ''TypeError''))"

definition verify_csrf :: "('h, 'b, 'c) site_env \<Rightarrow> ui_request \<Rightarrow> string option \<Rightarrow> py_exc + bool" where
  "verify_csrf E rq submitted_token =
     (case get_csrf_for_request E rq of
        None \<Rightarrow> Inr False
      | Some expected \<Rightarrow> if \<not> is_set submitted_token then Inr False else compare_digest expected (the submitted_token))"

section \<open>Forms and pages\<close>

definition parsed_body :: "('h, 'b, 'c) site_env \<Rightarrow> ui_request \<Rightarrow> form" where
  "parsed_body E rq = parse_qs (se_utf8 E) (se_utf8 E (ur_body rq))"

text \<open>\<open>(await _form(request)).get(name)\<close>: the first value under a name.\<close>

definition first_value :: "form \<Rightarrow> string \<Rightarrow> string option" where
  "first_value f name = map_option (\<lambda>vs. if vs = [] then [] else hd vs) (dict_get f name)"

definition form_get :: "('h, 'b, 'c) site_env \<Rightarrow> ui_request \<Rightarrow> string \<Rightarrow> string \<Rightarrow> string" where
  "form_get E rq name dflt = (case first_value (parsed_body E rq) name of None \<Rightarrow> dflt | Some v \<Rightarrow> v)"

text \<open>\<open>(data.get(name) or dflt).strip()\<close>.\<close>

definition form_text :: "('h, 'b, 'c) site_env \<Rightarrow> ui_request \<Rightarrow> string \<Rightarrow> string \<Rightarrow> string" where
  "form_text E rq name dflt = (let v = form_get E rq name [] in py_strip (if v = [] then dflt else v))"

definition or_none :: "string \<Rightarrow> string option" where
  "or_none s = (if s = [] then None else Some s)"

definition rendered ::
  "('h, 'b, 'c) site_env \<Rightarrow> ui_request \<Rightarrow> string \<Rightarrow> int \<Rightarrow> string option \<Rightarrow> string option \<Rightarrow> content \<Rightarrow> ('h, 'b, 'c) site \<Rightarrow>
     ('h, 'b, 'c) answer"
where
  "rendered E rq template status_code message error content s =
     (case get_ui_key_id E rq s of
        (s', key_id) \<Rightarrow> (s', Inr \<lparr>rp_status = status_code, rp_view = Rendered template, rp_key_id = key_id,
           rp_csrf = get_csrf_for_request E rq, rp_message = message, rp_error = error, rp_content = content,
           rp_cookies = []\<rparr>))"

definition csrf_error_page :: "('h, 'b, 'c) site_env \<Rightarrow> ui_request \<Rightarrow> ('h, 'b, 'c) site \<Rightarrow> ('h, 'b, 'c) answer" where
  "csrf_error_page E rq s = rendered E rq ''error.html'' 403 None
     (Some ''CSRF check failed. Reload the page and retry. If the problem persists, sign in again.'') NoContent s"

text \<open>The token of the form field, or else of the header.\<close>

definition submitted_csrf :: "('h, 'b, 'c) site_env \<Rightarrow> ui_request \<Rightarrow> string option" where
  "submitted_csrf E rq =
     (case first_value (parsed_body E rq) ''csrf_token'' of
        Some (c # t) \<Rightarrow> Some (c # t)
      | _ \<Rightarrow> ur_csrf_header rq)"

text \<open>\<open>_enforce_csrf\<close>, and the rest of the handler when it accepts the token.\<close>

definition enforce_csrf ::
  "('h, 'b, 'c) site_env \<Rightarrow> ui_request \<Rightarrow> (('h, 'b, 'c) site \<Rightarrow> ('h, 'b, 'c) answer) \<Rightarrow> ('h, 'b, 'c) site \<Rightarrow> ('h, 'b, 'c) answer"
where
  "enforce_csrf E rq k s =
     (case verify_csrf E rq (submitted_csrf E rq) of
        Inl e \<Rightarrow> (s, Inl e)
      | Inr ok \<Rightarrow> if ok then k s else csrf_error_page E rq s)"

definition login_redirect :: reply where
  "login_redirect = redirect ''/admin/login''"

text \<open>
  \<open>_require_login\<close> and \<open>_require_login_key_id\<close>, with the rest of the handler behind them. The first asks whether the
  label is a true value, the second whether there is one; no label is empty (\<open>validate_label\<close>).
\<close>

definition require_login ::
  "('h, 'b, 'c) site_env \<Rightarrow> ui_request \<Rightarrow> (('h, 'b, 'c) site \<Rightarrow> ('h, 'b, 'c) answer) \<Rightarrow> ('h, 'b, 'c) site \<Rightarrow> ('h, 'b, 'c) answer"
where
  "require_login E rq k s = (case get_ui_key_id E rq s of (s', key_id) \<Rightarrow> if is_set key_id then k s' else (s', Inr login_redirect))"

definition require_login_key_id ::
  "('h, 'b, 'c) site_env \<Rightarrow> ui_request \<Rightarrow> (string \<Rightarrow> ('h, 'b, 'c) site \<Rightarrow> ('h, 'b, 'c) answer) \<Rightarrow> ('h, 'b, 'c) site \<Rightarrow>
     ('h, 'b, 'c) answer"
where
  "require_login_key_id E rq k s =
     (case get_ui_key_id E rq s of (s', None) \<Rightarrow> (s', Inr login_redirect) | (s', Some key_id) \<Rightarrow> k key_id s')"

definition set_session_cookie :: "('h, 'b, 'c) site \<Rightarrow> string \<Rightarrow> reply \<Rightarrow> reply" where
  "set_session_cookie s token r =
     with_cookie (SetSession token (au_admin_cookie_secure (ac_auth (site_config s)))
       (same_site_str (au_admin_cookie_samesite (ac_auth (site_config s))))) r"

section \<open>What the guards let through\<close>

text \<open>
  \<open>only_touched\<close>: nothing of the site changed but the clock readings and the session table, in which no session was
  added and no session changed but for its last activity.
\<close>

definition session_ids :: "db \<Rightarrow> (string \<times> string \<times> string option) set" where
  "session_ids d = (\<lambda>r. (ss_token r, ss_key_id r, ss_expires_at r)) ` set (db_ui_sessions d)"

definition db_touched :: "db \<Rightarrow> db \<Rightarrow> bool" where
  "db_touched d d' \<longleftrightarrow> d' = d\<lparr>db_ui_sessions := db_ui_sessions d'\<rparr> \<and> session_ids d' \<subseteq> session_ids d"

definition only_touched :: "('h, 'b, 'c) site \<Rightarrow> ('h, 'b, 'c) site \<Rightarrow> bool" where
  "only_touched s s' \<longleftrightarrow> s' = put_db (site_db s') (s\<lparr>si_reads := si_reads s'\<rparr>) \<and> db_touched (site_db s) (site_db s')"

lemma site_db_put [simp]: "site_db (put_db d s) = d" "site_db (put_keys m s) = km_db m"
  by (simp_all add: put_db_def put_keys_def current_db_def)

lemma site_parts [simp]:
  "site_config (put_keys m s) = site_config s" "site_config (put_db d s) = site_config s"
  "site_config (tick s) = site_config s" "site_config (draw s) = site_config s"
  "site_db (tick s) = site_db s" "site_db (draw s) = site_db s" "site_keys (tick s) = site_keys s"
  "site_keys (draw s) = site_keys s" "site_keys (put_keys m s) = m" "si_draws (put_db d s) = si_draws s"
  "ct_epoch (si_ct (put_keys m s)) = ct_epoch (si_ct s)" "ct_epoch (si_ct (put_db d s)) = ct_epoch (si_ct s)"
  "ct_epoch (si_ct (tick s)) = ct_epoch (si_ct s)" "ct_epoch (si_ct (draw s)) = ct_epoch (si_ct s)"
  by (simp_all add: put_keys_def put_db_def tick_def draw_def current_config_def current_db_def)

lemma put_db_self: "put_db (site_db s) s = s"
  by (simp add: put_db_def put_keys_def current_db_def)

lemma db_touched_refl [simp]: "db_touched d d"
  by (simp add: db_touched_def)

lemma db_touched_trans: "db_touched d d' \<Longrightarrow> db_touched d' d'' \<Longrightarrow> db_touched d d''"
  by (cases d; cases d'; cases d'') (auto simp: db_touched_def)

lemma only_touched_refl [simp]: "only_touched s s"
  by (simp add: only_touched_def put_db_self)

lemma only_touchedI: "db_touched (site_db s) d \<Longrightarrow> only_touched s (put_db d (tick s))"
  by (simp add: only_touched_def put_db_def put_keys_def tick_def current_db_def)

lemma only_touched_trans:
  assumes "only_touched s s'" "only_touched s' s''"
  shows "only_touched s s''"
proof -
  have "s'' = put_db (site_db s'') (s'\<lparr>si_reads := si_reads s''\<rparr>)" using assms(2) by (simp only: only_touched_def)
  also have "\<dots> = put_db (site_db s'') ((put_db (site_db s') (s\<lparr>si_reads := si_reads s'\<rparr>))\<lparr>si_reads := si_reads s''\<rparr>)"
    using assms(1) unfolding only_touched_def by metis
  also have "\<dots> = put_db (site_db s'') (s\<lparr>si_reads := si_reads s''\<rparr>)" by (simp add: put_db_def put_keys_def)
  finally show ?thesis using assms db_touched_trans by (auto simp: only_touched_def)
qed

lemma touch_keeps_ids:
  "session_ids (d\<lparr>db_ui_sessions := map (\<lambda>r. if ss_token r = h then r\<lparr>ss_last_activity_at := x\<rparr> else r) (db_ui_sessions d)\<rparr>)
    = session_ids d"
proof -
  let ?f = "\<lambda>r. (ss_token r, ss_key_id r, ss_expires_at r)" and ?t = "\<lambda>r. if ss_token r = h then r\<lparr>ss_last_activity_at := x\<rparr> else r"
  have "map ?f (map ?t rs) = map ?f rs" for rs by simp
  then have "set (map ?f (map ?t (db_ui_sessions d))) = set (map ?f (db_ui_sessions d))" by (rule arg_cong)
  moreover have "db_ui_sessions (d\<lparr>db_ui_sessions := map ?t (db_ui_sessions d)\<rparr>) = map ?t (db_ui_sessions d)" by simp
  ultimately show ?thesis unfolding session_ids_def by (metis set_map)
qed

lemma drop_keeps_ids: "session_ids (drop_sessions p d) \<subseteq> session_ids d"
  by (auto simp: session_ids_def drop_sessions_def)

lemma session_lookup_touches:
  assumes "get_ui_session_key_id cr d now token idle = (d', k)"
  shows "db_touched d d'"
proof -
  have "d' = d \<or> d' = drop_sessions (\<lambda>r. ss_token r = cr_sha256 cr (the token)) d \<or>
      d' = d\<lparr>db_ui_sessions := map (\<lambda>r. if ss_token r = cr_sha256 cr (the token)
        then r\<lparr>ss_last_activity_at := Some (iso now)\<rparr> else r) (db_ui_sessions d)\<rparr>"
    using assms unfolding get_ui_session_key_id_def Let_def by (auto split: if_split_asm option.split_asm)
  then show ?thesis
    using drop_keeps_ids [of "\<lambda>r. ss_token r = cr_sha256 cr (the token)" d] touch_keeps_ids
    by (elim disjE) (simp_all add: db_touched_def drop_sessions_def)
qed

lemma get_ui_key_id_touches: "get_ui_key_id E rq s = (s', k) \<Longrightarrow> only_touched s s'"
  by (auto simp: get_ui_key_id_def intro: only_touchedI session_lookup_touches split: prod.split_asm)

lemma rendered_touches:
  assumes "rendered E rq t st m e c s = (s', r)"
  shows "only_touched s s'" "\<exists>x. r = Inr x \<and> rp_status x = st \<and> rp_view x = Rendered t \<and> rp_content x = c \<and>
    rp_error x = e \<and> rp_message x = m \<and> rp_cookies x = []"
  using assms by (auto simp: rendered_def intro: get_ui_key_id_touches split: prod.split_asm)

text \<open>Who is signed in when the request arrives, and whether it carries the token of that session.\<close>

definition signed_in :: "('h, 'b, 'c) site_env \<Rightarrow> ui_request \<Rightarrow> ('h, 'b, 'c) site \<Rightarrow> string option" where
  "signed_in E rq s = snd (get_ui_key_id E rq s)"

definition csrf_ok :: "('h, 'b, 'c) site_env \<Rightarrow> ui_request \<Rightarrow> bool" where
  "csrf_ok E rq \<longleftrightarrow> verify_csrf E rq (submitted_csrf E rq) = Inr True"

lemma csrf_ok_iff:
  assumes "csrf_ok E rq"
  shows "\<exists>token. ur_session rq = Some token \<and> token \<noteq> [] \<and> submitted_csrf E rq = Some (csrf_for_session E token)"
proof -
  have "is_set (ur_session rq)" "is_set (submitted_csrf E rq)"
    "compare_digest (csrf_for_session E (the (ur_session rq))) (the (submitted_csrf E rq)) = Inr True"
    using assms by (auto simp: csrf_ok_def verify_csrf_def get_csrf_for_request_def split: if_split_asm)
  then show ?thesis
    by (auto simp: compare_digest_def split: if_split_asm)
qed

text \<open>The answers of a guard that stops a request.\<close>

definition turned_away :: "py_exc + reply \<Rightarrow> bool" where
  "turned_away r \<longleftrightarrow>
     r = Inr login_redirect \<or> r = Inl (ExRaw ''TypeError'') \<or>
     (\<exists>x. r = Inr x \<and> rp_status x = 403 \<and> rp_view x = Rendered ''error.html'' \<and> rp_content x = NoContent \<and> rp_cookies x = [])"

lemma verify_csrf_raises: "verify_csrf E rq t = Inl e \<Longrightarrow> e = ExRaw ''TypeError''"
  by (auto simp: verify_csrf_def compare_digest_def split: option.split_asm if_split_asm)

lemma csrf_page_turns_away:
  assumes "csrf_error_page E rq s = (s', r)"
  shows "only_touched s s' \<and> turned_away r"
  using rendered_touches [OF assms [unfolded csrf_error_page_def]] by (auto simp: turned_away_def)

lemma enforce_csrf_stops:
  assumes "enforce_csrf E rq k s = (s', r)" "\<not> csrf_ok E rq"
  shows "only_touched s s' \<and> turned_away r"
proof (cases "verify_csrf E rq (submitted_csrf E rq)")
  case (Inl e)
  then show ?thesis using assms(1) verify_csrf_raises by (auto simp: enforce_csrf_def turned_away_def)
next
  case (Inr ok)
  then show ?thesis using assms csrf_page_turns_away by (simp add: enforce_csrf_def csrf_ok_def)
qed

lemma enforce_csrf_passes: "csrf_ok E rq \<Longrightarrow> enforce_csrf E rq k s = k s"
  by (simp add: enforce_csrf_def csrf_ok_def)

lemma require_login_stops:
  assumes "require_login E rq k s = (s', r)" "\<not> is_set (signed_in E rq s)"
  shows "only_touched s s' \<and> turned_away r"
  using assms by (auto simp: require_login_def signed_in_def turned_away_def dest: get_ui_key_id_touches split: prod.split_asm)

lemma require_login_key_id_stops:
  assumes "require_login_key_id E rq k s = (s', r)" "signed_in E rq s = None"
  shows "only_touched s s' \<and> turned_away r"
  using assms by (auto simp: require_login_key_id_def signed_in_def turned_away_def dest: get_ui_key_id_touches
      split: prod.split_asm option.split_asm)

end
