(* ===== verification/Admin_Pages.thy ===== *)
theory Admin_Pages
  imports Admin_Site
begin

text \<open>
  \<^verbatim>\<open>app/admin_ui/routes.py\<close> without the setup wizard: signing in and out, the configuration form, API keys, usage
  and imports. Every form but the login one starts with the guards of \<open>Admin_Site\<close>.
\<close>

section \<open>Signing in and out\<close>

definition login_page :: "('h, 'b, 'c) site_env \<Rightarrow> ui_request \<Rightarrow> ('h, 'b, 'c) site \<Rightarrow> ('h, 'b, 'c) answer" where
  "login_page E rq s = rendered E rq ''login.html'' 200 None None NoContent s"

definition otp_error :: string where
  "otp_error = ''This one-time link has expired or was already used. Sign in with the bootstrap admin key printed by `egg-api start`, or mint a new link.''"

definition setup_otp_exchange ::
  "('h, 'b, 'c) site_env \<Rightarrow> ui_request \<Rightarrow> string \<Rightarrow> ('h, 'b, 'c) site \<Rightarrow> ('h, 'b, 'c) answer"
where
  "setup_otp_exchange E rq token s =
     (case consume_setup_otp (se_crypto E) (site_db s) (clock_now E s) (Some token) of
        (d, None) \<Rightarrow> rendered E rq ''login.html'' 401 None (Some otp_error) NoContent (put_db d (tick s))
      | (d, Some key_id) \<Rightarrow>
          (case create_ui_session_for_key_id E key_id (put_db d (tick s)) of
             (s', Inl e) \<Rightarrow> (s', Inl e)
           | (s', Inr session) \<Rightarrow> (s', Inr (set_session_cookie s' session (redirect ''/admin/ui/setup'')))))"

definition charge_login :: "('h, 'b, 'c) site_env \<Rightarrow> ui_request \<Rightarrow> ('h, 'b, 'c) site \<Rightarrow> ('h, 'b, 'c) site \<times> bool" where
  "charge_login E rq s =
     (let client_ip = (case ur_client rq of None \<Rightarrow> ''anonymous'' | Some host \<Rightarrow> host) in
      case limiter_allow (se_redis E) (cs_login_rate_limiter (ct_state (si_ct s))) (si_redis s) (se_time E (si_reads s))
             (''admin_login:'' @ client_ip) of
        (l, c, ok) \<Rightarrow> (tick (s\<lparr>si_ct := set_login_rate_limiter l (si_ct s), si_redis := c\<rparr>), ok))"

definition login_submit :: "('h, 'b, 'c) site_env \<Rightarrow> ui_request \<Rightarrow> ('h, 'b, 'c) site \<Rightarrow> ('h, 'b, 'c) answer" where
  "login_submit E rq s =
     (case charge_login E rq s of
        (s1, False) \<Rightarrow> rendered E rq ''login.html'' 429 None (Some ''Too many attempts. Please try again later.'') NoContent s1
      | (s1, True) \<Rightarrow>
          (case create_ui_session_for_api_key E (form_get E rq ''api_key'' []) s1 of
             (s2, Inl (ExApp _)) \<Rightarrow> rendered E rq ''login.html'' 401 None (Some ''Invalid admin API key.'') NoContent s2
           | (s2, Inl e) \<Rightarrow> (s2, Inl e)
           | (s2, Inr token) \<Rightarrow> (s2, Inr (set_session_cookie s2 token (redirect ''/admin/ui'')))))"

definition logout :: "('h, 'b, 'c) site_env \<Rightarrow> ui_request \<Rightarrow> ('h, 'b, 'c) site \<Rightarrow> ('h, 'b, 'c) answer" where
  "logout E rq = enforce_csrf E rq (\<lambda>s. (clear_ui_session E rq s, Inr (with_cookie DropSession login_redirect)))"

text \<open>What the guarded forms of the admin pages have in common: who asks, the CSRF token, then the handler.\<close>

definition guarded ::
  "('h, 'b, 'c) site_env \<Rightarrow> ui_request \<Rightarrow> (string \<Rightarrow> ('h, 'b, 'c) site \<Rightarrow> ('h, 'b, 'c) answer) \<Rightarrow> ('h, 'b, 'c) site \<Rightarrow>
     ('h, 'b, 'c) answer"
where
  "guarded E rq k = require_login_key_id E rq (\<lambda>key_id. enforce_csrf E rq (k key_id))"

definition guarded_page ::
  "('h, 'b, 'c) site_env \<Rightarrow> ui_request \<Rightarrow> (('h, 'b, 'c) site \<Rightarrow> ('h, 'b, 'c) answer) \<Rightarrow> ('h, 'b, 'c) site \<Rightarrow> ('h, 'b, 'c) answer"
where
  "guarded_page E rq k = require_login E rq (enforce_csrf E rq k)"

definition logout_everywhere :: "('h, 'b, 'c) site_env \<Rightarrow> ui_request \<Rightarrow> ('h, 'b, 'c) site \<Rightarrow> ('h, 'b, 'c) answer" where
  "logout_everywhere E rq = guarded E rq (\<lambda>key_id s.
     (put_db (fst (invalidate_sessions_for_key_id (site_db s) key_id)) s, Inr (with_cookie DropSession login_redirect)))"

section \<open>Dashboard, configuration and mapping\<close>

definition dashboard :: "('h, 'b, 'c) site_env \<Rightarrow> ui_request \<Rightarrow> ('h, 'b, 'c) site \<Rightarrow> ('h, 'b, 'c) answer" where
  "dashboard E rq = require_login E rq (\<lambda>s.
     (let backend_status = (case snd (health (cs_adapter (ct_state (si_ct s))) (se_backend E) (se_context E)) of
            Inl e \<Rightarrow> ''unavailable'' | Inr v \<Rightarrow> ''ok'') in
      rendered E rq ''dashboard.html'' 200 None None
        (StatusPage backend_status (usage_summary (site_db s)) (be_index (ac_backend (site_config s)))
           (cm_path (cs_manager (ct_state (si_ct s)))) (cs_store (ct_state (si_ct s)))) s))"

text \<open>\<open>cfg.profiles[cfg.security_profile]\<close>.\<close>

definition render_config ::
  "('h, 'b, 'c) site_env \<Rightarrow> ui_request \<Rightarrow> string option \<Rightarrow> string option \<Rightarrow> int \<Rightarrow> ('h, 'b, 'c) site \<Rightarrow> ('h, 'b, 'c) answer"
where
  "render_config E rq message error status_code s =
     (case dict_get (ac_profiles (site_config s)) (ac_security_profile (site_config s)) of
        None \<Rightarrow> (s, Inl (ExRaw ''KeyError''))
      | Some profile \<Rightarrow> rendered E rq ''config.html'' status_code message error (ConfigPage (site_config s) profile) s)"

definition config_page :: "('h, 'b, 'c) site_env \<Rightarrow> ui_request \<Rightarrow> ('h, 'b, 'c) site \<Rightarrow> ('h, 'b, 'c) answer" where
  "config_page E rq = require_login E rq (render_config E rq None None 200)"

definition profile_from_form ::
  "('h, 'b, 'c) site_env \<Rightarrow> ui_request \<Rightarrow> security_profile \<Rightarrow> string + security_profile"
where
  "profile_from_form E rq p =
     bind_r (py_int (form_get E rq ''page_size_default'' ''20'')) (\<lambda>page_size_default.
     bind_r (py_int (form_get E rq ''page_size_max'' ''50'')) (\<lambda>page_size_max.
     bind_r (py_int (form_get E rq ''max_depth'' ''2000'')) (\<lambda>max_depth.
       Inr (p\<lparr>sp_allow_empty_query := (py_lower (form_get E rq ''allow_empty_query'' ''false'') = ''true''),
              sp_page_size_default := page_size_default, sp_page_size_max := page_size_max, sp_max_depth := max_depth\<rparr>))))"

text \<open>The copy of the configuration with the values of the form; \<open>public_mode\<close> is only checked when it is validated.\<close>

definition config_from_form :: "('h, 'b, 'c) site_env \<Rightarrow> ui_request \<Rightarrow> app_config \<Rightarrow> string + app_config" where
  "config_from_form E rq c =
     (let language = py_lower (form_text E rq ''default_language'' []);
          profile_name = form_get E rq ''security_profile'' [];
          cfg = c\<lparr>ac_backend := (ac_backend c)\<lparr>be_url := py_strip (form_get E rq ''backend_url'' []),
                    be_index := py_strip (form_get E rq ''backend_index'' [])\<rparr>,
                  ac_security_profile := profile_name,
                  ac_storage := (ac_storage c)\<lparr>st_sqlite_path := py_strip (form_get E rq ''sqlite_path'' [])\<rparr>,
                  ac_default_language := (if language \<in> {''en'', ''fr''} then Some language
                    else if language = [] then None else ac_default_language c)\<rparr> in
      case dict_get (ac_profiles c) profile_name of
        None \<Rightarrow> Inl ''ValueError: Unknown security profile''
      | Some p \<Rightarrow> map_r (\<lambda>q. cfg\<lparr>ac_profiles := dict_set profile_name q (ac_profiles c)\<rparr>) (profile_from_form E rq p))"

definition set_public_mode :: "string \<Rightarrow> json \<Rightarrow> json" where
  "set_public_mode mode v =
     (case v of
        JDict d \<Rightarrow> JDict (map (\<lambda>(k, x). (k, if k = ''auth''
          then (case x of JDict a \<Rightarrow> JDict (dict_set ''public_mode'' (JStr mode) a) | _ \<Rightarrow> x) else x)) d)
      | _ \<Rightarrow> v)"

definition form_payload :: "('h, 'b, 'c) site_env \<Rightarrow> ui_request \<Rightarrow> app_config \<Rightarrow> string + json" where
  "form_payload E rq c =
     map_r (\<lambda>cfg. set_public_mode (form_get E rq ''public_mode'' []) (dump_app_config (pf_leaves (se_platform E)) cfg))
       (config_from_form E rq c)"

definition reload_site :: "('h, 'b, 'c) site_env \<Rightarrow> app_config \<Rightarrow> ('h, 'b, 'c) site \<Rightarrow> ('h, 'b, 'c) site \<times> (string + unit)" where
  "reload_site E c s =
     (case reload (se_platform E) (si_ct s) (clock_now E s) (next_token E s) c of
        (ct, r) \<Rightarrow> (draw (tick (s\<lparr>si_ct := ct\<rparr>)), r))"

definition config_update :: "('h, 'b, 'c) site_env \<Rightarrow> ui_request \<Rightarrow> ('h, 'b, 'c) site \<Rightarrow> ('h, 'b, 'c) answer" where
  "config_update E rq = guarded_page E rq (\<lambda>s.
     (let failed = render_config E rq None (Some ''Unable to save configuration. Check the server logs for details.'') 400 in
      case bind_r (form_payload E rq (site_config s)) (load_app_config (pf_leaves (se_platform E))) of
        Inl e \<Rightarrow> failed s
      | Inr c \<Rightarrow>
          (case reload_site E c s of
             (s', Inl e) \<Rightarrow> failed s'
           | (s', Inr _) \<Rightarrow> render_config E rq (Some ''Configuration saved successfully.'') None 200 s')))"

definition mapping_page :: "('h, 'b, 'c) site_env \<Rightarrow> ui_request \<Rightarrow> ('h, 'b, 'c) site \<Rightarrow> ('h, 'b, 'c) answer" where
  "mapping_page E rq = require_login E rq (\<lambda>s. rendered E rq ''mapping.html'' 200 None None (MappingPage (site_config s)) s)"

section \<open>API keys\<close>

definition render_keys ::
  "('h, 'b, 'c) site_env \<Rightarrow> ui_request \<Rightarrow> string option \<Rightarrow> string option \<Rightarrow> shown_key option \<Rightarrow> int \<Rightarrow> ('h, 'b, 'c) site \<Rightarrow>
     ('h, 'b, 'c) answer"
where
  "render_keys E rq message error new_key status_code s =
     rendered E rq ''keys.html'' status_code message error (KeysPage (list_api_keys (site_db s)) new_key) s"

definition keys_page :: "('h, 'b, 'c) site_env \<Rightarrow> ui_request \<Rightarrow> ('h, 'b, 'c) site \<Rightarrow> ('h, 'b, 'c) answer" where
  "keys_page E rq = require_login E rq (render_keys E rq None None None 200)"

definition create_site_key ::
  "('h, 'b, 'c) site_env \<Rightarrow> string \<Rightarrow> ('h, 'b, 'c) site \<Rightarrow> ('h, 'b, 'c) site \<times> (py_exc + api_key)"
where
  "create_site_key E key_id s =
     (case svc_create (se_crypto E) (site_keys s) (clock_now E s) (next_token E s) key_id of
        Inl e \<Rightarrow> (draw (tick s), Inl e)
      | Inr (m, k) \<Rightarrow> (put_keys m (draw (tick s)), Inr k))"

definition create_key :: "('h, 'b, 'c) site_env \<Rightarrow> ui_request \<Rightarrow> ('h, 'b, 'c) site \<Rightarrow> ('h, 'b, 'c) answer" where
  "create_key E rq = guarded_page E rq (\<lambda>s.
     (case create_site_key E (py_strip (form_get E rq ''key_id'' [])) s of
        (s', Inl (ExApp e)) \<Rightarrow> render_keys E rq None (Some (ae_message e)) None (ae_status e) s'
      | (s', Inl e) \<Rightarrow> render_keys E rq None (Some ''Unable to create API key. Check the server logs for details.'') None 400 s'
      | (s', Inr k) \<Rightarrow> render_keys E rq (Some ''API key created. Copy it now; it will not be shown again.'') None
          (Some \<lparr>sk_key_id = ky_key_id k, sk_key = ky_key k\<rparr>) 200 s'))"

definition rotated_message :: "string \<Rightarrow> string" where
  "rotated_message key_id = ''Key '' @ CHR 0x27 # key_id @ CHR 0x27 # '' rotated. Copy the new secret now - it will not be shown again. Active sessions for this key have been revoked.''"

definition rotate_key :: "('h, 'b, 'c) site_env \<Rightarrow> ui_request \<Rightarrow> string \<Rightarrow> ('h, 'b, 'c) site \<Rightarrow> ('h, 'b, 'c) answer" where
  "rotate_key E rq key_id = guarded_page E rq (\<lambda>s.
     (case svc_rotate (se_crypto E) (site_keys s) (next_token E s) key_id of
        Inl (ExApp e) \<Rightarrow> render_keys E rq None (Some (ae_message e)) None (ae_status e) (draw s)
      | Inl e \<Rightarrow> (draw s, Inl e)
      | Inr (m, secret) \<Rightarrow>
          (case render_keys E rq (Some (rotated_message key_id))
               None (Some \<lparr>sk_key_id = key_id, sk_key = secret\<rparr>) 200 (put_keys m (draw s)) of
             (s1, Inl e) \<Rightarrow> (s1, Inl e)
           | (s1, Inr page) \<Rightarrow>
               (case get_ui_key_id E rq s1 of
                  (s2, who) \<Rightarrow> (s2, Inr (if who = Some key_id then with_cookie DropSession page else page))))))"

definition key_status_action :: "('h, 'b, 'c) site_env \<Rightarrow> ui_request \<Rightarrow> string \<Rightarrow> ('h, 'b, 'c) site \<Rightarrow> ('h, 'b, 'c) answer" where
  "key_status_action E rq key_id = guarded_page E rq (\<lambda>s.
     (case set_status (site_keys s) key_id (form_get E rq ''action'' []) of
        (m, Inl (ExRaw e)) \<Rightarrow> (put_keys m s, Inl (ExRaw e))
      | (m, _) \<Rightarrow> (put_keys m s, Inr (redirect ''/admin/ui/keys''))))"

definition usage_page :: "('h, 'b, 'c) site_env \<Rightarrow> ui_request \<Rightarrow> ('h, 'b, 'c) site \<Rightarrow> ('h, 'b, 'c) answer" where
  "usage_page E rq = require_login E rq (\<lambda>s.
     rendered E rq ''usage.html'' 200 None None (UsagePage (list_recent_usage_events (site_db s) 100 0)) s)"

section \<open>Imports\<close>

definition run_rows :: "db \<Rightarrow> run_row list" where
  "run_rows d =
     concat (map (\<lambda>src.
       map (\<lambda>run. \<lparr>rr_source_label = (case find (\<lambda>x. int (is_id x) = ir_source_id run) (list_import_sources d) of
                     None \<Rightarrow> CHR ''#'' # str_of_int (ir_source_id run) | Some x \<Rightarrow> is_label x),
                   rr_started_at = ir_started_at run, rr_ended_at = ir_ended_at run, rr_run_status = ir_status run,
                   rr_ingested = ir_records_ingested run, rr_failed = ir_records_failed run,
                   rr_error_message = ir_error_message run\<rparr>)
         (list_import_runs d (int (is_id src)) 3))
       (list_import_sources d))"

definition recent_runs :: "db \<Rightarrow> run_row list" where
  "recent_runs d = take 15 (rev (sort_key rr_started_at (rev (run_rows d))))"

definition render_imports ::
  "('h, 'b, 'c) site_env \<Rightarrow> ui_request \<Rightarrow> string option \<Rightarrow> string option \<Rightarrow> int \<Rightarrow> ('h, 'b, 'c) site \<Rightarrow> ('h, 'b, 'c) answer"
where
  "render_imports E rq message error status_code s =
     rendered E rq ''imports.html'' status_code message error
       (ImportsPage (list_import_sources (site_db s)) (recent_runs (site_db s))) s"

definition imports_page :: "('h, 'b, 'c) site_env \<Rightarrow> ui_request \<Rightarrow> ('h, 'b, 'c) site \<Rightarrow> ('h, 'b, 'c) answer" where
  "imports_page E rq = require_login E rq (render_imports E rq None None 200)"

definition allowed_profiles :: "string list" where
  "allowed_profiles = [''library'', ''museum'', ''archive'', ''custom'']"

definition allowed_prefixes :: "string list" where
  "allowed_prefixes = [''oai_dc'', ''lido'', ''marcxml'', ''ead'']"

definition allowed_kinds :: "string list" where
  "allowed_kinds =
     [''oaipmh'', ''oaipmh_lido'', ''oaipmh_marcxml'', ''oaipmh_ead'', ''lido_file'', ''marc_file'', ''marcxml_file'',
      ''csv_file'', ''ead_file'']"

definition allowed_schedules :: "string list" where
  "allowed_schedules = [''hourly'', ''6h'', ''daily'', ''weekly'']"

text \<open>The metadata prefix that is stored for a kind; for the MARC kinds it is the flavor.\<close>

definition stored_prefix :: "string \<Rightarrow> string \<Rightarrow> string \<Rightarrow> string + string" where
  "stored_prefix kind metadata_prefix flavor_hint =
     (if kind = ''oaipmh_lido'' then Inr ''lido''
      else if kind \<in> {''oaipmh_marcxml'', ''marc_file'', ''marcxml_file''}
      then (if flavor_hint \<in> set supported_marc_flavors then Inr flavor_hint else Inl ''Unknown MARC flavor.'')
      else if kind = ''oaipmh_ead'' then Inr ''ead''
      else if kind \<in> {''lido_file'', ''csv_file'', ''ead_file''} then Inr []
      else if metadata_prefix \<in> set allowed_prefixes then Inr metadata_prefix
      else Inl ''Unsupported metadata prefix.'')"

text \<open>The form of a new source, or why it is refused.\<close>

record source_form =
  sf_label :: string
  sf_kind :: string
  sf_url :: string
  sf_metadata_prefix :: "string option"
  sf_set_spec :: "string option"
  sf_schema_profile :: string
  sf_schedule :: "string option"

definition read_source_form :: "('h, 'b, 'c) site_env \<Rightarrow> ui_request \<Rightarrow> string + source_form" where
  "read_source_form E rq =
     (let label = form_text E rq ''label'' []; kind = or_text (form_text E rq ''kind'' ''oaipmh'') ''oaipmh'';
          url = form_text E rq ''url'' [];
          metadata_prefix = or_text (form_text E rq ''metadata_prefix'' ''oai_dc'') ''oai_dc'';
          set_spec = or_none (form_text E rq ''set_spec'' []); schema_profile = form_text E rq ''schema_profile'' ''library'';
          schedule = or_none (form_text E rq ''schedule'' []) in
      if label = [] \<or> url = [] then Inl ''Label and URL or file path are both required.''
      else if kind \<notin> set allowed_kinds then Inl ''Unknown importer kind.''
      else if schema_profile \<notin> set allowed_profiles then Inl ''Unknown schema profile.''
      else bind_r (stored_prefix kind metadata_prefix (form_text E rq ''marc_flavor'' ''marc21'')) (\<lambda>stored.
        if schedule \<noteq> None \<and> the schedule \<notin> set allowed_schedules then Inl ''Unknown schedule cadence.''
        else Inr \<lparr>sf_label = label, sf_kind = kind, sf_url = url, sf_metadata_prefix = or_none stored, sf_set_spec = set_spec,
                 sf_schema_profile = schema_profile, sf_schedule = schedule\<rparr>))"

definition imports_add :: "('h, 'b, 'c) site_env \<Rightarrow> ui_request \<Rightarrow> ('h, 'b, 'c) site \<Rightarrow> ('h, 'b, 'c) answer" where
  "imports_add E rq = guarded_page E rq (\<lambda>s.
     (case read_source_form E rq of
        Inl e \<Rightarrow> render_imports E rq None (Some e) 400 s
      | Inr f \<Rightarrow>
          (let s1 = (if sf_schedule f = None then s else tick s);
               next_run_at = (if sf_schedule f = None then None else compute_next_run_at (sf_schedule f) (clock_now E s));
               d = fst (add_import_source (site_db s1) (clock_now E s1) (sf_label f) (sf_kind f) (Some (sf_url f))
                 (sf_metadata_prefix f) (sf_set_spec f) (sf_schema_profile f) (sf_schedule f) next_run_at) in
           render_imports E rq (Some (''Added source: '' @ sf_label f)) None 200 (put_db d (tick s1)))))"

text \<open>The part of the site that an import works on, and the site after it.\<close>

definition import_world :: "('h, 'b, 'c) site \<Rightarrow> ('h, 'b) world" where
  "import_world s = \<lparr>w_db = site_db s, w_http = si_http s, w_sink = si_sink s, w_reads = si_reads s\<rparr>"

definition after_import :: "('h, 'b) world \<Rightarrow> ('h, 'b, 'c) site \<Rightarrow> ('h, 'b, 'c) site" where
  "after_import w s = put_db (w_db w) (s\<lparr>si_http := w_http w, si_sink := w_sink w, si_reads := w_reads w\<rparr>)"

definition import_outcome ::
  "import_source \<Rightarrow> py_exc + import_result \<Rightarrow> string option \<times> string option \<times> int"
where
  "import_outcome src r =
     (case r of
        Inl e \<Rightarrow> (None, Some (''Import failed: '' @ exc_text e), if is_value_error e then 400 else 500)
      | Inr res \<Rightarrow>
          if is_set (im_error res) then (None, Some (''Import finished with errors: '' @ the (im_error res)), 200)
          else (Some (''Imported '' @ str_of_int (im_ingested res) @ '' record(s) from '' @ is_label src @ '' ('' @
                  str_of_int (im_failed res) @ '' failure(s)).''), None, 200))"

definition imports_run :: "('h, 'b, 'c) site_env \<Rightarrow> ui_request \<Rightarrow> int \<Rightarrow> ('h, 'b, 'c) site \<Rightarrow> ('h, 'b, 'c) answer" where
  "imports_run E rq source_id = guarded_page E rq (\<lambda>s.
     (case get_import_source (site_db s) source_id of
        None \<Rightarrow> render_imports E rq None (Some ''Unknown or unsupported source.'') 404 s
      | Some src \<Rightarrow>
          if \<not> is_set (is_url src) then render_imports E rq None (Some ''Unknown or unsupported source.'') 404 s
          else (case open_run (se_clock E) (import_world s) source_id of (w1, run_id) \<Rightarrow>
            (case ship (se_import E) (se_bulk E (cs_adapter (ct_state (si_ct s)))) src w1 of (w2, r) \<Rightarrow>
              (case import_outcome src r of (message, error, status_code) \<Rightarrow>
                 render_imports E rq message error status_code
                   (after_import (close_with (se_clock E) w2 run_id r) s))))))"

definition imports_delete :: "('h, 'b, 'c) site_env \<Rightarrow> ui_request \<Rightarrow> int \<Rightarrow> ('h, 'b, 'c) site \<Rightarrow> ('h, 'b, 'c) answer" where
  "imports_delete E rq source_id = guarded_page E rq (\<lambda>s.
     (case delete_import_source (site_db s) source_id of
        (d, False) \<Rightarrow> render_imports E rq None (Some ''Unknown source.'') 404 (put_db d s)
      | (d, True) \<Rightarrow> render_imports E rq (Some ''Source removed.'') None 200 (put_db d s)))"

definition help_glossary :: "('h, 'b, 'c) site_env \<Rightarrow> ui_request \<Rightarrow> ('h, 'b, 'c) site \<Rightarrow> ('h, 'b, 'c) answer" where
  "help_glossary E rq = require_login E rq (rendered E rq ''help.html'' 200 None None NoContent)"

end
