(* ===== verification/Admin_Wizard.thy ===== *)
theory Admin_Wizard
  imports Admin_Pages
begin

text \<open>
  The setup wizard in \<^verbatim>\<open>app/admin_ui/routes.py\<close>: eight screens over the draft of the signed-in label. A screen
  whose prerequisites are missing sends the operator back; the forms save the draft with the step that comes next, and
  publishing turns the draft into the configuration of the container.
\<close>

section \<open>The draft of a label\<close>

definition with_draft ::
  "string \<Rightarrow> (setup_draft \<Rightarrow> string \<Rightarrow> ('h, 'b, 'c) site \<Rightarrow> ('h, 'b, 'c) answer) \<Rightarrow> ('h, 'b, 'c) site \<Rightarrow> ('h, 'b, 'c) answer"
where
  "with_draft key_id k s =
     (case draft_load (site_db s) key_id of Inl e \<Rightarrow> (s, Inl e) | Inr (dr, step) \<Rightarrow> k dr step s)"

text \<open>The steps that the handlers pass are all in \<open>WIZARD_STEPS\<close>.\<close>

definition store_draft :: "('h, 'b, 'c) site_env \<Rightarrow> string \<Rightarrow> setup_draft \<Rightarrow> string \<Rightarrow> ('h, 'b, 'c) site \<Rightarrow> ('h, 'b, 'c) site" where
  "store_draft E key_id dr step s =
     (case draft_save (site_db s) (clock_now E s) key_id dr step of Inl e \<Rightarrow> s | Inr d \<Rightarrow> put_db d (tick s))"

definition wizard_page ::
  "('h, 'b, 'c) site_env \<Rightarrow> ui_request \<Rightarrow> string \<Rightarrow> setup_draft \<Rightarrow> string option \<Rightarrow> string option \<Rightarrow> int \<Rightarrow> ('h, 'b, 'c) site \<Rightarrow>
     ('h, 'b, 'c) answer"
where
  "wizard_page E rq step dr message error status_code s =
     rendered E rq (''setup/'' @ step @ ''.html'') status_code message error (WizardPage dr step) s"

definition go_to :: "string \<Rightarrow> ('h, 'b, 'c) site \<Rightarrow> ('h, 'b, 'c) answer" where
  "go_to step s = (s, Inr (redirect (''/admin/ui/setup/'' @ step)))"

text \<open>\<open>draft.backend.get("url")\<close> and \<open>draft.source.get("index")\<close> as conditions.\<close>

definition has_url :: "setup_draft \<Rightarrow> bool" where
  "has_url dr = truthy (jget (wd_backend dr) ''url'')"

definition has_index :: "setup_draft \<Rightarrow> bool" where
  "has_index dr = truthy (jget (wd_source dr) ''index'')"

definition fill_mapping :: "setup_draft \<Rightarrow> setup_draft" where
  "fill_mapping dr = dr\<lparr>wd_mapping := propose_mapping (wd_available_fields dr)
     (if wd_schema_profile dr = [] then ''library'' else wd_schema_profile dr)\<rparr>"

definition wants_proposal :: "setup_draft \<Rightarrow> bool" where
  "wants_proposal dr \<longleftrightarrow> wd_mapping dr = [] \<and> wd_available_fields dr \<noteq> []"

section \<open>Landing page\<close>

definition landing_page ::
  "('h, 'b, 'c) site_env \<Rightarrow> ui_request \<Rightarrow> string \<Rightarrow> string option \<Rightarrow> string option \<Rightarrow> int \<Rightarrow> ('h, 'b, 'c) site \<Rightarrow> ('h, 'b, 'c) answer"
where
  "landing_page E rq key_id step error status_code s =
     rendered E rq ''setup/landing.html'' status_code None error
       (LandingPage (load_setup_draft (site_db s) key_id \<noteq> None) step (be_url (ac_backend (site_config s)) \<noteq> [])) s"

definition setup_landing :: "('h, 'b, 'c) site_env \<Rightarrow> ui_request \<Rightarrow> ('h, 'b, 'c) site \<Rightarrow> ('h, 'b, 'c) answer" where
  "setup_landing E rq = require_login_key_id E rq (\<lambda>key_id.
     with_draft key_id (\<lambda>dr step. landing_page E rq key_id (Some step) None 200))"

definition setup_start :: "('h, 'b, 'c) site_env \<Rightarrow> ui_request \<Rightarrow> ('h, 'b, 'c) site \<Rightarrow> ('h, 'b, 'c) answer" where
  "setup_start E rq = guarded E rq (\<lambda>key_id s. go_to ''backend'' (store_draft E key_id new_draft first_step s))"

definition setup_language :: "('h, 'b, 'c) site_env \<Rightarrow> ui_request \<Rightarrow> ('h, 'b, 'c) site \<Rightarrow> ('h, 'b, 'c) answer" where
  "setup_language E rq = guarded_page E rq (\<lambda>s.
     (let lang = py_lower (form_text E rq ''lang'' []); L = pf_leaves (se_platform E) in
      if lang \<notin> {''en'', ''fr''}
      then (case get_ui_key_id E rq s of
        (s1, k) \<Rightarrow> landing_page E rq (opt_text k) None (Some ''Unsupported language selection.'') 400 s1)
      else (case load_app_config L (dump_app_config L ((site_config s)\<lparr>ac_default_language := Some lang\<rparr>)) of
          Inl e \<Rightarrow> (s, Inl (ExRaw e))
        | Inr c \<Rightarrow>
            (case reload_site E c s of
               (s1, Inl e) \<Rightarrow> (s1, Inl (ExRaw e))
             | (s1, Inr _) \<Rightarrow> (s1, Inr (with_cookie (SetLang lang) (redirect ''/admin/ui/setup'')))))))"

definition setup_reset :: "('h, 'b, 'c) site_env \<Rightarrow> ui_request \<Rightarrow> ('h, 'b, 'c) site \<Rightarrow> ('h, 'b, 'c) answer" where
  "setup_reset E rq = guarded E rq (\<lambda>key_id s.
     (put_db (draft_reset (site_db s) key_id) s, Inr (redirect ''/admin/ui/setup'')))"

section \<open>Step 1: the backend\<close>

definition or_null :: "string \<Rightarrow> json" where
  "or_null s = (if s = [] then JNull else JStr s)"

text \<open>\<open>submitted or previous_auth.get(key) or None\<close>.\<close>

definition kept_secret :: "string \<Rightarrow> doc \<Rightarrow> string \<Rightarrow> json" where
  "kept_secret submitted previous_auth key =
     (if submitted \<noteq> [] then JStr submitted else or_default (jget previous_auth key) JNull)"

definition draft_from_backend_form ::
  "('h, 'b, 'c) site_env \<Rightarrow> ui_request \<Rightarrow> setup_draft \<Rightarrow> py_exc + setup_draft"
where
  "draft_from_backend_form E rq previous =
     (let mode = or_text (form_text E rq ''auth_mode'' ''none'') ''none'';
          password = form_get E rq ''auth_password'' []; token = form_get E rq ''auth_token'' [];
          stored = entry_or (wd_backend previous) ''auth'' (JDict []) in
      bind_r (if mode = ''basic'' \<and> password = [] \<or> mode \<in> {''bearer'', ''api_key''} \<and> token = []
              then dict_or_raise stored else Inr []) (\<lambda>previous_auth.
        (let auth = [(''mode'', JStr mode)] @
               (if mode = ''basic''
                then [(''username'', or_null (form_text E rq ''auth_username'' [])),
                      (''password_env'', or_null (form_text E rq ''auth_password_env'' [])),
                      (''password'', kept_secret password previous_auth ''password'')] else []) @
               (if mode \<in> {''bearer'', ''api_key''}
                then [(''token_env'', or_null (form_text E rq ''auth_token_env'' [])),
                      (''token'', kept_secret token previous_auth ''token'')] else []) in
         Inr (new_draft\<lparr>
           wd_backend := [(''type'', JStr (form_text E rq ''backend_type'' ''elasticsearch'')),
             (''url'', JStr (form_text E rq ''backend_url'' [])), (''auth'', JDict auth)],
           wd_source := wd_source previous, wd_detected_version := wd_detected_version previous,
           wd_available_indices := wd_available_indices previous, wd_available_fields := wd_available_fields previous,
           wd_mapping := wd_mapping previous\<rparr>))))"

definition setup_backend_page :: "('h, 'b, 'c) site_env \<Rightarrow> ui_request \<Rightarrow> ('h, 'b, 'c) site \<Rightarrow> ('h, 'b, 'c) answer" where
  "setup_backend_page E rq = require_login_key_id E rq (\<lambda>key_id.
     with_draft key_id (\<lambda>dr step. wizard_page E rq ''backend'' dr None None 200))"

definition setup_discover :: "('h, 'b, 'c) site_env \<Rightarrow> ui_request \<Rightarrow> ('h, 'b, 'c) site \<Rightarrow> ('h, 'b, 'c) answer" where
  "setup_discover E rq = guarded E rq (\<lambda>key_id. with_draft key_id (\<lambda>dr step s.
     (case discover_backend_candidates (ct_os (si_ct s)) (se_probe E) None of
        Inl e \<Rightarrow> (s, Inl e)
      | Inr candidates \<Rightarrow>
          (let ok_count = length (filter (\<lambda>c. ca_status c = ''ok'') candidates) in
           rendered E rq ''setup/backend.html'' 200
             (Some (if 0 < ok_count then ''Found '' @ str_of_int (int ok_count) @ '' reachable backend(s).''
                    else ''No backend answered. Type the URL manually below.''))
             None (DiscoveryPage dr candidates) s))))"

definition setup_discover_use :: "('h, 'b, 'c) site_env \<Rightarrow> ui_request \<Rightarrow> ('h, 'b, 'c) site \<Rightarrow> ('h, 'b, 'c) answer" where
  "setup_discover_use E rq = guarded E rq (\<lambda>key_id s.
     (let chosen_url = form_text E rq ''url'' [];
          chosen_type = or_text (form_text E rq ''backend_type'' ''elasticsearch'') ''elasticsearch'' in
      if chosen_type \<notin> {''elasticsearch'', ''opensearch''} \<or> chosen_url = [] then go_to ''backend'' s
      else with_draft key_id (\<lambda>dr step s.
        go_to ''backend'' (store_draft E key_id
          (dr\<lparr>wd_backend := dict_set ''url'' (JStr chosen_url) (dict_set ''type'' (JStr chosen_type) (wd_backend dr))\<rparr>)
          ''backend'' s)) s))"

text \<open>The adapter of the draft, and one call on it.\<close>

definition probe_call ::
  "('h, 'b, 'c) site_env \<Rightarrow> ('h, 'b, 'c) site \<Rightarrow> setup_draft \<Rightarrow> (es_adapter \<Rightarrow> 'a run) \<Rightarrow> py_exc + 'a"
where
  "probe_call E s dr call =
     bind_r (build_probe_adapter (pf_leaves (se_platform E)) (dict_get (os_env (ct_os (si_ct s)))) dr) (\<lambda>a. snd (call a))"

definition probed_version :: "json \<Rightarrow> py_exc + json" where
  "probed_version probe =
     bind_r (case probe of JDict p \<Rightarrow> dict_or_raise (case dict_get p ''version'' of None \<Rightarrow> JDict [] | Some v \<Rightarrow> v) | _ \<Rightarrow> Inr [])
       (\<lambda>info. Inr (or_null (json_str (entry_or info ''number'' (JStr [])))))"

definition backend_test ::
  "('h, 'b, 'c) site_env \<Rightarrow> ui_request \<Rightarrow> string \<Rightarrow> setup_draft \<Rightarrow> ('h, 'b, 'c) site \<Rightarrow> ('h, 'b, 'c) answer"
where
  "backend_test E rq key_id dr s =
     (case probe_call E s dr (\<lambda>a. detect a (se_backend E) (se_context E)) of
        Inl (ExApp e) \<Rightarrow> wizard_page E rq ''backend'' dr None (Some (''Could not reach the backend: '' @ ae_message e)) 400
          (store_draft E key_id dr ''backend'' s)
      | Inl e \<Rightarrow> wizard_page E rq ''backend'' dr None
          (Some ''Unexpected error while contacting the backend. Check the URL, credentials, and server logs.'') 400
          (store_draft E key_id dr ''backend'' s)
      | Inr probe \<Rightarrow>
          (case probed_version probe of
             Inl e \<Rightarrow> (s, Inl e)
           | Inr v \<Rightarrow> (let dr' = dr\<lparr>wd_detected_version := v\<rparr> in
               wizard_page E rq ''backend'' dr' (Some ''Connection successful.'') None 200 (store_draft E key_id dr' ''backend'' s))))"

definition setup_backend_submit :: "('h, 'b, 'c) site_env \<Rightarrow> ui_request \<Rightarrow> ('h, 'b, 'c) site \<Rightarrow> ('h, 'b, 'c) answer" where
  "setup_backend_submit E rq = guarded E rq (\<lambda>key_id. with_draft key_id (\<lambda>previous step s.
     (case draft_from_backend_form E rq previous of
        Inl (ExApp e) \<Rightarrow> wizard_page E rq ''backend'' previous None (Some (ae_message e)) (ae_status e) s
      | Inl e \<Rightarrow> (s, Inl e)
      | Inr dr \<Rightarrow>
          if form_get E rq ''action'' ''next'' = ''test'' then backend_test E rq key_id dr s
          else if \<not> has_url dr then wizard_page E rq ''backend'' dr None (Some ''Backend URL is required.'') 400 s
          else go_to ''source'' (store_draft E key_id dr ''source'' s))))"

section \<open>Step 2: the index\<close>

definition setup_source_page :: "('h, 'b, 'c) site_env \<Rightarrow> ui_request \<Rightarrow> ('h, 'b, 'c) site \<Rightarrow> ('h, 'b, 'c) answer" where
  "setup_source_page E rq = require_login_key_id E rq (\<lambda>key_id. with_draft key_id (\<lambda>dr step s.
     if \<not> has_url dr then go_to ''backend'' s else wizard_page E rq ''source'' dr None None 200 s))"

definition source_scan ::
  "('h, 'b, 'c) site_env \<Rightarrow> ui_request \<Rightarrow> string \<Rightarrow> setup_draft \<Rightarrow> ('h, 'b, 'c) site \<Rightarrow> ('h, 'b, 'c) answer"
where
  "source_scan E rq key_id dr s =
     (case probe_call E s dr (\<lambda>a. scan_fields a (se_backend E) (se_context E)) of
        Inl (ExApp e) \<Rightarrow> wizard_page E rq ''source'' dr None (Some (''Could not scan the backend: '' @ ae_message e)) (ae_status e)
          (store_draft E key_id dr ''source'' s)
      | Inl e \<Rightarrow> wizard_page E rq ''source'' dr None (Some ''Unexpected error while scanning the backend.'') 400
          (store_draft E key_id dr ''source'' s)
      | Inr payload \<Rightarrow>
          (case extract_index_choices (case payload of JDict p \<Rightarrow> p | _ \<Rightarrow> []) of
             (indices, available) \<Rightarrow>
               (let dr1 = dr\<lparr>wd_available_indices := map JStr indices, wd_available_fields := available\<rparr>;
                    dr2 = (if \<not> has_index dr1 \<and> length indices = 1
                      then dr1\<lparr>wd_source := dict_set ''index'' (JStr (hd indices)) (wd_source dr1)\<rparr> else dr1) in
                wizard_page E rq ''source'' dr2
                  (Some (''Found '' @ str_of_int (int (length indices)) @ '' index(es) and '' @
                    str_of_int (int (length available)) @ '' field(s).''))
                  None 200 (store_draft E key_id dr2 ''source'' s))))"

definition setup_source_submit :: "('h, 'b, 'c) site_env \<Rightarrow> ui_request \<Rightarrow> ('h, 'b, 'c) site \<Rightarrow> ('h, 'b, 'c) answer" where
  "setup_source_submit E rq = guarded E rq (\<lambda>key_id. with_draft key_id (\<lambda>dr0 step s.
     if \<not> has_url dr0 then go_to ''backend'' s
     else (let dr = dr0\<lparr>wd_source := dict_set ''index'' (JStr (form_text E rq ''index'' [])) (wd_source dr0)\<rparr> in
       if form_get E rq ''action'' ''next'' = ''scan'' then source_scan E rq key_id dr s
       else if \<not> has_index dr
       then wizard_page E rq ''source'' dr None (Some ''Please enter or pick an index before continuing.'') 400 s
       else go_to ''mapping'' (store_draft E key_id (if wants_proposal dr then fill_mapping dr else dr) ''mapping'' s))))"

section \<open>Step 3: the mapping\<close>

definition setup_mapping_page :: "('h, 'b, 'c) site_env \<Rightarrow> ui_request \<Rightarrow> ('h, 'b, 'c) site \<Rightarrow> ('h, 'b, 'c) answer" where
  "setup_mapping_page E rq = require_login_key_id E rq (\<lambda>key_id. with_draft key_id (\<lambda>dr step s.
     if \<not> has_index dr then go_to ''source'' s
     else if wants_proposal dr
     then wizard_page E rq ''mapping'' (fill_mapping dr) None None 200 (store_draft E key_id (fill_mapping dr) ''mapping'' s)
     else wizard_page E rq ''mapping'' dr None None 200 s))"

definition public_mapping_fields :: "string list" where
  "public_mapping_fields = [''id'', ''type'', ''title'', ''description'', ''creators'']"

definition museum_mapping_fields :: "string list" where
  "museum_mapping_fields =
     [''museum.inventory_number'', ''museum.artist'', ''museum.medium'', ''museum.dimensions'', ''museum.acquisition_date'',
      ''museum.current_location'', ''links.iiif_manifest'', ''links.thumbnail'']"

definition archive_mapping_fields :: "string list" where
  "archive_mapping_fields =
     [''archive.unit_id'', ''archive.unit_level'', ''archive.extent'', ''archive.repository'', ''archive.scope_content'',
      ''archive.access_conditions'', ''archive.parent_id'']"

definition offered_fields :: "string \<Rightarrow> string list" where
  "offered_fields profile =
     (if profile = ''museum'' then public_mapping_fields @ museum_mapping_fields
      else if profile = ''archive'' then public_mapping_fields @ archive_mapping_fields
      else public_mapping_fields)"

definition setup_mapping_profile :: "('h, 'b, 'c) site_env \<Rightarrow> ui_request \<Rightarrow> ('h, 'b, 'c) site \<Rightarrow> ('h, 'b, 'c) answer" where
  "setup_mapping_profile E rq = guarded E rq (\<lambda>key_id.
     (let chosen = form_text E rq ''schema_profile'' ''library'';
          profile = (if chosen \<in> set allowed_profiles then chosen else ''library'') in
      with_draft key_id (\<lambda>dr0 step s.
        (let dr = dr0\<lparr>wd_schema_profile := profile\<rparr>;
             dr1 = (if profile = ''custom'' then dr\<lparr>wd_mapping := []\<rparr>
               else if wd_available_fields dr \<noteq> [] then dr\<lparr>wd_mapping := propose_mapping (wd_available_fields dr) profile\<rparr>
               else dr) in
         go_to ''mapping'' (store_draft E key_id dr1 ''mapping'' s)))))"

definition form_rule :: "('h, 'b, 'c) site_env \<Rightarrow> ui_request \<Rightarrow> string \<Rightarrow> (string \<times> doc) option" where
  "form_rule E rq public =
     (let source = form_text E rq (''source__'' @ public) []; mode = or_text (form_text E rq (''mode__'' @ public) ''direct'') ''direct'' in
      if source = [] then None
      else Some (public, [(''source'', JStr source), (''mode'', JStr mode),
          (''criticality'', JStr (if public \<in> {''id'', ''type''} then ''required'' else ''optional''))] @
          (if mode = ''split_list'' then [(''separator'', JStr '';'')] else [])))"

definition setup_mapping_submit :: "('h, 'b, 'c) site_env \<Rightarrow> ui_request \<Rightarrow> ('h, 'b, 'c) site \<Rightarrow> ('h, 'b, 'c) answer" where
  "setup_mapping_submit E rq = guarded E rq (\<lambda>key_id. with_draft key_id (\<lambda>dr step s.
     if \<not> has_index dr then go_to ''source'' s
     else (let profile = (if wd_schema_profile dr = [] then ''library'' else wd_schema_profile dr);
               new_mapping = List.map_filter (form_rule E rq) (offered_fields profile);
               dr1 = dr\<lparr>wd_mapping := new_mapping\<rparr> in
       if dict_get new_mapping ''id'' = None \<or> dict_get new_mapping ''type'' = None
       then wizard_page E rq ''mapping'' dr1 None
         (Some (''The '' @ py_repr ''id'' @ '' and '' @ py_repr ''type'' @ '' fields are required - pick a backend field for each.''))
         400 (store_draft E key_id dr1 ''mapping'' s)
       else go_to ''security'' (store_draft E key_id dr1 ''security'' s))))"

section \<open>Steps 4 and 5: security and exposure\<close>

definition allowed_security_profiles :: "string list" where
  "allowed_security_profiles = [''prudent'', ''standard'']"

definition allowed_public_modes :: "string list" where
  "allowed_public_modes = [''anonymous_allowed'', ''api_key_optional'', ''api_key_required'']"

definition setup_security_page :: "('h, 'b, 'c) site_env \<Rightarrow> ui_request \<Rightarrow> ('h, 'b, 'c) site \<Rightarrow> ('h, 'b, 'c) answer" where
  "setup_security_page E rq = require_login_key_id E rq (\<lambda>key_id. with_draft key_id (\<lambda>dr step s.
     if wd_mapping dr = [] then go_to ''mapping'' s else wizard_page E rq ''security'' dr None None 200 s))"

definition setup_security_submit :: "('h, 'b, 'c) site_env \<Rightarrow> ui_request \<Rightarrow> ('h, 'b, 'c) site \<Rightarrow> ('h, 'b, 'c) answer" where
  "setup_security_submit E rq = guarded E rq (\<lambda>key_id. with_draft key_id (\<lambda>dr step s.
     (let profile = form_text E rq ''security_profile'' []; public_mode = form_text E rq ''public_mode'' [] in
      if profile \<notin> set allowed_security_profiles \<or> public_mode \<notin> set allowed_public_modes
      then wizard_page E rq ''security'' dr None
        (Some ''Pick one security profile and one public-access mode before continuing.'') 400 s
      else go_to ''exposure''
        (store_draft E key_id (dr\<lparr>wd_security_profile := profile, wd_public_mode := public_mode\<rparr>) ''exposure'' s))))"

text \<open>The later screens ask for a security profile.\<close>

definition later_page ::
  "('h, 'b, 'c) site_env \<Rightarrow> ui_request \<Rightarrow> string \<Rightarrow> ('h, 'b, 'c) site \<Rightarrow> ('h, 'b, 'c) answer"
where
  "later_page E rq step = require_login_key_id E rq (\<lambda>key_id. with_draft key_id (\<lambda>dr _ s.
     if wd_security_profile dr = [] then go_to ''security'' s else wizard_page E rq step dr None None 200 s))"

definition setup_exposure_page :: "('h, 'b, 'c) site_env \<Rightarrow> ui_request \<Rightarrow> ('h, 'b, 'c) site \<Rightarrow> ('h, 'b, 'c) answer" where
  "setup_exposure_page E rq = later_page E rq ''exposure''"

definition chosen_options :: "form \<Rightarrow> string \<Rightarrow> string list \<Rightarrow> json list" where
  "chosen_options f name allowed =
     map JStr (filter (\<lambda>v. v \<in> set allowed) (case dict_get f name of None \<Rightarrow> [] | Some vs \<Rightarrow> vs))"

definition exposure_from_form :: "form \<Rightarrow> (string \<times> json list) list \<Rightarrow> (string \<times> json list) list" where
  "exposure_from_form f exposure =
     (let e = fold (\<lambda>(name, allowed) e. dict_set name (chosen_options f name allowed) e) exposure_catalog exposure in
      dict_set ''allowed_include_fields''
        (add_missing (case dict_get e ''allowed_include_fields'' of None \<Rightarrow> [] | Some vs \<Rightarrow> vs)) e)"

definition setup_exposure_submit :: "('h, 'b, 'c) site_env \<Rightarrow> ui_request \<Rightarrow> ('h, 'b, 'c) site \<Rightarrow> ('h, 'b, 'c) answer" where
  "setup_exposure_submit E rq = guarded E rq (\<lambda>key_id. with_draft key_id (\<lambda>dr step s.
     go_to ''keys'' (store_draft E key_id
       (dr\<lparr>wd_exposure := exposure_from_form (parsed_body E rq) (wd_exposure dr)\<rparr>) ''keys'' s)))"

section \<open>Steps 6 and 7: the first key and the test\<close>

definition setup_keys_page :: "('h, 'b, 'c) site_env \<Rightarrow> ui_request \<Rightarrow> ('h, 'b, 'c) site \<Rightarrow> ('h, 'b, 'c) answer" where
  "setup_keys_page E rq = later_page E rq ''keys''"

definition first_key_doc :: "api_key \<Rightarrow> doc" where
  "first_key_doc k =
     [(''key_id'', JStr (ky_key_id k)), (''key'', JStr (ky_key k)), (''created_at'', JStr (ky_created_at k)),
      (''prefix'', JStr (take 8 (ky_key k)))]"

definition setup_keys_submit :: "('h, 'b, 'c) site_env \<Rightarrow> ui_request \<Rightarrow> ('h, 'b, 'c) site \<Rightarrow> ('h, 'b, 'c) answer" where
  "setup_keys_submit E rq = guarded E rq (\<lambda>key_id. with_draft key_id (\<lambda>dr step s.
     (let action = form_get E rq ''action'' ''create'' in
      if action = ''skip'' \<or> (action = ''next'' \<and> wd_first_key dr \<noteq> None)
      then go_to ''test'' (store_draft E key_id dr ''test'' s)
      else if action = ''create''
      then (case create_site_key E (form_text E rq ''key_id'' []) s of
          (s1, Inl (ExApp e)) \<Rightarrow> wizard_page E rq ''keys'' dr None (Some (ae_message e)) (ae_status e) s1
        | (s1, Inl e) \<Rightarrow> (s1, Inl e)
        | (s1, Inr k) \<Rightarrow>
            (let dr1 = dr\<lparr>wd_first_key := Some (first_key_doc k)\<rparr> in
             wizard_page E rq ''keys'' dr1 (Some ''Key created. Copy the secret now - it will not be shown again.'') None 200
               (store_draft E key_id dr1 ''keys'' s1)))
      else wizard_page E rq ''keys'' dr None None 200 s)))"

definition setup_test_page :: "('h, 'b, 'c) site_env \<Rightarrow> ui_request \<Rightarrow> ('h, 'b, 'c) site \<Rightarrow> ('h, 'b, 'c) answer" where
  "setup_test_page E rq = later_page E rq ''test''"

definition setup_test_submit :: "('h, 'b, 'c) site_env \<Rightarrow> ui_request \<Rightarrow> ('h, 'b, 'c) site \<Rightarrow> ('h, 'b, 'c) answer" where
  "setup_test_submit E rq = guarded E rq (\<lambda>key_id. with_draft key_id (\<lambda>dr step s.
     if form_get E rq ''action'' ''next'' = ''run''
     then (case probe_call E s dr (\<lambda>a. run_probe_search a (se_backend E) (se_context E) (form_text E rq ''q'' [])) of
         Inl (ExApp e) \<Rightarrow> wizard_page E rq ''test'' dr None (Some (''Test failed: '' @ ae_message e)) (ae_status e) s
       | Inl e \<Rightarrow> wizard_page E rq ''test'' dr None
           (Some ''Unexpected error while running the test. Re-check the backend URL and credentials on step 1.'') 400 s
       | Inr result \<Rightarrow>
           (let dr1 = dr\<lparr>wd_test_result := Some result\<rparr> in
            wizard_page E rq ''test'' dr1 (Some ''Test completed.'') None 200 (store_draft E key_id dr1 ''test'' s)))
     else go_to ''done'' (store_draft E key_id dr ''done'' s)))"

section \<open>Step 8: publishing\<close>

definition setup_done_page :: "('h, 'b, 'c) site_env \<Rightarrow> ui_request \<Rightarrow> ('h, 'b, 'c) site \<Rightarrow> ('h, 'b, 'c) answer" where
  "setup_done_page E rq = later_page E rq ''done''"

text \<open>The draft service of the request works on the store that was open when the request arrived.\<close>

definition reset_in :: "path \<Rightarrow> string \<Rightarrow> ('h, 'b, 'c) site \<Rightarrow> ('h, 'b, 'c) site" where
  "reset_in p key_id s =
     (if cs_store (ct_state (si_ct s)) = p then put_db (draft_reset (site_db s) key_id) s
      else s\<lparr>si_ct := (si_ct s)\<lparr>ct_dbs := dict_set p (draft_reset (open_db (ct_dbs (si_ct s)) p) key_id) (ct_dbs (si_ct s))\<rparr>\<rparr>)"

definition setup_publish :: "('h, 'b, 'c) site_env \<Rightarrow> ui_request \<Rightarrow> ('h, 'b, 'c) site \<Rightarrow> ('h, 'b, 'c) answer" where
  "setup_publish E rq = guarded E rq (\<lambda>key_id. with_draft key_id (\<lambda>dr step s.
     (case draft_to_config (pf_leaves (se_platform E)) dr (site_config s) of
        Inl e \<Rightarrow> wizard_page E rq ''done'' dr None (Some (''Could not assemble a valid configuration: '' @ e)) 400 s
      | Inr c \<Rightarrow>
          (case reload_site E c s of
             (s1, Inl e) \<Rightarrow> wizard_page E rq ''done'' dr None
               (Some (''Configuration saved but the service failed to swap to it: '' @ e)) 500 s1
           | (s1, Inr _) \<Rightarrow> rendered E rq ''setup/published.html'' 200 None None (PublishedPage (wd_first_key dr))
               (reset_in (cs_store (ct_state (si_ct s))) key_id s1)))))"

end
