(* ===== verification/Admin_Routes.thy ===== *)
theory Admin_Routes
  imports Admin_Wizard
begin

text \<open>
  The routes of \<^verbatim>\<open>app/admin_ui/routes.py\<close> in one place, and what holds of all of them: a form does nothing without a
  session and its CSRF token, a page shows nothing without a session and changes nothing.
\<close>

section \<open>The routes\<close>

datatype ui_form =
    Logout | LogoutEverywhere | ConfigForm | CreateKey | RotateKey string | KeyStatus string
  | AddImport | RunImport int | DeleteImport int
  | StartSetup | LanguageForm | ResetSetup | Discover | UseDiscovered | BackendForm | SourceForm
  | MappingProfileForm | MappingForm | SecurityForm | ExposureForm | KeysForm | TestForm | Publish

fun post :: "('h, 'b, 'c) site_env \<Rightarrow> ui_request \<Rightarrow> ui_form \<Rightarrow> ('h, 'b, 'c) site \<Rightarrow> ('h, 'b, 'c) answer" where
  "post E rq Logout = logout E rq"
| "post E rq LogoutEverywhere = logout_everywhere E rq"
| "post E rq ConfigForm = config_update E rq"
| "post E rq CreateKey = create_key E rq"
| "post E rq (RotateKey key_id) = rotate_key E rq key_id"
| "post E rq (KeyStatus key_id) = key_status_action E rq key_id"
| "post E rq AddImport = imports_add E rq"
| "post E rq (RunImport source_id) = imports_run E rq source_id"
| "post E rq (DeleteImport source_id) = imports_delete E rq source_id"
| "post E rq StartSetup = setup_start E rq"
| "post E rq LanguageForm = setup_language E rq"
| "post E rq ResetSetup = setup_reset E rq"
| "post E rq Discover = setup_discover E rq"
| "post E rq UseDiscovered = setup_discover_use E rq"
| "post E rq BackendForm = setup_backend_submit E rq"
| "post E rq SourceForm = setup_source_submit E rq"
| "post E rq MappingProfileForm = setup_mapping_profile E rq"
| "post E rq MappingForm = setup_mapping_submit E rq"
| "post E rq SecurityForm = setup_security_submit E rq"
| "post E rq ExposureForm = setup_exposure_submit E rq"
| "post E rq KeysForm = setup_keys_submit E rq"
| "post E rq TestForm = setup_test_submit E rq"
| "post E rq Publish = setup_publish E rq"

datatype ui_page =
    Dashboard | ConfigView | MappingView | KeysView | UsageView | ImportsView | HelpView
  | SetupLanding | BackendStep | SourceStep | MappingStep | SecurityStep | ExposureStep | KeysStep | TestStep | DoneStep

fun show_page :: "('h, 'b, 'c) site_env \<Rightarrow> ui_request \<Rightarrow> ui_page \<Rightarrow> ('h, 'b, 'c) site \<Rightarrow> ('h, 'b, 'c) answer" where
  "show_page E rq Dashboard = dashboard E rq"
| "show_page E rq ConfigView = config_page E rq"
| "show_page E rq MappingView = mapping_page E rq"
| "show_page E rq KeysView = keys_page E rq"
| "show_page E rq UsageView = usage_page E rq"
| "show_page E rq ImportsView = imports_page E rq"
| "show_page E rq HelpView = help_glossary E rq"
| "show_page E rq SetupLanding = setup_landing E rq"
| "show_page E rq BackendStep = setup_backend_page E rq"
| "show_page E rq SourceStep = setup_source_page E rq"
| "show_page E rq MappingStep = setup_mapping_page E rq"
| "show_page E rq SecurityStep = setup_security_page E rq"
| "show_page E rq ExposureStep = setup_exposure_page E rq"
| "show_page E rq KeysStep = setup_keys_page E rq"
| "show_page E rq TestStep = setup_test_page E rq"
| "show_page E rq DoneStep = setup_done_page E rq"

section \<open>Every form is guarded\<close>

lemma guarded_stops:
  assumes "guarded E rq k s = (s', r)" "signed_in E rq s = None \<or> \<not> csrf_ok E rq"
  shows "only_touched s s' \<and> turned_away r"
proof (cases "signed_in E rq s")
  case None
  then show ?thesis using assms(1) require_login_key_id_stops unfolding guarded_def by blast
next
  case (Some key_id)
  then obtain s1 where s1: "get_ui_key_id E rq s = (s1, Some key_id)" by (cases "get_ui_key_id E rq s") (simp add: signed_in_def)
  then have "enforce_csrf E rq (k key_id) s1 = (s', r)" using assms(1) by (simp add: guarded_def require_login_key_id_def)
  then have "only_touched s1 s' \<and> turned_away r" by (rule enforce_csrf_stops) (use assms(2) Some in simp)
  then show ?thesis using get_ui_key_id_touches [OF s1] only_touched_trans by blast
qed

lemma guarded_page_stops:
  assumes "guarded_page E rq k s = (s', r)" "signed_in E rq s = None \<or> \<not> csrf_ok E rq"
  shows "only_touched s s' \<and> turned_away r"
proof (cases "is_set (signed_in E rq s)")
  case False
  then show ?thesis using assms(1) require_login_stops unfolding guarded_page_def by blast
next
  case True
  then obtain s1 where s1: "get_ui_key_id E rq s = (s1, signed_in E rq s)" by (cases "get_ui_key_id E rq s") (simp add: signed_in_def)
  then have "enforce_csrf E rq k s1 = (s', r)" using assms(1) True by (simp add: guarded_page_def require_login_def)
  then have "only_touched s1 s' \<and> turned_away r" by (rule enforce_csrf_stops) (use assms(2) True in auto)
  then show ?thesis using get_ui_key_id_touches [OF s1] only_touched_trans by blast
qed

lemmas guarded_forms =
  logout_everywhere_def setup_start_def setup_reset_def setup_discover_def setup_discover_use_def setup_backend_submit_def
  setup_source_submit_def setup_mapping_profile_def setup_mapping_submit_def setup_security_submit_def
  setup_exposure_submit_def setup_keys_submit_def setup_test_submit_def setup_publish_def

lemmas guarded_page_forms =
  config_update_def create_key_def rotate_key_def key_status_action_def imports_add_def imports_run_def imports_delete_def
  setup_language_def

text \<open>C4. No form of the admin pages does anything for a request without a live session and the CSRF token of that
  session: the request is sent to the login page or refused, and nothing of the site changes but that sessions may be
  touched or expire.\<close>

theorem forms_need_session_and_token:
  assumes "post E rq f s = (s', r)" "\<not> csrf_ok E rq \<or> (f \<noteq> Logout \<and> signed_in E rq s = None)"
  shows "only_touched s s' \<and> turned_away r"
proof (cases "f = Logout")
  case True
  then have "enforce_csrf E rq (\<lambda>s. (clear_ui_session E rq s, Inr (with_cookie DropSession login_redirect))) s = (s', r)"
    using assms(1) by (simp add: logout_def)
  then show ?thesis by (rule enforce_csrf_stops) (use assms(2) True in simp)
next
  case False
  then have g: "signed_in E rq s = None \<or> \<not> csrf_ok E rq" using assms(2) by blast
  obtain k where "post E rq f s = guarded E rq k s \<or> (\<exists>k'. post E rq f s = guarded_page E rq k' s)"
    using False by (cases f) (auto simp only: post.simps guarded_forms guarded_page_forms simp_thms)
  then show ?thesis using guarded_stops [OF _ g] guarded_page_stops [OF _ g] assms(1) by metis
qed

section \<open>Pages only read\<close>

definition reads_only :: "(('h, 'b, 'c) site \<Rightarrow> ('h, 'b, 'c) answer) \<Rightarrow> bool" where
  "reads_only k \<longleftrightarrow> (\<forall>s. only_touched s (fst (k s)))"

named_theorems reading

lemma readsD: "reads_only k \<Longrightarrow> only_touched s (fst (k s))"
  by (simp add: reads_only_def)

lemma reads_rendered [reading]: "reads_only (rendered E rq t st m e c)"
  unfolding reads_only_def by (metis prod.collapse rendered_touches(1))

lemma reads_rendered_of [reading]: "reads_only (\<lambda>s. rendered E rq t st m e (c s) s)"
  using reads_rendered unfolding reads_only_def by blast

lemma reads_if [reading]: "reads_only k \<Longrightarrow> reads_only k' \<Longrightarrow> reads_only (\<lambda>s. if b then k s else k' s)"
  by (simp add: reads_only_def)

lemma reads_go_to [reading]: "reads_only (go_to step)"
  by (simp add: reads_only_def go_to_def)

lemma reads_with_draft [reading]: "(\<And>dr step. reads_only (k dr step)) \<Longrightarrow> reads_only (with_draft key_id k)"
  by (auto simp: reads_only_def with_draft_def split: sum.split prod.split)

lemma reads_require_login [reading]:
  assumes "reads_only k"
  shows "reads_only (require_login E rq k)"
  unfolding reads_only_def
proof
  fix s :: "('a, 'b, 'c) site"
  obtain s1 key_id where g: "get_ui_key_id E rq s = (s1, key_id)" by (cases "get_ui_key_id E rq s")
  then show "only_touched s (fst (require_login E rq k s))"
    using get_ui_key_id_touches [OF g] by (auto simp: require_login_def intro: only_touched_trans readsD [OF assms])
qed

lemma reads_require_login_key_id [reading]:
  assumes "\<And>key_id. reads_only (k key_id)"
  shows "reads_only (require_login_key_id E rq k)"
  unfolding reads_only_def
proof
  fix s :: "('a, 'b, 'c) site"
  obtain s1 key_id where g: "get_ui_key_id E rq s = (s1, key_id)" by (cases "get_ui_key_id E rq s")
  then show "only_touched s (fst (require_login_key_id E rq k s))"
    using get_ui_key_id_touches [OF g]
    by (auto simp: require_login_key_id_def intro: only_touched_trans readsD [OF assms] split: option.splits)
qed

lemma reads_config [reading]: "reads_only (render_config E rq m e st)"
  by (auto simp: reads_only_def render_config_def intro: readsD [OF reads_rendered] split: option.split)

lemma reads_parts [reading]:
  "reads_only (render_keys E rq m e k st)" "reads_only (render_imports E rq m e st)"
  "reads_only (landing_page E rq key_id step e st)" "reads_only (wizard_page E rq screen dr m e st)"
  by (auto simp: reads_only_def render_keys_def render_imports_def landing_page_def wizard_page_def
      intro: readsD [OF reads_rendered])

lemmas page_defs =
  dashboard_def config_page_def mapping_page_def keys_page_def usage_page_def imports_page_def help_glossary_def
  setup_landing_def setup_backend_page_def setup_source_page_def setup_security_page_def setup_exposure_page_def
  setup_keys_page_def setup_test_page_def setup_done_page_def later_page_def Let_def

lemma show_page_reads: "p \<noteq> MappingStep \<Longrightarrow> reads_only (show_page E rq p)"
  by (cases p) (auto simp only: show_page.simps page_defs simp_thms intro!: reading)

lemma login_hides:
  assumes "signed_in E rq s = None"
  shows "snd (require_login E rq k s) = Inr login_redirect" "snd (require_login_key_id E rq k' s) = Inr login_redirect"
  using assms by (cases "get_ui_key_id E rq s", simp add: require_login_def require_login_key_id_def signed_in_def)+

lemma show_page_hides: "signed_in E rq s = None \<Longrightarrow> snd (show_page E rq p s) = Inr login_redirect"
  by (cases p) (simp_all only: show_page.simps dashboard_def config_page_def mapping_page_def keys_page_def usage_page_def
      imports_page_def help_glossary_def setup_landing_def setup_backend_page_def setup_source_page_def setup_mapping_page_def
      setup_security_page_def setup_exposure_page_def setup_keys_page_def setup_test_page_def setup_done_page_def later_page_def
      login_hides)


end
