(* ===== verification/Admin_Outcomes.thy ===== *)
theory Admin_Outcomes
  imports Admin_Routes
begin

text \<open>
  What the handlers of the admin pages do once a request is let in: whom a login lets in, what a new source, an
  import by hand, a rotation and a publication leave behind.
\<close>

section \<open>Behind the guards\<close>

lemma guarded_runs:
  assumes "guarded E rq k s = (s', r)" "signed_in E rq s = Some key_id" "csrf_ok E rq"
  shows "\<exists>s1. only_touched s s1 \<and> k key_id s1 = (s', r)"
proof -
  obtain s1 where s1: "get_ui_key_id E rq s = (s1, Some key_id)"
    using assms(2) by (cases "get_ui_key_id E rq s") (simp add: signed_in_def)
  then show ?thesis
    using assms(1) get_ui_key_id_touches [OF s1] by (auto simp: guarded_def require_login_key_id_def enforce_csrf_passes [OF assms(3)])
qed

lemma guarded_page_runs:
  assumes "guarded_page E rq k s = (s', r)" "is_set (signed_in E rq s)" "csrf_ok E rq"
  shows "\<exists>s1. only_touched s s1 \<and> k s1 = (s', r)"
proof -
  obtain s1 where s1: "get_ui_key_id E rq s = (s1, signed_in E rq s)"
    by (cases "get_ui_key_id E rq s") (simp add: signed_in_def)
  then show ?thesis
    using assms get_ui_key_id_touches [OF s1]
    by (auto simp: guarded_page_def require_login_def enforce_csrf_passes [OF assms(3)] simp del: not_None_eq)
qed

text \<open>A guarded form either stops and touches, or runs its handler on a touched site.\<close>

lemma guarded_page_cases:
  assumes "guarded_page E rq k s = (s', r)"
  obtains (stopped) "only_touched s s'" "turned_away r" | (ran) s1 where "only_touched s s1" "k s1 = (s', r)"
proof (cases "is_set (signed_in E rq s) \<and> csrf_ok E rq")
  case True
  then show ?thesis using guarded_page_runs [OF assms] ran by blast
next
  case False
  show ?thesis
  proof (cases "signed_in E rq s = None \<or> \<not> csrf_ok E rq")
    case True
    then show ?thesis using guarded_page_stops [OF assms] stopped by blast
  next
    case c: False
    then have "\<not> is_set (signed_in E rq s)" using False by blast
    then show ?thesis using require_login_stops [OF assms [unfolded guarded_page_def]] stopped by blast
  qed
qed

lemma only_touched_db: "only_touched s s' \<Longrightarrow> site_db s' = (site_db s)\<lparr>db_ui_sessions := db_ui_sessions (site_db s')\<rparr>"
  by (simp add: only_touched_def db_touched_def)

lemma only_touched_ct:
  assumes "only_touched s s'"
  shows "ct_epoch (si_ct s') = ct_epoch (si_ct s)" "site_config s' = site_config s" "ct_lockout (si_ct s') = ct_lockout (si_ct s)"
    "si_draws s' = si_draws s"
proof -
  have e: "s' = put_db (site_db s') (s\<lparr>si_reads := si_reads s'\<rparr>)" using assms by (simp add: only_touched_def)
  show "ct_epoch (si_ct s') = ct_epoch (si_ct s)" by (subst e) (simp add: put_db_def put_keys_def)
  show "site_config s' = site_config s" by (subst e) (simp add: put_db_def put_keys_def current_config_def)
  show "ct_lockout (si_ct s') = ct_lockout (si_ct s)" by (subst e) (simp add: put_db_def put_keys_def)
  show "si_draws s' = si_draws s" by (subst e) (simp add: put_db_def put_keys_def)
qed

section \<open>Signing in\<close>

lemma create_session_row:
  assumes "create_ui_session cr d now token key_id ttl = Inr (d', t)"
  shows "t = token \<and> (\<exists>x \<in> set (db_ui_sessions d'). ss_token x = cr_sha256 cr token \<and> ss_key_id x = key_id)"
  using assms by (auto simp: create_ui_session_def Let_def split: if_split_asm)

lemma open_session_row:
  assumes "open_ui_session E key_id s = (s', Inr token)"
  shows "\<exists>x \<in> set (db_ui_sessions (site_db s')). ss_token x = cr_sha256 (se_crypto E) token \<and> ss_key_id x = key_id"
  using assms create_session_row by (fastforce simp: open_ui_session_def Let_def split: sum.split_asm prod.split_asm)

lemma charge_keeps_keys: "charge_login E rq s = (s', ok) \<Longrightarrow> site_keys s' = site_keys s"
  by (auto simp: charge_login_def Let_def tick_def set_login_rate_limiter_def split: prod.split_asm)

lemma api_key_session:
  assumes "create_ui_session_for_api_key E secret s = (s', Inr token)" "picks (se_pick E)"
  shows "\<exists>k \<in> set (db_api_keys (site_db s)). ak_status k = ''active'' \<and> matches_secret (se_crypto E) secret k \<and>
    (\<exists>x \<in> set (db_ui_sessions (site_db s')). ss_token x = cr_sha256 (se_crypto E) token \<and> ss_key_id x = ak_key_id k)"
proof -
  obtain m k where k: "km_get_identity (se_crypto E) (se_pick E) (site_keys s) (clock_now E s) (Some secret) = (m, Some k)"
    and o: "open_ui_session E (ak_key_id k) (put_keys m (tick s)) = (s', Inr token)"
    using assms(1) by (auto simp: create_ui_session_for_api_key_def split: prod.split_asm option.split_asm)
  then have "snd (validate_api_key (se_crypto E) (se_pick E) (site_db s) (clock_now E s) (Some secret)) = Some k"
    by (auto simp: km_get_identity_def current_db_def Let_def split: prod.split_asm)
  from validate_some [OF this assms(2)] open_session_row [OF o] show ?thesis by auto
qed

text \<open>C22. A login hands out a session only when the limiter lets the client try, for the secret of an active key, and the session
  belongs to the label of that key.\<close>

theorem login_session_owner:
  assumes "login_submit E rq s = (s', Inr r)" "SetSession token secure samesite \<in> set (rp_cookies r)" "picks (se_pick E)"
  shows "snd (charge_login E rq s) \<and>
    (\<exists>k \<in> set (db_api_keys (site_db s)). ak_status k = ''active'' \<and>
       matches_secret (se_crypto E) (form_get E rq ''api_key'' []) k \<and>
       (\<exists>x \<in> set (db_ui_sessions (site_db s')). ss_token x = cr_sha256 (se_crypto E) token \<and> ss_key_id x = ak_key_id k))"
proof -
  obtain s1 ok where c: "charge_login E rq s = (s1, ok)" by (cases "charge_login E rq s")
  have no: "rp_cookies x = []" if "rendered E rq t st m e ct u = (u', Inr x)" for t st m e ct u u' x
    using rendered_touches(2) [OF that] by auto
  have ok: ok using assms(1,2) c no by (cases ok) (fastforce simp: login_submit_def)+
  obtain s2 a where a: "create_ui_session_for_api_key E (form_get E rq ''api_key'' []) s1 = (s2, a)"
    by (cases "create_ui_session_for_api_key E (form_get E rq ''api_key'' []) s1")
  obtain t where t: "a = Inr t"
  proof (cases a)
    case (Inl e)
    then have False using assms(1,2) c ok a no by (cases e) (fastforce simp: login_submit_def)+
    then show ?thesis ..
  qed
  then have "s' = s2" "t = token"
    using assms(1,2) c ok a by (auto simp: login_submit_def set_session_cookie_def with_cookie_def redirect_def)
  then show ?thesis
    using api_key_session [OF a [unfolded t] assms(3)] charge_keeps_keys [OF c] c ok by (simp add: current_db_def)
qed

text \<open>A one-time link signs in as its label whatever became of the key.\<close>

lemma otp_ignores_key_status:
  assumes "consume_setup_otp (se_crypto E) (site_db s) (clock_now E s) (Some otp) = (d, Some key_id)"
    "\<And>x. x \<in> set (db_ui_sessions (site_db s)) \<Longrightarrow> ss_token x \<noteq> cr_sha256 (se_crypto E) (next_token E s)"
  shows "\<exists>s' r. setup_otp_exchange E rq otp s = (s', Inr r) \<and> rp_status r = 303 \<and>
    (\<exists>x \<in> set (db_ui_sessions (site_db s')). ss_key_id x = key_id \<and> ss_token x = cr_sha256 (se_crypto E) (next_token E s))"
proof -
  have "db_ui_sessions d = db_ui_sessions (site_db s)"
    using assms(1) by (auto simp: consume_setup_otp_def Let_def split: if_split_asm option.split_asm)
  then have fresh: "\<not> (\<exists>x \<in> set (db_ui_sessions d). ss_token x = cr_sha256 (se_crypto E) (next_token E s))" using assms(2) by auto
  have same: "next_token E (put_db d (tick s)) = next_token E s" by (simp add: put_db_def put_keys_def tick_def)
  obtain s2 where o: "open_ui_session E key_id (put_db d (tick s)) = (s2, Inr (next_token E s))"
    using fresh unfolding open_ui_session_def Let_def same create_ui_session_def by (simp add: create_ui_session_def)
  from open_session_row [OF o] o assms(1) show ?thesis
    by (auto simp: setup_otp_exchange_def set_session_cookie_def with_cookie_def redirect_def)
qed

section \<open>Import sources\<close>

text \<open>What the dispatcher and the scheduler need of a source.\<close>

definition runnable_source :: "import_source \<Rightarrow> bool" where
  "runnable_source x \<longleftrightarrow>
     is_label x \<noteq> [] \<and> is_set (is_url x) \<and> is_kind x \<in> set supported_kinds \<and> is_schema_profile x \<in> set allowed_profiles \<and>
     (is_schedule x = None \<and> is_next_run_at x = None \<or> is_valid_schedule (is_schedule x) \<and> is_next_run_at x \<noteq> None) \<and>
     (is_kind x \<in> {''oaipmh_marcxml'', ''marc_file'', ''marcxml_file''} \<longrightarrow> is_metadata_prefix x \<in> Some ` set supported_marc_flavors)"

lemma scheduled_is_valid: "c \<in> set allowed_schedules \<Longrightarrow> is_valid_schedule (Some c) \<and> compute_next_run_at (Some c) t \<noteq> None"
  by (auto simp: allowed_schedules_def is_valid_schedule_def compute_next_run_at_def schedule_deltas_def)

lemma kinds_supported: "k \<in> set allowed_kinds \<Longrightarrow> k \<in> set supported_kinds"
  by (auto simp: allowed_kinds_def supported_kinds_def)

lemma stored_flavor:
  assumes "stored_prefix kind mp flavor = Inr x" "kind \<in> {''oaipmh_marcxml'', ''marc_file'', ''marcxml_file''}"
  shows "x \<in> set supported_marc_flavors"
  using assms by (auto simp: stored_prefix_def split: if_split_asm)

lemma flavors_named: "x \<in> set supported_marc_flavors \<Longrightarrow> or_none x = Some x"
  by (auto simp: supported_marc_flavors_def or_none_def)

lemma read_source_form_ok:
  assumes "read_source_form E rq = Inr f"
  shows "sf_label f \<noteq> []" "sf_url f \<noteq> []" "sf_kind f \<in> set supported_kinds" "sf_schema_profile f \<in> set allowed_profiles"
    "sf_schedule f = None \<or> (\<exists>c \<in> set allowed_schedules. sf_schedule f = Some c)"
    "sf_kind f \<in> {''oaipmh_marcxml'', ''marc_file'', ''marcxml_file''} \<longrightarrow> sf_metadata_prefix f \<in> Some ` set supported_marc_flavors"
proof -
  obtain mp flavor stored where st: "stored_prefix (sf_kind f) mp flavor = Inr stored" "sf_metadata_prefix f = or_none stored"
    and kind: "sf_kind f \<in> set allowed_kinds"
    and rest: "sf_label f \<noteq> []" "sf_url f \<noteq> []" "sf_schema_profile f \<in> set allowed_profiles"
      "sf_schedule f = None \<or> the (sf_schedule f) \<in> set allowed_schedules"
    using assms unfolding read_source_form_def Let_def bind_r_def by (auto split: if_split_asm sum.split_asm)
  show "sf_label f \<noteq> []" "sf_url f \<noteq> []" "sf_schema_profile f \<in> set allowed_profiles" by (fact rest)+
  show "sf_kind f \<in> set supported_kinds" using kind by (rule kinds_supported)
  show "sf_schedule f = None \<or> (\<exists>c \<in> set allowed_schedules. sf_schedule f = Some c)" using rest(4) by (cases "sf_schedule f") auto
  show "sf_kind f \<in> {''oaipmh_marcxml'', ''marc_file'', ''marcxml_file''} \<longrightarrow> sf_metadata_prefix f \<in> Some ` set supported_marc_flavors"
    using stored_flavor [OF st(1)] flavors_named st(2) by auto
qed

text \<open>Whatever is posted to the form of a new source, the table of sources stays as it is or gains one row at its end
  with an id never used before, which the dispatcher accepts and the scheduler can time.\<close>

lemma added_source_runs:
  assumes "imports_add E rq s = (s', r)"
  shows "db_import_sources (site_db s') = db_import_sources (site_db s) \<or>
    (\<exists>x. db_import_sources (site_db s') = db_import_sources (site_db s) @ [x] \<and> runnable_source x \<and>
       is_id x = Suc (db_sources_seq (site_db s)))"
  using assms unfolding imports_add_def
proof (cases rule: guarded_page_cases)
  case stopped
  then show ?thesis using only_touched_db [OF stopped(1)] by (metis db.select_convs(5) db.surjective db.update_convs(2))
next
  case (ran s1)
  have same: "db_import_sources (site_db b) = db_import_sources (site_db a) \<and> db_sources_seq (site_db b) = db_sources_seq (site_db a)"
    if "only_touched a b" for a b :: "('a, 'b, 'c) site"
    by (subst only_touched_db [OF that], subst only_touched_db [OF that]) simp
  show ?thesis
  proof (cases "read_source_form E rq")
    case (Inl e)
    then have "only_touched s1 s'" using ran(2) by (auto simp: render_imports_def dest: rendered_touches(1))
    then show ?thesis using same [OF ran(1)] same [of s1 s'] by simp
  next
    case (Inr f)
    define s2 where "s2 = (if sf_schedule f = None then s1 else tick s1)"
    define next_run where "next_run = (if sf_schedule f = None then None else compute_next_run_at (sf_schedule f) (clock_now E s1))"
    define d where "d = add_import_source (site_db s2) (clock_now E s2) (sf_label f) (sf_kind f) (Some (sf_url f))
        (sf_metadata_prefix f) (sf_set_spec f) (sf_schema_profile f) (sf_schedule f) next_run"
    have "only_touched (put_db (fst d) (tick s2)) s'"
      using ran(2) Inr by (auto simp: render_imports_def Let_def s2_def next_run_def d_def dest: rendered_touches(1))
    then have "db_import_sources (site_db s') = db_import_sources (fst d)" using same by fastforce
    moreover have "site_db s2 = site_db s1" by (simp add: s2_def)
    moreover have "runnable_source (snd d)"
      using read_source_form_ok [OF Inr] scheduled_is_valid
      by (auto simp: d_def runnable_source_def add_import_source_def Let_def next_run_def)
    ultimately show ?thesis
      using same [OF ran(1)] by (auto simp: d_def add_import_source_def Let_def)
  qed
qed

text \<open>An import by hand does not move the write epoch: what it stored stays hidden behind the validators of before.\<close>

lemma run_keeps_epoch:
  assumes "imports_run E rq source_id s = (s', r)"
  shows "ct_epoch (si_ct s') = ct_epoch (si_ct s)"
  using assms unfolding imports_run_def
proof (cases rule: guarded_page_cases)
  case stopped
  then show ?thesis using only_touched_ct(1) by blast
next
  case (ran s1)
  have render: "ct_epoch (si_ct b) = ct_epoch (si_ct a)" if "render_imports E rq m e st a = (b, x)" for m e st a b x
    using that by (auto simp: render_imports_def dest!: rendered_touches(1) only_touched_ct(1))
  have after: "ct_epoch (si_ct (after_import w a)) = ct_epoch (si_ct a)" for w and a :: "('a, 'b, 'c) site"
    by (simp add: after_import_def)
  show ?thesis
    using ran(2) only_touched_ct(1) [OF ran(1)] render after
    by (fastforce split: option.split_asm if_split_asm prod.split_asm)
qed

section \<open>Rotation and the session cookie\<close>

text \<open>The cookie is dropped when the rotated key is the one that signed in, but by then its sessions are gone, so it never is.\<close>

lemma rotation_clears_sessions:
  assumes "svc_rotate cr m secret key_id = Inr (m', secret')"
  shows "\<forall>x \<in> set (db_ui_sessions (km_db m')). ss_key_id x \<noteq> key_id"
  using assms by (auto simp: svc_rotate_def bind_r_def drop_key_sessions_def invalidate_sessions_for_key_id_def drop_sessions_def
      split: sum.split_asm option.split_asm)

lemma gone_label_stays_gone:
  assumes "only_touched a b" "\<forall>x \<in> set (db_ui_sessions (site_db a)). ss_key_id x \<noteq> key_id"
  shows "\<forall>x \<in> set (db_ui_sessions (site_db b)). ss_key_id x \<noteq> key_id"
proof
  fix x assume "x \<in> set (db_ui_sessions (site_db b))"
  then have "(ss_token x, ss_key_id x, ss_expires_at x) \<in> session_ids (site_db a)"
    using assms(1) unfolding only_touched_def db_touched_def session_ids_def by blast
  then show "ss_key_id x \<noteq> key_id" using assms(2) by (auto simp: session_ids_def)
qed

lemma lookup_of_gone_label:
  assumes "\<forall>x \<in> set (db_ui_sessions (site_db s)). ss_key_id x \<noteq> key_id" "get_ui_key_id E rq s = (s', who)"
  shows "who \<noteq> Some key_id"
proof
  assume "who = Some key_id"
  then have "snd (get_ui_session_key_id (se_crypto E) (site_db s) (clock_now E s) (ur_session rq)
      (au_admin_session_idle_timeout_minutes (ac_auth (site_config s)))) = Some key_id"
    using assms(2) by (simp add: get_ui_key_id_def split: prod.split_asm)
  from session_some [OF this] assms(1) show False by blast
qed

lemma rotation_never_drops_cookie:
  assumes "rotate_key E rq key_id s = (s', Inr r)"
  shows "rp_cookies r = []"
  using assms unfolding rotate_key_def
proof (cases rule: guarded_page_cases)
  case stopped
  then show ?thesis by (auto simp: turned_away_def login_redirect_def redirect_def)
next
  case (ran s1)
  have plain: "rp_cookies x = []" if "render_keys E rq m e k st a = (b, Inr x)" for m e k st a b x
    using rendered_touches(2) [OF that [unfolded render_keys_def]] by auto
  show ?thesis
  proof (cases "svc_rotate (se_crypto E) (site_keys s1) (next_token E s1) key_id")
    case (Inl e)
    then show ?thesis using ran(2) plain by (cases e) fastforce+
  next
    case (Inr p)
    obtain m secret where p: "p = (m, secret)" by (cases p)
    let ?msg = "Some (rotated_message key_id)" and ?key = "Some \<lparr>sk_key_id = key_id, sk_key = secret\<rparr>"
    obtain s2 y where y: "render_keys E rq ?msg None ?key 200 (put_keys m (draw s1)) = (s2, y)"
      by (cases "render_keys E rq ?msg None ?key 200 (put_keys m (draw s1))")
    then obtain x where x: "y = Inr x" using rendered_touches(2) unfolding render_keys_def by blast
    obtain s3 who where who: "get_ui_key_id E rq s2 = (s3, who)" by (cases "get_ui_key_id E rq s2")
    have "only_touched (put_keys m (draw s1)) s2" using y unfolding render_keys_def by (rule rendered_touches(1))
    then have "\<forall>y \<in> set (db_ui_sessions (site_db s2)). ss_key_id y \<noteq> key_id"
      by (rule gone_label_stays_gone) (use rotation_clears_sessions [OF Inr [unfolded p]] in simp)
    then have "who \<noteq> Some key_id" using who by (rule lookup_of_gone_label)
    then show ?thesis using ran(2) Inr p x y who plain [OF y [unfolded x]] by simp
  qed
qed

section \<open>The wizard\<close>

text \<open>Going back to the first step forgets what the later steps chose: the access mode is open again.\<close>

lemma backend_form_resets:
  assumes "draft_from_backend_form E rq previous = Inr dr"
  shows "wd_public_mode dr = ''anonymous_allowed'' \<and> wd_security_profile dr = ''prudent'' \<and> wd_schema_profile dr = ''library'' \<and>
    wd_exposure dr = default_exposure \<and> wd_first_key dr = None \<and> wd_test_result dr = None"
  using assms by (auto simp: draft_from_backend_form_def Let_def bind_r_def new_draft_def split: sum.split_asm)

text \<open>The secret of the first key is stored, in clear, with the draft.\<close>

lemma stored_draft_row:
  assumes "step \<in> set wizard_steps"
  shows "\<exists>row \<in> set (db_setup_drafts (site_db (store_draft E key_id dr step s))). dr_key_id row = key_id \<and>
    dr_payload row = json_dumps (sort_keys (JDict (draft_to_json dr)))"
proof -
  let ?d = "site_db s" and ?p = "json_dumps (sort_keys (JDict (draft_to_json dr)))"
  let ?row = "\<lparr>dr_key_id = key_id, dr_payload = ?p, dr_step = step, dr_updated_at = iso (clock_now E s)\<rparr>"
  have "site_db (store_draft E key_id dr step s) = save_setup_draft ?d (clock_now E s) key_id (draft_to_json dr) step"
    using assms by (simp add: store_draft_def draft_save_def)
  moreover have "?row \<in> set (db_setup_drafts (save_setup_draft ?d (clock_now E s) key_id (draft_to_json dr) step))"
    unfolding save_setup_draft_def Let_def by (auto simp del: dumps.simps sort_keys.simps)
  ultimately show ?thesis by (intro bexI [of _ ?row]) (simp_all del: dumps.simps sort_keys.simps)
qed

lemma touched_drafts: "only_touched a b \<Longrightarrow> db_setup_drafts (site_db b) = db_setup_drafts (site_db a)"
  by (subst only_touched_db) simp_all

text \<open>Behind the guards, a handler of the wizard works on the draft that was stored when the request arrived.\<close>

lemma guarded_draft_runs:
  assumes "guarded E rq (\<lambda>key_id. with_draft key_id (k key_id)) s = (s', Inr r)" "signed_in E rq s = Some key_id" "csrf_ok E rq"
  shows "\<exists>s1 dr step. only_touched s s1 \<and> draft_load (site_db s) key_id = Inr (dr, step) \<and> k key_id dr step s1 = (s', Inr r)"
proof -
  obtain s1 where s1: "only_touched s s1" "with_draft key_id (k key_id) s1 = (s', Inr r)"
    using guarded_runs [OF assms] by blast
  have "draft_load (site_db s1) key_id = draft_load (site_db s) key_id"
    by (simp add: draft_load_def load_setup_draft_def touched_drafts [OF s1(1)])
  then show ?thesis using s1 by (auto simp: with_draft_def split: sum.split_asm prod.split_asm)
qed

lemma first_key_is_stored:
  assumes "setup_keys_submit E rq s = (s', Inr r)" "signed_in E rq s = Some key_id" "csrf_ok E rq"
    "form_get E rq ''action'' ''create'' = ''create''" "rp_error r = None"
  shows "\<exists>dr k. wd_first_key dr = Some (first_key_doc k) \<and> rp_content r = WizardPage dr ''keys'' \<and>
    (\<exists>row \<in> set (db_setup_drafts (site_db s')). dr_key_id row = key_id \<and>
       dr_payload row = json_dumps (sort_keys (JDict (draft_to_json dr))))"
proof -
  note g = guarded_draft_runs [OF assms(1) [unfolded setup_keys_submit_def] assms(2,3), unfolded Let_def assms(4)]
  then obtain s1 dr0 where run: "(case create_site_key E (form_text E rq ''key_id'' []) s1 of
          (s1, Inl (ExApp e)) \<Rightarrow> wizard_page E rq ''keys'' dr0 None (Some (ae_message e)) (ae_status e) s1
        | (s1, Inl e) \<Rightarrow> (s1, Inl e)
        | (s1, Inr k) \<Rightarrow>
             wizard_page E rq ''keys'' (dr0\<lparr>wd_first_key := Some (first_key_doc k)\<rparr>)
               (Some ''Key created. Copy the secret now - it will not be shown again.'') None 200
               (store_draft E key_id (dr0\<lparr>wd_first_key := Some (first_key_doc k)\<rparr>) ''keys'' s1)) = (s', Inr r)"
    by (elim exE conjE) simp
  obtain s2 x where x: "create_site_key E (form_text E rq ''key_id'' []) s1 = (s2, x)"
    by (cases "create_site_key E (form_text E rq ''key_id'' []) s1")
  have shown: "rp_error r = e \<and> rp_content r = WizardPage dr ''keys''"
    if "wizard_page E rq ''keys'' dr m e st a = (s', Inr r)" for dr m e st a
    using rendered_touches(2) [OF that [unfolded wizard_page_def]] by auto
  show ?thesis
  proof (cases x)
    case (Inl e)
    then have False using run x shown assms(5) by (cases e) fastforce+
    then show ?thesis ..
  next
    case (Inr k)
    let ?dr = "dr0\<lparr>wd_first_key := Some (first_key_doc k)\<rparr>"
    have w: "wizard_page E rq ''keys'' ?dr (Some ''Key created. Copy the secret now - it will not be shown again.'') None 200
        (store_draft E key_id ?dr ''keys'' s2) = (s', Inr r)" using run x Inr by (simp add: Let_def)
    have "''keys'' \<in> set wizard_steps" by (simp add: wizard_steps_def)
    from stored_draft_row [OF this, of E key_id ?dr s2]
    have "\<exists>row \<in> set (db_setup_drafts (site_db s')). dr_key_id row = key_id \<and>
        dr_payload row = json_dumps (sort_keys (JDict (draft_to_json ?dr)))"
      using touched_drafts [OF rendered_touches(1) [OF w [unfolded wizard_page_def]]] by (simp only:)
    then show ?thesis using shown [OF w] by (intro exI [of _ ?dr] exI [of _ k]) simp
  qed
qed

section \<open>Publishing\<close>

lemma deleted_draft_is_gone: "load_setup_draft (draft_reset d key_id) key_id = None"
proof -
  have "find (\<lambda>r. dr_key_id r = key_id) (filter (\<lambda>r. dr_key_id r \<noteq> key_id) rs) = None" for rs by (simp add: find_None_iff)
  from this [of "db_setup_drafts d"] show ?thesis by (simp add: load_setup_draft_def draft_reset_def delete_setup_draft_def)
qed

lemma put_db_services [simp]:
  "ct_os (si_ct (put_db d s)) = ct_os (si_ct s)" "built_from pf u c (ct_state (si_ct (put_db d s))) = built_from pf u c (ct_state (si_ct s))"
  "cs_store (ct_state (si_ct (put_db d s))) = cs_store (ct_state (si_ct s))" "ct_lockout (si_ct (put_db d s)) = ct_lockout (si_ct s)"
  by (simp_all add: put_db_def put_keys_def built_from_def)

lemma only_touched_services:
  assumes "only_touched a b"
  shows "ct_os (si_ct b) = ct_os (si_ct a)" "built_from pf u c (ct_state (si_ct b)) = built_from pf u c (ct_state (si_ct a))"
    "cs_store (ct_state (si_ct b)) = cs_store (ct_state (si_ct a))"
proof -
  have e: "b = put_db (site_db b) (a\<lparr>si_reads := si_reads b\<rparr>)" using assms by (simp add: only_touched_def)
  show "ct_os (si_ct b) = ct_os (si_ct a)" by (subst e) simp
  show "built_from pf u c (ct_state (si_ct b)) = built_from pf u c (ct_state (si_ct a))" by (subst e) simp
  show "cs_store (ct_state (si_ct b)) = cs_store (ct_state (si_ct a))" by (subst e) simp
qed

text \<open>The site runs on its configuration: no reload has failed half way.\<close>

definition in_step :: "('h, 'b, 'c) site_env \<Rightarrow> ('h, 'b, 'c) site \<Rightarrow> bool" where
  "in_step E s \<longleftrightarrow> built_from (se_platform E) (ct_os (si_ct s)) (site_config s) (ct_state (si_ct s))"

text \<open>C9. When the wizard reports a publication, the configuration in force is the valid one made of the stored draft, every
  service is built from it, the write epoch is kept, and the draft (with the secret it held) is gone.\<close>

theorem publication_takes_effect:
  assumes "setup_publish E rq s = (s', Inr r)" "rp_content r = PublishedPage k" "in_step E s"
    "signed_in E rq s = Some key_id" "csrf_ok E rq" "leaves_lawful (pf_leaves (se_platform E))"
  shows "\<exists>dr step. draft_load (site_db s) key_id = Inr (dr, step) \<and>
    draft_to_config (pf_leaves (se_platform E)) dr (site_config s) = Inr (site_config s') \<and> config_ok (site_config s') \<and>
    built_from (se_platform E) (ct_os (si_ct s)) (site_config s') (ct_state (si_ct s')) \<and>
    ct_epoch (si_ct s') = ct_epoch (si_ct s) \<and> load_setup_draft (site_db s') key_id = None"
proof -
  obtain s1 dr step where s1: "only_touched s s1" and dr: "draft_load (site_db s) key_id = Inr (dr, step)"
    and run: "(case draft_to_config (pf_leaves (se_platform E)) dr (site_config s1) of
        Inl e \<Rightarrow> wizard_page E rq ''done'' dr None (Some (''Could not assemble a valid configuration: '' @ e)) 400 s1
      | Inr c \<Rightarrow>
          (case reload_site E c s1 of
             (s2, Inl e) \<Rightarrow> wizard_page E rq ''done'' dr None
               (Some (''Configuration saved but the service failed to swap to it: '' @ e)) 500 s2
           | (s2, Inr _) \<Rightarrow> rendered E rq ''setup/published.html'' 200 None None (PublishedPage (wd_first_key dr))
               (reset_in (cs_store (ct_state (si_ct s1))) key_id s2))) = (s', Inr r)"
    using guarded_draft_runs [OF assms(1) [unfolded setup_publish_def] assms(4,5)] by blast
  have page: "rp_content r = WizardPage dr ''done''" if "wizard_page E rq ''done'' dr m e st a = (s', Inr r)" for m e st a
    using rendered_touches(2) [OF that [unfolded wizard_page_def]] by auto
  have cfg: "site_config s1 = site_config s" using only_touched_ct(2) [OF s1] .
  obtain c where c: "draft_to_config (pf_leaves (se_platform E)) dr (site_config s) = Inr c"
    using run cfg page assms(2) by (cases "draft_to_config (pf_leaves (se_platform E)) dr (site_config s)") auto
  obtain s2 u where rl: "reload_site E c s1 = (s2, u)" by (cases "reload_site E c s1")
  have u: "u = Inr ()"
    using run cfg c rl page assms(2) by (cases u) auto
  then have pub: "rendered E rq ''setup/published.html'' 200 None None (PublishedPage (wd_first_key dr))
      (reset_in (cs_store (ct_state (si_ct s1))) key_id s2) = (s', Inr r)"
    using run cfg c rl by simp
  obtain ct where ct: "reload (se_platform E) (si_ct s1) (clock_now E s1) (next_token E s1) c = (ct, Inr ())"
    "s2 = draw (tick (s1\<lparr>si_ct := ct\<rparr>))"
    using rl u by (auto simp: reload_site_def split: prod.split_asm)
  note facts = reload_facts [OF ct(1)]
  note ok = draft_to_config_facts [OF c assms(6)]
  have s2: "site_config s2 = c" "ct_epoch (si_ct s2) = ct_epoch (si_ct s)"
      "built_from (se_platform E) (ct_os (si_ct s)) c (ct_state (si_ct s2))"
    using facts ct(2) only_touched_ct(1) [OF s1] only_touched_services(1) [OF s1]
    by (simp_all add: draw_def tick_def)
  have "cs_store (ct_state (si_ct s2)) = cs_store (ct_state (si_ct s1))"
    using s2(3) ok assms(3) only_touched_services(3) [OF s1] by (simp add: in_step_def built_from_def kept_blocks_def)
  then have s3: "reset_in (cs_store (ct_state (si_ct s1))) key_id s2 = put_db (draft_reset (site_db s2) key_id) s2"
    by (simp add: reset_in_def)
  note t = rendered_touches(1) [OF pub [unfolded s3]]
  have "load_setup_draft (site_db s') key_id = None"
    using touched_drafts [OF t] deleted_draft_is_gone [of "site_db s2" key_id] by (simp add: load_setup_draft_def)
  then show ?thesis
    using dr c ok s2 only_touched_ct(1,2) [OF t] only_touched_services(2) [OF t] by auto
qed

section \<open>A concrete site\<close>

definition demo_site_config :: app_config where
  "demo_site_config = default_app_config\<lparr>ac_auth := default_auth_config\<lparr>au_admin_session_idle_timeout_minutes := 0\<rparr>\<rparr>"

definition demo_site_env :: "(unit, unit, unit) site_env" where
  "demo_site_env = \<lparr>se_platform = demo_platform, se_pick = hd, se_clock = (\<lambda>k. k), se_time = (\<lambda>k. of_nat k),
     se_token = (\<lambda>k. ''t''), se_csrf_key = ''k'', se_utf8 = (\<lambda>x. x), se_redis = (\<lambda>c k w. (c, None)), se_import = demo_env,
     se_bulk = (\<lambda>a. demo_sink), se_backend = \<lparr>he_outcome = (\<lambda>r n. ORaises ''down''), he_start = 0, he_now = (\<lambda>n. 0), he_uniform = (\<lambda>n a b. a)\<rparr>,
     se_context = [], se_probe = (\<lambda>u. Inl ''down'')\<rparr>"

definition demo_site_db :: db where
  "demo_site_db = empty_db\<lparr>
     db_api_keys := [key_row demo_crypto 0 ''partner'' ''s1''],
     db_ui_sessions := [\<lparr>ss_token = ''htok'', ss_key_id = ''partner'', ss_created_at = [], ss_expires_at = None, ss_last_activity_at = None\<rparr>]\<rparr>"

definition demo_site_state :: container_state where
  "demo_site_state = \<lparr>cs_manager = \<lparr>cm_path = demo_path, cm_config = demo_site_config\<rparr>,
     cs_store = get_state_db_path demo_os (st_sqlite_path (ac_storage demo_site_config)),
     cs_keys = \<lparr>km_db = demo_site_db, km_default_admin_key = []\<rparr>,
     cs_rate_limiter = limiter_for demo_platform demo_os (rl_public_max_requests (ac_rate_limit demo_site_config))
       (rl_public_window_seconds (ac_rate_limit demo_site_config)) ''public'',
     cs_login_rate_limiter = limiter_for demo_platform demo_os (rl_admin_login_max_requests (ac_rate_limit demo_site_config))
       (rl_admin_login_window_seconds (ac_rate_limit demo_site_config)) ''admin_login'',
     cs_mapper = demo_site_config, cs_policy = demo_site_config,
     cs_adapter = build_adapter (\<lambda>v. dict_get (os_env demo_os) v) demo_site_config, cs_purge = no_purge\<rparr>"

definition demo_site :: "(unit, unit, unit) site" where
  "demo_site = \<lparr>si_ct = \<lparr>ct_os = demo_os, ct_dbs = [], ct_state = demo_site_state, ct_lockout = new_lockout 0 0, ct_epoch = 7\<rparr>,
     si_http = (), si_sink = (), si_redis = (), si_reads = 0, si_draws = 0\<rparr>"

definition demo_ui_request :: "string option \<Rightarrow> string option \<Rightarrow> string \<Rightarrow> ui_request" where
  "demo_ui_request session token form = \<lparr>ur_client = None, ur_session = session, ur_csrf_header = token, ur_body = form\<rparr>"

lemma demo_in_step: "in_step demo_site_env demo_site"
  by (simp add: in_step_def built_from_def demo_site_def demo_site_env_def demo_site_state_def current_config_def)

lemma demo_signed_in: "signed_in demo_site_env (demo_ui_request (Some ''tok'') c b) demo_site = Some ''partner''"
  by (simp add: signed_in_def get_ui_key_id_def get_ui_session_key_id_def demo_site_def demo_site_env_def demo_site_state_def
      demo_ui_request_def demo_platform_def demo_crypto_def current_db_def current_config_def demo_site_db_def demo_site_config_def
      find_session_def empty_db_def)

lemma demo_csrf: "csrf_ok demo_site_env (demo_ui_request (Some ''tok'') (Some ''ktok'') [])"
  unfolding csrf_ok_def by code_simp

theorem forms_need_session_and_token_witness:
  "only_touched demo_site (fst (post demo_site_env (demo_ui_request None None ''key_id=x'') CreateKey demo_site)) \<and>
   turned_away (snd (post demo_site_env (demo_ui_request None None ''key_id=x'') CreateKey demo_site))"
proof (rule forms_need_session_and_token)
  show "post demo_site_env (demo_ui_request None None ''key_id=x'') CreateKey demo_site =
    (fst (post demo_site_env (demo_ui_request None None ''key_id=x'') CreateKey demo_site),
     snd (post demo_site_env (demo_ui_request None None ''key_id=x'') CreateKey demo_site))" by simp
  show "\<not> csrf_ok demo_site_env (demo_ui_request None None ''key_id=x'') \<or>
      CreateKey \<noteq> Logout \<and> signed_in demo_site_env (demo_ui_request None None ''key_id=x'') demo_site = None"
    by (simp add: signed_in_def get_ui_key_id_def get_ui_session_key_id_def demo_ui_request_def)
qed


definition demo_login :: ui_request where
  "demo_login = demo_ui_request None None ''api_key=s1''"

lemma demo_login_form: "form_get demo_site_env demo_login ''api_key'' [] = ''s1''"
  by code_simp

lemma demo_charge: "snd (charge_login demo_site_env demo_login demo_site)"
  by (simp add: charge_login_def limiter_allow_def demo_site_def demo_site_state_def limiter_for_def build_rate_limiter_def
      demo_os_def demo_login_def demo_ui_request_def mem_allow_def new_mem_limiter_def bucket_def demo_site_config_def
      default_app_config_def default_rate_limit_config_def Let_def split: prod.split)

lemma demo_login_works:
  "\<exists>s' r. login_submit demo_site_env demo_login demo_site = (s', Inr r) \<and> SetSession ''t'' True ''strict'' \<in> set (rp_cookies r)"
proof -
  obtain s1 where c: "charge_login demo_site_env demo_login demo_site = (s1, True)"
    using demo_charge by (cases "charge_login demo_site_env demo_login demo_site") auto
  have k: "site_keys s1 = \<lparr>km_db = demo_site_db, km_default_admin_key = []\<rparr>"
    using charge_keeps_keys [OF c] by (simp add: demo_site_def demo_site_state_def)
  have "site_config s1 = demo_site_config"
    using c by (auto simp: charge_login_def Let_def tick_def set_login_rate_limiter_def current_config_def demo_site_def
        demo_site_state_def split: prod.split_asm)
  then have "\<exists>s2. create_ui_session_for_api_key demo_site_env ''s1'' s1 = (s2, Inr ''t'') \<and> site_config s2 = demo_site_config"
    using k by (auto simp: create_ui_session_for_api_key_def km_get_identity_def validate_api_key_def matches_secret_def
        candidate_hashes_def demo_site_env_def demo_platform_def demo_crypto_def demo_site_db_def key_row_def
        hash_with_variant_def hash_key_def open_ui_session_def create_ui_session_def update_keys_def Let_def empty_db_def)
  then obtain s2 where s2: "create_ui_session_for_api_key demo_site_env ''s1'' s1 = (s2, Inr ''t'')" "site_config s2 = demo_site_config"
    by blast
  then show ?thesis
    using c by (auto simp: login_submit_def demo_login_form set_session_cookie_def with_cookie_def redirect_def
        demo_site_config_def default_auth_config_def)
qed

theorem login_session_owner_witness:
  "\<exists>s'. fst (login_submit demo_site_env demo_login demo_site) = s' \<and>
     (\<exists>x \<in> set (db_ui_sessions (site_db s')). ss_token x = ''ht'' \<and> ss_key_id x = ''partner'')"
proof -
  obtain s' r where l: "login_submit demo_site_env demo_login demo_site = (s', Inr r)" "SetSession ''t'' True ''strict'' \<in> set (rp_cookies r)"
    using demo_login_works by blast
  have "picks (se_pick demo_site_env)" by (simp add: picks_def demo_site_env_def)
  from login_session_owner [OF l this] show ?thesis
    using l by (auto simp: demo_site_def demo_site_state_def current_db_def demo_site_db_def key_row_def hash_with_variant_def
        demo_crypto_def demo_site_env_def demo_platform_def)
qed

theorem added_source_runs_witness:
  "length (db_import_sources (site_db (fst (imports_add demo_site_env (demo_ui_request (Some ''tok'') (Some ''ktok'') ''label=Gallica&url=oai'') demo_site)))) \<le> 1"
  using added_source_runs [OF prod.collapse [symmetric], of demo_site_env "demo_ui_request (Some ''tok'') (Some ''ktok'') ''label=Gallica&url=oai''" demo_site]
  by (auto simp: demo_site_def demo_site_state_def current_db_def demo_site_db_def empty_db_def)

abbreviation demo_publish :: ui_request where
  "demo_publish \<equiv> demo_ui_request (Some ''tok'') (Some ''ktok'') []"

lemma demo_new_draft_published: "\<exists>c. draft_to_config demo_leaves new_draft demo_site_config = Inr c"
proof -
  have "(case draft_to_config demo_leaves new_draft demo_site_config of Inl e \<Rightarrow> False | Inr c \<Rightarrow> True)" by code_simp
  then show ?thesis by (auto split: sum.splits)
qed

lemma demo_publishes:
  "\<exists>s' r. setup_publish demo_site_env demo_publish demo_site = (s', Inr r) \<and> rp_content r = PublishedPage None"
proof -
  obtain s1 where g: "get_ui_key_id demo_site_env demo_publish demo_site = (s1, Some ''partner'')"
    using demo_signed_in [of "Some ''ktok''" "[]"]
    by (cases "get_ui_key_id demo_site_env demo_publish demo_site") (simp add: signed_in_def)
  note t = get_ui_key_id_touches [OF g]
  have load: "draft_load (site_db s1) ''partner'' = Inr (new_draft, first_step)"
  proof -
    have "db_setup_drafts (site_db s1) = []"
      unfolding touched_drafts [OF t] by (simp add: demo_site_def demo_site_state_def current_db_def demo_site_db_def empty_db_def)
    then show ?thesis by (simp add: draft_load_def load_setup_draft_def)
  qed
  have cfg: "site_config s1 = demo_site_config"
    using only_touched_ct(2) [OF t] by (simp add: demo_site_def demo_site_state_def current_config_def)
  obtain c where c: "draft_to_config demo_leaves new_draft demo_site_config = Inr c" using demo_new_draft_published by blast
  have os: "ct_os (si_ct s1) = demo_os" using only_touched_services(1) [OF t] by (simp add: demo_site_def)
  have "\<exists>ct'. reload demo_platform (si_ct s1) (clock_now demo_site_env s1) ''t'' c = (ct', Inr ())"
  proof (rule reload_returns)
    show "good_token ''t''" unfolding good_token_def by code_simp
    show "\<not> is_production (ct_os (si_ct s1))" by (simp add: os demo_os_def is_production_def get_env_def
          getenv_def py_strip_def strip_by_def rstrip_by_def is_space_def lower_char_def)
  qed (simp_all add: os demo_os_def getenv_def legacy_insecure_bootstrap_key_def)
  then obtain ct' where "reload demo_platform (si_ct s1) (clock_now demo_site_env s1) ''t'' c = (ct', Inr ())" by blast
  then have "\<exists>s2. reload_site demo_site_env c s1 = (s2, Inr ())"
    by (simp add: reload_site_def demo_site_env_def)
  then obtain s2 where s2: "reload_site demo_site_env c s1 = (s2, Inr ())" by blast
  obtain s3 x where r: "rendered demo_site_env demo_publish ''setup/published.html'' 200 None None (PublishedPage None)
      (reset_in (cs_store (ct_state (si_ct s1))) ''partner'' s2) = (s3, x)"
    by (cases "rendered demo_site_env demo_publish ''setup/published.html'' 200 None None (PublishedPage None)
      (reset_in (cs_store (ct_state (si_ct s1))) ''partner'' s2)")
  have env: "pf_leaves (se_platform demo_site_env) = demo_leaves" by (simp add: demo_site_env_def demo_platform_def)
  have "wd_first_key new_draft = None" by (simp add: new_draft_def)
  then have "setup_publish demo_site_env demo_publish demo_site = (s3, x)"
    using g load cfg c s2 r
    by (simp add: setup_publish_def guarded_def require_login_key_id_def enforce_csrf_passes [OF demo_csrf] with_draft_def env)
  then show ?thesis using rendered_touches(2) [OF r] by auto
qed

theorem publication_takes_effect_witness:
  "load_setup_draft (site_db (fst (setup_publish demo_site_env demo_publish demo_site))) ''partner'' = None"
proof -
  obtain s' r where p: "setup_publish demo_site_env demo_publish demo_site = (s', Inr r)" "rp_content r = PublishedPage None"
    using demo_publishes by blast
  have "leaves_lawful (pf_leaves (se_platform demo_site_env))"
    using demo_leaves_lawful by (simp add: demo_site_env_def demo_platform_def)
  from publication_takes_effect [OF p demo_in_step demo_signed_in demo_csrf this] p show ?thesis by auto
qed

end
