(* ===== verification/Admin_Api.thy ===== *)
theory Admin_Api
  imports Admin_Outcomes Query_Policy Schema_Mapper
begin

text \<open>
  \<^verbatim>\<open>app/admin_api/routes.py\<close>, \<^verbatim>\<open>app/admin_api/keys.py\<close> and \<^verbatim>\<open>app/admin_api/releases.py\<close>: the JSON interface of the operators, behind
  \<open>require_admin_key\<close>. The routes for import sources are in \<open>Scheduler\<close>.
\<close>

section \<open>Answers\<close>

datatype api_body = JsonOut doc | TextOut string "(string \<times> string) list" | EmptyOut

record api_out =
  ao_status :: int
  ao_body :: api_body

definition ok_json :: "doc \<Rightarrow> api_out" where
  "ok_json d = \<lparr>ao_status = 200, ao_body = JsonOut d\<rparr>"

type_synonym ('h, 'b, 'c) api_answer = "('h, 'b, 'c) site \<times> (py_exc + api_out)"

text \<open>The dependency of every route: the key of the \<open>X-API-Key\<close> header.\<close>

definition with_admin_key ::
  "('h, 'b, 'c) site_env \<Rightarrow> string option \<Rightarrow> (('h, 'b, 'c) site \<Rightarrow> ('h, 'b, 'c) api_answer) \<Rightarrow> ('h, 'b, 'c) site \<Rightarrow>
     ('h, 'b, 'c) api_answer"
where
  "with_admin_key E x_api_key k s =
     (case require_admin_key (se_crypto E) (se_pick E) (site_keys s) (clock_now E s) x_api_key of
        (m, Inl e) \<Rightarrow> (put_keys m (tick s), Inl (ExApp e))
      | (m, Inr _) \<Rightarrow> k (put_keys m (tick s)))"

definition answer :: "('h, 'b, 'c) site \<Rightarrow> py_exc + api_out \<Rightarrow> ('h, 'b, 'c) api_answer" where
  "answer s r = (s, r)"

text \<open>What FastAPI checks of the arguments, after the dependency and before the route.\<close>

definition checked :: "bool \<Rightarrow> (('h, 'b, 'c) site \<Rightarrow> ('h, 'b, 'c) api_answer) \<Rightarrow> ('h, 'b, 'c) site \<Rightarrow> ('h, 'b, 'c) api_answer" where
  "checked ok k s = (if ok then k s else answer s (Inl (ExRaw ''RequestValidationError'')))"

abbreviation site_adapter :: "('h, 'b, 'c) site \<Rightarrow> es_adapter" where
  "site_adapter s \<equiv> cs_adapter (ct_state (si_ct s))"

abbreviation site_leaves :: "('h, 'b, 'c) site_env \<Rightarrow> leaves" where
  "site_leaves E \<equiv> pf_leaves (se_platform E)"

text \<open>FastAPI serialises a dictionary; a backend that answers with something else fails the response model.\<close>

definition json_object :: "json \<Rightarrow> py_exc + api_out" where
  "json_object v = (case v of JDict d \<Rightarrow> Inr (ok_json d) | _ \<Rightarrow> Inl (ExRaw ''ResponseValidationError''))"

section \<open>Set-up and configuration\<close>

definition api_detect :: "('h, 'b, 'c) site_env \<Rightarrow> ('h, 'b, 'c) site \<Rightarrow> ('h, 'b, 'c) api_answer" where
  "api_detect E s = answer s (bind_r (snd (detect (site_adapter s) (se_backend E) (se_context E))) json_object)"

definition api_scan_fields :: "('h, 'b, 'c) site_env \<Rightarrow> ('h, 'b, 'c) site \<Rightarrow> ('h, 'b, 'c) api_answer" where
  "api_scan_fields E s = answer s (bind_r (snd (scan_fields (site_adapter s) (se_backend E) (se_context E))) json_object)"

text \<open>\<open>AppConfig.model_validate\<close> raises Pydantic's ValidationError.\<close>

definition model_validate :: "('h, 'b, 'c) site_env \<Rightarrow> doc \<Rightarrow> py_exc + app_config" where
  "model_validate E payload =
     (case load_app_config (site_leaves E) (JDict payload) of Inl e \<Rightarrow> Inl (ExRaw (''ValidationError: '' @ e)) | Inr c \<Rightarrow> Inr c)"

definition swap_config :: "('h, 'b, 'c) site_env \<Rightarrow> app_config \<Rightarrow> string \<Rightarrow> ('h, 'b, 'c) site \<Rightarrow> ('h, 'b, 'c) api_answer" where
  "swap_config E c outcome s =
     (case reload (se_platform E) (si_ct s) (clock_now E s) (next_token E s) c of
        (ct, Inl e) \<Rightarrow> answer (draw (tick (s\<lparr>si_ct := ct\<rparr>))) (Inl (ExRaw e))
      | (ct, Inr _) \<Rightarrow> answer (draw (tick (s\<lparr>si_ct := ct\<rparr>))) (Inr (ok_json [(''status'', JStr outcome)])))"

definition create_config :: "('h, 'b, 'c) site_env \<Rightarrow> doc \<Rightarrow> ('h, 'b, 'c) site \<Rightarrow> ('h, 'b, 'c) api_answer" where
  "create_config E payload s =
     (case model_validate E payload of Inl e \<Rightarrow> answer s (Inl e) | Inr c \<Rightarrow> swap_config E c ''created'' s)"

definition get_config :: "('h, 'b, 'c) site_env \<Rightarrow> ('h, 'b, 'c) site \<Rightarrow> ('h, 'b, 'c) api_answer" where
  "get_config E s = answer s (json_object (redact True (dump_app_config (site_leaves E) (site_config s))))"

definition put_config :: "('h, 'b, 'c) site_env \<Rightarrow> doc \<Rightarrow> ('h, 'b, 'c) site \<Rightarrow> ('h, 'b, 'c) api_answer" where
  "put_config E payload s =
     (case model_validate E payload of Inl e \<Rightarrow> answer s (Inl e) | Inr c \<Rightarrow> swap_config E c ''updated'' s)"

definition validate_config :: "('h, 'b, 'c) site_env \<Rightarrow> doc \<Rightarrow> ('h, 'b, 'c) site \<Rightarrow> ('h, 'b, 'c) api_answer" where
  "validate_config E payload s =
     (case cm_validate_data (site_leaves E) (JDict payload) of
        (ok, e) \<Rightarrow> answer s (Inr (ok_json [(''valid'', JBool ok), (''error'', jopt JStr e)])))"

definition export_config :: "('h, 'b, 'c) site_env \<Rightarrow> ('h, 'b, 'c) site \<Rightarrow> ('h, 'b, 'c) api_answer" where
  "export_config E s = answer s (Inr \<lparr>ao_status = 200,
     ao_body = TextOut (ya_dump (pf_yaml (se_platform E)) (redact False (dump_app_config (site_leaves E) (site_config s))))
       [(''content-type'', ''application/yaml; charset=utf-8''), (''content-disposition'', ''attachment; filename=egg-config.yaml'')]\<rparr>)"

definition import_config :: "('h, 'b, 'c) site_env \<Rightarrow> doc option \<Rightarrow> ('h, 'b, 'c) site \<Rightarrow> ('h, 'b, 'c) api_answer" where
  "import_config E payload s =
     (case payload of
        None \<Rightarrow> answer s (Inl (ExApp (AppError ''invalid_parameter'' ''Request body is empty - send JSON with the new config.''
          [(''hint'', JStr ''POST application/json with the config dict'')] 400)))
      | Some p \<Rightarrow>
          (case load_app_config (site_leaves E) (JDict p) of
             Inl e \<Rightarrow> answer s (Inl (ExApp (AppError ''invalid_parameter'' (''Configuration rejected: '' @ e)
               [(''scope'', JStr ''import'')] 400)))
           | Inr c \<Rightarrow> swap_config E c ''imported'' s))"

section \<open>Queries and status\<close>

definition translated :: "es_adapter \<Rightarrow> normalized_query \<Rightarrow> py_exc + json" where
  "translated a nq = lift_app (translate_query a nq True None None)"

definition test_query :: "string list \<Rightarrow> query_params \<Rightarrow> ('h, 'b, 'c) site \<Rightarrow> ('h, 'b, 'c) api_answer" where
  "test_query order qp s = answer s
     (bind_r (lift_app (parse_query (cs_policy (ct_state (si_ct s))) order qp)) (\<lambda>nq.
      map_r (\<lambda>t. ok_json [(''translated'', t)]) (translated (site_adapter s) nq)))"

definition debug_translate ::
  "(string \<Rightarrow> string) \<Rightarrow> string list \<Rightarrow> query_params \<Rightarrow> ('h, 'b, 'c) site \<Rightarrow> ('h, 'b, 'c) api_answer"
where
  "debug_translate sha256_hex order qp s = answer s
     (bind_r (lift_app (parse_query (cs_policy (ct_state (si_ct s))) order qp)) (\<lambda>nq.
      map_r (\<lambda>t. ok_json [(''normalized'', JDict (nq_dump nq)), (''cache_key'', JStr (compute_cache_key sha256_hex nq)),
          (''translated'', t)])
        (translated (site_adapter s) nq)))"

definition event_json :: "usage_event \<Rightarrow> json" where
  "event_json e = JDict
     [(''timestamp'', JStr (ue_timestamp e)), (''endpoint'', JStr (ue_endpoint e)), (''method'', JStr (ue_method e)),
      (''status_code'', JInt (ue_status_code e)), (''api_key_id'', jopt JStr (ue_api_key_id e)), (''subject'', JStr (ue_subject e)),
      (''latency_ms'', JInt (ue_latency_ms e)), (''error_code'', jopt JStr (ue_error_code e))]"

definition usage_events :: "int \<Rightarrow> int \<Rightarrow> ('h, 'b, 'c) site \<Rightarrow> ('h, 'b, 'c) api_answer" where
  "usage_events limit offset s = answer s (Inr (ok_json
     [(''total'', JInt (int (count_usage_events (site_db s)))), (''limit'', JInt limit), (''offset'', JInt offset),
      (''events'', JList (map event_json (list_recent_usage_events (site_db s) limit offset)))]))"

definition probe_doc :: fields where
  "probe_doc = [(''id'', JStr ''probe''), (''type'', JStr ''record'')]"

definition api_status :: "('h, 'b, 'c) site \<Rightarrow> ('h, 'b, 'c) api_answer" where
  "api_status s =
     (let mapping = classify (ac_mapping (site_config s)) probe_doc; shown = JDict (map (\<lambda>(k, v). (k, JStr v)) mapping) in
      if \<exists>v \<in> set (map snd mapping). v = ''missing''
      then answer s (Inl (ExApp (AppError ''configuration_error'' ''Mapping has missing required/recommended sources''
        [(''mapping'', shown)] 500)))
      else answer s (Inr (ok_json [(''status'', JStr ''ok''), (''sources'', jstrs (list_sources (site_adapter s))),
        (''mapping'', shown)])))"

definition filter_json :: "usage_filter \<Rightarrow> json" where
  "filter_json f = JDict
     [(''endpoint'', jopt JStr (uf_endpoint f)), (''status_min'', jopt JInt (uf_status_min f)),
      (''status_max'', jopt JInt (uf_status_max f)), (''since'', jopt JStr (uf_since f)), (''until'', jopt JStr (uf_until f)),
      (''key_id'', jopt JStr (uf_key_id f))]"

definition api_logs :: "int \<Rightarrow> int \<Rightarrow> usage_filter \<Rightarrow> ('h, 'b, 'c) site \<Rightarrow> ('h, 'b, 'c) api_answer" where
  "api_logs limit offset f s =
     (case query_usage_events (site_db s) limit offset f of
        (events, matching) \<Rightarrow> answer s (Inr (ok_json
          [(''total'', JInt (int matching)), (''limit'', JInt limit), (''offset'', JInt offset), (''filters'', filter_json f),
           (''events'', JList (map event_json events))])))"

text \<open>The version of the schema and the number of its rows are those of \<open>Migrations\<close>; the size is the file's, if it can be read.\<close>

definition storage_stats :: "nat \<Rightarrow> nat \<Rightarrow> int option \<Rightarrow> path \<Rightarrow> db \<Rightarrow> doc" where
  "storage_stats version_rows version bytes p d =
     [(''rows_api_keys'', JInt (int (length (db_api_keys d)))), (''rows_ui_sessions'', JInt (int (length (db_ui_sessions d)))),
      (''rows_usage_events'', JInt (int (length (db_usage_events d)))), (''rows_schema_version'', JInt (int version_rows)),
      (''schema_version'', JInt (int version)), (''db_path'', JStr (path_str p)), (''db_size_bytes'', jopt JInt bytes)]"

definition purge_json :: "(rat \<Rightarrow> json) \<Rightarrow> purge_state \<Rightarrow> json" where
  "purge_json number p = JDict
     [(''last_run_at'', jopt number (pg_last_run_at p)), (''sessions_purged'', JInt (int (pg_sessions_purged p))),
      (''events_purged'', JInt (int (pg_events_purged p))), (''errors'', JInt (int (pg_errors p)))]"

definition api_storage_stats :: "(rat \<Rightarrow> json) \<Rightarrow> nat \<Rightarrow> nat \<Rightarrow> int option \<Rightarrow> ('h, 'b, 'c) site \<Rightarrow> ('h, 'b, 'c) api_answer" where
  "api_storage_stats number version_rows version bytes s = answer s (Inr (ok_json
     (storage_stats version_rows version bytes (cs_store (ct_state (si_ct s))) (site_db s) @
      [(''last_purge'', purge_json number (cs_purge (ct_state (si_ct s)))),
       (''retention_days'', JInt (st_usage_events_retention_days (ac_storage (site_config s)))),
       (''purge_interval_seconds'', JInt (st_purge_interval_seconds (ac_storage (site_config s))))])))"

section \<open>API keys\<close>

text \<open>The path parameter of a key is free text; the two request bodies are checked.\<close>

definition create_key_request :: "string \<Rightarrow> bool" where
  "create_key_request key_id \<longleftrightarrow> 1 \<le> length key_id \<and> length key_id \<le> 64"

definition patch_key_request :: "string \<Rightarrow> bool" where
  "patch_key_request action \<longleftrightarrow> action \<in> {''activate'', ''suspend'', ''revoke'', ''rotate''}"

definition page_request :: "int \<Rightarrow> int \<Rightarrow> bool" where
  "page_request limit offset \<longleftrightarrow> 1 \<le> limit \<and> limit \<le> 1000 \<and> 0 \<le> offset"

definition logs_request :: "usage_filter \<Rightarrow> bool" where
  "logs_request f \<longleftrightarrow> (\<forall>v \<in> set_option (uf_status_min f) \<union> set_option (uf_status_max f). 100 \<le> v \<and> v \<le> 599)"

definition key_json :: "api_key_row \<Rightarrow> doc" where
  "key_json r =
     [(''key_id'', JStr (ak_key_id r)), (''status'', JStr (ak_status r)), (''prefix'', JStr (ak_prefix r)),
      (''created_at'', JStr (ak_created_at r)), (''last_used_at'', jopt JStr (ak_last_used_at r))]"

definition api_list_keys :: "('h, 'b, 'c) site \<Rightarrow> ('h, 'b, 'c) api_answer" where
  "api_list_keys s = answer s (Inr (ok_json [(''keys'', JList (map (\<lambda>r. JDict (key_json r)) (list_api_keys (site_db s))))]))"

definition api_get_key :: "string \<Rightarrow> ('h, 'b, 'c) site \<Rightarrow> ('h, 'b, 'c) api_answer" where
  "api_get_key key_id s = answer s (map_r (\<lambda>r. ok_json (key_json r)) (get_key (site_keys s) key_id))"

definition api_create_key :: "('h, 'b, 'c) site_env \<Rightarrow> string \<Rightarrow> ('h, 'b, 'c) site \<Rightarrow> ('h, 'b, 'c) api_answer" where
  "api_create_key E key_id s =
     (case svc_create (se_crypto E) (site_keys s) (clock_now E s) (next_token E s) key_id of
        Inl e \<Rightarrow> answer (draw (tick s)) (Inl e)
      | Inr (m, k) \<Rightarrow> answer (put_keys m (draw (tick s))) (Inr \<lparr>ao_status = 201, ao_body = JsonOut
          [(''key_id'', JStr (ky_key_id k)), (''key'', JStr (ky_key k)), (''created_at'', JStr (ky_created_at k)),
           (''prefix'', JStr (take 8 (ky_key k)))]\<rparr>))"

definition api_patch_key :: "('h, 'b, 'c) site_env \<Rightarrow> string \<Rightarrow> string \<Rightarrow> ('h, 'b, 'c) site \<Rightarrow> ('h, 'b, 'c) api_answer" where
  "api_patch_key E key_id action s =
     (if action = ''rotate''
      then (case svc_rotate (se_crypto E) (site_keys s) (next_token E s) key_id of
          Inl e \<Rightarrow> answer (draw s) (Inl e)
        | Inr (m, secret) \<Rightarrow> answer (put_keys m (draw s)) (Inr (ok_json
            [(''key_id'', JStr key_id), (''key'', JStr secret), (''status'', JStr ''active'')])))
      else (case set_status (site_keys s) key_id action of
          (m, Inl e) \<Rightarrow> answer (put_keys m s) (Inl e)
        | (m, Inr r) \<Rightarrow> answer (put_keys m s) (Inr (ok_json
            [(''key_id'', JStr (ak_key_id r)), (''status'', JStr (ak_status r)), (''last_used_at'', jopt JStr (ak_last_used_at r))]))))"

definition api_delete_key :: "string \<Rightarrow> ('h, 'b, 'c) site \<Rightarrow> ('h, 'b, 'c) api_answer" where
  "api_delete_key key_id s =
     (case set_status (site_keys s) key_id ''revoke'' of
        (m, Inl e) \<Rightarrow> answer (put_keys m s) (Inl e)
      | (m, Inr r) \<Rightarrow> answer (put_keys m s) (Inr \<lparr>ao_status = 204, ao_body = EmptyOut\<rparr>))"

section \<open>Releases\<close>

record release_cache =
  rc_expires_at :: rat
  rc_payload :: "doc option"

definition cache_ttl_seconds :: rat where
  "cache_ttl_seconds = 600"

definition default_repo :: "os \<Rightarrow> string" where
  "default_repo s = py_strip (getenv s ''EGG_RELEASES_REPO'' ''maribakulj/egg-api'')"

definition check_disabled :: "os \<Rightarrow> bool" where
  "check_disabled s = (py_lower (py_strip (getenv s ''EGG_DISABLE_RELEASE_CHECK'' [])) \<in> {''1'', ''true'', ''yes''})"

definition asset_json :: "json \<Rightarrow> py_exc + json" where
  "asset_json asset = map_r (\<lambda>a. JDict
     [(''name'', jget a ''name''), (''browser_download_url'', jget a ''browser_download_url''), (''size'', jget a ''size'')])
     (dict_or_raise asset)"

definition release_tag :: "json \<Rightarrow> py_exc + string" where
  "release_tag v =
     (case or_default v (JStr []) of JStr t \<Rightarrow> Inr (dropWhile (\<lambda>c. c = CHR ''v'') t) | _ \<Rightarrow> Inl (ExRaw ''AttributeError''))"

text \<open>\<open>get\<close> is the one request to GitHub: an exception, or a response. Only the request and the decoding are inside \<open>try\<close>.\<close>

definition fetch_latest_from_github :: "string + http_response \<Rightarrow> py_exc + doc option" where
  "fetch_latest_from_github resp =
     (case resp of
        Inl e \<Rightarrow> Inr None
      | Inr r \<Rightarrow>
          if rs_status r \<noteq> 200 then Inr None
          else (case rs_json r of
              None \<Rightarrow> Inr None
            | Some v \<Rightarrow>
                bind_r (dict_or_raise v) (\<lambda>data.
                bind_r (release_tag (jget data ''tag_name'')) (\<lambda>tag.
                  if tag = [] then Inr None
                  else bind_r (py_iter (or_default (jget data ''assets'') (JList []))) (\<lambda>assets.
                    map_r (\<lambda>shown. Some
                      [(''latest_version'', JStr tag), (''html_url'', jget data ''html_url''),
                       (''published_at'', jget data ''published_at''), (''assets'', JList shown)])
                      (traverse_r asset_json assets))))))"

definition build_payload ::
  "os \<Rightarrow> string \<Rightarrow> string \<Rightarrow> string \<Rightarrow> (string \<Rightarrow> string + http_response) \<Rightarrow> py_exc + doc"
where
  "build_payload s version platform_name python get =
     (let payload =
        [(''current_version'', JStr version), (''platform'', JStr platform_name), (''python'', JStr python),
         (''latest_version'', JNull), (''update_available'', JBool False), (''release_check_disabled'', JBool (check_disabled s)),
         (''repository'', JStr (default_repo s))] in
      if check_disabled s then Inr payload
      else map_r (\<lambda>remote. case remote of
          None \<Rightarrow> payload
        | Some r \<Rightarrow> dict_set ''update_available'' (JBool (jget r ''latest_version'' \<noteq> JStr version))
            (fold (\<lambda>(k, v) d. dict_set k v d) r payload))
        (fetch_latest_from_github (get (''https://api.github.com/repos/'' @ default_repo s @ ''/releases/latest''))))"

definition get_payload_cached ::
  "os \<Rightarrow> string \<Rightarrow> string \<Rightarrow> string \<Rightarrow> (string \<Rightarrow> string + http_response) \<Rightarrow> rat \<Rightarrow> release_cache \<Rightarrow>
     release_cache \<times> (py_exc + doc)"
where
  "get_payload_cached s version platform_name python get now c =
     (if rc_payload c \<noteq> None \<and> now < rc_expires_at c then (c, Inr (the (rc_payload c)))
      else (case build_payload s version platform_name python get of
          Inl e \<Rightarrow> (c, Inl e)
        | Inr p \<Rightarrow> (\<lparr>rc_expires_at = now + cache_ttl_seconds, rc_payload = Some p\<rparr>, Inr p)))"

definition empty_release_cache :: release_cache where
  "empty_release_cache = \<lparr>rc_expires_at = 0, rc_payload = None\<rparr>"

section \<open>The routes behind their dependency\<close>

datatype api_call =
    ApiDetect | ApiScan | ApiCreateConfig doc | ApiGetConfig | ApiPutConfig doc | ApiValidate doc | ApiExport
  | ApiImport "doc option" | ApiUsage int int | ApiStatus | ApiLogs int int usage_filter
  | ApiListKeys | ApiGetKey string | ApiCreateKey string | ApiPatchKey string string | ApiDeleteKey string

fun api_route :: "('h, 'b, 'c) site_env \<Rightarrow> api_call \<Rightarrow> ('h, 'b, 'c) site \<Rightarrow> ('h, 'b, 'c) api_answer" where
  "api_route E ApiDetect = api_detect E"
| "api_route E ApiScan = api_scan_fields E"
| "api_route E (ApiCreateConfig p) = create_config E p"
| "api_route E ApiGetConfig = get_config E"
| "api_route E (ApiPutConfig p) = put_config E p"
| "api_route E (ApiValidate p) = validate_config E p"
| "api_route E ApiExport = export_config E"
| "api_route E (ApiImport p) = import_config E p"
| "api_route E (ApiUsage limit offset) = checked (page_request limit offset) (usage_events limit offset)"
| "api_route E ApiStatus = api_status"
| "api_route E (ApiLogs limit offset f) = checked (page_request limit offset \<and> logs_request f) (api_logs limit offset f)"
| "api_route E ApiListKeys = api_list_keys"
| "api_route E (ApiGetKey k) = api_get_key k"
| "api_route E (ApiCreateKey k) = checked (create_key_request k) (api_create_key E k)"
| "api_route E (ApiPatchKey k a) = checked (patch_key_request a) (api_patch_key E k a)"
| "api_route E (ApiDeleteKey k) = api_delete_key k"

definition admin_api :: "('h, 'b, 'c) site_env \<Rightarrow> string option \<Rightarrow> api_call \<Rightarrow> ('h, 'b, 'c) site \<Rightarrow> ('h, 'b, 'c) api_answer" where
  "admin_api E x_api_key c = with_admin_key E x_api_key (api_route E c)"

section \<open>Who can call\<close>

lemma no_key_no_change:
  assumes "picks pick" "\<And>k. is_set x \<Longrightarrow> k \<in> set (db_api_keys (km_db m)) \<Longrightarrow> ak_status k = ''active'' \<Longrightarrow> \<not> matches_secret cr (the x) k"
  shows "require_admin_key cr pick m now x = (m, Inl (AppError ''invalid_api_key'' ''Invalid admin API key'' [] 401))"
proof -
  have "validate_api_key cr pick (km_db m) now x = (km_db m, None)"
  proof (cases "snd (validate_api_key cr pick (km_db m) now x)")
    case None
    then show ?thesis by (auto simp: validate_api_key_def Let_def split: if_split_asm)
  next
    case (Some r)
    then have "is_set x" by (auto simp: validate_api_key_def split: if_split_asm)
    then show ?thesis using validate_some [OF Some assms(1)] assms(2) by blast
  qed
  then show ?thesis by (simp add: require_admin_key_def km_validate_def km_get_identity_def)
qed

lemma put_same_keys [simp]: "put_keys (site_keys s) s = s"
  by (simp add: put_keys_def)



text \<open>Once a route has revoked a label, whoever still gets in does so under another one.\<close>

lemma deleted_key_is_out:
  assumes "api_delete_key key_id s = (s', Inr r)" "picks pick"
    and "snd (validate_api_key cr pick (site_db s') now secret) = Some k"
  shows "ak_key_id k \<noteq> key_id"
proof -
  obtain m row where m: "set_status (site_keys s) key_id ''revoke'' = (m, Inr row)" "s' = put_keys m s"
    using assms(1) by (auto simp: api_delete_key_def answer_def split: prod.split_asm sum.split_asm)
  have "dead (site_db s') key_id" using set_status_dead [OF m(1)] m(2) by (simp add: current_db_def put_keys_def)
  then show ?thesis using dead_validate assms(2,3) by blast
qed

section \<open>Export and import\<close>

lemma swap_in_force:
  assumes "swap_config E c outcome s = (s', Inr r)"
  shows "site_config s' = c \<and> built_from (se_platform E) (ct_os (si_ct s)) c (ct_state (si_ct s')) \<and> ct_epoch (si_ct s') = ct_epoch (si_ct s)"
proof -
  obtain ct where ct: "reload (se_platform E) (si_ct s) (clock_now E s) (next_token E s) c = (ct, Inr ())"
    "s' = draw (tick (s\<lparr>si_ct := ct\<rparr>))"
    using assms by (auto simp: swap_config_def answer_def split: prod.split_asm sum.split_asm)
  from reload_facts [OF ct(1)] ct(2) show ?thesis by (simp add: draw_def tick_def)
qed


lemma redacted_is_object: "\<exists>d. redact hide (dump_app_config L c) = JDict d"
  by (subst redact_dump) (simp only: config_tree_def dump_app_config_def json.simps json.inject ex_simps simp_thms)

abbreviation demo_export_env :: "(unit, unit, unit) site_env" where
  "demo_export_env \<equiv> demo_site_env\<lparr>se_platform := demo_platform\<lparr>pf_yaml := demo_yaml (secret_config ''k'')\<rparr>\<rparr>"

definition demo_exporter :: "(unit, unit, unit) site" where
  "demo_exporter = demo_site\<lparr>si_ct := (si_ct demo_site)\<lparr>ct_state :=
     demo_site_state\<lparr>cs_manager := \<lparr>cm_path = demo_path, cm_config = secret_config ''k''\<rparr>\<rparr>\<rparr>\<rparr>"

lemma demo_swap_works: "\<exists>s' x. swap_config demo_export_env c t demo_site = (s', Inr x)"
proof -
  have "\<exists>ct. reload (se_platform demo_export_env) (si_ct demo_site) (clock_now demo_export_env demo_site)
      (next_token demo_export_env demo_site) c = (ct, Inr ())"
  proof (rule reload_returns)
    have "good_token ''t''" unfolding good_token_def by code_simp
    then show "good_token (next_token demo_export_env demo_site)" by (simp add: demo_site_env_def)
    show "\<not> is_production (ct_os (si_ct demo_site))" by (simp add: demo_site_def demo_os_def is_production_def get_env_def
          getenv_def py_strip_def strip_by_def rstrip_by_def is_space_def lower_char_def)
  qed (simp_all add: demo_site_def demo_os_def getenv_def legacy_insecure_bootstrap_key_def)
  then obtain ct where "reload (se_platform demo_export_env) (si_ct demo_site) (clock_now demo_export_env demo_site)
      (next_token demo_export_env demo_site) c = (ct, Inr ())" by blast
  then show ?thesis unfolding swap_config_def answer_def by simp
qed


section \<open>What the routes do differently from their words\<close>

text \<open>An invalid configuration is refused with 400 by the import, and ends the two other routes with an exception of its own.\<close>

lemma bad_config_is_unhandled:
  assumes "load_app_config (site_leaves E) (JDict p) = Inl e"
  shows "put_config E p s = (s, Inl (ExRaw (''ValidationError: '' @ e)))"
    "create_config E p s = (s, Inl (ExRaw (''ValidationError: '' @ e)))"
    "import_config E (Some p) s = (s, Inl (ExApp (AppError ''invalid_parameter'' (''Configuration rejected: '' @ e)
       [(''scope'', JStr ''import'')] 400)))"
  using assms by (simp_all add: put_config_def create_config_def import_config_def model_validate_def answer_def)

text \<open>The status page looks for every source in a document that has only an identifier and a type.\<close>

lemma status_fails_on_other_sources:
  assumes "(field, rule) \<in> set (ac_mapping (site_config s))" "fm_criticality rule \<in> {CritRequired, CritRecommended}"
    and "fm_source rule = Some v" "v \<notin> {[], ''id'', ''type''}"
  shows "\<exists>m. api_status s = (s, Inl (ExApp (AppError ''configuration_error''
    ''Mapping has missing required/recommended sources'' [(''mapping'', m)] 500)))"
proof -
  have "classify_field probe_doc rule = ''missing''"
    using assms(2-4) by (auto simp: classify_field_def probe_doc_def)
  then have "''missing'' \<in> snd ` set (classify (ac_mapping (site_config s)) probe_doc)"
    using assms(1) by (force simp: classify_def image_iff)
  then show ?thesis by (simp add: api_status_def Let_def answer_def)
qed

text \<open>The label of a deleted key stays taken.\<close>

lemma deleted_label_is_taken:
  assumes "api_delete_key key_id s = (s', Inr r)"
  shows "snd (api_create_key E key_id s') =
    Inl (ExApp (AppError ''conflict'' (''Key label already exists: '' @ key_id) [(''key_id'', JStr key_id)] 409))"
proof -
  obtain m row where m: "set_status (site_keys s) key_id ''revoke'' = (m, Inr row)" "s' = put_keys m s"
    using assms by (auto simp: api_delete_key_def answer_def split: prod.split_asm sum.split_asm)
  have "validate_label key_id = Inr ()"
    using m(1) by (auto simp: set_status_def split: sum.split_asm)
  moreover have "\<exists>r \<in> set (list_api_keys (km_db m)). ak_key_id r = key_id"
    using set_status_dead [OF m(1)] by (auto simp: dead_def list_api_keys_def)
  ultimately have conflict: "svc_create cr m n t key_id = Inl (ExApp (AppError ''conflict'' (''Key label already exists: '' @ key_id)
      [(''key_id'', JStr key_id)] 409))" for cr n t
    by (simp add: svc_create_def lift_app_def)
  have "site_keys s' = m" using m(2) by (simp add: put_keys_def)
  then show ?thesis unfolding api_create_key_def answer_def by (simp only: conflict sum.case snd_conv)
qed

section \<open>The release check\<close>

text \<open>Within ten minutes of an answer the cache answers, and GitHub is not asked.\<close>

lemma releases_cached:
  assumes "get_payload_cached o1 v pl py get now c = (c', Inr p)" "now' < now + cache_ttl_seconds" "now \<le> now'"
    and "rc_payload c \<noteq> None \<Longrightarrow> rc_expires_at c \<le> now"
  shows "get_payload_cached o2 v' pl' py' get' now' c' = (c', Inr p)"
  using assms by (auto simp: get_payload_cached_def split: if_split_asm sum.split_asm)

text \<open>An answer that is not an object raises, though every failure should be no answer.\<close>

lemma odd_release_raises:
  assumes "rs_status r = 200" "rs_json r = Some (JList xs)"
  shows "\<exists>e. fetch_latest_from_github (Inr r) = Inl (ExRaw e)"
  using assms by (simp add: fetch_latest_from_github_def dict_or_raise_def)

end
