(* ===== verification/Http_App.thy ===== *)
theory Http_App
  imports Admin_Api
begin

text \<open>
  \<^verbatim>\<open>app/main.py\<close>, \<^verbatim>\<open>app/errors.py\<close> and \<^verbatim>\<open>app/logging/request_context.py\<close>: the application that the server runs. The layers
  around the routes, from the outside: the usage audit, the lockout, the security headers, then CORS, host
  check and proxy headers of the libraries, then the handlers of exceptions. A handler takes a request and
  the state of the process to the state it leaves and a reply or the exception that escapes.
\<close>

section \<open>Requests, replies and the process\<close>

record web_request =
  wq_method :: string
  wq_path :: string
  wq_client :: "string option"
  wq_headers :: "(string \<times> string) list"

datatype reply_body = JsonBody json | OtherBody string

record web_reply =
  wr_status :: int
  wr_headers :: "(string \<times> string) list"
  wr_body :: reply_body

text \<open>\<open>pr_route\<close> is the template of the matched route in the scope of the request; the two lists are the counters of the
  metrics, one entry for each increment.\<close>

record ('h, 'b, 'c) process =
  pr_site :: "('h, 'b, 'c) site"
  pr_route :: "string option"
  pr_requests :: "(string \<times> string \<times> int) list"
  pr_hits :: "string list"

type_synonym ('h, 'b, 'c) handler =
  "web_request \<Rightarrow> ('h, 'b, 'c) process \<Rightarrow> ('h, 'b, 'c) process \<times> (py_exc + web_reply)"

record cors_options =
  cx_origins :: "string list"
  cx_methods :: "string list"
  cx_headers :: "string list"
  cx_max_age :: int

text \<open>The configuration at import, the libraries' layers, and what FastAPI and Prometheus produce.\<close>

record ('h, 'b, 'c) app_env =
  hp_site :: "('h, 'b, 'c) site_env"
  hp_config :: app_config
  hp_uuid :: "nat \<Rightarrow> string"
  hp_proxy :: "string \<Rightarrow> ('h, 'b, 'c) handler \<Rightarrow> ('h, 'b, 'c) handler"
  hp_hosts :: "string list \<Rightarrow> ('h, 'b, 'c) handler \<Rightarrow> ('h, 'b, 'c) handler"
  hp_cors :: "cors_options \<Rightarrow> ('h, 'b, 'c) handler \<Rightarrow> ('h, 'b, 'c) handler"
  hp_errors :: "web_request \<Rightarrow> json"
  hp_schema :: doc
  hp_metrics :: "string \<times> string"

definition header_of :: "web_request \<Rightarrow> string \<Rightarrow> string option" where
  "header_of rq name = dict_get (wq_headers rq) name"

abbreviation process_os :: "('h, 'b, 'c) process \<Rightarrow> os" where
  "process_os s \<equiv> ct_os (si_ct (pr_site s))"

abbreviation process_db :: "('h, 'b, 'c) process \<Rightarrow> db" where
  "process_db s \<equiv> site_db (pr_site s)"

definition on_site :: "(('h, 'b, 'c) site \<Rightarrow> ('h, 'b, 'c) site) \<Rightarrow> ('h, 'b, 'c) process \<Rightarrow> ('h, 'b, 'c) process" where
  "on_site f s = s\<lparr>pr_site := f (pr_site s)\<rparr>"

section \<open>Errors\<close>

definition get_request_id ::
  "('h, 'b, 'c) app_env \<Rightarrow> web_request \<Rightarrow> ('h, 'b, 'c) process \<Rightarrow> ('h, 'b, 'c) process \<times> string"
where
  "get_request_id E rq s =
     (case header_of rq ''x-request-id'' of
        Some rid \<Rightarrow> if rid \<noteq> [] \<and> key_id_pattern rid then (s, rid) else (on_site draw s, hp_uuid E (si_draws (pr_site s)))
      | None \<Rightarrow> (on_site draw s, hp_uuid E (si_draws (pr_site s))))"

definition error_reply :: "int \<Rightarrow> string \<Rightarrow> string \<Rightarrow> doc \<Rightarrow> string \<Rightarrow> web_reply" where
  "error_reply status_code code message details request_id =
     \<lparr>wr_status = status_code, wr_headers = [], wr_body = JsonBody (JDict [(''error'', JDict
        [(''code'', JStr code), (''message'', JStr message), (''details'', JDict details), (''request_id'', JStr request_id)])])\<rparr>"

definition app_error_handler ::
  "('h, 'b, 'c) app_env \<Rightarrow> web_request \<Rightarrow> app_error \<Rightarrow> ('h, 'b, 'c) process \<Rightarrow> ('h, 'b, 'c) process \<times> web_reply"
where
  "app_error_handler E rq e s =
     (case get_request_id E rq s of
        (s', rid) \<Rightarrow> (case to_error_response rid e of
           (status_code, content) \<Rightarrow> (s', \<lparr>wr_status = status_code, wr_headers = [], wr_body = JsonBody content\<rparr>)))"

definition sent_request_id :: "web_request \<Rightarrow> string" where
  "sent_request_id rq = (case header_of rq ''x-request-id'' of Some rid \<Rightarrow> rid | None \<Rightarrow> ''generated'')"

definition validation_error_handler :: "('h, 'b, 'c) app_env \<Rightarrow> web_request \<Rightarrow> web_reply" where
  "validation_error_handler E rq =
     error_reply 422 ''invalid_parameter'' ''Validation error'' [(''errors'', hp_errors E rq)] (sent_request_id rq)"

definition exception_handlers :: "('h, 'b, 'c) app_env \<Rightarrow> ('h, 'b, 'c) handler \<Rightarrow> ('h, 'b, 'c) handler" where
  "exception_handlers E h rq s =
     (case h rq s of
        (s', Inl (ExApp e)) \<Rightarrow> (case app_error_handler E rq e s' of (s'', r) \<Rightarrow> (s'', Inr r))
      | (s', Inl (ExRaw e)) \<Rightarrow>
          if e = ''RequestValidationError'' then (s', Inr (validation_error_handler E rq)) else (s', Inl (ExRaw e))
      | (s', Inr r) \<Rightarrow> (s', Inr r))"

section \<open>The layers of the libraries\<close>

definition proxy_layer :: "('h, 'b, 'c) app_env \<Rightarrow> ('h, 'b, 'c) handler \<Rightarrow> ('h, 'b, 'c) handler" where
  "proxy_layer E =
     (let trusted = px_trusted_proxies (ac_proxy (hp_config E)) in
      if trusted = [] then (\<lambda>h. h)
      else hp_proxy E (if trusted = [''*''] then ''*'' else join '','' trusted))"

definition hosts_layer :: "('h, 'b, 'c) app_env \<Rightarrow> ('h, 'b, 'c) handler \<Rightarrow> ('h, 'b, 'c) handler" where
  "hosts_layer E =
     (let allowed = filter (\<lambda>h. h \<noteq> []) (px_allowed_hosts (ac_proxy (hp_config E))) in
      if allowed = [] then (\<lambda>h. h) else hp_hosts E allowed)"

definition configure_cors :: "app_config \<Rightarrow> cors_options option" where
  "configure_cors c =
     (let cfg = ac_cors c; named = filter (\<lambda>t. t \<noteq> []) (co_allow_origins cfg);
          origins = (if co_mode cfg = CorsWideOpen then [''*''] else named) in
      if co_mode cfg = CorsOff \<or> origins = [] then None
      else Some \<lparr>cx_origins = origins,
        cx_methods = (if co_allow_methods cfg = [] then [''GET''] else co_allow_methods cfg),
        cx_headers = (if co_allow_headers cfg = [] then [''x-api-key'', ''content-type''] else co_allow_headers cfg),
        cx_max_age = 600\<rparr>)"

definition cors_layer :: "('h, 'b, 'c) app_env \<Rightarrow> ('h, 'b, 'c) handler \<Rightarrow> ('h, 'b, 'c) handler" where
  "cors_layer E = (case configure_cors (hp_config E) of None \<Rightarrow> (\<lambda>h. h) | Some options \<Rightarrow> hp_cors E options)"

section \<open>The security headers\<close>

definition set_default :: "string \<times> string \<Rightarrow> (string \<times> string) list \<Rightarrow> (string \<times> string) list" where
  "set_default kv headers = (if fst kv \<in> set (map fst headers) then headers else headers @ [kv])"

definition admin_policy :: string where
  "admin_policy = ''default-src 'self'; style-src 'self'; form-action 'self'; frame-ancestors 'none'; base-uri 'self'' @ [CHR 0x27]"

definition baseline_headers :: "bool \<Rightarrow> string \<Rightarrow> (string \<times> string) list" where
  "baseline_headers production p =
     [(''x-content-type-options'', ''nosniff''), (''referrer-policy'', ''no-referrer'')] @
     (if starts_with ''/admin'' p then [(''x-frame-options'', ''DENY''), (''content-security-policy'', admin_policy)] else []) @
     (if production then [(''strict-transport-security'', ''max-age=31536000; includeSubDomains'')] else [])"

definition security_headers_middleware :: "('h, 'b, 'c) handler \<Rightarrow> ('h, 'b, 'c) handler" where
  "security_headers_middleware h rq s =
     (case h rq s of
        (s', Inl e) \<Rightarrow> (s', Inl e)
      | (s', Inr r) \<Rightarrow> (s', Inr (r\<lparr>wr_headers :=
          fold set_default (baseline_headers (is_production (process_os s')) (wq_path rq)) (wr_headers r)\<rparr>)))"

section \<open>The lockout\<close>

abbreviation now_s :: "('h, 'b, 'c) app_env \<Rightarrow> ('h, 'b, 'c) process \<Rightarrow> rat" where
  "now_s E s \<equiv> se_time (hp_site E) (si_reads (pr_site s))"

definition client_host :: "web_request \<Rightarrow> string" where
  "client_host rq = (case wq_client rq of Some h \<Rightarrow> h | None \<Rightarrow> ''anonymous'')"

definition is_public :: "web_request \<Rightarrow> bool" where
  "is_public rq = starts_with ''/v1/'' (wq_path rq)"

abbreviation process_lockout :: "('h, 'b, 'c) process \<Rightarrow> lockout" where
  "process_lockout s \<equiv> ct_lockout (si_ct (pr_site s))"

definition put_lockout :: "lockout \<Rightarrow> ('h, 'b, 'c) process \<Rightarrow> ('h, 'b, 'c) process" where
  "put_lockout l = on_site (\<lambda>t. t\<lparr>si_ct := (si_ct t)\<lparr>ct_lockout := l\<rparr>\<rparr>)"

definition check_locked :: "('h, 'b, 'c) app_env \<Rightarrow> web_request \<Rightarrow> ('h, 'b, 'c) process \<Rightarrow> ('h, 'b, 'c) process \<times> bool" where
  "check_locked E rq s =
     (if \<not> is_public rq then (s, False)
      else (case is_locked (process_lockout s) (now_s E s) (client_host rq) of
        (l, locked) \<Rightarrow> (put_lockout l (on_site tick s), locked)))"

definition locked_reply :: "web_request \<Rightarrow> web_reply" where
  "locked_reply rq =
     error_reply 429 ''rate_limited'' ''Too many invalid credentials from this IP.'' [(''scope'', JStr ''public_auth'')]
       (sent_request_id rq)"

definition hit :: "string \<Rightarrow> ('h, 'b, 'c) process \<Rightarrow> ('h, 'b, 'c) process" where
  "hit scope s = s\<lparr>pr_hits := pr_hits s @ [scope]\<rparr>"

text \<open>No public route replaces the lockout, so the one that is checked is the one that counts the failure.\<close>

definition count_failure ::
  "('h, 'b, 'c) app_env \<Rightarrow> web_request \<Rightarrow> int \<Rightarrow> ('h, 'b, 'c) process \<Rightarrow> ('h, 'b, 'c) process"
where
  "count_failure E rq status_code s =
     (if is_public rq \<and> status_code = 401
      then put_lockout (record_failure (process_lockout s) (now_s E s) (client_host rq)) (on_site tick s)
      else s)"

definition public_auth_lockout_middleware ::
  "('h, 'b, 'c) app_env \<Rightarrow> ('h, 'b, 'c) handler \<Rightarrow> ('h, 'b, 'c) handler"
where
  "public_auth_lockout_middleware E h rq s =
     (case check_locked E rq s of
        (s1, True) \<Rightarrow> (hit ''public_auth_lockout'' s1, Inr (locked_reply rq))
      | (s1, False) \<Rightarrow>
          (case h rq s1 of
             (s2, Inl e) \<Rightarrow> (s2, Inl e)
           | (s2, Inr r) \<Rightarrow> (count_failure E rq (wr_status r) s2, Inr r)))"

section \<open>The usage audit\<close>

definition route_template :: "('h, 'b, 'c) process \<Rightarrow> string \<Rightarrow> string" where
  "route_template s fallback = (if is_set (pr_route s) then the (pr_route s) else fallback)"

definition audit_identity ::
  "('h, 'b, 'c) app_env \<Rightarrow> web_request \<Rightarrow> ('h, 'b, 'c) process \<Rightarrow> ('h, 'b, 'c) process \<times> string option"
where
  "audit_identity E rq s =
     (let raw_key = header_of rq ''x-api-key'' in
      if \<not> is_set raw_key then (s, None)
      else (case km_get_identity (se_crypto (hp_site E)) (se_pick (hp_site E)) (site_keys (pr_site s))
                   (clock_now (hp_site E) (pr_site s)) raw_key of
          (m, identity) \<Rightarrow> (on_site (\<lambda>t. put_keys m (tick t)) s, map_option ak_key_id identity)))"

definition count_request :: "string \<Rightarrow> string \<Rightarrow> int \<Rightarrow> ('h, 'b, 'c) process \<Rightarrow> ('h, 'b, 'c) process" where
  "count_request endpoint meth status_code s =
     (let s1 = s\<lparr>pr_requests := pr_requests s @ [(endpoint, meth, status_code)]\<rparr> in
      if status_code = 429 then hit (if starts_with ''/v1'' endpoint then ''public'' else ''admin'') s1 else s1)"

text \<open>The block \<open>finally\<close>: it runs after a reply and after an exception.\<close>

definition audit ::
  "('h, 'b, 'c) app_env \<Rightarrow> web_request \<Rightarrow> rat \<Rightarrow> string \<Rightarrow> int \<Rightarrow> string option \<Rightarrow> ('h, 'b, 'c) process \<Rightarrow> ('h, 'b, 'c) process"
where
  "audit E rq started request_id status_code error_code s =
     (case audit_identity E rq s of
        (s1, key_id) \<Rightarrow>
          (let subject = (if is_set key_id then the key_id else client_host rq);
               latency_ms = \<lfloor>(now_s E s1 - started) * 1000\<rfloor>;
               endpoint = route_template s1 (wq_path rq);
               s2 = count_request endpoint (wq_method rq) status_code (on_site tick s1) in
           on_site (\<lambda>t. put_db (log_usage_event (site_db t) (clock_now (hp_site E) t) request_id endpoint (wq_method rq)
             status_code key_id subject latency_ms error_code) (tick t)) s2))"

definition usage_audit_middleware :: "('h, 'b, 'c) app_env \<Rightarrow> ('h, 'b, 'c) handler \<Rightarrow> ('h, 'b, 'c) handler" where
  "usage_audit_middleware E h rq s =
     (case get_request_id E rq (on_site tick s) of
        (s1, request_id) \<Rightarrow>
          (case h rq s1 of
             (s2, Inr r) \<Rightarrow> (audit E rq (now_s E s) request_id (wr_status r) None s2, Inr r)
           | (s2, Inl e) \<Rightarrow> (audit E rq (now_s E s) request_id 500 (Some ''unhandled_exception'') s2, Inl e)))"

section \<open>The routes of the module\<close>

definition key_is_valid ::
  "('h, 'b, 'c) app_env \<Rightarrow> web_request \<Rightarrow> ('h, 'b, 'c) process \<Rightarrow> ('h, 'b, 'c) process \<times> bool"
where
  "key_is_valid E rq s =
     (case km_validate (se_crypto (hp_site E)) (se_pick (hp_site E)) (site_keys (pr_site s))
             (clock_now (hp_site E) (pr_site s)) (header_of rq ''x-api-key'') of
        (m, ok) \<Rightarrow> (on_site (\<lambda>t. put_keys m (tick t)) s, ok))"

definition bearer_of :: "web_request \<Rightarrow> string" where
  "bearer_of rq =
     (let auth_header = (case header_of rq ''authorization'' of Some v \<Rightarrow> v | None \<Rightarrow> []) in
      if starts_with ''bearer '' (py_lower auth_header) then py_strip (drop 7 auth_header) else [])"

definition expected_token :: "('h, 'b, 'c) process \<Rightarrow> string" where
  "expected_token s = py_strip (getenv (process_os s) ''EGG_METRICS_TOKEN'' [])"

definition metrics :: "('h, 'b, 'c) app_env \<Rightarrow> ('h, 'b, 'c) handler" where
  "metrics E rq s =
     (let token = expected_token s; bearer = bearer_of rq;
          body = Inr \<lparr>wr_status = 200, wr_headers = [(''content-type'', snd (hp_metrics E))], wr_body = OtherBody (fst (hp_metrics E))\<rparr> in
      if token \<noteq> [] then
        (if bearer = token then (s, body)
         else (case key_is_valid E rq s of
            (s1, True) \<Rightarrow> (s1, body)
          | (s1, False) \<Rightarrow> (s1, Inl (ExApp (AppError ''invalid_api_key''
              ''/metrics requires a bearer token or admin API key'' [] 401)))))
      else if is_production (process_os s) then
        (case key_is_valid E rq s of
           (s1, True) \<Rightarrow> (s1, body)
         | (s1, False) \<Rightarrow> (s1, Inl (ExApp (AppError ''invalid_api_key''
             ''/metrics is not exposed without EGG_METRICS_TOKEN in production'' [] 401))))
      else (s, body))"

definition dict_items :: "json \<Rightarrow> doc" where
  "dict_items v = (case v of JDict d \<Rightarrow> d | _ \<Rightarrow> [])"

definition list_items :: "json \<Rightarrow> json list" where
  "list_items v = (case v of JList xs \<Rightarrow> xs | _ \<Rightarrow> [])"

text \<open>FastAPI's schema has a dictionary of paths, and a list of dictionaries as its tags if it has tags.\<close>

definition public_openapi :: "doc \<Rightarrow> doc" where
  "public_openapi schema =
     (let public_paths = filter (\<lambda>(p, ops). \<not> starts_with ''/admin/'' p) (dict_items (jget schema ''paths''));
          filtered = dict_set ''paths'' (JDict public_paths) schema in
      if dict_get filtered ''tags'' \<noteq> None
      then dict_set ''tags'' (JList (filter (\<lambda>t. jget (dict_items t) ''name'' \<noteq> JStr ''admin'')
             (list_items (jget filtered ''tags'')))) filtered
      else filtered)"

definition openapi_json :: "('h, 'b, 'c) app_env \<Rightarrow> web_reply" where
  "openapi_json E = \<lparr>wr_status = 200, wr_headers = [], wr_body = JsonBody (JDict (public_openapi (hp_schema E)))\<rparr>"

definition app_routes :: "('h, 'b, 'c) app_env \<Rightarrow> ('h, 'b, 'c) handler \<Rightarrow> ('h, 'b, 'c) handler" where
  "app_routes E others rq s =
     (if wq_method rq = ''GET'' \<and> wq_path rq = ''/metrics'' then metrics E rq (s\<lparr>pr_route := Some ''/metrics''\<rparr>)
      else if wq_method rq = ''GET'' \<and> wq_path rq = ''/v1/openapi.json''
      then (s\<lparr>pr_route := Some ''/v1/openapi.json''\<rparr>, Inr (openapi_json E))
      else others rq s)"

text \<open>\<open>add_middleware\<close> puts each layer around those added before.\<close>

definition inner_app :: "('h, 'b, 'c) app_env \<Rightarrow> ('h, 'b, 'c) handler \<Rightarrow> ('h, 'b, 'c) handler" where
  "inner_app E others = cors_layer E (hosts_layer E (proxy_layer E (exception_handlers E (app_routes E others))))"

definition app :: "('h, 'b, 'c) app_env \<Rightarrow> ('h, 'b, 'c) handler \<Rightarrow> ('h, 'b, 'c) handler" where
  "app E others = usage_audit_middleware E (public_auth_lockout_middleware E
     (security_headers_middleware (inner_app E others)))"

section \<open>The background of the process\<close>

definition explorer_urls :: "os \<Rightarrow> string option \<times> string option \<times> string option" where
  "explorer_urls s =
     (if is_production s then (None, None, None) else (Some ''/docs'', Some ''/redoc'', Some ''/openapi.json''))"

definition scheduler_enabled :: "os \<Rightarrow> bool" where
  "scheduler_enabled s = (py_lower (py_strip (getenv s ''EGG_SCHEDULER'' ''on'')) \<noteq> ''off'')"

definition scheduler_tick_text :: "os \<Rightarrow> string" where
  "scheduler_tick_text s = (let t = getenv s ''EGG_SCHEDULER_TICK_SECONDS'' ''60'' in if t = [] then ''60'' else t)"

definition purge_enabled :: "app_config \<Rightarrow> bool" where
  "purge_enabled c \<longleftrightarrow> 0 < st_purge_interval_seconds (ac_storage c)"

definition on_purge :: "(purge_state \<Rightarrow> purge_state) \<Rightarrow> ('h, 'b, 'c) site \<Rightarrow> ('h, 'b, 'c) site" where
  "on_purge f s = s\<lparr>si_ct := (si_ct s)\<lparr>ct_state := (ct_state (si_ct s))\<lparr>cs_purge := f (cs_purge (ct_state (si_ct s)))\<rparr>\<rparr>\<rparr>"

text \<open>One turn of the loop; either of the two statements of the database may fail.\<close>

datatype purge_fault = NoFault | SessionsFail | EventsFail

definition purge_failed :: "('h, 'b, 'c) site \<Rightarrow> ('h, 'b, 'c) site" where
  "purge_failed = on_purge (\<lambda>p. p\<lparr>pg_errors := pg_errors p + 1\<rparr>)"

definition purge_turn :: "('h, 'b, 'c) site_env \<Rightarrow> purge_fault \<Rightarrow> ('h, 'b, 'c) site \<Rightarrow> ('h, 'b, 'c) site" where
  "purge_turn E fault s =
     (let retention_days = st_usage_events_retention_days (ac_storage (site_config s)) in
      if fault = SessionsFail then purge_failed (tick s)
      else (case purge_expired_ui_sessions (site_db s) (clock_now E s) of
        (d, sessions) \<Rightarrow>
          (let s1 = put_db d (tick s) in
           if fault = EventsFail then purge_failed (tick s1)
           else (case purge_usage_events_older_than (site_db s1) (clock_now E s1) retention_days of
             (d', events) \<Rightarrow>
               (let s2 = put_db d' (tick s1) in
                on_purge (\<lambda>p. p\<lparr>pg_last_run_at := Some (se_time E (si_reads s2)), pg_sessions_purged := sessions,
                  pg_events_purged := events\<rparr>) (tick s2))))))"

section \<open>Layers that relay\<close>

text \<open>The status of the reply, or the exception.\<close>

definition sent_status :: "py_exc + web_reply \<Rightarrow> py_exc + int" where
  "sent_status r = map_r wr_status r"

locale relaying =
  fixes layer :: "('h, 'b, 'c) handler \<Rightarrow> ('h, 'b, 'c) handler"
    and before :: "web_request \<Rightarrow> ('h, 'b, 'c) process \<Rightarrow> ('h, 'b, 'c) process"
  assumes relays: "sent_status (snd (layer h rq s)) = sent_status (snd (h rq (before rq s)))"
begin

lemma relays_ok: "(\<exists>r. snd (layer h rq s) = Inr r \<and> wr_status r = n) \<longleftrightarrow> (\<exists>r. snd (h rq (before rq s)) = Inr r \<and> wr_status r = n)"
  using relays [of h rq s] by (cases "snd (layer h rq s)"; cases "snd (h rq (before rq s))") (auto simp: sent_status_def)

end

definition after_id :: "('h, 'b, 'c) app_env \<Rightarrow> web_request \<Rightarrow> ('h, 'b, 'c) process \<Rightarrow> ('h, 'b, 'c) process" where
  "after_id E rq s = fst (get_request_id E rq (on_site tick s))"

interpretation audited: relaying "usage_audit_middleware E" "after_id E" for E :: "('h, 'b, 'c) app_env"
  by unfold_locales (auto simp: usage_audit_middleware_def after_id_def sent_status_def split: prod.split sum.split)

interpretation hardened: relaying "security_headers_middleware :: ('h, 'b, 'c) handler \<Rightarrow> ('h, 'b, 'c) handler" "\<lambda>rq s. s"
  by unfold_locales (auto simp: security_headers_middleware_def sent_status_def split: prod.split sum.split)

lemma lockout_outcome:
  "sent_status (snd (public_auth_lockout_middleware E h rq s)) =
     (if snd (check_locked E rq s) then Inr 429 else sent_status (snd (h rq (fst (check_locked E rq s)))))"
  by (auto simp: public_auth_lockout_middleware_def sent_status_def locked_reply_def error_reply_def
      split: prod.split sum.split bool.split)

text \<open>The status the client gets is 429 when the lockout holds for its address, and otherwise what the routes answered
  behind the handlers of exceptions; an exception that no handler takes leaves the application as it is.\<close>

lemma app_outcome:
  "sent_status (snd (app E others rq s)) =
     (let s1 = after_id E rq s in
      if snd (check_locked E rq s1) then Inr 429
      else sent_status (snd (inner_app E others rq (fst (check_locked E rq s1)))))"
  by (simp add: app_def audited.relays lockout_outcome hardened.relays Let_def)

section \<open>What the audit writes\<close>

lemma request_id_keeps:
  "get_request_id E rq s = (s', rid) \<Longrightarrow> si_ct (pr_site s') = si_ct (pr_site s) \<and> si_reads (pr_site s') = si_reads (pr_site s) \<and>
     pr_hits s' = pr_hits s"
  by (auto simp: get_request_id_def on_site_def draw_def split: option.split_asm if_split_asm)

lemma keys_kept_rows:
  "db_usage_events (fst (validate_api_key cr pick d now secret)) = db_usage_events d"
  by (simp add: validate_api_key_def update_keys_def Let_def)

lemma audit_identity_facts:
  assumes "audit_identity E rq s = (s', key_id)" "picks (se_pick (hp_site E))"
  shows "db_usage_events (process_db s') = db_usage_events (process_db s) \<and> pr_route s' = pr_route s \<and>
    (\<forall>k. key_id = Some k \<longrightarrow> (\<exists>r \<in> set (db_api_keys (process_db s)). ak_key_id r = k \<and> ak_status r = ''active'' \<and>
       matches_secret (se_crypto (hp_site E)) (the (header_of rq ''x-api-key'')) r))"
proof (cases "is_set (header_of rq ''x-api-key'')")
  case True
  let ?v = "validate_api_key (se_crypto (hp_site E)) (se_pick (hp_site E)) (process_db s) (clock_now (hp_site E) (pr_site s))
    (header_of rq ''x-api-key'')"
  have e: "s' = on_site (\<lambda>t. put_keys ((site_keys (pr_site s))\<lparr>km_db := fst ?v\<rparr>) (tick t)) s" "key_id = map_option ak_key_id (snd ?v)"
    using assms(1) True by (auto simp: audit_identity_def km_get_identity_def current_db_def split: prod.split_asm)
  have k: "snd ?v = Some r \<Longrightarrow> r \<in> set (db_api_keys (process_db s)) \<and>
      matches_secret (se_crypto (hp_site E)) (the (header_of rq ''x-api-key'')) r \<and> ak_status r = ''active''" for r
    using validate_some assms(2) by blast
  show ?thesis
    using e k keys_kept_rows by (auto simp: on_site_def put_keys_def current_db_def)
next
  case False
  then show ?thesis using assms(1) by (simp add: audit_identity_def)
qed

lemma audit_adds_event:
  assumes "picks (se_pick (hp_site E))"
  shows "\<exists>e. db_usage_events (process_db (audit E rq t rid n code s)) = db_usage_events (process_db s) @ [e] \<and>
    ue_status_code e = n \<and> ue_error_code e = code \<and> ue_request_id e = rid \<and>
    (case ue_api_key_id e of
       None \<Rightarrow> ue_subject e = client_host rq
     | Some k \<Rightarrow> ue_subject e \<in> {k, client_host rq} \<and> (\<exists>r \<in> set (db_api_keys (process_db s)). ak_key_id r = k \<and>
         ak_status r = ''active'' \<and> matches_secret (se_crypto (hp_site E)) (the (header_of rq ''x-api-key'')) r))"
proof -
  obtain s1 key where a: "audit_identity E rq s = (s1, key)" by (cases "audit_identity E rq s")
  show ?thesis
    using audit_identity_facts [OF a assms]
    by (cases key) (auto simp: audit_def a Let_def on_site_def put_db_def put_keys_def tick_def log_usage_event_def
        current_db_def count_request_def hit_def)
qed


section \<open>Behind the lockout\<close>

lemma lockout_short_circuit:
  "snd (check_locked E rq s) \<Longrightarrow>
     public_auth_lockout_middleware E h rq s = (hit ''public_auth_lockout'' (fst (check_locked E rq s)), Inr (locked_reply rq))"
  by (cases "check_locked E rq s") (simp add: public_auth_lockout_middleware_def)

lemma after_id_keeps:
  "si_ct (pr_site (after_id E rq s)) = si_ct (pr_site s) \<and> si_reads (pr_site (after_id E rq s)) = Suc (si_reads (pr_site s)) \<and>
   pr_hits (after_id E rq s) = pr_hits s"
  using request_id_keeps [of E rq "on_site tick s" "after_id E rq s" "snd (get_request_id E rq (on_site tick s))"]
  by (simp add: after_id_def on_site_def tick_def)

lemma locked_check:
  "is_public rq \<Longrightarrow> snd (is_locked (process_lockout s) (se_time (hp_site E) (Suc (si_reads (pr_site s)))) (client_host rq)) \<Longrightarrow>
     snd (check_locked E rq (after_id E rq s))"
  by (simp add: check_locked_def after_id_keeps case_prod_unfold)

text \<open>C23. While an address is locked out, a request to \<open>/v1/\<close> is answered 429 and the routes never see it, whatever they are: nothing
  of the application depends on them, the secret that was sent included.\<close>

theorem locked_address_is_refused:
  assumes "is_public rq"
    and "snd (is_locked (process_lockout s) (se_time (hp_site E) (Suc (si_reads (pr_site s)))) (client_host rq))"
  shows "app E others rq s = app E others' rq s \<and> snd (app E others rq s) = Inr (locked_reply rq) \<and>
    wr_status (locked_reply rq) = 429"
proof -
  note l = lockout_short_circuit [OF locked_check [OF assms]]
  have "app E others rq s = app E others' rq s" for others others'
    unfolding app_def usage_audit_middleware_def
    by (cases "get_request_id E rq (on_site tick s)") (use l in \<open>simp add: after_id_def\<close>)
  moreover have "snd (app E others rq s) = Inr (locked_reply rq)"
    unfolding app_def usage_audit_middleware_def
    by (cases "get_request_id E rq (on_site tick s)") (use l in \<open>simp add: after_id_def\<close>)
  ultimately show ?thesis by (simp add: locked_reply_def error_reply_def)
qed

section \<open>The metrics page\<close>

lemma key_is_valid_some:
  assumes "key_is_valid E rq s = (s', True)" "picks (se_pick (hp_site E))"
  shows "\<exists>k \<in> set (db_api_keys (process_db s)). ak_status k = ''active'' \<and>
    matches_secret (se_crypto (hp_site E)) (the (header_of rq ''x-api-key'')) k"
proof -
  obtain r where "snd (validate_api_key (se_crypto (hp_site E)) (se_pick (hp_site E)) (process_db s)
      (clock_now (hp_site E) (pr_site s)) (header_of rq ''x-api-key'')) = Some r"
    using assms(1) by (auto simp: key_is_valid_def km_validate_def km_get_identity_def current_db_def split: prod.split_asm)
  from validate_some [OF this assms(2)] show ?thesis by blast
qed

text \<open>C40. In production, or once a token is set, the metrics are shown only to a caller with that token, or with the secret of an
  active key.\<close>

theorem metrics_are_guarded:
  assumes "metrics E rq s = (s', Inr r)" "picks (se_pick (hp_site E))" "expected_token s \<noteq> [] \<or> is_production (process_os s)"
  shows "(expected_token s \<noteq> [] \<and> bearer_of rq = expected_token s) \<or>
    (\<exists>k \<in> set (db_api_keys (process_db s)). ak_status k = ''active'' \<and>
       matches_secret (se_crypto (hp_site E)) (the (header_of rq ''x-api-key'')) k)"
proof (cases "key_is_valid E rq s")
  case (Pair s1 ok)
  then have "ok \<or> (expected_token s \<noteq> [] \<and> bearer_of rq = expected_token s)"
    using assms(1,3) by (auto simp: metrics_def Let_def split: if_split_asm bool.split_asm)
  then show ?thesis using key_is_valid_some [OF _ assms(2), of rq s s1] Pair by (cases ok) auto
qed

section \<open>The public schema\<close>

lemma public_openapi_paths:
  assumes "dict_get schema ''paths'' = Some (JDict ps)"
  shows "dict_items (jget (public_openapi schema) ''paths'') = filter (\<lambda>(p, ops). \<not> starts_with ''/admin/'' p) ps"
  using assms by (simp add: public_openapi_def Let_def jget_def dict_items_def)

section \<open>What the layers do differently from their words\<close>

text \<open>The identifier in the audit and the one in the error are drawn apart, so they differ unless the client sent one.\<close>

lemma request_id_drawn_each_time:
  assumes "header_of rq ''x-request-id'' = None"
  shows "get_request_id E rq s = (on_site draw s, hp_uuid E (si_draws (pr_site s)))"
    "app_error_handler E rq e (on_site draw s) = (on_site draw (on_site draw s),
       error_reply (ae_status e) (ae_code e) (ae_message e) (ae_details e) (hp_uuid E (Suc (si_draws (pr_site s)))))"
  using assms by (simp_all add: app_error_handler_def to_error_response_def error_reply_def get_request_id_def on_site_def draw_def)

text \<open>The two replies built by hand send back whatever identifier the client sent.\<close>

lemma any_request_id_is_echoed:
  "header_of rq ''x-request-id'' = Some rid \<Longrightarrow>
     locked_reply rq = error_reply 429 ''rate_limited'' ''Too many invalid credentials from this IP.'' [(''scope'', JStr ''public_auth'')] rid \<and>
     validation_error_handler E rq = error_reply 422 ''invalid_parameter'' ''Validation error'' [(''errors'', hp_errors E rq)] rid"
  by (simp add: locked_reply_def validation_error_handler_def sent_request_id_def)

text \<open>The reply of the lockout has none of the headers of every response.\<close>

lemma locked_reply_is_bare: "wr_headers (locked_reply rq) = []"
  by (simp add: locked_reply_def error_reply_def)

text \<open>The lockout and the audit stand outside the layer that reads the proxy's headers, so they see the proxy: \<open>proxy_layer\<close> may give
  the routes another client for each request, and the failures of all of them count against one address.\<close>

lemma lockout_ignores_forwarded:
  "client_host rq' = client_host rq \<Longrightarrow> wq_path rq' = wq_path rq \<Longrightarrow> check_locked E rq' s = check_locked E rq s"
  by (simp add: check_locked_def is_public_def)

lemma purge_leaves_otps: "db_setup_otps (site_db (purge_turn E fault s)) = db_setup_otps (site_db s)"
  by (simp add: purge_turn_def purge_failed_def on_purge_def put_db_def put_keys_def tick_def current_db_def Let_def
      purge_expired_ui_sessions_def purge_usage_events_older_than_def drop_sessions_def)

lemma purge_turn_books:
  "purge_turn E NoFault s = s' \<Longrightarrow> pg_errors (cs_purge (ct_state (si_ct s'))) = pg_errors (cs_purge (ct_state (si_ct s))) \<and>
     pg_last_run_at (cs_purge (ct_state (si_ct s'))) \<noteq> None"
  by (auto simp: purge_turn_def on_purge_def put_db_def put_keys_def tick_def Let_def split: prod.split)

section \<open>A concrete process\<close>

definition demo_app_env :: "(unit, unit, unit) app_env" where
  "demo_app_env = \<lparr>hp_site = demo_site_env, hp_config = default_app_config, hp_uuid = (\<lambda>k. ''u''), hp_proxy = (\<lambda>t h. h),
     hp_hosts = (\<lambda>hs h. h), hp_cors = (\<lambda>c h. h), hp_errors = (\<lambda>rq. JNull), hp_schema = [], hp_metrics = (''m'', ''text/plain'')\<rparr>"

definition demo_process :: "lockout \<Rightarrow> (unit, unit, unit) process" where
  "demo_process l = \<lparr>pr_site = demo_site\<lparr>si_ct := (si_ct demo_site)\<lparr>ct_lockout := l\<rparr>\<rparr>, pr_route = None, pr_requests = [], pr_hits = []\<rparr>"

definition demo_web_request :: "string \<Rightarrow> (string \<times> string) list \<Rightarrow> web_request" where
  "demo_web_request p headers = \<lparr>wq_method = ''GET'', wq_path = p, wq_client = Some ''10.0.0.1'', wq_headers = headers\<rparr>"

definition demo_lockout :: lockout where
  "demo_lockout = \<lparr>lk_threshold = 1, lk_window_seconds = 60, lk_events = [(''10.0.0.1'', [0])]\<rparr>"

lemma demo_is_locked:
  "snd (is_locked (process_lockout (demo_process demo_lockout))
     (se_time (hp_site demo_app_env) (Suc (si_reads (pr_site (demo_process demo_lockout))))) (client_host (demo_web_request p hs)))"
  by (simp add: is_locked_def demo_process_def demo_lockout_def demo_app_env_def demo_site_env_def demo_site_def
      client_host_def demo_web_request_def lk_evict_def Let_def)

theorem locked_address_is_refused_witness:
  "\<exists>r. snd (app demo_app_env (\<lambda>rq s. (s, Inl (ExRaw ''routes''))) (demo_web_request ''/v1/search'' []) (demo_process demo_lockout)) = Inr r \<and>
     wr_status r = 429"
proof -
  have "is_public (demo_web_request ''/v1/search'' [])" by (simp add: is_public_def demo_web_request_def)
  from locked_address_is_refused [OF this demo_is_locked, of "\<lambda>rq s. (s, Inl (ExRaw ''routes''))"] show ?thesis by blast
qed


theorem metrics_are_guarded_witness:
  "\<exists>k \<in> set (db_api_keys (process_db (demo_process demo_lockout))). ak_status k = ''active'' \<and>
     matches_secret (se_crypto demo_site_env) ''s1'' k"
proof -
  let ?os = "demo_os\<lparr>os_env := [(''EGG_METRICS_TOKEN'', ''tok'')]\<rparr>"
  let ?s = "demo_process demo_lockout\<lparr>pr_site := demo_site\<lparr>si_ct := (si_ct demo_site)\<lparr>ct_os := ?os\<rparr>\<rparr>\<rparr>"
  let ?rq = "demo_web_request ''/metrics'' [(''x-api-key'', ''s1'')]"
  have tok: "expected_token ?s = ''tok''"
    by (simp add: expected_token_def getenv_def py_strip_def strip_by_def rstrip_by_def is_space_def)
  have bearer: "bearer_of ?rq = []" by (simp add: bearer_of_def header_of_def demo_web_request_def)
  have key: "\<exists>s1. key_is_valid demo_app_env ?rq ?s = (s1, True)"
    by (simp add: key_is_valid_def km_validate_def km_get_identity_def validate_api_key_def matches_secret_def candidate_hashes_def
        demo_app_env_def demo_site_env_def demo_platform_def demo_crypto_def demo_site_db_def key_row_def hash_with_variant_def
        hash_key_def demo_site_def demo_site_state_def header_of_def demo_web_request_def empty_db_def Let_def split: prod.split)
  then obtain s1 where k: "key_is_valid demo_app_env ?rq ?s = (s1, True)" by blast
  have m: "\<exists>r. metrics demo_app_env ?rq ?s = (s1, Inr r)" using tok bearer k by (simp add: metrics_def Let_def)
  then obtain r where "metrics demo_app_env ?rq ?s = (s1, Inr r)" by blast
  from metrics_are_guarded [OF this] tok bearer show ?thesis
    by (auto simp: picks_def demo_app_env_def demo_site_env_def header_of_def demo_web_request_def demo_process_def demo_site_def
        current_db_def)
qed

end
