(* ===== verification/User_Messages.thy ===== *)
theory User_Messages
  imports Catalogue Http_App
begin

text \<open>
  What people read: \<^verbatim>\<open>app/i18n.py\<close> (the language of a page and its texts), \<^verbatim>\<open>app/user_errors.py\<close> (errors in plain words)
  and \<^verbatim>\<open>app/landing/routes.py\<close> (the two public pages, as their template with the values passed to it).
\<close>

section \<open>The language of a page\<close>

definition default_lang :: string where
  "default_lang = ''en''"

definition supported_langs :: "string list" where
  "supported_langs = [''en'', ''fr'']"

text \<open>\<open>split(c, 1)[0]\<close>.\<close>

definition before_char :: "char \<Rightarrow> string \<Rightarrow> string" where
  "before_char c s = takeWhile (\<lambda>x. x \<noteq> c) s"

definition coerce_lang :: "string option \<Rightarrow> string option" where
  "coerce_lang raw =
     (if \<not> is_set raw then None
      else (let head = py_lower (py_strip (before_char (CHR '','') (the raw))) in
        if head = [] then None
        else (let head = before_char (CHR ''-'') (before_char (CHR '';'') head) in
          if head \<in> set supported_langs then Some head else None)))"

record lang_request =
  lq_lang :: "string option"
  lq_cookie :: string
  lq_accept :: string

text \<open>The configuration is missing when the container cannot be built.\<close>

definition config_default_lang :: "app_config option \<Rightarrow> string option" where
  "config_default_lang c = (case c of None \<Rightarrow> None | Some c \<Rightarrow> coerce_lang (ac_default_language c))"

definition lang_parameter :: "lang_request \<Rightarrow> string" where
  "lang_parameter rq = py_lower (py_strip (case lq_lang rq of None \<Rightarrow> [] | Some q \<Rightarrow> q))"

definition resolve_lang :: "os \<Rightarrow> app_config option \<Rightarrow> lang_request option \<Rightarrow> string" where
  "resolve_lang s c sent =
     (let rest = (case config_default_lang c of
          Some l \<Rightarrow> l
        | None \<Rightarrow> (case coerce_lang (Some (py_lower (py_strip (getenv s ''EGG_DEFAULT_LANG'' [])))) of
            Some l \<Rightarrow> l | None \<Rightarrow> default_lang)) in
      case sent of
        None \<Rightarrow> rest
      | Some rq \<Rightarrow>
          (case coerce_lang (Some (lang_parameter rq)) of
             Some l \<Rightarrow> l
           | None \<Rightarrow> (case coerce_lang (Some (lq_cookie rq)) of
               Some l \<Rightarrow> l
             | None \<Rightarrow> (case coerce_lang (Some (lq_accept rq)) of Some l \<Rightarrow> l | None \<Rightarrow> rest))))"

definition catalogues :: "(string \<times> (string \<times> string) list) list" where
  "catalogues = [(''en'', EN), (''fr'', FR)]"

definition translator :: "string \<Rightarrow> string \<Rightarrow> string" where
  "translator lang key =
     (let catalogue = (case dict_get catalogues lang of None \<Rightarrow> EN | Some c \<Rightarrow> c) in
      case dict_get catalogue key of
        Some t \<Rightarrow> t
      | None \<Rightarrow> (case dict_get EN key of Some t \<Rightarrow> t | None \<Rightarrow> key))"

section \<open>Errors in plain words\<close>

definition error_hints :: "((string \<times> string option) \<times> string \<times> string) list" where
  "error_hints =
     [((''invalid_parameter'', Some ''field''), ''A value in your configuration was rejected.'',
        ''Re-open the wizard or edit config/egg.yaml and fix the field named in the details.''),
      ((''invalid_parameter'', Some ''key_id''), ''The key label is not valid.'',
        ''Labels must be 1-64 characters, letters/digits/dot/underscore/dash only.''),
      ((''invalid_parameter'', Some ''parameter''), ''A public query parameter is missing or malformed.'',
        ''Check the parameter mentioned in details and try again.''),
      ((''backend_unavailable'', None), ''EGG-API could not reach the search backend.'',
        ''Verify that Elasticsearch/OpenSearch is running and that the URL + credentials are correct (wizard step 1).''),
      ((''unsupported_backend_version'', None), ''The backend version is too old for EGG-API.'',
        ''Elasticsearch 7 or later, or OpenSearch 1 or later, is required.''),
      ((''forbidden'', None), ''The caller does not have permission for this action.'',
        ''Sign in with an active admin key (see wizard step 6).''),
      ((''not_found'', Some ''key_id''), ''No API key exists with that label.'',
        ''List keys in the admin UI or with `GET /admin/v1/keys`.''),
      ((''not_found'', None), ''The resource you requested does not exist.'',
        ''Double-check the path (record id, key label'' @ [CHR 0xE2, CHR 0x80, CHR 0xA6] @ '') and try again.''),
      ((''conflict'', Some ''key_id''), ''An API key already exists with that label.'',
        ''Pick a different label, or rotate the existing key instead.''),
      ((''configuration_error'', None), ''The current configuration is incomplete or inconsistent.'',
        ''Run `egg-api check-config` (CLI) or visit the setup wizard to review it.''),
      ((''invalid_api_key'', None), ''The admin key you provided is not valid.'',
        ''Copy the key printed by `egg-api start` (or stored in data/bootstrap_admin.key).'')]"

definition fallback_hint :: "string \<times> string" where
  "fallback_hint = (''EGG-API reported an error.'', ''See server logs for details, or contact your administrator.'')"

fun hint_of_details :: "string \<Rightarrow> doc \<Rightarrow> (string \<times> string) option" where
  "hint_of_details code [] = None"
| "hint_of_details code ((k, v) # details) =
     (case map_of error_hints (code, Some k) of Some h \<Rightarrow> Some h | None \<Rightarrow> hint_of_details code details)"

definition hint_for :: "app_error \<Rightarrow> string \<times> string" where
  "hint_for e =
     (case hint_of_details (ae_code e) (ae_details e) of
        Some h \<Rightarrow> h
      | None \<Rightarrow> (case map_of error_hints (ae_code e, None) of Some h \<Rightarrow> h | None \<Rightarrow> fallback_hint))"

definition translate_app_error :: "app_error \<Rightarrow> doc" where
  "translate_app_error e =
     [(''code'', JStr (ae_code e)), (''message'', JStr (ae_message e)), (''user_message'', JStr (fst (hint_for e))),
      (''suggestion'', JStr (snd (hint_for e))), (''details'', JDict (ae_details e))]"

text \<open>One entry of \<open>ValidationError.errors()\<close>: the parts of its location as text, and its message, if it has one.\<close>

type_synonym field_error = "string list \<times> string option"

abbreviation newline :: string where
  "newline \<equiv> [CHR 0x0A]"

definition bullet :: "field_error \<Rightarrow> string" where
  "bullet err =
     (let loc = join ''.'' (fst err) in
      ''  - '' @ (if loc = [] then ''(root)'' else loc) @ '': '' @ (case snd err of None \<Rightarrow> ''invalid value'' | Some m \<Rightarrow> m))"

definition translate_validation_error :: "field_error list \<Rightarrow> string" where
  "translate_validation_error errors =
     join newline ([''Configuration has the following problems:''] @ map bullet errors @
       [''Fix these in config/egg.yaml (or re-run the setup wizard at /admin/ui/setup) and try again.''])"

datatype failure = FailApp app_error | FailValidation "field_error list" | FailOther string

definition format_for_terminal :: "failure \<Rightarrow> string" where
  "format_for_terminal f =
     (case f of
        FailApp e \<Rightarrow> fst (hint_for e) @ newline @ ''Hint: '' @ snd (hint_for e) @ newline @ ''(code: '' @ ae_code e @ '')''
      | FailValidation errors \<Rightarrow> translate_validation_error errors
      | FailOther t \<Rightarrow> ''Error: '' @ t)"

section \<open>The landing pages\<close>

record status_tile =
  stt_live_label :: string
  stt_live_class :: string
  stt_backend_label :: string
  stt_backend_class :: string

text \<open>\<open>str(version or "")\<close> needs the text of a value that is not a string: \<open>show\<close>.\<close>

definition pretty_backend :: "(json \<Rightarrow> string) \<Rightarrow> json \<Rightarrow> json \<Rightarrow> py_exc + string" where
  "pretty_backend show flavor version =
     (let v = (if truthy version then show version else []) in
      if \<not> truthy flavor then Inr v
      else (case flavor of
          JStr f \<Rightarrow> Inr (join '' '' ([f] @ (if v = [] then [] else [v])))
        | _ \<Rightarrow> Inl (ExRaw ''TypeError'')))"

definition liveness_status :: "(json \<Rightarrow> string) \<Rightarrow> (string \<Rightarrow> string) \<Rightarrow> py_exc + json \<Rightarrow> status_tile" where
  "liveness_status show t detected =
     (let tile = (\<lambda>label cls. \<lparr>stt_live_label = t ''landing.status.online'', stt_live_class = ''ok'',
            stt_backend_label = label, stt_backend_class = cls\<rparr>);
          unreachable = tile (t ''landing.status.unreachable'') ''warn'' in
      case detected of
        Inl e \<Rightarrow> unreachable
      | Inr info \<Rightarrow>
          (let version = (case info of JDict d \<Rightarrow> jget d ''version'' | _ \<Rightarrow> JNull);
               flavor = (case info of JDict d \<Rightarrow> jget d ''flavor'' | _ \<Rightarrow> JNull) in
           if truthy version \<or> truthy flavor
           then (case pretty_backend show flavor version of
               Inl e \<Rightarrow> unreachable
             | Inr pretty \<Rightarrow> tile (if py_strip pretty = [] then t ''landing.status.reachable'' else py_strip pretty) ''ok'')
           else tile (t ''landing.status.reachable'') ''ok''))"

record landing_reply =
  ld_template :: string
  ld_lang :: string
  ld_text :: "string \<Rightarrow> string"
  ld_status :: status_tile
  ld_cookie :: "string option"

definition render_landing ::
  "(json \<Rightarrow> string) \<Rightarrow> os \<Rightarrow> app_config \<Rightarrow> py_exc + json \<Rightarrow> string \<Rightarrow> lang_request \<Rightarrow> landing_reply"
where
  "render_landing show s c detected template rq =
     (let lang = resolve_lang s (Some c) (Some rq); t = translator lang; q = lang_parameter rq in
      \<lparr>ld_template = template, ld_lang = lang, ld_text = t, ld_status = liveness_status show t detected,
       ld_cookie = (if q \<in> set supported_langs then Some q else None)\<rparr>)"

definition landing_index ::
  "(json \<Rightarrow> string) \<Rightarrow> os \<Rightarrow> app_config \<Rightarrow> py_exc + json \<Rightarrow> lang_request \<Rightarrow> landing_reply"
where
  "landing_index show s c detected = render_landing show s c detected ''index.html''"

definition landing_about ::
  "(json \<Rightarrow> string) \<Rightarrow> os \<Rightarrow> app_config \<Rightarrow> py_exc + json \<Rightarrow> lang_request \<Rightarrow> landing_reply"
where
  "landing_about show s c detected = render_landing show s c detected ''about.html''"

section \<open>Language and texts\<close>

text \<open>The places a language is looked for, in order: the query parameter, the cookie, the header, the configuration, the
  environment.\<close>

definition lang_candidates :: "os \<Rightarrow> app_config option \<Rightarrow> lang_request option \<Rightarrow> string option list" where
  "lang_candidates s c sent =
     (case sent of None \<Rightarrow> [] | Some rq \<Rightarrow> [Some (lang_parameter rq), Some (lq_cookie rq), Some (lq_accept rq)]) @
     [case c of None \<Rightarrow> None | Some c \<Rightarrow> ac_default_language c,
      Some (py_lower (py_strip (getenv s ''EGG_DEFAULT_LANG'' [])))]"

lemma coerce_lang_supported: "coerce_lang raw = Some l \<Longrightarrow> l \<in> set supported_langs"
  by (auto simp: coerce_lang_def Let_def split: if_split_asm)

lemma coerce_lang_None [simp]: "coerce_lang None = None"
  by (simp add: coerce_lang_def)

text \<open>The same as a search: the first candidate that names a language.\<close>

fun first_lang :: "string option list \<Rightarrow> string" where
  "first_lang [] = default_lang"
| "first_lang (r # rs) = (case coerce_lang r of Some l \<Rightarrow> l | None \<Rightarrow> first_lang rs)"

lemma first_lang_supported: "first_lang rs \<in> set supported_langs"
  by (induction rs) (auto simp: default_lang_def supported_langs_def split: option.split dest!: coerce_lang_supported)

text \<open>A page is in the first language that the query, the cookie, the header, the configuration and the environment name, in
  this order, and in English when none does; it is always one of the two languages there are texts for.\<close>

lemma resolve_lang_is_first:
  "resolve_lang s c sent = first_lang (lang_candidates s c sent) \<and> resolve_lang s c sent \<in> {''en'', ''fr''}"
proof -
  have "resolve_lang s c sent = first_lang (lang_candidates s c sent)"
    by (cases sent; cases c)
      (simp_all add: resolve_lang_def lang_candidates_def config_default_lang_def Let_def split: option.split)
  then show ?thesis using first_lang_supported by (simp add: supported_langs_def)
qed

lemma dict_get_same_keys: "map fst d = map fst d' \<Longrightarrow> dict_get d k \<noteq> None \<longleftrightarrow> dict_get d' k \<noteq> None"
proof (induction d arbitrary: d')
  case (Cons p d)
  then show ?case by (cases d'; cases p) auto
qed simp

text \<open>Every text of a page is in the language of the page: a key that one catalogue has, the other has, and no text falls back
  to English. An unknown key shows as itself.\<close>

lemma texts_are_translated:
  "(if dict_get EN key = None then translator lang key = key
    else dict_get FR key = Some (translator ''fr'' key) \<and> dict_get EN key = Some (translator ''en'' key))"
proof -
  have FR: "dict_get FR key \<noteq> None \<longleftrightarrow> dict_get EN key \<noteq> None"
    by (rule dict_get_same_keys [OF catalogues_agree])
  have "dict_get c key = None" if "dict_get EN key = None" "dict_get catalogues lang = Some c" for c
    using that FR by (auto simp: catalogues_def split: if_split_asm)
  then show ?thesis
    using FR by (auto simp: translator_def catalogues_def Let_def split: option.split)
qed

section \<open>What the terminal shows of an error\<close>

lemma hint_of_keys: "map fst d = map fst d' \<Longrightarrow> hint_of_details code d = hint_of_details code d'"
proof (induction d arbitrary: d')
  case (Cons p d)
  obtain k v where p: "p = (k, v)" by (cases p)
  with Cons.prems obtain v' e where d': "d' = (k, v') # e" "map fst d = map fst e" by (cases d') auto
  show ?case unfolding p d'(1) hint_of_details.simps Cons.IH [OF d'(2)] ..
qed simp

text \<open>Only the code and the names of the details count: the hints that point to the details are printed without them.\<close>

lemma terminal_shows_no_details:
  assumes "map fst details = map fst details'"
  shows "format_for_terminal (FailApp (AppError code m details n)) = format_for_terminal (FailApp (AppError code m' details' n'))"
proof -
  have "hint_of_details code details = hint_of_details code details'" by (rule hint_of_keys [OF assms])
  then have "hint_for (AppError code m details n) = hint_for (AppError code m' details' n')"
    by (simp only: hint_for_def app_error.sel)
  then show ?thesis unfolding format_for_terminal_def failure.case app_error.sel by (simp only:)
qed

text \<open>A landing page is always served, whatever the backend answers.\<close>

lemma landing_survives_backend:
  "ld_status (render_landing show s c (Inl e) template rq) =
     liveness_status show (translator (resolve_lang s (Some c) (Some rq))) (Inl e)"
  by (simp add: render_landing_def Let_def)

lemma cookie_is_page_language:
  assumes "ld_cookie (render_landing show s c detected template rq) = Some l"
  shows "ld_lang (render_landing show s c detected template rq) = l"
proof -
  have "lang_parameter rq = l" "l = ''en'' \<or> l = ''fr''"
    using assms by (auto simp: render_landing_def Let_def supported_langs_def split: if_split_asm)
  moreover have "coerce_lang (Some ''en'') = Some ''en''" "coerce_lang (Some ''fr'') = Some ''fr''" by code_simp+
  ultimately have "coerce_lang (Some (lang_parameter rq)) = Some l" by auto
  then show ?thesis by (simp add: render_landing_def Let_def resolve_lang_def)
qed

text \<open>The adapters answer with the whole version object and with no \<open>flavor\<close>: the page shows the text of that object, the build hash
  included.\<close>

lemma landing_shows_version_object:
  assumes "detect_version kind resp = Inr (JDict d)" "jget d ''version'' = JDict v" "v \<noteq> []" "py_strip (show (JDict v)) \<noteq> []"
  shows "stt_backend_label (liveness_status show t (Inr (JDict d))) = py_strip (show (JDict v))"
proof -
  have "jget d ''flavor'' = JNull"
    using assms(1) by (cases kind) (auto simp: detect_version_def jget_def egg_simps Let_def split: distribution.split_asm if_split_asm)
  then show ?thesis using assms(2-4) by (simp add: liveness_status_def pretty_backend_def Let_def)
qed

end
