(* ===== verification/Launch.thy ===== *)
theory Launch
  imports User_Messages Migrations
begin

text \<open>
  \<^verbatim>\<open>app/cli.py\<close> and \<^verbatim>\<open>app/desktop.py\<close>: how the program is started. A command takes the operating system and the databases,
  leaves them changed, and does things that are seen outside, which are kept as a list: lines printed, a page
  opened, the server run. What the libraries of the desktop offer (sockets, windows, dialogs) is an argument.
\<close>

section \<open>What is seen of a command\<close>

datatype effect =
    Printed string
  | PrintedJson doc
  | PrintedError string
  | OpenBrowser string
  | ServeApp string int bool
  | ShowWindow string
  | ShowDialog string string
  | LogTo path

datatype exit = ExitCode int | Crash string

type_synonym command_result = "os \<times> databases \<times> effect list \<times> exit"

text \<open>The random source and the clock of one command: the generated administrator's key, the magic token, the times of the two writes.\<close>

record chance =
  ch_key :: string
  ch_token :: string
  ch_now_admin :: nat
  ch_now_otp :: nat

section \<open>Configuration and store\<close>

text \<open>\<open>AppConfig()\<close> with the store's path made absolute.\<close>

definition first_config :: "os \<Rightarrow> app_config" where
  "first_config s = default_app_config\<lparr>ac_storage := (ac_storage default_app_config)
     \<lparr>st_sqlite_path := path_str (get_state_db_path s (st_sqlite_path (ac_storage default_app_config)))\<rparr>\<rparr>"

text \<open>\<open>manager.load() if config_path.exists() else AppConfig()\<close>.\<close>

definition loaded_config :: "yaml \<Rightarrow> leaves \<Rightarrow> os \<Rightarrow> config_manager \<Rightarrow> string + app_config" where
  "loaded_config y L s m =
     (if read_text s (cm_path m) \<noteq> None then map_r cm_config (cm_load y L s m) else Inr default_app_config)"

text \<open>Each start writes a configuration only where there is none.\<close>

definition ensure_config :: "yaml \<Rightarrow> leaves \<Rightarrow> os \<Rightarrow> os \<times> (string + app_config)" where
  "ensure_config y L s =
     (case cm_new y L s (Some (get_config_path s)) False of
        Inl e \<Rightarrow> (s, Inl e)
      | Inr m \<Rightarrow>
          if read_text s (get_config_path s) \<noteq> None then (s, loaded_config y L s m)
          else (case cm_save y L s m (first_config s) of
              (m', s', Inl e) \<Rightarrow> (s', Inl e)
            | (m', s', Inr _) \<Rightarrow> (s', loaded_config y L s' m')))"

text \<open>\<open>store.initialize()\<close>, the administrator's key, and its row.\<close>

definition ensure_admin ::
  "platform \<Rightarrow> os \<Rightarrow> databases \<Rightarrow> app_config \<Rightarrow> chance \<Rightarrow> os \<times> databases \<times> (string + path \<times> string)"
where
  "ensure_admin pf s dbs c ch =
     (let p = get_state_db_path s (st_sqlite_path (ac_storage c)) in
      if \<not> os_can_write s p then (s, dbs, Inl ''OperationalError: unable to open database file'')
      else (case get_bootstrap_admin_key s (au_bootstrap_admin_key (ac_auth c)) (ch_key ch) of
          (s', Inl e) \<Rightarrow> (s', dict_set p (open_db dbs p) dbs, Inl e)
        | (s', Inr key) \<Rightarrow>
            (s', dict_set p (ensure_admin_key (pf_crypto pf) (open_db dbs p) (ch_now_admin ch) key ''admin'') dbs, Inr (p, key))))"

definition otp_ttl :: int where
  "otp_ttl = 300"

text \<open>What the terminal's \<open>start\<close> and the desktop share: the key and a fresh magic token.\<close>

definition prepare_state_and_mint_otp ::
  "platform \<Rightarrow> os \<Rightarrow> databases \<Rightarrow> chance \<Rightarrow> os \<times> databases \<times> (string + string \<times> string)"
where
  "prepare_state_and_mint_otp pf s dbs ch =
     (case ensure_config (pf_yaml pf) (pf_leaves pf) s of
        (s1, Inl e) \<Rightarrow> (s1, dbs, Inl e)
      | (s1, Inr c) \<Rightarrow>
          (case ensure_admin pf s1 dbs c ch of
             (s2, dbs2, Inl e) \<Rightarrow> (s2, dbs2, Inl e)
           | (s2, dbs2, Inr (p, key)) \<Rightarrow>
               (case create_setup_otp (pf_crypto pf) (open_db dbs2 p) (ch_now_otp ch) (ch_token ch) ''admin'' otp_ttl of
                  Inl e \<Rightarrow> (s2, dbs2, Inl (exc_text e))
                | Inr (d, otp) \<Rightarrow> (s2, dict_set p d dbs2, Inr (key, otp)))))"

definition magic_url :: "string \<Rightarrow> int \<Rightarrow> string \<Rightarrow> string" where
  "magic_url host port otp = ''http://'' @ host @ '':'' @ str_of_int port @ ''/admin/setup-otp/'' @ otp"

section \<open>The commands of the terminal\<close>

definition cmd_init :: "platform \<Rightarrow> bool \<Rightarrow> chance \<Rightarrow> os \<Rightarrow> databases \<Rightarrow> command_result" where
  "cmd_init pf force ch s dbs =
     (let config_path = get_config_path s; y = pf_yaml pf; L = pf_leaves pf in
      case cm_new y L s (Some config_path) False of
        Inl e \<Rightarrow> (s, dbs, [], Crash e)
      | Inr m \<Rightarrow>
          (case (if read_text s config_path \<noteq> None \<and> \<not> force
                 then (m, s, Inr [Printed (''Config already exists at '' @ path_str config_path @ ''. Use --force to overwrite.'')])
                 else (case cm_save y L s m (first_config s) of
                     (m', s', Inl e) \<Rightarrow> (m', s', Inl e)
                   | (m', s', Inr _) \<Rightarrow> (m', s', Inr [Printed (''Wrote config: '' @ path_str config_path)]))) of
             (m', s', Inl e) \<Rightarrow> (s', dbs, [], Crash e)
           | (m', s', Inr out) \<Rightarrow>
               (case loaded_config y L s' m' of
                  Inl e \<Rightarrow> (s', dbs, out, Crash e)
                | Inr c \<Rightarrow>
                    (case ensure_admin pf s' dbs c ch of
                       (s2, dbs2, Inl e) \<Rightarrow> (s2, dbs2, out, Crash e)
                     | (s2, dbs2, Inr (p, key)) \<Rightarrow>
                         (s2, dbs2, out @ [Printed (''Initialized state DB: '' @ path_str p),
                            Printed ''Bootstrap complete. Next: egg-api start   (or: egg-api run)''], ExitCode 0)))))"

text \<open>The configuration of a command that only reads: the file's, or the defaults.\<close>

definition read_config :: "platform \<Rightarrow> os \<Rightarrow> string + app_config" where
  "read_config pf s =
     (let p = get_config_path s in
      if read_text s p = None then Inr default_app_config
      else map_r cm_config (cm_new (pf_yaml pf) (pf_leaves pf) s (Some p) True))"

definition paths_doc :: "os \<Rightarrow> app_config \<Rightarrow> doc" where
  "paths_doc s c =
     [(''home_dir'', JStr (path_str (get_home_dir s))), (''config_path'', JStr (path_str (get_config_path s))),
      (''config_exists'', JBool (read_text s (get_config_path s) \<noteq> None)),
      (''state_db_path'', JStr (path_str (get_state_db_path s (st_sqlite_path (ac_storage c))))),
      (''bootstrap_admin_key_source'', JStr (if dict_get (os_env s) ''EGG_BOOTSTRAP_ADMIN_KEY'' \<noteq> None
        then ''env:EGG_BOOTSTRAP_ADMIN_KEY'' else ''config.auth.bootstrap_admin_key''))]"

definition cmd_print_paths :: "platform \<Rightarrow> os \<Rightarrow> databases \<Rightarrow> command_result" where
  "cmd_print_paths pf s dbs =
     (case read_config pf s of
        Inl e \<Rightarrow> (s, dbs, [], Crash e)
      | Inr c \<Rightarrow> (s, dbs, [PrintedJson (paths_doc s c)], ExitCode 0))"

text \<open>\<open>failure_of\<close> is the exception behind an error text: the terminal shows each class in its own way.\<close>

definition cmd_check_config :: "platform \<Rightarrow> (string \<Rightarrow> failure) \<Rightarrow> os \<Rightarrow> databases \<Rightarrow> command_result" where
  "cmd_check_config pf failure_of s dbs =
     (case cm_new (pf_yaml pf) (pf_leaves pf) s (Some (get_config_path s)) True of
        Inr m \<Rightarrow> (s, dbs, [Printed (''Configuration is valid: '' @ path_str (cm_path m))], ExitCode 0)
      | Inl e \<Rightarrow> (s, dbs, [PrintedError (''Configuration check failed.'' @ newline @ format_for_terminal (failure_of e) @ newline @
          ''Hint: run `egg-api init` to generate a baseline config.'')], ExitCode 2))"

definition failure_of_exc :: "py_exc \<Rightarrow> failure" where
  "failure_of_exc e = (case e of ExApp a \<Rightarrow> FailApp a | ExRaw t \<Rightarrow> FailOther t)"

text \<open>Importing the container builds it, which may fail before the backend is asked.\<close>

definition cmd_check_backend ::
  "platform \<Rightarrow> (string \<Rightarrow> failure) \<Rightarrow> http_env \<Rightarrow> (string \<times> json) list \<Rightarrow> nat \<Rightarrow> string \<Rightarrow> os \<Rightarrow> databases \<Rightarrow> command_result"
where
  "cmd_check_backend pf failure_of env ctx now fresh s dbs =
     (let failed = (\<lambda>f. [PrintedError (''Backend check failed.'' @ newline @ format_for_terminal f)]) in
      case container_new pf s dbs now fresh of
        Inl e \<Rightarrow> (s, dbs, failed (failure_of e), ExitCode 3)
      | Inr ct \<Rightarrow>
          (case snd (health (cs_adapter (ct_state ct)) env ctx) of
             Inl e \<Rightarrow> (ct_os ct, flushed ct, failed (failure_of_exc e), ExitCode 3)
           | Inr h \<Rightarrow> (ct_os ct, flushed ct, [PrintedJson [(''status'', JStr ''ok''), (''backend'', h)]], ExitCode 0)))"

text \<open>The schema of the store's file, before and after.\<close>

definition migration_doc :: "path \<Rightarrow> nat \<Rightarrow> nat \<Rightarrow> nat list \<Rightarrow> doc" where
  "migration_doc p before after applied =
     [(''db_path'', JStr (path_str p)), (''before'', JInt (int before)), (''after'', JInt (int after)),
      (''applied'', JList (map (\<lambda>(v, n, _). JDict [(''version'', JInt (int v)), (''name'', JStr n)])
        (filter (\<lambda>(v, _). v \<in> set applied) migrations)))]"

definition cmd_migrate :: "platform \<Rightarrow> nat \<Rightarrow> os \<Rightarrow> sqlite \<Rightarrow> sqlite \<times> effect list \<times> exit" where
  "cmd_migrate pf now s file =
     (case read_config pf s of
        Inl e \<Rightarrow> (file, [], Crash e)
      | Inr c \<Rightarrow>
          (case migrate now file of
             Inl e \<Rightarrow> (file, [], Crash e)
           | Inr (file', applied) \<Rightarrow>
               (file', [PrintedJson (migration_doc (get_state_db_path s (st_sqlite_path (ac_storage c)))
                  (current_version file) (current_version file') applied)], ExitCode 0)))"

definition cmd_run :: "string \<Rightarrow> int \<Rightarrow> bool \<Rightarrow> os \<Rightarrow> databases \<Rightarrow> command_result" where
  "cmd_run host port watch s dbs = (s, dbs, [ServeApp host port watch], ExitCode 0)"

definition start_lines :: "string \<Rightarrow> int \<Rightarrow> string \<Rightarrow> string \<Rightarrow> bool \<Rightarrow> effect list" where
  "start_lines host port key url no_browser =
     [Printed (newline @ ''EGG-API '' @ [CHR 0xE2, CHR 0x80, CHR 0x94] @ '' first-run launcher''), Printed ''----------------------------'',
      Printed (''Admin key (keep this safe '' @ [CHR 0xE2, CHR 0x80, CHR 0x94] @ '' used for CLI/API access):'' @ newline @ ''  '' @ key @ newline),
      Printed ''One-time setup link (opens the wizard, expires in 5 minutes):'', Printed (''  '' @ url @ newline)] @
     (if no_browser then []
      else [Printed (''Opening your default browser automatically'' @ [CHR 0xE2, CHR 0x80, CHR 0xA6]), OpenBrowser url]) @
     [Printed (''Starting the API server on http://'' @ host @ '':'' @ str_of_int port @ ''   (Ctrl+C to stop)'' @ newline)]"

definition cmd_start :: "platform \<Rightarrow> string \<Rightarrow> int \<Rightarrow> bool \<Rightarrow> chance \<Rightarrow> os \<Rightarrow> databases \<Rightarrow> command_result" where
  "cmd_start pf host port no_browser ch s dbs =
     (case prepare_state_and_mint_otp pf s dbs ch of
        (s', dbs', Inl e) \<Rightarrow> (s', dbs', [], Crash e)
      | (s', dbs', Inr (key, otp)) \<Rightarrow>
          (s', dbs', start_lines host port key (magic_url host port otp) no_browser @ [ServeApp host port False], ExitCode 0))"

text \<open>The parsed command line, with the defaults of the parser.\<close>

datatype command =
    Init bool
  | Run string int bool
  | Start string int bool
  | CheckConfig
  | CheckBackend
  | PrintPaths

definition default_run :: command where
  "default_run = Run ''127.0.0.1'' 8000 False"

definition default_start :: command where
  "default_start = Start ''127.0.0.1'' 8000 False"

fun cli_main ::
  "platform \<Rightarrow> (string \<Rightarrow> failure) \<Rightarrow> http_env \<Rightarrow> (string \<times> json) list \<Rightarrow> chance \<Rightarrow> command \<Rightarrow> os \<Rightarrow> databases \<Rightarrow> command_result"
where
  "cli_main pf fo env ctx ch (Init force) = cmd_init pf force ch"
| "cli_main pf fo env ctx ch (Run host port watch) = cmd_run host port watch"
| "cli_main pf fo env ctx ch (Start host port no_browser) = cmd_start pf host port no_browser ch"
| "cli_main pf fo env ctx ch CheckConfig = cmd_check_config pf fo"
| "cli_main pf fo env ctx ch CheckBackend = cmd_check_backend pf fo env ctx (ch_now_admin ch) (ch_key ch)"
| "cli_main pf fo env ctx ch PrintPaths = cmd_print_paths pf"

section \<open>The desktop\<close>

text \<open>\<open>mkdir\<close> of the home directory fails where it cannot be written.\<close>

definition ensure_desktop_home :: "os \<Rightarrow> os \<times> (string + path)" where
  "ensure_desktop_home s =
     (if getenv s ''EGG_HOME'' [] \<noteq> [] then (s, Inr (expand s (getenv s ''EGG_HOME'' [])))
      else (let home = desktop_home_dir s in
        if \<not> os_can_write s home then (s, Inl ''OSError'')
        else (s\<lparr>os_env := dict_set ''EGG_HOME'' (path_str home) (os_env s)\<rparr>, Inr home)))"

definition console_wanted :: "os \<Rightarrow> bool" where
  "console_wanted s = (py_lower (py_strip (getenv s ''EGG_DESKTOP_CONSOLE'' [])) \<in> {''1'', ''true'', ''yes''})"

text \<open>Where the output goes from now on; an error leaves it where it was.\<close>

definition setup_file_logging :: "os \<Rightarrow> path \<Rightarrow> effect list" where
  "setup_file_logging s home =
     (let log_path = path_join home (path_of ''logs/launcher.log'') in
      if console_wanted s \<or> \<not> os_can_write s log_path then [] else [LogTo log_path])"

definition port_range_start :: int where "port_range_start = 8765"
definition port_range_size :: nat where "port_range_size = 64"

text \<open>\<open>spare\<close> is the port that binding to 0 gives.\<close>

fun find_free_port :: "(int \<Rightarrow> bool) \<Rightarrow> int \<Rightarrow> int \<Rightarrow> nat \<Rightarrow> int" where
  "find_free_port can_bind spare start 0 = spare"
| "find_free_port can_bind spare start (Suc n) =
     (if can_bind start then start else find_free_port can_bind spare (start + 1) n)"

text \<open>\<open>now k\<close> is the reading number \<open>k\<close> of the clock, \<open>accepts k\<close> whether attempt \<open>k\<close> connects; \<open>None\<close> is running out of fuel.\<close>

fun wait_loop :: "(nat \<Rightarrow> rat) \<Rightarrow> (nat \<Rightarrow> bool) \<Rightarrow> rat \<Rightarrow> nat \<Rightarrow> nat \<Rightarrow> bool option" where
  "wait_loop now accepts deadline k 0 = None"
| "wait_loop now accepts deadline k (Suc fuel) =
     (if now k < deadline then (if accepts k then Some True else wait_loop now accepts deadline (Suc k) fuel)
      else Some False)"

definition wait_for_port :: "(nat \<Rightarrow> rat) \<Rightarrow> (nat \<Rightarrow> bool) \<Rightarrow> rat \<Rightarrow> nat \<Rightarrow> bool option" where
  "wait_for_port now accepts timeout fuel = wait_loop now accepts (now 0 + timeout) 1 fuel"

text \<open>\<open>shlex.quote\<close>.\<close>

definition shell_safe :: "char \<Rightarrow> bool" where
  "shell_safe c \<longleftrightarrow> label_char c \<or> c \<in> set ''@%+=:,./-''"

definition shlex_quote :: "string \<Rightarrow> string" where
  "shlex_quote s =
     (if s = [] then [CHR 0x27, CHR 0x27]
      else if \<forall>c \<in> set s. shell_safe c then s
      else [CHR 0x27] @ concat (map (\<lambda>c. if c = CHR 0x27 then [CHR 0x27, CHR 0x22, CHR 0x27, CHR 0x22, CHR 0x27] else [c]) s) @ [CHR 0x27])"

definition dialog_script :: "string \<Rightarrow> string \<Rightarrow> string" where
  "dialog_script title message =
     ''display dialog '' @ shlex_quote message @ '' with title '' @ shlex_quote title @ '' buttons {'' @ [CHR 0x22] @ ''OK'' @
     [CHR 0x22] @ ''} default button '' @ [CHR 0x22] @ ''OK'' @ [CHR 0x22]"

text \<open>\<open>works\<close>: the call of the library returns. On macOS the exit code of the script is not looked at.\<close>

definition show_native_dialog :: "os \<Rightarrow> bool \<Rightarrow> string \<Rightarrow> string \<Rightarrow> effect list \<times> bool" where
  "show_native_dialog s works title message =
     (if \<not> works then ([], False)
      else if os_darwin s \<and> \<not> os_windows s then ([ShowDialog ''osascript'' (dialog_script title message)], True)
      else ([ShowDialog title message], True))"

datatype webview = WindowMissing | WindowFails | WindowCloses

definition dialog_note :: "webview \<Rightarrow> string \<Rightarrow> (string \<times> string) option" where
  "dialog_note w url =
     (case w of
        WindowMissing \<Rightarrow> Some (''EGG-API'', ''EGG-API is running but the embedded window is unavailable.'' @ newline @ newline @
          ''Open this URL in your browser to finish setup:'' @ newline @ url)
      | WindowFails \<Rightarrow> Some (''EGG-API '' @ [CHR 0xE2, CHR 0x80, CHR 0x94] @ '' embedded window failed to open'',
          ''EGG-API is running but the embedded window failed to start (usually a missing WebView2 runtime on Windows 10, or missing WebKitGTK on Linux).'' @
          newline @ newline @ ''Open this URL in your browser to finish setup:'' @ newline @ url)
      | WindowCloses \<Rightarrow> None)"

record desktop =
  dk_can_bind :: "int \<Rightarrow> bool"
  dk_kernel_port :: int
  dk_window :: webview
  dk_dialog_works :: bool

definition desktop_lines :: "path \<Rightarrow> string \<Rightarrow> effect list" where
  "desktop_lines home url = map Printed
     [''EGG-API desktop launcher'', ''------------------------'', ''Home directory: '' @ path_str home,
      ''Open this URL if the window does not appear:'', ''  '' @ url]"

definition launch :: "desktop \<Rightarrow> platform \<Rightarrow> string \<Rightarrow> int option \<Rightarrow> chance \<Rightarrow> os \<Rightarrow> databases \<Rightarrow> command_result" where
  "launch dk pf host port ch s dbs =
     (case ensure_desktop_home s of
        (s1, Inl e) \<Rightarrow> (s1, dbs, [], Crash e)
      | (s1, Inr home) \<Rightarrow>
          (let selected_port = (case port of Some p \<Rightarrow> p
               | None \<Rightarrow> find_free_port (dk_can_bind dk) (dk_kernel_port dk) port_range_start port_range_size) in
           case prepare_state_and_mint_otp pf s1 dbs ch of
             (s2, dbs2, Inl e) \<Rightarrow> (s2, dbs2, [], Crash e)
           | (s2, dbs2, Inr (key, otp)) \<Rightarrow>
               (let url = magic_url host selected_port otp in
                (s2, dbs2, desktop_lines home url @ [ServeApp host selected_port False] @
                   (case dialog_note (dk_window dk) url of
                      None \<Rightarrow> [ShowWindow url]
                    | Some (title, message) \<Rightarrow> fst (show_native_dialog s2 (dk_dialog_works dk) title message)),
                 ExitCode 0))))"

definition desktop_main :: "desktop \<Rightarrow> platform \<Rightarrow> chance \<Rightarrow> os \<Rightarrow> databases \<Rightarrow> command_result" where
  "desktop_main dk pf ch s dbs =
     (case ensure_desktop_home s of
        (s1, Inl e) \<Rightarrow> (s1, dbs, [], Crash e)
      | (s1, Inr home) \<Rightarrow>
          (let logs = setup_file_logging s1 home in
           case launch dk pf ''127.0.0.1'' None ch s1 dbs of
             (s2, dbs2, out, ExitCode n) \<Rightarrow> (s2, dbs2, logs @ out, ExitCode n)
           | (s2, dbs2, out, Crash e) \<Rightarrow>
               (s2, dbs2, logs @ out @ fst (show_native_dialog s2 (dk_dialog_works dk)
                  (''EGG-API '' @ [CHR 0xE2, CHR 0x80, CHR 0x94] @ '' launcher crashed'')
                  (''The EGG-API launcher crashed during startup.'' @ newline @ ''Check the log at: '' @ path_str home @ ''/logs/launcher.log'')),
                ExitCode 1)))"

section \<open>Starting twice\<close>

lemma config_path_files [simp]: "get_config_path (s\<lparr>os_files := f\<rparr>) = get_config_path s"
  "get_state_db_path (s\<lparr>os_files := f\<rparr>) t = get_state_db_path s t"
  by (simp_all add: get_config_path_def get_state_db_path_def overridden_def expand_def get_home_dir_def getenv_def)

lemma cm_load_path: "cm_load y L s m = Inr m' \<Longrightarrow> cm_path m' = cm_path m"
  by (auto simp: cm_load_def egg_simps split: option.split_asm)

lemma cm_load_config: "cm_path m = cm_path m2 \<Longrightarrow> map_r cm_config (cm_load y L s m) = map_r cm_config (cm_load y L s m2)"
  by (auto simp: cm_load_def map_r_def bind_r_def split: option.split sum.split)

text \<open>Only the files change, and the configuration that comes back is the one of the file, now and at every later start.\<close>

lemma ensure_config_facts:
  assumes "ensure_config y L s = (s1, Inr c)"
  shows "s1 = s\<lparr>os_files := os_files s1\<rparr>" "cm_new y L s1 (Some (get_config_path s1)) b = Inr \<lparr>cm_path = get_config_path s1, cm_config = c\<rparr>"
    "ensure_config y L s1 = (s1, Inr c)"
proof -
  let ?p = "get_config_path s" and ?m0 = "\<lparr>cm_path = get_config_path s, cm_config = default_app_config\<rparr>"
  obtain m where m: "cm_new y L s (Some ?p) False = Inr m"
    using assms by (auto simp: ensure_config_def split: sum.split_asm)
  have path: "cm_path m = ?p"
    using m cm_load_path [of y L s ?m0 m] by (auto simp: cm_new_def Let_def split: if_split_asm)
  obtain m1 where m1: "s1 = s\<lparr>os_files := os_files s1\<rparr>" "read_text s1 ?p \<noteq> None" "cm_path m1 = ?p" "loaded_config y L s1 m1 = Inr c"
  proof (cases "read_text s ?p = None")
    case False
    then show ?thesis using that [of m] assms m path by (auto simp: ensure_config_def)
  next
    case True
    obtain m' where w: "cm_save y L s m (first_config s) = (m', s1, Inr ())" "loaded_config y L s1 m' = Inr c"
      using assms m True by (auto simp: ensure_config_def split: prod.split_asm sum.split_asm)
    then have "write_text s ?p (ya_dump y (redact False (dump_app_config L (first_config s)))) = Some s1" "cm_path m' = ?p"
      using path by (auto simp: cm_save_def Let_def split: option.split_asm)
    from write_text_read [OF this(1)] this(2) w(2) that [of m'] show ?thesis by simp
  qed
  then have s1: "s1 = s\<lparr>os_files := os_files s1\<rparr>" and p1: "get_config_path s1 = ?p"
    using config_path_files(1) by metis+
  have l: "map_r cm_config (cm_load y L s1 ?m0) = Inr c"
    using m1 cm_load_config [of m1 ?m0] by (simp add: loaded_config_def split: if_split_asm)
  then obtain m2 where m2: "cm_load y L s1 ?m0 = Inr m2" "cm_config m2 = c" by (auto simp: egg_simps)
  then have "m2 = \<lparr>cm_path = ?p, cm_config = c\<rparr>" using cm_load_path by (cases m2) fastforce
  then have n: "cm_new y L s1 (Some (get_config_path s1)) b = Inr \<lparr>cm_path = get_config_path s1, cm_config = c\<rparr>" for b
    using m1(2) m2 p1 by (simp add: cm_new_def)
  have "loaded_config y L s1 \<lparr>cm_path = get_config_path s1, cm_config = c\<rparr> = Inr c"
    using m1(2) l cm_load_config [of "\<lparr>cm_path = ?p, cm_config = c\<rparr>" ?m0] p1 by (simp add: loaded_config_def)
  then have e: "ensure_config y L s1 = (s1, Inr c)" using n m1(2) p1 by (simp add: ensure_config_def)
  show "s1 = s\<lparr>os_files := os_files s1\<rparr>" "cm_new y L s1 (Some (get_config_path s1)) b = Inr \<lparr>cm_path = get_config_path s1, cm_config = c\<rparr>"
    "ensure_config y L s1 = (s1, Inr c)" by (fact s1, fact n, fact e)
qed

lemma cm_load_reads: "read_text s' (cm_path m) = read_text s (cm_path m) \<Longrightarrow> cm_load y L s' m = cm_load y L s m"
  by (simp add: cm_load_def)

lemma cm_new_reads: "read_text s' p = read_text s p \<Longrightarrow> cm_new y L s' (Some p) b = cm_new y L s (Some p) b"
  using cm_load_reads [of s' "\<lparr>cm_path = p, cm_config = default_app_config\<rparr>" s y L] by (simp add: cm_new_def Let_def)

lemma ensure_config_reads:
  assumes "ensure_config y L s = (s, Inr c)" "s' = s\<lparr>os_files := f\<rparr>" "read_text s' (get_config_path s) = read_text s (get_config_path s)"
    and "cm_new y L s (Some (get_config_path s)) True = Inr m"
  shows "ensure_config y L s' = (s', Inr c)"
proof -
  have e: "read_text s (get_config_path s) \<noteq> None" using assms(4) by (auto simp: cm_new_def Let_def split: if_split_asm)
  have p: "get_config_path s' = get_config_path s" using assms(2) by simp
  obtain m' where m': "cm_new y L s (Some (get_config_path s)) False = Inr m'" "loaded_config y L s m' = Inr c"
    using assms(1) e by (auto simp: ensure_config_def split: sum.split_asm if_split_asm)
  have path: "cm_path m' = get_config_path s"
    using m'(1) cm_load_path by (fastforce simp: cm_new_def Let_def split: if_split_asm)
  then have "loaded_config y L s' m' = Inr c" using m'(2) assms(3) cm_load_reads [of s' m' s y L] e by (simp add: loaded_config_def split: if_split_asm)
  then show ?thesis using m'(1) cm_new_reads [OF assms(3)] e p assms(3) by (simp add: ensure_config_def)
qed

lemma write_elsewhere: "write_text s p t = Some s' \<Longrightarrow> q \<noteq> p \<Longrightarrow> read_text s' q = read_text s q"
  by (auto simp: write_text_def split: if_split_asm)

lemma key_writes_elsewhere:
  "resolve_bootstrap_admin_key s v fresh = (s', r) \<Longrightarrow> q \<noteq> get_bootstrap_key_path s \<Longrightarrow> read_text s' q = read_text s q"
  by (auto simp: resolve_bootstrap_admin_key_def write_sidecar_key_def Let_def dest: write_elsewhere
      split: if_split_asm option.split_asm)

lemma ensure_admin_facts:
  assumes "ensure_admin pf s dbs c ch = (s', dbs', Inr (p, key))" "good_token (ch_key ch)"
  shows "s' = s\<lparr>os_files := os_files s'\<rparr>" "p = get_state_db_path s (st_sqlite_path (ac_storage c))" "os_can_write s p"
    "dbs' = dict_set p (ensure_admin_key (pf_crypto pf) (open_db dbs p) (ch_now_admin ch) key ''admin'') dbs"
    "resolve_bootstrap_admin_key s' (au_bootstrap_admin_key (ac_auth c)) fresh = (s', Inr (key, False))"
    "q \<noteq> get_bootstrap_key_path s \<Longrightarrow> read_text s' q = read_text s q"
proof -
  obtain g where r: "resolve_bootstrap_admin_key s (au_bootstrap_admin_key (ac_auth c)) (ch_key ch) = (s', Inr (key, g))"
    and rest: "p = get_state_db_path s (st_sqlite_path (ac_storage c))" "os_can_write s p"
      "dbs' = dict_set p (ensure_admin_key (pf_crypto pf) (open_db dbs p) (ch_now_admin ch) key ''admin'') dbs"
    using assms(1) by (auto simp: ensure_admin_def get_bootstrap_admin_key_def Let_def egg_simps
        split: if_split_asm prod.split_asm sum.split_asm)
  show "s' = s\<lparr>os_files := os_files s'\<rparr>" by (rule resolve_keeps_env [OF r])
  show "p = get_state_db_path s (st_sqlite_path (ac_storage c))" "os_can_write s p"
    "dbs' = dict_set p (ensure_admin_key (pf_crypto pf) (open_db dbs p) (ch_now_admin ch) key ''admin'') dbs" by (fact rest)+
  show "resolve_bootstrap_admin_key s' (au_bootstrap_admin_key (ac_auth c)) fresh = (s', Inr (key, False))"
    using bootstrap_key_facts [OF r assms(2)] by blast
  show "q \<noteq> get_bootstrap_key_path s \<Longrightarrow> read_text s' q = read_text s q" by (rule key_writes_elsewhere [OF r])
qed

text \<open>What a preparation leaves for the next one and for the server: the configuration, the key and the store it found or made.\<close>

definition settled_start :: "platform \<Rightarrow> os \<Rightarrow> app_config \<Rightarrow> string \<Rightarrow> path \<Rightarrow> bool" where
  "settled_start pf s c key p \<longleftrightarrow>
     ensure_config (pf_yaml pf) (pf_leaves pf) s = (s, Inr c) \<and>
     (\<forall>b. cm_new (pf_yaml pf) (pf_leaves pf) s (Some (get_config_path s)) b = Inr \<lparr>cm_path = get_config_path s, cm_config = c\<rparr>) \<and>
     p = get_state_db_path s (st_sqlite_path (ac_storage c)) \<and> os_can_write s p \<and>
     (\<forall>fresh. resolve_bootstrap_admin_key s (au_bootstrap_admin_key (ac_auth c)) fresh = (s, Inr (key, False)))"

lemma bootstrap_path_files [simp]: "get_bootstrap_key_path (s\<lparr>os_files := f\<rparr>) = get_bootstrap_key_path s"
  by (simp add: locations_files)

lemma prepare_facts:
  assumes "prepare_state_and_mint_otp pf s dbs ch = (s', dbs', Inr (key, otp))" "good_token (ch_key ch)"
    and "get_bootstrap_key_path s \<noteq> get_config_path s"
  shows "\<exists>c p d. settled_start pf s' c key p \<and>
    create_setup_otp (pf_crypto pf) (ensure_admin_key (pf_crypto pf) (open_db dbs p) (ch_now_admin ch) key ''admin'')
      (ch_now_otp ch) (ch_token ch) ''admin'' otp_ttl = Inr (d, otp) \<and>
    dbs' = dict_set p d (dict_set p (ensure_admin_key (pf_crypto pf) (open_db dbs p) (ch_now_admin ch) key ''admin'') dbs)"
proof -
  obtain s1 c where c: "ensure_config (pf_yaml pf) (pf_leaves pf) s = (s1, Inr c)"
    using assms(1) by (auto simp: prepare_state_and_mint_otp_def split: prod.split_asm sum.split_asm)
  obtain s2 dbs2 p k where a: "ensure_admin pf s1 dbs c ch = (s2, dbs2, Inr (p, k))"
    using assms(1) c by (auto simp: prepare_state_and_mint_otp_def split: prod.split_asm sum.split_asm)
  obtain d where d: "create_setup_otp (pf_crypto pf) (open_db dbs2 p) (ch_now_otp ch) (ch_token ch) ''admin'' otp_ttl = Inr (d, otp)"
    "s' = s2" "dbs' = dict_set p d dbs2" "k = key"
    using assms(1) c a by (auto simp: prepare_state_and_mint_otp_def split: sum.split_asm)
  note C = ensure_config_facts [OF c] and A = ensure_admin_facts [OF a assms(2)]
  obtain f f1 where f: "s2 = s1\<lparr>os_files := f\<rparr>" "s1 = s\<lparr>os_files := f1\<rparr>" using A(1) C(1) by blast
  have r: "read_text s2 (get_config_path s1) = read_text s1 (get_config_path s1)"
    by (rule A(6)) (use assms(3) f(2) in simp)
  have "settled_start pf s' c key p"
    unfolding settled_start_def
    using ensure_config_reads [OF C(3) f(1) r C(2)] cm_new_reads [OF r] C(2) A(2,3,5) f(1) d(2,4) by simp
  moreover have "open_db dbs2 p = ensure_admin_key (pf_crypto pf) (open_db dbs p) (ch_now_admin ch) key ''admin''"
    using A(4) d(4) by (simp add: open_db_def)
  ultimately show ?thesis using d A(4) by metis
qed

lemma dict_get_set_twice: "dict_get (dict_set p x (dict_set p y d)) q = (if q = p then Some x else dict_get d q)"
  by simp

lemma settled_prepare:
  assumes "settled_start pf s c key p" "open_db dbs p = d0" "key_conflict d0 ''admin'' (ak_key_hash (key_row (pf_crypto pf) (ch_now_admin ch) ''admin'' key))"
    and "create_setup_otp (pf_crypto pf) d0 (ch_now_otp ch) (ch_token ch) ''admin'' otp_ttl = Inr (d, otp)"
  shows "prepare_state_and_mint_otp pf s dbs ch = (s, dict_set p d (dict_set p d0 dbs), Inr (key, otp))"
proof -
  have "ensure_admin pf s dbs c ch = (s, dict_set p d0 dbs, Inr (p, key))"
  proof -
    have p: "get_state_db_path s (st_sqlite_path (ac_storage c)) = p" "os_can_write s p"
      and k: "get_bootstrap_admin_key s (au_bootstrap_admin_key (ac_auth c)) (ch_key ch) = (s, Inr key)"
      using assms(1) by (auto simp: settled_start_def get_bootstrap_admin_key_def)
    have "ensure_admin_key (pf_crypto pf) d0 (ch_now_admin ch) key ''admin'' = d0"
      using assms(3) by (simp add: ensure_admin_key_def Let_def)
    then show ?thesis unfolding ensure_admin_def p(1) Let_def using p(2) k assms(2) by simp
  qed
  moreover have "open_db (dict_set p d0 dbs) p = d0" by (simp add: open_db_def)
  ultimately show ?thesis using assms(1,4) by (simp add: settled_start_def prepare_state_and_mint_otp_def)
qed

lemma otp_keeps_keys: "create_setup_otp cr d now token key_id ttl = Inr (d', otp) \<Longrightarrow> db_api_keys d' = db_api_keys d \<and> otp = token"
  by (auto simp: create_setup_otp_def Let_def split: if_split_asm)

lemma ensured_conflict:
  "key_conflict (ensure_admin_key cr d now key ''admin'') ''admin'' (ak_key_hash (key_row cr now' ''admin'' key))"
  by (auto simp: ensure_admin_key_def key_conflict_def key_row_def Let_def split: prod.split)

text \<open>C26. Starting again is idempotent: after one preparation, any later one with an unused token succeeds, writes no file, prints the
  same key and leaves the keys of the store as they are.\<close>

theorem start_is_idempotent:
  assumes "prepare_state_and_mint_otp pf s dbs ch = (s', dbs', Inr (key, otp))" "good_token (ch_key ch)"
    and "get_bootstrap_key_path s \<noteq> get_config_path s"
    and "\<forall>p. \<forall>r \<in> set (db_setup_otps (open_db dbs' p)). ot_token_hash r \<noteq> cr_sha256 (pf_crypto pf) (ch_token ch2)"
  shows "\<exists>dbs2. prepare_state_and_mint_otp pf s' dbs' ch2 = (s', dbs2, Inr (key, ch_token ch2)) \<and>
    (\<forall>p. db_api_keys (open_db dbs2 p) = db_api_keys (open_db dbs' p))"
proof -
  obtain c p d where st: "settled_start pf s' c key p" and
    d: "create_setup_otp (pf_crypto pf) (ensure_admin_key (pf_crypto pf) (open_db dbs p) (ch_now_admin ch) key ''admin'')
      (ch_now_otp ch) (ch_token ch) ''admin'' otp_ttl = Inr (d, otp)" and
    dbs': "dbs' = dict_set p d (dict_set p (ensure_admin_key (pf_crypto pf) (open_db dbs p) (ch_now_admin ch) key ''admin'') dbs)"
    using prepare_facts [OF assms(1-3)] by blast
  have o: "open_db dbs' p = d" by (simp add: dbs' open_db_def)
  have conflict: "key_conflict d ''admin'' (ak_key_hash (key_row (pf_crypto pf) (ch_now_admin ch2) ''admin'' key))"
    using ensured_conflict otp_keeps_keys [OF d] by (simp add: key_conflict_def)
  obtain d2 where d2: "create_setup_otp (pf_crypto pf) d (ch_now_otp ch2) (ch_token ch2) ''admin'' otp_ttl = Inr (d2, ch_token ch2)"
    using assms(4) [rule_format, of _ p] unfolding o create_setup_otp_def by (auto simp: Let_def)
  have "prepare_state_and_mint_otp pf s' dbs' ch2 = (s', dict_set p d2 (dict_set p d dbs'), Inr (key, ch_token ch2))"
    by (rule settled_prepare [OF st o conflict d2])
  moreover have "db_api_keys (open_db (dict_set p d2 (dict_set p d dbs')) q) = db_api_keys (open_db dbs' q)" for q
    using otp_keeps_keys [OF d2] o by (cases "q = p") (simp_all add: open_db_def)
  ultimately show ?thesis by blast
qed

section \<open>The magic link opens the server that is started next\<close>

lemma settled_container:
  assumes "settled_start pf s c key p"
  shows "\<exists>ct. container_new pf s dbs now fresh = Inr ct \<and> current_config ct = c \<and>
    current_db ct = ensure_admin_key (pf_crypto pf) (open_db dbs p) now key ''admin''"
proof -
  have m: "cm_new (pf_yaml pf) (pf_leaves pf) s None False = Inr \<lparr>cm_path = get_config_path s, cm_config = c\<rparr>"
    using assms(1) by (simp add: settled_start_def cm_new_def)
  then show ?thesis
    using assms unfolding settled_start_def by (elim conjE) (simp add: container_new_def build_state_def current_config_def current_db_def
        new_key_manager_def Let_def)
qed

lemma minted_otp_opens:
  assumes "create_setup_otp cr d now token key_id ttl = Inr (d', otp)" "otp \<noteq> []" "in_calendar (now + nat (max 30 ttl) * 1000000)"
    and "later < now + nat (max 30 ttl) * 1000000" "db_setup_otps d2 = db_setup_otps d'"
  shows "snd (consume_setup_otp cr d2 later (Some otp)) = Some key_id"
proof -
  let ?r = "\<lparr>ot_token_hash = cr_sha256 cr token, ot_key_id = key_id, ot_created_at = iso now,
      ot_expires_at = iso (now + nat (max 30 ttl) * 1000000), ot_consumed_at = None\<rparr>"
  have d: "db_setup_otps d2 = db_setup_otps d @ [?r]" "otp = token" "\<forall>r \<in> set (db_setup_otps d). ot_token_hash r \<noteq> cr_sha256 cr token"
    using assms(1,5) by (auto simp: create_setup_otp_def Let_def split: if_split_asm)
  have "find (\<lambda>r. ot_token_hash r = cr_sha256 cr token) (db_setup_otps d) = None" using d(3) by (simp add: find_None_iff)
  then have "find (\<lambda>r. ot_token_hash r = cr_sha256 cr token) (db_setup_otps d2) = Some ?r" using find_skips unfolding d(1) by fastforce
  moreover have "iso later < iso (now + nat (max 30 ttl) * 1000000)" by (rule iso_strict_mono [OF assms(4,3)])
  ultimately show ?thesis using d(2) assms(2) by (simp add: consume_setup_otp_def Let_def)
qed

lemma ensured_key_matches:
  "db_api_keys d = [] \<Longrightarrow> \<exists>r \<in> set (db_api_keys (ensure_admin_key cr d now key ''admin'')). ak_key_id r = ''admin'' \<and>
     ak_status r = ''active'' \<and> matches_secret cr key r"
  using new_secret_matches [of "key_row cr now ''admin'' key" cr key]
  by (auto simp: ensure_admin_key_def key_conflict_def key_row_def Let_def split: prod.split)

text \<open>C15. The server starts with what the command left, and there, within five minutes, the link that the command prints signs its
  reader in as the administrator; and on a new store the key that is printed is the secret of an active row.\<close>

theorem magic_link_opens:
  assumes "prepare_state_and_mint_otp pf s dbs ch = (s', dbs', Inr (key, otp))" "good_token (ch_key ch)"
    and "get_bootstrap_key_path s \<noteq> get_config_path s"
    and "otp \<noteq> []" "in_calendar (ch_now_otp ch + 300000000)" "later < ch_now_otp ch + 300000000"
  shows "\<exists>ct. container_new pf s' dbs' now fresh = Inr ct \<and>
    snd (consume_setup_otp (pf_crypto pf) (current_db ct) later (Some otp)) = Some ''admin'' \<and>
    ((\<forall>p. db_api_keys (open_db dbs p) = []) \<longrightarrow>
      (\<exists>r \<in> set (db_api_keys (current_db ct)). ak_key_id r = ''admin'' \<and> ak_status r = ''active'' \<and> matches_secret (pf_crypto pf) key r))"
proof -
  obtain c p d where st: "settled_start pf s' c key p" and
    d: "create_setup_otp (pf_crypto pf) (ensure_admin_key (pf_crypto pf) (open_db dbs p) (ch_now_admin ch) key ''admin'')
      (ch_now_otp ch) (ch_token ch) ''admin'' otp_ttl = Inr (d, otp)" and
    dbs': "dbs' = dict_set p d (dict_set p (ensure_admin_key (pf_crypto pf) (open_db dbs p) (ch_now_admin ch) key ''admin'') dbs)"
    using prepare_facts [OF assms(1-3)] by blast
  have keys: "db_api_keys d = db_api_keys (ensure_admin_key (pf_crypto pf) (open_db dbs p) (ch_now_admin ch) key ''admin'')"
    using otp_keeps_keys [OF d] by blast
  have "key_conflict d ''admin'' (ak_key_hash (key_row (pf_crypto pf) now ''admin'' key))"
    using ensured_conflict keys by (simp add: key_conflict_def)
  then have "ensure_admin_key (pf_crypto pf) d now key ''admin'' = d" by (simp add: ensure_admin_key_def Let_def)
  moreover have "open_db dbs' p = d" by (simp add: dbs' open_db_def)
  ultimately obtain ct where started: "container_new pf s' dbs' now fresh = Inr ct" and ct: "current_db ct = d"
    using settled_container [OF st, of dbs' now fresh] by auto
  have "snd (consume_setup_otp (pf_crypto pf) (current_db ct) later (Some otp)) = Some ''admin''"
    by (rule minted_otp_opens [OF d assms(4)]) (use assms(5,6) ct in \<open>simp_all add: otp_ttl_def\<close>)
  moreover have "\<exists>r \<in> set (db_api_keys (current_db ct)). ak_key_id r = ''admin'' \<and> ak_status r = ''active'' \<and>
      matches_secret (pf_crypto pf) key r" if "\<forall>p. db_api_keys (open_db dbs p) = []"
    unfolding ct keys by (rule ensured_key_matches) (use that in blast)
  ultimately show ?thesis using started by blast
qed

section \<open>Waiting for the server\<close>

lemma clock_mono:
  assumes "\<forall>i\<ge>1. now i + 1 / 10 \<le> now (Suc i)" "1 \<le> k" "k \<le> j"
  shows "(now k :: rat) \<le> now j"
  using assms(3)
proof (induction j rule: dec_induct)
  case (step j)
  then have "now j + 1 / 10 \<le> now (Suc j)" using assms(1,2) by simp
  with step show ?case by simp
qed simp

lemma wait_loop_exact:
  assumes "\<forall>i\<ge>1. now i + 1 / 10 \<le> now (Suc i)" "1 \<le> k" "deadline \<le> now k + of_nat m / 10"
  shows "wait_loop now accepts deadline k (Suc m) = Some (\<exists>j\<ge>k. accepts j \<and> now j < deadline)"
  using assms(2,3)
proof (induction m arbitrary: k)
  case 0
  have "\<not> now j < deadline" if "k \<le> j" for j using clock_mono [OF assms(1) 0(1) that] 0(2) by simp
  then show ?case using 0(2) by (auto simp: not_less)
next
  case (Suc m)
  show ?case
  proof (cases "now k < deadline \<and> \<not> accepts k")
    case True
    have "deadline \<le> now (Suc k) + of_nat m / 10"
      using assms(1) [rule_format, OF Suc.prems(1)] Suc.prems(2) by (simp add: field_simps)
    then have "wait_loop now accepts deadline (Suc k) (Suc m) = Some (\<exists>j\<ge>Suc k. accepts j \<and> now j < deadline)"
      using Suc.IH Suc.prems(1) by simp
    moreover have "(\<exists>j\<ge>Suc k. accepts j \<and> now j < deadline) \<longleftrightarrow> (\<exists>j\<ge>k. accepts j \<and> now j < deadline)"
      using True by (metis Suc_leD le_antisym not_less_eq_eq)
    ultimately show ?thesis using True by simp
  next
    case False
    have "\<not> now j < deadline" if "\<not> now k < deadline" "k \<le> j" for j
      using clock_mono [OF assms(1) Suc.prems(1) that(2)] that(1) by simp
    then show ?thesis using False by auto
  qed
qed

text \<open>The launcher never waits for ever: with a clock that goes on and the pause of a tenth of a second between attempts, 51
  attempts decide, and the answer is whether some attempt within the five seconds found the server.\<close>

lemma wait_for_port_returns:
  assumes "now 0 \<le> now 1" "\<forall>i\<ge>1. now i + 1 / 10 \<le> now (Suc i)"
  shows "wait_for_port now accepts 5 51 = Some (\<exists>j\<ge>1. accepts j \<and> now j < now 0 + 5)"
proof -
  have "wait_loop now accepts (now 0 + 5) 1 (Suc 50) = Some (\<exists>j\<ge>1. accepts j \<and> now j < now 0 + 5)"
    by (rule wait_loop_exact [OF assms(2)]) (use assms(1) in simp_all)
  then show ?thesis by (simp add: wait_for_port_def)
qed

text \<open>The first free port of the window, or else the one the system gives.\<close>

lemma find_free_port_first:
  "(\<exists>i<n. find_free_port can_bind spare start n = start + int i \<and> can_bind (start + int i) \<and> (\<forall>j<i. \<not> can_bind (start + int j))) \<or>
   (find_free_port can_bind spare start n = spare \<and> (\<forall>i<n. \<not> can_bind (start + int i)))"
proof (induction n arbitrary: start)
  case (Suc n)
  show ?case
  proof (cases "can_bind start")
    case True
    then show ?thesis by (intro disjI1 exI [of _ 0]) simp
  next
    case False
    have shift: "start + 1 + int i = start + int (Suc i)" for i by simp
    from Suc [of "start + 1"] show ?thesis
    proof (elim disjE exE conjE)
      fix i assume i: "i < n" "find_free_port can_bind spare (start + 1) n = start + 1 + int i" "can_bind (start + 1 + int i)"
        "\<forall>j<i. \<not> can_bind (start + 1 + int j)"
      then have "\<forall>j<Suc i. \<not> can_bind (start + int j)" using False unfolding shift by (simp add: All_less_Suc2)
      with i False show ?thesis unfolding shift by (intro disjI1 exI [of _ "Suc i"]) simp
    next
      assume "find_free_port can_bind spare (start + 1) n = spare" "\<forall>i<n. \<not> can_bind (start + 1 + int i)"
      then show ?thesis using False unfolding shift by (simp add: All_less_Suc2)
    qed
  qed
qed simp

section \<open>What the commands do differently from their words\<close>

text \<open>A configuration file that does not load stops every command but the check, \<open>init --force\<close> included, though the check
  recommends \<open>init\<close>.\<close>

lemma init_cannot_repair:
  assumes "cm_new (pf_yaml pf) (pf_leaves pf) s (Some (get_config_path s)) False = Inl e"
  shows "cmd_init pf force ch s dbs = (s, dbs, [], Crash e)" "cmd_start pf host port nb ch s dbs = (s, dbs, [], Crash e)"
  using assms by (simp_all add: cmd_init_def cmd_start_def prepare_state_and_mint_otp_def ensure_config_def Let_def)

text \<open>The row of the administrator is made once; the key that a later start prints need not be its secret.\<close>

lemma printed_key_may_be_dead:
  assumes "ensure_admin pf s dbs c ch = (s', dbs', Inr (p, key))" "r \<in> set (db_api_keys (open_db dbs p))" "ak_key_id r = ''admin''"
  shows "db_api_keys (open_db dbs' q) = db_api_keys (open_db dbs q)"
proof -
  have "dbs' = dict_set p (ensure_admin_key (pf_crypto pf) (open_db dbs p) (ch_now_admin ch) key ''admin'') dbs"
    using assms(1) by (auto simp: ensure_admin_def Let_def split: if_split_asm prod.split_asm sum.split_asm)
  moreover have "ensure_admin_key (pf_crypto pf) (open_db dbs p) (ch_now_admin ch) key ''admin'' = open_db dbs p"
    using assms(2,3) by (auto simp: ensure_admin_key_def key_conflict_def Let_def)
  ultimately show ?thesis by (simp add: open_db_def)
qed

text \<open>AppleScript has no single quotes; the script puts its texts into them, and the exit code of the script is not looked at.\<close>

lemma dialog_script_in_single_quotes:
  assumes "c \<in> set message" "\<not> shell_safe c"
  shows "\<exists>rest. dialog_script title message = ''display dialog '' @ [CHR 0x27] @ rest"
proof -
  have "message \<noteq> []" "\<not> (\<forall>c \<in> set message. shell_safe c)" using assms by auto
  then obtain r where "shlex_quote message = [CHR 0x27] @ r" unfolding shlex_quote_def by auto
  then show ?thesis unfolding dialog_script_def by (simp only: append_assoc) blast
qed

text \<open>The source of the key is named without looking: a key of the side file is said to be the configuration's.\<close>

lemma paths_name_config:
  "dict_get (os_env s) ''EGG_BOOTSTRAP_ADMIN_KEY'' = None \<Longrightarrow>
     jget (paths_doc s c) ''bootstrap_admin_key_source'' = JStr ''config.auth.bootstrap_admin_key''"
  by (simp add: paths_doc_def jget_def)

text \<open>The link is not to be kept, but the launcher prints it, and what is printed goes to the log file.\<close>

lemma link_is_logged:
  assumes "ensure_desktop_home s = (s1, Inr home)" "\<not> console_wanted s1" "os_can_write s1 (path_join home (path_of ''logs/launcher.log''))"
    and "ensure_desktop_home s1 = (s1, Inr home)" "prepare_state_and_mint_otp pf s1 dbs ch = (s2, dbs2, Inr (key, otp))"
  shows "\<exists>port out. desktop_main dk pf ch s dbs = (s2, dbs2, LogTo (path_join home (path_of ''logs/launcher.log'')) # out, ExitCode 0) \<and>
    Printed (''  '' @ magic_url ''127.0.0.1'' port otp) \<in> set out"
proof -
  let ?port = "find_free_port (dk_can_bind dk) (dk_kernel_port dk) port_range_start port_range_size"
  obtain out where l: "launch dk pf ''127.0.0.1'' None ch s1 dbs =
      (s2, dbs2, desktop_lines home (magic_url ''127.0.0.1'' ?port otp) @ out, ExitCode 0)"
    using assms(4,5) by (simp add: launch_def Let_def)
  let ?out = "desktop_lines home (magic_url ''127.0.0.1'' ?port otp) @ out"
  have "desktop_main dk pf ch s dbs = (s2, dbs2, LogTo (path_join home (path_of ''logs/launcher.log'')) # ?out, ExitCode 0)"
    using l assms(1-3) by (simp add: desktop_main_def setup_file_logging_def Let_def)
  moreover have "Printed (''  '' @ magic_url ''127.0.0.1'' ?port otp) \<in> set ?out" by (simp add: desktop_lines_def)
  ultimately show ?thesis by blast
qed

section \<open>A concrete start\<close>

definition demo_chance :: "string \<Rightarrow> chance" where
  "demo_chance t = \<lparr>ch_key = ''k3y'', ch_token = t, ch_now_admin = 0, ch_now_otp = 0\<rparr>"

definition demo_start_platform :: platform where
  "demo_start_platform = demo_platform\<lparr>pf_yaml := demo_yaml (first_config demo_os)\<rparr>"

lemma demo_first_config: "config_ok (first_config demo_os)" "known_language (first_config demo_os)"
  "erase_secrets (first_config demo_os) = first_config demo_os"
  "validate_backend_auth (erase_auth (be_auth (ac_backend (first_config demo_os)))) = Inr default_backend_auth"
proof -
  show "config_ok (first_config demo_os)" using default_config_ok by (simp add: config_ok_def first_config_def)
  show "known_language (first_config demo_os)"
    by (simp add: known_language_def first_config_def) (simp add: default_app_config_def)
  have e: "erase_auth (be_auth (ac_backend default_app_config)) = default_backend_auth"
    by (simp add: erase_auth_def default_app_config_def default_backend_config_def default_backend_auth_def)
  then show "validate_backend_auth (erase_auth (be_auth (ac_backend (first_config demo_os)))) = Inr default_backend_auth"
    by (simp add: first_config_def validate_backend_auth_def default_backend_auth_def)
  show "erase_secrets (first_config demo_os) = first_config demo_os"
    using e by (simp add: erase_secrets_def first_config_def) (simp add: default_app_config_def default_auth_config_def
        default_backend_config_def default_backend_auth_def)
qed

lemma demo_ensure_config:
  "ensure_config (demo_yaml (first_config demo_os)) demo_leaves demo_os =
     (demo_os\<lparr>os_files := [(get_config_path demo_os, ''saved'')]\<rparr>, Inr (first_config demo_os))"
proof -
  let ?y = "demo_yaml (first_config demo_os)" and ?p = "get_config_path demo_os" and ?c = "first_config demo_os"
  let ?m = "\<lparr>cm_path = ?p, cm_config = default_app_config\<rparr>"
  have no: "read_text demo_os q = None" for q by (simp add: demo_os_def)
  have m: "cm_new ?y demo_leaves demo_os (Some ?p) False = Inr ?m" by (simp add: cm_new_def no)
  let ?s = "demo_os\<lparr>os_files := [(?p, ''saved'')]\<rparr>"
  have sv: "cm_save ?y demo_leaves demo_os ?m ?c = (?m\<lparr>cm_config := ?c\<rparr>, ?s, Inr ())"
    by (simp add: cm_save_def write_text_def demo_os_def demo_yaml_def Let_def)
  have y: "ya_load ?y (ya_dump ?y (redact False (dump_app_config demo_leaves ?c))) = Inr (redact False (dump_app_config demo_leaves ?c))"
    by (simp add: demo_yaml_def)
  have "cm_new ?y demo_leaves ?s (Some (cm_path ?m)) True = Inr \<lparr>cm_path = ?p, cm_config = ?c\<rparr>"
    using saved_config_facts [OF demo_leaves_lawful demo_first_config(1,2) y sv] demo_first_config(3,4) by simp
  then have "cm_load ?y demo_leaves ?s ?m = Inr \<lparr>cm_path = ?p, cm_config = ?c\<rparr>" by (simp add: cm_new_def Let_def)
  then have "map_r cm_config (cm_load ?y demo_leaves ?s (?m\<lparr>cm_config := ?c\<rparr>)) = Inr ?c"
    using cm_load_config [of "?m\<lparr>cm_config := ?c\<rparr>" ?m ?y demo_leaves ?s] by simp
  then have "loaded_config ?y demo_leaves ?s (?m\<lparr>cm_config := ?c\<rparr>) = Inr ?c" by (simp add: loaded_config_def)
  then show ?thesis using m sv no by (simp add: ensure_config_def)
qed

lemma demo_prepare:
  "\<exists>s' d. prepare_state_and_mint_otp demo_start_platform demo_os [] (demo_chance ''otp'') =
     (s', dict_set (get_state_db_path demo_os (st_sqlite_path (ac_storage (first_config demo_os)))) d
       [(get_state_db_path demo_os (st_sqlite_path (ac_storage (first_config demo_os))),
         ensure_admin_key demo_crypto empty_db 0 ''k3y'' ''admin'')], Inr (''k3y'', ''otp'')) \<and>
     map ot_token_hash (db_setup_otps d) = [''hotp'']"
proof -
  note c = demo_ensure_config
  let ?s = "demo_os\<lparr>os_files := [(get_config_path demo_os, ''saved'')]\<rparr>"
  let ?p = "get_state_db_path demo_os (st_sqlite_path (ac_storage (first_config demo_os)))"
  have other: "get_bootstrap_key_path demo_os \<noteq> get_config_path demo_os" by code_simp
  have b: "au_bootstrap_admin_key (ac_auth (first_config demo_os)) = []"
    by (simp add: first_config_def) (simp add: default_app_config_def default_auth_config_def)
  have np: "\<not> is_production demo_os"
    by (simp add: demo_os_def is_production_def get_env_def getenv_def lower_char_def py_strip_def strip_by_def rstrip_by_def is_space_def)
  have defaults: "getenv demo_os v dflt = dflt" "os_can_write demo_os q" "py_strip [] = []" for v dflt q
    by (simp_all add: demo_os_def getenv_def py_strip_def strip_by_def rstrip_by_def)
  have "get_bootstrap_key_path ?s = get_bootstrap_key_path demo_os" by simp
  then have sidecar: "read_sidecar_key ?s (get_bootstrap_key_path ?s) = None"
    using other by (simp add: read_sidecar_key_def)
  have "write_sidecar_key ?s (get_bootstrap_key_path ?s) ''k3y'' \<noteq> None"
    by (simp add: write_sidecar_key_def write_text_def demo_os_def)
  moreover have "getenv ?s ''EGG_BOOTSTRAP_ADMIN_KEY'' [] = []" "\<not> is_production ?s"
    using np defaults(1) [of _ "[]"] by (simp_all only: locations_files not_False_eq_True)
  ultimately have "\<exists>s'. get_bootstrap_admin_key ?s [] ''k3y'' = (s', Inr ''k3y'')"
    using sidecar by (auto simp: get_bootstrap_admin_key_def resolve_bootstrap_admin_key_def defaults Let_def)
  then obtain s' where k: "get_bootstrap_admin_key ?s [] ''k3y'' = (s', Inr ''k3y'')" by blast
  have w: "os_can_write ?s q" for q by (simp add: demo_os_def)
  have a: "ensure_admin demo_start_platform ?s [] (first_config demo_os) (demo_chance ''otp'') =
      (s', [(?p, ensure_admin_key demo_crypto empty_db 0 ''k3y'' ''admin'')], Inr (?p, ''k3y''))"
    using k w b by (simp add: ensure_admin_def demo_chance_def demo_start_platform_def demo_platform_def open_db_def Let_def)
  have "db_setup_otps (ensure_admin_key demo_crypto empty_db 0 ''k3y'' ''admin'') = []"
    by (simp add: ensure_admin_key_def empty_db_def Let_def)
  then show ?thesis
    using c a by (simp add: prepare_state_and_mint_otp_def demo_start_platform_def demo_platform_def open_db_def
        create_setup_otp_def demo_chance_def demo_crypto_def Let_def)
qed

lemma demo_prepare_otps:
  "\<exists>s' dbs'. prepare_state_and_mint_otp demo_start_platform demo_os [] (demo_chance ''otp'') = (s', dbs', Inr (''k3y'', ''otp'')) \<and>
     (\<forall>q. set (map ot_token_hash (db_setup_otps (open_db dbs' q))) \<subseteq> {''hotp''})"
proof -
  let ?p = "get_state_db_path demo_os (st_sqlite_path (ac_storage (first_config demo_os)))"
    and ?d0 = "ensure_admin_key demo_crypto empty_db 0 ''k3y'' ''admin''"
  obtain s' d where r: "prepare_state_and_mint_otp demo_start_platform demo_os [] (demo_chance ''otp'') =
      (s', dict_set ?p d [(?p, ?d0)], Inr (''k3y'', ''otp''))" "map ot_token_hash (db_setup_otps d) = [''hotp'']"
    using demo_prepare by (elim exE conjE)
  have hashes: "set (map ot_token_hash (db_setup_otps d)) \<subseteq> {''hotp''}" by (simp only: r(2)) simp
  have "open_db (dict_set ?p d [(?p, ?d0)]) q = (if q = ?p then d else empty_db)" for q by (simp add: open_db_def)
  then have "set (map ot_token_hash (db_setup_otps (open_db (dict_set ?p d [(?p, ?d0)]) q))) \<subseteq> {''hotp''}" for q
    using hashes by (simp add: empty_db_def)
  with r(1) show ?thesis by blast
qed

lemma demo_start_facts: "good_token (ch_key (demo_chance t))" "get_bootstrap_key_path demo_os \<noteq> get_config_path demo_os"
proof -
  show "good_token (ch_key (demo_chance t))" unfolding demo_chance_def good_token_def by code_simp
  show "get_bootstrap_key_path demo_os \<noteq> get_config_path demo_os" by code_simp
qed

theorem start_is_idempotent_witness:
  "\<exists>s' dbs' dbs2. prepare_state_and_mint_otp demo_start_platform demo_os [] (demo_chance ''otp'') = (s', dbs', Inr (''k3y'', ''otp'')) \<and>
     prepare_state_and_mint_otp demo_start_platform s' dbs' (demo_chance ''other'') = (s', dbs2, Inr (''k3y'', ''other''))"
proof -
  obtain s' dbs' where p: "prepare_state_and_mint_otp demo_start_platform demo_os [] (demo_chance ''otp'') = (s', dbs', Inr (''k3y'', ''otp''))"
    and h: "\<forall>q. set (map ot_token_hash (db_setup_otps (open_db dbs' q))) \<subseteq> {''hotp''}"
    using demo_prepare_otps by blast
  have "\<forall>q. \<forall>r \<in> set (db_setup_otps (open_db dbs' q)).
      ot_token_hash r \<noteq> cr_sha256 (pf_crypto demo_start_platform) (ch_token (demo_chance ''other''))"
    using h by (force simp: demo_start_platform_def demo_platform_def demo_crypto_def demo_chance_def)
  from start_is_idempotent [OF p demo_start_facts this] p show ?thesis by (auto simp: demo_chance_def)
qed

theorem magic_link_opens_witness:
  "\<exists>s' dbs' ct. prepare_state_and_mint_otp demo_start_platform demo_os [] (demo_chance ''otp'') = (s', dbs', Inr (''k3y'', ''otp'')) \<and>
     container_new demo_start_platform s' dbs' 60000000 ''k2'' = Inr ct \<and>
     snd (consume_setup_otp demo_crypto (current_db ct) 60000000 (Some ''otp'')) = Some ''admin''"
proof -
  obtain s' dbs' where p: "prepare_state_and_mint_otp demo_start_platform demo_os [] (demo_chance ''otp'') = (s', dbs', Inr (''k3y'', ''otp''))"
    using demo_prepare by blast
  have t: "in_calendar (ch_now_otp (demo_chance ''otp'') + 300000000)" "60000000 < ch_now_otp (demo_chance ''otp'') + 300000000"
    by (simp_all add: demo_chance_def first_day us_per_day_def)
  have "pf_crypto demo_start_platform = demo_crypto" by (simp add: demo_start_platform_def demo_platform_def)
  with magic_link_opens [OF p demo_start_facts _ t, of 60000000 "''k2''"] p show ?thesis by auto
qed

theorem wait_for_port_returns_witness:
  "wait_for_port (\<lambda>k. of_nat k / 10) (\<lambda>k. k = 3) 5 51 = Some True"
proof -
  have "wait_for_port (\<lambda>k. of_nat k / 10) (\<lambda>k. k = 3) 5 51 =
      Some (\<exists>j\<ge>1. j = (3::nat) \<and> (of_nat j / 10 :: rat) < of_nat 0 / 10 + 5)"
    by (rule wait_for_port_returns) (simp_all add: field_simps)
  then show ?thesis by simp
qed

end
