(* ===== verification/Lifespan.thy ===== *)
theory Lifespan
  imports Scheduler_Thread Http_App
begin

text \<open>
  The lifetime of the application in \<^verbatim>\<open>app/main.py\<close> (\<open>_lifespan\<close>): what runs beside the requests between start and shutdown.
  \<open>parse\<close> is \<open>float()\<close> on a text; an infinite or undefined tick is left out.
\<close>

record ('h, 'b) lifetime =
  lt_purging :: bool
  lt_tick_seconds :: rat
  lt_scheduler :: "('h, 'b) sched option"

definition lifespan_enter :: "(string \<Rightarrow> rat option) \<Rightarrow> os \<Rightarrow> ('h, 'b) world \<Rightarrow> string + ('h, 'b) lifetime" where
  "lifespan_enter parse s w =
     (if \<not> scheduler_enabled s then Inr \<lparr>lt_purging = True, lt_tick_seconds = 0, lt_scheduler = None\<rparr>
      else (case parse (scheduler_tick_text s) of
          None \<Rightarrow> Inl ''ValueError: could not convert string to float''
        | Some t \<Rightarrow> Inr \<lparr>lt_purging = True, lt_tick_seconds = max 1 t, lt_scheduler = Some (start_scheduler (idle w))\<rparr>))"

text \<open>The first half of the shutdown; the second is \<open>stop_return\<close>.\<close>

definition lifespan_exit :: "('h, 'b) lifetime \<Rightarrow> ('h, 'b) lifetime" where
  "lifespan_exit lt = lt\<lparr>lt_purging := False, lt_scheduler := map_option stop_signal (lt_scheduler lt)\<rparr>"

text \<open>Between them only the loop and the shutdown move the scheduler: nothing starts it again.\<close>

inductive lifetime_step ::
  "'h import_env \<Rightarrow> 'b sink \<Rightarrow> (nat \<Rightarrow> nat) \<Rightarrow> ('h, 'b) lifetime \<Rightarrow> ('h, 'b) lifetime \<Rightarrow> bool"
  for env bulk clock
where
  life_loops: "lt_scheduler lt = Some s \<Longrightarrow> loop_step env bulk clock i s s' \<Longrightarrow>
    lifetime_step env bulk clock lt (lt\<lparr>lt_scheduler := Some s'\<rparr>)"
| life_ends: "lt_purging lt \<Longrightarrow> lifetime_step env bulk clock lt (lifespan_exit lt)"
| life_returns: "\<not> lt_purging lt \<Longrightarrow> lt_scheduler lt = Some s \<Longrightarrow>
    lifetime_step env bulk clock lt (lt\<lparr>lt_scheduler := Some (stop_return s)\<rparr>)"

definition lifetime_inv ::
  "'h import_env \<Rightarrow> 'b sink \<Rightarrow> (nat \<Rightarrow> nat) \<Rightarrow> ('h, 'b) world \<Rightarrow> ('h, 'b) lifetime \<Rightarrow> bool"
where
  "lifetime_inv env bulk clock w lt \<longleftrightarrow>
     (case lt_scheduler lt of None \<Rightarrow> True
      | Some s \<Rightarrow> length (sd_pcs s) = 1 \<and> sequential env bulk clock w s \<and> (\<not> lt_purging lt \<longrightarrow> sd_stop_event s))"

lemma loop_step_length: "loop_step env bulk clock i s s' \<Longrightarrow> length (sd_pcs s') = length (sd_pcs s)"
  by (induction rule: loop_step.induct) (auto simp: set_pc_def)

lemma single_alive: "length (sd_pcs s) = 1 \<Longrightarrow> \<forall>i j. alive s i \<longrightarrow> alive s j \<longrightarrow> i = j"
  by (simp add: alive_def)

lemma lifetime_inv_step:
  assumes "lifetime_step env bulk clock lt lt'" "lifetime_inv env bulk clock w lt"
  shows "lifetime_inv env bulk clock w lt'"
  using assms
proof (induction rule: lifetime_step.induct)
  case (life_loops lt s i s')
  then have s: "length (sd_pcs s) = 1" "sequential env bulk clock w s" "\<not> lt_purging lt \<longrightarrow> sd_stop_event s"
    by (simp_all add: lifetime_inv_def)
  note L = life_loops(2)
  have "length (sd_pcs s') = 1" using loop_step_length [OF L] s(1) by simp
  moreover have "sequential env bulk clock w s'" by (rule loop_step_sequential [OF L single_alive [OF s(1)] s(2)])
  moreover have "\<not> lt_purging lt \<longrightarrow> sd_stop_event s'" using loop_step_frame [OF L] s(3) by simp
  ultimately show ?case by (simp add: lifetime_inv_def)
next
  case (life_ends lt)
  then show ?case
    by (auto simp: lifetime_inv_def lifespan_exit_def stop_signal_def sequential_def alive_def split: option.splits)
next
  case (life_returns lt s)
  then show ?case by (auto simp: lifetime_inv_def stop_return_def sequential_def alive_def)
qed

text \<open>Within one lifetime of the application the scheduler is a sequence of ticks, even when the shutdown does not wait for it:
  there is only the one thread, and once the shutdown has begun it is told to stop.\<close>

lemma lifetime_is_sequential:
  assumes "lifespan_enter parse s w = Inr lt" "(lifetime_step env bulk clock)\<^sup>*\<^sup>* lt lt'"
  shows "lifetime_inv env bulk clock w lt'"
  using assms(2)
proof (induction rule: rtranclp_induct)
  case base
  show ?case
    using assms(1) by (auto simp: lifespan_enter_def lifetime_inv_def start_scheduler_def idle_def thread_alive_def sequential_def
        alive_def split: if_split_asm option.split_asm)
qed (rule lifetime_inv_step)

text \<open>A deployment that turns the scheduler off runs no import by schedule.\<close>

lemma scheduler_off:
  assumes "\<not> scheduler_enabled s" "lifespan_enter parse s w = Inr lt" "(lifetime_step env bulk clock)\<^sup>*\<^sup>* lt lt'"
  shows "lt_scheduler lt' = None"
  using assms(3)
proof (induction rule: rtranclp_induct)
  case base
  show ?case using assms(1,2) by (auto simp: lifespan_enter_def)
next
  case (step lt' lt'')
  from step(2,3) show ?case by (induction rule: lifetime_step.induct) (simp_all add: lifespan_exit_def)
qed

text \<open>A tick that is not a number stops the start, with the purge task already running.\<close>

lemma bad_tick_stops_start:
  "scheduler_enabled s \<Longrightarrow> parse (scheduler_tick_text s) = None \<Longrightarrow> \<exists>e. lifespan_enter parse s w = Inl e"
  by (simp add: lifespan_enter_def)

end
