(* ===== verification/Telemetry.thy ===== *)
theory Telemetry
  imports Runtime_Paths
begin

text \<open>
  \<^verbatim>\<open>app/tracing.py\<close> and \<^verbatim>\<open>app/logging/__init__.py\<close>: the two switches that a process sets once. What the libraries install is kept as
  a list of what they were told; whether the optional package can be imported, and the span that is current, are arguments.
\<close>

section \<open>Tracing\<close>

record tracing_state =
  ts_instrumented :: bool
  ts_enabled :: bool

definition reset_for_tests :: tracing_state where
  "reset_for_tests = \<lparr>ts_instrumented = False, ts_enabled = False\<rparr>"

text \<open>The first variable that is not empty, stripped.\<close>

definition otel_endpoint :: "os \<Rightarrow> string option" where
  "otel_endpoint s =
     (let a = getenv s ''EGG_OTEL_ENDPOINT'' [];
          endpoint = py_strip (if a \<noteq> [] then a else getenv s ''OTEL_EXPORTER_OTLP_ENDPOINT'' []) in
      if endpoint = [] then None else Some endpoint)"

text \<open>One exporter with its resource, and the application and the HTTP client instrumented with it.\<close>

record installation =
  in_endpoint :: string
  in_resource :: "(string \<times> string) list"

definition installation_for :: "os \<Rightarrow> string \<Rightarrow> installation" where
  "installation_for s endpoint = \<lparr>in_endpoint = endpoint,
     in_resource = [(''service.name'', getenv s ''EGG_OTEL_SERVICE_NAME'' ''egg-api''),
                    (''deployment.environment'', getenv s ''EGG_ENV'' ''development'')]\<rparr>"

definition configure_tracing ::
  "bool \<Rightarrow> os \<Rightarrow> tracing_state \<times> installation list \<Rightarrow> (tracing_state \<times> installation list) \<times> bool"
where
  "configure_tracing importable s w =
     (case w of (st, installed) \<Rightarrow>
        if ts_instrumented st then ((st, installed), ts_enabled st)
        else (case otel_endpoint s of
            None \<Rightarrow> ((st\<lparr>ts_instrumented := True\<rparr>, installed), False)
          | Some endpoint \<Rightarrow>
              if \<not> importable then ((st\<lparr>ts_instrumented := True\<rparr>, installed), False)
              else ((st\<lparr>ts_instrumented := True, ts_enabled := True\<rparr>, installed @ [installation_for s endpoint]), True)))"

text \<open>\<open>format(n, "032x")\<close>: hexadecimal, filled with zeros to the width.\<close>

fun hex_text :: "nat \<Rightarrow> string" where
  "hex_text n = (if n < 16 then [hex_digit n] else hex_text (n div 16) @ [hex_digit (n mod 16)])"

declare hex_text.simps [simp del]

definition hex_padded :: "nat \<Rightarrow> nat \<Rightarrow> string" where
  "hex_padded w n = (let t = hex_text n in replicate (w - length t) (CHR ''0'') @ t)"

record span_context =
  sx_trace_id :: nat
  sx_span_id :: nat
  sx_is_valid :: bool

definition current_trace_and_span_ids :: "bool \<Rightarrow> tracing_state \<Rightarrow> span_context option \<Rightarrow> string option \<times> string option" where
  "current_trace_and_span_ids importable st ctx =
     (if \<not> ts_enabled st \<or> \<not> importable then (None, None)
      else (case ctx of
          None \<Rightarrow> (None, None)
        | Some c \<Rightarrow> if \<not> sx_is_valid c then (None, None)
            else (Some (hex_padded 32 (sx_trace_id c)), Some (hex_padded 16 (sx_span_id c)))))"

definition add_id :: "string \<Rightarrow> string option \<Rightarrow> (string \<times> json) list \<Rightarrow> (string \<times> json) list" where
  "add_id k v event =
     (case v of None \<Rightarrow> event | Some t \<Rightarrow> if t = [] \<or> dict_get event k \<noteq> None then event else dict_set k (JStr t) event)"

definition structlog_tracing_processor :: "bool \<Rightarrow> tracing_state \<Rightarrow> span_context option \<Rightarrow> (string \<times> json) list \<Rightarrow> (string \<times> json) list" where
  "structlog_tracing_processor importable st ctx event =
     (let (trace_id, span_id) = current_trace_and_span_ids importable st ctx in
      add_id ''span_id'' span_id (add_id ''trace_id'' trace_id event))"

section \<open>Logging\<close>

datatype log_argument = NoLevel | LevelName string | LevelNumber int

text \<open>The names of the \<open>logging\<close> module that are in capitals and hold a level (\<^verbatim>\<open>BASIC_FORMAT\<close>, a text, is left out).\<close>

definition log_levels :: "(string \<times> int) list" where
  "log_levels = [(''CRITICAL'', 50), (''FATAL'', 50), (''ERROR'', 40), (''WARNING'', 30), (''WARN'', 30), (''INFO'', 20), (''DEBUG'', 10),
     (''NOTSET'', 0)]"

definition upper_char :: "char \<Rightarrow> char" where
  "upper_char c = (let n = (of_char c :: nat) in if 97 \<le> n \<and> n \<le> 122 then char_of (n - 32) else c)"

definition log_level :: "os \<Rightarrow> log_argument \<Rightarrow> int" where
  "log_level s level =
     (let log_level_name = (case level of LevelName n \<Rightarrow> if n \<noteq> [] then n else getenv s ''EGG_LOG_LEVEL'' ''INFO''
         | _ \<Rightarrow> getenv s ''EGG_LOG_LEVEL'' ''INFO'') in
      case dict_get log_levels (map upper_char log_level_name) of Some n \<Rightarrow> n | None \<Rightarrow> 20)"

text \<open>\<open>None\<close> is the process that has not been configured; \<open>Some n\<close> the level that structlog and the root logger have.\<close>

definition configure_logging :: "os \<Rightarrow> log_argument \<Rightarrow> int option \<Rightarrow> int option" where
  "configure_logging s level configured =
     (case configured of Some n \<Rightarrow> Some n | None \<Rightarrow> Some (log_level s level))"

section \<open>What holds\<close>

text \<open>Whatever happens to the environment, the process is instrumented at most once, and the flag says whether it was.\<close>

definition tracing_inv :: "tracing_state \<times> installation list \<Rightarrow> bool" where
  "tracing_inv w \<longleftrightarrow> (case w of (st, installed) \<Rightarrow>
     length installed = (if ts_enabled st then 1 else 0) \<and> (ts_enabled st \<longrightarrow> ts_instrumented st))"

lemma configure_tracing_inv: "tracing_inv w \<Longrightarrow> tracing_inv (fst (configure_tracing i s w))"
  by (auto simp: tracing_inv_def configure_tracing_def split: prod.splits option.splits if_splits)

lemma instrumented_once:
  "tracing_inv (fold (\<lambda>(i, s) w. fst (configure_tracing i s w)) calls (reset_for_tests, []))"
proof -
  have "tracing_inv (fold (\<lambda>(i, s) w. fst (configure_tracing i s w)) calls w)" if "tracing_inv w" for w
    using that
  proof (induction calls arbitrary: w)
    case (Cons c calls)
    have "tracing_inv (case c of (i, s) \<Rightarrow> fst (configure_tracing i s w))"
      using configure_tracing_inv [OF Cons.prems] by (simp split: prod.split)
    from Cons.IH [OF this] show ?case by (simp add: split_beta)
  qed simp
  moreover have "tracing_inv (reset_for_tests, [])" by (simp add: tracing_inv_def reset_for_tests_def)
  ultimately show ?thesis by blast
qed

text \<open>A second call does nothing and says what the first one did, whatever the environment says by then.\<close>

lemma configure_tracing_again:
  "\<not> (ts_enabled (fst w) \<and> \<not> ts_instrumented (fst w)) \<Longrightarrow> configure_tracing i s w = (w', r) \<Longrightarrow> configure_tracing i' s' w' = (w', r)"
  by (auto simp: configure_tracing_def split: prod.splits option.splits if_splits)

lemma hex_text_length: "n < 16 ^ w \<Longrightarrow> 0 < w \<Longrightarrow> length (hex_text n) \<le> w"
proof (induction n arbitrary: w rule: hex_text.induct)
  case (1 n)
  show ?case
  proof (cases "n < 16")
    case True
    then show ?thesis using "1.prems"(2) by (simp add: hex_text.simps [of n])
  next
    case False
    obtain v where v: "w = Suc v" using "1.prems"(2) by (cases w) auto
    then have "0 < v" using False "1.prems"(1) by (cases v) auto
    note v = v this
    have "n div 16 < 16 ^ v" using "1.prems"(1) v(1) by (simp add: less_mult_imp_div_less mult.commute)
    with "1.IH" False v show ?thesis by (simp add: hex_text.simps [of n])
  qed
qed

text \<open>The two identifiers of a valid span have 32 and 16 digits, and an event keeps what it says already.\<close>

lemma trace_id_width:
  assumes "sx_trace_id c < 2 ^ 128" "sx_span_id c < 2 ^ 64" "current_trace_and_span_ids i st (Some c) = (Some a, Some b)"
  shows "length a = 32 \<and> length b = 16"
proof -
  have "length (hex_text (sx_trace_id c)) \<le> 32" by (rule hex_text_length) (use assms(1) in simp_all)
  moreover have "length (hex_text (sx_span_id c)) \<le> 16" by (rule hex_text_length) (use assms(2) in simp_all)
  ultimately show ?thesis
    using assms(3) by (auto simp: current_trace_and_span_ids_def hex_padded_def Let_def split: if_split_asm)
qed

lemma processor_keeps_event:
  "dict_get event k = Some v \<Longrightarrow> dict_get (structlog_tracing_processor i st ctx event) k = Some v"
  by (auto simp: structlog_tracing_processor_def add_id_def split: prod.split option.split)

lemma processor_off: "\<not> ts_enabled st \<Longrightarrow> structlog_tracing_processor i st ctx event = event"
  by (simp add: structlog_tracing_processor_def current_trace_and_span_ids_def add_id_def)

text \<open>A blank variable of the program hides the standard one, and a numeric level is not looked at.\<close>

lemma blank_endpoint_hides_standard:
  "getenv s ''EGG_OTEL_ENDPOINT'' [] = '' '' \<Longrightarrow> otel_endpoint s = None"
  by (simp add: otel_endpoint_def py_strip_def strip_by_def rstrip_by_def is_space_def)

lemma numeric_level_is_ignored: "log_level s (LevelNumber n) = log_level s NoLevel"
  by (simp add: log_level_def)

lemma configure_logging_once: "configure_logging s' l' (configure_logging s l w) = configure_logging s l w"
  by (cases w) (simp_all add: configure_logging_def)

end
