(* ===== verification/Spec2Isabelle.thy ===== *)
theory Spec2Isabelle
  imports Marc_Correct Scheduler_Thread Oai_Provider Migrations Record_Model Launch Lifespan Telemetry
begin

text \<open>
  A model of EGG-API: a service that publishes the catalogue of a library, museum or archive, held in
  Elasticsearch or OpenSearch, as a public API and an OAI-PMH repository, and that imports catalogue
  files and harvests. The source is Python under \<^verbatim>\<open>app/\<close>; every definition names
  the function it translates by keeping its name, and the text block that opens each theory names its file.

  \<^bold>\<open>Conventions.\<close> Python values are the datatype \<open>json\<close> of \<open>Py_Json\<close> (a float is its text form); strings are
  lists of byte-sized characters; dictionaries are association lists in insertion order (\<open>dict_set\<close>, \<open>dict_get\<close>,
  \<open>dict_pop\<close>). An exception is a value: \<open>app_error\<close> for the program's \<open>AppError\<close>, \<open>py_exc\<close> for any exception, on the left
  of a sum; \<open>bind_r\<close>, \<open>map_r\<close> and \<open>traverse_r\<close> of \<open>Egg_Prelude\<close> sequence them. State is passed explicitly: a handler
  returns the state it leaves even when it raises. A time is the number of microseconds since 1970, or a
  rational number of seconds where the code reads \<open>time.time\<close>. What lies outside the program is a parameter:
  cryptographic hashes, the HTTP transport and its clock and randomness, the XML and YAML parsers, the CSV
  dialect sniffer, text codecs, Pydantic's leaf coercions, the Redis server, the operating system's
  environment and file system, sockets and windows. What the code relies on of them is a named predicate (\<open>incr_lawful\<close>, \<open>models_lawful\<close>,
  \<open>leaves_lawful\<close>, \<open>picks\<close>), instantiated in the witnesses.

  \<^bold>\<open>Python.\<close> \<open>Egg_Prelude\<close> (errors, strings, dictionaries, decimal text), \<open>Py_Json\<close> (\<open>json.dumps\<close>, \<open>json.loads\<close>, a round
  trip), \<open>Py_Base64\<close>, \<open>Py_Int\<close>, \<open>Py_Url\<close>, \<open>Py_Datetime\<close> (ISO timestamps order as their times), \<open>Py_Text\<close>, \<open>Py_Xml\<close>.

  \<^bold>\<open>The query path.\<close> \<open>Config_Models\<close> (\<^verbatim>\<open>config/models.py\<close>) feeds \<open>Query_Policy\<close> (\<^verbatim>\<open>query_policy/engine.py\<close>): \<open>parse_query\<close>
  turns request parameters into a \<open>normalized_query\<close> within the policy or an error that names the first
  violation. \<open>Es_Adapter\<close> (\<^verbatim>\<open>adapters/\<close>) translates it to the search DSL, sends it with bounded retries
  (\<open>request_loop\<close>) and frames bulk writes. \<open>Schema_Mapper\<close> maps a hit to a public record under nine modes.
  \<open>Http_Cache\<close> computes the validators; \<open>Public_Api\<close> composes all of these into the public endpoints;
  \<open>Oai_Provider\<close> is the OAI-PMH face. The properties follow a query through: within policy, translated within policy,
  answered with identified records restricted to the requested fields; a harvest of all pages sees every record.

  \<^bold>\<open>State.\<close> \<open>Store\<close> (\<^verbatim>\<open>storage/sqlite_store.py\<close>): \<open>db\<close> has one list per table; \<open>store_op\<close> and \<open>store_step\<close> make the operations a
  transition system with the invariant \<open>db_inv\<close>. \<open>Migrations\<close> upgrades the schema; \<open>Key_Service\<close> is the life cycle of API
  keys and the two authentication dependencies; \<open>Rate_Limit\<close> has the two limiters, with their contract as the
  locale \<open>request_limiter\<close>, interpreted for the in-memory and the Redis limiter, and the 401 lockout.

  \<^bold>\<open>Imports.\<close> \<open>Ingest\<close> is the chunking loop; \<open>Marc_Import\<close>, \<open>Lido_Import\<close>, \<open>Ead_Import\<close>, \<open>Csv_Import\<close> and \<open>Oai_Import\<close> are the
  parsers (\<open>Marc_Correct\<close>: the splitter against its reference, and the ISO 2709 round trip). \<open>Importers\<close> dispatches; the locales
  \<open>keyed_file_parser\<close> and \<open>keyed_record_parser\<close> state what every parser promises, with nine interpretations.
  \<open>Scheduler\<close> runs due sources and the runs by hand; the locale \<open>epoch_sink\<close> of \<open>Http_Cache\<close>, interpreted for \<open>container_ingest\<close>, ties an
  import to the validators of the public responses.
  \<^bold>\<open>Configuration and start.\<close> \<open>Runtime_Paths\<close> (\<^verbatim>\<open>runtime_paths.py\<close>): where files live, and the two generated keys that every later start
  finds again. \<open>Config_Codec\<close> writes and reads every class of the configuration; \<open>Config_Manager\<close> keeps the file and redacts
  the secrets; \<open>Container\<close> (\<^verbatim>\<open>dependencies.py\<close>) builds the services from a configuration and swaps them on a reload: either
  all of them, or none of them.

  \<^bold>\<open>The admin pages.\<close> \<open>Setup_Wizard\<close> (\<^verbatim>\<open>admin_ui/setup_service.py\<close>): drafts, probes, discovery and the step from a draft to a
  configuration. \<open>Py_Form\<close> is \<open>parse_qs\<close>. \<open>Admin_Site\<close> (\<^verbatim>\<open>admin_ui/auth.py\<close>) has the sessions, the CSRF token and the guards; the
  record \<open>site\<close> is the container with the clock, the random tokens and the peers it reaches. \<open>Admin_Pages\<close> and
  \<open>Admin_Wizard\<close> translate the routes one by one, \<open>Admin_Routes\<close> lists them (\<open>post\<close>, \<open>show_page\<close>) and proves what holds of
  all: a form does nothing without session and token, a page only reads. \<open>Admin_Outcomes\<close> has what a login, a new source
  and a publication leave behind, and the behaviours that contradict their comments.


  \<^bold>\<open>The admin API and the application.\<close> \<open>Admin_Api\<close> (\<^verbatim>\<open>admin_api/\<close>): the endpoints behind the admin key, the export and import of
  the configuration among them. \<open>Http_App\<close> (\<^verbatim>\<open>main.py\<close>, \<^verbatim>\<open>errors.py\<close>): the middlewares in their order, the exception handlers, the
  metrics page and the purge loop, around an application that is a parameter. \<open>Record_Model\<close> (\<^verbatim>\<open>schemas/record.py\<close>): the public
  record, class by class, and what a search therefore answers.

  \<^bold>\<open>Messages and start.\<close> \<open>Catalogue\<close> holds the English and French texts, \<open>User_Messages\<close> (\<^verbatim>\<open>i18n.py\<close>, \<^verbatim>\<open>user_errors.py\<close>,
  \<^verbatim>\<open>landing/routes.py\<close>) the choice of the language, the hints and the landing pages. \<open>Launch\<close> (\<^verbatim>\<open>cli.py\<close>, \<^verbatim>\<open>desktop.py\<close>): the commands
  and the desktop launcher; what a command shows is a list of \<open>effect\<close>. Its properties compose the stored files, the store and the
  container: starting is idempotent, and the link it prints opens the server that is started with what it left.
  \<open>Telemetry\<close> (\<^verbatim>\<open>tracing.py\<close>, \<^verbatim>\<open>logging/\<close>) has the two switches of a process.

  \<^bold>\<open>The scheduler's thread.\<close> \<open>Scheduler_Thread\<close>: \<open>start\<close>, \<open>stop\<close> and the polling loop as the step relation \<open>sched_step\<close> over all threads
  ever started. When a stop waits until the thread has ended, every interleaving is a sequence of ticks (a refinement of the
  relation \<open>one_tick\<close>); when its timeout cuts the wait off, two threads may hold the same source (\<open>cut_off_stop_runs_twice\<close>).
  \<open>Lifespan\<close> (\<open>_lifespan\<close> of \<^verbatim>\<open>main.py\<close>) starts it once, so that within one lifetime of the application this does not happen.
  \<^bold>\<open>Bounds.\<close> The scanner of \<open>json.loads\<close> takes fuel: twice the length of the text is enough (\<open>parse_value_fuel\<close>). A harvest reads at
  most \<open>harvest_max_pages\<close> pages (10000, as in the code) and the model recurses on the pages left; retries recurse on
  the attempts left. Imports ship chunks of \<open>import_chunk_size\<close> (500). All other recursions are structural or have
  a measure; the desktop's wait for its server takes fuel, and 51 attempts are enough (\<open>wait_for_port_returns\<close>).

  \<^bold>\<open>Not modelled.\<close> Threads and locks elsewhere than in \<open>Scheduler_Thread\<close> (each operation is atomic, as the locks and the single
  writer make it); HTML templates beyond the values passed to them; the libraries behind tracing, metrics and logging, and
  the log calls; the help texts of the command line; abstract base classes. Strings are bytes, so behaviour that depends on
  characters beyond Latin-1 is outside the model.
\<close>

end
